(* ===== verification/Prelude.thy ===== *)
theory Prelude
  imports Complex_Main "HOL-Library.Multiset"
begin

text \<open>
  What every component of the development shares: the JavaScript idioms of the sources as HOL
  functions (nullish coalescing, truthiness of strings, insertion-ordered maps and sets, the
  stable sort of \<open>Array.prototype.sort\<close>), the comparator contract as a locale, and the named
  theorem collections the component theories fill.

  Comparators return an integer whose sign decides, as in JavaScript. \<open>js_sort\<close> is the stable
  sort that ECMA-262 fixes for every consistent comparator.
\<close>

named_theorems js_defs \<open>unfoldings of the JavaScript idioms\<close>
named_theorems bounds_intros \<open>numeric bounds of the model's functions\<close>
named_theorems cmp_intros \<open>closure properties of lawful comparators\<close>

section \<open>Nullish values and clamping\<close>

definition nullish :: "'a option \<Rightarrow> 'a \<Rightarrow> 'a" where
  "nullish x d = (case x of None \<Rightarrow> d | Some v \<Rightarrow> v)"

definition orelse :: "'a option \<Rightarrow> 'a option \<Rightarrow> 'a option" where
  "orelse x y = (case x of None \<Rightarrow> y | Some v \<Rightarrow> Some v)"

text \<open>A nullable string in a condition: null and the empty string are both falsy.\<close>

definition truthy :: "string option \<Rightarrow> bool" where
  "truthy s = (case s of None \<Rightarrow> False | Some t \<Rightarrow> t \<noteq> [])"

definition clamp_int :: "int \<Rightarrow> int \<Rightarrow> int \<Rightarrow> int" where
  "clamp_int lo hi x = max lo (min hi x)"

definition positive_or_zero :: "int \<Rightarrow> int" where
  "positive_or_zero x = (if x > 0 then x else 0)"

lemma nullish_simps [simp]: "nullish None d = d" "nullish (Some v) d = v"
  by (simp_all add: nullish_def)

lemma orelse_simps [simp]: "orelse None y = y" "orelse (Some v) y = Some v"
  by (simp_all add: orelse_def)

lemma truthy_simps [simp]: "truthy None = False" "truthy (Some t) = (t \<noteq> [])"
  by (simp_all add: truthy_def)

lemma clamp_int_bounds [bounds_intros]:
  assumes "lo \<le> hi"
  shows "lo \<le> clamp_int lo hi x" and "clamp_int lo hi x \<le> hi"
  using assms by (auto simp: clamp_int_def)

lemma clamp_int_id: "lo \<le> x \<Longrightarrow> x \<le> hi \<Longrightarrow> clamp_int lo hi x = x"
  by (simp add: clamp_int_def)

lemma clamp_int_mono: "x \<le> y \<Longrightarrow> clamp_int lo hi x \<le> clamp_int lo hi y"
  by (auto simp: clamp_int_def)

lemma positive_or_zero_nonneg [simp]: "0 \<le> positive_or_zero x"
  by (simp add: positive_or_zero_def)

lemma positive_or_zero_iff [simp]: "0 < positive_or_zero x \<longleftrightarrow> 0 < x"
  "positive_or_zero x = 0 \<longleftrightarrow> x \<le> 0"
  by (simp_all add: positive_or_zero_def)

lemma positive_or_zero_mono: "x \<le> y \<Longrightarrow> positive_or_zero x \<le> positive_or_zero y"
  by (simp add: positive_or_zero_def)

section \<open>Counting\<close>

text \<open>\<open>xs.filter(p).length\<close>\<close>

definition count_if :: "('a \<Rightarrow> bool) \<Rightarrow> 'a list \<Rightarrow> int" where
  "count_if p xs = int (length (filter p xs))"

lemma count_if_simps [simp]:
  "count_if p [] = 0"
  "count_if p (x # xs) = (if p x then 1 else 0) + count_if p xs"
  "count_if p (xs @ ys) = count_if p xs + count_if p ys"
  by (simp_all add: count_if_def)

lemma count_if_bounds [bounds_intros]:
  "0 \<le> count_if p xs" "count_if p xs \<le> int (length xs)"
  by (simp_all add: count_if_def)

lemma count_if_mono:
  assumes "\<And>x. x \<in> set xs \<Longrightarrow> p x \<Longrightarrow> q x"
  shows "count_if p xs \<le> count_if q xs"
  using assms by (induction xs) auto

lemma count_if_zero_iff: "count_if p xs = 0 \<longleftrightarrow> (\<forall>x \<in> set xs. \<not> p x)"
  by (auto simp: count_if_def filter_empty_conv)

lemma count_if_pos_iff: "0 < count_if p xs \<longleftrightarrow> (\<exists>x \<in> set xs. p x)"
  using count_if_bounds(1) [of p xs] count_if_zero_iff [of p xs] by force

lemma count_if_disjoint:
  assumes "\<And>x. x \<in> set xs \<Longrightarrow> \<not> (p x \<and> q x)"
  shows "count_if p xs + count_if q xs \<le> int (length xs)"
  using assms by (induction xs) auto

section \<open>Insertion-ordered sets and maps\<close>

text \<open>\<open>Array.from(new Set(xs))\<close>: the first occurrence of each value, in order.\<close>

fun js_nub :: "'a list \<Rightarrow> 'a list" where
  "js_nub [] = []"
| "js_nub (x # xs) = x # filter (\<lambda>y. y \<noteq> x) (js_nub xs)"

definition js_set_size :: "'a list \<Rightarrow> int" where
  "js_set_size xs = int (length (js_nub xs))"

lemma set_js_nub [simp]: "set (js_nub xs) = set xs"
  by (induction xs) auto

lemma distinct_js_nub [simp]: "distinct (js_nub xs)"
  by (induction xs) auto

lemma js_set_size_card: "js_set_size xs = int (card (set xs))"
  using distinct_card [of "js_nub xs"] by (simp add: js_set_size_def)

lemma js_set_size_bounds [bounds_intros]: "0 \<le> js_set_size xs" "js_set_size xs \<le> int (length xs)"
  by (simp_all add: js_set_size_card card_length)

text \<open>
  A JavaScript \<open>Map\<close> (or a plain object used as one): an association list in insertion order;
  setting a present key keeps its position.
\<close>

type_synonym ('k, 'v) jmap = "('k \<times> 'v) list"

fun jm_set :: "'k \<Rightarrow> 'v \<Rightarrow> ('k, 'v) jmap \<Rightarrow> ('k, 'v) jmap" where
  "jm_set k v [] = [(k, v)]"
| "jm_set k v ((k', v') # m) = (if k' = k then (k, v) # m else (k', v') # jm_set k v m)"

abbreviation jm_get :: "('k, 'v) jmap \<Rightarrow> 'k \<Rightarrow> 'v option" where
  "jm_get \<equiv> map_of"

abbreviation jm_keys :: "('k, 'v) jmap \<Rightarrow> 'k list" where
  "jm_keys m \<equiv> map fst m"

abbreviation jm_values :: "('k, 'v) jmap \<Rightarrow> 'v list" where
  "jm_values m \<equiv> map snd m"

definition jm_of_list :: "('k \<times> 'v) list \<Rightarrow> ('k, 'v) jmap" where
  "jm_of_list kvs = fold (\<lambda>(k, v). jm_set k v) kvs []"

lemma jm_get_set [simp]: "jm_get (jm_set k v m) = (jm_get m)(k \<mapsto> v)"
  by (induction m) (auto simp: fun_eq_iff)

lemma jm_keys_set: "fst ` set (jm_set k v m) = insert k (fst ` set m)"
  by (induction k v m rule: jm_set.induct) (simp_all add: insert_commute)

lemma distinct_jm_keys_set [simp]:
  "distinct (jm_keys m) \<Longrightarrow> distinct (jm_keys (jm_set k v m))"
proof (induction k v m rule: jm_set.induct)
  case (2 k v k' v' m)
  then show ?case using jm_keys_set [of k v m] by auto
qed simp

lemma jm_set_fresh: "k \<notin> fst ` set m \<Longrightarrow> jm_set k v m = m @ [(k, v)]"
  by (induction k v m rule: jm_set.induct) auto

lemma jm_keys_set_present:
  "k \<in> fst ` set m \<Longrightarrow> jm_keys (jm_set k v m) = jm_keys m"
  by (induction k v m rule: jm_set.induct) (auto split: if_splits)

lemma jm_of_list_get: "jm_get (jm_of_list kvs) k = map_of (rev kvs) k"
proof -
  have "jm_get (fold (\<lambda>(k, v). jm_set k v) kvs m) = jm_get m ++ map_of (rev kvs)" for m
  proof (induction kvs arbitrary: m)
    case (Cons kv kvs)
    obtain a b where "kv = (a, b)" by force
    with Cons [of "jm_set a b m"] show ?case
      by (simp add: map_add_def fun_eq_iff split: option.split)
  qed simp
  then show ?thesis by (simp add: jm_of_list_def)
qed

text \<open>
  Grouping into a \<open>Map\<close> of arrays: \<open>existing = m.get(key) ?? []; existing.push(x); m.set(key,
  existing)\<close> over all elements.
\<close>

definition jm_push :: "'k \<Rightarrow> 'v \<Rightarrow> ('k, 'v list) jmap \<Rightarrow> ('k, 'v list) jmap" where
  "jm_push k x m = jm_set k (nullish (jm_get m k) [] @ [x]) m"

definition jm_group :: "('a \<Rightarrow> 'k) \<Rightarrow> 'a list \<Rightarrow> ('k, 'a list) jmap" where
  "jm_group key xs = fold (\<lambda>x. jm_push (key x) x) xs []"

lemma jm_group_fold_get:
  "jm_get (fold (\<lambda>x. jm_push (key x) x) xs m) k =
     (case filter (\<lambda>x. key x = k) xs of
        [] \<Rightarrow> jm_get m k
      | ys \<Rightarrow> Some (nullish (jm_get m k) [] @ ys))"
  by (induction xs arbitrary: m) (auto simp: jm_push_def nullish_def split: list.splits option.splits)

lemma jm_group_get:
  "jm_get (jm_group key xs) k =
     (case filter (\<lambda>x. key x = k) xs of [] \<Rightarrow> None | ys \<Rightarrow> Some ys)"
  by (simp add: jm_group_def jm_group_fold_get split: list.splits)

lemma distinct_jm_group_keys: "distinct (jm_keys (jm_group key xs))"
proof -
  have "distinct (jm_keys m) \<Longrightarrow> distinct (jm_keys (fold (\<lambda>x. jm_push (key x) x) xs m))" for m
    by (induction xs arbitrary: m) (auto simp: jm_push_def)
  then show ?thesis by (simp add: jm_group_def)
qed

lemma jm_group_bucket:
  assumes "(k, b) \<in> set (jm_group key xs)"
  shows "b = filter (\<lambda>x. key x = k) xs" and "b \<noteq> []"
proof -
  have "jm_get (jm_group key xs) k = Some b"
    using assms distinct_jm_group_keys [of key xs] by (simp add: map_of_eq_Some_iff)
  then show "b = filter (\<lambda>x. key x = k) xs" and "b \<noteq> []"
    by (auto simp: jm_group_get split: list.splits)
qed

lemma jm_group_key_present: "x \<in> set xs \<Longrightarrow> \<exists>b. (key x, b) \<in> set (jm_group key xs) \<and> x \<in> set b"
proof -
  assume x: "x \<in> set xs"
  then have "filter (\<lambda>y. key y = key x) xs \<noteq> []" by (auto simp: filter_empty_conv)
  then have "jm_get (jm_group key xs) (key x) = Some (filter (\<lambda>y. key y = key x) xs)"
    by (auto simp: jm_group_get split: list.splits)
  from map_of_SomeD [OF this] x show ?thesis by auto
qed

section \<open>The stable sort and lawful comparators\<close>

fun js_insert :: "('a \<Rightarrow> 'a \<Rightarrow> int) \<Rightarrow> 'a \<Rightarrow> 'a list \<Rightarrow> 'a list" where
  "js_insert cmp x [] = [x]"
| "js_insert cmp x (y # ys) = (if cmp x y \<le> 0 then x # y # ys else y # js_insert cmp x ys)"

fun js_sort :: "('a \<Rightarrow> 'a \<Rightarrow> int) \<Rightarrow> 'a list \<Rightarrow> 'a list" where
  "js_sort cmp [] = []"
| "js_sort cmp (x # xs) = js_insert cmp x (js_sort cmp xs)"

lemma mset_js_insert [simp]: "mset (js_insert cmp x xs) = add_mset x (mset xs)"
  by (induction xs) auto

lemma mset_js_sort [simp]: "mset (js_sort cmp xs) = mset xs"
  by (induction xs) auto

lemma set_js_insert [simp]: "set (js_insert cmp x xs) = insert x (set xs)"
  by (induction xs) auto

lemma set_js_sort [simp]: "set (js_sort cmp xs) = set xs"
  by (induction xs) auto

lemma length_js_insert [simp]: "length (js_insert cmp x xs) = Suc (length xs)"
  by (induction xs) auto

lemma length_js_sort [simp]: "length (js_sort cmp xs) = length xs"
  by (induction xs) auto

lemma js_sort_Nil_iff [simp]: "js_sort cmp xs = [] \<longleftrightarrow> xs = []"
  by (metis length_0_conv length_js_sort)

lemma js_sort_head: "js_sort cmp xs = y # ys \<Longrightarrow> y \<in> set xs"
  using set_js_sort [of cmp xs] by auto

lemma count_if_js_sort [simp]: "count_if p (js_sort cmp xs) = count_if p xs"
  unfolding count_if_def by (metis mset_filter mset_js_sort size_mset)

locale comparator =
  fixes cmp :: "'a \<Rightarrow> 'a \<Rightarrow> int"
  assumes anti: "sgn (cmp y x) = - sgn (cmp x y)"
    and trans: "cmp x y \<le> 0 \<Longrightarrow> cmp y z \<le> 0 \<Longrightarrow> cmp x z \<le> 0"
begin

lemma refl: "cmp x x = 0"
  using anti [of x x] by (simp add: sgn_if split: if_splits)

lemma total: "cmp x y \<le> 0 \<or> cmp y x \<le> 0"
  using anti [of x y] by (auto simp: sgn_if split: if_splits)

lemma flip_pos: "0 < cmp x y \<longleftrightarrow> cmp y x < 0"
  using anti [of x y] by (auto simp: sgn_if split: if_splits)

lemma flip_zero: "cmp x y = 0 \<longleftrightarrow> cmp y x = 0"
  using anti [of x y] by (auto simp: sgn_if split: if_splits)

lemma eq_cong: "cmp x y = 0 \<Longrightarrow> cmp x z \<le> 0 \<longleftrightarrow> cmp y z \<le> 0"
  using trans [of x y z] trans [of y x z] flip_zero [of x y] by auto

lemma sorted_insert:
  "sorted_wrt (\<lambda>x y. cmp x y \<le> 0) xs \<Longrightarrow> sorted_wrt (\<lambda>x y. cmp x y \<le> 0) (js_insert cmp x xs)"
proof (induction xs)
  case Nil
  then show ?case by simp
next
  case (Cons y ys)
  then show ?case using total [of x y] trans by auto
qed

theorem sorted_sort: "sorted_wrt (\<lambda>x y. cmp x y \<le> 0) (js_sort cmp xs)"
  by (induction xs) (auto intro: sorted_insert)

lemma hd_sort_least:
  assumes "js_sort cmp xs = y # ys" and "x \<in> set xs"
  shows "cmp y x \<le> 0"
proof -
  have "x \<in> set (y # ys)" using assms by (metis set_js_sort)
  then show ?thesis using sorted_sort [of xs] assms(1) refl [of y] by auto
qed

lemma insert_stable:
  "sorted_wrt (\<lambda>x y. cmp x y \<le> 0) xs \<Longrightarrow>
   filter (\<lambda>y. cmp z y = 0) (js_insert cmp x xs) = filter (\<lambda>y. cmp z y = 0) (x # xs)"
proof (induction xs)
  case Nil
  then show ?case by simp
next
  case (Cons y ys)
  show ?case
  proof (cases "cmp x y \<le> 0")
    case True
    then show ?thesis by simp
  next
    case False
    have "\<not> (cmp z x = 0 \<and> cmp z y = 0)"
      using False trans [of x z y] flip_zero [of z x] by auto
    with Cons False show ?thesis by auto
  qed
qed

theorem sort_stable: "filter (\<lambda>y. cmp z y = 0) (js_sort cmp xs) = filter (\<lambda>y. cmp z y = 0) xs"
proof (induction xs)
  case Nil
  then show ?case by simp
next
  case (Cons x xs)
  then show ?case using insert_stable [OF sorted_sort, of z x xs] by simp
qed

end

text \<open>Closure of lawful comparators: keys, reversal, the lexicographic chains of the sources.\<close>

lemma comparatorI:
  assumes "\<And>x y. sgn (cmp y x) = - sgn (cmp x y)"
    and "\<And>x y z. cmp x y \<le> 0 \<Longrightarrow> cmp y z \<le> 0 \<Longrightarrow> cmp x z \<le> 0"
  shows "comparator cmp"
  by (rule comparator.intro) (fact assms)+

lemma comparator_diff [cmp_intros]: "comparator (\<lambda>x y. f x - (f y :: int))"
  by (rule comparatorI) (auto simp: sgn_if)

lemma comparator_key:
  assumes c: "comparator c"
  shows "comparator (\<lambda>x y. c (f x) (f y))"
proof (rule comparatorI)
  fix x y z
  show "sgn (c (f y) (f x)) = - sgn (c (f x) (f y))" by (rule comparator.anti [OF c])
  show "c (f x) (f y) \<le> 0 \<Longrightarrow> c (f y) (f z) \<le> 0 \<Longrightarrow> c (f x) (f z) \<le> 0"
    by (rule comparator.trans [OF c])
qed

lemma comparator_rev:
  assumes c: "comparator c"
  shows "comparator (\<lambda>x y. c y x)"
proof (rule comparatorI)
  fix x y z
  show "sgn (c x y) = - sgn (c y x)" by (rule comparator.anti [OF c])
  show "c y x \<le> 0 \<Longrightarrow> c z y \<le> 0 \<Longrightarrow> c z x \<le> 0" by (rule comparator.trans [OF c])
qed

lemma comparator_lex [cmp_intros]:
  assumes c: "comparator c" and d: "comparator d"
  shows "comparator (\<lambda>x y. if c x y \<noteq> 0 then c x y else d x y)"
proof (rule comparatorI)
  fix x y z
  show "sgn (if c y x \<noteq> 0 then c y x else d y x) = - sgn (if c x y \<noteq> 0 then c x y else d x y)"
  proof (cases "c x y = 0")
    case True
    then have "c y x = 0" by (simp only: comparator.flip_zero [OF c, of y x])
    with True show ?thesis using comparator.anti [OF d, of y x] by simp
  next
    case False
    then have "c y x \<noteq> 0" by (simp only: comparator.flip_zero [OF c, of y x] not_False_eq_True)
    with False show ?thesis using comparator.anti [OF c, of y x] by simp
  qed
  assume xy: "(if c x y \<noteq> 0 then c x y else d x y) \<le> 0"
    and yz: "(if c y z \<noteq> 0 then c y z else d y z) \<le> 0"
  have le: "c x y \<le> 0" "c y z \<le> 0" using xy yz by (auto split: if_splits)
  then have xz: "c x z \<le> 0" by (rule comparator.trans [OF c])
  show "(if c x z \<noteq> 0 then c x z else d x z) \<le> 0"
  proof (cases "c x z = 0")
    case True
    then have zx: "c z x \<le> 0" using comparator.flip_zero [OF c, of x z] by linarith
    have "c y x \<le> 0" by (rule comparator.trans [OF c le(2) zx])
    then have xy0: "c x y = 0" using le(1) comparator.flip_pos [OF c, of y x] by linarith
    have "c z y \<le> 0" by (rule comparator.trans [OF c zx le(1)])
    then have yz0: "c y z = 0" using le(2) comparator.flip_pos [OF c, of z y] by linarith
    from xy xy0 yz yz0 True show ?thesis using comparator.trans [OF d, of x y z] by simp
  next
    case False
    with xz show ?thesis by simp
  qed
qed

text \<open>\<open>left === right ? 0 : left > right ? -1 : 1\<close>, the descending comparator of the bigint sorts.\<close>

definition cmp_desc :: "int \<Rightarrow> int \<Rightarrow> int" where
  "cmp_desc x y = (if x = y then 0 else if x > y then -1 else 1)"

lemma comparator_cmp_desc [cmp_intros]: "comparator cmp_desc"
  by (rule comparatorI) (auto simp: cmp_desc_def split: if_splits)

text \<open>\<open>left.flag !== right.flag ? (left.flag ? -1 : 1)\<close>: flagged elements first.\<close>

definition cmp_flag :: "bool \<Rightarrow> bool \<Rightarrow> int" where
  "cmp_flag x y = (if x = y then 0 else if x then -1 else 1)"

lemma comparator_cmp_flag [cmp_intros]: "comparator cmp_flag"
  by (rule comparatorI) (auto simp: cmp_flag_def split: if_splits)

interpretation desc: comparator cmp_desc
  by (rule comparator_cmp_desc)

interpretation flag_first: comparator cmp_flag
  by (rule comparator_cmp_flag)

end
