(* ===== verification/Js_String.thy ===== *)
theory Js_String
  imports Prelude
begin

text \<open>
  The string operations of the standard library the sources call, on ASCII strings (\<open>char list\<close>):
  \<open>trim\<close>, \<open>toLowerCase\<close>, \<open>slice\<close>, \<open>split\<close>/\<open>join\<close>, number printing, \<open>encodeURIComponent\<close>, the
  \<open>titleCase\<close> helper the services repeat, and \<open>localeCompare\<close>.

  \<open>locale_compare\<close> is the CLDR root collation that Node's ICU uses: strings are compared by the
  primary weights of their characters (whitespace, punctuation, symbols, digits, letters without
  case) and, when these agree, by case, lower case first. Control characters other than white
  space and characters above 127 do not occur in the compared strings (identifiers, timestamps,
  addresses); the model puts them after the letters in code order.
\<close>

section \<open>Characters\<close>

abbreviation code :: "char \<Rightarrow> nat" where
  "code c \<equiv> of_char c"

definition is_upper :: "char \<Rightarrow> bool" where "is_upper c \<longleftrightarrow> 65 \<le> code c \<and> code c \<le> 90"
definition is_lower :: "char \<Rightarrow> bool" where "is_lower c \<longleftrightarrow> 97 \<le> code c \<and> code c \<le> 122"
definition is_digit :: "char \<Rightarrow> bool" where "is_digit c \<longleftrightarrow> 48 \<le> code c \<and> code c \<le> 57"
definition is_space :: "char \<Rightarrow> bool" where "is_space c \<longleftrightarrow> 9 \<le> code c \<and> code c \<le> 13 \<or> code c = 32"

definition to_lower_char :: "char \<Rightarrow> char" where
  "to_lower_char c = (if is_upper c then char_of (code c + 32) else c)"

definition to_upper_char :: "char \<Rightarrow> char" where
  "to_upper_char c = (if is_lower c then char_of (code c - 32) else c)"

section \<open>Strings\<close>

definition js_trim :: "string \<Rightarrow> string" where
  "js_trim s = rev (dropWhile is_space (rev (dropWhile is_space s)))"

definition js_lower :: "string \<Rightarrow> string" where
  "js_lower s = map to_lower_char s"

definition js_starts_with :: "string \<Rightarrow> string \<Rightarrow> bool" where
  "js_starts_with p s \<longleftrightarrow> take (length p) s = p"

definition js_replace_char :: "char \<Rightarrow> char \<Rightarrow> string \<Rightarrow> string" where
  "js_replace_char a b s = map (\<lambda>c. if c = a then b else c) s"

fun js_split :: "char \<Rightarrow> string \<Rightarrow> string list" where
  "js_split d [] = [[]]"
| "js_split d (c # s) = (if c = d then [] # js_split d s
     else (case js_split d s of [] \<Rightarrow> [[c]] | w # ws \<Rightarrow> (c # w) # ws))"

fun js_join :: "string \<Rightarrow> string list \<Rightarrow> string" where
  "js_join sep [] = []"
| "js_join sep [w] = w"
| "js_join sep (w # v # ws) = w @ sep @ js_join sep (v # ws)"

text \<open>\<open>part[0].toUpperCase() + part.slice(1)\<close>\<close>

definition capitalize :: "string \<Rightarrow> string" where
  "capitalize w = (case w of [] \<Rightarrow> [] | c # cs \<Rightarrow> to_upper_char c # cs)"

definition js_title_case :: "string \<Rightarrow> string" where
  "js_title_case s = js_join '' '' (map capitalize
     (filter (\<lambda>w. length w > 0) (js_split (CHR '' '') (js_replace_char (CHR ''_'') (CHR '' '') s))))"

fun show_nat :: "nat \<Rightarrow> string" where
  "show_nat n = (if n < 10 then [char_of (48 + n)] else show_nat (n div 10) @ [char_of (48 + n mod 10)])"

declare show_nat.simps [simp del]

definition show_int :: "int \<Rightarrow> string" where
  "show_int i = (if i < 0 then CHR ''-'' # show_nat (nat (- i)) else show_nat (nat i))"

definition hex_digit :: "nat \<Rightarrow> char" where
  "hex_digit n = char_of (if n < 10 then 48 + n else 55 + n)"

definition uri_unreserved :: "char \<Rightarrow> bool" where
  "uri_unreserved c \<longleftrightarrow> is_upper c \<or> is_lower c \<or> is_digit c \<or>
     code c \<in> {33, 39, 40, 41, 42, 45, 46, 95, 126}"

definition encode_uri_component :: "string \<Rightarrow> string" where
  "encode_uri_component s = concat (map (\<lambda>c. if uri_unreserved c then [c]
     else [CHR ''%'', hex_digit (code c div 16), hex_digit (code c mod 16)]) s)"

subsection \<open>Facts about trimming and casing\<close>

lemma js_lower_char_idem [simp]: "to_lower_char (to_lower_char c) = to_lower_char c"
proof (cases "is_upper c")
  case True
  then have "code (to_lower_char c) = code c + 32" by (simp add: to_lower_char_def is_upper_def)
  with True have "\<not> is_upper (to_lower_char c)" by (simp add: is_upper_def)
  then show ?thesis by (simp add: to_lower_char_def [of "to_lower_char c"])
qed (simp add: to_lower_char_def)

lemma js_lower_idem [simp]: "js_lower (js_lower s) = js_lower s"
  by (simp add: js_lower_def)

lemma js_trim_Nil [simp]: "js_trim [] = []"
  by (simp add: js_trim_def)

lemma js_trim_all_space: "js_trim s = [] \<longleftrightarrow> (\<forall>c \<in> set s. is_space c)"
proof -
  have "js_trim s = [] \<longleftrightarrow> dropWhile is_space s = []"
    by (auto simp: js_trim_def dropWhile_eq_Nil_conv dest: set_dropWhileD)
       (metis dropWhile_eq_Nil_conv hd_dropWhile hd_in_set)
  then show ?thesis by (simp add: dropWhile_eq_Nil_conv)
qed

section \<open>Locale comparison\<close>

definition punctuation_order :: "nat list" where
  "punctuation_order = [9, 10, 11, 12, 13, 32, 95, 45, 44, 59, 58, 33, 63, 46, 39, 34, 40, 41,
     91, 93, 123, 125, 64, 42, 47, 92, 38, 35, 37, 96, 94, 43, 60, 61, 62, 124, 126, 36]"

fun position :: "'a \<Rightarrow> 'a list \<Rightarrow> nat option" where
  "position x [] = None"
| "position x (y # ys) = (if x = y then Some 0 else map_option Suc (position x ys))"

definition primary_weight :: "char \<Rightarrow> int" where
  "primary_weight c =
     (if is_digit c then 100 + int (code c)
      else if is_lower c then 200 + int (code c)
      else if is_upper c then 232 + int (code c)
      else case position (code c) punctuation_order of
             Some i \<Rightarrow> int i
           | None \<Rightarrow> 400 + int (code c))"

definition case_weight :: "char \<Rightarrow> int" where
  "case_weight c = (if is_upper c then 1 else 0)"

fun cmp_list :: "int list \<Rightarrow> int list \<Rightarrow> int" where
  "cmp_list [] [] = 0"
| "cmp_list [] (y # ys) = -1"
| "cmp_list (x # xs) [] = 1"
| "cmp_list (x # xs) (y # ys) = (if x < y then -1 else if y < x then 1 else cmp_list xs ys)"

definition locale_compare :: "string \<Rightarrow> string \<Rightarrow> int" where
  "locale_compare s t =
     (let p = cmp_list (map primary_weight s) (map primary_weight t)
      in if p \<noteq> 0 then p else cmp_list (map case_weight s) (map case_weight t))"

lemma cmp_list_anti: "cmp_list ys xs = - cmp_list xs ys"
  by (induction xs ys rule: cmp_list.induct) auto

lemma cmp_list_trans: "cmp_list xs ys \<le> 0 \<Longrightarrow> cmp_list ys zs \<le> 0 \<Longrightarrow> cmp_list xs zs \<le> 0"
proof (induction xs ys arbitrary: zs rule: cmp_list.induct)
  case (2 y ys)
  then show ?case by (cases zs) auto
next
  case (4 x xs y ys)
  show ?case
  proof (cases zs)
    case Nil
    with 4 show ?thesis by simp
  next
    case (Cons z zs')
    have xy: "x \<le> y" "y \<le> z" using "4.prems" Cons by (auto split: if_splits)
    have "cmp_list xs zs' \<le> 0" if "x = y" "y = z"
      using "4.IH" [of zs'] "4.prems" Cons that by simp
    with xy Cons show ?thesis by auto
  qed
qed simp_all

lemma cmp_list_zero: "cmp_list xs ys = 0 \<longleftrightarrow> xs = ys"
  by (induction xs ys rule: cmp_list.induct) auto

lemma comparator_cmp_list [cmp_intros]: "comparator cmp_list"
proof (rule comparatorI)
  fix xs ys zs
  show "sgn (cmp_list ys xs) = - sgn (cmp_list xs ys)"
    by (subst cmp_list_anti) (simp add: sgn_if)
  show "cmp_list xs ys \<le> 0 \<Longrightarrow> cmp_list ys zs \<le> 0 \<Longrightarrow> cmp_list xs zs \<le> 0"
    by (rule cmp_list_trans)
qed

lemma position_inj: "position x xs = Some i \<Longrightarrow> position y xs = Some i \<Longrightarrow> x = y"
  by (induction xs arbitrary: i) (auto split: if_splits)

lemma position_bound: "position x xs = Some i \<Longrightarrow> i < length xs"
  by (induction xs arbitrary: i) (auto split: if_splits)

lemma primary_position:
  assumes "position n punctuation_order = Some i"
  shows "int i < 38"
  using position_bound [OF assms] by (simp add: punctuation_order_def)

lemma weights_inj:
  assumes "primary_weight c = primary_weight d" and "case_weight c = case_weight d"
  shows "c = d"
proof -
  have "code c = code d"
    using assms position_inj [of "code c" punctuation_order _ "code d"]
    by (auto simp: primary_weight_def case_weight_def is_digit_def is_lower_def is_upper_def
        split: if_splits option.splits dest!: primary_position)
  then show ?thesis by (simp add: of_char_eq_iff)
qed

interpretation locale_order: comparator locale_compare
proof -
  have "comparator (\<lambda>s t. if cmp_list (map primary_weight s) (map primary_weight t) \<noteq> 0
          then cmp_list (map primary_weight s) (map primary_weight t)
          else cmp_list (map case_weight s) (map case_weight t))"
    by (rule comparator_lex) (rule comparator_key [OF comparator_cmp_list])+
  moreover have "locale_compare = (\<lambda>s t. if cmp_list (map primary_weight s) (map primary_weight t) \<noteq> 0
          then cmp_list (map primary_weight s) (map primary_weight t)
          else cmp_list (map case_weight s) (map case_weight t))"
    by (simp add: fun_eq_iff locale_compare_def Let_def)
  ultimately show "comparator locale_compare" by (simp only:)
qed

lemma comparator_locale_compare [cmp_intros]: "comparator locale_compare"
  by (rule locale_order.comparator_axioms)

lemma locale_compare_zero [simp]: "locale_compare s t = 0 \<longleftrightarrow> s = t"
proof
  assume "locale_compare s t = 0"
  then have p: "map primary_weight s = map primary_weight t"
    and q: "map case_weight s = map case_weight t"
    by (auto simp: locale_compare_def Let_def cmp_list_zero split: if_splits)
  have len: "length s = length t" using p by (rule map_eq_imp_length_eq)
  have "s ! i = t ! i" if i: "i < length s" for i
  proof (rule weights_inj)
    show "primary_weight (s ! i) = primary_weight (t ! i)"
      using arg_cong [OF p, of "\<lambda>xs. xs ! i"] i len by simp
    show "case_weight (s ! i) = case_weight (t ! i)"
      using arg_cong [OF q, of "\<lambda>xs. xs ! i"] i len by simp
  qed
  with len show "s = t" by (rule nth_equalityI)
qed (simp add: locale_order.refl)

end
