(* ===== verification/Js_Date.thy ===== *)
theory Js_Date
  imports Js_String
begin

text \<open>
  Dates. Every timestamp of the views is written by \<open>Date.prototype.toISOString\<close>, so the model
  reads and writes exactly that format, \<open>YYYY-MM-DDTHH:mm:ss.sssZ\<close> with years 0 to 9999;
  \<open>date_time\<close> is \<open>new Date(value).getTime()\<close> with \<open>None\<close> for NaN, \<open>iso_string\<close> is
  \<open>new Date(ms).toISOString()\<close>. The calendar is the proleptic Gregorian one, counted in
  400-year eras from 1 March of year 0.
\<close>

definition days_from_civil :: "int \<Rightarrow> int \<Rightarrow> int \<Rightarrow> int" where
  "days_from_civil y m d =
     (let y' = (if m \<le> 2 then y - 1 else y); era = y' div 400; yoe = y' mod 400;
          doy = (153 * (if m > 2 then m - 3 else m + 9) + 2) div 5 + d - 1;
          doe = yoe * 365 + yoe div 4 - yoe div 100 + doy
      in era * 146097 + doe - 719468)"

definition civil_from_days :: "int \<Rightarrow> int \<times> int \<times> int" where
  "civil_from_days z0 =
     (let z = z0 + 719468; era = z div 146097; doe = z mod 146097;
          yoe = (doe - doe div 1460 + doe div 36524 - doe div 146096) div 365;
          doy = doe - (365 * yoe + yoe div 4 - yoe div 100);
          mp = (5 * doy + 2) div 153; d = doy - (153 * mp + 2) div 5 + 1;
          m = (if mp < 10 then mp + 3 else mp - 9)
      in (yoe + era * 400 + (if m \<le> 2 then 1 else 0), m, d))"

definition is_leap :: "int \<Rightarrow> bool" where
  "is_leap y \<longleftrightarrow> y mod 4 = 0 \<and> (y mod 100 \<noteq> 0 \<or> y mod 400 = 0)"

definition days_in_month :: "int \<Rightarrow> int \<Rightarrow> int" where
  "days_in_month y m = (if m = 2 then (if is_leap y then 29 else 28)
     else if m = 4 \<or> m = 6 \<or> m = 9 \<or> m = 11 then 30 else 31)"

definition digits_value :: "string \<Rightarrow> int option" where
  "digits_value s = (if s \<noteq> [] \<and> list_all is_digit s
     then Some (fold (\<lambda>c n. n * 10 + (int (code c) - 48)) s 0) else None)"

text \<open>The field of length \<open>n\<close> at offset \<open>i\<close>, as a number.\<close>

definition field_at :: "nat \<Rightarrow> nat \<Rightarrow> string \<Rightarrow> int option" where
  "field_at i n s = digits_value (take n (drop i s))"

definition iso_shape :: "string \<Rightarrow> bool" where
  "iso_shape s \<longleftrightarrow> length s = 24 \<and> s ! 4 = CHR ''-'' \<and> s ! 7 = CHR ''-'' \<and> s ! 10 = CHR ''T'' \<and>
     s ! 13 = CHR '':'' \<and> s ! 16 = CHR '':'' \<and> s ! 19 = CHR ''.'' \<and> s ! 23 = CHR ''Z''"

definition date_time :: "string \<Rightarrow> int option" where
  "date_time s = (if \<not> iso_shape s then None else
     (case (field_at 0 4 s, field_at 5 2 s, field_at 8 2 s, field_at 11 2 s, field_at 14 2 s,
            field_at 17 2 s, field_at 20 3 s) of
        (Some y, Some mo, Some d, Some h, Some mi, Some sec, Some ms) \<Rightarrow>
          if 1 \<le> mo \<and> mo \<le> 12 \<and> 1 \<le> d \<and> d \<le> days_in_month y mo \<and> h \<le> 23 \<and> mi \<le> 59 \<and> sec \<le> 59
          then Some ((((days_from_civil y mo d * 24 + h) * 60 + mi) * 60 + sec) * 1000 + ms)
          else None
      | _ \<Rightarrow> None))"

definition pad_left :: "nat \<Rightarrow> char \<Rightarrow> string \<Rightarrow> string" where
  "pad_left n c s = replicate (n - length s) c @ s"

definition show_padded :: "nat \<Rightarrow> int \<Rightarrow> string" where
  "show_padded n i = pad_left n (CHR ''0'') (show_int i)"

definition iso_string :: "int \<Rightarrow> string" where
  "iso_string t =
     (let days = t div 86400000; r = t mod 86400000
      in case civil_from_days days of (y, m, d) \<Rightarrow>
        show_padded 4 y @ ''-'' @ show_padded 2 m @ ''-'' @ show_padded 2 d @ ''T'' @
        show_padded 2 (r div 3600000) @ '':'' @ show_padded 2 (r div 60000 mod 60) @ '':'' @
        show_padded 2 (r div 1000 mod 60) @ ''.'' @ show_padded 3 (r mod 1000) @ ''Z'')"

text \<open>
  The helper \<open>latestTimestamp\<close> of the services: the latest parseable timestamp, printed again.
\<close>

definition latest_timestamp :: "string option list \<Rightarrow> string option" where
  "latest_timestamp values =
     (case js_sort (\<lambda>left right. right - left)
             (List.map_filter date_time
               (List.map_filter (\<lambda>v. case v of Some s \<Rightarrow> if length s > 0 then Some s else None | None \<Rightarrow> None)
                 values)) of
        [] \<Rightarrow> None
      | t # _ \<Rightarrow> Some (iso_string t))"

end
