(* ===== verification/Js_Number.thy ===== *)
theory Js_Number
  imports Prelude "HOL-Library.Log_Nat"
begin

text \<open>
  The arithmetic of JavaScript numbers the sources use. A number is an IEEE 754 double; its value
  is a rational, and every operation whose exact result need not be a double rounds it to the
  nearest one (ties to even), which is \<open>fl\<close>. Only the normal range is modelled: no value of the
  modelled code is NaN, infinite or smaller in magnitude than \<open>2 powi (-1022)\<close> without being 0.
  Integer-valued numbers stay below \<open>2 ^ 53\<close>, where doubles are exact, and are \<open>int\<close> in the model.

  \<open>Math.round\<close> rounds to the nearest integer, ties towards plus infinity. The main lemma is
  \<open>js_round_div\<close>: rounding the double quotient of two moderate integers gives the same integer
  as rounding the exact quotient, so that \<open>Math.round((a * b) / 10_000)\<close> is integer arithmetic.
\<close>

section \<open>Round to nearest, ties to even\<close>

definition rne :: "rat \<Rightarrow> int" where
  "rne y = (let f = \<lfloor>y\<rfloor>; d = y - of_int f
            in if d < 1/2 then f else if d > 1/2 then f + 1 else if even f then f else f + 1)"

lemma rne_of_int [simp]: "rne (of_int k) = k"
  by (simp add: rne_def)

lemma rne_error: "\<bar>of_int (rne y) - y\<bar> \<le> 1/2"
proof -
  define d where "d = y - of_int \<lfloor>y\<rfloor>"
  have d: "0 \<le> d" "d < 1" unfolding d_def by linarith+
  have y: "y = of_int \<lfloor>y\<rfloor> + d" by (simp add: d_def)
  have "rne y = \<lfloor>y\<rfloor> \<and> d \<le> 1/2 \<or> rne y = \<lfloor>y\<rfloor> + 1 \<and> 1/2 \<le> d"
    unfolding rne_def Let_def d_def [symmetric] by auto
  then show ?thesis using d by (subst (2) y) (auto simp: abs_le_iff)
qed

text \<open>\<open>ilog2 x\<close> is the exponent of the leading bit of a positive rational.\<close>

definition pow2 :: "int \<Rightarrow> rat" where
  "pow2 e = (if 0 \<le> e then 2 ^ nat e else 1 / 2 ^ nat (- e))"

definition ilog2 :: "rat \<Rightarrow> int" where
  "ilog2 x = (let (p, q) = quotient_of x; k = bitlen p - bitlen q
              in if pow2 k \<le> x then k else k - 1)"

definition fl_exp :: "rat \<Rightarrow> int" where
  "fl_exp x = ilog2 x - 52"

definition fl_pos :: "rat \<Rightarrow> rat" where
  "fl_pos x = of_int (rne (x * pow2 (- fl_exp x))) * pow2 (fl_exp x)"

definition fl :: "rat \<Rightarrow> rat" where
  "fl x = (if x = 0 then 0 else if 0 < x then fl_pos x else - fl_pos (- x))"

subsection \<open>Powers of two\<close>

lemma pow2_powi: "pow2 e = 2 powi e"
  by (simp add: pow2_def power_int_def inverse_eq_divide power_one_over)

lemma pow2_pos [simp]: "0 < pow2 e"
  by (simp add: pow2_def)

lemma pow2_nonneg [simp]: "0 \<le> pow2 e"
  by (rule less_imp_le) simp

lemma pow2_nonzero [simp]: "pow2 e \<noteq> 0"
  using pow2_pos [of e] by linarith

lemma pow2_add: "pow2 (a + b) = pow2 a * pow2 b"
  by (simp add: pow2_powi power_int_add)

lemma pow2_0 [simp]: "pow2 0 = 1"
  by (simp add: pow2_def)

lemma pow2_minus: "pow2 (- e) * pow2 e = 1"
  by (simp flip: pow2_add)

lemma pow2_mono: "a \<le> b \<Longrightarrow> pow2 a \<le> pow2 b"
  by (simp add: pow2_powi power_int_increasing)

lemma pow2_less_imp: "pow2 a < pow2 b \<Longrightarrow> a < b"
  using pow2_mono [of b a] by (meson linorder_not_le)

lemma pow2_nat: "0 \<le> e \<Longrightarrow> pow2 e = of_int (2 ^ nat e)"
  by (simp add: pow2_def)

subsection \<open>The leading exponent\<close>

lemma bitlen_pow2_bounds:
  assumes "0 < p"
  shows "pow2 (bitlen p - 1) \<le> of_int p" and "of_int p < pow2 (bitlen p)"
proof -
  have b: "2 ^ nat (bitlen p - 1) \<le> p \<and> p < 2 ^ nat (bitlen p)"
    by (rule bitlen_bounds [OF assms])
  have "0 \<le> bitlen p - 1" using assms by (metis bitlen_nonneg bitlen_eq_zero_iff diff_ge_0_iff_ge
      int_one_le_iff_zero_less less_le not_less)
  with b show "pow2 (bitlen p - 1) \<le> of_int p"
    by (simp only: pow2_nat of_int_le_iff)
  show "of_int p < pow2 (bitlen p)"
    using b bitlen_nonneg [of p] by (simp only: pow2_nat of_int_less_iff)
qed

lemma ilog2_bounds:
  assumes "0 < x"
  shows "pow2 (ilog2 x) \<le> x" and "x < pow2 (ilog2 x + 1)"
proof -
  obtain p q where pq: "quotient_of x = (p, q)" by force
  have q: "0 < q" by (rule quotient_of_denom_pos [OF pq])
  have x: "x = of_int p / of_int q" by (rule quotient_of_div [OF pq])
  have p: "0 < p" using assms q by (simp add: x zero_less_divide_iff)
  let ?k = "bitlen p - bitlen q"
  note bp = bitlen_pow2_bounds [OF p] and bq = bitlen_pow2_bounds [OF q]
  have up: "x < pow2 (?k + 1)"
  proof -
    have "of_int p < pow2 (bitlen p)" by (rule bp(2))
    also have "\<dots> = pow2 (?k + 1) * pow2 (bitlen q - 1)" by (simp flip: pow2_add)
    also have "\<dots> \<le> pow2 (?k + 1) * of_int q" using bq(1) by (intro mult_left_mono) simp_all
    finally show ?thesis using q by (simp add: x divide_less_eq)
  qed
  have low: "pow2 (?k - 1) \<le> x"
  proof -
    have "pow2 (?k - 1) * of_int q \<le> pow2 (?k - 1) * pow2 (bitlen q)"
      using bq(2) by (intro mult_left_mono) simp_all
    also have "\<dots> = pow2 (bitlen p - 1)" by (simp flip: pow2_add)
    also have "\<dots> \<le> of_int p" by (rule bp(1))
    finally show ?thesis using q by (simp add: x le_divide_eq)
  qed
  show "pow2 (ilog2 x) \<le> x" "x < pow2 (ilog2 x + 1)"
    using up low by (auto simp: ilog2_def pq Let_def)
qed

subsection \<open>Relative error and exactness\<close>

lemma fl_pos_error:
  assumes "0 < x"
  shows "\<bar>fl_pos x - x\<bar> \<le> x / 2 ^ 53"
proof -
  let ?e = "fl_exp x" and ?y = "x * pow2 (- fl_exp x)"
  have x: "x = ?y * pow2 ?e" by (simp add: mult.assoc pow2_minus)
  have "fl_pos x - x = (of_int (rne ?y) - ?y) * pow2 ?e"
    by (subst (2) x) (simp add: fl_pos_def left_diff_distrib)
  then have "\<bar>fl_pos x - x\<bar> = \<bar>of_int (rne ?y) - ?y\<bar> * pow2 ?e"
    by (simp add: abs_mult)
  also have "\<dots> \<le> 1/2 * pow2 ?e"
    by (intro mult_right_mono rne_error) simp
  also have "\<dots> = pow2 (ilog2 x) / 2 ^ 53"
  proof -
    have "pow2 (ilog2 x) = pow2 ?e * pow2 52" by (simp add: fl_exp_def flip: pow2_add)
    moreover have "pow2 52 = 2 ^ 52" by (simp add: pow2_def)
    ultimately show ?thesis by simp
  qed
  also have "\<dots> \<le> x / 2 ^ 53"
    using ilog2_bounds(1) [OF assms] by (intro divide_right_mono) simp_all
  finally show ?thesis .
qed

lemma fl_pos_nonneg: "0 < x \<Longrightarrow> 0 \<le> fl_pos x"
proof -
  assume "0 < x"
  then have "0 \<le> x * pow2 (- fl_exp x)" by simp
  then have "0 \<le> rne (x * pow2 (- fl_exp x))" by (simp add: rne_def Let_def)
  then show ?thesis by (simp add: fl_pos_def)
qed

lemma fl_error: "\<bar>fl x - x\<bar> \<le> \<bar>x\<bar> / 2 ^ 53"
proof (cases "0 \<le> x")
  case True
  then show ?thesis using fl_pos_error [of x] by (auto simp: fl_def)
next
  case False
  then have "fl x - x = - (fl_pos (- x) - (- x))" by (simp add: fl_def)
  then have "\<bar>fl x - x\<bar> = \<bar>fl_pos (- x) - (- x)\<bar>" by (simp only: abs_minus_cancel)
  with False show ?thesis using fl_pos_error [of "- x"] by simp
qed

lemma fl_pos_exact:
  assumes "0 < x" and x: "x = of_int k * pow2 j" and k: "\<bar>k\<bar> < 2 ^ 53"
  shows "fl_pos x = x"
proof -
  have "pow2 (ilog2 x) \<le> x" by (rule ilog2_bounds [OF assms(1)])
  also have "x < pow2 53 * pow2 j"
  proof -
    have "(of_int k :: rat) < of_int (2 ^ 53)" using k by (simp only: of_int_less_iff)
    also have "\<dots> = pow2 53" by (simp add: pow2_def)
    finally show ?thesis by (simp add: x)
  qed
  finally have "ilog2 x < 53 + j" by (intro pow2_less_imp) (simp add: pow2_add)
  then have le: "0 \<le> j - fl_exp x" by (simp add: fl_exp_def)
  have "x * pow2 (- fl_exp x) = of_int k * pow2 (j - fl_exp x)"
    by (simp add: x mult.assoc flip: pow2_add)
  also have "\<dots> = of_int (k * 2 ^ nat (j - fl_exp x))"
    using le by (simp add: pow2_def)
  finally have *: "x * pow2 (- fl_exp x) = of_int (k * 2 ^ nat (j - fl_exp x))" .
  have "fl_pos x = x * pow2 (- fl_exp x) * pow2 (fl_exp x)"
    unfolding fl_pos_def by (subst *) (simp only: rne_of_int *)
  then show ?thesis by (simp add: mult.assoc pow2_minus)
qed

lemma fl_exact:
  assumes "x = of_int k * pow2 j" and "\<bar>k\<bar> < 2 ^ 53"
  shows "fl x = x"
proof (cases "0 \<le> x")
  case True
  then show ?thesis using fl_pos_exact [OF _ assms] by (auto simp: fl_def)
next
  case False
  have "- x = of_int (- k) * pow2 j" using assms(1) by simp
  then show ?thesis using fl_pos_exact [of "- x" "- k" j] assms(2) False by (simp add: fl_def)
qed

lemma fl_of_int: "\<bar>k\<bar> < 2 ^ 53 \<Longrightarrow> fl (of_int k) = of_int k"
  by (rule fl_exact [of _ k 0]) simp_all

lemma fl_half: "\<bar>k\<bar> < 2 ^ 53 \<Longrightarrow> fl (of_int k / 2) = of_int k / 2"
  by (rule fl_exact [of _ k "- 1"]) (simp_all add: pow2_def)

lemma fl_0 [simp]: "fl 0 = 0"
  by (simp add: fl_def)

lemma fl_nonneg: "0 \<le> x \<Longrightarrow> 0 \<le> fl x"
  by (simp add: fl_def fl_pos_nonneg)

section \<open>Operations on numbers\<close>

definition num_add :: "rat \<Rightarrow> rat \<Rightarrow> rat" where "num_add x y = fl (x + y)"
definition num_sub :: "rat \<Rightarrow> rat \<Rightarrow> rat" where "num_sub x y = fl (x - y)"
definition num_mul :: "rat \<Rightarrow> rat \<Rightarrow> rat" where "num_mul x y = fl (x * y)"
definition num_div :: "rat \<Rightarrow> rat \<Rightarrow> rat" where "num_div x y = fl (x / y)"

text \<open>The quotient of two integer-valued numbers, and \<open>Math.round\<close>, \<open>Math.floor\<close>.\<close>

definition int_div :: "int \<Rightarrow> int \<Rightarrow> rat" where
  "int_div a b = fl (of_int a / of_int b)"

definition js_round :: "rat \<Rightarrow> int" where
  "js_round x = \<lfloor>x + 1/2\<rfloor>"

definition js_floor :: "rat \<Rightarrow> int" where
  "js_floor x = \<lfloor>x\<rfloor>"

lemma js_round_of_int [simp]: "js_round (of_int k) = k"
  by (simp add: js_round_def floor_eq_iff)

lemma js_round_mono: "x \<le> y \<Longrightarrow> js_round x \<le> js_round y"
  by (simp add: js_round_def floor_mono)

lemma js_round_nonneg: "0 \<le> x \<Longrightarrow> 0 \<le> js_round x"
  by (simp add: js_round_def)

definition round_div :: "int \<Rightarrow> int \<Rightarrow> int" where
  "round_div a b = (2 * a + b) div (2 * b)"

lemma round_div_eq_floor:
  assumes "0 < b"
  shows "round_div a b = \<lfloor>(of_int a / of_int b :: rat) + 1/2\<rfloor>"
proof -
  have "(of_int a / of_int b :: rat) + 1/2 = of_int (2 * a + b) / of_int (2 * b)"
    using assms by (simp add: add_divide_distrib)
  then show ?thesis by (simp only: round_div_def floor_divide_of_int_eq)
qed

lemma round_div_mono: "a \<le> a' \<Longrightarrow> 0 < b \<Longrightarrow> round_div a b \<le> round_div a' b"
  by (simp add: round_div_def zdiv_mono1)

lemma round_div_self [simp]: "0 < b \<Longrightarrow> round_div (b * k) b = k"
  using round_div_eq_floor [of b "b * k"] by (simp add: floor_eq_iff)

lemma round_div_nonneg: "0 \<le> a \<Longrightarrow> 0 < b \<Longrightarrow> 0 \<le> round_div a b"
  by (simp add: round_div_def div_int_pos_iff)

lemma round_div_le: "a \<le> b * k \<Longrightarrow> 0 < b \<Longrightarrow> round_div a b \<le> k"
  using round_div_mono [of a "b * k" b] by simp

text \<open>
  The double quotient rounds like the exact one: below a tie the error of the division is too small
  to reach it, and a tie itself is a half-integer, which is a double.
\<close>

lemma js_round_fl_quotient:
  assumes "0 \<le> a" and a: "a < 2 ^ 50" and "0 < b"
  shows "js_round (fl (of_int a / of_int b)) = round_div a b"
proof -
  define x :: rat where "x = of_int a / of_int b"
  define n where "n = round_div a b"
  have b: "(0::rat) < of_int b" using assms by simp
  have x0: "0 \<le> x" using assms by (simp add: x_def)
  have n: "of_int n \<le> x + 1/2" "x + 1/2 < of_int n + 1"
    using round_div_eq_floor [OF \<open>0 < b\<close>, of a] by (simp_all add: n_def x_def) linarith+
  have xa: "x * of_int b = of_int a" using b by (simp add: x_def)
  have err: "\<bar>fl x - x\<bar> * (2 * of_int b) < 1"
  proof -
    have "\<bar>fl x - x\<bar> * (2 * of_int b) \<le> x / 2 ^ 53 * (2 * of_int b)"
      using fl_error [of x] x0 b by (intro mult_right_mono) simp_all
    also have "\<dots> = of_int (2 * a) / 2 ^ 53" using xa by simp
    also have "(of_int (2 * a) :: rat) / 2 ^ 53 < 1"
    proof -
      have "2 * a < 2 ^ 53" using a by simp
      then have "(of_int (2 * a) :: rat) < of_int (2 ^ 53)" by (simp only: of_int_less_iff)
      then show ?thesis by simp
    qed
    finally show ?thesis .
  qed
  define k where "k = 2 * n - 1"
  have tie: "of_int k / 2 = (of_int n - 1/2 :: rat)" by (simp add: k_def)
  have nb: "0 \<le> n" "n \<le> a + 1" 
    using assms round_div_nonneg [of a b] round_div_le [of a b "a + 1"] mult_right_mono [of 1 b a]
    by (simp_all add: n_def distrib_left)
  have "of_int n \<le> fl x + 1/2"
  proof (cases "x = of_int n - 1/2")
    case True
    have "\<bar>k\<bar> < 2 ^ 53" using nb a by (simp add: k_def)
    then have "fl x = x" using fl_half [of k] True by (simp add: tie)
    with True show ?thesis by simp
  next
    case False
    with n have "0 < x - (of_int n - 1/2)" by simp
    then have "0 < (x - (of_int n - 1/2)) * (2 * of_int b)" using b by simp
    also have "\<dots> = of_int (2 * a + b - 2 * n * b)" using xa by (simp add: algebra_simps)
    finally have "0 < 2 * a + b - 2 * n * b" by (simp only: of_int_0_less_iff)
    then have "(1::rat) \<le> of_int (2 * a + b - 2 * n * b)" by (simp only: of_int_1_le_iff)
    also have "\<dots> = (x - (of_int n - 1/2)) * (2 * of_int b)" using xa by (simp add: algebra_simps)
    finally have "1 \<le> (x - (of_int n - 1/2)) * (2 * of_int b)" .
    with err have "\<bar>fl x - x\<bar> * (2 * of_int b) < (x - (of_int n - 1/2)) * (2 * of_int b)" by linarith
    then have "\<bar>fl x - x\<bar> < x - (of_int n - 1/2)" using b by simp
    then show ?thesis by linarith
  qed
  moreover have "fl x + 1/2 < of_int n + 1"
  proof -
    have "0 < (of_int n + 1/2 - x) * (2 * of_int b)" using n b by simp
    also have "\<dots> = of_int (2 * n * b + b - 2 * a)" using xa by (simp add: algebra_simps)
    finally have "0 < 2 * n * b + b - 2 * a" by (simp only: of_int_0_less_iff)
    then have "(1::rat) \<le> of_int (2 * n * b + b - 2 * a)" by (simp only: of_int_1_le_iff)
    also have "\<dots> = (of_int n + 1/2 - x) * (2 * of_int b)" using xa by (simp add: algebra_simps)
    finally have "\<bar>fl x - x\<bar> * (2 * of_int b) < (of_int n + 1/2 - x) * (2 * of_int b)"
      using err by linarith
    then have "\<bar>fl x - x\<bar> < of_int n + 1/2 - x" using b by simp
    then show ?thesis by linarith
  qed
  ultimately show ?thesis by (simp add: js_round_def x_def n_def floor_eq_iff)
qed

lemma js_round_div: "0 \<le> a \<Longrightarrow> a < 2 ^ 50 \<Longrightarrow> 0 < b \<Longrightarrow> js_round (int_div a b) = round_div a b"
  by (simp add: int_div_def js_round_fl_quotient)

end
