(* ===== verification/View_Types.thy ===== *)
theory View_Types
  imports Js_Date Js_Number
begin

text \<open>
  The read models the services exchange: the chain projections of \<open>shared/read-model.ts\<close>, the
  review layer of \<open>review/types.ts\<close> and the job and task views of \<open>coordinator/store.ts\<close>, as
  records and datatypes with the fields of the sources (each prefixed by its record). Identifiers
  and timestamps are strings, nullable fields are options, wei amounts (decimal strings the code
  reads with \<open>BigInt\<close>) are \<open>int\<close>, \<open>Record<string, unknown>\<close> payloads are \<open>json\<close> values.
\<close>

datatype json = JNull | JBool bool | JNum rat | JStr string | JArr "json list"
  | JObj "(string \<times> json) list"

section \<open>Chain projections\<close>

record claim_view =
  cv_claimId :: string
  cv_author :: string
  cv_domainId :: int
  cv_metadataHash :: string
  cv_resolutionModule :: string
  cv_status :: int
  cv_revisionOfClaimId :: "string option"
  cv_createdAtBlock :: int

record artifact_view =
  av_artifactId :: string
  av_claimId :: string
  av_artifactType :: int
  av_contentDigest :: string
  av_uri :: string
  av_submitter :: string

record replication_view =
  rv_replicationId :: string
  rv_claimId :: string
  rv_replicator :: string
  rv_agentId :: string
  rv_resultHash :: string
  rv_outcome :: "int option"
  rv_resolutionStatus :: "int option"
  rv_confidenceBps :: "int option"
  rv_resolverType :: "int option"
  rv_resolutionHash :: "string option"
  rv_evidenceHash :: "string option"
  rv_evidenceURI :: "string option"

record forecast_view =
  fv_forecastId :: string
  fv_claimId :: string
  fv_forecaster :: string
  fv_agentId :: string
  fv_commitmentHash :: string
  fv_stakeAmount :: int
  fv_committedAt :: int
  fv_revealDeadline :: int
  fv_revealed :: bool
  fv_settled :: bool
  fv_direction :: int
  fv_confidenceBps :: int
  fv_effectiveDecisionIdAtCommit :: "string option"
  fv_resolutionDecisionId :: "string option"
  fv_finalStatus :: "int option"
  fv_matched :: "bool option"
  fv_payoutAmount :: "int option"

record challenge_view =
  hv_challengeId :: string
  hv_claimId :: string
  hv_replicationId :: string
  hv_challenger :: string
  hv_agentId :: string
  hv_evidenceHash :: string
  hv_evidenceURI :: string
  hv_bondAmount :: int
  hv_status :: int
  hv_resolutionHash :: "string option"
  hv_createdAt :: int
  hv_resolvedAt :: "int option"
  hv_payoutAmount :: "int option"
  hv_refundedAmount :: "int option"

section \<open>The review layer\<close>

datatype review_task_type =
    Artifact_completeness_check | Artifact_integrity_check | Benchmark_rerun_check
  | Certification_synthesis_check | Claim_extraction_check | Claim_extraction_synthesis_check
  | Contradiction_scan | Method_consistency_check | Replication_readiness_check
  | Stats_sanity_check

fun show_review_task_type :: "review_task_type \<Rightarrow> string" where
  "show_review_task_type Artifact_completeness_check = ''artifact_completeness_check''"
| "show_review_task_type Artifact_integrity_check = ''artifact_integrity_check''"
| "show_review_task_type Benchmark_rerun_check = ''benchmark_rerun_check''"
| "show_review_task_type Certification_synthesis_check = ''certification_synthesis_check''"
| "show_review_task_type Claim_extraction_check = ''claim_extraction_check''"
| "show_review_task_type Claim_extraction_synthesis_check = ''claim_extraction_synthesis_check''"
| "show_review_task_type Contradiction_scan = ''contradiction_scan''"
| "show_review_task_type Method_consistency_check = ''method_consistency_check''"
| "show_review_task_type Replication_readiness_check = ''replication_readiness_check''"
| "show_review_task_type Stats_sanity_check = ''stats_sanity_check''"

datatype review_subject_type = Subject_claim | Subject_source_record
datatype review_task_status = RT_canceled | RT_completed | RT_escalated | RT_open
datatype run_status = Run_completed | Run_failed | Run_running
datatype review_verdict = Verdict_fail | Verdict_flag | Verdict_inconclusive | Verdict_pass
datatype issue_severity = Sev_critical | Sev_high | Sev_low | Sev_medium
datatype issue_status = Issue_dismissed | Issue_open | Issue_resolved | Issue_responded

fun show_verdict :: "review_verdict \<Rightarrow> string" where
  "show_verdict Verdict_fail = ''fail''"
| "show_verdict Verdict_flag = ''flag''"
| "show_verdict Verdict_inconclusive = ''inconclusive''"
| "show_verdict Verdict_pass = ''pass''"

datatype review_dimension =
    ArtifactCompleteness | ArtifactIntegrity | CertificationReadiness | ChallengePressure
  | ContradictionPressure | ForecastSupport | MethodConsistency | ReplicationSupport
  | ReproducibilityReadiness | ReviewCoverage | ReviewDiversity | ReviewFreshness
  | StatisticalSanity

definition review_dimensions :: "review_dimension list" where
  "review_dimensions = [ArtifactCompleteness, ArtifactIntegrity, CertificationReadiness,
     ChallengePressure, ContradictionPressure, ForecastSupport, MethodConsistency,
     ReplicationSupport, ReproducibilityReadiness, ReviewCoverage, ReviewDiversity,
     ReviewFreshness, StatisticalSanity]"

lemma review_dimensions_complete: "d \<in> set review_dimensions"
  by (cases d) (simp_all add: review_dimensions_def)

record consensus_policy =
  cp_maxSubmissions :: int
  cp_minSubmissions :: int
  cp_requireDistinctAgents :: bool

record review_task =
  rt_claimId :: "string option"
  rt_completedAt :: "string option"
  rt_consensusPolicy :: consensus_policy
  rt_createdAt :: string
  rt_failureReason :: "string option"
  rt_inputArtifactKeys :: "string list"
  rt_requestedBy :: string
  rt_requiredCapabilities :: "string list"
  rt_resultArtifactKey :: "string option"
  rt_schemaVersion :: string
  rt_scopeKey :: string
  rt_sourceId :: "string option"
  rt_subjectId :: string
  rt_subjectType :: review_subject_type
  rt_status :: review_task_status
  rt_taskId :: string
  rt_taskType :: review_task_type
  rt_updatedAt :: string

record review_task_run =
  rr_agentId :: "string option"
  rr_failureReason :: "string option"
  rr_finishedAt :: "string option"
  rr_lastHeartbeatAt :: "string option"
  rr_runId :: string
  rr_startedAt :: string
  rr_status :: run_status
  rr_taskId :: string
  rr_workerId :: string

record review_submission =
  rs_claimId :: "string option"
  rs_confidenceBps :: int
  rs_createdAt :: string
  rs_dimensions :: "review_dimension \<Rightarrow> int option"
  rs_evidenceArtifactKey :: "string option"
  rs_payload :: "(string \<times> json) list"
  rs_resultArtifactKey :: "string option"
  rs_reviewType :: review_task_type
  rs_reviewerActor :: string
  rs_reviewerAgentId :: "string option"
  rs_runId :: "string option"
  rs_schemaVersion :: string
  rs_sourceId :: "string option"
  rs_submissionId :: string
  rs_taskId :: string
  rs_verdict :: review_verdict

record review_issue =
  ri_artifactAnchor :: "(string \<times> json) list"
  ri_category :: string
  ri_createdAt :: string
  ri_issueId :: string
  ri_status :: issue_status
  ri_severity :: issue_severity
  ri_submissionId :: string
  ri_summary :: string
  ri_updatedAt :: string

record review_author_response =
  ra_claimId :: string
  ra_createdAt :: string
  ra_issueIds :: "string list"
  ra_responderActor :: string
  ra_responseArtifactKey :: string
  ra_responseId :: string
  ra_summary :: string

section \<open>Replication jobs and artifact maintenance\<close>

datatype job_status = Job_assigned | Job_completed | Job_failed | Job_open
datatype maintenance_task_type = Maint_audit | Maint_repair

fun show_maintenance_task_type :: "maintenance_task_type \<Rightarrow> string" where
  "show_maintenance_task_type Maint_audit = ''audit''"
| "show_maintenance_task_type Maint_repair = ''repair''"

record replication_job =
  jv_assignedAgentId :: "string option"
  jv_assignedAt :: "string option"
  jv_assignedWorker :: "string option"
  jv_claimId :: string
  jv_completedAt :: "string option"
  jv_createdAt :: string
  jv_evidenceHash :: "string option"
  jv_evidenceURI :: "string option"
  jv_failureReason :: "string option"
  jv_jobId :: string
  jv_onchainReplicationId :: "string option"
  jv_requestedBy :: string
  jv_requestId :: "string option"
  jv_resultArtifactKey :: "string option"
  jv_resultHash :: "string option"
  jv_specHash :: string
  jv_specURI :: "string option"
  jv_status :: job_status
  jv_submissionActor :: "string option"
  jv_submissionTxHash :: "string option"
  jv_submittedAt :: "string option"
  jv_updatedAt :: string

record replication_job_run =
  jr_agentId :: "string option"
  jr_evidenceHash :: "string option"
  jr_evidenceURI :: "string option"
  jr_executionManifestHash :: "string option"
  jr_failureReason :: "string option"
  jr_finishedAt :: "string option"
  jr_jobId :: string
  jr_lastHeartbeatAt :: "string option"
  jr_requestId :: "string option"
  jr_resultArtifactKey :: "string option"
  jr_resultHash :: "string option"
  jr_runId :: string
  jr_startedAt :: string
  jr_status :: run_status
  jr_submissionTxHash :: "string option"
  jr_workerId :: string

record maintenance_task =
  mt_artifactKey :: string
  mt_assignedAgentId :: "string option"
  mt_assignedAt :: "string option"
  mt_assignedWorker :: "string option"
  mt_completedAt :: "string option"
  mt_createdAt :: string
  mt_failureReason :: "string option"
  mt_repairLocator :: "string option"
  mt_repairSourceReplicaKey :: "string option"
  mt_requestedBy :: string
  mt_resultArtifactKey :: "string option"
  mt_status :: job_status
  mt_targetProvider :: "string option"
  mt_targetReplicaKey :: "string option"
  mt_taskId :: string
  mt_taskType :: maintenance_task_type
  mt_updatedAt :: string

record maintenance_task_run =
  mr_agentId :: "string option"
  mr_failureReason :: "string option"
  mr_finishedAt :: "string option"
  mr_lastHeartbeatAt :: "string option"
  mr_runId :: string
  mr_startedAt :: string
  mr_status :: run_status
  mr_summaryArtifactKey :: "string option"
  mr_taskId :: string
  mr_workerId :: string

end
