(* ===== verification/Work_Types.thy ===== *)
theory Work_Types
  imports View_Types
begin

text \<open>
  The claim work graph's data model (\<open>work/types.ts\<close>). A work item is built in stages: its base,
  then its orchestration, routing and scheduling views. The sources type the stages with
  \<open>Omit<ClaimWorkItemView, \<dots>>\<close>; here each stage is a record that extends the one before.
\<close>

datatype work_item_kind = Artifact_maintenance | Replication_job | Review_task
datatype work_lane = Lane_evaluation | Lane_execution | Lane_maintenance | Lane_synthesis
datatype work_status = WS_canceled | WS_completed | WS_escalated | WS_failed | WS_leased | WS_open
datatype subject_type = ST_claim | ST_claim_artifact | ST_persisted_artifact | ST_source_record
datatype edge_relation = Attaches | Evaluates | Input | Maintains | Produces | Reruns

datatype work_source_type = Src_maintenance maintenance_task_type | Src_review review_task_type
  | Src_replication_job

datatype agent_request_action =
    Artifact_task_audit_submission | Artifact_task_claim | Artifact_task_heartbeat
  | Artifact_task_repair_submission | Replication_job_claim | Replication_job_heartbeat
  | Replication_job_submission | Source_discovery_submission | Webhook_subscription_create
  | Webhook_subscription_delete | Webhook_subscription_ping | Review_task_heartbeat
  | Review_task_claim | Review_task_submission

record work_policy =
  wp_maxContributors :: "int option"
  wp_minContributors :: "int option"
  wp_requireDistinctAgents :: bool
  wp_requiredCapabilities :: "string list"

datatype orchestration_action = Act_claim | Act_closed | Act_complete | Act_escalate
  | Act_reassign | Act_wait

record work_orchestration =
  wo_activeRunCount :: int
  wo_attemptCount :: int
  wo_canClaim :: bool
  wo_canReassign :: bool
  wo_completedRunCount :: int
  wo_contributorsNeeded :: int
  wo_distinctContributorCount :: int
  wo_distinctContributorShortfall :: int
  wo_failedRunCount :: int
  wo_minimumContributorsNeeded :: int
  wo_minimumSatisfied :: bool
  wo_recommendedAction :: orchestration_action
  wo_remainingContributorSlots :: "int option"
  wo_requiresDistinctContributors :: bool
  wo_shouldEscalate :: bool
  wo_statusReason :: string
  wo_successfulContributionCount :: int
  wo_targetContributorsNeeded :: int
  wo_targetSatisfied :: bool
  wo_timedOutRunCount :: int

datatype routing_tier = Tier_critical | Tier_high | Tier_hold | Tier_low | Tier_normal

record work_routing =
  wr_blockedByOpenWork :: bool
  wr_priorityBps :: int
  wr_rationale :: "string list"
  wr_tier :: routing_tier

datatype scheduling_strategy = Strat_distinct | Strat_parallel | Strat_single | Strat_synthesis

record work_scheduling =
  wc_autoClaimable :: bool
  wc_blocker :: "string option"
  wc_blockingItemIds :: "string list"
  wc_desiredAdditionalClaims :: int
  wc_needsMinimumCoverage :: bool
  wc_needsRedundantCoverage :: bool
  wc_prefersFreshContributor :: bool
  wc_reassignmentPreferred :: bool
  wc_reason :: string
  wc_strategy :: scheduling_strategy
  wc_unresolvedDependencyCount :: int

record work_subject =
  ws_href :: "string option"
  ws_label :: string
  ws_subjectId :: string
  ws_subjectType :: subject_type

record work_run =
  run_agentId :: "string option"
  run_failureReason :: "string option"
  run_finishedAt :: "string option"
  run_lastHeartbeatAt :: "string option"
  run_runId :: string
  run_startedAt :: string
  run_status :: run_status
  run_workerId :: string

datatype result_type = Artifact_report | Replication_result | Review_submission_result

record work_result =
  res_artifactKey :: "string option"
  res_confidenceBps :: "int option"
  res_createdAt :: "string option"
  res_label :: string
  res_summary :: string
  res_type :: result_type
  res_verdict :: "string option"

record agent_actions =
  aa_claim :: "agent_request_action option"
  aa_heartbeat :: "agent_request_action option"
  aa_submit :: "agent_request_action list"

record work_item_base =
  wi_activeRun :: "work_run option"
  wi_agentActions :: agent_actions
  wi_claimId :: "string option"
  wi_completedAt :: "string option"
  wi_createdAt :: string
  wi_description :: string
  wi_itemId :: string
  wi_kind :: work_item_kind
  wi_lane :: work_lane
  wi_policy :: "work_policy option"
  wi_relatedArtifactKeys :: "string list"
  wi_result :: "work_result option"
  wi_runs :: "work_run list"
  wi_scopeKey :: "string option"
  wi_sourceType :: work_source_type
  wi_status :: work_status
  wi_subjectId :: string
  wi_title :: string
  wi_updatedAt :: "string option"

record orchestrated_item = work_item_base +
  wi_orchestration :: work_orchestration

record routed_item = orchestrated_item +
  wi_routing :: work_routing

record work_item = routed_item +
  wi_scheduling :: work_scheduling

record work_edge =
  we_fromId :: string
  we_relation :: edge_relation
  we_toId :: string

record work_graph_summary =
  gs_activeLeases :: int
  gs_autoClaimableItems :: int
  gs_completedItems :: int
  gs_dependencyBlockedItems :: int
  gs_failedItems :: int
  gs_freshContributorItems :: int
  gs_latestActivityAt :: "string option"
  gs_minimumCoverageItems :: int
  gs_openItems :: int
  gs_participatingAgents :: int
  gs_reassignmentReadyItems :: int
  gs_redundancyTargetItems :: int
  gs_totalItems :: int
  gs_uncoveredDemand :: int
  gs_lanes :: "work_lane \<Rightarrow> int"

record claim_work_graph =
  cg_claimId :: string
  cg_edges :: "work_edge list"
  cg_items :: "work_item list"
  cg_subjects :: "work_subject list"
  cg_summary :: work_graph_summary

end
