(* ===== verification/Work_Policy.thy ===== *)
theory Work_Policy
  imports Work_Types
begin

text \<open>
  \<open>work/policy.ts\<close>: the consensus policy and required capabilities of each review task type, the
  lane of a task, the contributor policy of a work item and the signed agent actions it takes.
\<close>

definition default_review_consensus_policy_const :: consensus_policy where
  "default_review_consensus_policy_const =
     \<lparr>cp_maxSubmissions = 1, cp_minSubmissions = 1, cp_requireDistinctAgents = False\<rparr>"

fun defaultReviewConsensusPolicy :: "review_task_type \<Rightarrow> consensus_policy" where
  "defaultReviewConsensusPolicy Certification_synthesis_check = default_review_consensus_policy_const"
| "defaultReviewConsensusPolicy Claim_extraction_synthesis_check = default_review_consensus_policy_const"
| "defaultReviewConsensusPolicy Benchmark_rerun_check = default_review_consensus_policy_const"
| "defaultReviewConsensusPolicy Claim_extraction_check =
     \<lparr>cp_maxSubmissions = 4, cp_minSubmissions = 2, cp_requireDistinctAgents = True\<rparr>"
| "defaultReviewConsensusPolicy Contradiction_scan =
     \<lparr>cp_maxSubmissions = 3, cp_minSubmissions = 2, cp_requireDistinctAgents = True\<rparr>"
| "defaultReviewConsensusPolicy Method_consistency_check =
     \<lparr>cp_maxSubmissions = 3, cp_minSubmissions = 2, cp_requireDistinctAgents = True\<rparr>"
| "defaultReviewConsensusPolicy Stats_sanity_check =
     \<lparr>cp_maxSubmissions = 3, cp_minSubmissions = 2, cp_requireDistinctAgents = True\<rparr>"
| "defaultReviewConsensusPolicy _ =
     \<lparr>cp_maxSubmissions = 2, cp_minSubmissions = 2, cp_requireDistinctAgents = True\<rparr>"

fun requiredCapabilitiesForReviewTask :: "review_task_type \<Rightarrow> string list" where
  "requiredCapabilitiesForReviewTask Artifact_completeness_check = [''artifact-access'', ''content-integrity'']"
| "requiredCapabilitiesForReviewTask Artifact_integrity_check = [''artifact-access'', ''content-integrity'']"
| "requiredCapabilitiesForReviewTask Benchmark_rerun_check = [''execution'', ''benchmark-rerun'']"
| "requiredCapabilitiesForReviewTask Claim_extraction_check = [''claim-extraction'', ''literature-scan'']"
| "requiredCapabilitiesForReviewTask Claim_extraction_synthesis_check = [''claim-synthesis'']"
| "requiredCapabilitiesForReviewTask Contradiction_scan = [''literature-scan'', ''claim-comparison'']"
| "requiredCapabilitiesForReviewTask Method_consistency_check = [''method-analysis'']"
| "requiredCapabilitiesForReviewTask Replication_readiness_check = [''artifact-analysis'', ''execution-readiness'']"
| "requiredCapabilitiesForReviewTask Stats_sanity_check = [''statistics'']"
| "requiredCapabilitiesForReviewTask Certification_synthesis_check = [''claim-aggregation'']"

fun requiredCapabilitiesForArtifactMaintenanceTask :: "maintenance_task_type \<Rightarrow> string list" where
  "requiredCapabilitiesForArtifactMaintenanceTask t =
     (if t = Maint_repair then [''artifact-repair''] else [''artifact-audit''])"

definition requiredCapabilitiesForReplicationJob :: "replication_job \<Rightarrow> string list" where
  "requiredCapabilitiesForReplicationJob job = [''execution'']"

definition laneForReviewTask :: "review_task_type \<Rightarrow> work_lane" where
  "laneForReviewTask t =
     (if t = Certification_synthesis_check \<or> t = Claim_extraction_synthesis_check then Lane_synthesis
      else if t = Benchmark_rerun_check then Lane_execution
      else Lane_evaluation)"

definition buildReviewWorkPolicy :: "review_task \<Rightarrow> work_policy option" where
  "buildReviewWorkPolicy task = Some
     \<lparr>wp_maxContributors = Some (cp_maxSubmissions (rt_consensusPolicy task)),
      wp_minContributors = Some (cp_minSubmissions (rt_consensusPolicy task)),
      wp_requireDistinctAgents = cp_requireDistinctAgents (rt_consensusPolicy task),
      wp_requiredCapabilities = rt_requiredCapabilities task\<rparr>"

definition buildArtifactMaintenanceWorkPolicy :: "maintenance_task \<Rightarrow> work_policy option" where
  "buildArtifactMaintenanceWorkPolicy task = Some
     \<lparr>wp_maxContributors = Some 1, wp_minContributors = Some 1, wp_requireDistinctAgents = False,
      wp_requiredCapabilities = requiredCapabilitiesForArtifactMaintenanceTask (mt_taskType task)\<rparr>"

definition buildReplicationWorkPolicy :: "replication_job \<Rightarrow> work_policy option" where
  "buildReplicationWorkPolicy job = Some
     \<lparr>wp_maxContributors = Some 1, wp_minContributors = Some 1, wp_requireDistinctAgents = False,
      wp_requiredCapabilities = requiredCapabilitiesForReplicationJob job\<rparr>"

text \<open>
  The three kinds of the sources are the whole of \<open>work_item_kind\<close>, so the final
  \<open>emptyAgentActions()\<close> of the code is unreachable here as there.
\<close>

fun agentActionsForWorkItem :: "work_item_kind \<Rightarrow> work_source_type \<Rightarrow> agent_actions" where
  "agentActionsForWorkItem Review_task src =
     \<lparr>aa_claim = Some Review_task_claim, aa_heartbeat = Some Review_task_heartbeat,
      aa_submit = [Review_task_submission]\<rparr>"
| "agentActionsForWorkItem Artifact_maintenance src =
     \<lparr>aa_claim = Some Artifact_task_claim, aa_heartbeat = Some Artifact_task_heartbeat,
      aa_submit = [if src = Src_maintenance Maint_repair then Artifact_task_repair_submission
                   else Artifact_task_audit_submission]\<rparr>"
| "agentActionsForWorkItem Replication_job src =
     \<lparr>aa_claim = Some Replication_job_claim, aa_heartbeat = Some Replication_job_heartbeat,
      aa_submit = [Replication_job_submission]\<rparr>"

section \<open>Well-formed policies\<close>

definition policy_wf :: "work_policy option \<Rightarrow> bool" where
  "policy_wf p \<longleftrightarrow> (case p of None \<Rightarrow> True | Some w \<Rightarrow>
     0 \<le> nullish (wp_minContributors w) 0 \<and>
     (case wp_maxContributors w of None \<Rightarrow> True | Some mx \<Rightarrow> nullish (wp_minContributors w) 0 \<le> mx))"

definition consensus_wf :: "consensus_policy \<Rightarrow> bool" where
  "consensus_wf p \<longleftrightarrow> 1 \<le> cp_minSubmissions p \<and> cp_minSubmissions p \<le> cp_maxSubmissions p"

lemma default_consensus_wf: "consensus_wf (defaultReviewConsensusPolicy t)"
  by (cases t) (simp_all add: consensus_wf_def default_review_consensus_policy_const_def)

lemma built_policies_wf:
  "consensus_wf (rt_consensusPolicy task) \<Longrightarrow> policy_wf (buildReviewWorkPolicy task)"
  "policy_wf (buildArtifactMaintenanceWorkPolicy mtask)"
  "policy_wf (buildReplicationWorkPolicy job)"
  by (simp_all add: policy_wf_def consensus_wf_def buildReviewWorkPolicy_def
      buildArtifactMaintenanceWorkPolicy_def buildReplicationWorkPolicy_def)

end
