(* ===== verification/Work_Orchestration.thy ===== *)
theory Work_Orchestration
  imports Work_Policy
begin

text \<open>
  \<open>work/orchestration.ts\<close>: from the runs, the contributor policy and the status of a work item,
  how many contributions it still needs, whether it can be claimed or reassigned, and what the
  runtime should do next. \<open>deriveClaimWorkOrchestration\<close> keeps the source's chain of returns.
\<close>

record orchestration_input =
  oi_agentActions :: agent_actions
  oi_kind :: work_item_kind
  oi_lane :: work_lane
  oi_policy :: "work_policy option"
  oi_runs :: "work_run list"
  oi_status :: work_status
  oi_successfulContributorAgentIds :: "string list"
  oi_successfulContributionCount :: int

definition escalationThresholdForWorkItem :: "orchestration_input \<Rightarrow> int" where
  "escalationThresholdForWorkItem inp =
     (if oi_kind inp = Artifact_maintenance then 2
      else if oi_lane inp = Lane_synthesis then 1
      else 2)"

definition distinctContributorCount :: "string list \<Rightarrow> int" where
  "distinctContributorCount ids = js_set_size (filter (\<lambda>i. length i > 0) (map js_trim ids))"

fun closedRecommendationForStatus :: "work_status \<Rightarrow> orchestration_action option" where
  "closedRecommendationForStatus s =
     (if s = WS_completed then Some Act_complete
      else if s = WS_failed \<or> s = WS_canceled then Some Act_closed
      else if s = WS_escalated then Some Act_escalate
      else None)"

fun statusReasonFromClosedState :: "work_status \<Rightarrow> string option" where
  "statusReasonFromClosedState WS_completed = Some ''work item reached a terminal completed state''"
| "statusReasonFromClosedState WS_failed = Some ''work item reached a terminal failed state''"
| "statusReasonFromClosedState WS_canceled = Some ''work item was canceled and is no longer claimable''"
| "statusReasonFromClosedState WS_escalated =
     Some ''work item has been escalated for manual or higher-trust handling''"
| "statusReasonFromClosedState _ = None"

text \<open>The statuses of runs, counted.\<close>

definition activeRunCount :: "work_run list \<Rightarrow> int" where
  "activeRunCount runs = count_if (\<lambda>r. run_status r = Run_running) runs"

definition completedRunCount :: "work_run list \<Rightarrow> int" where
  "completedRunCount runs = count_if (\<lambda>r. run_status r = Run_completed) runs"

definition failedRunCount :: "work_run list \<Rightarrow> int" where
  "failedRunCount runs = count_if (\<lambda>r. run_status r = Run_failed) runs"

definition timedOutRunCount :: "work_run list \<Rightarrow> int" where
  "timedOutRunCount runs = count_if (\<lambda>r. run_failureReason r = Some ''heartbeat_timeout'')
     (filter (\<lambda>r. run_status r = Run_failed) runs)"

definition reassignReason :: "bool \<Rightarrow> bool \<Rightarrow> int \<Rightarrow> int \<Rightarrow> string" where
  "reassignReason minimumSatisfied requiresDistinct shortfall targetNeeded =
     (if \<not> minimumSatisfied \<and> requiresDistinct \<and> shortfall > 0
      then ''previous runs ended without enough distinct contributors and the item can be reassigned''
      else if \<not> minimumSatisfied
      then ''previous runs ended without enough successful contributions and the item can be reassigned''
      else if requiresDistinct \<and> targetNeeded > 0
      then ''minimum corroboration is satisfied, but a fresh distinct contributor is still useful before this work item is considered well-covered''
      else ''minimum corroboration is satisfied, but another corroborating contribution is still useful before this work item is considered well-covered'')"

definition claimReason :: "bool \<Rightarrow> bool \<Rightarrow> int \<Rightarrow> int \<Rightarrow> string" where
  "claimReason minimumSatisfied requiresDistinct shortfall targetNeeded =
     (if \<not> minimumSatisfied \<and> requiresDistinct \<and> shortfall > 0
      then ''item is open and still needs additional distinct contributors''
      else if \<not> minimumSatisfied
      then ''item is open and still needs additional contributions''
      else if requiresDistinct \<and> targetNeeded > 0
      then ''item reached its minimum threshold but can still accept another distinct corroborating contribution''
      else if targetNeeded > 0
      then ''item reached its minimum threshold but can still accept another corroborating contribution''
      else ''item is open and can accept more contributions'')"

text \<open>
  The quantities the source computes before its first return; every later return copies them and
  only chooses \<open>canClaim\<close>, \<open>canReassign\<close>, the recommended action and the reason.
\<close>

definition orchestrationFacts :: "orchestration_input \<Rightarrow> work_orchestration" where
  "orchestrationFacts inp =
    (let active = activeRunCount (oi_runs inp);
         failed = failedRunCount (oi_runs inp);
         timedOut = timedOutRunCount (oi_runs inp);
         minContributors = (case oi_policy inp of None \<Rightarrow> 0 | Some p \<Rightarrow> nullish (wp_minContributors p) 0);
         maxContributors = Option.bind (oi_policy inp) wp_maxContributors;
         targetContributors = nullish maxContributors minContributors;
         requiresDistinct = (case oi_policy inp of None \<Rightarrow> False | Some p \<Rightarrow> wp_requireDistinctAgents p);
         successes = oi_successfulContributionCount inp;
         distinctCount = distinctContributorCount (oi_successfulContributorAgentIds inp);
         shortfall = (if requiresDistinct then positive_or_zero (minContributors - distinctCount) else 0);
         minimumNeeded = (if requiresDistinct then shortfall
                          else positive_or_zero (minContributors - successes));
         targetNeeded = (if requiresDistinct then positive_or_zero (targetContributors - distinctCount)
                         else positive_or_zero (targetContributors - successes));
         remainingSlots = map_option (\<lambda>mx. positive_or_zero (mx - successes - active)) maxContributors;
         claimActionAvailable = (aa_claim (oi_agentActions inp) \<noteq> None);
         canClaim = (oi_status inp = WS_open \<and> claimActionAvailable \<and>
                     (case remainingSlots of None \<Rightarrow> True | Some n \<Rightarrow> n > 0));
         canReassign = (oi_status inp = WS_open \<and> active = 0 \<and> failed > 0 \<and> canClaim \<and> targetNeeded > 0);
         threshold = escalationThresholdForWorkItem inp;
         shouldEscalate = (oi_status inp = WS_escalated \<or>
           (oi_status inp = WS_open \<and> active = 0 \<and> minimumNeeded > 0 \<and>
            (timedOut \<ge> threshold \<or> failed \<ge> threshold + 1)))
     in \<lparr>wo_activeRunCount = active, wo_attemptCount = int (length (oi_runs inp)),
         wo_canClaim = canClaim, wo_canReassign = canReassign,
         wo_completedRunCount = completedRunCount (oi_runs inp),
         wo_contributorsNeeded = minimumNeeded, wo_distinctContributorCount = distinctCount,
         wo_distinctContributorShortfall = shortfall, wo_failedRunCount = failed,
         wo_minimumContributorsNeeded = minimumNeeded, wo_minimumSatisfied = (minimumNeeded = 0),
         wo_recommendedAction = Act_wait, wo_remainingContributorSlots = remainingSlots,
         wo_requiresDistinctContributors = requiresDistinct, wo_shouldEscalate = shouldEscalate,
         wo_statusReason = [], wo_successfulContributionCount = successes,
         wo_targetContributorsNeeded = targetNeeded, wo_targetSatisfied = (targetNeeded = 0),
         wo_timedOutRunCount = timedOut\<rparr>)"

definition deriveClaimWorkOrchestration :: "orchestration_input \<Rightarrow> work_orchestration" where
  "deriveClaimWorkOrchestration inp =
    (let f = orchestrationFacts inp in
     case closedRecommendationForStatus (oi_status inp) of
       Some closedAction \<Rightarrow>
         f\<lparr>wo_canClaim := False, wo_canReassign := False, wo_recommendedAction := closedAction,
           wo_statusReason := nullish (statusReasonFromClosedState (oi_status inp))
                                ''work item is not claimable''\<rparr>
     | None \<Rightarrow>
         if wo_shouldEscalate f then
           f\<lparr>wo_recommendedAction := Act_escalate, wo_statusReason :=
             ''item exhausted its current retry path without enough successful contributions''\<rparr>
         else if wo_activeRunCount f > 0 \<or> oi_status inp = WS_leased then
           f\<lparr>wo_canReassign := False, wo_recommendedAction := Act_wait,
             wo_statusReason := ''work is currently leased to an active agent run''\<rparr>
         else if wo_canReassign f then
           f\<lparr>wo_recommendedAction := Act_reassign, wo_statusReason :=
             reassignReason (wo_minimumSatisfied f) (wo_requiresDistinctContributors f)
               (wo_distinctContributorShortfall f) (wo_targetContributorsNeeded f)\<rparr>
         else if wo_canClaim f then
           f\<lparr>wo_recommendedAction := Act_claim, wo_statusReason :=
             claimReason (wo_minimumSatisfied f) (wo_requiresDistinctContributors f)
               (wo_distinctContributorShortfall f) (wo_targetContributorsNeeded f)\<rparr>
         else
           f\<lparr>wo_recommendedAction := Act_wait,
             wo_statusReason := ''item is open but currently has no available contributor slots''\<rparr>)"

section \<open>Field equations\<close>

text \<open>
  The view's fields, one equation each. They replace the definition in all later proofs, so that
  no proof unfolds the chain of returns again.
\<close>

abbreviation orch :: "orchestration_input \<Rightarrow> work_orchestration" where
  "orch \<equiv> deriveClaimWorkOrchestration"

definition policy_min :: "work_policy option \<Rightarrow> int" where
  "policy_min p = (case p of None \<Rightarrow> 0 | Some w \<Rightarrow> nullish (wp_minContributors w) 0)"

definition policy_max :: "work_policy option \<Rightarrow> int option" where
  "policy_max p = Option.bind p wp_maxContributors"

definition policy_distinct :: "work_policy option \<Rightarrow> bool" where
  "policy_distinct p = (case p of None \<Rightarrow> False | Some w \<Rightarrow> wp_requireDistinctAgents w)"

text \<open>What counts towards the policy: distinct agents if the policy asks for them.\<close>

definition counted_contributions :: "orchestration_input \<Rightarrow> int" where
  "counted_contributions inp =
     (if policy_distinct (oi_policy inp)
      then distinctContributorCount (oi_successfulContributorAgentIds inp)
      else oi_successfulContributionCount inp)"

lemma facts_counts:
  "wo_activeRunCount (orchestrationFacts inp) = activeRunCount (oi_runs inp)"
  "wo_attemptCount (orchestrationFacts inp) = int (length (oi_runs inp))"
  "wo_completedRunCount (orchestrationFacts inp) = completedRunCount (oi_runs inp)"
  "wo_failedRunCount (orchestrationFacts inp) = failedRunCount (oi_runs inp)"
  "wo_timedOutRunCount (orchestrationFacts inp) = timedOutRunCount (oi_runs inp)"
  "wo_successfulContributionCount (orchestrationFacts inp) = oi_successfulContributionCount inp"
  "wo_distinctContributorCount (orchestrationFacts inp) =
     distinctContributorCount (oi_successfulContributorAgentIds inp)"
  "wo_requiresDistinctContributors (orchestrationFacts inp) = policy_distinct (oi_policy inp)"
  by (simp_all add: orchestrationFacts_def Let_def policy_distinct_def)

lemma facts_needed:
  "wo_minimumContributorsNeeded (orchestrationFacts inp) =
     positive_or_zero (policy_min (oi_policy inp) - counted_contributions inp)"
  "wo_contributorsNeeded (orchestrationFacts inp) =
     positive_or_zero (policy_min (oi_policy inp) - counted_contributions inp)"
  "wo_targetContributorsNeeded (orchestrationFacts inp) = positive_or_zero
     (nullish (policy_max (oi_policy inp)) (policy_min (oi_policy inp)) - counted_contributions inp)"
  "wo_distinctContributorShortfall (orchestrationFacts inp) =
     (if policy_distinct (oi_policy inp)
      then positive_or_zero (policy_min (oi_policy inp) - counted_contributions inp) else 0)"
  by (simp_all add: orchestrationFacts_def Let_def policy_distinct_def policy_min_def
      policy_max_def counted_contributions_def)

lemma facts_flags:
  "wo_minimumSatisfied (orchestrationFacts inp) \<longleftrightarrow>
     wo_minimumContributorsNeeded (orchestrationFacts inp) = 0"
  "wo_targetSatisfied (orchestrationFacts inp) \<longleftrightarrow>
     wo_targetContributorsNeeded (orchestrationFacts inp) = 0"
  "wo_remainingContributorSlots (orchestrationFacts inp) = map_option
     (\<lambda>mx. positive_or_zero (mx - oi_successfulContributionCount inp - activeRunCount (oi_runs inp)))
     (policy_max (oi_policy inp))"
  "wo_shouldEscalate (orchestrationFacts inp) \<longleftrightarrow> oi_status inp = WS_escalated \<or>
     oi_status inp = WS_open \<and> activeRunCount (oi_runs inp) = 0 \<and>
     wo_minimumContributorsNeeded (orchestrationFacts inp) > 0 \<and>
     (timedOutRunCount (oi_runs inp) \<ge> escalationThresholdForWorkItem inp \<or>
      failedRunCount (oi_runs inp) \<ge> escalationThresholdForWorkItem inp + 1)"
  "wo_canClaim (orchestrationFacts inp) \<longleftrightarrow>
     oi_status inp = WS_open \<and> aa_claim (oi_agentActions inp) \<noteq> None \<and>
     (case policy_max (oi_policy inp) of None \<Rightarrow> True
      | Some mx \<Rightarrow> oi_successfulContributionCount inp + activeRunCount (oi_runs inp) < mx)"
  "wo_canReassign (orchestrationFacts inp) \<longleftrightarrow> oi_status inp = WS_open \<and>
     activeRunCount (oi_runs inp) = 0 \<and> failedRunCount (oi_runs inp) > 0 \<and>
     wo_canClaim (orchestrationFacts inp) \<and> wo_targetContributorsNeeded (orchestrationFacts inp) > 0"
  unfolding orchestrationFacts_def Let_def
  by (simp_all add: policy_max_def split: option.split) auto

lemmas facts_simps = facts_counts facts_needed facts_flags

lemma orch_frame [simp]:
  "wo_activeRunCount (orch inp) = wo_activeRunCount (orchestrationFacts inp)"
  "wo_attemptCount (orch inp) = wo_attemptCount (orchestrationFacts inp)"
  "wo_completedRunCount (orch inp) = wo_completedRunCount (orchestrationFacts inp)"
  "wo_contributorsNeeded (orch inp) = wo_contributorsNeeded (orchestrationFacts inp)"
  "wo_distinctContributorCount (orch inp) = wo_distinctContributorCount (orchestrationFacts inp)"
  "wo_distinctContributorShortfall (orch inp) = wo_distinctContributorShortfall (orchestrationFacts inp)"
  "wo_failedRunCount (orch inp) = wo_failedRunCount (orchestrationFacts inp)"
  "wo_minimumContributorsNeeded (orch inp) = wo_minimumContributorsNeeded (orchestrationFacts inp)"
  "wo_minimumSatisfied (orch inp) = wo_minimumSatisfied (orchestrationFacts inp)"
  "wo_remainingContributorSlots (orch inp) = wo_remainingContributorSlots (orchestrationFacts inp)"
  "wo_requiresDistinctContributors (orch inp) = wo_requiresDistinctContributors (orchestrationFacts inp)"
  "wo_shouldEscalate (orch inp) = wo_shouldEscalate (orchestrationFacts inp)"
  "wo_successfulContributionCount (orch inp) = wo_successfulContributionCount (orchestrationFacts inp)"
  "wo_targetContributorsNeeded (orch inp) = wo_targetContributorsNeeded (orchestrationFacts inp)"
  "wo_targetSatisfied (orch inp) = wo_targetSatisfied (orchestrationFacts inp)"
  "wo_timedOutRunCount (orch inp) = wo_timedOutRunCount (orchestrationFacts inp)"
  by (simp_all add: deriveClaimWorkOrchestration_def Let_def split: option.split)

lemma orch_canClaim [simp]: "wo_canClaim (orch inp) = wo_canClaim (orchestrationFacts inp)"
  by (cases "oi_status inp") (simp_all add: deriveClaimWorkOrchestration_def Let_def facts_flags)

lemma orch_canReassign [simp]: "wo_canReassign (orch inp) = wo_canReassign (orchestrationFacts inp)"
  by (cases "oi_status inp")
     (simp_all add: deriveClaimWorkOrchestration_def Let_def facts_flags facts_counts)

lemma orch_action:
  "wo_recommendedAction (orch inp) =
     (case oi_status inp of
        WS_completed \<Rightarrow> Act_complete
      | WS_failed \<Rightarrow> Act_closed
      | WS_canceled \<Rightarrow> Act_closed
      | WS_escalated \<Rightarrow> Act_escalate
      | WS_leased \<Rightarrow> Act_wait
      | WS_open \<Rightarrow>
          if wo_shouldEscalate (orchestrationFacts inp) then Act_escalate
          else if activeRunCount (oi_runs inp) > 0 then Act_wait
          else if wo_canReassign (orchestrationFacts inp) then Act_reassign
          else if wo_canClaim (orchestrationFacts inp) then Act_claim else Act_wait)"
proof (cases "oi_status inp")
  case WS_leased
  then show ?thesis by (simp add: deriveClaimWorkOrchestration_def Let_def facts_flags(4))
qed (simp_all add: deriveClaimWorkOrchestration_def Let_def facts_counts)

section \<open>Properties\<close>

lemma run_status_partition:
  "activeRunCount runs + completedRunCount runs + failedRunCount runs = int (length runs)"
proof (induction runs)
  case (Cons r runs)
  then show ?case
    by (cases "run_status r")
       (simp_all add: activeRunCount_def completedRunCount_def failedRunCount_def)
qed (simp add: activeRunCount_def completedRunCount_def failedRunCount_def)

lemma timedOut_le_failed: "timedOutRunCount runs \<le> failedRunCount runs"
  by (induction runs) (simp_all add: timedOutRunCount_def failedRunCount_def)

lemma run_counts_nonneg [simp]:
  "0 \<le> activeRunCount runs" "0 \<le> completedRunCount runs" "0 \<le> failedRunCount runs"
  "0 \<le> timedOutRunCount runs"
  by (simp_all add: activeRunCount_def completedRunCount_def failedRunCount_def timedOutRunCount_def
      bounds_intros)

text \<open>
  The run counters of a work item's orchestration account for every run exactly once: active,
  completed and failed runs add up to the attempts, and the timed-out runs are among the failed.
\<close>

theorem orchestration_run_accounting:
  "wo_activeRunCount (deriveClaimWorkOrchestration inp) +
   wo_completedRunCount (deriveClaimWorkOrchestration inp) +
   wo_failedRunCount (deriveClaimWorkOrchestration inp) =
   wo_attemptCount (deriveClaimWorkOrchestration inp) \<and>
   wo_timedOutRunCount (deriveClaimWorkOrchestration inp) \<le>
   wo_failedRunCount (deriveClaimWorkOrchestration inp)"
  by (simp add: facts_counts run_status_partition timedOut_le_failed)

text \<open>
  A claimable item has a free contributor slot: adding one more running lease to its runs keeps
  successful contributions plus active leases within the policy's maximum.
\<close>

theorem orchestration_claim_within_maximum:
  assumes "wo_canClaim (deriveClaimWorkOrchestration inp)"
    and "oi_policy inp = Some p" and "wp_maxContributors p = Some mx"
    and "run_status lease = Run_running"
  shows "oi_successfulContributionCount inp + activeRunCount (lease # oi_runs inp) \<le> mx"
  using assms by (auto simp: facts_flags policy_max_def activeRunCount_def)

text \<open>
  The recommended action is executable: \<open>claim\<close> and \<open>reassign\<close> are recommended only for an open,
  idle item that can be claimed and needs no escalation, and a reassigned item had a failed run.
\<close>

theorem orchestration_recommendation_sound:
  assumes "wo_recommendedAction (deriveClaimWorkOrchestration inp) \<in> {Act_claim, Act_reassign}"
  shows "oi_status inp = WS_open \<and> activeRunCount (oi_runs inp) = 0 \<and>
    wo_canClaim (deriveClaimWorkOrchestration inp) \<and>
    \<not> wo_shouldEscalate (deriveClaimWorkOrchestration inp) \<and>
    (wo_recommendedAction (deriveClaimWorkOrchestration inp) = Act_reassign \<longrightarrow>
       failedRunCount (oi_runs inp) > 0 \<and> \<not> wo_targetSatisfied (deriveClaimWorkOrchestration inp))"
proof -
  have idle: "activeRunCount (oi_runs inp) = 0 \<longleftrightarrow> \<not> activeRunCount (oi_runs inp) > 0"
    using run_counts_nonneg(1) [of "oi_runs inp"] by linarith
  show ?thesis using assms unfolding orch_action idle
    by (cases "oi_status inp") (simp_all add: facts_flags split: if_splits)
qed


text \<open>
  For a well-formed policy the target is at least the minimum: an item whose target is
  satisfied has its minimum satisfied, and the target need dominates the minimum need.
\<close>

theorem orchestration_target_dominates_minimum:
  assumes "policy_wf (oi_policy inp)"
  shows "wo_minimumContributorsNeeded (deriveClaimWorkOrchestration inp)
           \<le> wo_targetContributorsNeeded (deriveClaimWorkOrchestration inp) \<and>
         (wo_targetSatisfied (deriveClaimWorkOrchestration inp) \<longrightarrow>
            wo_minimumSatisfied (deriveClaimWorkOrchestration inp))"
proof -
  have "policy_min (oi_policy inp) \<le> nullish (policy_max (oi_policy inp)) (policy_min (oi_policy inp))"
    using assms by (auto simp: policy_wf_def policy_min_def policy_max_def nullish_def split: option.splits)
  then have le: "wo_minimumContributorsNeeded (orchestrationFacts inp)
      \<le> wo_targetContributorsNeeded (orchestrationFacts inp)"
    by (simp add: facts_needed positive_or_zero_mono)
  moreover have "0 \<le> wo_minimumContributorsNeeded (orchestrationFacts inp)"
    by (simp add: facts_needed)
  ultimately show ?thesis by (simp add: facts_flags)
qed

subsection \<open>Witnesses\<close>

definition sample_policy :: work_policy where
  "sample_policy = \<lparr>wp_maxContributors = Some 3, wp_minContributors = Some 2,
     wp_requireDistinctAgents = False, wp_requiredCapabilities = []\<rparr>"

definition sample_run :: "run_status \<Rightarrow> work_run" where
  "sample_run st = \<lparr>run_agentId = Some ''7'', run_failureReason = None, run_finishedAt = None,
     run_lastHeartbeatAt = None, run_runId = ''1'', run_startedAt = ''2026-06-19T13:45:59.123Z'',
     run_status = st, run_workerId = ''w''\<rparr>"

definition sample_input :: "run_status list \<Rightarrow> int \<Rightarrow> orchestration_input" where
  "sample_input sts n = \<lparr>oi_agentActions = agentActionsForWorkItem Review_task Src_replication_job,
     oi_kind = Review_task, oi_lane = Lane_evaluation, oi_policy = Some sample_policy,
     oi_runs = map sample_run sts, oi_status = WS_open,
     oi_successfulContributorAgentIds = [], oi_successfulContributionCount = n\<rparr>"

lemmas sample_defs = sample_policy_def sample_run_def sample_input_def

lemma sample_facts:
  "activeRunCount (map sample_run sts) = count_if (\<lambda>s. s = Run_running) sts"
  "failedRunCount (map sample_run sts) = count_if (\<lambda>s. s = Run_failed) sts"
  "timedOutRunCount (map sample_run sts) = 0"
  by (induction sts) (auto simp: activeRunCount_def failedRunCount_def timedOutRunCount_def
      sample_run_def count_if_def)

lemma sample_input_sel [simp]:
  "oi_policy (sample_input sts n) = Some sample_policy" "oi_status (sample_input sts n) = WS_open"
  "oi_runs (sample_input sts n) = map sample_run sts"
  "oi_successfulContributionCount (sample_input sts n) = n"
  "aa_claim (oi_agentActions (sample_input sts n)) = Some Review_task_claim"
  "\<not> policy_distinct (Some sample_policy)" "policy_wf (Some sample_policy)"
  "policy_min (Some sample_policy) = 2" "policy_max (Some sample_policy) = Some 3"
  "counted_contributions (sample_input sts n) = n"
  "escalationThresholdForWorkItem (sample_input sts n) = 2"
  by (simp_all add: sample_input_def sample_policy_def policy_distinct_def policy_wf_def
      policy_min_def policy_max_def counted_contributions_def escalationThresholdForWorkItem_def)

theorem orchestration_claim_within_maximum_witness:
  "wo_canClaim (deriveClaimWorkOrchestration (sample_input [Run_running] 1)) \<and>
   1 + activeRunCount (sample_run Run_running # map sample_run [Run_running]) \<le> (3::int)"
proof -
  have c: "wo_canClaim (deriveClaimWorkOrchestration (sample_input [Run_running] 1))"
    by (simp add: facts_simps sample_facts del: list.map)
  show ?thesis
    using c orchestration_claim_within_maximum [OF c, of sample_policy 3 "sample_run Run_running"]
    by (simp add: sample_policy_def sample_run_def)
qed

theorem orchestration_recommendation_sound_witness:
  "wo_recommendedAction (deriveClaimWorkOrchestration (sample_input [Run_failed] 1)) = Act_reassign \<and>
   failedRunCount (map sample_run [Run_failed]) > 0"
proof -
  have a: "wo_recommendedAction (deriveClaimWorkOrchestration (sample_input [Run_failed] 1)) = Act_reassign"
    by (simp add: orch_action facts_simps sample_facts del: list.map)
  show ?thesis
    using a orchestration_recommendation_sound [of "sample_input [Run_failed] 1"] by simp
qed


theorem orchestration_target_dominates_minimum_witness:
  "wo_minimumContributorsNeeded (deriveClaimWorkOrchestration (sample_input [] 1))
     \<le> wo_targetContributorsNeeded (deriveClaimWorkOrchestration (sample_input [] 1))"
  using orchestration_target_dominates_minimum [of "sample_input [] 1"] by simp

end
