(* ===== verification/Work_Routing.thy ===== *)
theory Work_Routing
  imports Work_Orchestration
begin

text \<open>
  \<open>work/routing.ts\<close>: the priority and tier of a work item among the items of its graph, and
  whether a synthesis item waits for open lower-lane work of the same claim.
\<close>

definition clampPriority :: "int \<Rightarrow> int" where
  "clampPriority v = max 0 (min 10000 (js_round (of_int v)))"

definition tierForPriority :: "int \<Rightarrow> routing_tier" where
  "tierForPriority p =
     (if p \<ge> 8500 then Tier_critical
      else if p \<ge> 6500 then Tier_high
      else if p \<ge> 4000 then Tier_normal
      else if p > 0 then Tier_low
      else Tier_hold)"

definition lanePriorityBoost :: "'a work_item_base_scheme \<Rightarrow> int" where
  "lanePriorityBoost item =
     (if wi_kind item = Artifact_maintenance \<and> wi_sourceType item = Src_maintenance Maint_repair then 900
      else if wi_kind item = Replication_job then 800
      else if wi_lane item = Lane_maintenance then 700
      else if wi_lane item = Lane_execution then 650
      else if wi_lane item = Lane_evaluation then 500
      else 200)"

definition isBlockingClaimWork :: "orchestrated_item \<Rightarrow> bool" where
  "isBlockingClaimWork item \<longleftrightarrow>
     wi_itemId item \<noteq> [] \<and> (wi_status item = WS_open \<or> wi_status item = WS_leased) \<and>
     wi_lane item \<noteq> Lane_synthesis \<and>
     (wo_canClaim (wi_orchestration item) \<or> wo_activeRunCount (wi_orchestration item) > 0)"

definition hasBlockingNonSynthesisWork :: "orchestrated_item list \<Rightarrow> orchestrated_item \<Rightarrow> bool" where
  "hasBlockingNonSynthesisWork items current =
     (if wi_lane current \<noteq> Lane_synthesis then False
      else list_ex (\<lambda>item. wi_itemId item \<noteq> wi_itemId current \<and> wi_claimId item = wi_claimId current \<and>
             isBlockingClaimWork item) items)"

text \<open>
  Each step of the source adds to the priority and may push a rationale; a step is a function on
  the pair of both.
\<close>

type_synonym priority_state = "int \<times> string list"

definition bump :: "int \<Rightarrow> string \<Rightarrow> priority_state \<Rightarrow> priority_state" where
  "bump n why st = (fst st + n, snd st @ [why])"

definition action_step :: "work_orchestration \<Rightarrow> priority_state \<Rightarrow> priority_state" where
  "action_step orc st =
     (if wo_recommendedAction orc = Act_reassign then bump 7200 ''reopened after earlier runs failed'' st
      else if wo_recommendedAction orc = Act_claim
      then bump 6000 ''currently claimable through the generic runtime'' st
      else st)"

definition corroboration_step :: "work_orchestration \<Rightarrow> priority_state \<Rightarrow> priority_state" where
  "corroboration_step orc st =
     (if wo_minimumContributorsNeeded orc > 0 then
        (if wo_requiresDistinctContributors orc \<and> wo_distinctContributorShortfall orc > 0
         then bump (min 1600 (wo_distinctContributorShortfall orc * 800))
           ''scheduler still needs additional distinct contributors to reach minimum corroboration'' st
         else bump (min 1400 (wo_minimumContributorsNeeded orc * 700))
           ''claim state still needs additional contributions to reach minimum corroboration'' st)
      else if wo_targetContributorsNeeded orc > 0 then
        (if wo_requiresDistinctContributors orc
         then bump (min 900 (wo_targetContributorsNeeded orc * 350))
           ''scheduler still wants an additional distinct corroborating contribution'' st
         else bump (min 800 (wo_targetContributorsNeeded orc * 300))
           ''scheduler still wants additional corroborating redundancy'' st)
      else st)"

definition failure_step :: "work_orchestration \<Rightarrow> priority_state \<Rightarrow> priority_state" where
  "failure_step orc st =
     (let st1 = (if wo_timedOutRunCount orc > 0
                 then bump (min 1000 (wo_timedOutRunCount orc * 400)) ''previous lease timed out'' st
                 else st)
      in if wo_failedRunCount orc > wo_timedOutRunCount orc
         then bump (min 800 ((wo_failedRunCount orc - wo_timedOutRunCount orc) * 250))
                ''previous attempts ended without a successful contribution'' st1
         else st1)"

definition deriveClaimWorkRouting :: "orchestrated_item \<Rightarrow> orchestrated_item list \<Rightarrow> work_routing" where
  "deriveClaimWorkRouting item items =
    (let orc = wi_orchestration item; blocked = hasBlockingNonSynthesisWork items item in
     if \<not> wo_canClaim orc then
       \<lparr>wr_blockedByOpenWork = blocked, wr_priorityBps = 0, wr_rationale = [wo_statusReason orc],
        wr_tier = Tier_hold\<rparr>
     else
       let st = action_step orc (0, []);
           st = (fst st + lanePriorityBoost item, snd st);
           st = failure_step orc (corroboration_step orc st);
           st = (if blocked then (min (fst st) 1500,
                   ''waiting on lower-level open work before synthesis is useful'' # snd st) else st);
           priorityBps = clampPriority (fst st)
       in \<lparr>wr_blockedByOpenWork = blocked, wr_priorityBps = priorityBps, wr_rationale = snd st,
           wr_tier = tierForPriority priorityBps\<rparr>)"

section \<open>The priority before clamping\<close>

text \<open>Each step adds an amount that depends on the orchestration alone.\<close>

definition action_points :: "work_orchestration \<Rightarrow> int" where
  "action_points orc = fst (action_step orc (0, []))"

definition corroboration_points :: "work_orchestration \<Rightarrow> int" where
  "corroboration_points orc = fst (corroboration_step orc (0, []))"

definition failure_points :: "work_orchestration \<Rightarrow> int" where
  "failure_points orc = fst (failure_step orc (0, []))"

definition rawPriority :: "orchestrated_item \<Rightarrow> int" where
  "rawPriority item = action_points (wi_orchestration item) + lanePriorityBoost item +
     corroboration_points (wi_orchestration item) + failure_points (wi_orchestration item)"

lemma step_points:
  "fst (action_step orc st) = fst st + action_points orc"
  "fst (corroboration_step orc st) = fst st + corroboration_points orc"
  "fst (failure_step orc st) = fst st + failure_points orc"
  by (simp_all add: action_points_def corroboration_points_def failure_points_def action_step_def
      corroboration_step_def failure_step_def bump_def Let_def)

lemma points_nonneg: "0 \<le> action_points orc" "0 \<le> corroboration_points orc" "0 \<le> failure_points orc"
  by (auto simp: action_points_def corroboration_points_def failure_points_def action_step_def
      corroboration_step_def failure_step_def bump_def Let_def min_def)

lemma rawPriority_lower: "action_points (wi_orchestration item) + 200 \<le> rawPriority item"
  using points_nonneg [of "wi_orchestration item"]
  by (simp add: rawPriority_def lanePriorityBoost_def)

lemma routing_simps:
  "wr_blockedByOpenWork (deriveClaimWorkRouting item items) = hasBlockingNonSynthesisWork items item"
  "wr_priorityBps (deriveClaimWorkRouting item items) =
     (if wo_canClaim (wi_orchestration item)
      then clampPriority (if hasBlockingNonSynthesisWork items item then min (rawPriority item) 1500
                          else rawPriority item)
      else 0)"
  by (simp_all add: deriveClaimWorkRouting_def Let_def rawPriority_def step_points)

lemma routing_tier:
  "wr_tier (deriveClaimWorkRouting item items) = tierForPriority (wr_priorityBps (deriveClaimWorkRouting item items))"
  by (simp add: deriveClaimWorkRouting_def Let_def tierForPriority_def)

lemma clampPriority_eq: "clampPriority v = max 0 (min 10000 v)"
  by (simp add: clampPriority_def)

section \<open>Properties\<close>

text \<open>
  The priority of every item is within 0 and 10,000 basis points, and an item is on hold
  exactly when it cannot be claimed.
\<close>

theorem routing_hold_iff_unclaimable:
  "0 \<le> wr_priorityBps (deriveClaimWorkRouting item items) \<and>
   wr_priorityBps (deriveClaimWorkRouting item items) \<le> 10000 \<and>
   (wr_tier (deriveClaimWorkRouting item items) = Tier_hold \<longleftrightarrow> \<not> wo_canClaim (wi_orchestration item))"
  using rawPriority_lower [of item] points_nonneg(1) [of "wi_orchestration item"]
  by (auto simp: routing_simps routing_tier clampPriority_eq tierForPriority_def)

text \<open>
  Blocked synthesis work never outranks ready work: a claimable item that waits for open
  lower-lane work is in the low tier with at most 1,500 points, and its priority is below that of
  every unblocked item recommended for a claim or a reassignment.
\<close>

theorem routing_ready_outranks_blocked:
  assumes "hasBlockingNonSynthesisWork items waiting"
    and "wo_canClaim (wi_orchestration ready)"
    and "wo_recommendedAction (wi_orchestration ready) \<in> {Act_claim, Act_reassign}"
    and "\<not> hasBlockingNonSynthesisWork items ready"
  shows "wr_priorityBps (deriveClaimWorkRouting waiting items) \<le> 1500 \<and>
    wr_priorityBps (deriveClaimWorkRouting waiting items) < wr_priorityBps (deriveClaimWorkRouting ready items) \<and>
    wr_tier (deriveClaimWorkRouting ready items) \<in> {Tier_normal, Tier_high, Tier_critical}"
proof -
  have "6000 \<le> action_points (wi_orchestration ready)"
    using assms(3) by (auto simp: action_points_def action_step_def bump_def)
  then have "6200 \<le> rawPriority ready" using rawPriority_lower [of ready] by linarith
  then show ?thesis
    using assms by (auto simp: routing_simps routing_tier clampPriority_eq tierForPriority_def)
qed

subsection \<open>Witnesses\<close>

definition sample_item :: "work_lane \<Rightarrow> run_status list \<Rightarrow> orchestrated_item" where
  "sample_item lane sts = \<lparr>wi_activeRun = None,
     wi_agentActions = agentActionsForWorkItem Review_task Src_replication_job,
     wi_claimId = Some ''7'', wi_completedAt = None, wi_createdAt = ''2026-06-19T13:45:59.123Z'',
     wi_description = [], wi_itemId = (if lane = Lane_synthesis then ''s'' else ''e''), wi_kind = Review_task,
     wi_lane = lane, wi_policy = Some sample_policy, wi_relatedArtifactKeys = [], wi_result = None,
     wi_runs = map sample_run sts, wi_scopeKey = None, wi_sourceType = Src_replication_job,
     wi_status = WS_open, wi_subjectId = ''claim:7'', wi_title = [], wi_updatedAt = None,
     wi_orchestration = deriveClaimWorkOrchestration (sample_input sts 0)\<rparr>"

lemma sample_item_sel [simp]:
  "wi_orchestration (sample_item lane sts) = deriveClaimWorkOrchestration (sample_input sts 0)"
  "wi_lane (sample_item lane sts) = lane" "wi_status (sample_item lane sts) = WS_open"
  "wi_claimId (sample_item lane sts) = Some ''7''"
  "wi_itemId (sample_item lane sts) = (if lane = Lane_synthesis then ''s'' else ''e'')"
  by (simp_all add: sample_item_def)

lemma sample_claim:
  "wo_recommendedAction (deriveClaimWorkOrchestration (sample_input [] 0)) = Act_claim"
  "wo_canClaim (deriveClaimWorkOrchestration (sample_input [] 0))"
  by (simp_all add: orch_action facts_simps activeRunCount_def failedRunCount_def timedOutRunCount_def)

lemma sample_blocked:
  "hasBlockingNonSynthesisWork [sample_item Lane_evaluation []] (sample_item Lane_synthesis [])"
  "\<not> hasBlockingNonSynthesisWork [sample_item Lane_evaluation []] (sample_item Lane_evaluation [])"
  using sample_claim(2) by (simp_all add: hasBlockingNonSynthesisWork_def isBlockingClaimWork_def)

theorem routing_ready_outranks_blocked_witness:
  "wr_priorityBps (deriveClaimWorkRouting (sample_item Lane_synthesis []) [sample_item Lane_evaluation []]) <
   wr_priorityBps (deriveClaimWorkRouting (sample_item Lane_evaluation []) [sample_item Lane_evaluation []])"
  using routing_ready_outranks_blocked [of "[sample_item Lane_evaluation []]" "sample_item Lane_synthesis []"
      "sample_item Lane_evaluation []"] sample_claim sample_blocked by simp

end
