(* ===== verification/Work_Scheduling.thy ===== *)
theory Work_Scheduling
  imports Work_Routing
begin

text \<open>
  \<open>work/scheduling.ts\<close>: whether the scheduler hands an item to an agent by itself, how many more
  claims it wants, and what blocks the item otherwise; the order of the blockers is the code's.
\<close>

definition strategyForItem :: "routed_item \<Rightarrow> scheduling_strategy" where
  "strategyForItem item =
     (if wi_lane item = Lane_synthesis then Strat_synthesis
      else if wo_requiresDistinctContributors (wi_orchestration item) then Strat_distinct
      else if nullish (wo_remainingContributorSlots (wi_orchestration item)) 0 > 1 \<or>
              wo_contributorsNeeded (wi_orchestration item) > 1 then Strat_parallel
      else Strat_single)"

definition unresolvedUpstreamDependency :: "routed_item \<Rightarrow> bool" where
  "unresolvedUpstreamDependency item =
     (if wi_lane item = Lane_synthesis then False
      else if wi_status item = WS_completed \<or> wi_status item = WS_canceled then False
      else True)"

definition unresolvedUpstreamItems :: "routed_item \<Rightarrow> routed_item list \<Rightarrow> routed_item list" where
  "unresolvedUpstreamItems current items =
     (if wi_lane current \<noteq> Lane_synthesis then []
      else filter (\<lambda>item. wi_itemId item \<noteq> wi_itemId current \<and>
             wi_claimId item = wi_claimId current \<and> unresolvedUpstreamDependency item) items)"

text \<open>
  The source's \<open>blockedScheduling\<close>, with its optional arguments written out at the two call sites
  that use them; \<open>reassignmentPreferred\<close> is never passed and so always false.
\<close>

definition blockedScheduling ::
  "string \<Rightarrow> bool \<Rightarrow> bool \<Rightarrow> bool \<Rightarrow> string \<Rightarrow> scheduling_strategy \<Rightarrow> string list option \<Rightarrow>
   bool option \<Rightarrow> int option \<Rightarrow> work_scheduling" where
  "blockedScheduling blocker needsMin needsRed fresh reason strategy ids reassign deps =
     \<lparr>wc_autoClaimable = False, wc_blocker = Some blocker, wc_blockingItemIds = nullish ids [],
      wc_desiredAdditionalClaims = 0, wc_needsMinimumCoverage = needsMin,
      wc_needsRedundantCoverage = needsRed, wc_prefersFreshContributor = fresh,
      wc_reassignmentPreferred = nullish reassign False, wc_reason = reason, wc_strategy = strategy,
      wc_unresolvedDependencyCount = nullish deps 0\<rparr>"

definition minimumNeededAfterActiveRuns :: "routed_item \<Rightarrow> int" where
  "minimumNeededAfterActiveRuns item =
     positive_or_zero (wo_minimumContributorsNeeded (wi_orchestration item) - wo_activeRunCount (wi_orchestration item))"

definition targetNeededAfterActiveRuns :: "routed_item \<Rightarrow> int" where
  "targetNeededAfterActiveRuns item =
     positive_or_zero (wo_targetContributorsNeeded (wi_orchestration item) - wo_activeRunCount (wi_orchestration item))"

definition desiredAdditionalClaims :: "routed_item \<Rightarrow> int" where
  "desiredAdditionalClaims item =
     (case wo_remainingContributorSlots (wi_orchestration item) of
        None \<Rightarrow> targetNeededAfterActiveRuns item
      | Some slots \<Rightarrow> min slots (targetNeededAfterActiveRuns item))"

definition dependencyReason :: "routed_item list \<Rightarrow> string" where
  "dependencyReason upstream =
     (if list_ex (\<lambda>e. wi_status e = WS_escalated \<or> wo_shouldEscalate (wi_orchestration e)) upstream
      then ''upstream claim work still needs manual escalation handling before synthesis is useful''
      else if list_ex (\<lambda>e. wi_status e = WS_failed) upstream
      then ''upstream claim work still needs reassignment or repair before synthesis is useful''
      else ''upstream evaluation, execution, or maintenance work is still unresolved'')"

definition readyReason :: "bool \<Rightarrow> bool \<Rightarrow> bool \<Rightarrow> bool \<Rightarrow> int \<Rightarrow> string" where
  "readyReason reassign fresh needsMin needsRed desired =
     (if reassign
      then ''item is scheduler-ready for reassignment after earlier runs ended without a useful result''
      else if fresh \<and> needsMin
      then ''item is scheduler-ready and still needs a fresh distinct contributor to reach minimum corroboration''
      else if fresh \<and> needsRed
      then ''minimum corroboration is already satisfied, but scheduler still wants a fresh distinct contributor for stronger redundancy''
      else if needsMin
      then (if desired > 1
            then ''item is scheduler-ready and still sits below its minimum corroboration target''
            else ''item is scheduler-ready for another contribution to reach minimum corroboration'')
      else if desired > 1
      then ''minimum corroboration is satisfied, but the scheduler still sees uncovered parallel corroboration demand''
      else ''minimum corroboration is satisfied, but the scheduler still wants one more corroborating contribution'')"

definition deriveClaimWorkScheduling :: "routed_item \<Rightarrow> routed_item list \<Rightarrow> work_scheduling" where
  "deriveClaimWorkScheduling item items =
    (let strategy = strategyForItem item;
         needsMin = (minimumNeededAfterActiveRuns item > 0);
         needsRed = (\<not> needsMin \<and> targetNeededAfterActiveRuns item > 0);
         fresh = (wo_requiresDistinctContributors (wi_orchestration item) \<and>
                  targetNeededAfterActiveRuns item > 0);
         reassign = (wo_recommendedAction (wi_orchestration item) = Act_reassign);
         upstream = unresolvedUpstreamItems item items;
         desired = desiredAdditionalClaims item
     in if length upstream > 0 then
          blockedScheduling ''dependency_blocked'' needsMin needsRed fresh (dependencyReason upstream)
            strategy (Some (map wi_itemId upstream)) None (Some (int (length upstream)))
        else if wo_shouldEscalate (wi_orchestration item) then
          blockedScheduling ''escalation_required'' needsMin needsRed fresh
            ''manual escalation should happen before more automatic claims'' strategy None None (Some 0)
        else if \<not> wo_canClaim (wi_orchestration item) then
          blockedScheduling ''not_claimable'' needsMin needsRed fresh
            (wo_statusReason (wi_orchestration item)) strategy None None (Some 0)
        else if wr_blockedByOpenWork (wi_routing item) then
          blockedScheduling ''dependency_blocked'' needsMin needsRed fresh
            ''prerequisite lower-lane work is still open'' strategy None None (Some 0)
        else if desired \<le> 0 then
          blockedScheduling ''policy_satisfied'' needsMin needsRed fresh
            (if wo_targetContributorsNeeded (wi_orchestration item) > 0
             then ''existing active runs already cover the current corroboration target''
             else ''current policy already has enough successful contributions'')
            strategy None None (Some 0)
        else
          \<lparr>wc_autoClaimable = True, wc_blocker = None, wc_blockingItemIds = [],
           wc_desiredAdditionalClaims = desired, wc_needsMinimumCoverage = needsMin,
           wc_needsRedundantCoverage = needsRed, wc_prefersFreshContributor = fresh,
           wc_reassignmentPreferred = reassign,
           wc_reason = readyReason reassign fresh needsMin needsRed desired,
           wc_strategy = strategy, wc_unresolvedDependencyCount = 0\<rparr>)"

section \<open>Field equations\<close>

definition schedulable :: "routed_item \<Rightarrow> routed_item list \<Rightarrow> bool" where
  "schedulable item items \<longleftrightarrow> unresolvedUpstreamItems item items = [] \<and>
     \<not> wo_shouldEscalate (wi_orchestration item) \<and> wo_canClaim (wi_orchestration item) \<and>
     \<not> wr_blockedByOpenWork (wi_routing item) \<and> desiredAdditionalClaims item > 0"

lemma scheduling_auto [simp]:
  "wc_autoClaimable (deriveClaimWorkScheduling item items) \<longleftrightarrow> schedulable item items"
  by (simp add: deriveClaimWorkScheduling_def schedulable_def blockedScheduling_def Let_def)

lemma scheduling_desired [simp]:
  "wc_desiredAdditionalClaims (deriveClaimWorkScheduling item items) =
     (if schedulable item items then desiredAdditionalClaims item else 0)"
  by (simp add: deriveClaimWorkScheduling_def schedulable_def blockedScheduling_def Let_def)

lemma scheduling_blocker_None [simp]:
  "wc_blocker (deriveClaimWorkScheduling item items) = None \<longleftrightarrow> schedulable item items"
  by (simp add: deriveClaimWorkScheduling_def schedulable_def blockedScheduling_def Let_def)

lemma scheduling_coverage [simp]:
  "wc_needsMinimumCoverage (deriveClaimWorkScheduling item items) \<longleftrightarrow> minimumNeededAfterActiveRuns item > 0"
  "wc_needsRedundantCoverage (deriveClaimWorkScheduling item items) \<longleftrightarrow>
     \<not> minimumNeededAfterActiveRuns item > 0 \<and> targetNeededAfterActiveRuns item > 0"
  by (simp_all add: deriveClaimWorkScheduling_def blockedScheduling_def Let_def)

lemma scheduling_dependency_count [simp]:
  "wc_unresolvedDependencyCount (deriveClaimWorkScheduling item items) =
     int (length (unresolvedUpstreamItems item items))"
  "wc_blockingItemIds (deriveClaimWorkScheduling item items) =
     map wi_itemId (unresolvedUpstreamItems item items)"
  by (simp_all add: deriveClaimWorkScheduling_def blockedScheduling_def Let_def)

lemma upstream_Nil_iff:
  "unresolvedUpstreamItems item items = [] \<longleftrightarrow>
     wi_lane item \<noteq> Lane_synthesis \<or>
     (\<forall>dep \<in> set items. wi_itemId dep \<noteq> wi_itemId item \<longrightarrow> wi_claimId dep = wi_claimId item \<longrightarrow>
        wi_lane dep \<noteq> Lane_synthesis \<longrightarrow> wi_status dep \<in> {WS_completed, WS_canceled})"
  by (auto simp: unresolvedUpstreamItems_def unresolvedUpstreamDependency_def filter_empty_conv)

lemma scheduling_bound:
  assumes "wi_orchestration item = deriveClaimWorkOrchestration inp"
    and "oi_policy inp = Some p" and "wp_maxContributors p = Some mx"
    and s: "schedulable item items"
  shows "0 < desiredAdditionalClaims item \<and>
    oi_successfulContributionCount inp + activeRunCount (oi_runs inp) + desiredAdditionalClaims item \<le> mx"
proof -
  have "0 < desiredAdditionalClaims item" using s by (simp add: schedulable_def)
  moreover have "desiredAdditionalClaims item
      \<le> positive_or_zero (mx - oi_successfulContributionCount inp - activeRunCount (oi_runs inp))"
    using assms(1-3) by (simp add: desiredAdditionalClaims_def facts_flags(3) policy_max_def)
  ultimately show ?thesis by (simp add: positive_or_zero_def split: if_splits)
qed

section \<open>Properties\<close>

text \<open>
  C31: the scheduler never over-claims. If it hands out an item whose orchestration was derived from
  the item's own runs under a maximum, then successful contributions, running leases and all the
  additional claims it asks for stay together within that maximum.
\<close>

theorem scheduling_within_maximum:
  assumes "wi_orchestration item = deriveClaimWorkOrchestration inp"
    and "oi_policy inp = Some p" and "wp_maxContributors p = Some mx"
    and "wc_autoClaimable (deriveClaimWorkScheduling item items)"
  shows "0 < wc_desiredAdditionalClaims (deriveClaimWorkScheduling item items) \<and>
    oi_successfulContributionCount inp + activeRunCount (oi_runs inp) +
      wc_desiredAdditionalClaims (deriveClaimWorkScheduling item items) \<le> mx"
  using scheduling_bound [OF assms(1-3), of items] assms(4) by simp

text \<open>
  Synthesis comes last. When the scheduler hands out a synthesis item, every other item of the
  same claim outside the synthesis lane is completed or canceled; and whatever it hands out can be
  claimed, needs no escalation and is not blocked.
\<close>

theorem scheduling_synthesis_last:
  assumes "wc_autoClaimable (deriveClaimWorkScheduling item items)"
  shows "wo_canClaim (wi_orchestration item) \<and> \<not> wo_shouldEscalate (wi_orchestration item) \<and>
    wc_blocker (deriveClaimWorkScheduling item items) = None \<and>
    (wi_lane item = Lane_synthesis \<longrightarrow>
      (\<forall>dep \<in> set items. wi_itemId dep \<noteq> wi_itemId item \<longrightarrow> wi_claimId dep = wi_claimId item \<longrightarrow>
         wi_lane dep \<noteq> Lane_synthesis \<longrightarrow> wi_status dep \<in> {WS_completed, WS_canceled}))"
  using assms by (auto simp: schedulable_def upstream_Nil_iff)

subsection \<open>Witnesses\<close>

definition sample_routed :: "work_lane \<Rightarrow> run_status list \<Rightarrow> routed_item" where
  "sample_routed lane sts = orchestrated_item.extend (sample_item lane sts)
     (routed_item.fields (deriveClaimWorkRouting (sample_item lane sts) []))"

lemma sample_routed_sel [simp]:
  "wi_orchestration (sample_routed lane sts) = deriveClaimWorkOrchestration (sample_input sts 0)"
  "wi_routing (sample_routed lane sts) = deriveClaimWorkRouting (sample_item lane sts) []"
  "wi_lane (sample_routed lane sts) = lane"
  by (simp_all add: sample_routed_def orchestrated_item.defs routed_item.defs)

lemma sample_schedulable: "schedulable (sample_routed Lane_synthesis []) []"
  by (simp add: schedulable_def unresolvedUpstreamItems_def routing_simps hasBlockingNonSynthesisWork_def
      desiredAdditionalClaims_def targetNeededAfterActiveRuns_def facts_simps activeRunCount_def failedRunCount_def timedOutRunCount_def)

theorem scheduling_within_maximum_witness:
  "0 < wc_desiredAdditionalClaims (deriveClaimWorkScheduling (sample_routed Lane_synthesis []) []) \<and>
   wc_desiredAdditionalClaims (deriveClaimWorkScheduling (sample_routed Lane_synthesis []) []) \<le> 3"
  using scheduling_within_maximum [of "sample_routed Lane_synthesis []" "sample_input [] 0" sample_policy 3 "[]"]
    sample_schedulable by (simp add: sample_policy_def activeRunCount_def)

theorem scheduling_synthesis_last_witness:
  "wc_blocker (deriveClaimWorkScheduling (sample_routed Lane_synthesis []) []) = None"
  using scheduling_synthesis_last [of "sample_routed Lane_synthesis []" "[]"] sample_schedulable by simp

end
