(* ===== verification/Work_Selection.thy ===== *)
theory Work_Selection
  imports Work_Scheduling
begin

text \<open>
  \<open>work/selection.ts\<close>: the order in which an agent is offered work. The comparator is the code's
  chain of early returns; that it is a lawful comparator (the interpretation below) is what makes
  the resulting sort order well defined.
\<close>

definition timestampForItem :: "work_item \<Rightarrow> string" where
  "timestampForItem item = nullish (wi_updatedAt item) (wi_createdAt item)"

definition compareClaimWorkItemsForSelection :: "work_item \<Rightarrow> work_item \<Rightarrow> int" where
  "compareClaimWorkItemsForSelection left right =
     (if wc_needsMinimumCoverage (wi_scheduling left) \<noteq> wc_needsMinimumCoverage (wi_scheduling right)
      then (if wc_needsMinimumCoverage (wi_scheduling left) then -1 else 1)
      else if wc_reassignmentPreferred (wi_scheduling left) \<noteq> wc_reassignmentPreferred (wi_scheduling right)
      then (if wc_reassignmentPreferred (wi_scheduling left) then -1 else 1)
      else if wc_prefersFreshContributor (wi_scheduling left) \<noteq> wc_prefersFreshContributor (wi_scheduling right)
      then (if wc_prefersFreshContributor (wi_scheduling left) then -1 else 1)
      else if wc_needsRedundantCoverage (wi_scheduling left) \<noteq> wc_needsRedundantCoverage (wi_scheduling right)
      then (if wc_needsRedundantCoverage (wi_scheduling left) then -1 else 1)
      else if wc_desiredAdditionalClaims (wi_scheduling left) \<noteq> wc_desiredAdditionalClaims (wi_scheduling right)
      then wc_desiredAdditionalClaims (wi_scheduling right) - wc_desiredAdditionalClaims (wi_scheduling left)
      else if wr_priorityBps (wi_routing left) \<noteq> wr_priorityBps (wi_routing right)
      then wr_priorityBps (wi_routing right) - wr_priorityBps (wi_routing left)
      else if timestampForItem left \<noteq> timestampForItem right
      then locale_compare (timestampForItem right) (timestampForItem left)
      else locale_compare (wi_itemId left) (wi_itemId right))"

lemma guarded_return:
  "(if a \<noteq> b then (if a then -1 else 1) else z) = (if cmp_flag a b \<noteq> 0 then cmp_flag a b else z)"
  "(if x \<noteq> y then y - x else z) = (if y - x \<noteq> 0 then y - x else (z :: int))"
  "(if s \<noteq> t then locale_compare t s else z) = (if locale_compare t s \<noteq> 0 then locale_compare t s else z)"
  by (auto simp: cmp_flag_def)

lemma selection_lex:
  "compareClaimWorkItemsForSelection = (\<lambda>l r.
     if cmp_flag (wc_needsMinimumCoverage (wi_scheduling l)) (wc_needsMinimumCoverage (wi_scheduling r)) \<noteq> 0
     then cmp_flag (wc_needsMinimumCoverage (wi_scheduling l)) (wc_needsMinimumCoverage (wi_scheduling r)) else
     if cmp_flag (wc_reassignmentPreferred (wi_scheduling l)) (wc_reassignmentPreferred (wi_scheduling r)) \<noteq> 0
     then cmp_flag (wc_reassignmentPreferred (wi_scheduling l)) (wc_reassignmentPreferred (wi_scheduling r)) else
     if cmp_flag (wc_prefersFreshContributor (wi_scheduling l)) (wc_prefersFreshContributor (wi_scheduling r)) \<noteq> 0
     then cmp_flag (wc_prefersFreshContributor (wi_scheduling l)) (wc_prefersFreshContributor (wi_scheduling r)) else
     if cmp_flag (wc_needsRedundantCoverage (wi_scheduling l)) (wc_needsRedundantCoverage (wi_scheduling r)) \<noteq> 0
     then cmp_flag (wc_needsRedundantCoverage (wi_scheduling l)) (wc_needsRedundantCoverage (wi_scheduling r)) else
     if wc_desiredAdditionalClaims (wi_scheduling r) - wc_desiredAdditionalClaims (wi_scheduling l) \<noteq> 0
     then wc_desiredAdditionalClaims (wi_scheduling r) - wc_desiredAdditionalClaims (wi_scheduling l) else
     if wr_priorityBps (wi_routing r) - wr_priorityBps (wi_routing l) \<noteq> 0
     then wr_priorityBps (wi_routing r) - wr_priorityBps (wi_routing l) else
     if locale_compare (timestampForItem r) (timestampForItem l) \<noteq> 0
     then locale_compare (timestampForItem r) (timestampForItem l) else
     locale_compare (wi_itemId l) (wi_itemId r))"
  by (intro ext) (simp only: compareClaimWorkItemsForSelection_def guarded_return)

lemma comparator_flag_key: "comparator (\<lambda>l r. cmp_flag (f l) (f r))"
  by (rule comparator_key [OF comparator_cmp_flag])

lemma comparator_diff_rev: "comparator (\<lambda>l r. f r - (f l :: int))"
  by (rule comparator_rev [OF comparator_diff])

lemma comparator_locale_key: "comparator (\<lambda>l r. locale_compare (f l) (f r))"
  by (rule comparator_key [OF comparator_locale_compare])

lemma comparator_locale_key_rev: "comparator (\<lambda>l r. locale_compare (f r) (f l))"
  by (rule comparator_rev [OF comparator_locale_key])

lemmas comparator_parts = comparator_flag_key comparator_diff_rev comparator_locale_key
  comparator_locale_key_rev

interpretation selection_order: comparator compareClaimWorkItemsForSelection
  unfolding selection_lex by (intro comparator_lex comparator_parts)

lemma selection_zero_itemId:
  "compareClaimWorkItemsForSelection left right = 0 \<Longrightarrow> wi_itemId left = wi_itemId right"
  by (simp add: compareClaimWorkItemsForSelection_def split: if_splits)

section \<open>Properties\<close>

text \<open>
  Sorting the items for selection is deterministic and puts uncovered work first: the result
  holds exactly the given items, ordered by the comparator; an item that still needs its minimum
  coverage is never placed after one that does not; and items of different ids are never tied.
\<close>

theorem selection_sort_correct:
  "mset (js_sort compareClaimWorkItemsForSelection items) = mset items \<and>
   sorted_wrt (\<lambda>x y. compareClaimWorkItemsForSelection x y \<le> 0)
     (js_sort compareClaimWorkItemsForSelection items) \<and>
   sorted_wrt (\<lambda>x y. wc_needsMinimumCoverage (wi_scheduling x) \<or> \<not> wc_needsMinimumCoverage (wi_scheduling y))
     (js_sort compareClaimWorkItemsForSelection items) \<and>
   (\<forall>x y. wi_itemId x \<noteq> wi_itemId y \<longrightarrow> compareClaimWorkItemsForSelection x y \<noteq> 0)"
proof (intro conjI allI impI)
  have s: "sorted_wrt (\<lambda>x y. compareClaimWorkItemsForSelection x y \<le> 0)
      (js_sort compareClaimWorkItemsForSelection items)"
    by (rule selection_order.sorted_sort)
  then show "sorted_wrt (\<lambda>x y. compareClaimWorkItemsForSelection x y \<le> 0)
      (js_sort compareClaimWorkItemsForSelection items)" .
  show "sorted_wrt (\<lambda>x y. wc_needsMinimumCoverage (wi_scheduling x) \<or> \<not> wc_needsMinimumCoverage (wi_scheduling y))
      (js_sort compareClaimWorkItemsForSelection items)"
    by (rule sorted_wrt_mono_rel [OF _ s])
       (simp add: compareClaimWorkItemsForSelection_def split: if_splits)
qed (auto dest: selection_zero_itemId)

definition sample_work :: "work_lane \<Rightarrow> work_item" where
  "sample_work lane = routed_item.extend (sample_routed lane [])
     (work_item.fields (deriveClaimWorkScheduling (sample_routed lane []) []))"

theorem selection_sort_correct_witness:
  "sorted_wrt (\<lambda>x y. compareClaimWorkItemsForSelection x y \<le> 0)
     (js_sort compareClaimWorkItemsForSelection [sample_work Lane_synthesis, sample_work Lane_evaluation])"
  using selection_sort_correct [of "[sample_work Lane_synthesis, sample_work Lane_evaluation]"] by blast

end
