(* ===== verification/Reward_Targets.thy ===== *)
theory Reward_Targets
  imports Work_Types
begin

text \<open>
  \<open>rewards/types.ts\<close> and the first part of \<open>rewards/policy.ts\<close>: the kinds of rewarded work, the
  pricing table, the pressure of a pool, and the split of a claim's reward pool over the work items
  of one kind. Amounts are wei; \<open>bigint\<close> is \<open>int\<close>, whose division truncates in JavaScript.
\<close>

datatype reward_work_kind =
    Kind_challenge | Kind_forecast | Kind_maintenance | Kind_replication | Kind_review | Kind_synthesis

text \<open>The keys of \<open>POLICY_CONFIG\<close> in the order of the source.\<close>

definition policy_kinds :: "reward_work_kind list" where
  "policy_kinds = [Kind_challenge, Kind_forecast, Kind_maintenance, Kind_replication, Kind_review,
     Kind_synthesis]"

lemma policy_kinds_complete: "k \<in> set policy_kinds"
  by (cases k) (simp_all add: policy_kinds_def)

lemma distinct_policy_kinds: "distinct policy_kinds"
  by (simp add: policy_kinds_def)

fun show_work_kind :: "reward_work_kind \<Rightarrow> string" where
  "show_work_kind Kind_challenge = ''challenge''"
| "show_work_kind Kind_forecast = ''forecast''"
| "show_work_kind Kind_maintenance = ''maintenance''"
| "show_work_kind Kind_replication = ''replication''"
| "show_work_kind Kind_review = ''review''"
| "show_work_kind Kind_synthesis = ''synthesis''"

definition rewardWorkKindForReviewTaskType :: "review_task_type \<Rightarrow> reward_work_kind" where
  "rewardWorkKindForReviewTaskType taskType =
     (if taskType = Certification_synthesis_check then Kind_synthesis else Kind_review)"

text \<open>A review item's source type is its task type; the two other kinds do not read it.\<close>

definition rewardWorkKindForWorkItem :: "work_item_kind \<Rightarrow> work_source_type \<Rightarrow> reward_work_kind" where
  "rewardWorkKindForWorkItem kind sourceType =
     (if kind = Review_task
      then (case sourceType of Src_review t \<Rightarrow> rewardWorkKindForReviewTaskType t | _ \<Rightarrow> Kind_review)
      else if kind = Replication_job then Kind_replication
      else Kind_maintenance)"

section \<open>The pricing table\<close>

record policy_config =
  pc_baseRewardWei :: int
  pc_distributionFractionBps :: int
  pc_fundingTargetWei :: int
  pc_minimumQualityBps :: int

text \<open>\<open>parseEther\<close> of a decimal with three places: \<open>milli_ether 8\<close> is \<open>parseEther("0.008")\<close>.\<close>

definition milli_ether :: "int \<Rightarrow> int" where
  "milli_ether n = n * 10 ^ 15"

fun POLICY_CONFIG :: "reward_work_kind \<Rightarrow> policy_config" where
  "POLICY_CONFIG Kind_challenge = \<lparr>pc_baseRewardWei = milli_ether 8, pc_distributionFractionBps = 6000,
     pc_fundingTargetWei = milli_ether 80, pc_minimumQualityBps = 6500\<rparr>"
| "POLICY_CONFIG Kind_forecast = \<lparr>pc_baseRewardWei = milli_ether 4, pc_distributionFractionBps = 4000,
     pc_fundingTargetWei = milli_ether 40, pc_minimumQualityBps = 6000\<rparr>"
| "POLICY_CONFIG Kind_maintenance = \<lparr>pc_baseRewardWei = milli_ether 3, pc_distributionFractionBps = 5000,
     pc_fundingTargetWei = milli_ether 30, pc_minimumQualityBps = 7000\<rparr>"
| "POLICY_CONFIG Kind_replication = \<lparr>pc_baseRewardWei = milli_ether 10, pc_distributionFractionBps = 7000,
     pc_fundingTargetWei = milli_ether 100, pc_minimumQualityBps = 7500\<rparr>"
| "POLICY_CONFIG Kind_review = \<lparr>pc_baseRewardWei = milli_ether 5, pc_distributionFractionBps = 6000,
     pc_fundingTargetWei = milli_ether 50, pc_minimumQualityBps = 6000\<rparr>"
| "POLICY_CONFIG Kind_synthesis = \<lparr>pc_baseRewardWei = milli_ether 6, pc_distributionFractionBps = 5000,
     pc_fundingTargetWei = milli_ether 60, pc_minimumQualityBps = 7500\<rparr>"

section \<open>Integer helpers\<close>

text \<open>Division of \<open>bigint\<close>s truncates towards zero; every divisor of the sources is positive.\<close>

definition big_div :: "int \<Rightarrow> int \<Rightarrow> int" where
  "big_div a b = sgn a * sgn b * (\<bar>a\<bar> div \<bar>b\<bar>)"

definition clampInteger :: "int \<Rightarrow> int \<Rightarrow> int \<Rightarrow> int" where
  "clampInteger v lo hi = (if v < lo then lo else if v > hi then hi else v)"

lemma big_div_nonneg: "0 \<le> a \<Longrightarrow> 0 < b \<Longrightarrow> big_div a b = a div b"
  by (cases "a = 0") (simp_all add: big_div_def)

lemma clampInteger_bounds [bounds_intros]:
  "lo \<le> hi \<Longrightarrow> lo \<le> clampInteger v lo hi"
  "lo \<le> hi \<Longrightarrow> clampInteger v lo hi \<le> hi"
  by (simp_all add: clampInteger_def)

lemma clampInteger_mono: "lo \<le> hi \<Longrightarrow> v \<le> w \<Longrightarrow> clampInteger v lo hi \<le> clampInteger w lo hi"
  by (simp add: clampInteger_def)

definition normalizeAddress :: "string option \<Rightarrow> string option" where
  "normalizeAddress input =
     (case input of
        None \<Rightarrow> None
      | Some s \<Rightarrow> if js_trim s \<noteq> [] \<and> length (js_trim s) > 0 then Some (js_trim s) else None)"

definition marketPressureBps :: "int \<Rightarrow> int \<Rightarrow> int" where
  "marketPressureBps poolBalanceWei fundingTargetWei =
     (if fundingTargetWei \<le> 0 then 10000
      else clampInteger (big_div (poolBalanceWei * 10000) fundingTargetWei) 5000 20000)"

section \<open>The targets of a group\<close>

text \<open>
  What the discounts and the split read of a candidate; the policy's candidates extend it (the
  source's type parameter \<open>T extends { itemId, qualityBps }\<close>).
\<close>

record reward_candidate =
  rk_itemId :: string
  rk_qualityBps :: int

record reward_allocation =
  al_itemId :: string
  al_targetTotalWei :: int

record reward_targets =
  tg_allocations :: "reward_allocation list"
  tg_distributablePoolWei :: int
  tg_marketPressureBps :: int

definition marketPressureFor :: "int option \<Rightarrow> int \<Rightarrow> reward_work_kind \<Rightarrow> int" where
  "marketPressureFor attention pool kind =
     clampInteger (big_div (marketPressureBps pool (pc_fundingTargetWei (POLICY_CONFIG kind)) *
       nullish attention 10000) 10000) 5000 25000"

definition distributablePool :: "int option \<Rightarrow> int \<Rightarrow> reward_work_kind \<Rightarrow> int" where
  "distributablePool attention pool kind =
     clampInteger (big_div (big_div (pool * pc_distributionFractionBps (POLICY_CONFIG kind)) 10000 *
       nullish attention 10000) 10000) 0 pool"

definition rawTarget :: "reward_work_kind \<Rightarrow> int \<Rightarrow> 'a reward_candidate_scheme \<Rightarrow> int" where
  "rawTarget kind marketPressure candidate =
     (if rk_qualityBps candidate < pc_minimumQualityBps (POLICY_CONFIG kind) then 0
      else positive_or_zero (big_div
        (pc_baseRewardWei (POLICY_CONFIG kind) * rk_qualityBps candidate * marketPressure) (10000 * 10000)))"

definition zeroAllocations :: "'a reward_candidate_scheme list \<Rightarrow> reward_allocation list" where
  "zeroAllocations candidates =
     map (\<lambda>c. \<lparr>al_itemId = rk_itemId c, al_targetTotalWei = 0\<rparr>) candidates"

definition deriveRewardTargetsForGroup ::
  "int option \<Rightarrow> 'a reward_candidate_scheme list \<Rightarrow> int \<Rightarrow> reward_work_kind \<Rightarrow> reward_targets" where
  "deriveRewardTargetsForGroup attention candidates pool kind =
     (let marketPressure = marketPressureFor attention pool kind;
          distributable = distributablePool attention pool kind;
          rawTargets = map (rawTarget kind marketPressure) candidates;
          rawTargetSum = fold (\<lambda>current sum. sum + current) rawTargets 0;
          allocations =
            (if distributable = 0 \<or> candidates = [] then zeroAllocations candidates
             else if rawTargetSum = 0 then zeroAllocations candidates
             else map (\<lambda>(c, raw). \<lparr>al_itemId = rk_itemId c,
                    al_targetTotalWei = big_div (distributable * raw) rawTargetSum\<rparr>)
                  (zip candidates rawTargets))
      in \<lparr>tg_allocations = allocations, tg_distributablePoolWei = distributable,
          tg_marketPressureBps = marketPressure\<rparr>)"

section \<open>Facts about the split\<close>

lemma policy_config_facts [simp]:
  "0 < pc_baseRewardWei (POLICY_CONFIG kind)"
  "0 < pc_fundingTargetWei (POLICY_CONFIG kind)"
  "0 < pc_distributionFractionBps (POLICY_CONFIG kind)"
  "pc_distributionFractionBps (POLICY_CONFIG kind) \<le> 7000"
  "0 < pc_minimumQualityBps (POLICY_CONFIG kind)"
  by (cases kind; simp add: milli_ether_def)+

lemma marketPressureBps_bounds [bounds_intros]:
  "5000 \<le> marketPressureBps pool target" "marketPressureBps pool target \<le> 20000"
  by (simp_all add: marketPressureBps_def bounds_intros)

lemma marketPressureFor_bounds [bounds_intros]:
  "5000 \<le> marketPressureFor attention pool kind" "marketPressureFor attention pool kind \<le> 25000"
  by (simp_all add: marketPressureFor_def bounds_intros)

lemma distributablePool_bounds [bounds_intros]:
  "0 \<le> pool \<Longrightarrow> 0 \<le> distributablePool attention pool kind"
  "0 \<le> pool \<Longrightarrow> distributablePool attention pool kind \<le> pool"
  by (simp_all add: distributablePool_def bounds_intros)

lemma rawTarget_nonneg [simp]: "0 \<le> rawTarget kind mp c"
  by (simp add: rawTarget_def)

lemma rawTarget_mono:
  assumes "0 \<le> mp" and "rk_qualityBps c \<le> rk_qualityBps d"
  shows "rawTarget kind mp c \<le> rawTarget kind mp d"
proof (cases "rk_qualityBps c < pc_minimumQualityBps (POLICY_CONFIG kind)")
  case True
  then show ?thesis by (simp add: rawTarget_def)
next
  case False
  let ?b = "pc_baseRewardWei (POLICY_CONFIG kind)"
  have q: "0 \<le> rk_qualityBps c" using False policy_config_facts(5) [of kind] by linarith
  have "?b * rk_qualityBps c * mp \<le> ?b * rk_qualityBps d * mp"
    using assms by (intro mult_right_mono mult_left_mono) (simp_all add: less_imp_le)
  moreover have "0 \<le> ?b * rk_qualityBps c * mp" "0 \<le> ?b * rk_qualityBps d * mp"
    using q assms by (simp_all add: less_imp_le)
  ultimately show ?thesis using False assms
    by (simp add: rawTarget_def big_div_nonneg zdiv_mono1 positive_or_zero_mono)
qed

lemma sum_scaled_div_le:
  assumes "0 < (s::int)"
  shows "sum_list (map (\<lambda>x. d * f x div s) xs) * s \<le> d * sum_list (map f xs)"
proof (induction xs)
  case (Cons x xs)
  have "d * f x div s * s \<le> d * f x"
    using assms pos_mod_sign [OF assms, of "d * f x"] div_mult_mod_eq [of "d * f x" s] by linarith
  with Cons show ?case by (simp add: distrib_left distrib_right)
qed simp

lemma sum_scaled_div_ge:
  assumes "0 < (s::int)"
  shows "d * sum_list (map f xs) \<le> (sum_list (map (\<lambda>x. d * f x div s) xs) + int (length xs)) * s"
proof (induction xs)
  case (Cons x xs)
  have "d * f x < (d * f x div s + 1) * s"
    using pos_mod_bound [OF assms, of "d * f x"] div_mult_mod_eq [of "d * f x" s]
    unfolding distrib_right by linarith
  with Cons show ?case by (simp add: distrib_left distrib_right)
qed simp

lemma fold_sum: "fold (\<lambda>current sum. sum + current) xs a = a + sum_list xs" for a :: int
  by (induction xs arbitrary: a) simp_all

lemma map_zip_map: "map (\<lambda>(c, r). g c r) (zip cs (map f cs)) = map (\<lambda>c. g c (f c)) cs"
  by (induction cs) simp_all

text \<open>One candidate's share, the allocation in every branch.\<close>

definition targetShare ::
  "int option \<Rightarrow> 'a reward_candidate_scheme list \<Rightarrow> int \<Rightarrow> reward_work_kind \<Rightarrow> 'b reward_candidate_scheme \<Rightarrow> int" where
  "targetShare attention candidates pool kind c =
     distributablePool attention pool kind * rawTarget kind (marketPressureFor attention pool kind) c div
       sum_list (map (rawTarget kind (marketPressureFor attention pool kind)) candidates)"

lemma rawTarget_sum_nonneg [simp]: "0 \<le> sum_list (map (rawTarget kind mp) cs)"
  by (induction cs) simp_all

lemma targets_allocations:
  assumes "0 \<le> pool"
  shows "tg_allocations (deriveRewardTargetsForGroup attention cs pool kind) =
    map (\<lambda>c. \<lparr>al_itemId = rk_itemId c, al_targetTotalWei = targetShare attention cs pool kind c\<rparr>) cs"
proof -
  let ?raw = "rawTarget kind (marketPressureFor attention pool kind)"
  let ?d = "distributablePool attention pool kind"
  have d: "0 \<le> ?d" using assms by (rule bounds_intros)
  have pos: "0 < sum_list (map ?raw cs)" if "sum_list (map ?raw cs) \<noteq> 0"
    using that rawTarget_sum_nonneg [of kind "marketPressureFor attention pool kind" cs] by linarith
  show ?thesis
  proof (cases "?d = 0 \<or> cs = [] \<or> sum_list (map ?raw cs) = 0")
    case True
    then show ?thesis
      by (auto simp: deriveRewardTargetsForGroup_def Let_def fold_sum zeroAllocations_def targetShare_def)
  next
    case False
    then show ?thesis using d pos
      by (simp add: deriveRewardTargetsForGroup_def Let_def fold_sum map_zip_map targetShare_def
          big_div_nonneg)
  qed
qed

lemma targetShare_nonneg:
  assumes "0 \<le> pool"
  shows "0 \<le> targetShare attention cs pool kind c"
proof (cases "sum_list (map (rawTarget kind (marketPressureFor attention pool kind)) cs) = 0")
  case True
  then show ?thesis by (simp add: targetShare_def)
next
  case False
  then have "0 < sum_list (map (rawTarget kind (marketPressureFor attention pool kind)) cs)"
    by (simp add: order_less_le)
  then show ?thesis
    using distributablePool_bounds(1) [OF assms, of attention kind]
    by (simp add: targetShare_def pos_imp_zdiv_nonneg_iff)
qed

lemma targetShare_sum:
  assumes "0 \<le> pool"
  shows "sum_list (map (targetShare attention cs pool kind) cs) \<le> distributablePool attention pool kind"
proof (cases "sum_list (map (rawTarget kind (marketPressureFor attention pool kind)) cs) = 0")
  case True
  then have "map (targetShare attention cs pool kind) cs = map (\<lambda>_. 0) cs"
    by (simp add: targetShare_def)
  then show ?thesis using distributablePool_bounds(1) [OF assms] by (simp only: sum_list_0)
next
  case False
  let ?s = "sum_list (map (rawTarget kind (marketPressureFor attention pool kind)) cs)"
  have s: "0 < ?s" using False rawTarget_sum_nonneg by (simp only: order_less_le) simp
  have "sum_list (map (targetShare attention cs pool kind) cs) * ?s \<le>
      distributablePool attention pool kind * ?s"
    unfolding targetShare_def using sum_scaled_div_le [OF s] by (simp add: mult.commute)
  with s show ?thesis by simp
qed

lemma targetShare_mono:
  assumes "0 \<le> pool" and "rk_qualityBps c \<le> rk_qualityBps d"
  shows "targetShare attention cs pool kind c \<le> targetShare attention cs pool kind d"
proof -
  let ?mp = "marketPressureFor attention pool kind"
  have "rawTarget kind ?mp c \<le> rawTarget kind ?mp d"
    using assms marketPressureFor_bounds(1) [of attention pool kind] by (intro rawTarget_mono) simp_all
  then have "distributablePool attention pool kind * rawTarget kind ?mp c \<le>
      distributablePool attention pool kind * rawTarget kind ?mp d"
    using distributablePool_bounds(1) [OF assms(1)] by (intro mult_left_mono) simp_all
  then show ?thesis
    unfolding targetShare_def
    by (cases "sum_list (map (rawTarget kind ?mp) cs) = 0")
       (simp_all add: zdiv_mono1 order_less_le)
qed

section \<open>Properties\<close>

text \<open>
  C1: The split of a reward pool never promises more than the pool holds. Every candidate gets one
  allocation, in order and under its item id; no allocation is negative, one below the kind's
  minimum quality gets nothing, and together they are at most the distributable part, which is at
  most the pool's balance.
\<close>

theorem reward_targets_within_pool:
  assumes "0 \<le> pool"
  shows "map al_itemId (tg_allocations (deriveRewardTargetsForGroup attention cs pool kind)) = map rk_itemId cs \<and>
    list_all2 (\<lambda>c a. 0 \<le> al_targetTotalWei a \<and>
        (rk_qualityBps c < pc_minimumQualityBps (POLICY_CONFIG kind) \<longrightarrow> al_targetTotalWei a = 0))
      cs (tg_allocations (deriveRewardTargetsForGroup attention cs pool kind)) \<and>
    sum_list (map al_targetTotalWei (tg_allocations (deriveRewardTargetsForGroup attention cs pool kind)))
      \<le> tg_distributablePoolWei (deriveRewardTargetsForGroup attention cs pool kind) \<and>
    tg_distributablePoolWei (deriveRewardTargetsForGroup attention cs pool kind) \<le> pool"
proof -
  have "targetShare attention cs pool kind c = 0"
    if "rk_qualityBps c < pc_minimumQualityBps (POLICY_CONFIG kind)" for c :: "'a reward_candidate_scheme"
    using that by (simp add: targetShare_def rawTarget_def)
  moreover have "tg_distributablePoolWei (deriveRewardTargetsForGroup attention cs pool kind) =
      distributablePool attention pool kind"
    by (simp add: deriveRewardTargetsForGroup_def Let_def)
  ultimately show ?thesis
    by (simp add: targets_allocations [OF assms] comp_def list_all2_conv_all_nth
        targetShare_nonneg [OF assms] targetShare_sum [OF assms] distributablePool_bounds(2) [OF assms])
qed

text \<open>
  The split is fair and wastes nothing but rounding. A candidate of higher quality never gets
  less than one of lower quality, and as soon as one candidate has a positive raw target the
  allocations add up to the distributable pool but for at most one wei per candidate.
\<close>

theorem reward_targets_fair:
  assumes "0 \<le> pool" and "i < length cs" and "j < length cs" and "k < length cs"
    and "rk_qualityBps (cs ! i) \<le> rk_qualityBps (cs ! j)"
    and "0 < rawTarget kind (marketPressureFor attention pool kind) (cs ! k)"
  shows "al_targetTotalWei (tg_allocations (deriveRewardTargetsForGroup attention cs pool kind) ! i) \<le>
      al_targetTotalWei (tg_allocations (deriveRewardTargetsForGroup attention cs pool kind) ! j) \<and>
    tg_distributablePoolWei (deriveRewardTargetsForGroup attention cs pool kind) - int (length cs) \<le>
      sum_list (map al_targetTotalWei (tg_allocations (deriveRewardTargetsForGroup attention cs pool kind)))"
proof -
  let ?raw = "rawTarget kind (marketPressureFor attention pool kind)"
  let ?s = "sum_list (map ?raw cs)"
  have "?raw (cs ! k) \<le> ?s"
    using assms(4) by (intro member_le_sum_list) auto
  then have s: "0 < ?s" using assms(6) by linarith
  have "distributablePool attention pool kind * ?s \<le>
      (sum_list (map (targetShare attention cs pool kind) cs) + int (length cs)) * ?s"
    unfolding targetShare_def using sum_scaled_div_ge [OF s] by blast
  then have "distributablePool attention pool kind \<le>
      sum_list (map (targetShare attention cs pool kind) cs) + int (length cs)"
    using s by simp
  moreover have "tg_distributablePoolWei (deriveRewardTargetsForGroup attention cs pool kind) =
      distributablePool attention pool kind"
    by (simp add: deriveRewardTargetsForGroup_def Let_def)
  ultimately show ?thesis
    using targetShare_mono [OF assms(1,5)] assms(2,3)
    by (simp add: targets_allocations [OF assms(1)] comp_def)
qed

subsection \<open>Witnesses\<close>

definition sample_candidates :: "reward_candidate list" where
  "sample_candidates = [\<lparr>rk_itemId = ''review-task:1'', rk_qualityBps = 10000\<rparr>,
     \<lparr>rk_itemId = ''review-task:2'', rk_qualityBps = 5999\<rparr>,
     \<lparr>rk_itemId = ''review-task:3'', rk_qualityBps = 6000\<rparr>]"

theorem reward_targets_within_pool_witness:
  "map al_targetTotalWei (tg_allocations
     (deriveRewardTargetsForGroup None sample_candidates (milli_ether 10) Kind_review)) =
     [3750000000000000, 0, 2250000000000000] \<and>
   sum_list [3750000000000000, 0, 2250000000000000] \<le> milli_ether 10"
proof -
  have e: "map al_targetTotalWei (tg_allocations
     (deriveRewardTargetsForGroup None sample_candidates (milli_ether 10) Kind_review)) =
     [3750000000000000, 0, 2250000000000000]"
    by code_simp
  have "0 \<le> milli_ether 10" by (simp add: milli_ether_def)
  from reward_targets_within_pool [OF this, of None sample_candidates Kind_review]
  have "sum_list (map al_targetTotalWei (tg_allocations
     (deriveRewardTargetsForGroup None sample_candidates (milli_ether 10) Kind_review))) \<le> milli_ether 10"
    by linarith
  then show ?thesis by (simp only: e simp_thms)
qed

theorem reward_targets_fair_witness:
  "al_targetTotalWei (tg_allocations
     (deriveRewardTargetsForGroup None sample_candidates (milli_ether 10) Kind_review) ! 2) \<le>
   al_targetTotalWei (tg_allocations
     (deriveRewardTargetsForGroup None sample_candidates (milli_ether 10) Kind_review) ! 0)"
proof -
  have p: "0 \<le> milli_ether 10" by (simp add: milli_ether_def)
  have r: "0 < rawTarget Kind_review (marketPressureFor None (milli_ether 10) Kind_review) (sample_candidates ! 0)"
    by code_simp
  show ?thesis
    using reward_targets_fair [OF p _ _ _ _ r, of 2 0] by (simp add: sample_candidates_def)
qed

end
