(* ===== verification/Work_Items.thy ===== *)
theory Work_Items
  imports Work_Selection
begin

text \<open>
  \<open>work/graph.ts\<close>, first half: the helpers and the translation of review tasks, replication jobs
  and maintenance tasks with their runs into work items.
\<close>

section \<open>Helpers\<close>

definition shortKey :: "string \<Rightarrow> nat \<Rightarrow> string" where
  "shortKey s maxLength =
     (if length s \<le> maxLength then s else take 8 s @ ''...'' @ drop (length s - 6) s)"

definition uniqueStrings :: "string option list \<Rightarrow> string list" where
  "uniqueStrings vs = js_nub (List.map_filter
     (\<lambda>v. case v of None \<Rightarrow> None | Some s \<Rightarrow> if length (js_trim s) > 0 then Some s else None) vs)"

lemma set_uniqueStrings: "set (uniqueStrings vs) = {s. Some s \<in> set vs \<and> js_trim s \<noteq> []}"
  by (induction vs) (auto simp: uniqueStrings_def List.map_filter_def split: option.splits if_splits)

lemma distinct_uniqueStrings [simp]: "distinct (uniqueStrings vs)"
  by (simp add: uniqueStrings_def)

definition subjectPriority :: "subject_type \<Rightarrow> int" where
  "subjectPriority t = (if t = ST_claim \<or> t = ST_source_record then 0
     else if t = ST_claim_artifact then 1 else 2)"

definition hasRunningRun :: "work_run list \<Rightarrow> bool" where
  "hasRunningRun runs = list_ex (\<lambda>run. run_status run = Run_running) runs"

definition toReviewStatus :: "review_task \<Rightarrow> work_run list \<Rightarrow> work_status" where
  "toReviewStatus task runs =
     (if hasRunningRun runs then WS_leased
      else case rt_status task of
        RT_open \<Rightarrow> WS_open
      | RT_completed \<Rightarrow> WS_completed
      | RT_escalated \<Rightarrow> WS_escalated
      | RT_canceled \<Rightarrow> WS_canceled)"

definition toReplicationStatus :: "replication_job \<Rightarrow> work_run list \<Rightarrow> work_status" where
  "toReplicationStatus job runs =
     (if hasRunningRun runs then WS_leased
      else case jv_status job of
        Job_open \<Rightarrow> WS_open
      | Job_assigned \<Rightarrow> WS_leased
      | Job_completed \<Rightarrow> WS_completed
      | Job_failed \<Rightarrow> WS_failed)"

definition toMaintenanceStatus :: "maintenance_task \<Rightarrow> work_run list \<Rightarrow> work_status" where
  "toMaintenanceStatus task runs =
     (if hasRunningRun runs then WS_leased
      else case mt_status task of
        Job_open \<Rightarrow> WS_open
      | Job_assigned \<Rightarrow> WS_leased
      | Job_completed \<Rightarrow> WS_completed
      | Job_failed \<Rightarrow> WS_failed)"

text \<open>The union argument of \<open>toClaimWorkRunView\<close>, one function per member.\<close>

definition toClaimWorkRunView_review :: "review_task_run \<Rightarrow> work_run" where
  "toClaimWorkRunView_review run = \<lparr>run_agentId = rr_agentId run,
     run_failureReason = rr_failureReason run, run_finishedAt = rr_finishedAt run,
     run_lastHeartbeatAt = rr_lastHeartbeatAt run, run_runId = rr_runId run,
     run_startedAt = rr_startedAt run, run_status = rr_status run, run_workerId = rr_workerId run\<rparr>"

definition toClaimWorkRunView_replication :: "replication_job_run \<Rightarrow> work_run" where
  "toClaimWorkRunView_replication run = \<lparr>run_agentId = jr_agentId run,
     run_failureReason = jr_failureReason run, run_finishedAt = jr_finishedAt run,
     run_lastHeartbeatAt = jr_lastHeartbeatAt run, run_runId = jr_runId run,
     run_startedAt = jr_startedAt run, run_status = jr_status run, run_workerId = jr_workerId run\<rparr>"

definition toClaimWorkRunView_maintenance :: "maintenance_task_run \<Rightarrow> work_run" where
  "toClaimWorkRunView_maintenance run = \<lparr>run_agentId = mr_agentId run,
     run_failureReason = mr_failureReason run, run_finishedAt = mr_finishedAt run,
     run_lastHeartbeatAt = mr_lastHeartbeatAt run, run_runId = mr_runId run,
     run_startedAt = mr_startedAt run, run_status = mr_status run, run_workerId = mr_workerId run\<rparr>"

definition payloadSummary :: "(string \<times> json) list \<Rightarrow> string option" where
  "payloadSummary payload =
     (case jm_get payload ''summary'' of Some (JStr s) \<Rightarrow> if length s > 0 then Some s else None | _ \<Rightarrow> None)"

definition toReviewSubmissionResult :: "review_submission \<Rightarrow> work_result" where
  "toReviewSubmissionResult s = \<lparr>
     res_artifactKey = orelse (rs_resultArtifactKey s) (rs_evidenceArtifactKey s),
     res_confidenceBps = Some (rs_confidenceBps s),
     res_createdAt = Some (rs_createdAt s),
     res_label = js_title_case (show_verdict (rs_verdict s)),
     res_summary = nullish (payloadSummary (rs_payload s))
       (js_title_case (show_review_task_type (rs_reviewType s)) @ '' returned '' @
        show_verdict (rs_verdict s) @ ''.''),
     res_type = Review_submission_result,
     res_verdict = Some (show_verdict (rs_verdict s))\<rparr>"

text \<open>
  The optional arguments of \<open>collectClaimWorkArtifactKeys\<close> default to empty arrays; the model's
  callers pass \<open>[]\<close> for those they omit.
\<close>

definition collectClaimWorkArtifactKeys ::
  "maintenance_task list \<Rightarrow> work_result list \<Rightarrow> replication_job list \<Rightarrow> review_submission list \<Rightarrow>
   review_task list \<Rightarrow> string list" where
  "collectClaimWorkArtifactKeys mtasks results jobs submissions tasks = uniqueStrings
     (concat (map (\<lambda>t. rt_resultArtifactKey t # map Some (rt_inputArtifactKeys t)) tasks) @
      concat (map (\<lambda>s. [rs_resultArtifactKey s, rs_evidenceArtifactKey s]) submissions) @
      map res_artifactKey results @
      map jv_resultArtifactKey jobs @
      concat (map (\<lambda>t. [Some (mt_artifactKey t), mt_resultArtifactKey t]) mtasks))"

definition heartbeatOrStart :: "work_run \<Rightarrow> string" where
  "heartbeatOrStart run = nullish (run_lastHeartbeatAt run) (run_startedAt run)"

definition activeRun :: "work_run list \<Rightarrow> work_run option" where
  "activeRun runs =
     (case js_sort (\<lambda>l r. locale_compare (heartbeatOrStart r) (heartbeatOrStart l))
             (filter (\<lambda>run. run_status run = Run_running) runs) of
        [] \<Rightarrow> None | run # _ \<Rightarrow> Some run)"

definition reviewResult :: "review_task \<Rightarrow> work_result list \<Rightarrow> review_submission list \<Rightarrow> work_result option" where
  "reviewResult task results submissions =
     (case js_sort (\<lambda>l r. locale_compare (nullish (res_createdAt r) []) (nullish (res_createdAt l) [])) results of
        latest # _ \<Rightarrow> Some latest
      | [] \<Rightarrow>
          if rt_status task = RT_completed then
            Some \<lparr>res_artifactKey = rt_resultArtifactKey task, res_confidenceBps = None,
              res_createdAt = Some (nullish (rt_completedAt task) (rt_updatedAt task)),
              res_label = ''Completed'',
              res_summary = ''Consensus threshold was reached without a retained latest submission payload.'',
              res_type = Review_submission_result, res_verdict = None\<rparr>
          else case js_sort (\<lambda>l r. locale_compare (rs_createdAt r) (rs_createdAt l)) submissions of
            recent # _ \<Rightarrow> Some (toReviewSubmissionResult recent)
          | [] \<Rightarrow> None)"

definition replicationResult :: "replication_job \<Rightarrow> work_result option" where
  "replicationResult job =
     (if jv_status job \<noteq> Job_completed then None
      else Some \<lparr>res_artifactKey = jv_resultArtifactKey job, res_confidenceBps = None,
        res_createdAt = Some (nullish (jv_completedAt job) (jv_updatedAt job)),
        res_label = (if truthy (jv_onchainReplicationId job)
                     then ''Replication '' @ the (jv_onchainReplicationId job)
                     else ''Replication completed''),
        res_summary = (if truthy (jv_onchainReplicationId job)
                       then ''Replication '' @ the (jv_onchainReplicationId job) @
                            '' was posted for claim '' @ jv_claimId job @ ''.''
                       else ''The replication job completed and persisted a result artifact.''),
        res_type = Replication_result, res_verdict = Some ''completed''\<rparr>)"

definition maintenanceResult :: "maintenance_task \<Rightarrow> work_result option" where
  "maintenanceResult task =
     (if mt_status task \<noteq> Job_completed then None
      else Some \<lparr>res_artifactKey = mt_resultArtifactKey task, res_confidenceBps = None,
        res_createdAt = Some (nullish (mt_completedAt task) (mt_updatedAt task)),
        res_label = (if mt_taskType task = Maint_repair then ''Repair completed'' else ''Audit completed''),
        res_summary = (if mt_taskType task = Maint_repair
                       then ''Repair completed for artifact '' @ shortKey (mt_artifactKey task) 18 @ ''.''
                       else ''Audit report recorded for artifact '' @ shortKey (mt_artifactKey task) 18 @ ''.''),
        res_type = Artifact_report, res_verdict = Some (show_maintenance_task_type (mt_taskType task))\<rparr>)"

section \<open>Work items\<close>

text \<open>\<open>submissions.map(s => s.reviewerAgentId ?? "").filter(nonempty)\<close>, and the same over completed runs.\<close>

definition submissionAgentIds :: "review_submission list \<Rightarrow> string list" where
  "submissionAgentIds subs = filter (\<lambda>i. length i > 0) (map (\<lambda>s. nullish (rs_reviewerAgentId s) []) subs)"

definition completedRunAgentIds :: "work_run list \<Rightarrow> string list" where
  "completedRunAgentIds runs = filter (\<lambda>i. length i > 0)
     (map (\<lambda>run. nullish (run_agentId run) []) (filter (\<lambda>run. run_status run = Run_completed) runs))"

definition reviewInput :: "review_task \<Rightarrow> work_run list \<Rightarrow> review_submission list \<Rightarrow> orchestration_input" where
  "reviewInput task runs subs = \<lparr>
     oi_agentActions = agentActionsForWorkItem Review_task (Src_review (rt_taskType task)),
     oi_kind = Review_task, oi_lane = laneForReviewTask (rt_taskType task),
     oi_policy = buildReviewWorkPolicy task, oi_runs = runs, oi_status = toReviewStatus task runs,
     oi_successfulContributorAgentIds = submissionAgentIds subs,
     oi_successfulContributionCount = int (length subs)\<rparr>"

definition replicationInput :: "replication_job \<Rightarrow> work_run list \<Rightarrow> orchestration_input" where
  "replicationInput job runs = \<lparr>
     oi_agentActions = agentActionsForWorkItem Replication_job Src_replication_job,
     oi_kind = Replication_job, oi_lane = Lane_execution,
     oi_policy = buildReplicationWorkPolicy job, oi_runs = runs,
     oi_status = toReplicationStatus job runs,
     oi_successfulContributorAgentIds = completedRunAgentIds runs,
     oi_successfulContributionCount = (if replicationResult job \<noteq> None then 1 else 0)\<rparr>"

definition maintenanceInput :: "maintenance_task \<Rightarrow> work_run list \<Rightarrow> orchestration_input" where
  "maintenanceInput task runs = \<lparr>
     oi_agentActions = agentActionsForWorkItem Artifact_maintenance (Src_maintenance (mt_taskType task)),
     oi_kind = Artifact_maintenance, oi_lane = Lane_maintenance,
     oi_policy = buildArtifactMaintenanceWorkPolicy task, oi_runs = runs,
     oi_status = toMaintenanceStatus task runs,
     oi_successfulContributorAgentIds = completedRunAgentIds runs,
     oi_successfulContributionCount = (if maintenanceResult task \<noteq> None then 1 else 0)\<rparr>"

definition reviewItemId :: "review_task \<Rightarrow> string" where
  "reviewItemId task = ''review-task:'' @ rt_taskId task"

definition replicationItemId :: "replication_job \<Rightarrow> string" where
  "replicationItemId job = ''replication-job:'' @ jv_jobId job"

definition maintenanceItemId :: "maintenance_task \<Rightarrow> string" where
  "maintenanceItemId task = ''artifact-maintenance:'' @ mt_taskId task"

definition reviewLatest :: "review_task \<Rightarrow> review_submission list \<Rightarrow> work_result option" where
  "reviewLatest task subs = reviewResult task (map toReviewSubmissionResult subs) subs"

text \<open>
  The review item of a claim graph and of a source graph share all but the claim, the subject, the
  description and the extra artifact keys; the last are arguments of the model.
\<close>

definition reviewItem ::
  "string option \<Rightarrow> string \<Rightarrow> string \<Rightarrow> string option list \<Rightarrow> review_task \<Rightarrow> work_run list \<Rightarrow>
   review_submission list \<Rightarrow> orchestrated_item" where
  "reviewItem claimId subjectId description extraKeys task runs subs =
     (let latest = reviewLatest task subs; inp = reviewInput task runs subs
      in \<lparr>wi_activeRun = activeRun runs, wi_agentActions = oi_agentActions inp, wi_claimId = claimId,
          wi_completedAt = rt_completedAt task, wi_createdAt = rt_createdAt task,
          wi_description = description, wi_itemId = reviewItemId task, wi_kind = Review_task,
          wi_lane = oi_lane inp, wi_policy = oi_policy inp,
          wi_relatedArtifactKeys = uniqueStrings (extraKeys @ map Some (rt_inputArtifactKeys task) @
            [rt_resultArtifactKey task, Option.bind latest res_artifactKey]),
          wi_result = latest, wi_runs = runs, wi_scopeKey = Some (rt_scopeKey task),
          wi_sourceType = Src_review (rt_taskType task), wi_status = oi_status inp,
          wi_subjectId = subjectId,
          wi_title = js_title_case (show_review_task_type (rt_taskType task)),
          wi_updatedAt = Some (rt_updatedAt task),
          wi_orchestration = deriveClaimWorkOrchestration inp\<rparr>)"

definition claimReviewDescription :: "review_task \<Rightarrow> string" where
  "claimReviewDescription task =
     (if rt_taskType task = Certification_synthesis_check
      then ''Synthesizes current claim evidence into certification state.''
      else ''Typed agent evaluation for '' @ js_title_case (show_review_task_type (rt_taskType task)) @ ''.'')"

definition sourceReviewDescription :: "review_task \<Rightarrow> string" where
  "sourceReviewDescription task =
     (if rt_taskType task = Claim_extraction_synthesis_check
      then ''Synthesizes competing extraction proposals into a publishable atomic claim candidate.''
      else ''Produces candidate atomic claims with source anchors, scope, and methodology.'')"

definition replicationItem :: "string \<Rightarrow> string \<Rightarrow> replication_job \<Rightarrow> work_run list \<Rightarrow> orchestrated_item" where
  "replicationItem claimId subjectId job runs =
     (let result = replicationResult job; inp = replicationInput job runs
      in \<lparr>wi_activeRun = activeRun runs, wi_agentActions = oi_agentActions inp,
          wi_claimId = Some claimId, wi_completedAt = jv_completedAt job, wi_createdAt = jv_createdAt job,
          wi_description = ''Offchain replication brief that can produce a typed scientific replication record.'',
          wi_itemId = replicationItemId job, wi_kind = Replication_job, wi_lane = Lane_execution,
          wi_policy = oi_policy inp, wi_relatedArtifactKeys = uniqueStrings [jv_resultArtifactKey job],
          wi_result = result, wi_runs = runs, wi_scopeKey = Some (''replication-job:'' @ jv_jobId job),
          wi_sourceType = Src_replication_job, wi_status = oi_status inp, wi_subjectId = subjectId,
          wi_title = ''Replication Job '' @ jv_jobId job, wi_updatedAt = Some (jv_updatedAt job),
          wi_orchestration = deriveClaimWorkOrchestration inp\<rparr>)"

definition maintenanceItem :: "string \<Rightarrow> maintenance_task \<Rightarrow> work_run list \<Rightarrow> orchestrated_item" where
  "maintenanceItem claimId task runs =
     (let result = maintenanceResult task; inp = maintenanceInput task runs
      in \<lparr>wi_activeRun = activeRun runs, wi_agentActions = oi_agentActions inp,
          wi_claimId = Some claimId, wi_completedAt = mt_completedAt task, wi_createdAt = mt_createdAt task,
          wi_description = (if mt_taskType task = Maint_repair
            then ''Repairs or re-pins a persisted artifact replica.''
            else ''Audits persisted artifact health across storage targets.''),
          wi_itemId = maintenanceItemId task, wi_kind = Artifact_maintenance, wi_lane = Lane_maintenance,
          wi_policy = oi_policy inp,
          wi_relatedArtifactKeys = uniqueStrings [Some (mt_artifactKey task), mt_resultArtifactKey task],
          wi_result = result, wi_runs = runs, wi_scopeKey = mt_targetReplicaKey task,
          wi_sourceType = Src_maintenance (mt_taskType task), wi_status = oi_status inp,
          wi_subjectId = ''persisted-artifact:'' @ mt_artifactKey task,
          wi_title = js_title_case (show_maintenance_task_type (mt_taskType task)) @ '' Artifact '' @
            shortKey (mt_artifactKey task) 18,
          wi_updatedAt = Some (mt_updatedAt task),
          wi_orchestration = deriveClaimWorkOrchestration inp\<rparr>)"

end
