(* ===== verification/Work_Graph.thy ===== *)
theory Work_Graph
  imports Work_Items
begin

text \<open>
  \<open>work/graph.ts\<close>, second half: routing, scheduling, sorting and the summary of all items of a
  graph, and the graphs of a claim and of a source record. A \<open>Record<string, T>\<close> argument is an
  association list in the order in which \<open>Object.values\<close> lists its properties.
\<close>

section \<open>Finalizing items\<close>

definition withRouting :: "orchestrated_item list \<Rightarrow> orchestrated_item \<Rightarrow> routed_item" where
  "withRouting items item = orchestrated_item.extend item
     (routed_item.fields (deriveClaimWorkRouting item items))"

definition withScheduling :: "routed_item list \<Rightarrow> routed_item \<Rightarrow> work_item" where
  "withScheduling items item = routed_item.extend item
     (work_item.fields (deriveClaimWorkScheduling item items))"

lemma withRouting_simps [simp]:
  "wi_routing (withRouting items item) = deriveClaimWorkRouting item items"
  "wi_orchestration (withRouting items item) = wi_orchestration item"
  "wi_itemId (withRouting items item) = wi_itemId item"
  "wi_lane (withRouting items item) = wi_lane item"
  "wi_status (withRouting items item) = wi_status item"
  "wi_claimId (withRouting items item) = wi_claimId item"
  "wi_policy (withRouting items item) = wi_policy item"
  "wi_updatedAt (withRouting items item) = wi_updatedAt item"
  "wi_createdAt (withRouting items item) = wi_createdAt item"
  "wi_runs (withRouting items item) = wi_runs item"
  "wi_activeRun (withRouting items item) = wi_activeRun item"
  "orchestrated_item.truncate (withRouting items item) = item"
  by (simp_all add: withRouting_def orchestrated_item.defs routed_item.defs)

lemma withScheduling_simps [simp]:
  "wi_scheduling (withScheduling items item) = deriveClaimWorkScheduling item items"
  "wi_routing (withScheduling items item) = wi_routing item"
  "wi_orchestration (withScheduling items item) = wi_orchestration item"
  "wi_itemId (withScheduling items item) = wi_itemId item"
  "wi_lane (withScheduling items item) = wi_lane item"
  "wi_status (withScheduling items item) = wi_status item"
  "wi_claimId (withScheduling items item) = wi_claimId item"
  "wi_policy (withScheduling items item) = wi_policy item"
  "wi_updatedAt (withScheduling items item) = wi_updatedAt item"
  "wi_createdAt (withScheduling items item) = wi_createdAt item"
  "wi_runs (withScheduling items item) = wi_runs item"
  "wi_activeRun (withScheduling items item) = wi_activeRun item"
  "orchestrated_item.truncate (withScheduling items item) = orchestrated_item.truncate item"
  by (simp_all add: withScheduling_def orchestrated_item.defs routed_item.defs work_item.defs)

definition scheduledItems :: "orchestrated_item list \<Rightarrow> work_item list" where
  "scheduledItems items =
     (let routed = map (withRouting items) items in map (withScheduling routed) routed)"

definition compareByActivity :: "work_item \<Rightarrow> work_item \<Rightarrow> int" where
  "compareByActivity left right =
     (if timestampForItem left \<noteq> timestampForItem right
      then locale_compare (timestampForItem right) (timestampForItem left)
      else locale_compare (wi_itemId left) (wi_itemId right))"

definition compareSubjects :: "work_subject \<Rightarrow> work_subject \<Rightarrow> int" where
  "compareSubjects left right =
     (if subjectPriority (ws_subjectType left) \<noteq> subjectPriority (ws_subjectType right)
      then subjectPriority (ws_subjectType left) - subjectPriority (ws_subjectType right)
      else locale_compare (ws_subjectId left) (ws_subjectId right))"

definition participatingAgents :: "work_item list \<Rightarrow> string list" where
  "participatingAgents items = js_nub (List.map_filter
     (\<lambda>run. case run_agentId run of None \<Rightarrow> None | Some a \<Rightarrow> if length a > 0 then Some a else None)
     (concat (map wi_runs items)))"

definition activityTimestamps :: "work_item \<Rightarrow> string option list" where
  "activityTimestamps item =
     [wi_updatedAt item, wi_completedAt item, Option.bind (wi_result item) res_createdAt] @
     concat (map (\<lambda>run. [run_lastHeartbeatAt run, run_finishedAt run, Some (run_startedAt run)]) (wi_runs item))"

definition graphSummary :: "work_item list \<Rightarrow> work_graph_summary" where
  "graphSummary items = \<lparr>
     gs_activeLeases = count_if (\<lambda>i. wi_status i = WS_leased) items,
     gs_autoClaimableItems = count_if (\<lambda>i. wc_autoClaimable (wi_scheduling i)) items,
     gs_completedItems = count_if (\<lambda>i. wi_status i = WS_completed) items,
     gs_dependencyBlockedItems = count_if (\<lambda>i. wc_blocker (wi_scheduling i) = Some ''dependency_blocked'') items,
     gs_failedItems = count_if (\<lambda>i. wi_status i = WS_failed) items,
     gs_freshContributorItems = count_if (\<lambda>i. wc_prefersFreshContributor (wi_scheduling i)) items,
     gs_latestActivityAt = latest_timestamp (concat (map activityTimestamps items)),
     gs_minimumCoverageItems = count_if (\<lambda>i. wc_needsMinimumCoverage (wi_scheduling i)) items,
     gs_openItems = count_if (\<lambda>i. wi_status i = WS_open) items,
     gs_participatingAgents = int (length (participatingAgents items)),
     gs_reassignmentReadyItems = count_if (\<lambda>i. wc_reassignmentPreferred (wi_scheduling i)) items,
     gs_redundancyTargetItems = count_if (\<lambda>i. wc_needsRedundantCoverage (wi_scheduling i)) items,
     gs_totalItems = int (length items),
     gs_uncoveredDemand = fold (\<lambda>i s. s + wc_desiredAdditionalClaims (wi_scheduling i)) items 0,
     gs_lanes = (\<lambda>lane. count_if (\<lambda>i. wi_lane i = lane) items)\<rparr>"

definition finalizeWorkItems ::
  "(string, work_subject) jmap \<Rightarrow> orchestrated_item list \<Rightarrow>
   work_item list \<times> work_subject list \<times> work_graph_summary" where
  "finalizeWorkItems subjects items =
     (let sorted = js_sort compareByActivity (scheduledItems items)
      in (sorted, js_sort compareSubjects (jm_values subjects), graphSummary sorted))"

section \<open>The graph of a claim\<close>

record claim_graph_input =
  ci_artifactMaintenanceRunsByTaskId :: "(string, work_run list) jmap"
  ci_artifactMaintenanceTasks :: "maintenance_task list"
  ci_artifacts :: "artifact_view list"
  ci_claimId :: string
  ci_replicationJobs :: "replication_job list"
  ci_replicationRunsByJobId :: "(string, work_run list) jmap"
  ci_reviewRunsByTaskId :: "(string, work_run list) jmap"
  ci_reviewSubmissionsByTaskId :: "(string, review_submission list) jmap"
  ci_reviewTasks :: "review_task list"

definition persistedSubject :: "string \<Rightarrow> work_subject" where
  "persistedSubject key = \<lparr>ws_href = Some (''/persisted-artifacts/'' @ encode_uri_component key @ ''/view''),
     ws_label = ''Persisted '' @ shortKey key 18, ws_subjectId = ''persisted-artifact:'' @ key,
     ws_subjectType = ST_persisted_artifact\<rparr>"

definition addPersisted :: "string \<Rightarrow> (string, work_subject) jmap \<Rightarrow> (string, work_subject) jmap" where
  "addPersisted key subjects =
     (if jm_get subjects (''persisted-artifact:'' @ key) \<noteq> None then subjects
      else jm_set (''persisted-artifact:'' @ key) (persistedSubject key) subjects)"

definition addArtifact :: "artifact_view \<Rightarrow> (string, work_subject) jmap \<Rightarrow> (string, work_subject) jmap" where
  "addArtifact artifact subjects =
     jm_set (''claim-artifact:'' @ av_artifactId artifact)
       \<lparr>ws_href = Some (av_uri artifact), ws_label = ''Artifact '' @ av_artifactId artifact,
        ws_subjectId = ''claim-artifact:'' @ av_artifactId artifact, ws_subjectType = ST_claim_artifact\<rparr>
       subjects"

definition claimSubject :: "string \<Rightarrow> work_subject" where
  "claimSubject claimId = \<lparr>ws_href = Some (''/claims/'' @ encode_uri_component claimId @ ''/view''),
     ws_label = ''Claim '' @ claimId, ws_subjectId = ''claim:'' @ claimId, ws_subjectType = ST_claim\<rparr>"

definition producesEdge :: "string \<Rightarrow> work_result option \<Rightarrow> work_edge list" where
  "producesEdge itemId result =
     (if truthy (Option.bind result res_artifactKey)
      then [\<lparr>we_fromId = itemId, we_relation = Produces,
             we_toId = ''persisted-artifact:'' @ the (Option.bind result res_artifactKey)\<rparr>]
      else [])"

definition reviewEdges :: "string \<Rightarrow> review_task \<Rightarrow> review_submission list \<Rightarrow> work_edge list" where
  "reviewEdges subjectId task subs =
     \<lparr>we_fromId = subjectId, we_relation = Evaluates, we_toId = reviewItemId task\<rparr> #
     map (\<lambda>key. \<lparr>we_fromId = ''persisted-artifact:'' @ key, we_relation = Input,
                 we_toId = reviewItemId task\<rparr>) (rt_inputArtifactKeys task) @
     producesEdge (reviewItemId task) (reviewLatest task subs)"

definition replicationEdges :: "string \<Rightarrow> replication_job \<Rightarrow> work_edge list" where
  "replicationEdges subjectId job =
     \<lparr>we_fromId = subjectId, we_relation = Reruns, we_toId = replicationItemId job\<rparr> #
     producesEdge (replicationItemId job) (replicationResult job)"

definition maintenanceEdges :: "maintenance_task \<Rightarrow> work_edge list" where
  "maintenanceEdges task =
     \<lparr>we_fromId = ''persisted-artifact:'' @ mt_artifactKey task, we_relation = Maintains,
      we_toId = maintenanceItemId task\<rparr> #
     producesEdge (maintenanceItemId task) (maintenanceResult task)"

definition reviewRuns :: "claim_graph_input \<Rightarrow> review_task \<Rightarrow> work_run list" where
  "reviewRuns inp task = nullish (jm_get (ci_reviewRunsByTaskId inp) (rt_taskId task)) []"

definition reviewSubmissions :: "claim_graph_input \<Rightarrow> review_task \<Rightarrow> review_submission list" where
  "reviewSubmissions inp task = nullish (jm_get (ci_reviewSubmissionsByTaskId inp) (rt_taskId task)) []"

definition replicationRuns :: "claim_graph_input \<Rightarrow> replication_job \<Rightarrow> work_run list" where
  "replicationRuns inp job = nullish (jm_get (ci_replicationRunsByJobId inp) (jv_jobId job)) []"

definition maintenanceRuns :: "claim_graph_input \<Rightarrow> maintenance_task \<Rightarrow> work_run list" where
  "maintenanceRuns inp task = nullish (jm_get (ci_artifactMaintenanceRunsByTaskId inp) (mt_taskId task)) []"

definition claimSubjects :: "claim_graph_input \<Rightarrow> (string, work_subject) jmap" where
  "claimSubjects inp =
     (let s0 = jm_set (''claim:'' @ ci_claimId inp) (claimSubject (ci_claimId inp)) [];
          s1 = fold addArtifact (ci_artifacts inp) s0;
          s2 = fold addPersisted (collectClaimWorkArtifactKeys (ci_artifactMaintenanceTasks inp) []
                 (ci_replicationJobs inp) (concat (jm_values (ci_reviewSubmissionsByTaskId inp)))
                 (ci_reviewTasks inp)) s1
      in fold addPersisted (map mt_artifactKey (ci_artifactMaintenanceTasks inp)) s2)"

definition claimItems :: "claim_graph_input \<Rightarrow> orchestrated_item list" where
  "claimItems inp =
     map (\<lambda>task. reviewItem (Some (ci_claimId inp)) (''claim:'' @ ci_claimId inp)
            (claimReviewDescription task) [] task (reviewRuns inp task) (reviewSubmissions inp task))
       (ci_reviewTasks inp) @
     map (\<lambda>job. replicationItem (ci_claimId inp) (''claim:'' @ ci_claimId inp) job (replicationRuns inp job))
       (ci_replicationJobs inp) @
     map (\<lambda>task. maintenanceItem (ci_claimId inp) task (maintenanceRuns inp task))
       (ci_artifactMaintenanceTasks inp)"

definition claimEdges :: "claim_graph_input \<Rightarrow> work_edge list" where
  "claimEdges inp =
     map (\<lambda>artifact. \<lparr>we_fromId = ''claim:'' @ ci_claimId inp, we_relation = Attaches,
            we_toId = ''claim-artifact:'' @ av_artifactId artifact\<rparr>) (ci_artifacts inp) @
     concat (map (\<lambda>task. reviewEdges (''claim:'' @ ci_claimId inp) task (reviewSubmissions inp task))
       (ci_reviewTasks inp)) @
     concat (map (replicationEdges (''claim:'' @ ci_claimId inp)) (ci_replicationJobs inp)) @
     concat (map maintenanceEdges (ci_artifactMaintenanceTasks inp))"

definition buildClaimWorkGraph :: "claim_graph_input \<Rightarrow> claim_work_graph" where
  "buildClaimWorkGraph inp =
     (case finalizeWorkItems (claimSubjects inp) (claimItems inp) of (items, subjects, summary) \<Rightarrow>
        \<lparr>cg_claimId = ci_claimId inp, cg_edges = claimEdges inp, cg_items = items,
         cg_subjects = subjects, cg_summary = summary\<rparr>)"

section \<open>The graph of a source record\<close>

datatype source_status = Source_discovered | Source_snapshotted | Source_extracting
  | Source_ready_for_publication | Source_published | Source_rejected
datatype discovery_mode = Agent_discovered | User_submitted
datatype source_type = Source_repository | Source_url

record source_record =
  sr_canonicalSourceKey :: string
  sr_createdAt :: string
  sr_discoveryMode :: discovery_mode
  sr_extractionArtifactKey :: "string option"
  sr_publishedClaimId :: "string option"
  sr_snapshotArtifactKey :: "string option"
  sr_sourceId :: string
  sr_sourceMetadata :: "(string \<times> json) list"
  sr_sourceType :: source_type
  sr_status :: source_status
  sr_submittedByActor :: "string option"
  sr_submittedByAgentId :: "string option"
  sr_updatedAt :: string

record source_graph_input =
  si_reviewRunsByTaskId :: "(string, work_run list) jmap"
  si_reviewSubmissionsByTaskId :: "(string, review_submission list) jmap"
  si_reviewTasks :: "review_task list"
  si_source :: source_record

record source_work_graph =
  sg_edges :: "work_edge list"
  sg_items :: "work_item list"
  sg_sourceId :: string
  sg_subjects :: "work_subject list"
  sg_summary :: work_graph_summary

definition sourceLabel :: "source_record \<Rightarrow> string" where
  "sourceLabel source =
     (case jm_get (sr_sourceMetadata source) ''title'' of
        Some (JStr title) \<Rightarrow> if length (js_trim title) > 0 then js_trim title else sr_canonicalSourceKey source
      | _ \<Rightarrow> sr_canonicalSourceKey source)"

definition sourceSubjects :: "source_graph_input \<Rightarrow> (string, work_subject) jmap" where
  "sourceSubjects inp =
     (let source = si_source inp; sid = ''source:'' @ sr_sourceId source;
          s0 = jm_set sid \<lparr>ws_href = Some (''/sources/'' @ encode_uri_component (sr_sourceId source) @ ''/view''),
                 ws_label = sourceLabel source, ws_subjectId = sid, ws_subjectType = ST_source_record\<rparr> []
      in fold addPersisted (uniqueStrings ([sr_snapshotArtifactKey source, sr_extractionArtifactKey source] @
           map Some (collectClaimWorkArtifactKeys [] [] [] (concat (jm_values (si_reviewSubmissionsByTaskId inp)))
             (si_reviewTasks inp)))) s0)"

definition attachEdge :: "string \<Rightarrow> string option \<Rightarrow> work_edge list" where
  "attachEdge sid key = (if truthy key then [\<lparr>we_fromId = sid, we_relation = Attaches,
     we_toId = ''persisted-artifact:'' @ the key\<rparr>] else [])"

definition sourceRuns :: "source_graph_input \<Rightarrow> review_task \<Rightarrow> work_run list" where
  "sourceRuns inp task = nullish (jm_get (si_reviewRunsByTaskId inp) (rt_taskId task)) []"

definition sourceSubmissions :: "source_graph_input \<Rightarrow> review_task \<Rightarrow> review_submission list" where
  "sourceSubmissions inp task = nullish (jm_get (si_reviewSubmissionsByTaskId inp) (rt_taskId task)) []"

definition sourceItems :: "source_graph_input \<Rightarrow> orchestrated_item list" where
  "sourceItems inp = map (\<lambda>task. reviewItem None (''source:'' @ sr_sourceId (si_source inp))
     (sourceReviewDescription task)
     [sr_snapshotArtifactKey (si_source inp), sr_extractionArtifactKey (si_source inp)]
     task (sourceRuns inp task) (sourceSubmissions inp task)) (si_reviewTasks inp)"

definition buildSourceWorkGraph :: "source_graph_input \<Rightarrow> source_work_graph" where
  "buildSourceWorkGraph inp =
     (let source = si_source inp; sid = ''source:'' @ sr_sourceId source;
          edges = attachEdge sid (sr_snapshotArtifactKey source) @ attachEdge sid (sr_extractionArtifactKey source) @
            concat (map (\<lambda>task. reviewEdges sid task (sourceSubmissions inp task)) (si_reviewTasks inp))
      in case finalizeWorkItems (sourceSubjects inp) (sourceItems inp) of (items, subjects, summary) \<Rightarrow>
        \<lparr>sg_edges = edges, sg_items = items, sg_sourceId = sr_sourceId source, sg_subjects = subjects,
         sg_summary = summary\<rparr>)"

end
