(* ===== verification/Work_Graph_Facts.thy ===== *)
theory Work_Graph_Facts
  imports Work_Graph
begin

text \<open>
  What the claim work graph promises: which items it holds and in which order, that its edges join
  declared nodes, that its summary adds up, and that what the scheduler hands out respects every
  item's policy and the lane order of the claim.
\<close>

section \<open>The items of a graph\<close>

interpretation activity_order: comparator compareByActivity
proof -
  have eq: "compareByActivity = (\<lambda>l r.
      if locale_compare (timestampForItem r) (timestampForItem l) \<noteq> 0
      then locale_compare (timestampForItem r) (timestampForItem l)
      else locale_compare (wi_itemId l) (wi_itemId r))"
    by (intro ext) (simp only: compareByActivity_def guarded_return)
  show "comparator compareByActivity"
    unfolding eq by (intro comparator_lex comparator_parts)
qed

interpretation subject_order: comparator compareSubjects
proof -
  have eq: "compareSubjects = (\<lambda>l r.
      if subjectPriority (ws_subjectType l) - subjectPriority (ws_subjectType r) \<noteq> 0
      then subjectPriority (ws_subjectType l) - subjectPriority (ws_subjectType r)
      else locale_compare (ws_subjectId l) (ws_subjectId r))"
    by (intro ext) (simp add: compareSubjects_def)
  show "comparator compareSubjects"
    unfolding eq by (intro comparator_lex comparator_diff comparator_parts)
qed

lemma graph_items: "cg_items (buildClaimWorkGraph inp) = js_sort compareByActivity (scheduledItems (claimItems inp))"
  by (simp add: buildClaimWorkGraph_def finalizeWorkItems_def Let_def)

lemma graph_summary:
  "cg_summary (buildClaimWorkGraph inp) = graphSummary (cg_items (buildClaimWorkGraph inp))"
  by (simp add: buildClaimWorkGraph_def finalizeWorkItems_def Let_def)

lemma scheduledItems_truncate: "map orchestrated_item.truncate (scheduledItems items) = items"
  by (simp add: scheduledItems_def Let_def comp_def)

lemma scheduled_item_cases:
  assumes "i \<in> set (cg_items (buildClaimWorkGraph inp))"
  obtains item where "item \<in> set (claimItems inp)"
    and "i = withScheduling (map (withRouting (claimItems inp)) (claimItems inp)) (withRouting (claimItems inp) item)"
  using assms by (auto simp: graph_items scheduledItems_def Let_def)

lemma claim_item_in_graph:
  "item \<in> set (claimItems inp) \<Longrightarrow>
   withScheduling (map (withRouting (claimItems inp)) (claimItems inp)) (withRouting (claimItems inp) item)
     \<in> set (cg_items (buildClaimWorkGraph inp))"
  by (auto simp: graph_items scheduledItems_def Let_def)

text \<open>Every item carries the orchestration of its own runs, policy and status.\<close>

definition orchestrated_from :: "orchestrated_item \<Rightarrow> orchestration_input \<Rightarrow> bool" where
  "orchestrated_from item oi \<longleftrightarrow> wi_orchestration item = deriveClaimWorkOrchestration oi \<and>
     wi_policy item = oi_policy oi \<and> wi_runs item = oi_runs oi \<and> wi_status item = oi_status oi \<and>
     wi_activeRun item = activeRun (oi_runs oi) \<and> wi_lane item = oi_lane oi"

lemma item_orchestrated:
  "orchestrated_from (reviewItem c s d ks task runs subs) (reviewInput task runs subs)"
  "orchestrated_from (replicationItem c' s job runs) (replicationInput job runs)"
  "orchestrated_from (maintenanceItem c' mtask runs) (maintenanceInput mtask runs)"
  by (simp_all add: orchestrated_from_def reviewItem_def replicationItem_def maintenanceItem_def
      reviewInput_def replicationInput_def maintenanceInput_def Let_def)

lemma claim_item_orchestrated:
  "item \<in> set (claimItems inp) \<Longrightarrow> \<exists>oi. orchestrated_from item oi"
  by (auto simp: claimItems_def intro: item_orchestrated)

lemma item_status_leased:
  "toReviewStatus task runs = WS_leased \<longleftrightarrow> hasRunningRun runs"
  "toReplicationStatus job runs = WS_leased \<longleftrightarrow> hasRunningRun runs \<or> jv_status job = Job_assigned"
  "toMaintenanceStatus mtask runs = WS_leased \<longleftrightarrow> hasRunningRun runs \<or> mt_status mtask = Job_assigned"
  by (simp_all add: toReviewStatus_def toReplicationStatus_def toMaintenanceStatus_def
      split: review_task_status.split job_status.split)

lemma hasRunningRun_active: "hasRunningRun runs \<longleftrightarrow> activeRunCount runs > 0"
  by (auto simp: hasRunningRun_def activeRunCount_def count_if_pos_iff list_ex_iff)

lemma running_leased:
  assumes "item \<in> set (claimItems inp)" and "hasRunningRun (wi_runs item)"
  shows "wi_status item = WS_leased"
  using assms
  by (auto simp: claimItems_def reviewItem_def replicationItem_def maintenanceItem_def Let_def
      reviewInput_def replicationInput_def maintenanceInput_def item_status_leased)

lemma comparator_heartbeat: "comparator (\<lambda>l r. locale_compare (heartbeatOrStart r) (heartbeatOrStart l))"
  by (rule comparator_locale_key_rev)

lemma activeRun_None: "activeRun runs = None \<longleftrightarrow> \<not> hasRunningRun runs"
proof -
  have "activeRun runs = None \<longleftrightarrow> filter (\<lambda>run. run_status run = Run_running) runs = []"
    unfolding activeRun_def by (subst js_sort_Nil_iff [symmetric]) (auto split: list.split)
  then show ?thesis by (auto simp: hasRunningRun_def list_ex_iff filter_empty_conv)
qed

lemma activeRun_Some:
  assumes "activeRun runs = Some run"
  shows "run \<in> set runs" and "run_status run = Run_running"
    and "r \<in> set runs \<Longrightarrow> run_status r = Run_running \<Longrightarrow>
         locale_compare (heartbeatOrStart r) (heartbeatOrStart run) \<le> 0"
proof -
  let ?cmp = "\<lambda>l r. locale_compare (heartbeatOrStart r) (heartbeatOrStart l)"
  let ?running = "filter (\<lambda>run. run_status run = Run_running) runs"
  obtain rest where s: "js_sort ?cmp ?running = run # rest"
    using assms by (auto simp: activeRun_def split: list.splits)
  then have "run \<in> set (js_sort ?cmp ?running)" by simp
  then show "run \<in> set runs" and "run_status run = Run_running" by simp_all
  show "locale_compare (heartbeatOrStart r) (heartbeatOrStart run) \<le> 0"
    if "r \<in> set runs" "run_status r = Run_running"
    using comparator.hd_sort_least [OF comparator_heartbeat s, of r] that by simp
qed

lemma claim_item_claimId: "item \<in> set (claimItems inp) \<Longrightarrow> wi_claimId item = Some (ci_claimId inp)"
  by (auto simp: claimItems_def reviewItem_def replicationItem_def maintenanceItem_def Let_def)

lemma item_selectors:
  "wi_itemId (reviewItem c s d ks task runs subs) = ''review-task:'' @ rt_taskId task"
  "wi_itemId (replicationItem c' s job runs) = ''replication-job:'' @ jv_jobId job"
  "wi_itemId (maintenanceItem c' mtask runs) = ''artifact-maintenance:'' @ mt_taskId mtask"
  "wi_lane (reviewItem c s d ks task runs subs) = laneForReviewTask (rt_taskType task)"
  "wi_lane (replicationItem c' s job runs) = Lane_execution"
  "wi_lane (maintenanceItem c' mtask runs) = Lane_maintenance"
  by (simp_all add: reviewItem_def replicationItem_def maintenanceItem_def reviewInput_def Let_def
      reviewItemId_def replicationItemId_def maintenanceItemId_def)

lemma claim_item_id_lane:
  assumes d: "distinct (map rt_taskId (ci_reviewTasks inp))"
    and "a \<in> set (claimItems inp)" and "b \<in> set (claimItems inp)" and "wi_itemId a = wi_itemId b"
  shows "wi_lane a = wi_lane b"
proof -
  have inj: "inj_on rt_taskId (set (ci_reviewTasks inp))" using d by (simp add: distinct_map)
  show ?thesis
    using assms(2-4) by (auto simp: claimItems_def item_selectors dest: inj_onD [OF inj])
qed

section \<open>Nodes and edges\<close>

definition keyed :: "(string, work_subject) jmap \<Rightarrow> bool" where
  "keyed m \<longleftrightarrow> (\<forall>(k, v) \<in> set m. ws_subjectId v = k)"

lemma keyed_jm_set: "keyed m \<Longrightarrow> ws_subjectId v = k \<Longrightarrow> keyed (jm_set k v m)"
  by (induction k v m rule: jm_set.induct) (auto simp: keyed_def)

lemma keyed_addPersisted: "keyed m \<Longrightarrow> keyed (addPersisted key m)"
  by (simp add: addPersisted_def keyed_jm_set persistedSubject_def)

lemma keyed_addArtifact: "keyed m \<Longrightarrow> keyed (addArtifact a m)"
  by (simp add: addArtifact_def keyed_jm_set)

lemma keyed_fold_addPersisted: "keyed m \<Longrightarrow> keyed (fold addPersisted keys m)"
  by (induction keys arbitrary: m) (simp_all add: keyed_addPersisted)

lemma keyed_fold_addArtifact: "keyed m \<Longrightarrow> keyed (fold addArtifact as m)"
  by (induction as arbitrary: m) (simp_all add: keyed_addArtifact)

lemma keys_addPersisted:
  "fst ` set (addPersisted key m) = insert (''persisted-artifact:'' @ key) (fst ` set m)"
  by (auto simp: addPersisted_def jm_keys_set map_of_eq_None_iff image_iff)

lemma keys_fold_addPersisted:
  "fst ` set (fold addPersisted keys m) = (\<lambda>k. ''persisted-artifact:'' @ k) ` set keys \<union> fst ` set m"
  by (induction keys arbitrary: m) (simp_all add: keys_addPersisted)

lemma keys_fold_addArtifact:
  "fst ` set (fold addArtifact as m) = (\<lambda>a. ''claim-artifact:'' @ av_artifactId a) ` set as \<union> fst ` set m"
  by (induction as arbitrary: m) (simp_all add: addArtifact_def jm_keys_set)

lemma keyed_subjects: "keyed m \<Longrightarrow> ws_subjectId ` snd ` set m = fst ` set m"
  by (force simp: keyed_def)

lemma keyed_claimSubjects: "keyed (claimSubjects inp)"
  unfolding claimSubjects_def Let_def
  by (intro keyed_fold_addPersisted keyed_fold_addArtifact) (simp add: keyed_def claimSubject_def)

definition graph_nodes :: "claim_work_graph \<Rightarrow> string set" where
  "graph_nodes g = ws_subjectId ` set (cg_subjects g) \<union> wi_itemId ` set (cg_items g)"

definition claim_artifact_keys :: "claim_graph_input \<Rightarrow> string list" where
  "claim_artifact_keys inp = collectClaimWorkArtifactKeys (ci_artifactMaintenanceTasks inp) []
     (ci_replicationJobs inp) (concat (jm_values (ci_reviewSubmissionsByTaskId inp))) (ci_reviewTasks inp)"

lemma item_ids: "wi_itemId ` set (cg_items (buildClaimWorkGraph inp)) = wi_itemId ` set (claimItems inp)"
  by (force simp: graph_items scheduledItems_def Let_def image_iff)

lemma graph_nodes_eq:
  "graph_nodes (buildClaimWorkGraph inp) =
     {''claim:'' @ ci_claimId inp} \<union>
     (\<lambda>a. ''claim-artifact:'' @ av_artifactId a) ` set (ci_artifacts inp) \<union>
     (\<lambda>k. ''persisted-artifact:'' @ k) ` (set (claim_artifact_keys inp) \<union>
        mt_artifactKey ` set (ci_artifactMaintenanceTasks inp)) \<union>
     wi_itemId ` set (claimItems inp)"
proof -
  have "set (cg_subjects (buildClaimWorkGraph inp)) = snd ` set (claimSubjects inp)"
    by (simp add: buildClaimWorkGraph_def finalizeWorkItems_def Let_def)
  then have "ws_subjectId ` set (cg_subjects (buildClaimWorkGraph inp)) = fst ` set (claimSubjects inp)"
    by (simp only: keyed_subjects [OF keyed_claimSubjects])
  moreover have "fst ` set (claimSubjects inp) =
     (\<lambda>k. ''persisted-artifact:'' @ k) ` (mt_artifactKey ` set (ci_artifactMaintenanceTasks inp)) \<union>
     ((\<lambda>k. ''persisted-artifact:'' @ k) ` set (claim_artifact_keys inp) \<union>
     ((\<lambda>a. ''claim-artifact:'' @ av_artifactId a) ` set (ci_artifacts inp) \<union> {''claim:'' @ ci_claimId inp}))"
    unfolding claimSubjects_def Let_def keys_fold_addPersisted keys_fold_addArtifact claim_artifact_keys_def
    by simp
  ultimately show ?thesis
    unfolding graph_nodes_def item_ids image_Un by (simp only: Un_ac)
qed

text \<open>Artifact keys are never blank: the keys of the store are content hashes.\<close>

definition optional_key_ok :: "string option \<Rightarrow> bool" where
  "optional_key_ok k \<longleftrightarrow> (case k of None \<Rightarrow> True | Some s \<Rightarrow> js_trim s \<noteq> [])"

definition artifact_keys_ok :: "claim_graph_input \<Rightarrow> bool" where
  "artifact_keys_ok inp \<longleftrightarrow>
     (\<forall>t \<in> set (ci_reviewTasks inp). optional_key_ok (rt_resultArtifactKey t) \<and>
        (\<forall>k \<in> set (rt_inputArtifactKeys t). js_trim k \<noteq> [])) \<and>
     (\<forall>subs \<in> set (jm_values (ci_reviewSubmissionsByTaskId inp)). \<forall>s \<in> set subs.
        optional_key_ok (rs_resultArtifactKey s) \<and> optional_key_ok (rs_evidenceArtifactKey s)) \<and>
     (\<forall>j \<in> set (ci_replicationJobs inp). optional_key_ok (jv_resultArtifactKey j)) \<and>
     (\<forall>t \<in> set (ci_artifactMaintenanceTasks inp). optional_key_ok (mt_resultArtifactKey t))"

lemma claim_artifact_keysI:
  "t \<in> set (ci_reviewTasks inp) \<Longrightarrow> k \<in> set (rt_inputArtifactKeys t) \<Longrightarrow> js_trim k \<noteq> [] \<Longrightarrow>
     k \<in> set (claim_artifact_keys inp)"
  "t \<in> set (ci_reviewTasks inp) \<Longrightarrow> rt_resultArtifactKey t = Some k \<Longrightarrow> js_trim k \<noteq> [] \<Longrightarrow>
     k \<in> set (claim_artifact_keys inp)"
  "subs \<in> set (jm_values (ci_reviewSubmissionsByTaskId inp)) \<Longrightarrow> s \<in> set subs \<Longrightarrow>
     rs_resultArtifactKey s = Some k \<or> rs_evidenceArtifactKey s = Some k \<Longrightarrow> js_trim k \<noteq> [] \<Longrightarrow>
     k \<in> set (claim_artifact_keys inp)"
  "j \<in> set (ci_replicationJobs inp) \<Longrightarrow> jv_resultArtifactKey j = Some k \<Longrightarrow> js_trim k \<noteq> [] \<Longrightarrow>
     k \<in> set (claim_artifact_keys inp)"
  "m \<in> set (ci_artifactMaintenanceTasks inp) \<Longrightarrow> mt_resultArtifactKey m = Some k \<Longrightarrow> js_trim k \<noteq> [] \<Longrightarrow>
     k \<in> set (claim_artifact_keys inp)"
  unfolding claim_artifact_keys_def collectClaimWorkArtifactKeys_def set_uniqueStrings
  by (force simp: image_iff)+

lemma reviewLatest_key:
  assumes "Option.bind (reviewLatest task subs) res_artifactKey = Some k"
  shows "rt_resultArtifactKey task = Some k \<or>
    (\<exists>s \<in> set subs. rs_resultArtifactKey s = Some k \<or> rs_evidenceArtifactKey s = Some k)"
proof -
  have orelse_Some: "orelse x y = Some k \<Longrightarrow> x = Some k \<or> y = Some k" for x y :: "string option"
    by (auto simp: orelse_def split: option.splits)
  have hd_in: "x \<in> set xs" if "js_sort c xs = x # ys" for c x and xs ys :: "'b list"
    using that by (metis list.set_intros(1) set_js_sort)
  show ?thesis
    using assms
    by (auto simp: reviewLatest_def reviewResult_def toReviewSubmissionResult_def
        split: list.splits if_splits dest!: hd_in orelse_Some)
qed

lemma reviewSubmissions_listed:
  "s \<in> set (reviewSubmissions inp task) \<Longrightarrow>
   \<exists>subs \<in> set (jm_values (ci_reviewSubmissionsByTaskId inp)). s \<in> set subs"
  by (cases "jm_get (ci_reviewSubmissionsByTaskId inp) (rt_taskId task)")
     (force simp: reviewSubmissions_def dest: map_of_SomeD)+

lemma claimEdges_closed:
  assumes ok: "artifact_keys_ok inp" and e: "e \<in> set (claimEdges inp)"
  shows "we_fromId e \<in> graph_nodes (buildClaimWorkGraph inp) \<and>
    we_toId e \<in> graph_nodes (buildClaimWorkGraph inp)"
proof -
  let ?N = "graph_nodes (buildClaimWorkGraph inp)"
  have claim: "''claim:'' @ ci_claimId inp \<in> ?N" by (simp add: graph_nodes_eq)
  have art: "''claim-artifact:'' @ av_artifactId a \<in> ?N" if "a \<in> set (ci_artifacts inp)" for a
    using that by (simp add: graph_nodes_eq)
  have key: "''persisted-artifact:'' @ k \<in> ?N" if "k \<in> set (claim_artifact_keys inp)" for k
    using that by (simp add: graph_nodes_eq)
  have mkey: "''persisted-artifact:'' @ mt_artifactKey t \<in> ?N"
    if "t \<in> set (ci_artifactMaintenanceTasks inp)" for t
    using that by (auto simp: graph_nodes_eq)
  have rid: "reviewItemId t \<in> ?N" if "t \<in> set (ci_reviewTasks inp)" for t
    using that by (force simp: graph_nodes_eq claimItems_def reviewItemId_def item_selectors image_iff)
  have jid: "replicationItemId j \<in> ?N" if "j \<in> set (ci_replicationJobs inp)" for j
    using that by (force simp: graph_nodes_eq claimItems_def replicationItemId_def item_selectors image_iff)
  have mid: "maintenanceItemId t \<in> ?N" if "t \<in> set (ci_artifactMaintenanceTasks inp)" for t
    using that by (force simp: graph_nodes_eq claimItems_def maintenanceItemId_def item_selectors image_iff)
  have rres: "k \<in> set (claim_artifact_keys inp)"
    if "t \<in> set (ci_reviewTasks inp)" "Option.bind (reviewLatest t (reviewSubmissions inp t)) res_artifactKey = Some k"
    for t k
  proof -
    note latest = reviewLatest_key [OF that(2)]
    consider (task) "rt_resultArtifactKey t = Some k"
      | (submission) s where "s \<in> set (reviewSubmissions inp t)"
          "rs_resultArtifactKey s = Some k \<or> rs_evidenceArtifactKey s = Some k"
      using latest by blast
    then show ?thesis
    proof cases
      case task
      with ok that(1) show ?thesis
        by (intro claim_artifact_keysI(2) [of t]) (force simp: artifact_keys_ok_def optional_key_ok_def)+
    next
      case (submission s)
      obtain subs where subs: "subs \<in> set (jm_values (ci_reviewSubmissionsByTaskId inp))" "s \<in> set subs"
        using reviewSubmissions_listed [OF submission(1)] by blast
      with ok have "optional_key_ok (rs_resultArtifactKey s)" "optional_key_ok (rs_evidenceArtifactKey s)"
        unfolding artifact_keys_ok_def by blast+
      with submission(2) have "js_trim k \<noteq> []" by (auto simp: optional_key_ok_def)
      with subs submission(2) show ?thesis using claim_artifact_keysI(3) by blast
    qed
  qed
  have rin: "k \<in> set (claim_artifact_keys inp)"
    if "t \<in> set (ci_reviewTasks inp)" "k \<in> set (rt_inputArtifactKeys t)" for t k
    using ok that by (intro claim_artifact_keysI(1) [of t]) (auto simp: artifact_keys_ok_def)
  have jres: "k \<in> set (claim_artifact_keys inp)"
    if "j \<in> set (ci_replicationJobs inp)" "Option.bind (replicationResult j) res_artifactKey = Some k" for j k
    using ok that by (intro claim_artifact_keysI(4) [of j])
      (force simp: artifact_keys_ok_def replicationResult_def optional_key_ok_def split: if_splits)+
  have mres: "k \<in> set (claim_artifact_keys inp)"
    if "t \<in> set (ci_artifactMaintenanceTasks inp)" "Option.bind (maintenanceResult t) res_artifactKey = Some k" for t k
    using ok that by (intro claim_artifact_keysI(5) [of t])
      (force simp: artifact_keys_ok_def maintenanceResult_def optional_key_ok_def split: if_splits)+
  have truthyE: "truthy x \<Longrightarrow> \<exists>k. x = Some k" for x by (cases x) auto
  show ?thesis
    using e claim art key mkey rid jid mid rres rin jres mres
    by (auto simp: claimEdges_def reviewEdges_def replicationEdges_def maintenanceEdges_def
        producesEdge_def split: if_splits dest!: truthyE)
qed

section \<open>Counting\<close>

lemma sum_fold: "fold (\<lambda>i s. s + f i) xs a = a + sum_list (map f xs)" for a :: int
  by (induction xs arbitrary: a) simp_all

lemma lane_partition:
  "count_if (\<lambda>i. wi_lane i = Lane_evaluation) xs + count_if (\<lambda>i. wi_lane i = Lane_execution) xs +
   count_if (\<lambda>i. wi_lane i = Lane_maintenance) xs + count_if (\<lambda>i. wi_lane i = Lane_synthesis) xs =
   int (length xs)"
proof (induction xs)
  case (Cons x xs)
  then show ?case by (cases "wi_lane x") simp_all
qed simp

lemma status_partition:
  "count_if (\<lambda>i. wi_status i = WS_open) xs + count_if (\<lambda>i. wi_status i = WS_leased) xs +
   count_if (\<lambda>i. wi_status i = WS_completed) xs + count_if (\<lambda>i. wi_status i = WS_failed) xs
   \<le> int (length xs)"
proof (induction xs)
  case (Cons x xs)
  then show ?case by (cases "wi_status x") simp_all
qed simp

lemma demand_counts:
  assumes "\<And>x. x \<in> set xs \<Longrightarrow> (p x \<longrightarrow> 1 \<le> f x) \<and> (\<not> p x \<longrightarrow> f x = (0 :: int)) \<and> R x"
  shows "count_if p xs \<le> sum_list (map f xs)"
    and "sum_list (map f xs) = 0 \<longleftrightarrow> count_if p xs = 0"
proof -
  have "count_if p xs \<le> sum_list (map f xs) \<and> (count_if p xs = 0 \<longrightarrow> sum_list (map f xs) = 0)"
    using assms
  proof (induction xs)
    case (Cons x xs)
    then have "count_if p xs \<le> sum_list (map f xs)" "count_if p xs = 0 \<longrightarrow> sum_list (map f xs) = 0"
      by simp_all
    with Cons.prems [of x] count_if_bounds(1) [of p xs] show ?case by auto
  qed simp
  with count_if_bounds(1) [of p xs] show "count_if p xs \<le> sum_list (map f xs)"
    and "sum_list (map f xs) = 0 \<longleftrightarrow> count_if p xs = 0" by linarith+
qed

lemma scheduled_item_facts:
  assumes "i \<in> set (cg_items (buildClaimWorkGraph inp))"
  shows "(wc_autoClaimable (wi_scheduling i) \<longrightarrow> 1 \<le> wc_desiredAdditionalClaims (wi_scheduling i)) \<and>
    (\<not> wc_autoClaimable (wi_scheduling i) \<longrightarrow> wc_desiredAdditionalClaims (wi_scheduling i) = 0) \<and>
    (wc_autoClaimable (wi_scheduling i) \<longrightarrow> wi_status i = WS_open \<and> wc_blocker (wi_scheduling i) = None)"
proof -
  obtain item where item: "item \<in> set (claimItems inp)"
    and i: "i = withScheduling (map (withRouting (claimItems inp)) (claimItems inp)) (withRouting (claimItems inp) item)"
    using assms by (rule scheduled_item_cases)
  obtain oi where "wi_orchestration item = deriveClaimWorkOrchestration oi" "wi_status item = oi_status oi"
    using claim_item_orchestrated [OF item] by (auto simp: orchestrated_from_def)
  then show ?thesis by (auto simp: i schedulable_def facts_flags)
qed

section \<open>Properties\<close>

text \<open>
  The graph's items are exactly the review tasks, replication jobs and maintenance tasks of the
  claim, each once with its own orchestration, ordered from the latest update to the earliest.
\<close>

theorem graph_items_complete:
  "mset (map orchestrated_item.truncate (cg_items (buildClaimWorkGraph inp))) = mset (claimItems inp) \<and>
   length (cg_items (buildClaimWorkGraph inp)) = length (ci_reviewTasks inp) +
     length (ci_replicationJobs inp) + length (ci_artifactMaintenanceTasks inp) \<and>
   sorted_wrt (\<lambda>x y. locale_compare (timestampForItem y) (timestampForItem x) \<le> 0)
     (cg_items (buildClaimWorkGraph inp))"
proof (intro conjI)
  show "mset (map orchestrated_item.truncate (cg_items (buildClaimWorkGraph inp))) = mset (claimItems inp)"
    using arg_cong [OF scheduledItems_truncate, of mset "claimItems inp"] by (simp add: graph_items)
  show "length (cg_items (buildClaimWorkGraph inp)) = length (ci_reviewTasks inp) +
     length (ci_replicationJobs inp) + length (ci_artifactMaintenanceTasks inp)"
    by (simp add: graph_items scheduledItems_def claimItems_def Let_def)
  show "sorted_wrt (\<lambda>x y. locale_compare (timestampForItem y) (timestampForItem x) \<le> 0)
     (cg_items (buildClaimWorkGraph inp))"
    unfolding graph_items
    by (rule sorted_wrt_mono_rel [OF _ activity_order.sorted_sort])
       (auto simp: compareByActivity_def locale_order.refl split: if_splits)
qed

text \<open>
  The graph never loses a lease: an item has an active run exactly when one of its runs is
  running, it is then shown as leased, and the active run is the running one with the latest
  heartbeat.
\<close>

theorem graph_active_run_latest:
  assumes "i \<in> set (cg_items (buildClaimWorkGraph inp))"
  shows "(wi_activeRun i = None \<longleftrightarrow> \<not> (\<exists>r \<in> set (wi_runs i). run_status r = Run_running)) \<and>
    (wi_activeRun i \<noteq> None \<longrightarrow> wi_status i = WS_leased) \<and>
    (\<forall>run. wi_activeRun i = Some run \<longrightarrow> run \<in> set (wi_runs i) \<and> run_status run = Run_running \<and>
       (\<forall>r \<in> set (wi_runs i). run_status r = Run_running \<longrightarrow>
          locale_compare (heartbeatOrStart r) (heartbeatOrStart run) \<le> 0))"
proof -
  obtain item where item: "item \<in> set (claimItems inp)"
    and i: "wi_activeRun i = wi_activeRun item" "wi_runs i = wi_runs item" "wi_status i = wi_status item"
    using assms by (rule scheduled_item_cases) simp
  have a: "wi_activeRun item = activeRun (wi_runs item)"
    using claim_item_orchestrated [OF item] by (auto simp: orchestrated_from_def)
  show ?thesis
    unfolding i a using running_leased [OF item] activeRun_Some [of "wi_runs item"]
    by (auto simp: activeRun_None hasRunningRun_def list_ex_iff)
qed

text \<open>
  The graph never asks for more contributors than an item's policy allows: for every item the
  scheduler hands out, recorded contributions, running leases and the additional claims it asks
  for stay within the policy's maximum.
\<close>

theorem graph_claims_within_policy:
  assumes "i \<in> set (cg_items (buildClaimWorkGraph inp))" and "wc_autoClaimable (wi_scheduling i)"
    and "wi_policy i = Some p" and "wp_maxContributors p = Some mx"
  shows "0 < wc_desiredAdditionalClaims (wi_scheduling i) \<and>
    wo_successfulContributionCount (wi_orchestration i) + wo_activeRunCount (wi_orchestration i) +
      wc_desiredAdditionalClaims (wi_scheduling i) \<le> mx"
proof -
  obtain item where item: "item \<in> set (claimItems inp)"
    and i: "i = withScheduling (map (withRouting (claimItems inp)) (claimItems inp)) (withRouting (claimItems inp) item)"
    using assms(1) by (rule scheduled_item_cases)
  obtain oi where oi: "wi_orchestration item = deriveClaimWorkOrchestration oi" "wi_policy item = oi_policy oi"
    using claim_item_orchestrated [OF item] by (auto simp: orchestrated_from_def)
  show ?thesis
    using assms(2-4) scheduling_bound [of "withRouting (claimItems inp) item" oi p mx] oi
    by (simp add: i facts_counts)
qed


text \<open>
  The edges of a claim graph join its nodes: when no artifact key is blank, both ends of every
  edge are subjects or items that the graph declares.
\<close>

theorem graph_edges_closed:
  assumes "artifact_keys_ok inp" and "e \<in> set (cg_edges (buildClaimWorkGraph inp))"
  shows "we_fromId e \<in> graph_nodes (buildClaimWorkGraph inp) \<and>
    we_toId e \<in> graph_nodes (buildClaimWorkGraph inp)"
proof -
  have "e \<in> set (claimEdges inp)"
    using assms(2) by (simp add: buildClaimWorkGraph_def finalizeWorkItems_def Let_def)
  then show ?thesis using claimEdges_closed [OF assms(1)] by (simp add: graph_nodes_eq)
qed

text \<open>
  The summary of a claim graph adds up: the four lanes partition the items, the statuses it
  counts are disjoint, every item it calls auto-claimable is open and not blocked by dependencies,
  and the uncovered demand is at least the number of auto-claimable items and is zero exactly when
  there are none.
\<close>

theorem graph_summary_accounting:
  "gs_totalItems (cg_summary (buildClaimWorkGraph inp)) =
     gs_lanes (cg_summary (buildClaimWorkGraph inp)) Lane_evaluation +
     gs_lanes (cg_summary (buildClaimWorkGraph inp)) Lane_execution +
     gs_lanes (cg_summary (buildClaimWorkGraph inp)) Lane_maintenance +
     gs_lanes (cg_summary (buildClaimWorkGraph inp)) Lane_synthesis \<and>
   gs_openItems (cg_summary (buildClaimWorkGraph inp)) + gs_activeLeases (cg_summary (buildClaimWorkGraph inp)) +
     gs_completedItems (cg_summary (buildClaimWorkGraph inp)) + gs_failedItems (cg_summary (buildClaimWorkGraph inp))
     \<le> gs_totalItems (cg_summary (buildClaimWorkGraph inp)) \<and>
   gs_autoClaimableItems (cg_summary (buildClaimWorkGraph inp)) \<le> gs_openItems (cg_summary (buildClaimWorkGraph inp)) \<and>
   gs_autoClaimableItems (cg_summary (buildClaimWorkGraph inp)) +
     gs_dependencyBlockedItems (cg_summary (buildClaimWorkGraph inp))
     \<le> gs_totalItems (cg_summary (buildClaimWorkGraph inp)) \<and>
   gs_autoClaimableItems (cg_summary (buildClaimWorkGraph inp)) \<le> gs_uncoveredDemand (cg_summary (buildClaimWorkGraph inp)) \<and>
   (gs_uncoveredDemand (cg_summary (buildClaimWorkGraph inp)) = 0 \<longleftrightarrow>
    gs_autoClaimableItems (cg_summary (buildClaimWorkGraph inp)) = 0)"
proof -
  let ?items = "cg_items (buildClaimWorkGraph inp)"
  note facts = scheduled_item_facts [of _ inp]
  have demand: "count_if (\<lambda>i. wc_autoClaimable (wi_scheduling i)) ?items
      \<le> sum_list (map (\<lambda>i. wc_desiredAdditionalClaims (wi_scheduling i)) ?items)"
    "sum_list (map (\<lambda>i. wc_desiredAdditionalClaims (wi_scheduling i)) ?items) = 0 \<longleftrightarrow>
      count_if (\<lambda>i. wc_autoClaimable (wi_scheduling i)) ?items = 0"
    by (rule demand_counts, rule facts, assumption)+
  have "count_if (\<lambda>i. wc_autoClaimable (wi_scheduling i)) ?items \<le> count_if (\<lambda>i. wi_status i = WS_open) ?items"
    by (rule count_if_mono) (use facts in blast)
  moreover have "count_if (\<lambda>i. wc_autoClaimable (wi_scheduling i)) ?items +
      count_if (\<lambda>i. wc_blocker (wi_scheduling i) = Some ''dependency_blocked'') ?items \<le> int (length ?items)"
    by (rule count_if_disjoint) (use facts in force)
  ultimately show ?thesis
    unfolding graph_summary using demand lane_partition [of ?items] status_partition [of ?items]
    by (simp add: graphSummary_def sum_fold)
qed

subsection \<open>Witnesses\<close>

definition sample_task :: "string \<Rightarrow> review_task_type \<Rightarrow> review_task_status \<Rightarrow> review_task" where
  "sample_task taskId ty st = \<lparr>rt_claimId = Some ''7'', rt_completedAt = None,
     rt_consensusPolicy = defaultReviewConsensusPolicy ty, rt_createdAt = ''2026-06-19T13:45:59.123Z'',
     rt_failureReason = None, rt_inputArtifactKeys = [''k1''], rt_requestedBy = ''owner'',
     rt_requiredCapabilities = [], rt_resultArtifactKey = None, rt_schemaVersion = ''v1'',
     rt_scopeKey = ''claim'', rt_sourceId = None, rt_subjectId = ''7'', rt_subjectType = Subject_claim,
     rt_status = st, rt_taskId = taskId, rt_taskType = ty, rt_updatedAt = ''2026-06-19T13:45:59.123Z''\<rparr>"

definition sample_graph :: "review_task list \<Rightarrow> claim_graph_input" where
  "sample_graph tasks = \<lparr>ci_artifactMaintenanceRunsByTaskId = [], ci_artifactMaintenanceTasks = [],
     ci_artifacts = [], ci_claimId = ''7'', ci_replicationJobs = [], ci_replicationRunsByJobId = [],
     ci_reviewRunsByTaskId = [(''3'', [sample_run Run_running])], ci_reviewSubmissionsByTaskId = [],
     ci_reviewTasks = tasks\<rparr>"

definition evaluated_claim :: claim_graph_input where
  "evaluated_claim = sample_graph [sample_task ''1'' Method_consistency_check RT_completed,
     sample_task ''2'' Certification_synthesis_check RT_open]"

definition leased_claim :: claim_graph_input where
  "leased_claim = sample_graph [sample_task ''3'' Stats_sanity_check RT_open]"

lemma evaluated_items:
  "map (\<lambda>i. (wi_lane i, wi_status i, wc_autoClaimable (wi_scheduling i),
     Option.bind (wi_policy i) wp_maxContributors)) (cg_items (buildClaimWorkGraph evaluated_claim)) =
   [(Lane_evaluation, WS_completed, False, Some 3), (Lane_synthesis, WS_open, True, Some 1)]"
  by code_simp

lemma leased_items:
  "map (\<lambda>i. (wi_status i, map_option run_runId (wi_activeRun i), wi_runs i)) (cg_items (buildClaimWorkGraph leased_claim)) =
   [(WS_leased, Some ''1'', [sample_run Run_running])]"
  by code_simp

theorem graph_active_run_latest_witness:
  "\<exists>i \<in> set (cg_items (buildClaimWorkGraph leased_claim)). \<exists>run. wi_activeRun i = Some run \<and>
     wi_status i = WS_leased \<and> run_status run = Run_running \<and> run \<in> set [sample_run Run_running]"
proof -
  obtain i where i: "cg_items (buildClaimWorkGraph leased_claim) = [i]"
    and f: "wi_activeRun i \<noteq> None" "wi_runs i = [sample_run Run_running]"
    using leased_items by (auto simp: map_eq_Cons_conv)
  then show ?thesis using graph_active_run_latest [of i leased_claim] by auto
qed

lemma evaluated_pair:
  obtains e s where "cg_items (buildClaimWorkGraph evaluated_claim) = [e, s]"
    and "wi_lane e = Lane_evaluation" and "wi_status e = WS_completed"
    and "wi_lane s = Lane_synthesis" and "wc_autoClaimable (wi_scheduling s)"
    and "Option.bind (wi_policy s) wp_maxContributors = Some 1"
  using evaluated_items by (auto simp: map_eq_Cons_conv)

theorem graph_claims_within_policy_witness:
  "\<exists>i \<in> set (cg_items (buildClaimWorkGraph evaluated_claim)). 0 < wc_desiredAdditionalClaims (wi_scheduling i) \<and>
     wo_successfulContributionCount (wi_orchestration i) + wo_activeRunCount (wi_orchestration i) +
       wc_desiredAdditionalClaims (wi_scheduling i) \<le> 1"
proof -
  obtain e s where es: "cg_items (buildClaimWorkGraph evaluated_claim) = [e, s]"
    "wc_autoClaimable (wi_scheduling s)" "Option.bind (wi_policy s) wp_maxContributors = Some 1"
    by (rule evaluated_pair)
  then obtain p where "wi_policy s = Some p" "wp_maxContributors p = Some 1"
    by (cases "wi_policy s") auto
  with es graph_claims_within_policy [of s evaluated_claim p 1] show ?thesis by auto
qed


theorem graph_edges_closed_witness:
  "we_fromId (hd (cg_edges (buildClaimWorkGraph evaluated_claim))) \<in> graph_nodes (buildClaimWorkGraph evaluated_claim)"
proof -
  have "artifact_keys_ok evaluated_claim"
    by (simp add: artifact_keys_ok_def evaluated_claim_def sample_graph_def sample_task_def
        optional_key_ok_def js_trim_all_space is_space_def)
  moreover have "cg_edges (buildClaimWorkGraph evaluated_claim) \<noteq> []"
    by (simp add: buildClaimWorkGraph_def finalizeWorkItems_def claimEdges_def evaluated_claim_def
        sample_graph_def reviewEdges_def Let_def)
  ultimately show ?thesis using graph_edges_closed [of evaluated_claim] by simp
qed

end
