(* ===== verification/Reward_Pressure.thy ===== *)
theory Reward_Pressure
  imports Reward_Targets Work_Graph_Facts
begin

text \<open>
  The demand and attention signals of \<open>rewards/policy.ts\<close> (lines 159-166, 231-307, 604-737) and the
  explanation built from them (739-825): what the work graph of a claim, its forecasts and its
  challenges do to the price of each kind of work.
\<close>

section \<open>Demand of the work graph\<close>

record demand_signal =
  ds_freshContributorItems :: int
  ds_minimumCoverageItems :: int
  ds_reassignmentReadyItems :: int
  ds_redundancyTargetItems :: int
  ds_schedulerPressureBps :: int
  ds_uncoveredDemand :: int
  ds_workKind :: reward_work_kind

definition emptyWorkDemandSignal :: "reward_work_kind \<Rightarrow> demand_signal" where
  "emptyWorkDemandSignal workKind = \<lparr>ds_freshContributorItems = 0, ds_minimumCoverageItems = 0,
     ds_reassignmentReadyItems = 0, ds_redundancyTargetItems = 0, ds_schedulerPressureBps = 10000,
     ds_uncoveredDemand = 0, ds_workKind = workKind\<rparr>"

definition computeSchedulerPressureBps :: "demand_signal \<Rightarrow> int" where
  "computeSchedulerPressureBps signal = min 20000 (10000 +
     min 3000 (ds_minimumCoverageItems signal * 1200) +
     min 1800 (ds_reassignmentReadyItems signal * 900) +
     min 1200 (ds_freshContributorItems signal * 600) +
     min 1000 (ds_uncoveredDemand signal * 450) +
     min 800 (ds_redundancyTargetItems signal * 250))"

definition addDemand :: "work_item \<Rightarrow> demand_signal \<Rightarrow> demand_signal" where
  "addDemand item signal = (let sc = wi_scheduling item in signal\<lparr>
     ds_minimumCoverageItems := ds_minimumCoverageItems signal + (if wc_needsMinimumCoverage sc then 1 else 0),
     ds_redundancyTargetItems := ds_redundancyTargetItems signal + (if wc_needsRedundantCoverage sc then 1 else 0),
     ds_freshContributorItems := ds_freshContributorItems signal + (if wc_prefersFreshContributor sc then 1 else 0),
     ds_reassignmentReadyItems := ds_reassignmentReadyItems signal + (if wc_reassignmentPreferred sc then 1 else 0),
     ds_uncoveredDemand := ds_uncoveredDemand signal + wc_desiredAdditionalClaims sc\<rparr>)"

definition itemWorkKind :: "work_item \<Rightarrow> reward_work_kind" where
  "itemWorkKind item = rewardWorkKindForWorkItem (wi_kind item) (wi_sourceType item)"

text \<open>The \<open>Record\<close> over all kinds is a total function; a missing graph leaves every signal empty.\<close>

definition countDemand :: "work_item list \<Rightarrow> reward_work_kind \<Rightarrow> demand_signal" where
  "countDemand items = fold (\<lambda>item byKind. byKind(itemWorkKind item := addDemand item (byKind (itemWorkKind item))))
     items emptyWorkDemandSignal"

definition buildClaimRewardWorkDemandSignals ::
  "claim_work_graph option \<Rightarrow> reward_work_kind \<Rightarrow> demand_signal" where
  "buildClaimRewardWorkDemandSignals workGraph =
     (case workGraph of
        None \<Rightarrow> emptyWorkDemandSignal
      | Some g \<Rightarrow> (\<lambda>k. let signal = countDemand (cg_items g) k
                        in signal\<lparr>ds_schedulerPressureBps := computeSchedulerPressureBps signal\<rparr>))"

section \<open>Activity of forecasts and challenges\<close>

definition marketParticipantKey :: "string option \<Rightarrow> string option \<Rightarrow> string option" where
  "marketParticipantKey actor agentId =
     (if truthy agentId \<and> agentId \<noteq> Some ''0'' then Some (''agent:'' @ the agentId)
      else case normalizeAddress actor of
             None \<Rightarrow> None
           | Some a \<Rightarrow> Some (''actor:'' @ js_lower a))"

definition openChallengeCount :: "challenge_view list \<Rightarrow> int" where
  "openChallengeCount challenges = count_if (\<lambda>c. hv_status c = 0 \<or> hv_status c = 3) challenges"

definition distinctForecastParticipants :: "forecast_view list \<Rightarrow> int" where
  "distinctForecastParticipants forecasts = js_set_size (List.map_filter
     (\<lambda>f. marketParticipantKey (Some (fv_forecaster f)) (Some (fv_agentId f))) forecasts)"

definition distinctChallengeParticipants :: "challenge_view list \<Rightarrow> int" where
  "distinctChallengeParticipants challenges = js_set_size (List.map_filter
     (\<lambda>c. marketParticipantKey (Some (hv_challenger c)) (Some (hv_agentId c))) challenges)"

definition totalForecastStakeWei :: "forecast_view list \<Rightarrow> int" where
  "totalForecastStakeWei forecasts = fold (\<lambda>f sum. sum + fv_stakeAmount f) forecasts 0"

definition totalChallengeBondWei :: "challenge_view list \<Rightarrow> int" where
  "totalChallengeBondWei challenges = fold (\<lambda>c sum. sum + hv_bondAmount c) challenges 0"

definition stakeByDirection :: "forecast_view list \<Rightarrow> (int, int) jmap" where
  "stakeByDirection forecasts = fold (\<lambda>f m. jm_set (fv_direction f)
     (nullish (jm_get m (fv_direction f)) 0 + fv_stakeAmount f) m) forecasts []"

text \<open>The second entry of the stakes in descending order, 0 when there is none.\<close>

definition minorityStake :: "forecast_view list \<Rightarrow> int" where
  "minorityStake revealed =
     (case js_sort cmp_desc (jm_values (stakeByDirection revealed)) of _ # second # _ \<Rightarrow> second | _ \<Rightarrow> 0)"

definition confidenceSpread :: "forecast_view list \<Rightarrow> int" where
  "confidenceSpread revealed =
     (case map fv_confidenceBps revealed of
        x # y # zs \<Rightarrow> fold max (y # zs) x - fold min (y # zs) x
      | _ \<Rightarrow> 0)"

definition forecastActivityPressureBps :: "forecast_view list \<Rightarrow> int" where
  "forecastActivityPressureBps forecasts =
     (if forecasts = [] then 10000
      else let revealed = filter (\<lambda>f. fv_revealed f \<or> fv_settled f) forecasts;
               disagreementPressure = (if js_set_size (map fv_direction revealed) > 1 then 1200 else 0);
               balancedPressure = clampInteger (big_div (minorityStake revealed * 1000) (milli_ether 30)) 0 1000;
               spreadPressure = min 800 (js_floor (int_div (confidenceSpread revealed) 5));
               stakePressure = clampInteger (big_div (totalForecastStakeWei forecasts * 1800) (milli_ether 50)) 0 1800;
               participantPressure = min 1400 (distinctForecastParticipants forecasts * 350)
           in 10000 + min 900 (int (length forecasts) * 150) + participantPressure + disagreementPressure +
              balancedPressure + spreadPressure + stakePressure)"

definition challengeActivityPressureBps :: "challenge_view list \<Rightarrow> int" where
  "challengeActivityPressureBps challenges =
     (if challenges = [] then 10000
      else let bondPressure = clampInteger (big_div (totalChallengeBondWei challenges * 2500) (milli_ether 100)) 0 2500;
               participantPressure = min 1600 (distinctChallengeParticipants challenges * 450)
           in 10000 + min 1800 (openChallengeCount challenges * 700) + participantPressure + bondPressure)"

definition attentionPressureBpsForClaim ::
  "challenge_view list \<Rightarrow> forecast_view list \<Rightarrow> reward_work_kind \<Rightarrow> int" where
  "attentionPressureBpsForClaim challenges forecasts workKind =
     (let forecastDelta = max 0 (forecastActivityPressureBps forecasts - 10000);
          challengeDelta = max 0 (challengeActivityPressureBps challenges - 10000);
          part = (\<lambda>d n. js_floor (int_div d n))
      in case workKind of
           Kind_challenge \<Rightarrow> min 20000 (10000 + challengeDelta + part forecastDelta 4)
         | Kind_forecast \<Rightarrow> min 18000 (10000 + forecastDelta + part challengeDelta 5)
         | Kind_maintenance \<Rightarrow> min 15000 (10000 + part challengeDelta 4)
         | Kind_replication \<Rightarrow> min 18000 (10000 + part forecastDelta 2 + part challengeDelta 3)
         | Kind_synthesis \<Rightarrow> min 19000 (10000 + part (forecastDelta + challengeDelta) 2)
         | Kind_review \<Rightarrow> min 18000 (10000 + part forecastDelta 2 + part challengeDelta 2))"

definition combinedAttentionPressureBps :: "int \<Rightarrow> int \<Rightarrow> int" where
  "combinedAttentionPressureBps claimAttention schedulerPressure =
     clampInteger (big_div (claimAttention * schedulerPressure) 10000) 5000 25000"

section \<open>The explanation\<close>

record policy_attention =
  pa_challengeActivityPressureBps :: int
  pa_distinctChallengeParticipants :: int
  pa_distinctForecastParticipants :: int
  pa_forecastActivityPressureBps :: int
  pa_forecastCount :: int
  pa_openChallengeCount :: int
  pa_totalChallengeBondWei :: string
  pa_totalForecastStakeWei :: string

record policy_signal =
  ps_attentionPressureBps :: int
  ps_baseRewardWei :: string
  ps_combinedPressureBps :: int
  ps_distributionFractionBps :: int
  ps_freshContributorItems :: int
  ps_fundingTargetWei :: string
  ps_marketPressureBps :: int
  ps_minimumQualityBps :: int
  ps_minimumCoverageItems :: int
  ps_poolBalanceWei :: string
  ps_reassignmentReadyItems :: int
  ps_redundancyTargetItems :: int
  ps_schedulerPressureBps :: int
  ps_uncoveredDemand :: int
  ps_workKind :: reward_work_kind

record policy_explanation =
  pe_attention :: policy_attention
  pe_narrative :: string
  pe_policyVersion :: string
  pe_signals :: "policy_signal list"

definition policySignal ::
  "challenge_view list \<Rightarrow> forecast_view list \<Rightarrow> (reward_work_kind, int) jmap \<Rightarrow>
   (reward_work_kind \<Rightarrow> demand_signal) \<Rightarrow> reward_work_kind \<Rightarrow> policy_signal" where
  "policySignal challenges forecasts pools demandSignals kind =
     (let config = POLICY_CONFIG kind;
          poolBalance = nullish (jm_get pools kind) 0;
          demand = demandSignals kind;
          attention = attentionPressureBpsForClaim challenges forecasts kind
      in \<lparr>ps_attentionPressureBps = attention,
          ps_baseRewardWei = show_int (pc_baseRewardWei config),
          ps_combinedPressureBps = combinedAttentionPressureBps attention (ds_schedulerPressureBps demand),
          ps_distributionFractionBps = pc_distributionFractionBps config,
          ps_freshContributorItems = ds_freshContributorItems demand,
          ps_fundingTargetWei = show_int (pc_fundingTargetWei config),
          ps_marketPressureBps = marketPressureBps poolBalance (pc_fundingTargetWei config),
          ps_minimumQualityBps = pc_minimumQualityBps config,
          ps_minimumCoverageItems = ds_minimumCoverageItems demand,
          ps_poolBalanceWei = show_int poolBalance,
          ps_reassignmentReadyItems = ds_reassignmentReadyItems demand,
          ps_redundancyTargetItems = ds_redundancyTargetItems demand,
          ps_schedulerPressureBps = ds_schedulerPressureBps demand,
          ps_uncoveredDemand = ds_uncoveredDemand demand,
          ps_workKind = kind\<rparr>)"

definition signalStrength :: "policy_signal \<Rightarrow> int" where
  "signalStrength s = ps_marketPressureBps s + ps_attentionPressureBps s + ps_schedulerPressureBps s"

definition compareSignals :: "policy_signal \<Rightarrow> policy_signal \<Rightarrow> int" where
  "compareSignals left right =
     (if signalStrength left = signalStrength right
      then locale_compare (show_work_kind (ps_workKind left)) (show_work_kind (ps_workKind right))
      else signalStrength right - signalStrength left)"

definition strongestSignal :: "policy_signal list \<Rightarrow> policy_signal option" where
  "strongestSignal signals = (case js_sort compareSignals signals of [] \<Rightarrow> None | s # _ \<Rightarrow> Some s)"

definition percent :: "int \<Rightarrow> string" where
  "percent bps = show_int (js_round (int_div bps 100))"

definition policyNarrative :: "policy_signal option \<Rightarrow> string" where
  "policyNarrative strongest =
     (case strongest of
        None \<Rightarrow> ''Reward pricing is idle until a claim work pool is funded.''
      | Some s \<Rightarrow> js_title_case (show_work_kind (ps_workKind s)) @
          '' work is priced most aggressively right now because its pool pressure is '' @
          percent (ps_marketPressureBps s) @ ''% and its live attention multiplier is '' @
          percent (ps_attentionPressureBps s) @ ''%, with scheduler scarcity at '' @
          percent (ps_schedulerPressureBps s) @ ''% and a combined pressure of '' @
          percent (ps_combinedPressureBps s) @ ''%.'')"

definition policyAttention :: "challenge_view list \<Rightarrow> forecast_view list \<Rightarrow> policy_attention" where
  "policyAttention challenges forecasts = \<lparr>
     pa_challengeActivityPressureBps = challengeActivityPressureBps challenges,
     pa_distinctChallengeParticipants = distinctChallengeParticipants challenges,
     pa_distinctForecastParticipants = distinctForecastParticipants forecasts,
     pa_forecastActivityPressureBps = forecastActivityPressureBps forecasts,
     pa_forecastCount = int (length forecasts),
     pa_openChallengeCount = openChallengeCount challenges,
     pa_totalChallengeBondWei = show_int (totalChallengeBondWei challenges),
     pa_totalForecastStakeWei = show_int (totalForecastStakeWei forecasts)\<rparr>"

definition buildClaimRewardPolicyExplanation ::
  "challenge_view list \<Rightarrow> forecast_view list \<Rightarrow> string option \<Rightarrow> (reward_work_kind \<times> int) list \<Rightarrow>
   claim_work_graph option \<Rightarrow> policy_explanation" where
  "buildClaimRewardPolicyExplanation challenges forecasts policyVersion pools workGraph =
     (let demandSignals = buildClaimRewardWorkDemandSignals workGraph;
          signals = map (policySignal challenges forecasts (jm_of_list pools) demandSignals) policy_kinds
      in \<lparr>pe_attention = policyAttention challenges forecasts,
          pe_narrative = policyNarrative (strongestSignal signals),
          pe_policyVersion = nullish policyVersion ''auto-v1'',
          pe_signals = signals\<rparr>)"

section \<open>Facts about the signals\<close>

lemma countDemand_fold:
  "fold (\<lambda>item byKind. byKind(itemWorkKind item := addDemand item (byKind (itemWorkKind item)))) items m k =
     fold addDemand (filter (\<lambda>i. itemWorkKind i = k) items) (m k)"
  by (induction items arbitrary: m) simp_all

lemma countDemand_eq:
  "countDemand items k = fold addDemand (filter (\<lambda>i. itemWorkKind i = k) items) (emptyWorkDemandSignal k)"
  by (simp add: countDemand_def countDemand_fold)

lemma addDemand_fold:
  "ds_minimumCoverageItems (fold addDemand is s) =
     ds_minimumCoverageItems s + count_if (\<lambda>i. wc_needsMinimumCoverage (wi_scheduling i)) is"
  "ds_redundancyTargetItems (fold addDemand is s) =
     ds_redundancyTargetItems s + count_if (\<lambda>i. wc_needsRedundantCoverage (wi_scheduling i)) is"
  "ds_freshContributorItems (fold addDemand is s) =
     ds_freshContributorItems s + count_if (\<lambda>i. wc_prefersFreshContributor (wi_scheduling i)) is"
  "ds_reassignmentReadyItems (fold addDemand is s) =
     ds_reassignmentReadyItems s + count_if (\<lambda>i. wc_reassignmentPreferred (wi_scheduling i)) is"
  "ds_uncoveredDemand (fold addDemand is s) =
     ds_uncoveredDemand s + sum_list (map (\<lambda>i. wc_desiredAdditionalClaims (wi_scheduling i)) is)"
  by (induction "is" arbitrary: s) (simp_all add: addDemand_def Let_def)

lemma kind_partition_sum:
  "sum_list (map (\<lambda>k. sum_list (map f (filter (\<lambda>i. g i = k) xs))) policy_kinds) = sum_list (map f xs)"
  for f :: "'a \<Rightarrow> int" and g :: "'a \<Rightarrow> reward_work_kind"
proof (induction xs)
  case (Cons x xs)
  then show ?case by (cases "g x") (simp_all add: policy_kinds_def)
qed (simp add: policy_kinds_def)

lemma count_if_sum: "count_if p xs = sum_list (map (\<lambda>x. if p x then 1 else 0) xs)"
  by (induction xs) simp_all

lemma kind_partition_count:
  "sum_list (map (\<lambda>k. count_if p (filter (\<lambda>i. g i = k) xs)) policy_kinds) = count_if p xs"
  unfolding count_if_sum by (rule kind_partition_sum)

lemma demand_signal_counts:
  "ds_minimumCoverageItems (buildClaimRewardWorkDemandSignals (Some g) k) =
     count_if (\<lambda>i. wc_needsMinimumCoverage (wi_scheduling i)) (filter (\<lambda>i. itemWorkKind i = k) (cg_items g))"
  "ds_redundancyTargetItems (buildClaimRewardWorkDemandSignals (Some g) k) =
     count_if (\<lambda>i. wc_needsRedundantCoverage (wi_scheduling i)) (filter (\<lambda>i. itemWorkKind i = k) (cg_items g))"
  "ds_freshContributorItems (buildClaimRewardWorkDemandSignals (Some g) k) =
     count_if (\<lambda>i. wc_prefersFreshContributor (wi_scheduling i)) (filter (\<lambda>i. itemWorkKind i = k) (cg_items g))"
  "ds_reassignmentReadyItems (buildClaimRewardWorkDemandSignals (Some g) k) =
     count_if (\<lambda>i. wc_reassignmentPreferred (wi_scheduling i)) (filter (\<lambda>i. itemWorkKind i = k) (cg_items g))"
  "ds_uncoveredDemand (buildClaimRewardWorkDemandSignals (Some g) k) =
     sum_list (map (\<lambda>i. wc_desiredAdditionalClaims (wi_scheduling i)) (filter (\<lambda>i. itemWorkKind i = k) (cg_items g)))"
  by (simp_all add: buildClaimRewardWorkDemandSignals_def Let_def countDemand_eq addDemand_fold
      emptyWorkDemandSignal_def)

lemma schedulerPressure_bounds:
  assumes "0 \<le> ds_minimumCoverageItems s" "0 \<le> ds_reassignmentReadyItems s" "0 \<le> ds_freshContributorItems s"
    "0 \<le> ds_uncoveredDemand s" "0 \<le> ds_redundancyTargetItems s"
  shows "10000 \<le> computeSchedulerPressureBps s" and "computeSchedulerPressureBps s \<le> 17800"
  using assms unfolding computeSchedulerPressureBps_def by linarith+

lemma graph_scheduler_pressure:
  "10000 \<le> ds_schedulerPressureBps (buildClaimRewardWorkDemandSignals (Some (buildClaimWorkGraph inp)) k)"
  "ds_schedulerPressureBps (buildClaimRewardWorkDemandSignals (Some (buildClaimWorkGraph inp)) k) \<le> 17800"
proof -
  let ?items = "cg_items (buildClaimWorkGraph inp)"
  let ?s = "countDemand ?items k"
  have "0 \<le> wc_desiredAdditionalClaims (wi_scheduling i)" if "i \<in> set ?items" for i
    using scheduled_item_facts [OF that] by (cases "wc_autoClaimable (wi_scheduling i)") auto
  then have "0 \<le> ds_uncoveredDemand ?s"
    by (auto simp: countDemand_eq addDemand_fold emptyWorkDemandSignal_def intro!: sum_list_nonneg)
  moreover have "0 \<le> ds_minimumCoverageItems ?s" "0 \<le> ds_reassignmentReadyItems ?s"
    "0 \<le> ds_freshContributorItems ?s" "0 \<le> ds_redundancyTargetItems ?s"
    by (simp_all add: countDemand_eq addDemand_fold emptyWorkDemandSignal_def bounds_intros)
  ultimately show "10000 \<le> ds_schedulerPressureBps (buildClaimRewardWorkDemandSignals (Some (buildClaimWorkGraph inp)) k)"
    "ds_schedulerPressureBps (buildClaimRewardWorkDemandSignals (Some (buildClaimWorkGraph inp)) k) \<le> 17800"
    by (simp_all add: buildClaimRewardWorkDemandSignals_def Let_def schedulerPressure_bounds)
qed

lemma fold_max_ge: "x \<le> fold max xs x" for x :: int
  by (induction xs arbitrary: x) (auto intro: order_trans [OF max.cobounded2])

lemma fold_min_le: "fold min xs x \<le> x" for x :: int
  by (induction xs arbitrary: x) (auto intro: order_trans [OF _ min.cobounded2])

lemma confidenceSpread_nonneg: "0 \<le> confidenceSpread revealed"
proof (cases "map fv_confidenceBps revealed")
  case Nil
  then show ?thesis by (simp add: confidenceSpread_def)
next
  case (Cons x xs)
  have "fold min xs x \<le> fold max xs x" using fold_min_le [of xs x] fold_max_ge [of x xs] by linarith
  with Cons show ?thesis unfolding confidenceSpread_def by (cases xs) simp_all
qed

lemma part_nonneg: "0 \<le> d \<Longrightarrow> 0 < n \<Longrightarrow> 0 \<le> js_floor (int_div d n)"
  by (simp add: js_floor_def int_div_def fl_nonneg)

lemma forecastActivity_bounds:
  "10000 \<le> forecastActivityPressureBps fs" "forecastActivityPressureBps fs \<le> 17100"
proof -
  let ?rev = "filter (\<lambda>f. fv_revealed f \<or> fv_settled f) fs"
  have s: "0 \<le> js_floor (int_div (confidenceSpread ?rev) 5)"
    by (simp add: part_nonneg confidenceSpread_nonneg)
  have p: "0 \<le> distinctForecastParticipants fs" by (simp add: distinctForecastParticipants_def bounds_intros)
  have b: "0 \<le> clampInteger x 0 1000" "clampInteger x 0 1000 \<le> 1000"
    "0 \<le> clampInteger x 0 1800" "clampInteger x 0 1800 \<le> 1800" for x by (simp_all add: bounds_intros)
  show "10000 \<le> forecastActivityPressureBps fs" "forecastActivityPressureBps fs \<le> 17100"
    using s p b(1,2) [of "big_div (minorityStake ?rev * 1000) (milli_ether 30)"]
      b(3,4) [of "big_div (totalForecastStakeWei fs * 1800) (milli_ether 50)"]
    unfolding forecastActivityPressureBps_def Let_def by (simp_all split: if_splits) linarith+
qed

lemma challengeActivity_bounds:
  "10000 \<le> challengeActivityPressureBps cs" "challengeActivityPressureBps cs \<le> 15900"
proof -
  have p: "0 \<le> distinctChallengeParticipants cs" "0 \<le> openChallengeCount cs"
    by (simp_all add: distinctChallengeParticipants_def openChallengeCount_def bounds_intros)
  have b: "0 \<le> clampInteger x 0 2500" "clampInteger x 0 2500 \<le> 2500" for x by (simp_all add: bounds_intros)
  show "10000 \<le> challengeActivityPressureBps cs" "challengeActivityPressureBps cs \<le> 15900"
    using p b [of "big_div (totalChallengeBondWei cs * 2500) (milli_ether 100)"]
    unfolding challengeActivityPressureBps_def Let_def by (simp_all split: if_splits) linarith+
qed

lemma attention_bounds:
  "10000 \<le> attentionPressureBpsForClaim cs fs k" "attentionPressureBpsForClaim cs fs k \<le> 20000"
proof -
  define fd where "fd = max 0 (forecastActivityPressureBps fs - 10000)"
  define cd where "cd = max 0 (challengeActivityPressureBps cs - 10000)"
  have d: "0 \<le> fd" "0 \<le> cd" by (simp_all only: fd_def cd_def max.cobounded1)
  have p: "0 \<le> js_floor (int_div fd 4)" "0 \<le> js_floor (int_div cd 5)" "0 \<le> js_floor (int_div cd 4)"
    "0 \<le> js_floor (int_div fd 2)" "0 \<le> js_floor (int_div cd 3)" "0 \<le> js_floor (int_div cd 2)"
    "0 \<le> js_floor (int_div (fd + cd) 2)" using d by (simp_all only: part_nonneg add_nonneg_nonneg)
  have eq: "attentionPressureBpsForClaim cs fs k = (case k of
           Kind_challenge \<Rightarrow> min 20000 (10000 + cd + js_floor (int_div fd 4))
         | Kind_forecast \<Rightarrow> min 18000 (10000 + fd + js_floor (int_div cd 5))
         | Kind_maintenance \<Rightarrow> min 15000 (10000 + js_floor (int_div cd 4))
         | Kind_replication \<Rightarrow> min 18000 (10000 + js_floor (int_div fd 2) + js_floor (int_div cd 3))
         | Kind_synthesis \<Rightarrow> min 19000 (10000 + js_floor (int_div (fd + cd) 2))
         | Kind_review \<Rightarrow> min 18000 (10000 + js_floor (int_div fd 2) + js_floor (int_div cd 2)))"
    by (simp only: attentionPressureBpsForClaim_def Let_def fd_def cd_def)
  show "10000 \<le> attentionPressureBpsForClaim cs fs k" "attentionPressureBpsForClaim cs fs k \<le> 20000"
    unfolding eq using d p by (cases k; simp only: reward_work_kind.case min.bounded_iff; linarith)+
qed

lemma combined_at_least_neutral:
  assumes "10000 \<le> a" and "10000 \<le> b"
  shows "10000 \<le> combinedAttentionPressureBps a b" and "combinedAttentionPressureBps a b \<le> 25000"
proof -
  have "10000 * 10000 \<le> a * b" using assms by (intro mult_mono) simp_all
  then have "10000 \<le> a * b div 10000" by linarith
  then have "10000 \<le> big_div (a * b) 10000" using assms by (simp add: big_div_nonneg)
  then show "10000 \<le> combinedAttentionPressureBps a b" "combinedAttentionPressureBps a b \<le> 25000"
    by (simp_all add: combinedAttentionPressureBps_def clampInteger_def)
qed

lemma title_starts: "take 3 (js_title_case (show_work_kind k)) \<noteq> ''Rew''"
proof -
  have "list_all (\<lambda>k. take 3 (js_title_case (show_work_kind k)) \<noteq> ''Rew'') policy_kinds" by code_simp
  then show ?thesis using policy_kinds_complete [of k] by (simp add: list_all_iff)
qed

lemma title_length: "3 \<le> length (js_title_case (show_work_kind k))"
proof -
  have "list_all (\<lambda>k. 3 \<le> length (js_title_case (show_work_kind k))) policy_kinds" by code_simp
  then show ?thesis using policy_kinds_complete [of k] by (simp add: list_all_iff)
qed

lemma narrative_not_idle: "policyNarrative (Some s) \<noteq> policyNarrative None"
proof
  assume "policyNarrative (Some s) = policyNarrative None"
  then have "take 3 (policyNarrative (Some s)) = take 3 (policyNarrative None)" by simp
  then show False
    using title_starts [of "ps_workKind s"] title_length [of "ps_workKind s"]
    by (simp add: policyNarrative_def)
qed

interpretation signal_order: comparator compareSignals
proof -
  have "comparator (\<lambda>l r. if signalStrength r - signalStrength l \<noteq> 0 then signalStrength r - signalStrength l
      else locale_compare (show_work_kind (ps_workKind l)) (show_work_kind (ps_workKind r)))"
    by (rule comparator_lex [OF comparator_rev [OF comparator_diff] comparator_key [OF comparator_locale_compare]])
  moreover have "compareSignals = (\<lambda>l r. if signalStrength r - signalStrength l \<noteq> 0 then signalStrength r - signalStrength l
      else locale_compare (show_work_kind (ps_workKind l)) (show_work_kind (ps_workKind r)))"
    by (intro ext) (simp add: compareSignals_def)
  ultimately show "comparator compareSignals" by simp
qed

lemma strongest_is_max:
  assumes "signals \<noteq> []"
  obtains s where "strongestSignal signals = Some s" and "s \<in> set signals"
    and "list_all (\<lambda>x. signalStrength x \<le> signalStrength s) signals"
proof -
  obtain s rest where sorted: "js_sort compareSignals signals = s # rest"
    using assms js_sort_Nil_iff [of compareSignals signals] by (cases "js_sort compareSignals signals") blast+
  show thesis
  proof (rule that)
    show "strongestSignal signals = Some s" by (simp add: strongestSignal_def sorted)
    show "s \<in> set signals" using sorted by (rule js_sort_head)
    have "signalStrength x \<le> signalStrength s" if "x \<in> set signals" for x
      using signal_order.hd_sort_least [OF sorted that] by (simp add: compareSignals_def split: if_splits)
    then show "list_all (\<lambda>x. signalStrength x \<le> signalStrength s) signals" by (simp add: list_all_iff)
  qed
qed

section \<open>Properties\<close>

text \<open>
  The demand signals of a claim split the demand of its work graph over the kinds of work and
  lose nothing: summed over all kinds, each counter is the one of the graph's summary. The
  scheduler pressure they give lies between neutral (10000) and 17800, so its cap of 20000 is never
  reached.
\<close>

theorem demand_signals_partition:
  "(let g = buildClaimWorkGraph inp; d = buildClaimRewardWorkDemandSignals (Some g)
    in sum_list (map (\<lambda>k. ds_minimumCoverageItems (d k)) policy_kinds) = gs_minimumCoverageItems (cg_summary g) \<and>
       sum_list (map (\<lambda>k. ds_redundancyTargetItems (d k)) policy_kinds) = gs_redundancyTargetItems (cg_summary g) \<and>
       sum_list (map (\<lambda>k. ds_freshContributorItems (d k)) policy_kinds) = gs_freshContributorItems (cg_summary g) \<and>
       sum_list (map (\<lambda>k. ds_reassignmentReadyItems (d k)) policy_kinds) = gs_reassignmentReadyItems (cg_summary g) \<and>
       sum_list (map (\<lambda>k. ds_uncoveredDemand (d k)) policy_kinds) = gs_uncoveredDemand (cg_summary g) \<and>
       10000 \<le> ds_schedulerPressureBps (d k) \<and> ds_schedulerPressureBps (d k) \<le> 17800)"
  unfolding Let_def demand_signal_counts kind_partition_count kind_partition_sum
  by (simp add: graph_summary graphSummary_def sum_fold graph_scheduler_pressure)

text \<open>
  Attention never makes work cheaper: whatever the forecasts and challenges of a claim, the
  attention pressure of every kind of work is between neutral and twice neutral, and combined with
  the scheduler pressure of any work graph it stays between neutral and 25000.
\<close>

theorem attention_pressure_bounds:
  "10000 \<le> attentionPressureBpsForClaim challenges forecasts kind \<and>
   attentionPressureBpsForClaim challenges forecasts kind \<le> 20000 \<and>
   10000 \<le> combinedAttentionPressureBps (attentionPressureBpsForClaim challenges forecasts kind)
     (ds_schedulerPressureBps (buildClaimRewardWorkDemandSignals (Some (buildClaimWorkGraph inp)) kind)) \<and>
   combinedAttentionPressureBps (attentionPressureBpsForClaim challenges forecasts kind)
     (ds_schedulerPressureBps (buildClaimRewardWorkDemandSignals (Some (buildClaimWorkGraph inp)) kind)) \<le> 25000"
  using attention_bounds [of challenges forecasts kind] graph_scheduler_pressure(1) [of inp kind]
    combined_at_least_neutral by blast

text \<open>
  The reward explanation has one signal per kind of work, in the order of the pricing table,
  and its narrative speaks about a signal of maximal strength. Its message for unfunded pools
  ("Reward pricing is idle...") is therefore never shown, even when no pool holds anything.
\<close>

theorem explanation_names_strongest:
  "(let e = buildClaimRewardPolicyExplanation challenges forecasts version pools graph
    in map ps_workKind (pe_signals e) = policy_kinds \<and>
       (\<exists>s. s \<in> set (pe_signals e) \<and> pe_narrative e = policyNarrative (Some s) \<and>
          list_all (\<lambda>x. signalStrength x \<le> signalStrength s) (pe_signals e)) \<and>
       pe_narrative e \<noteq> ''Reward pricing is idle until a claim work pool is funded.'')"
proof -
  let ?sig = "map (policySignal challenges forecasts (jm_of_list pools) (buildClaimRewardWorkDemandSignals graph)) policy_kinds"
  have kinds: "map ps_workKind ?sig = policy_kinds" by (simp add: policySignal_def Let_def comp_def)
  have "?sig \<noteq> []" by (simp add: policy_kinds_def)
  then obtain s where s: "strongestSignal ?sig = Some s" "s \<in> set ?sig"
    "list_all (\<lambda>x. signalStrength x \<le> signalStrength s) ?sig" by (rule strongest_is_max)
  have "policyNarrative (Some s) \<noteq> ''Reward pricing is idle until a claim work pool is funded.''"
    using narrative_not_idle [of s] by (simp add: policyNarrative_def)
  then show ?thesis
    unfolding Let_def buildClaimRewardPolicyExplanation_def policy_explanation.select_convs s(1)
    using kinds s(2,3) by blast
qed

end
