(* ===== verification/Reward_Discounts.thy ===== *)
theory Reward_Discounts
  imports Reward_Targets
begin

text \<open>
  The quality discounts of \<open>rewards/policy.ts\<close> (lines 525-598 and 827-829): inside each bucket of
  candidates the best keeps its quality and every later rank loses one more step, down to a
  minimum; applied per operator, per agent, per recipient, and over all candidates of a group.
\<close>

record policy_candidate = reward_candidate +
  rk_agentId :: "string option"
  rk_budgetTopUpBps :: int
  rk_claimId :: string
  rk_operator :: "string option"
  rk_recipient :: "string option"
  rk_workKind :: reward_work_kind

definition discountBps :: "int \<Rightarrow> int \<Rightarrow> nat \<Rightarrow> int" where
  "discountBps stepBps minimumBps index = max minimumBps (10000 - int index * stepBps)"

definition discounted :: "int \<Rightarrow> int \<Rightarrow> nat \<Rightarrow> int \<Rightarrow> int" where
  "discounted stepBps minimumBps index quality =
     max 0 (js_round (int_div (quality * discountBps stepBps minimumBps index) 10000))"

definition rankBucket :: "'a reward_candidate_scheme list \<Rightarrow> 'a reward_candidate_scheme list" where
  "rankBucket bucket = js_sort (\<lambda>left right. rk_qualityBps right - rk_qualityBps left) bucket"

definition adjustBucket ::
  "int \<Rightarrow> int \<Rightarrow> 'a reward_candidate_scheme list \<Rightarrow> (string \<times> 'a reward_candidate_scheme) list" where
  "adjustBucket stepBps minimumBps bucket =
     map (\<lambda>(index, candidate). (rk_itemId candidate,
            candidate\<lparr>rk_qualityBps := discounted stepBps minimumBps index (rk_qualityBps candidate)\<rparr>))
         (enumerate 0 (rankBucket bucket))"

definition applyRankDiscounts ::
  "('a reward_candidate_scheme \<Rightarrow> string) \<Rightarrow> int \<Rightarrow> int \<Rightarrow> 'a reward_candidate_scheme list \<Rightarrow>
   'a reward_candidate_scheme list" where
  "applyRankDiscounts bucketKey stepBps minimumBps candidates =
     (let buckets = jm_group bucketKey candidates;
          adjustedByItemId = jm_of_list (concat (map (adjustBucket stepBps minimumBps) (jm_values buckets)))
      in List.map_filter (\<lambda>candidate. jm_get adjustedByItemId (rk_itemId candidate)) candidates)"

definition operatorKey :: "policy_candidate \<Rightarrow> string" where
  "operatorKey candidate =
     nullish (map_option js_lower (normalizeAddress (rk_operator candidate)))
       (''unassigned-operator:'' @ rk_itemId candidate)"

definition recipientKey :: "policy_candidate \<Rightarrow> string" where
  "recipientKey candidate =
     nullish (map_option js_lower (normalizeAddress (rk_recipient candidate)))
       (''unassigned:'' @ rk_itemId candidate)"

definition identityKey :: "policy_candidate \<Rightarrow> string" where
  "identityKey candidate =
     (if truthy (rk_agentId candidate) \<and> rk_agentId candidate \<noteq> Some ''0''
      then ''agent:'' @ the (rk_agentId candidate)
      else recipientKey candidate)"

definition applyRecipientConcentrationDiscounts :: "policy_candidate list \<Rightarrow> policy_candidate list" where
  "applyRecipientConcentrationDiscounts candidates =
     (let operatorAdjusted = applyRankDiscounts operatorKey 1250 6000 candidates;
          identityAdjusted = applyRankDiscounts identityKey 1500 5000 operatorAdjusted
      in applyRankDiscounts recipientKey 2000 4500 identityAdjusted)"

definition applyRedundancyDiscounts :: "policy_candidate list \<Rightarrow> policy_candidate list" where
  "applyRedundancyDiscounts candidates = applyRankDiscounts (\<lambda>_. ''__all__'') 1500 5500 candidates"

definition applyCandidateQualityDiscounts :: "policy_candidate list \<Rightarrow> policy_candidate list" where
  "applyCandidateQualityDiscounts candidates =
     applyRecipientConcentrationDiscounts (applyRedundancyDiscounts candidates)"

section \<open>What one pass does\<close>

interpretation quality_order: comparator
  "\<lambda>left right. rk_qualityBps right - rk_qualityBps (left :: 'a reward_candidate_scheme)"
  by (rule comparator_rev [OF comparator_diff])

text \<open>The bucket of a candidate, best first, and the rank at which the candidate stands in it.\<close>

definition rankedWith ::
  "('a reward_candidate_scheme \<Rightarrow> string) \<Rightarrow> 'a reward_candidate_scheme list \<Rightarrow>
   'a reward_candidate_scheme \<Rightarrow> 'a reward_candidate_scheme list" where
  "rankedWith key cs c = rankBucket (filter (\<lambda>d. key d = key c) cs)"

definition discount_result ::
  "('a reward_candidate_scheme \<Rightarrow> string) \<Rightarrow> int \<Rightarrow> int \<Rightarrow> 'a reward_candidate_scheme list \<Rightarrow>
   'a reward_candidate_scheme \<Rightarrow> 'a reward_candidate_scheme \<Rightarrow> bool" where
  "discount_result key stepBps minimumBps cs c c' \<longleftrightarrow>
     (\<exists>i < length (rankedWith key cs c). rankedWith key cs c ! i = c \<and>
        c' = c\<lparr>rk_qualityBps := discounted stepBps minimumBps i (rk_qualityBps c)\<rparr>)"

lemma rankBucket_sorted: "sorted_wrt (\<lambda>x y. rk_qualityBps y \<le> rk_qualityBps x) (rankBucket cs)"
  using quality_order.sorted_sort [of cs] by (simp add: rankBucket_def)

lemma rankBucket_simps [simp]: "set (rankBucket cs) = set cs" "length (rankBucket cs) = length cs"
  by (simp_all add: rankBucket_def)

lemma distinct_ids_eq:
  "distinct (map f xs) \<Longrightarrow> x \<in> set xs \<Longrightarrow> y \<in> set xs \<Longrightarrow> f x = f y \<Longrightarrow> x = y"
  by (simp add: distinct_map inj_on_def)

lemma adjustBucket_mem:
  assumes "(k, v) \<in> set (adjustBucket stepBps minimumBps bucket)"
  obtains i where "i < length bucket" and "k = rk_itemId (rankBucket bucket ! i)"
    and "v = (rankBucket bucket ! i)\<lparr>rk_qualityBps :=
           discounted stepBps minimumBps i (rk_qualityBps (rankBucket bucket ! i))\<rparr>"
proof -
  obtain i where i: "i < length bucket"
      "(k, v) = (rk_itemId (rankBucket bucket ! i), (rankBucket bucket ! i)\<lparr>rk_qualityBps :=
           discounted stepBps minimumBps i (rk_qualityBps (rankBucket bucket ! i))\<rparr>)"
    using assms unfolding adjustBucket_def by (auto simp: in_set_conv_nth nth_enumerate_eq)
  show ?thesis by (rule that [OF i(1)]) (use i(2) in simp_all)
qed

lemma adjustBucket_fst: "map fst (adjustBucket stepBps minimumBps bucket) = map rk_itemId (rankBucket bucket)"
  by (rule nth_equalityI) (simp_all add: adjustBucket_def nth_enumerate_eq)

lemma adjustBucket_keys:
  "c \<in> set bucket \<Longrightarrow> rk_itemId c \<in> fst ` set (adjustBucket stepBps minimumBps bucket)"
  unfolding set_map [symmetric] adjustBucket_fst by simp

lemma adjusted_value:
  assumes d: "distinct (map rk_itemId cs)" and c: "c \<in> set cs"
    and kv: "(rk_itemId c, v) \<in> set (concat (map (adjustBucket stepBps minimumBps) (jm_values (jm_group key cs))))"
  shows "discount_result key stepBps minimumBps cs c v"
proof -
  obtain k b where kb: "(k, b) \<in> set (jm_group key cs)"
    and v: "(rk_itemId c, v) \<in> set (adjustBucket stepBps minimumBps b)" using kv by auto
  from v obtain i where i: "i < length b" "rk_itemId c = rk_itemId (rankBucket b ! i)"
    "v = (rankBucket b ! i)\<lparr>rk_qualityBps := discounted stepBps minimumBps i (rk_qualityBps (rankBucket b ! i))\<rparr>"
    by (rule adjustBucket_mem)
  have b: "b = filter (\<lambda>x. key x = k) cs" using kb by (rule jm_group_bucket)
  have "rankBucket b ! i \<in> set (rankBucket b)" using i(1) by (intro nth_mem) simp
  then have m: "rankBucket b ! i \<in> set cs" "key (rankBucket b ! i) = k" by (simp_all add: b)
  have eq: "rankBucket b ! i = c" using distinct_ids_eq [OF d m(1) c] i(2) by simp
  with m have "rankedWith key cs c = rankBucket b" by (simp add: rankedWith_def b)
  with i eq show ?thesis by (auto simp: discount_result_def)
qed

lemma applyRankDiscounts_spec:
  assumes d: "distinct (map rk_itemId cs)"
  shows "list_all2 (discount_result key stepBps minimumBps cs) cs (applyRankDiscounts key stepBps minimumBps cs)"
proof -
  let ?kvs = "concat (map (adjustBucket stepBps minimumBps) (jm_values (jm_group key cs)))"
  have get: "\<exists>v. jm_get (jm_of_list ?kvs) (rk_itemId c) = Some v \<and> discount_result key stepBps minimumBps cs c v"
    if c: "c \<in> set cs" for c
  proof -
    obtain b where b: "(key c, b) \<in> set (jm_group key cs)" "c \<in> set b"
      using jm_group_key_present [OF c] by blast
    have "rk_itemId c \<in> fst ` set ?kvs" using adjustBucket_keys [OF b(2), of stepBps minimumBps] b(1) by force
    then obtain v where v: "map_of (rev ?kvs) (rk_itemId c) = Some v"
      using map_of_eq_None_iff [of "rev ?kvs" "rk_itemId c"] by (cases "map_of (rev ?kvs) (rk_itemId c)") auto
    then have "(rk_itemId c, v) \<in> set ?kvs" using map_of_SomeD by fastforce
    then have "discount_result key stepBps minimumBps cs c v" by (rule adjusted_value [OF d c])
    with v show ?thesis by (simp add: jm_of_list_get)
  qed
  have "list_all2 (discount_result key stepBps minimumBps cs) ds
      (List.map_filter (\<lambda>c. jm_get (jm_of_list ?kvs) (rk_itemId c)) ds)" if "set ds \<subseteq> set cs" for ds
    using that
  proof (induction ds)
    case Nil
    then show ?case by (simp add: List.map_filter_simps)
  next
    case (Cons c ds)
    with get [of c] show ?case by (auto simp: List.map_filter_simps)
  qed
  from this [of cs] show ?thesis by (simp add: applyRankDiscounts_def Let_def)
qed

section \<open>Bounds of a pass\<close>

text \<open>Qualities that the double quotient rounds exactly; the policy's are at most 20000.\<close>

definition quality_ok :: "int \<Rightarrow> bool" where
  "quality_ok q \<longleftrightarrow> 0 \<le> q \<and> q \<le> 100000000000"

lemma discounted_eq:
  assumes "quality_ok q" and "0 \<le> discountBps s m i" and "discountBps s m i \<le> 10000"
  shows "discounted s m i q = round_div (q * discountBps s m i) 10000"
proof -
  have "q * discountBps s m i \<le> 100000000000 * 10000"
    using assms by (intro mult_mono) (simp_all add: quality_ok_def)
  then have "q * discountBps s m i < 2 ^ 50" by (rule order_le_less_trans) simp
  moreover have "0 \<le> q * discountBps s m i" using assms by (simp add: quality_ok_def)
  ultimately show ?thesis by (simp add: discounted_def js_round_div round_div_nonneg)
qed

lemma discountBps_bounds:
  assumes "0 \<le> s" and "0 \<le> m" and "m \<le> 10000"
  shows "m \<le> discountBps s m i" and "0 \<le> discountBps s m i" and "discountBps s m i \<le> 10000"
    and "i \<le> j \<Longrightarrow> discountBps s m j \<le> discountBps s m i"
proof -
  have "0 \<le> int i * s" using assms by simp
  then show "m \<le> discountBps s m i" "0 \<le> discountBps s m i" "discountBps s m i \<le> 10000"
    using assms by (auto simp: discountBps_def)
  show "discountBps s m j \<le> discountBps s m i" if "i \<le> j"
    using mult_right_mono [of "int i" "int j" s] that assms by (auto simp: discountBps_def)
qed

lemma discounted_bounds:
  assumes q: "quality_ok q" and s: "0 \<le> s" "0 \<le> m" "m \<le> 10000"
  shows "round_div (q * m) 10000 \<le> discounted s m i q" and "discounted s m i q \<le> q"
    and "quality_ok (discounted s m i q)" and "discounted s m 0 q = q"
proof -
  note d = discountBps_bounds [OF s, of i]
  have q0: "0 \<le> q" using q by (simp add: quality_ok_def)
  have eq: "discounted s m i q = round_div (q * discountBps s m i) 10000"
    using discounted_eq [OF q] d by simp
  show "round_div (q * m) 10000 \<le> discounted s m i q"
    unfolding eq using d q0 by (intro round_div_mono mult_left_mono) simp_all
  show le: "discounted s m i q \<le> q"
    unfolding eq using mult_left_mono [OF d(3) q0] by (intro round_div_le) (simp_all add: mult.commute)
  have "0 \<le> discounted s m i q" unfolding eq using d q0 by (intro round_div_nonneg) simp_all
  with le q show "quality_ok (discounted s m i q)" by (simp add: quality_ok_def)
  have "discountBps s m 0 = 10000" using s by (simp add: discountBps_def)
  then show "discounted s m 0 q = q" using discounted_eq [OF q, of s m 0] round_div_self [of 10000 q]
    by (simp add: mult.commute)
qed

lemma discounted_mono:
  assumes "quality_ok q" "quality_ok r" and s: "0 \<le> s" "0 \<le> m" "m \<le> 10000"
    and "i \<le> j" and "r \<le> q"
  shows "discounted s m j r \<le> discounted s m i q"
proof -
  note d = discountBps_bounds [OF s]
  have "r * discountBps s m j \<le> q * discountBps s m i"
    using assms d by (intro mult_mono) (simp_all add: quality_ok_def)
  then show ?thesis using assms d by (simp add: discounted_eq round_div_mono)
qed

section \<open>A pass over all candidates\<close>

text \<open>The same candidate with a quality that is no higher and not below the floor.\<close>

definition lowered :: "int \<Rightarrow> 'a reward_candidate_scheme \<Rightarrow> 'a reward_candidate_scheme \<Rightarrow> bool" where
  "lowered floorBps c c' \<longleftrightarrow> c' = c\<lparr>rk_qualityBps := rk_qualityBps c'\<rparr> \<and> quality_ok (rk_qualityBps c') \<and>
     rk_qualityBps c' \<le> rk_qualityBps c \<and> round_div (rk_qualityBps c * floorBps) 10000 \<le> rk_qualityBps c'"

definition qualities_ok :: "'a reward_candidate_scheme list \<Rightarrow> bool" where
  "qualities_ok cs \<longleftrightarrow> distinct (map rk_itemId cs) \<and> (\<forall>c \<in> set cs. quality_ok (rk_qualityBps c))"

lemma discount_result_lowered:
  assumes "discount_result key s m cs c c'" and "quality_ok (rk_qualityBps c)"
    and "0 \<le> s" "0 \<le> m" "m \<le> 10000"
  shows "lowered m c c'"
  using assms discounted_bounds [OF assms(2-5)] by (auto simp: discount_result_def lowered_def)

lemma pass_lowered:
  assumes ok: "qualities_ok cs" and s: "0 \<le> s" "0 \<le> m" "m \<le> 10000"
  shows "list_all2 (lowered m) cs (applyRankDiscounts key s m cs)"
proof (rule list.rel_mono_strong)
  show "list_all2 (discount_result key s m cs) cs (applyRankDiscounts key s m cs)"
    using ok by (intro applyRankDiscounts_spec) (simp add: qualities_ok_def)
  show "lowered m c c'" if "c \<in> set cs" "discount_result key s m cs c c'" for c c'
    using that ok s by (intro discount_result_lowered) (auto simp: qualities_ok_def)
qed

lemma lowered_ids: "list_all2 (lowered m) cs ds \<Longrightarrow> map rk_itemId ds = map rk_itemId cs"
proof (induction rule: list_all2_induct)
  case (Cons c cs d ds)
  have "rk_itemId d = rk_itemId c" using Cons(1) unfolding lowered_def by (metis reward_candidate.select_convs(1) reward_candidate.surjective reward_candidate.update_convs(2))
  with Cons show ?case by simp
qed simp

lemma lowered_ok: "qualities_ok cs \<Longrightarrow> list_all2 (lowered m) cs ds \<Longrightarrow> qualities_ok ds"
  unfolding qualities_ok_def using lowered_ids [of m cs ds]
  by (auto simp: list_all2_conv_all_nth in_set_conv_nth lowered_def)

lemma lowered_trans: "lowered 0 c d \<Longrightarrow> lowered 0 d e \<Longrightarrow> lowered 0 c e"
  unfolding lowered_def quality_ok_def round_div_def
  by (cases c; cases d; cases e) auto

lemma lowered_weaken: "lowered m c d \<Longrightarrow> lowered 0 c d"
  by (auto simp: lowered_def quality_ok_def round_div_def)

lemma pass_step:
  assumes ok: "qualities_ok ds" and s: "0 \<le> s" "0 \<le> m" "m \<le> 10000"
    and l: "list_all2 (lowered 0) cs ds"
  shows "list_all2 (lowered 0) cs (applyRankDiscounts key s m ds)"
    and "qualities_ok (applyRankDiscounts key s m ds)"
proof -
  have p: "list_all2 (lowered m) ds (applyRankDiscounts key s m ds)" by (rule pass_lowered [OF ok s])
  then show "qualities_ok (applyRankDiscounts key s m ds)" by (rule lowered_ok [OF ok])
  show "list_all2 (lowered 0) cs (applyRankDiscounts key s m ds)"
    by (rule list_all2_trans [OF lowered_trans l list_all2_mono [OF p lowered_weaken]])
qed

text \<open>A candidate strictly better than every other keeps its quality in every pass.\<close>

definition strictly_best :: "'a reward_candidate_scheme \<Rightarrow> 'a reward_candidate_scheme list \<Rightarrow> bool" where
  "strictly_best c cs \<longleftrightarrow> c \<in> set cs \<and>
     (\<forall>d \<in> set cs. d \<noteq> c \<longrightarrow> rk_qualityBps d < rk_qualityBps c)"

lemma best_rank:
  assumes ok: "qualities_ok cs" and b: "strictly_best c cs"
    and i: "i < length (rankedWith key cs c)" "rankedWith key cs c ! i = c"
  shows "i = 0"
proof (rule ccontr)
  assume "i \<noteq> 0"
  let ?r = "rankedWith key cs c"
  have "rk_qualityBps (?r ! i) \<le> rk_qualityBps (?r ! 0)"
    using rankBucket_sorted [of "filter (\<lambda>d. key d = key c) cs"] i(1) \<open>i \<noteq> 0\<close>
    by (auto simp: rankedWith_def sorted_wrt_iff_nth_less)
  moreover have "?r ! 0 \<in> set ?r" using i(1) by (intro nth_mem) linarith
  ultimately have "?r ! 0 = c" using b i(2) by (auto simp: strictly_best_def rankedWith_def)
  moreover have "distinct ?r"
  proof -
    have "distinct cs" using ok by (auto simp: qualities_ok_def distinct_map)
    then have "distinct (filter (\<lambda>d. key d = key c) cs)" by simp
    then show ?thesis
      unfolding rankedWith_def rankBucket_def by (metis distinct_count_atmost_1 mset_js_sort set_js_sort set_mset_mset)
  qed
  moreover have "0 < length ?r" using i(1) by linarith
  ultimately show False using i \<open>i \<noteq> 0\<close> nth_eq_iff_index_eq [of ?r i 0] by simp
qed

lemma pass_best:
  assumes ok: "qualities_ok cs" and s: "0 \<le> s" "0 \<le> m" "m \<le> 10000" and b: "strictly_best c cs"
  shows "strictly_best c (applyRankDiscounts key s m cs)"
proof -
  let ?ds = "applyRankDiscounts key s m cs"
  have d: "distinct (map rk_itemId cs)" using ok by (simp add: qualities_ok_def)
  have p: "list_all2 (discount_result key s m cs) cs ?ds" by (rule applyRankDiscounts_spec [OF d])
  have l: "list_all2 (lowered m) cs ?ds" by (rule pass_lowered [OF ok s])
  have keep: "c' = c" if dr: "discount_result key s m cs c c'" for c'
  proof -
    have q: "quality_ok (rk_qualityBps c)" using ok b by (auto simp: qualities_ok_def strictly_best_def)
    obtain i where i: "i < length (rankedWith key cs c)" "rankedWith key cs c ! i = c"
      "c' = c\<lparr>rk_qualityBps := discounted s m i (rk_qualityBps c)\<rparr>"
      using dr by (auto simp: discount_result_def)
    then have "i = 0" by (intro best_rank [OF ok b])
    with i(3) discounted_bounds(4) [OF q s] show ?thesis by simp
  qed
  obtain i where i: "i < length cs" "cs ! i = c" using b by (auto simp: strictly_best_def in_set_conv_nth)
  have len: "length ?ds = length cs" using p by (simp add: list_all2_lengthD)
  have ci: "?ds ! i = c" using keep list_all2_nthD [OF p i(1)] i(2) by simp
  have "rk_qualityBps (?ds ! j) < rk_qualityBps c" if j: "j < length cs" "?ds ! j \<noteq> c" for j
  proof -
    have "cs ! j \<noteq> c" using j ci i keep list_all2_nthD [OF p j(1)] by auto
    then have "rk_qualityBps (cs ! j) < rk_qualityBps c" using b j(1) by (auto simp: strictly_best_def)
    moreover have "rk_qualityBps (?ds ! j) \<le> rk_qualityBps (cs ! j)"
      using list_all2_nthD [OF l j(1)] by (simp add: lowered_def)
    ultimately show ?thesis by simp
  qed
  then show ?thesis using ci i(1) len by (auto simp: strictly_best_def in_set_conv_nth)
qed

lemma candidate_discounts_spec:
  assumes "qualities_ok cs"
  shows "list_all2 (lowered 0) cs (applyCandidateQualityDiscounts cs) \<and>
    (\<forall>c. strictly_best c cs \<longrightarrow> c \<in> set (applyCandidateQualityDiscounts cs))"
proof -
  let ?r = "applyRedundancyDiscounts cs"
  let ?o = "applyRankDiscounts operatorKey 1250 6000 ?r"
  let ?a = "applyRankDiscounts identityKey 1500 5000 ?o"
  have eq: "applyCandidateQualityDiscounts cs = applyRankDiscounts recipientKey 2000 4500 ?a"
    by (simp add: applyCandidateQualityDiscounts_def applyRecipientConcentrationDiscounts_def Let_def)
  have l: "list_all2 (lowered 0) cs cs"
    using assms by (auto simp: list_all2_conv_all_nth lowered_def qualities_ok_def round_div_def quality_ok_def)
  have r: "list_all2 (lowered 0) cs ?r" "qualities_ok ?r"
    unfolding applyRedundancyDiscounts_def using pass_step [OF assms _ _ _ l, of 1500 5500] by simp_all
  have o': "list_all2 (lowered 0) cs ?o" "qualities_ok ?o" using pass_step [OF r(2) _ _ _ r(1)] by simp_all
  have a: "list_all2 (lowered 0) cs ?a" "qualities_ok ?a" using pass_step [OF o'(2) _ _ _ o'(1)] by simp_all
  have e: "list_all2 (lowered 0) cs (applyRankDiscounts recipientKey 2000 4500 ?a)"
    using pass_step [OF a(2) _ _ _ a(1)] by simp_all
  have "c \<in> set (applyCandidateQualityDiscounts cs)" if "strictly_best c cs" for c
  proof -
    have "strictly_best c ?r"
      unfolding applyRedundancyDiscounts_def using pass_best [OF assms _ _ _ that] by simp
    then have "strictly_best c ?o" using pass_best [OF r(2)] by simp
    then have "strictly_best c ?a" using pass_best [OF o'(2)] by simp
    then have "strictly_best c (applyCandidateQualityDiscounts cs)"
      unfolding eq using pass_best [OF a(2)] by simp
    then show ?thesis by (simp add: strictly_best_def)
  qed
  with e show ?thesis unfolding eq by blast
qed

section \<open>Properties\<close>

text \<open>
  One discount pass keeps every candidate, in order, changing nothing but its quality; the
  quality never rises and never falls below the pass's minimum share, and inside a bucket the pass
  keeps the order: of two candidates, the one of higher quality stays at least as high.
\<close>

theorem rank_discount_pass:
  assumes "qualities_ok cs" and "0 \<le> s" "0 \<le> m" "m \<le> 10000"
  shows "list_all2 (lowered m) cs (applyRankDiscounts key s m cs) \<and>
    (\<forall>i < length cs. \<forall>j < length cs. key (cs ! i) = key (cs ! j) \<longrightarrow>
       rk_qualityBps (cs ! j) < rk_qualityBps (cs ! i) \<longrightarrow>
       rk_qualityBps (applyRankDiscounts key s m cs ! j) \<le> rk_qualityBps (applyRankDiscounts key s m cs ! i))"
proof -
  have p: "list_all2 (discount_result key s m cs) cs (applyRankDiscounts key s m cs)"
    using assms(1) by (intro applyRankDiscounts_spec) (simp add: qualities_ok_def)
  have "rk_qualityBps (applyRankDiscounts key s m cs ! j) \<le> rk_qualityBps (applyRankDiscounts key s m cs ! i)"
    if ij: "i < length cs" "j < length cs" "key (cs ! i) = key (cs ! j)"
      "rk_qualityBps (cs ! j) < rk_qualityBps (cs ! i)" for i j
  proof -
    let ?r = "rankedWith key cs (cs ! i)"
    have same: "rankedWith key cs (cs ! j) = ?r" using ij(3) by (simp add: rankedWith_def)
    obtain x y where x: "x < length ?r" "?r ! x = cs ! i"
        "applyRankDiscounts key s m cs ! i = (cs ! i)\<lparr>rk_qualityBps := discounted s m x (rk_qualityBps (cs ! i))\<rparr>"
      and y: "y < length ?r" "?r ! y = cs ! j"
        "applyRankDiscounts key s m cs ! j = (cs ! j)\<lparr>rk_qualityBps := discounted s m y (rk_qualityBps (cs ! j))\<rparr>"
      using list_all2_nthD [OF p ij(1)] list_all2_nthD [OF p ij(2)] same by (auto simp: discount_result_def)
    have "x < y"
    proof (rule ccontr)
      assume "\<not> x < y"
      moreover have "x \<noteq> y" using x(2) y(2) ij(4) by auto
      ultimately have "y < x" by simp
      then have "rk_qualityBps (?r ! x) \<le> rk_qualityBps (?r ! y)"
        using rankBucket_sorted [of "filter (\<lambda>d. key d = key (cs ! i)) cs"] x(1)
        by (auto simp: rankedWith_def sorted_wrt_iff_nth_less)
      with x(2) y(2) ij(4) show False by simp
    qed
    moreover have "quality_ok (rk_qualityBps (cs ! i))" "quality_ok (rk_qualityBps (cs ! j))"
      using assms(1) ij by (simp_all add: qualities_ok_def)
    ultimately show ?thesis using assms ij(4) x(3) y(3) by (simp add: discounted_mono)
  qed
  with pass_lowered [OF assms] show ?thesis by blast
qed

text \<open>
  The whole discount pipeline (redundancy, operator, agent, recipient) neither adds nor drops
  nor reorders candidates and only ever lowers their quality, and a candidate that is strictly the
  best of its group keeps its quality in full.
\<close>

theorem candidate_discounts_sound:
  assumes "qualities_ok cs"
  shows "list_all2 (lowered 0) cs (applyCandidateQualityDiscounts cs) \<and>
    (\<forall>c. strictly_best c cs \<longrightarrow> c \<in> set (applyCandidateQualityDiscounts cs))"
  by (rule candidate_discounts_spec [OF assms])

subsection \<open>Witnesses\<close>

definition sample_policy_candidate :: "string \<Rightarrow> string \<Rightarrow> int \<Rightarrow> policy_candidate" where
  "sample_policy_candidate itemId recipient quality = \<lparr>rk_itemId = itemId, rk_qualityBps = quality,
     rk_agentId = None, rk_budgetTopUpBps = 0, rk_claimId = ''7'', rk_operator = None,
     rk_recipient = Some recipient, rk_workKind = Kind_review\<rparr>"

definition sample_group :: "policy_candidate list" where
  "sample_group = [sample_policy_candidate ''a'' ''0xA'' 8000, sample_policy_candidate ''b'' ''0xa '' 10000]"

lemma sample_group_ok: "qualities_ok sample_group"
  by (simp add: qualities_ok_def sample_group_def sample_policy_candidate_def quality_ok_def)

theorem rank_discount_pass_witness:
  "map rk_qualityBps (applyRankDiscounts recipientKey 2000 4500 sample_group) = [6400, 10000] \<and>
   list_all2 (lowered 4500) sample_group (applyRankDiscounts recipientKey 2000 4500 sample_group)"
proof -
  have "map rk_qualityBps (applyRankDiscounts recipientKey 2000 4500 sample_group) = [6400, 10000]"
    by code_simp
  with rank_discount_pass [OF sample_group_ok, of 2000 4500 recipientKey] show ?thesis by simp
qed

theorem candidate_discounts_sound_witness:
  "map rk_qualityBps (applyCandidateQualityDiscounts sample_group) = [4624, 10000] \<and>
   sample_policy_candidate ''b'' ''0xa '' 10000 \<in> set (applyCandidateQualityDiscounts sample_group)"
proof -
  have "map rk_qualityBps (applyCandidateQualityDiscounts sample_group) = [4624, 10000]"
    by code_simp
  moreover have "strictly_best (sample_policy_candidate ''b'' ''0xa '' 10000) sample_group"
    by (simp add: strictly_best_def sample_group_def sample_policy_candidate_def)
  ultimately show ?thesis using candidate_discounts_sound [OF sample_group_ok] by blast
qed

end
