(* ===== verification/Calibration.thy ===== *)
theory Calibration
  imports View_Types
begin

text \<open>
  \<open>review/calibration.ts\<close>: how well a reviewing agent's past verdicts agreed with the resolved
  outcomes of other claims, and the weight its reviews get. Scores are basis points; quotients are
  the double quotients of \<open>Js_Number\<close>.
\<close>

definition clampBps :: "rat \<Rightarrow> int" where
  "clampBps v = max 0 (min 10000 (js_round v))"

lemma clampBps_bounds [simp, bounds_intros]: "0 \<le> clampBps v" "clampBps v \<le> 10000"
  by (simp_all add: clampBps_def)

lemma clampBps_int [simp]: "clampBps (of_int k) = clamp_int 0 10000 k"
  by (simp add: clampBps_def clamp_int_def)

lemma clampBps_mono: "x \<le> y \<Longrightarrow> clampBps x \<le> clampBps y"
  using js_round_mono [of x y] by (auto simp: clampBps_def)

definition claimOutcomeSupportBps :: "int \<Rightarrow> int option" where
  "claimOutcomeSupportBps status =
     (if status = 3 then Some 7000
      else if status = 4 then Some 9000
      else if status = 5 then Some 2000
      else if status = 6 then Some 500
      else None)"

definition submissionSupportSignalBps :: "review_submission \<Rightarrow> int" where
  "submissionSupportSignalBps s =
     (if rs_verdict s = Verdict_pass then 8500
      else if rs_verdict s = Verdict_inconclusive then 5000
      else if rs_verdict s = Verdict_flag then 2000
      else 1500)"

definition calibrationWeightBps :: "int option \<Rightarrow> int" where
  "calibrationWeightBps averageBps =
     (case averageBps of None \<Rightarrow> 10000 | Some a \<Rightarrow> clampBps (num_add 4000 (int_div (a * 6000) 10000)))"

record calibration_contribution =
  cc_calibrationBps :: int
  cc_claimId :: string
  cc_claimStatus :: int
  cc_createdAt :: string
  cc_outcomeSupportBps :: int
  cc_predictedSupportBps :: int
  cc_reviewType :: review_task_type
  cc_reviewerActor :: string
  cc_submissionId :: string
  cc_verdict :: review_verdict

record calibration_entry =
  ce_agentId :: string
  ce_averageCalibrationBps :: "int option"
  ce_contributions :: "calibration_contribution list"
  ce_reviewerActor :: "string option"
  ce_samples :: int
  ce_weightBps :: int

definition defaultAgentCalibration :: "string \<Rightarrow> string option \<Rightarrow> calibration_entry" where
  "defaultAgentCalibration agentId reviewerActor = \<lparr>ce_agentId = agentId,
     ce_averageCalibrationBps = None, ce_contributions = [], ce_reviewerActor = reviewerActor,
     ce_samples = 0, ce_weightBps = 10000\<rparr>"

section \<open>The calibration history\<close>

text \<open>The resolved outcome of each claim but the excluded one; a later claim of the same id wins.\<close>

definition outcomeByClaimId :: "claim_view list \<Rightarrow> string option \<Rightarrow> (string, int \<times> int) jmap" where
  "outcomeByClaimId claims exclude = jm_of_list (List.map_filter
     (\<lambda>c. case claimOutcomeSupportBps (cv_status c) of
            None \<Rightarrow> None | Some support \<Rightarrow> Some (cv_claimId c, (cv_status c, support)))
     (filter (\<lambda>c. Some (cv_claimId c) \<noteq> exclude) claims))"

definition contributionOf :: "review_submission \<Rightarrow> string \<Rightarrow> int \<times> int \<Rightarrow> calibration_contribution" where
  "contributionOf s claimId outcome =
     (let predicted = submissionSupportSignalBps s
      in \<lparr>cc_calibrationBps = clampBps (of_int (10000 - \<bar>predicted - snd outcome\<bar>)),
          cc_claimId = claimId, cc_claimStatus = fst outcome, cc_createdAt = rs_createdAt s,
          cc_outcomeSupportBps = snd outcome, cc_predictedSupportBps = predicted,
          cc_reviewType = rs_reviewType s, cc_reviewerActor = rs_reviewerActor s,
          cc_submissionId = rs_submissionId s, cc_verdict = rs_verdict s\<rparr>)"

text \<open>What a submission contributes, and to which agent; \<open>None\<close> where the loop continues.\<close>

definition contributes ::
  "(string, int \<times> int) jmap \<Rightarrow> review_submission \<Rightarrow> (string \<times> calibration_contribution) option" where
  "contributes outcomes s =
     (if \<not> truthy (rs_reviewerAgentId s) \<or> \<not> truthy (rs_claimId s) then None
      else case jm_get outcomes (the (rs_claimId s)) of
        None \<Rightarrow> None
      | Some outcome \<Rightarrow> Some (the (rs_reviewerAgentId s), contributionOf s (the (rs_claimId s)) outcome))"

type_synonym calibration_aggregate = "calibration_contribution list \<times> string option"

definition addContribution ::
  "(string, int \<times> int) jmap \<Rightarrow> review_submission \<Rightarrow> (string, calibration_aggregate) jmap \<Rightarrow>
   (string, calibration_aggregate) jmap" where
  "addContribution outcomes s m =
     (case contributes outcomes s of
        None \<Rightarrow> m
      | Some (agent, c) \<Rightarrow>
          let aggregate = nullish (jm_get m agent) ([], None)
          in jm_set agent (fst aggregate @ [c], orelse (snd aggregate) (Some (rs_reviewerActor s))) m)"

text \<open>Newest first, then by submission id; a date that does not parse compares as NaN, that is as equal.\<close>

definition compareContributions :: "calibration_contribution \<Rightarrow> calibration_contribution \<Rightarrow> int" where
  "compareContributions left right =
     (case (date_time (cc_createdAt right), date_time (cc_createdAt left)) of
        (Some r, Some l) \<Rightarrow> if r - l \<noteq> 0 then r - l
                           else locale_compare (cc_submissionId right) (cc_submissionId left)
      | _ \<Rightarrow> 0)"

definition calibrationEntry :: "string \<Rightarrow> calibration_aggregate \<Rightarrow> calibration_entry" where
  "calibrationEntry agentId aggregate =
     (let contributions = js_sort compareContributions (fst aggregate);
          total = sum_list (map cc_calibrationBps contributions);
          samples = int (length contributions);
          avg = (if samples > 0 then Some (clampBps (int_div total samples)) else None)
      in \<lparr>ce_agentId = agentId, ce_averageCalibrationBps = avg, ce_contributions = contributions,
          ce_reviewerActor = snd aggregate, ce_samples = samples, ce_weightBps = calibrationWeightBps avg\<rparr>)"

definition buildAgentCalibrationHistory ::
  "claim_view list \<Rightarrow> review_submission list \<Rightarrow> string option \<Rightarrow> (string, calibration_entry) jmap" where
  "buildAgentCalibrationHistory claims submissions exclude =
     (let outcomes = outcomeByClaimId claims exclude
      in map (\<lambda>(agentId, aggregate). (agentId, calibrationEntry agentId aggregate))
           (fold (addContribution outcomes) submissions []))"

section \<open>What the history holds\<close>

lemma outcome_get:
  assumes "jm_get (outcomeByClaimId claims exclude) k = Some (st, support)"
  shows "Some k \<noteq> exclude \<and> claimOutcomeSupportBps st = Some support \<and>
    (\<exists>c \<in> set claims. cv_claimId c = k \<and> cv_status c = st)"
proof -
  have "(k, st, support) \<in> set (List.map_filter
     (\<lambda>c. case claimOutcomeSupportBps (cv_status c) of
            None \<Rightarrow> None | Some support \<Rightarrow> Some (cv_claimId c, (cv_status c, support)))
     (filter (\<lambda>c. Some (cv_claimId c) \<noteq> exclude) claims))"
    using assms unfolding outcomeByClaimId_def jm_of_list_get by (auto dest: map_of_SomeD)
  then show ?thesis
    by (auto simp: List.map_filter_def split: option.splits if_splits)
qed

lemma addContribution_None: "contributes outcomes s = None \<Longrightarrow> addContribution outcomes s m = m"
  by (simp add: addContribution_def)

lemma addContribution_get:
  "contributes outcomes s = Some (a, c) \<Longrightarrow> jm_get (addContribution outcomes s m) =
     (jm_get m)(a \<mapsto> (fst (nullish (jm_get m a) ([], None)) @ [c],
        orelse (snd (nullish (jm_get m a) ([], None))) (Some (rs_reviewerActor s))))"
  by (simp add: addContribution_def Let_def)

lemma aggregate_get:
  "\<exists>actor. jm_get (fold (addContribution outcomes) subs m) agent =
     (case map snd (filter (\<lambda>x. fst x = agent) (List.map_filter (contributes outcomes) subs)) of
        [] \<Rightarrow> jm_get m agent
      | cs \<Rightarrow> Some (fst (nullish (jm_get m agent) ([], None)) @ cs, actor))"
proof (induction subs arbitrary: m)
  case Nil
  then show ?case by (simp add: List.map_filter_def)
next
  case (Cons s subs)
  show ?case
  proof (cases "contributes outcomes s")
    case None
    with Cons [of m] show ?thesis by (simp add: addContribution_None List.map_filter_simps)
  next
    case (Some ac)
    obtain a c where ac: "ac = (a, c)" by force
    then have get: "jm_get (addContribution outcomes s m) =
     (jm_get m)(a \<mapsto> (fst (nullish (jm_get m a) ([], None)) @ [c],
        orelse (snd (nullish (jm_get m a) ([], None))) (Some (rs_reviewerActor s))))"
      using Some by (simp add: addContribution_get)
    show ?thesis
    proof (cases "a = agent")
      case True
      with Cons [of "addContribution outcomes s m"] Some ac show ?thesis
        by (cases "map snd (filter (\<lambda>x. fst x = agent) (List.map_filter (contributes outcomes) subs))")
           (simp_all add: get List.map_filter_simps)
    next
      case False
      with Cons [of "addContribution outcomes s m"] Some ac show ?thesis
        by (cases "map snd (filter (\<lambda>x. fst x = agent) (List.map_filter (contributes outcomes) subs))")
           (simp_all add: get List.map_filter_simps)
    qed
  qed
qed

lemma distinct_aggregate_keys: "distinct (jm_keys m) \<Longrightarrow> distinct (jm_keys (fold (addContribution o') subs m))"
  by (induction subs arbitrary: m)
     (simp_all add: addContribution_def Let_def split: option.split prod.split)

text \<open>The contributions of an agent, in the order of the submissions.\<close>

definition agentContributions ::
  "claim_view list \<Rightarrow> review_submission list \<Rightarrow> string option \<Rightarrow> string \<Rightarrow> calibration_contribution list" where
  "agentContributions claims subs exclude agent =
     map snd (filter (\<lambda>x. fst x = agent) (List.map_filter (contributes (outcomeByClaimId claims exclude)) subs))"

lemma history_entry:
  assumes "(agent, e) \<in> set (buildAgentCalibrationHistory claims subs exclude)"
  shows "\<exists>actor. e = calibrationEntry agent (agentContributions claims subs exclude agent, actor)"
    and "agentContributions claims subs exclude agent \<noteq> []"
proof -
  let ?m = "fold (addContribution (outcomeByClaimId claims exclude)) subs []"
  obtain agg where agg: "(agent, agg) \<in> set ?m" "e = calibrationEntry agent agg"
    using assms by (auto simp: buildAgentCalibrationHistory_def Let_def)
  then have get: "jm_get ?m agent = Some agg"
    using distinct_aggregate_keys [of "[]"] by (simp add: map_of_eq_Some_iff)
  obtain actor where actor: "Some agg = (case agentContributions claims subs exclude agent of
      [] \<Rightarrow> None | cs \<Rightarrow> Some (cs, actor))"
    using aggregate_get [of "outcomeByClaimId claims exclude" subs "[]" agent]
    unfolding get agentContributions_def by (auto cong: list.case_cong)
  then show "agentContributions claims subs exclude agent \<noteq> []" by (auto split: list.splits)
  from actor have "fst agg = agentContributions claims subs exclude agent" by (auto split: list.splits)
  with agg(2) show "\<exists>actor. e = calibrationEntry agent (agentContributions claims subs exclude agent, actor)"
    by (metis prod.collapse)
qed

lemma contribution_facts:
  assumes "c \<in> set (agentContributions claims subs exclude agent)"
  shows "Some (cc_claimId c) \<noteq> exclude \<and> claimOutcomeSupportBps (cc_claimStatus c) = Some (cc_outcomeSupportBps c) \<and>
    0 \<le> cc_calibrationBps c \<and> cc_calibrationBps c \<le> 10000 \<and>
    cc_calibrationBps c = 10000 - \<bar>cc_predictedSupportBps c - cc_outcomeSupportBps c\<bar> \<and>
    (\<exists>s \<in> set subs. rs_reviewerAgentId s = Some agent \<and> rs_claimId s = Some (cc_claimId c) \<and>
       rs_submissionId s = cc_submissionId c)"
proof -
  obtain s where s: "s \<in> set subs" "contributes (outcomeByClaimId claims exclude) s = Some (agent, c)"
    using assms by (auto simp: agentContributions_def List.map_filter_def)
  then obtain k st support where k: "rs_claimId s = Some k" "rs_reviewerAgentId s = Some agent"
    "jm_get (outcomeByClaimId claims exclude) k = Some (st, support)" "c = contributionOf s k (st, support)"
    by (cases "rs_reviewerAgentId s"; cases "rs_claimId s") (auto simp: contributes_def split: if_splits option.splits)
  note out = outcome_get [OF k(3)]
  then have "0 \<le> 10000 - \<bar>submissionSupportSignalBps s - support\<bar>"
    by (auto simp: claimOutcomeSupportBps_def submissionSupportSignalBps_def split: if_splits)
  then have eq: "clampBps (of_int (10000 - \<bar>submissionSupportSignalBps s - support\<bar>)) =
      10000 - \<bar>submissionSupportSignalBps s - support\<bar>"
    unfolding clampBps_int by (intro clamp_int_id) simp_all
  have b: "0 \<le> 10000 - \<bar>submissionSupportSignalBps s - support\<bar>"
    using eq clampBps_bounds(1) by metis
  show ?thesis
    unfolding k(4) using out s(1) k(1,2) b
    by (intro conjI bexI [of _ s]) (simp_all add: contributionOf_def Let_def eq del: clampBps_int of_int_diff of_int_abs)
qed

text \<open>The double rounding never takes a weight below its floor.\<close>

lemma fl_lower:
  assumes "0 \<le> y" and "y \<le> 2 ^ 40" and "of_int k \<le> y"
  shows "of_int k - 1 / 4 \<le> fl y"
proof -
  have "\<bar>y\<bar> / 2 ^ 53 \<le> 1 / 4" using assms by simp
  then show ?thesis using fl_error [of y] assms(3) by linarith
qed

lemma calibrationWeight_bounds:
  assumes "case a of None \<Rightarrow> True | Some v \<Rightarrow> 0 \<le> v \<and> v \<le> 10000"
  shows "4000 \<le> calibrationWeightBps a" and "calibrationWeightBps a \<le> 10000"
proof -
  show "calibrationWeightBps a \<le> 10000" by (simp add: calibrationWeightBps_def split: option.split)
  show "4000 \<le> calibrationWeightBps a"
  proof (cases a)
    case (Some v)
    let ?q = "int_div (v * 6000) 10000"
    have v: "0 \<le> v" "v \<le> 10000" using assms Some by simp_all
    have nn: "0 \<le> ?q" unfolding int_div_def using v by (intro fl_nonneg) simp
    define q :: rat where "q = of_int (v * 6000) / of_int 10000"
    have q: "0 \<le> q" "q \<le> 6000" using v by (simp_all add: q_def)
    then have "\<bar>q\<bar> / 2 ^ 53 \<le> q" by simp
    with fl_error [of q] q have "fl q \<le> 12000" by linarith
    then have "?q \<le> 12000" by (simp add: int_div_def q_def)
    with nn have "of_int 4000 - 1 / 4 \<le> fl (4000 + ?q)" by (intro fl_lower) simp_all
    then have "4000 \<le> js_round (fl (4000 + ?q))" by (simp add: js_round_def le_floor_iff)
    then show ?thesis by (simp add: Some calibrationWeightBps_def num_add_def clampBps_def)
  qed (simp add: calibrationWeightBps_def)
qed

text \<open>A rounded quotient of moderate size lies between the bounds of the exact one.\<close>

lemma clamp_quotient_between:
  assumes "0 \<le> a" and "a < 2 ^ 50" and "0 < b" and "b * lo \<le> a" and "a \<le> b * hi"
    and "0 \<le> lo" and "hi \<le> 10000"
  shows "lo \<le> clampBps (int_div a b) \<and> clampBps (int_div a b) \<le> hi"
proof -
  have lo: "lo \<le> round_div a b" using round_div_mono [OF assms(4,3)] assms(3) by simp
  have hi: "round_div a b \<le> hi" by (rule round_div_le [OF assms(5,3)])
  have "b * lo \<le> b * hi" using assms(4,5) by linarith
  then have "lo \<le> hi" using assms(3) by simp
  with lo hi assms show ?thesis by (simp add: clampBps_def js_round_div)
qed

lemma sum_list_between:
  assumes "\<forall>x \<in> set xs. lo \<le> f x \<and> f x \<le> (hi :: int)"
  shows "int (length xs) * lo \<le> sum_list (map f xs) \<and> sum_list (map f xs) \<le> int (length xs) * hi"
  using assms
proof (induction xs)
  case (Cons x xs)
  then have "lo \<le> f x" "f x \<le> hi" by simp_all
  with Cons show ?case by (simp add: distrib_right)
qed simp

lemma count_times_score:
  assumes "0 \<le> n" and "n \<le> 1000000" and "(hi :: int) \<le> 10000"
  shows "n * hi \<le> 10000000000"
proof -
  have "n * hi \<le> n * 10000" using assms by (intro mult_left_mono) simp_all
  with assms(2) show ?thesis by linarith
qed

section \<open>Properties\<close>

text \<open>
  Calibration is earned on other claims: every entry of the history rests on at least one
  contribution, each from a submission of that agent to a resolved claim other than the excluded
  one, scored by its distance to the outcome; the average is a valid score and the weight lies
  between 4,000 and 10,000 basis points.
\<close>

theorem calibration_history_sound:
  assumes "(agent, e) \<in> set (buildAgentCalibrationHistory claims subs exclude)"
  shows "ce_agentId e = agent \<and> ce_samples e = int (length (ce_contributions e)) \<and> 0 < ce_samples e \<and>
    (\<exists>a. ce_averageCalibrationBps e = Some a \<and> 0 \<le> a \<and> a \<le> 10000) \<and>
    4000 \<le> ce_weightBps e \<and> ce_weightBps e \<le> 10000 \<and>
    (\<forall>c \<in> set (ce_contributions e). Some (cc_claimId c) \<noteq> exclude \<and>
       claimOutcomeSupportBps (cc_claimStatus c) = Some (cc_outcomeSupportBps c) \<and>
       cc_calibrationBps c = 10000 - \<bar>cc_predictedSupportBps c - cc_outcomeSupportBps c\<bar> \<and>
       (\<exists>s \<in> set subs. rs_reviewerAgentId s = Some agent \<and> rs_claimId s = Some (cc_claimId c) \<and>
          rs_submissionId s = cc_submissionId c))"
proof -
  obtain actor where e: "e = calibrationEntry agent (agentContributions claims subs exclude agent, actor)"
    using history_entry(1) [OF assms] by blast
  have ne: "agentContributions claims subs exclude agent \<noteq> []" by (rule history_entry(2) [OF assms])
  have avg: "\<exists>a. ce_averageCalibrationBps e = Some a \<and> 0 \<le> a \<and> a \<le> 10000"
    using ne by (simp add: e calibrationEntry_def Let_def)
  then have "case ce_averageCalibrationBps e of None \<Rightarrow> True | Some v \<Rightarrow> 0 \<le> v \<and> v \<le> 10000" by auto
  from calibrationWeight_bounds [OF this] have "4000 \<le> ce_weightBps e" "ce_weightBps e \<le> 10000"
    by (simp_all add: e calibrationEntry_def Let_def)
  moreover have "set (ce_contributions e) = set (agentContributions claims subs exclude agent)"
    by (simp add: e calibrationEntry_def Let_def)
  ultimately show ?thesis
    using avg ne contribution_facts [of _ claims subs exclude agent]
    by (simp add: e calibrationEntry_def Let_def)
qed

text \<open>
  The calibration average is a real average: with up to a million contributions it lies between
  the worst and the best of them, in spite of the double division and the rounding.
\<close>

theorem calibration_average_between:
  assumes "\<forall>c \<in> set (fst aggregate). lo \<le> cc_calibrationBps c \<and> cc_calibrationBps c \<le> hi"
    and "fst aggregate \<noteq> []" and "length (fst aggregate) \<le> 1000000" and "0 \<le> lo" and "hi \<le> 10000"
  shows "\<exists>a. ce_averageCalibrationBps (calibrationEntry agent aggregate) = Some a \<and> lo \<le> a \<and> a \<le> hi"
proof -
  let ?cs = "js_sort compareContributions (fst aggregate)"
  let ?total = "sum_list (map cc_calibrationBps ?cs)" and ?n = "int (length ?cs)"
  have b: "?n * lo \<le> ?total" "?total \<le> ?n * hi"
    using sum_list_between [of ?cs lo cc_calibrationBps hi] assms(1) by simp_all
  have n: "0 < ?n" "?n \<le> 1000000" using assms(2,3) by simp_all
  have "0 \<le> ?n * lo" using n assms(4) by simp
  moreover have "?n * hi \<le> 10000000000" using n assms(5) by (intro count_times_score) simp_all
  ultimately have t: "0 \<le> ?total" "?total \<le> 10000000000" using b by linarith+
  have t50: "?total < 2 ^ 50" by (rule order_le_less_trans [OF t(2)]) simp
  have "lo \<le> clampBps (int_div ?total ?n) \<and> clampBps (int_div ?total ?n) \<le> hi"
    by (rule clamp_quotient_between [OF t(1) t50 n(1) b assms(4,5)])
  then show ?thesis using assms(2) by (simp add: calibrationEntry_def Let_def)
qed

subsection \<open>Witnesses\<close>

definition sample_submission :: "string \<Rightarrow> review_verdict \<Rightarrow> review_submission" where
  "sample_submission claimId v = \<lparr>rs_claimId = Some claimId, rs_confidenceBps = 8000,
     rs_createdAt = ''2026-06-19T13:45:59.123Z'',
     rs_dimensions = (\<lambda>d. if d = MethodConsistency then Some (if v = Verdict_pass then 9000 else 3000) else None),
     rs_evidenceArtifactKey = None, rs_payload = [], rs_resultArtifactKey = None,
     rs_reviewType = Method_consistency_check, rs_reviewerActor = ''actor'',
     rs_reviewerAgentId = Some ''7'', rs_runId = None, rs_schemaVersion = ''v1'', rs_sourceId = None,
     rs_submissionId = ''1'', rs_taskId = ''1'', rs_verdict = v\<rparr>"

definition sample_claim_view :: "string \<Rightarrow> int \<Rightarrow> claim_view" where
  "sample_claim_view claimId st = \<lparr>cv_claimId = claimId, cv_author = ''author'', cv_domainId = 1,
     cv_metadataHash = ''h'', cv_resolutionModule = ''m'', cv_status = st, cv_revisionOfClaimId = None,
     cv_createdAtBlock = 1\<rparr>"

definition sample_history :: "(string, calibration_entry) jmap" where
  "sample_history = buildAgentCalibrationHistory [sample_claim_view ''3'' 4, sample_claim_view ''4'' 4]
     [sample_submission ''3'' Verdict_pass, sample_submission ''4'' Verdict_pass] (Some ''3'')"

lemma sample_history_eq:
  "map (\<lambda>(a, e). (a, ce_averageCalibrationBps e, ce_samples e, ce_weightBps e)) sample_history =
   [(''7'', Some 9500, 1, 9700)]"
  by code_simp

theorem calibration_history_sound_witness:
  "\<exists>(agent, e) \<in> set sample_history. 4000 \<le> ce_weightBps e \<and> ce_weightBps e \<le> 10000 \<and>
     (\<forall>c \<in> set (ce_contributions e). cc_claimId c \<noteq> ''3'')"
proof -
  obtain e :: calibration_entry where h: "sample_history = [(''7'', e)]"
    using sample_history_eq by (auto simp: map_eq_Cons_conv)
  have ae: "(''7'', e) \<in> set sample_history" unfolding h by simp
  with calibration_history_sound [OF this [unfolded sample_history_def]] show ?thesis
    by (intro bexI [of _ "(''7'', e)"]) auto
qed

theorem calibration_average_between_witness:
  "\<exists>a. ce_averageCalibrationBps (calibrationEntry ''7''
     ([contributionOf (sample_submission ''3'' Verdict_pass) ''3'' (4, 9000)], None)) = Some a \<and> 9000 \<le> a \<and> a \<le> 9600"
  by (rule calibration_average_between)
     (simp_all add: contributionOf_def Let_def submissionSupportSignalBps_def sample_submission_def clampBps_def js_round_def)

end
