(* ===== verification/Reward_Candidates.thy ===== *)
theory Reward_Candidates
  imports Reward_Discounts Calibration
begin

text \<open>
  The rewarded work of \<open>rewards/policy.ts\<close> (lines 374-523 and 831-1034): what quality a completed
  review, replication, maintenance task, forecast or challenge has, and the candidates the policy
  builds from them. The agent registry is a contract outside the sources: a parameter that answers
  a lookup with the agent or rejects it (\<open>None\<close>, which rejects the whole build).
\<close>

section \<open>Agents\<close>

record registry_agent =
  gr_active :: "bool option"
  gr_budgetBalance :: "int option"
  gr_operator :: string
  gr_reservedBudget :: "int option"
  gr_spendLimit :: "int option"

record policy_agent =
  ag_active :: bool
  ag_budgetBalance :: int
  ag_operator :: string
  ag_reservedBudget :: int
  ag_spendLimit :: int

type_synonym agent_registry = "int \<Rightarrow> registry_agent option"

text \<open>\<open>BigInt(s)\<close> of a decimal string; anything else rejects (agent ids are decimal).\<close>

definition big_int_of :: "string \<Rightarrow> int option" where
  "big_int_of s =
     (let t = js_trim s
      in if t = [] then Some 0
         else if hd t = CHR ''-'' then (if tl t = [] then None else map_option uminus (digits_value (tl t)))
         else digits_value t)"

definition lookupAgent :: "agent_registry \<Rightarrow> string \<Rightarrow> registry_agent option" where
  "lookupAgent registry agentId = Option.bind (big_int_of agentId) registry"

definition lookupAgentOperator :: "agent_registry \<Rightarrow> string \<Rightarrow> string option" where
  "lookupAgentOperator registry agentId = map_option gr_operator (lookupAgent registry agentId)"

definition lookupAgentRecord :: "agent_registry \<Rightarrow> string \<Rightarrow> policy_agent option" where
  "lookupAgentRecord registry agentId = map_option
     (\<lambda>agent. \<lparr>ag_active = nullish (gr_active agent) True,
        ag_budgetBalance = nullish (gr_budgetBalance agent) 0, ag_operator = gr_operator agent,
        ag_reservedBudget = nullish (gr_reservedBudget agent) 0,
        ag_spendLimit = nullish (gr_spendLimit agent) 0\<rparr>) (lookupAgent registry agentId)"

text \<open>
  The cached lookup: \<open>Some None\<close> is the undefined record of an item without an agent, \<open>None\<close> a
  rejected lookup. The registry is a function of the id, so that the cache changes nothing.
\<close>

definition getAgentRecord :: "agent_registry \<Rightarrow> string option \<Rightarrow> policy_agent option option" where
  "getAgentRecord registry agentId =
     (if \<not> truthy agentId \<or> agentId = Some ''0'' then Some None
      else map_option Some (lookupAgentRecord registry (the agentId)))"

section \<open>Qualities\<close>

definition budgetTopUpBps :: "string option \<Rightarrow> int" where
  "budgetTopUpBps agentId = (if truthy agentId \<and> agentId \<noteq> Some ''0'' then 5000 else 0)"

definition commitmentStrengthBps :: "int \<Rightarrow> int \<Rightarrow> int \<Rightarrow> int" where
  "commitmentStrengthBps amountWei targetWei minimumBps =
     (if targetWei \<le> 0 then 10000
      else clampInteger (big_div (amountWei * 10000) targetWei) minimumBps 10000)"

definition availableBudget :: "policy_agent \<Rightarrow> int" where
  "availableBudget agent = (if ag_budgetBalance agent > ag_reservedBudget agent
     then ag_budgetBalance agent - ag_reservedBudget agent else 0)"

definition agentEconomicMaturityBps :: "policy_agent option \<Rightarrow> int" where
  "agentEconomicMaturityBps agent =
     (case agent of
        None \<Rightarrow> 7000
      | Some a \<Rightarrow>
          if \<not> ag_active a then 4000
          else let availableBudgetBps = commitmentStrengthBps (availableBudget a) (milli_ether 30) 4000;
                   spendEnvelopeBps = commitmentStrengthBps (ag_spendLimit a) (milli_ether 30) 5000
               in js_round (int_div (availableBudgetBps * 7 + spendEnvelopeBps * 3) 10))"

definition applyAgentEconomicMaturity :: "int \<Rightarrow> policy_agent option \<Rightarrow> int" where
  "applyAgentEconomicMaturity baseQualityBps agent =
     js_round (int_div (baseQualityBps * agentEconomicMaturityBps agent) 10000)"

fun openWorkCommitmentTarget :: "reward_work_kind \<Rightarrow> int option" where
  "openWorkCommitmentTarget Kind_maintenance = Some (milli_ether 20)"
| "openWorkCommitmentTarget Kind_replication = Some (milli_ether 50)"
| "openWorkCommitmentTarget Kind_review = Some (milli_ether 30)"
| "openWorkCommitmentTarget Kind_synthesis = Some (milli_ether 40)"
| "openWorkCommitmentTarget _ = None"

definition directWorkCommitmentBps :: "reward_work_kind \<Rightarrow> policy_agent option \<Rightarrow> int" where
  "directWorkCommitmentBps workKind agent =
     (case openWorkCommitmentTarget workKind of
        None \<Rightarrow> 10000
      | Some targetWei \<Rightarrow>
          (case agent of
             None \<Rightarrow> if workKind = Kind_replication then 4500 else 4000
           | Some a \<Rightarrow>
               if \<not> ag_active a then 3500
               else commitmentStrengthBps (availableBudget a + ag_spendLimit a) targetWei 4500))"

definition applyDirectWorkCommitment :: "int \<Rightarrow> reward_work_kind \<Rightarrow> policy_agent option \<Rightarrow> int" where
  "applyDirectWorkCommitment baseQualityBps workKind agent =
     js_round (int_div (baseQualityBps * directWorkCommitmentBps workKind agent) 10000)"

definition qualityForReview ::
  "review_task \<Rightarrow> review_submission \<Rightarrow> calibration_entry option \<Rightarrow> policy_agent option \<Rightarrow> int" where
  "qualityForReview task latest calibration agent =
     (let samples = (case calibration of None \<Rightarrow> 0 | Some c \<Rightarrow> ce_samples c);
          verdictBps = (if rs_verdict latest = Verdict_inconclusive then 7000
                        else if rs_verdict latest = Verdict_pass \<or> rs_verdict latest = Verdict_fail then 10000
                        else 9000);
          confidenceBps = max 4000 (rs_confidenceBps latest);
          calibrationBps = (case calibration of None \<Rightarrow> 10000 | Some c \<Rightarrow> ce_weightBps c);
          maturityBps = min 10000 (6500 + samples * 700);
          economicBps = agentEconomicMaturityBps agent;
          synthesisBonus = (if rt_taskType task = Certification_synthesis_check then 1100 else 1000);
          product = foldl (\<lambda>acc n. num_mul acc (of_int n)) (of_int verdictBps)
                      [confidenceBps, calibrationBps, maturityBps, economicBps, synthesisBonus]
      in min 20000 (js_round (num_div product 10000000000000000000)))"

definition qualityForReplication :: "replication_view option \<Rightarrow> int" where
  "qualityForReplication replication =
     (case Option.bind replication rv_resolutionStatus of
        None \<Rightarrow> 8000
      | Some s \<Rightarrow> if s = 1 then 10000 else if s = 2 then 11000 else if s = 3 then 8000
                  else if s = 4 then 11000 else if s = 5 then 12000 else 8000)"

definition qualityForMaintenance :: "maintenance_task \<Rightarrow> int" where
  "qualityForMaintenance task = (if mt_taskType task = Maint_repair then 10000 else 8500)"

definition qualityForForecast :: "forecast_view \<Rightarrow> int" where
  "qualityForForecast forecast =
     (if \<not> fv_settled forecast \<or> fv_finalStatus forecast = None then 0
      else let commitmentBps = commitmentStrengthBps (fv_stakeAmount forecast) (milli_ether 50) 2500;
               baseQuality =
                 (if fv_matched forecast \<noteq> Some True
                  then max 2500 (js_round (num_mul (of_int (fv_confidenceBps forecast)) (1 / 2)))
                  else min 15000 (8500 + js_round (num_mul (of_int (fv_confidenceBps forecast)) (fl (1 / 5)))))
           in js_round (int_div (baseQuality * commitmentBps) 10000))"

definition qualityForChallenge :: "challenge_view \<Rightarrow> int" where
  "qualityForChallenge challenge =
     (let commitmentBps = commitmentStrengthBps (hv_bondAmount challenge) (milli_ether 100) 3500;
          baseQuality = (if hv_status challenge = 1 then 12000 else if hv_status challenge = 2 then 7000 else 0)
      in js_round (int_div (baseQuality * commitmentBps) 10000))"

section \<open>Candidates\<close>

record maintenance_policy_task =
  mp_task :: maintenance_task
  mp_claimId :: string

record candidate_input =
  pi_agentRegistry :: agent_registry
  pi_calibrationHistory :: "(string, calibration_entry) jmap"
  pi_challenges :: "challenge_view list"
  pi_forecasts :: "forecast_view list"
  pi_maintenanceTasks :: "maintenance_policy_task list"
  pi_replicationsById :: "(string, replication_view) jmap"
  pi_replicationJobs :: "replication_job list"
  pi_reviewSubmissions :: "review_submission list"
  pi_reviewTasks :: "review_task list"

text \<open>\<open>a > b\<close> on strings compares code units.\<close>

fun js_string_gt :: "string \<Rightarrow> string \<Rightarrow> bool" where
  "js_string_gt [] t = False"
| "js_string_gt (c # s) [] = True"
| "js_string_gt (c # s) (d # t) = (if code c = code d then js_string_gt s t else code c > code d)"

definition latestSubmissionByTask :: "review_submission list \<Rightarrow> (string, review_submission) jmap" where
  "latestSubmissionByTask submissions = fold (\<lambda>s m.
     case jm_get m (rs_taskId s) of
       None \<Rightarrow> jm_set (rs_taskId s) s m
     | Some current \<Rightarrow> if js_string_gt (rs_createdAt s) (rs_createdAt current)
                       then jm_set (rs_taskId s) s m else m) submissions []"

text \<open>
  The last link of every recipient chain: an operator looked up for a present agent id, else null.
  The outer option is the rejection, the inner one null.
\<close>

definition operatorOr :: "agent_registry \<Rightarrow> string option \<Rightarrow> string option \<Rightarrow> string option option" where
  "operatorOr registry known agentId =
     (case known of
        Some r \<Rightarrow> Some (Some r)
      | None \<Rightarrow> if truthy agentId then map_option Some (lookupAgentOperator registry (the agentId)) else Some None)"

text \<open>A candidate when the recipient is neither null nor empty; otherwise the item is skipped.\<close>

definition withRecipient :: "string option \<Rightarrow> (string \<Rightarrow> policy_candidate) \<Rightarrow> policy_candidate list" where
  "withRecipient recipient build = (if truthy recipient then [build (the recipient)] else [])"

definition mkCandidate ::
  "string option \<Rightarrow> string \<Rightarrow> string \<Rightarrow> string option \<Rightarrow> int \<Rightarrow> reward_work_kind \<Rightarrow> string \<Rightarrow> policy_candidate" where
  "mkCandidate agentId claimId itemId operator quality kind recipient =
     \<lparr>rk_itemId = itemId, rk_qualityBps = quality, rk_agentId = agentId,
      rk_budgetTopUpBps = budgetTopUpBps agentId, rk_claimId = claimId, rk_operator = operator,
      rk_recipient = Some recipient, rk_workKind = kind\<rparr>"

definition reviewCandidate :: "candidate_input \<Rightarrow> review_task \<Rightarrow> policy_candidate list option" where
  "reviewCandidate inp task =
     (if rt_status task \<noteq> RT_completed \<or> \<not> truthy (rt_claimId task) then Some []
      else case jm_get (latestSubmissionByTask (pi_reviewSubmissions inp)) (rt_taskId task) of
        None \<Rightarrow> Some []
      | Some latest \<Rightarrow>
          let agentId = rs_reviewerAgentId latest; kind = rewardWorkKindForReviewTaskType (rt_taskType task)
          in Option.bind (getAgentRecord (pi_agentRegistry inp) agentId) (\<lambda>agent.
             Option.bind (operatorOr (pi_agentRegistry inp)
                 (if rs_reviewerActor latest \<noteq> [] then Some (rs_reviewerActor latest)
                  else map_option ag_operator agent) agentId) (\<lambda>recipient.
             Some (withRecipient recipient (mkCandidate agentId (the (rt_claimId task))
               (''review-task:'' @ rt_taskId task) (map_option ag_operator agent)
               (applyDirectWorkCommitment (qualityForReview task latest
                  (if truthy agentId then jm_get (pi_calibrationHistory inp) (the agentId) else None) agent)
                 kind agent) kind)))))"

definition replicationCandidate :: "candidate_input \<Rightarrow> replication_job \<Rightarrow> policy_candidate list option" where
  "replicationCandidate inp job =
     (if jv_status job \<noteq> Job_completed then Some []
      else let replication = (if truthy (jv_onchainReplicationId job)
                 then jm_get (pi_replicationsById inp) (the (jv_onchainReplicationId job)) else None);
               agentId = (case replication of
                   Some r \<Rightarrow> if rv_agentId r \<noteq> ''0'' then Some (rv_agentId r) else jv_assignedAgentId job
                 | None \<Rightarrow> jv_assignedAgentId job)
           in Option.bind (getAgentRecord (pi_agentRegistry inp) agentId) (\<lambda>agent.
              Option.bind (operatorOr (pi_agentRegistry inp)
                  (orelse (map_option rv_replicator replication)
                    (orelse (jv_submissionActor job) (map_option ag_operator agent))) agentId) (\<lambda>recipient.
              Some (withRecipient recipient (mkCandidate agentId (jv_claimId job)
                (''replication-job:'' @ jv_jobId job) (map_option ag_operator agent)
                (applyDirectWorkCommitment (applyAgentEconomicMaturity (qualityForReplication replication) agent)
                  Kind_replication agent) Kind_replication)))))"

definition maintenanceCandidate :: "candidate_input \<Rightarrow> maintenance_policy_task \<Rightarrow> policy_candidate list option" where
  "maintenanceCandidate inp entry =
     (let task = mp_task entry; agentId = mt_assignedAgentId task
      in if mt_status task \<noteq> Job_completed then Some []
         else Option.bind (getAgentRecord (pi_agentRegistry inp) agentId) (\<lambda>agent.
              Option.bind (operatorOr (pi_agentRegistry inp) (map_option ag_operator agent) agentId) (\<lambda>recipient.
              Some (withRecipient recipient (mkCandidate agentId (mp_claimId entry)
                (''artifact-maintenance:'' @ mt_taskId task) (map_option ag_operator agent)
                (applyDirectWorkCommitment (applyAgentEconomicMaturity (qualityForMaintenance task) agent)
                  Kind_maintenance agent) Kind_maintenance)))))"

text \<open>The agent of a forecast or a challenge: a non-empty id other than 0.\<close>

definition marketAgent :: "string \<Rightarrow> string option" where
  "marketAgent agentId = (if agentId \<noteq> [] \<and> agentId \<noteq> ''0'' then Some agentId else None)"

definition marketCandidate ::
  "agent_registry \<Rightarrow> string \<Rightarrow> string \<Rightarrow> string \<Rightarrow> string \<Rightarrow> int \<Rightarrow> reward_work_kind \<Rightarrow>
   policy_candidate list option" where
  "marketCandidate registry actor rawAgentId claimId itemId quality kind =
     (let agentId = marketAgent rawAgentId
      in Option.bind (operatorOr registry (normalizeAddress (Some actor)) agentId) (\<lambda>recipient.
         if \<not> truthy recipient then Some []
         else Option.bind (operatorOr registry None agentId) (\<lambda>operator.
              Some (withRecipient recipient (mkCandidate agentId claimId itemId operator quality kind)))))"

definition forecastCandidate :: "candidate_input \<Rightarrow> forecast_view \<Rightarrow> policy_candidate list option" where
  "forecastCandidate inp forecast =
     (if \<not> fv_settled forecast \<or> fv_finalStatus forecast = None then Some []
      else marketCandidate (pi_agentRegistry inp) (fv_forecaster forecast) (fv_agentId forecast)
             (fv_claimId forecast) (''forecast:'' @ fv_forecastId forecast) (qualityForForecast forecast)
             Kind_forecast)"

definition challengeCandidate :: "candidate_input \<Rightarrow> challenge_view \<Rightarrow> policy_candidate list option" where
  "challengeCandidate inp challenge =
     (if hv_status challenge \<noteq> 1 \<and> hv_status challenge \<noteq> 2 then Some []
      else marketCandidate (pi_agentRegistry inp) (hv_challenger challenge) (hv_agentId challenge)
             (hv_claimId challenge) (''challenge:'' @ hv_challengeId challenge) (qualityForChallenge challenge)
             Kind_challenge)"

text \<open>A loop of awaited pushes: the first rejection rejects the whole.\<close>

fun collect :: "('a \<Rightarrow> 'b list option) \<Rightarrow> 'a list \<Rightarrow> 'b list option" where
  "collect f [] = Some []"
| "collect f (x # xs) = Option.bind (f x) (\<lambda>ys. map_option (\<lambda>zs. ys @ zs) (collect f xs))"

definition buildPolicyCandidates :: "candidate_input \<Rightarrow> policy_candidate list option" where
  "buildPolicyCandidates inp =
     Option.bind (collect (reviewCandidate inp) (pi_reviewTasks inp)) (\<lambda>reviews.
     Option.bind (collect (replicationCandidate inp) (pi_replicationJobs inp)) (\<lambda>replications.
     Option.bind (collect (maintenanceCandidate inp) (pi_maintenanceTasks inp)) (\<lambda>maintenance.
     Option.bind (collect (forecastCandidate inp) (pi_forecasts inp)) (\<lambda>forecasts.
     Option.bind (collect (challengeCandidate inp) (pi_challenges inp)) (\<lambda>challenges.
     Some (reviews @ replications @ maintenance @ forecasts @ challenges))))))"

section \<open>Bounds of the qualities\<close>

lemma fl_upper: "0 \<le> x \<Longrightarrow> fl x \<le> x * (1001 / 1000)"
proof -
  assume x: "0 \<le> x"
  have "\<bar>fl x - x\<bar> \<le> x / 2 ^ 53" using fl_error [of x] x by simp
  moreover have "x / 2 ^ 53 \<le> x / 1000" using x by (intro divide_left_mono) simp_all
  ultimately show ?thesis by linarith
qed

lemma scale_bounds:
  assumes "0 \<le> q" "q \<le> 20000" "0 \<le> b" "b \<le> 10000"
  shows "js_round (int_div (q * b) 10000) = round_div (q * b) 10000"
    and "0 \<le> js_round (int_div (q * b) 10000)" and "js_round (int_div (q * b) 10000) \<le> q"
proof -
  have "q * b \<le> 20000 * 10000" using assms by (intro mult_mono) simp_all
  then have lt: "q * b < 2 ^ 50" by (rule order_le_less_trans) simp
  have nn: "0 \<le> q * b" using assms by simp
  show eq: "js_round (int_div (q * b) 10000) = round_div (q * b) 10000"
    using nn lt by (intro js_round_div) simp_all
  show "0 \<le> js_round (int_div (q * b) 10000)" unfolding eq using nn by (intro round_div_nonneg) simp_all
  have "q * b \<le> q * 10000" using assms by (intro mult_left_mono) simp_all
  then show "js_round (int_div (q * b) 10000) \<le> q"
    unfolding eq by (intro round_div_le) (simp_all add: mult.commute)
qed

lemma scale_share:
  assumes "0 \<le> q" "q \<le> u" "0 \<le> b" "u \<le> 20000" "b \<le> 10000" and "u * b \<le> 10000 * v"
  shows "js_round (int_div (q * b) 10000) \<le> v"
proof -
  have "q * b \<le> u * b" using assms by (intro mult_right_mono) simp_all
  then have "q * b \<le> 10000 * v" using assms by linarith
  then show ?thesis using scale_bounds(1) [of q b] assms by (simp add: round_div_le)
qed

lemma commitmentStrength_bounds:
  assumes "0 \<le> m" "m \<le> 10000"
  shows "m \<le> commitmentStrengthBps a t m" and "commitmentStrengthBps a t m \<le> 10000"
  using assms by (simp_all add: commitmentStrengthBps_def bounds_intros)

lemma agentMaturity_bounds: "0 \<le> agentEconomicMaturityBps agent" "agentEconomicMaturityBps agent \<le> 10000"
proof -
  have "0 \<le> agentEconomicMaturityBps agent \<and> agentEconomicMaturityBps agent \<le> 10000"
  proof (cases agent)
    case None
    then show ?thesis by (simp add: agentEconomicMaturityBps_def)
  next
    case (Some a)
    let ?x = "commitmentStrengthBps (availableBudget a) (milli_ether 30) 4000"
    let ?y = "commitmentStrengthBps (ag_spendLimit a) (milli_ether 30) 5000"
    have b: "4000 \<le> ?x" "?x \<le> 10000" "5000 \<le> ?y" "?y \<le> 10000" by (simp_all add: commitmentStrength_bounds)
    have le: "?x * 7 + ?y * 3 \<le> 10 * 10000" using b by linarith
    then have "?x * 7 + ?y * 3 < 2 ^ 50" by (rule order_le_less_trans) simp
    moreover have nn: "0 \<le> ?x * 7 + ?y * 3" using b by linarith
    ultimately have "js_round (int_div (?x * 7 + ?y * 3) 10) = round_div (?x * 7 + ?y * 3) 10"
      by (intro js_round_div) simp_all
    moreover have "round_div (?x * 7 + ?y * 3) 10 \<le> 10000" using le by (intro round_div_le) simp_all
    moreover have "0 \<le> round_div (?x * 7 + ?y * 3) 10" using nn by (intro round_div_nonneg) simp_all
    ultimately show ?thesis using Some by (simp add: agentEconomicMaturityBps_def Let_def)
  qed
  then show "0 \<le> agentEconomicMaturityBps agent" "agentEconomicMaturityBps agent \<le> 10000" by simp_all
qed

lemma directWork_bounds: "0 \<le> directWorkCommitmentBps k agent" "directWorkCommitmentBps k agent \<le> 10000"
  using commitmentStrength_bounds [of 4500]
  by (auto simp: directWorkCommitmentBps_def split: option.split intro: order_trans [of 0 4500])

text \<open>The product of the review factors, rounded after every multiplication.\<close>

lemma product_step:
  assumes "0 \<le> x" "x \<le> b" "0 \<le> n" "n \<le> u" "0 \<le> u"
  shows "0 \<le> num_mul x (of_int n)" and "num_mul x (of_int n) \<le> b * of_int u * (1001 / 1000)"
proof -
  have nn: "0 \<le> x * of_int n" using assms by simp
  then show "0 \<le> num_mul x (of_int n)" by (simp add: num_mul_def fl_nonneg)
  have "x * of_int n \<le> b * of_int u" using assms by (intro mult_mono) simp_all
  then have "x * of_int n * (1001 / 1000) \<le> b * of_int u * (1001 / 1000)" by simp
  then show "num_mul x (of_int n) \<le> b * of_int u * (1001 / 1000)"
    using fl_upper [OF nn] by (simp add: num_mul_def)
qed

definition calibration_ok :: "calibration_entry option \<Rightarrow> bool" where
  "calibration_ok c \<longleftrightarrow> (case c of None \<Rightarrow> True
     | Some e \<Rightarrow> 0 \<le> ce_samples e \<and> 0 \<le> ce_weightBps e \<and> ce_weightBps e \<le> 10000)"

lemma qualityForReview_bounds:
  assumes cal: "calibration_ok cal"
  shows "0 \<le> qualityForReview task s cal agent" and "qualityForReview task s cal agent \<le> 20000"
    and "rs_confidenceBps s \<le> 10000 \<Longrightarrow> agent = None \<Longrightarrow> qualityForReview task s cal agent \<le> 7800"
proof -
  define v where "v = (if rs_verdict s = Verdict_inconclusive then 7000
      else if rs_verdict s = Verdict_pass \<or> rs_verdict s = Verdict_fail then 10000 else (9000::int))"
  define c where "c = max 4000 (rs_confidenceBps s)"
  define w where "w = (case cal of None \<Rightarrow> 10000 | Some e \<Rightarrow> ce_weightBps e)"
  define m where "m = min 10000 (6500 + (case cal of None \<Rightarrow> 0 | Some e \<Rightarrow> ce_samples e) * 700)"
  define e where "e = agentEconomicMaturityBps agent"
  define b where "b = (if rt_taskType task = Certification_synthesis_check then 1100 else (1000::int))"
  define p where "p = num_mul (num_mul (num_mul (num_mul (num_mul (of_int v) (of_int c)) (of_int w)) (of_int m)) (of_int e)) (of_int b)"
  have eq: "qualityForReview task s cal agent = min 20000 (js_round (num_div p 10000000000000000000))"
    by (simp add: qualityForReview_def Let_def v_def c_def w_def m_def e_def b_def p_def)
  have v: "0 \<le> v" "v \<le> 10000" by (simp_all add: v_def)
  have w: "0 \<le> w" "w \<le> 10000" using cal by (auto simp: w_def calibration_ok_def split: option.splits)
  have m: "0 \<le> m" "m \<le> 10000" using cal by (auto simp: m_def calibration_ok_def split: option.splits)
  have e: "0 \<le> e" "e \<le> 10000" using agentMaturity_bounds [of agent] by (simp_all add: e_def)
  have b: "0 \<le> b" "b \<le> 1100" by (simp_all add: b_def)
  have c: "0 \<le> c" by (simp add: c_def)
  have vr: "0 \<le> (of_int v :: rat)" "(of_int v :: rat) \<le> 10000" using v by simp_all
  note p1 = product_step [OF vr(1) order_refl c order_refl c]
  note p2 = product_step [OF p1(1) order_refl w(1) order_refl w(1)]
  note p3 = product_step [OF p2(1) order_refl m(1) order_refl m(1)]
  note p4 = product_step [OF p3(1) order_refl e(1) order_refl e(1)]
  note p5 = product_step [OF p4(1) order_refl b(1) order_refl b(1)]
  have "0 \<le> p" using p5(1) by (simp add: p_def)
  then have q: "0 \<le> num_div p 10000000000000000000" by (simp add: num_div_def fl_nonneg)
  show "0 \<le> qualityForReview task s cal agent" using js_round_nonneg [OF q] by (simp add: eq)
  show "qualityForReview task s cal agent \<le> 20000" by (simp add: eq)
  assume conf: "rs_confidenceBps s \<le> 10000" and agent: "agent = None"
  have c': "c \<le> 10000" using conf by (simp add: c_def)
  have e': "e \<le> 7000" using agent by (simp add: e_def agentEconomicMaturityBps_def)
  note q1 = product_step [OF vr c c']
  note q2 = product_step [OF q1(1) q1(2) w]
  note q3 = product_step [OF q2(1) q2(2) m]
  note q4 = product_step [OF q3(1) q3(2) e(1) e']
  note q5 = product_step [OF q4(1) q4(2) b]
  have "p \<le> 77390000000000000000000" using q5(2) by (simp add: p_def)
  then have "p / 10000000000000000000 \<le> 7739" by simp
  moreover have "fl (p / 10000000000000000000) \<le> p / 10000000000000000000 * (1001 / 1000)"
    using \<open>0 \<le> p\<close> by (intro fl_upper) simp
  ultimately have "num_div p 10000000000000000000 \<le> of_int 7799" by (simp add: num_div_def)
  then have "js_round (num_div p 10000000000000000000) \<le> 7799"
    using js_round_mono [of _ "of_int 7799"] js_round_of_int [of 7799] by fastforce
  then show "qualityForReview task s cal agent \<le> 7800" by (simp add: eq)
qed

section \<open>What the candidates are\<close>

text \<open>One loop body: at most one candidate, under the item's id, with a recipient.\<close>

definition yields :: "string \<Rightarrow> (policy_candidate \<Rightarrow> bool) \<Rightarrow> policy_candidate list option \<Rightarrow> bool" where
  "yields itemId P r \<longleftrightarrow>
     (case r of None \<Rightarrow> True
      | Some cs \<Rightarrow> cs = [] \<or> (\<exists>c. cs = [c] \<and> rk_itemId c = itemId \<and> truthy (rk_recipient c) \<and> P c))"

lemma yields_simps [simp]:
  "yields itemId P None" "yields itemId P (Some [])"
  by (simp_all add: yields_def)

lemma yields_bind: "(\<And>x. r = Some x \<Longrightarrow> yields itemId P (f x)) \<Longrightarrow> yields itemId P (Option.bind r f)"
  by (cases r) simp_all

lemma yields_withRecipient:
  "(\<And>r. P (mkCandidate agentId claimId itemId operator quality kind r)) \<Longrightarrow>
   yields itemId P (Some (withRecipient recipient (mkCandidate agentId claimId itemId operator quality kind)))"
  by (cases recipient) (simp_all add: yields_def withRecipient_def mkCandidate_def)

lemma collect_Some_Cons:
  "collect f (x # xs) = Some cs \<longleftrightarrow> (\<exists>ys zs. f x = Some ys \<and> collect f xs = Some zs \<and> cs = ys @ zs)"
  by (auto simp: bind_eq_Some_conv)

lemma collect_yields:
  assumes "\<And>x. x \<in> set xs \<Longrightarrow> yields (g x) (P x) (f x)" and "collect f xs = Some cs"
  shows "set (map rk_itemId cs) \<subseteq> g ` set xs"
    and "distinct (map g xs) \<Longrightarrow> distinct (map rk_itemId cs)"
    and "list_all (\<lambda>c. truthy (rk_recipient c) \<and> (\<exists>x \<in> set xs. rk_itemId c = g x \<and> P x c)) cs"
proof -
  have "set (map rk_itemId cs) \<subseteq> g ` set xs \<and> (distinct (map g xs) \<longrightarrow> distinct (map rk_itemId cs)) \<and>
      list_all (\<lambda>c. truthy (rk_recipient c) \<and> (\<exists>x \<in> set xs. rk_itemId c = g x \<and> P x c)) cs"
    using assms
  proof (induction xs arbitrary: cs)
    case (Cons x xs)
    obtain ys zs where yz: "f x = Some ys" "collect f xs = Some zs" "cs = ys @ zs"
      using Cons.prems(2) by (auto simp only: collect_Some_Cons)
    have IH: "set (map rk_itemId zs) \<subseteq> g ` set xs \<and> (distinct (map g xs) \<longrightarrow> distinct (map rk_itemId zs)) \<and>
        list_all (\<lambda>c. truthy (rk_recipient c) \<and> (\<exists>x \<in> set xs. rk_itemId c = g x \<and> P x c)) zs"
      using Cons.prems(1) yz(2) by (intro Cons.IH) auto
    have "ys = [] \<or> (\<exists>c. ys = [c] \<and> rk_itemId c = g x \<and> truthy (rk_recipient c) \<and> P x c)"
      using Cons.prems(1) [of x] yz(1) by (simp add: yields_def)
    then show ?case using IH yz(3) by (auto simp: list_all_iff)
  qed simp
  then show "set (map rk_itemId cs) \<subseteq> g ` set xs"
    and "distinct (map g xs) \<Longrightarrow> distinct (map rk_itemId cs)"
    and "list_all (\<lambda>c. truthy (rk_recipient c) \<and> (\<exists>x \<in> set xs. rk_itemId c = g x \<and> P x c)) cs" by simp_all
qed

text \<open>The inputs the stores and the calibration deliver.\<close>

definition candidate_input_ok :: "candidate_input \<Rightarrow> bool" where
  "candidate_input_ok inp \<longleftrightarrow>
     (\<forall>(a, e) \<in> set (pi_calibrationHistory inp). 0 \<le> ce_samples e \<and> 0 \<le> ce_weightBps e \<and> ce_weightBps e \<le> 10000) \<and>
     (\<forall>f \<in> set (pi_forecasts inp). 0 \<le> fv_confidenceBps f \<and> fv_confidenceBps f \<le> 10000) \<and>
     (\<forall>s \<in> set (pi_reviewSubmissions inp). rs_confidenceBps s \<le> 10000) \<and>
     distinct (map rt_taskId (pi_reviewTasks inp)) \<and> distinct (map jv_jobId (pi_replicationJobs inp)) \<and>
     distinct (map (\<lambda>e. mt_taskId (mp_task e)) (pi_maintenanceTasks inp)) \<and>
     distinct (map fv_forecastId (pi_forecasts inp)) \<and> distinct (map hv_challengeId (pi_challenges inp))"

text \<open>
  What holds of every candidate: a quality within 0 and 20000, and a quality below the minimum of
  its kind when it is open work without an agent.
\<close>

definition candidate_quality_ok :: "policy_candidate \<Rightarrow> bool" where
  "candidate_quality_ok c \<longleftrightarrow> 0 \<le> rk_qualityBps c \<and> rk_qualityBps c \<le> 20000 \<and>
     (rk_workKind c \<noteq> Kind_forecast \<and> rk_workKind c \<noteq> Kind_challenge \<and>
      (\<not> truthy (rk_agentId c) \<or> rk_agentId c = Some ''0'') \<longrightarrow>
      rk_qualityBps c < pc_minimumQualityBps (POLICY_CONFIG (rk_workKind c)))"

lemma getAgentRecord_None:
  "getAgentRecord registry agentId = Some agent \<Longrightarrow> \<not> truthy agentId \<or> agentId = Some ''0'' \<Longrightarrow> agent = None"
  by (simp add: getAgentRecord_def)

lemma latestSubmission_mem:
  assumes "jm_get (latestSubmissionByTask subs) k = Some s"
  shows "s \<in> set subs \<and> rs_taskId s = k"
proof -
  have "jm_get (fold (\<lambda>s m. case jm_get m (rs_taskId s) of
       None \<Rightarrow> jm_set (rs_taskId s) s m
     | Some current \<Rightarrow> if js_string_gt (rs_createdAt s) (rs_createdAt current)
                       then jm_set (rs_taskId s) s m else m) xs m) k = Some s \<Longrightarrow>
     jm_get m k = Some s \<or> (s \<in> set xs \<and> rs_taskId s = k)" for xs m
  proof (induction xs arbitrary: m)
    case (Cons x xs)
    from Cons.IH [OF Cons.prems [unfolded fold_Cons comp_def]] show ?case
      by (auto split: option.splits if_splits)
  qed simp
  from this [of subs "[]"] assms show ?thesis by (simp add: latestSubmissionByTask_def)
qed

lemma scaled_ok:
  assumes "0 \<le> q" "q \<le> 20000"
  shows "0 \<le> applyDirectWorkCommitment q k agent" "applyDirectWorkCommitment q k agent \<le> q"
    "0 \<le> applyAgentEconomicMaturity q agent" "applyAgentEconomicMaturity q agent \<le> q"
  using scale_bounds(2,3) [OF assms directWork_bounds] scale_bounds(2,3) [OF assms agentMaturity_bounds]
  by (simp_all add: applyDirectWorkCommitment_def applyAgentEconomicMaturity_def)

lemma review_quality_ok:
  assumes cal: "calibration_ok cal" and conf: "rs_confidenceBps s \<le> 10000"
    and agent: "\<not> truthy agentId \<or> agentId = Some ''0'' \<Longrightarrow> agent = None"
  shows "candidate_quality_ok (mkCandidate agentId claimId itemId operator
    (applyDirectWorkCommitment (qualityForReview task s cal agent) (rewardWorkKindForReviewTaskType (rt_taskType task)) agent)
    (rewardWorkKindForReviewTaskType (rt_taskType task)) r)"
proof -
  let ?q = "qualityForReview task s cal agent" and ?k = "rewardWorkKindForReviewTaskType (rt_taskType task)"
  note q = qualityForReview_bounds(1,2) [OF cal, of task s agent]
  note d = scaled_ok(1,2) [OF q, of ?k agent]
  have "applyDirectWorkCommitment ?q ?k agent < 6000" if "agent = None"
  proof -
    have u: "?q \<le> 7800" by (rule qualityForReview_bounds(3) [OF cal conf that])
    have b: "directWorkCommitmentBps ?k agent = 4000"
      using that by (simp add: directWorkCommitmentBps_def rewardWorkKindForReviewTaskType_def)
    have "js_round (int_div (?q * 4000) 10000) \<le> 3120" using q(1) u by (intro scale_share) simp_all
    then show ?thesis by (simp add: applyDirectWorkCommitment_def b)
  qed
  then show ?thesis using d q agent
    by (auto simp: candidate_quality_ok_def mkCandidate_def rewardWorkKindForReviewTaskType_def)
qed

lemma job_quality_ok:
  assumes q: "0 \<le> q" "q \<le> 12000" and k: "k = Kind_replication \<or> k = Kind_maintenance"
    and agent: "\<not> truthy agentId \<or> agentId = Some ''0'' \<Longrightarrow> agent = None"
  shows "candidate_quality_ok (mkCandidate agentId claimId itemId operator
    (applyDirectWorkCommitment (applyAgentEconomicMaturity q agent) k agent) k r)"
proof -
  have e: "0 \<le> applyAgentEconomicMaturity q agent" "applyAgentEconomicMaturity q agent \<le> q"
    using q scaled_ok [of q] by simp_all
  note d = scaled_ok(1,2) [of "applyAgentEconomicMaturity q agent" k agent]
  have "applyDirectWorkCommitment (applyAgentEconomicMaturity q agent) k agent < 7000" if "agent = None"
  proof -
    have b: "directWorkCommitmentBps k agent \<le> 4500" "0 \<le> directWorkCommitmentBps k agent"
      using that k by (auto simp: directWorkCommitmentBps_def)
    have "12000 * directWorkCommitmentBps k agent \<le> 10000 * 5400" using b by linarith
    then have "js_round (int_div (applyAgentEconomicMaturity q agent * directWorkCommitmentBps k agent) 10000) \<le> 5400"
      using e q b by (intro scale_share [of _ 12000]) simp_all
    then show ?thesis by (simp add: applyDirectWorkCommitment_def)
  qed
  then show ?thesis using d e q agent k
    by (auto simp: candidate_quality_ok_def mkCandidate_def)
qed

lemma if_cases_eq: "(if b then x else y) = x \<or> (if b then x else y) = y"
  by simp

lemma qualityForForecast_bounds:
  assumes "0 \<le> fv_confidenceBps f" "fv_confidenceBps f \<le> 10000"
  shows "0 \<le> qualityForForecast f" and "qualityForForecast f \<le> 20000"
proof -
  let ?c = "of_int (fv_confidenceBps f) :: rat"
  have c: "0 \<le> ?c" "?c \<le> 10000" using assms by simp_all
  have "fl (1 / 5) \<le> 1 / 5 * (1001 / 1000)" "0 \<le> fl (1 / 5)" by (rule fl_upper fl_nonneg; simp)+
  have half: "0 \<le> num_mul ?c (1 / 2)" "num_mul ?c (1 / 2) \<le> of_int 5010"
  proof -
    show "0 \<le> num_mul ?c (1 / 2)" using c by (simp add: num_mul_def fl_nonneg)
    have "num_mul ?c (1 / 2) \<le> ?c * (1 / 2) * (1001 / 1000)" unfolding num_mul_def using c by (intro fl_upper) simp
    then show "num_mul ?c (1 / 2) \<le> of_int 5010" using c by simp
  qed
  have fifth: "0 \<le> num_mul ?c (fl (1 / 5))"
    using c \<open>0 \<le> fl (1 / 5)\<close> by (simp add: num_mul_def fl_nonneg)
  have r: "0 \<le> js_round (num_mul ?c (1 / 2))" "js_round (num_mul ?c (1 / 2)) \<le> 5010"
    "0 \<le> js_round (num_mul ?c (fl (1 / 5)))"
    using js_round_nonneg [OF half(1)] js_round_nonneg [OF fifth] js_round_mono [OF half(2)]
    unfolding js_round_of_int by simp_all
  let ?b = "if fv_matched f \<noteq> Some True then max 2500 (js_round (num_mul ?c (1 / 2)))
            else min 15000 (8500 + js_round (num_mul ?c (fl (1 / 5))))"
  let ?k = "commitmentStrengthBps (fv_stakeAmount f) (milli_ether 50) 2500"
  have b: "0 \<le> ?b" "?b \<le> 20000" using r by auto
  have k: "0 \<le> ?k" "?k \<le> 10000"
    using commitmentStrength_bounds [of 2500 "fv_stakeAmount f" "milli_ether 50"] by linarith+
  have "0 \<le> js_round (int_div (?b * ?k) 10000)" "js_round (int_div (?b * ?k) 10000) \<le> 20000"
    using scale_bounds(2,3) [OF b k] b(2) by linarith+
  moreover have "qualityForForecast f = 0 \<or> qualityForForecast f = js_round (int_div (?b * ?k) 10000)"
    unfolding qualityForForecast_def Let_def by (rule if_cases_eq)
  ultimately show "0 \<le> qualityForForecast f" "qualityForForecast f \<le> 20000" by (metis order_refl zero_le_numeral)+
qed

lemma qualityForChallenge_bounds: "0 \<le> qualityForChallenge h" "qualityForChallenge h \<le> 20000"
proof -
  let ?b = "if hv_status h = 1 then 12000 else if hv_status h = 2 then 7000 else (0 :: int)"
  let ?k = "commitmentStrengthBps (hv_bondAmount h) (milli_ether 100) 3500"
  have b: "0 \<le> ?b" "?b \<le> 20000" by simp_all
  have k: "0 \<le> ?k" "?k \<le> 10000"
    using commitmentStrength_bounds [of 3500 "hv_bondAmount h" "milli_ether 100"] by linarith+
  show "0 \<le> qualityForChallenge h" "qualityForChallenge h \<le> 20000"
    unfolding qualityForChallenge_def Let_def using scale_bounds(2,3) [OF b k] b(2) by linarith+
qed

lemma yields_market:
  assumes "0 \<le> q" "q \<le> 20000" "k = Kind_forecast \<or> k = Kind_challenge"
  shows "yields itemId candidate_quality_ok (marketCandidate registry actor agentId claimId itemId q k)"
  unfolding marketCandidate_def Let_def
  using assms by (auto intro!: yields_bind yields_withRecipient simp: candidate_quality_ok_def mkCandidate_def)

lemma yields_review:
  assumes ok: "candidate_input_ok inp"
  shows "yields (''review-task:'' @ rt_taskId task)
    (\<lambda>c. rt_status task = RT_completed \<and> candidate_quality_ok c) (reviewCandidate inp task)"
proof (cases "rt_status task \<noteq> RT_completed \<or> \<not> truthy (rt_claimId task) \<or>
    jm_get (latestSubmissionByTask (pi_reviewSubmissions inp)) (rt_taskId task) = None")
  case True
  then show ?thesis by (auto simp: reviewCandidate_def)
next
  case False
  then obtain s where s: "jm_get (latestSubmissionByTask (pi_reviewSubmissions inp)) (rt_taskId task) = Some s" by auto
  have conf: "rs_confidenceBps s \<le> 10000"
    using latestSubmission_mem [OF s] ok by (simp add: candidate_input_ok_def)
  have cal: "calibration_ok (if truthy (rs_reviewerAgentId s)
      then jm_get (pi_calibrationHistory inp) (the (rs_reviewerAgentId s)) else None)"
    using ok by (auto simp: candidate_input_ok_def calibration_ok_def dest!: map_of_SomeD split: option.split)
  have fin: "rt_status task = RT_completed" "truthy (rt_claimId task)" using False by simp_all
  have cond: "(rt_status task \<noteq> RT_completed \<or> \<not> truthy (rt_claimId task)) = False" using fin by simp
  show ?thesis
    unfolding reviewCandidate_def cond if_False s option.case Let_def
  proof (intro yields_bind yields_withRecipient conjI fin)
    fix agent recipient r
    assume "getAgentRecord (pi_agentRegistry inp) (rs_reviewerAgentId s) = Some agent"
    then show "candidate_quality_ok (mkCandidate (rs_reviewerAgentId s) (the (rt_claimId task))
        (''review-task:'' @ rt_taskId task) (map_option ag_operator agent)
        (applyDirectWorkCommitment (qualityForReview task s
           (if truthy (rs_reviewerAgentId s) then jm_get (pi_calibrationHistory inp) (the (rs_reviewerAgentId s)) else None) agent)
          (rewardWorkKindForReviewTaskType (rt_taskType task)) agent)
        (rewardWorkKindForReviewTaskType (rt_taskType task)) r)"
      by (intro review_quality_ok [OF cal conf]) (rule getAgentRecord_None)
  qed
qed

lemma yields_replication:
  "yields (''replication-job:'' @ jv_jobId job)
    (\<lambda>c. jv_status job = Job_completed \<and> candidate_quality_ok c) (replicationCandidate inp job)"
proof -
  have q: "0 \<le> qualityForReplication r" "qualityForReplication r \<le> 12000" for r
    by (simp_all add: qualityForReplication_def split: option.split)
  show ?thesis
    unfolding replicationCandidate_def Let_def
    by (auto intro!: yields_bind yields_withRecipient job_quality_ok [OF q] dest: getAgentRecord_None)
qed

lemma yields_maintenance:
  "yields (''artifact-maintenance:'' @ mt_taskId (mp_task entry))
    (\<lambda>c. mt_status (mp_task entry) = Job_completed \<and> candidate_quality_ok c) (maintenanceCandidate inp entry)"
proof -
  have q: "0 \<le> qualityForMaintenance t" "qualityForMaintenance t \<le> 12000" for t
    by (simp_all add: qualityForMaintenance_def)
  show ?thesis
    unfolding maintenanceCandidate_def Let_def
    by (auto intro!: yields_bind yields_withRecipient job_quality_ok [OF q] dest: getAgentRecord_None)
qed

lemma yields_forecast:
  assumes "candidate_input_ok inp" and "f \<in> set (pi_forecasts inp)"
  shows "yields (''forecast:'' @ fv_forecastId f) (\<lambda>c. fv_settled f \<and> candidate_quality_ok c) (forecastCandidate inp f)"
proof -
  have "yields (''forecast:'' @ fv_forecastId f) candidate_quality_ok
      (marketCandidate (pi_agentRegistry inp) (fv_forecaster f) (fv_agentId f) (fv_claimId f)
        (''forecast:'' @ fv_forecastId f) (qualityForForecast f) Kind_forecast)"
    using assms by (intro yields_market qualityForForecast_bounds) (auto simp: candidate_input_ok_def)
  then show ?thesis by (auto simp: forecastCandidate_def yields_def split: option.split)
qed

lemma yields_challenge:
  "yields (''challenge:'' @ hv_challengeId h) (\<lambda>c. (hv_status h = 1 \<or> hv_status h = 2) \<and> candidate_quality_ok c)
    (challengeCandidate inp h)"
proof -
  have "yields (''challenge:'' @ hv_challengeId h) candidate_quality_ok
      (marketCandidate (pi_agentRegistry inp) (hv_challenger h) (hv_agentId h) (hv_claimId h)
        (''challenge:'' @ hv_challengeId h) (qualityForChallenge h) Kind_challenge)"
    by (intro yields_market qualityForChallenge_bounds) simp
  then show ?thesis by (auto simp: challengeCandidate_def yields_def split: option.split)
qed

lemma distinct_append_tag:
  assumes "distinct xs" "distinct ys" "\<forall>i \<in> set xs. t i = v" "\<forall>i \<in> set ys. t i \<noteq> v"
  shows "distinct (xs @ ys)"
  using assms by auto

text \<open>The work a candidate stands for, by its item id.\<close>

definition finished_work :: "candidate_input \<Rightarrow> string \<Rightarrow> bool" where
  "finished_work inp itemId \<longleftrightarrow>
     (\<exists>t \<in> set (pi_reviewTasks inp). itemId = ''review-task:'' @ rt_taskId t \<and> rt_status t = RT_completed) \<or>
     (\<exists>j \<in> set (pi_replicationJobs inp). itemId = ''replication-job:'' @ jv_jobId j \<and> jv_status j = Job_completed) \<or>
     (\<exists>e \<in> set (pi_maintenanceTasks inp). itemId = ''artifact-maintenance:'' @ mt_taskId (mp_task e) \<and>
        mt_status (mp_task e) = Job_completed) \<or>
     (\<exists>f \<in> set (pi_forecasts inp). itemId = ''forecast:'' @ fv_forecastId f \<and> fv_settled f) \<or>
     (\<exists>h \<in> set (pi_challenges inp). itemId = ''challenge:'' @ hv_challengeId h \<and> (hv_status h = 1 \<or> hv_status h = 2))"

lemma finished_workI:
  "t \<in> set (pi_reviewTasks inp) \<Longrightarrow> rt_status t = RT_completed \<Longrightarrow> finished_work inp (''review-task:'' @ rt_taskId t)"
  "j \<in> set (pi_replicationJobs inp) \<Longrightarrow> jv_status j = Job_completed \<Longrightarrow> finished_work inp (''replication-job:'' @ jv_jobId j)"
  "e \<in> set (pi_maintenanceTasks inp) \<Longrightarrow> mt_status (mp_task e) = Job_completed \<Longrightarrow>
     finished_work inp (''artifact-maintenance:'' @ mt_taskId (mp_task e))"
  "f \<in> set (pi_forecasts inp) \<Longrightarrow> fv_settled f \<Longrightarrow> finished_work inp (''forecast:'' @ fv_forecastId f)"
  "h \<in> set (pi_challenges inp) \<Longrightarrow> hv_status h = 1 \<or> hv_status h = 2 \<Longrightarrow>
     finished_work inp (''challenge:'' @ hv_challengeId h)"
  unfolding finished_work_def by (rule disjI1 disjI2, blast)+

text \<open>
  The policy rewards finished work only, each piece once. When building the candidates does not
  fail, every candidate stands for a completed review task, replication job or maintenance task, a
  settled forecast or a decided challenge, has a recipient and a quality within 0 and 20000; item
  ids are never shared; and open work without a registered agent stays below the minimum quality of
  its kind, so that it is never paid.
\<close>

theorem candidates_sound:
  assumes ok: "candidate_input_ok inp" and build: "buildPolicyCandidates inp = Some cs"
  shows "distinct (map rk_itemId cs) \<and>
    list_all (\<lambda>c. truthy (rk_recipient c) \<and> candidate_quality_ok c \<and> finished_work inp (rk_itemId c)) cs"
    (is "_ \<and> list_all ?good cs")
proof -
  obtain a b c d e where parts:
    "collect (reviewCandidate inp) (pi_reviewTasks inp) = Some a"
    "collect (replicationCandidate inp) (pi_replicationJobs inp) = Some b"
    "collect (maintenanceCandidate inp) (pi_maintenanceTasks inp) = Some c"
    "collect (forecastCandidate inp) (pi_forecasts inp) = Some d"
    "collect (challengeCandidate inp) (pi_challenges inp) = Some e"
    "cs = a @ b @ c @ d @ e"
    using build unfolding buildPolicyCandidates_def by (auto simp: bind_eq_Some_conv)
  note ya = collect_yields [OF yields_review [OF ok] parts(1)]
  note yb = collect_yields [OF yields_replication parts(2)]
  note yc = collect_yields [OF yields_maintenance parts(3)]
  have fy: "yields (''forecast:'' @ fv_forecastId f) (\<lambda>c. fv_settled f \<and> candidate_quality_ok c) (forecastCandidate inp f)"
    if "f \<in> set (pi_forecasts inp)" for f
    by (rule yields_forecast [OF ok that])
  have yd: "set (map rk_itemId d) \<subseteq> (\<lambda>f. ''forecast:'' @ fv_forecastId f) ` set (pi_forecasts inp)"
    "distinct (map (\<lambda>f. ''forecast:'' @ fv_forecastId f) (pi_forecasts inp)) \<Longrightarrow> distinct (map rk_itemId d)"
    "list_all (\<lambda>c. truthy (rk_recipient c) \<and> (\<exists>f \<in> set (pi_forecasts inp).
       rk_itemId c = ''forecast:'' @ fv_forecastId f \<and> fv_settled f \<and> candidate_quality_ok c)) d"
    by (rule collect_yields(1) [OF _ parts(4)], erule fy, rule collect_yields(2) [OF _ parts(4)], erule fy,
        assumption, rule collect_yields(3) [OF _ parts(4)], erule fy)
  note ye = collect_yields [OF yields_challenge parts(5)]
  have injs: "distinct (map (\<lambda>t. p @ f t) xs) \<longleftrightarrow> distinct (map f xs)" for p and f :: "'z \<Rightarrow> string" and xs
    by (induction xs) auto
  have ta: "\<forall>i \<in> set (map rk_itemId a). take 3 i = ''rev''" using ya(1) by auto
  have tb: "\<forall>i \<in> set (map rk_itemId b). take 3 i = ''rep''" using yb(1) by auto
  have tc: "\<forall>i \<in> set (map rk_itemId c). take 3 i = ''art''" using yc(1) by auto
  have td: "\<forall>i \<in> set (map rk_itemId d). take 3 i = ''for''" using yd(1) by auto
  have te: "\<forall>i \<in> set (map rk_itemId e). take 3 i = ''cha''" using ye(1) by auto
  have dist: "distinct (map rk_itemId a)" "distinct (map rk_itemId b)" "distinct (map rk_itemId c)"
    "distinct (map rk_itemId d)" "distinct (map rk_itemId e)"
    using ok ya(2) yb(2) yc(2) yd(2) ye(2) unfolding candidate_input_ok_def injs by blast+
  have "distinct (map rk_itemId cs)"
    unfolding parts(6) map_append using dist
    by (intro distinct_append_tag [OF _ _ ta] distinct_append_tag [OF _ _ tb] distinct_append_tag [OF _ _ tc]
        distinct_append_tag [OF _ _ td]) (use tb tc td te in auto)
  moreover have "list_all ?good cs"
  proof -
    have "list_all ?good a" by (rule list.pred_mono_strong [OF ya(3)]) (metis finished_workI)
    moreover have "list_all ?good b" by (rule list.pred_mono_strong [OF yb(3)]) (metis finished_workI)
    moreover have "list_all ?good c" by (rule list.pred_mono_strong [OF yc(3)]) (metis finished_workI)
    moreover have "list_all ?good d" by (rule list.pred_mono_strong [OF yd(3)]) (metis finished_workI)
    moreover have "list_all ?good e" by (rule list.pred_mono_strong [OF ye(3)]) (metis finished_workI)
    ultimately show ?thesis by (simp only: parts(6) list_all_append simp_thms)
  qed
  ultimately show ?thesis by blast
qed

subsection \<open>Witness\<close>

definition sample_registry :: agent_registry where
  "sample_registry = (\<lambda>i. if i = 7 then Some \<lparr>gr_active = None, gr_budgetBalance = Some (milli_ether 100),
     gr_operator = ''0xop'', gr_reservedBudget = None, gr_spendLimit = Some (milli_ether 100)\<rparr> else None)"

definition sample_challenge :: "string \<Rightarrow> int \<Rightarrow> challenge_view" where
  "sample_challenge agentId status = \<lparr>hv_challengeId = ''4'', hv_claimId = ''3'', hv_replicationId = ''0'',
     hv_challenger = '' '', hv_agentId = agentId, hv_evidenceHash = ''h'', hv_evidenceURI = ''u'',
     hv_bondAmount = milli_ether 50, hv_status = status, hv_resolutionHash = None, hv_createdAt = 1,
     hv_resolvedAt = None, hv_payoutAmount = None, hv_refundedAmount = None\<rparr>"

definition sample_maintenance :: "string option \<Rightarrow> maintenance_policy_task" where
  "sample_maintenance agentId = \<lparr>mp_task = \<lparr>mt_artifactKey = ''k'', mt_assignedAgentId = agentId,
     mt_assignedAt = None, mt_assignedWorker = None, mt_completedAt = None, mt_createdAt = ''t'',
     mt_failureReason = None, mt_repairLocator = None, mt_repairSourceReplicaKey = None,
     mt_requestedBy = ''o'', mt_resultArtifactKey = None, mt_status = Job_completed,
     mt_targetProvider = None, mt_targetReplicaKey = None, mt_taskId = ''9'', mt_taskType = Maint_repair,
     mt_updatedAt = ''t''\<rparr>, mp_claimId = ''3''\<rparr>"

definition sample_candidate_input :: candidate_input where
  "sample_candidate_input = \<lparr>pi_agentRegistry = sample_registry, pi_calibrationHistory = [],
     pi_challenges = [sample_challenge ''7'' 1], pi_forecasts = [],
     pi_maintenanceTasks = [sample_maintenance (Some ''7'')], pi_replicationsById = [], pi_replicationJobs = [],
     pi_reviewSubmissions = [], pi_reviewTasks = []\<rparr>"

lemma sample_build:
  "map_option (map (\<lambda>c. (rk_itemId c, rk_qualityBps c, rk_recipient c))) (buildPolicyCandidates sample_candidate_input) =
   Some [(''artifact-maintenance:9'', 10000, Some ''0xop''), (''challenge:4'', 6000, Some ''0xop'')]"
  by code_simp

theorem candidates_sound_witness:
  "\<exists>cs. buildPolicyCandidates sample_candidate_input = Some cs \<and> length cs = 2 \<and>
     distinct (map rk_itemId cs) \<and> list_all (\<lambda>c. finished_work sample_candidate_input (rk_itemId c)) cs"
proof -
  obtain cs where cs: "buildPolicyCandidates sample_candidate_input = Some cs"
    and l: "map (\<lambda>c. (rk_itemId c, rk_qualityBps c, rk_recipient c)) cs =
      [(''artifact-maintenance:9'', 10000, Some ''0xop''), (''challenge:4'', 6000, Some ''0xop'')]"
    using sample_build by auto
  have len: "length cs = 2" using arg_cong [OF l, of length] by simp
  have "candidate_input_ok sample_candidate_input"
    by (simp add: candidate_input_ok_def sample_candidate_input_def)
  from candidates_sound [OF this cs] cs len show ?thesis by (auto simp: list_all_iff)
qed

end
