(* ===== verification/Reward_Settlement.thy ===== *)
theory Reward_Settlement
  imports Reward_Candidates Reward_Pressure
begin

text \<open>
  The settlement loop of \<open>rewards/policy.ts\<close> (lines 1245-1367): candidates are grouped by claim and
  kind of work, each group's targets are derived from the pool's balance, and every candidate whose
  target exceeds what it already got is settled with the difference. The vault's balances (a contract
  read, \<open>None\<close> when it throws) and the settlement itself (a contract call and an insert, \<open>False\<close> when
  it throws) are parameters; a throw ends the run, with what was settled before it.
\<close>

record accrued_total =
  ac_accruedWei :: int
  ac_count :: int

record settlement_request =
  sq_claimId :: string
  sq_workKind :: reward_work_kind
  sq_itemId :: string
  sq_amountWei :: int
  sq_recipient :: "string option"
  sq_label :: string
  sq_budgetTopUpBps :: int
  sq_marketPressureBps :: int
  sq_qualityBps :: int
  sq_targetTotalWei :: int

record settlement_env =
  se_balance :: "string \<Rightarrow> reward_work_kind \<Rightarrow> int option"
  se_settle :: "settlement_request \<Rightarrow> bool"
  se_challenges :: "challenge_view list"
  se_forecasts :: "forecast_view list"
  se_demand :: "(string, reward_work_kind \<Rightarrow> demand_signal) jmap"
  se_policyVersion :: string
  se_maxSettlements :: "int option"

text \<open>What the run has done so far, and whether it is still going.\<close>

record settlement_state =
  st_accrued :: "(string, accrued_total) jmap"
  st_requests :: "settlement_request list"
  st_running :: bool

definition groupKey :: "policy_candidate \<Rightarrow> string" where
  "groupKey candidate = rk_claimId candidate @ '':'' @ show_work_kind (rk_workKind candidate)"

definition parseGroupKey :: "string \<Rightarrow> (string \<times> reward_work_kind) option" where
  "parseGroupKey key =
     (case js_split (CHR '':'') key of
        claimId # kind # _ \<Rightarrow> map_option (\<lambda>k. (claimId, k)) (List.find (\<lambda>k. show_work_kind k = kind) policy_kinds)
      | _ \<Rightarrow> None)"

definition maxReached :: "settlement_env \<Rightarrow> settlement_state \<Rightarrow> bool" where
  "maxReached env st =
     (case se_maxSettlements env of
        None \<Rightarrow> False
      | Some n \<Rightarrow> n \<noteq> 0 \<and> int (length (st_requests st)) \<ge> n)"

definition accruedFor :: "settlement_state \<Rightarrow> string \<Rightarrow> accrued_total" where
  "accruedFor st itemId = nullish (jm_get (st_accrued st) itemId) \<lparr>ac_accruedWei = 0, ac_count = 0\<rparr>"

definition settlementRequest ::
  "settlement_env \<Rightarrow> string \<Rightarrow> reward_work_kind \<Rightarrow> int \<Rightarrow> policy_candidate \<Rightarrow> int \<Rightarrow> accrued_total \<Rightarrow> settlement_request" where
  "settlementRequest env claimId kind marketPressure candidate target existing =
     \<lparr>sq_claimId = claimId, sq_workKind = kind, sq_itemId = rk_itemId candidate,
      sq_amountWei = target - ac_accruedWei existing, sq_recipient = rk_recipient candidate,
      sq_label = se_policyVersion env @ '':step-'' @ show_int (ac_count existing + 1),
      sq_budgetTopUpBps = rk_budgetTopUpBps candidate, sq_marketPressureBps = marketPressure,
      sq_qualityBps = rk_qualityBps candidate, sq_targetTotalWei = target\<rparr>"

text \<open>The inner loop; reaching the maximum breaks out of it, a throw stops the run.\<close>

fun settleCandidates ::
  "settlement_env \<Rightarrow> string \<Rightarrow> reward_work_kind \<Rightarrow> int \<Rightarrow> (string, int) jmap \<Rightarrow> policy_candidate list \<Rightarrow>
   settlement_state \<Rightarrow> settlement_state" where
  "settleCandidates env claimId kind mp targets [] st = st"
| "settleCandidates env claimId kind mp targets (c # cs) st =
     (if maxReached env st then st
      else let target = nullish (jm_get targets (rk_itemId c)) 0;
               existing = accruedFor st (rk_itemId c);
               request = settlementRequest env claimId kind mp c target existing
           in if target = 0 then settleCandidates env claimId kind mp targets cs st
              else if target \<le> ac_accruedWei existing then settleCandidates env claimId kind mp targets cs st
              else if \<not> se_settle env request then st\<lparr>st_running := False\<rparr>
              else settleCandidates env claimId kind mp targets cs
                (st\<lparr>st_accrued := jm_set (rk_itemId c) \<lparr>ac_accruedWei = target, ac_count = ac_count existing + 1\<rparr> (st_accrued st),
                    st_requests := st_requests st @ [request]\<rparr>))"

definition schedulerPressureFor :: "settlement_env \<Rightarrow> string \<Rightarrow> reward_work_kind \<Rightarrow> int" where
  "schedulerPressureFor env claimId kind =
     (case jm_get (se_demand env) claimId of None \<Rightarrow> 10000 | Some d \<Rightarrow> ds_schedulerPressureBps (d kind))"

definition groupTargets ::
  "settlement_env \<Rightarrow> string \<Rightarrow> reward_work_kind \<Rightarrow> int \<Rightarrow> policy_candidate list \<Rightarrow> reward_targets" where
  "groupTargets env claimId kind poolBalanceWei adjusted =
     deriveRewardTargetsForGroup
       (Some (combinedAttentionPressureBps
          (attentionPressureBpsForClaim (filter (\<lambda>h. hv_claimId h = claimId) (se_challenges env))
             (filter (\<lambda>f. fv_claimId f = claimId) (se_forecasts env)) kind)
          (schedulerPressureFor env claimId kind)))
       adjusted poolBalanceWei kind"

definition targetMap :: "reward_targets \<Rightarrow> (string, int) jmap" where
  "targetMap derived = jm_of_list (map (\<lambda>a. (al_itemId a, al_targetTotalWei a)) (tg_allocations derived))"

definition settleGroup ::
  "settlement_env \<Rightarrow> string \<times> policy_candidate list \<Rightarrow> settlement_state \<Rightarrow> settlement_state" where
  "settleGroup env bucket st =
     (if \<not> st_running st then st
      else case parseGroupKey (fst bucket) of
        None \<Rightarrow> st\<lparr>st_running := False\<rparr>
      | Some (claimId, kind) \<Rightarrow>
          (case se_balance env claimId kind of
             None \<Rightarrow> st\<lparr>st_running := False\<rparr>
           | Some poolBalanceWei \<Rightarrow>
               if poolBalanceWei = 0 then st
               else let adjusted = applyCandidateQualityDiscounts (snd bucket);
                        derived = groupTargets env claimId kind poolBalanceWei adjusted
                    in if tg_distributablePoolWei derived = 0 then st
                       else settleCandidates env claimId kind (tg_marketPressureBps derived) (targetMap derived) adjusted st))"

definition settlementRun ::
  "settlement_env \<Rightarrow> (string, accrued_total) jmap \<Rightarrow> policy_candidate list \<Rightarrow> settlement_state" where
  "settlementRun env accrued candidates =
     fold (settleGroup env) (jm_group groupKey candidates)
       \<lparr>st_accrued = accrued, st_requests = [], st_running = True\<rparr>"

section \<open>Group keys\<close>

lemma js_split_no_sep: "d \<notin> set s \<Longrightarrow> js_split d s = [s]"
  by (induction s) auto

lemma js_split_sep: "d \<notin> set s \<Longrightarrow> js_split d (s @ d # t) = s # js_split d t"
  by (induction s) auto

lemma find_work_kind: "List.find (\<lambda>k'. show_work_kind k' = show_work_kind k) policy_kinds = Some k"
  by (cases k) (simp_all add: policy_kinds_def)

lemma parseGroupKey_groupKey:
  assumes "CHR '':'' \<notin> set (rk_claimId c)"
  shows "parseGroupKey (groupKey c) = Some (rk_claimId c, rk_workKind c)"
proof -
  have "CHR '':'' \<notin> set (show_work_kind (rk_workKind c))" by (cases "rk_workKind c") simp_all
  then show ?thesis
    by (simp add: parseGroupKey_def groupKey_def js_split_sep [OF assms] js_split_no_sep find_work_kind)
qed

section \<open>The inner loop\<close>

definition accrued_ok :: "settlement_state \<Rightarrow> bool" where
  "accrued_ok st \<longleftrightarrow> (\<forall>itemId. 0 \<le> ac_accruedWei (accruedFor st itemId))"

definition paidTo :: "string \<Rightarrow> settlement_request list \<Rightarrow> int" where
  "paidTo itemId rs = (\<Sum>r \<leftarrow> filter (\<lambda>r. sq_itemId r = itemId) rs. sq_amountWei r)"

definition paidFrom :: "string \<Rightarrow> reward_work_kind \<Rightarrow> settlement_request list \<Rightarrow> int" where
  "paidFrom claimId kind rs = (\<Sum>r \<leftarrow> filter (\<lambda>r. sq_claimId r = claimId \<and> sq_workKind r = kind) rs. sq_amountWei r)"

lemma paidTo_simps [simp]:
  "paidTo i [] = 0" "paidTo i (r # rs) = (if sq_itemId r = i then sq_amountWei r else 0) + paidTo i rs"
  "paidTo i (rs @ rs') = paidTo i rs + paidTo i rs'"
  by (simp_all add: paidTo_def)

lemma paidFrom_append [simp]: "paidFrom c k (rs @ rs') = paidFrom c k rs + paidFrom c k rs'"
  by (simp add: paidFrom_def)

definition request_of :: "string \<Rightarrow> reward_work_kind \<Rightarrow> settlement_request \<Rightarrow> bool" where
  "request_of claimId kind r \<longleftrightarrow> sq_claimId r = claimId \<and> sq_workKind r = kind \<and> 0 < sq_amountWei r"

definition within_maximum :: "settlement_env \<Rightarrow> settlement_request list \<Rightarrow> bool" where
  "within_maximum env rs \<longleftrightarrow>
     (case se_maxSettlements env of None \<Rightarrow> True | Some n \<Rightarrow> n \<noteq> 0 \<longrightarrow> int (length rs) \<le> max 0 n)"

text \<open>What the loop of one group may do to the run's state: it appends requests of its own group,
  at most \<open>bound\<close> wei altogether, keeps to the maximum and books every payment on its item.\<close>

definition extends_by :: "settlement_env \<Rightarrow> string \<Rightarrow> reward_work_kind \<Rightarrow> int \<Rightarrow> settlement_state \<Rightarrow> settlement_state \<Rightarrow> bool" where
  "extends_by env claimId kind bound st st' \<longleftrightarrow>
     (\<exists>new. st_requests st' = st_requests st @ new \<and> list_all (request_of claimId kind) new \<and>
        sum_list (map sq_amountWei new) \<le> bound \<and>
        (\<forall>i. ac_accruedWei (accruedFor st' i) = ac_accruedWei (accruedFor st i) + paidTo i new)) \<and>
     (within_maximum env (st_requests st) \<longrightarrow> within_maximum env (st_requests st'))"

lemma paidTo_nonneg: "list_all (request_of claimId kind) new \<Longrightarrow> 0 \<le> paidTo i new"
  by (induction new) (auto simp: request_of_def)

lemma extends_accrued:
  assumes "extends_by env claimId kind bound st st'"
  shows "ac_accruedWei (accruedFor st i) \<le> ac_accruedWei (accruedFor st' i)"
    and "accrued_ok st \<Longrightarrow> accrued_ok st'"
proof -
  have le: "ac_accruedWei (accruedFor st i) \<le> ac_accruedWei (accruedFor st' i)" for i
    using assms paidTo_nonneg unfolding extends_by_def by fastforce
  then show "ac_accruedWei (accruedFor st i) \<le> ac_accruedWei (accruedFor st' i)" .
  show "accrued_ok st'" if "accrued_ok st" using that le unfolding accrued_ok_def by (meson order_trans)
qed

lemma accruedFor_running [simp]: "accruedFor (st\<lparr>st_running := b\<rparr>) itemId = accruedFor st itemId"
  by (simp add: accruedFor_def)

lemma extends_refl: "0 \<le> bound \<Longrightarrow> extends_by env claimId kind bound st st"
  by (simp add: extends_by_def)

lemma extends_stop: "0 \<le> bound \<Longrightarrow> extends_by env claimId kind bound st (st\<lparr>st_running := False\<rparr>)"
  by (simp add: extends_by_def)

lemma extends_weaken: "extends_by env claimId kind b st st' \<Longrightarrow> b \<le> b' \<Longrightarrow> extends_by env claimId kind b' st st'"
  unfolding extends_by_def by force

lemma extends_trans:
  assumes "extends_by env claimId kind a st st'" and "extends_by env claimId kind b st' st''"
  shows "extends_by env claimId kind (a + b) st st''"
proof -
  obtain n1 where n1: "st_requests st' = st_requests st @ n1" "list_all (request_of claimId kind) n1"
      "sum_list (map sq_amountWei n1) \<le> a"
      "\<forall>i. ac_accruedWei (accruedFor st' i) = ac_accruedWei (accruedFor st i) + paidTo i n1"
    using assms(1) unfolding extends_by_def by blast
  obtain n2 where n2: "st_requests st'' = st_requests st' @ n2" "list_all (request_of claimId kind) n2"
      "sum_list (map sq_amountWei n2) \<le> b"
      "\<forall>i. ac_accruedWei (accruedFor st'' i) = ac_accruedWei (accruedFor st' i) + paidTo i n2"
    using assms(2) unfolding extends_by_def by blast
  show ?thesis unfolding extends_by_def
  proof (intro conjI exI [of _ "n1 @ n2"] allI)
    show "within_maximum env (st_requests st) \<longrightarrow> within_maximum env (st_requests st'')"
      using assms unfolding extends_by_def by blast
  qed (use n1 n2 in auto)
qed

lemma accruedFor_set:
  "accruedFor (st\<lparr>st_accrued := jm_set k v (st_accrued st), st_requests := rs\<rparr>) itemId =
     (if itemId = k then v else accruedFor st itemId)"
  by (simp add: accruedFor_def)

abbreviation targetFor :: "(string, int) jmap \<Rightarrow> policy_candidate \<Rightarrow> int" where
  "targetFor targets c \<equiv> nullish (jm_get targets (rk_itemId c)) 0"

lemma settle_one_extends:
  assumes "0 \<le> ac_accruedWei (accruedFor st (rk_itemId c))" and "\<not> maxReached env st"
    and "ac_accruedWei (accruedFor st (rk_itemId c)) < target"
  shows "extends_by env claimId kind target st
    (st\<lparr>st_accrued := jm_set (rk_itemId c) \<lparr>ac_accruedWei = target, ac_count = n\<rparr> (st_accrued st),
        st_requests := st_requests st @ [settlementRequest env claimId kind mp c target (accruedFor st (rk_itemId c))]\<rparr>)"
  unfolding extends_by_def
proof (intro conjI exI [of _ "[settlementRequest env claimId kind mp c target (accruedFor st (rk_itemId c))]"] allI)
qed (use assms in \<open>auto simp: settlementRequest_def request_of_def accruedFor_set within_maximum_def maxReached_def
      split: option.splits\<close>)

lemma settleCandidates_extends:
  assumes "accrued_ok st" and "\<And>itemId v. jm_get targets itemId = Some v \<Longrightarrow> 0 \<le> v"
  shows "extends_by env claimId kind (sum_list (map (targetFor targets) cs)) st
    (settleCandidates env claimId kind mp targets cs st)"
  using assms(1)
proof (induction cs arbitrary: st)
  case Nil
  then show ?case by (simp add: extends_refl)
next
  case (Cons c cs)
  let ?t = "targetFor targets c"
  let ?T = "sum_list (map (targetFor targets) cs)"
  have nn: "0 \<le> targetFor targets d" for d
    using assms(2) [of "rk_itemId d"] by (cases "jm_get targets (rk_itemId d)") simp_all
  have T: "0 \<le> ?T" by (intro sum_list_nonneg) (auto simp: nn)
  have tT: "0 \<le> ?t + ?T" and T': "?T \<le> ?t + ?T" using T nn [of c] by simp_all
  have skip: "extends_by env claimId kind (?t + ?T) st (settleCandidates env claimId kind mp targets cs st)"
    by (rule extends_weaken [OF Cons.IH [OF Cons.prems] T'])
  show ?case
  proof (cases "maxReached env st \<or> ?t = 0 \<or> ?t \<le> ac_accruedWei (accruedFor st (rk_itemId c))")
    case True
    have "settleCandidates env claimId kind mp targets (c # cs) st = st \<or>
        settleCandidates env claimId kind mp targets (c # cs) st = settleCandidates env claimId kind mp targets cs st"
      using True by (auto simp: Let_def)
    then show ?thesis using skip extends_refl [OF tT] unfolding list.map sum_list.Cons by (elim disjE) (simp_all only:)
  next
    case False
    let ?st' = "st\<lparr>st_accrued := jm_set (rk_itemId c)
          \<lparr>ac_accruedWei = ?t, ac_count = ac_count (accruedFor st (rk_itemId c)) + 1\<rparr> (st_accrued st),
        st_requests := st_requests st @ [settlementRequest env claimId kind mp c ?t (accruedFor st (rk_itemId c))]\<rparr>"
    have one: "extends_by env claimId kind ?t st ?st'"
      by (rule settle_one_extends) (use Cons.prems False in \<open>auto simp: accrued_ok_def\<close>)
    have "extends_by env claimId kind (?t + ?T) st (settleCandidates env claimId kind mp targets cs ?st')"
      by (rule extends_trans [OF one Cons.IH [OF extends_accrued(2) [OF one Cons.prems]]])
    with False extends_stop [OF tT] show ?thesis by (simp add: Let_def)
  qed
qed

section \<open>A group\<close>

lemma targetMap_sound:
  assumes d: "distinct (map rk_itemId cs)" and pool: "0 \<le> pool"
    and targets: "targets = targetMap (deriveRewardTargetsForGroup att cs pool kind)"
  shows "sum_list (map (targetFor targets) cs) \<le> pool"
    and "jm_get targets i = Some v \<Longrightarrow> 0 \<le> v"
proof -
  let ?kvs = "map (\<lambda>c. (rk_itemId c, targetShare att cs pool kind c)) cs"
  have t: "targets = jm_of_list ?kvs" by (simp add: targets targetMap_def targets_allocations [OF pool] comp_def)
  have get: "jm_get targets (rk_itemId c) = Some (targetShare att cs pool kind c)" if "c \<in> set cs" for c
  proof -
    have "map fst (rev ?kvs) = rev (map rk_itemId cs)" by (simp add: rev_map comp_def)
    then have "distinct (map fst (rev ?kvs))" using d by (simp only: distinct_rev)
    then have "map_of (rev ?kvs) (rk_itemId c) = Some (targetShare att cs pool kind c)"
      using that by (intro map_of_is_SomeI) auto
    then show ?thesis by (simp only: t jm_of_list_get)
  qed
  have "map (targetFor targets) cs = map (targetShare att cs pool kind) cs"
    using get by simp
  then have "sum_list (map (targetFor targets) cs) \<le> distributablePool att pool kind"
    using targetShare_sum [OF pool, of att cs kind] by (simp only:)
  then show "sum_list (map (targetFor targets) cs) \<le> pool"
    using distributablePool_bounds(2) [OF pool, of att kind] by linarith
  assume "jm_get targets i = Some v"
  then have "(i, v) \<in> set (rev ?kvs)" unfolding t jm_of_list_get by (rule map_of_SomeD)
  then show "0 \<le> v" by (auto simp: targetShare_nonneg [OF pool])
qed

text \<open>The cases of one group: it is left alone, it ends the run, or its loop is run.\<close>

lemma settleGroup_cases:
  assumes "parseGroupKey key = Some (claimId, kind)"
  obtains "settleGroup env (key, cs) st = st"
  | "settleGroup env (key, cs) st = st\<lparr>st_running := False\<rparr>"
  | pool derived where "se_balance env claimId kind = Some pool"
      "derived = groupTargets env claimId kind pool (applyCandidateQualityDiscounts cs)"
      "settleGroup env (key, cs) st = settleCandidates env claimId kind (tg_marketPressureBps derived)
         (targetMap derived) (applyCandidateQualityDiscounts cs) st"
proof (cases "se_balance env claimId kind")
  case None
  then have "settleGroup env (key, cs) st = st \<or> settleGroup env (key, cs) st = st\<lparr>st_running := False\<rparr>"
    by (auto simp: settleGroup_def assms)
  then show ?thesis using that by blast
next
  case (Some pool)
  let ?d = "groupTargets env claimId kind pool (applyCandidateQualityDiscounts cs)"
  have "settleGroup env (key, cs) st = st \<or>
      settleGroup env (key, cs) st = settleCandidates env claimId kind (tg_marketPressureBps ?d)
         (targetMap ?d) (applyCandidateQualityDiscounts cs) st"
    unfolding settleGroup_def fst_conv snd_conv assms Some option.case prod.case Let_def by (simp only: split: if_split) simp
  then show ?thesis using that Some by blast
qed

definition balances_ok :: "settlement_env \<Rightarrow> bool" where
  "balances_ok env \<longleftrightarrow> (\<forall>claimId kind pool. se_balance env claimId kind = Some pool \<longrightarrow> 0 \<le> pool)"

definition poolBalance :: "settlement_env \<Rightarrow> string \<Rightarrow> reward_work_kind \<Rightarrow> int" where
  "poolBalance env claimId kind = nullish (se_balance env claimId kind) 0"

lemma poolBalance_nonneg: "balances_ok env \<Longrightarrow> 0 \<le> poolBalance env claimId kind"
  by (cases "se_balance env claimId kind") (auto simp: balances_ok_def poolBalance_def)

lemma settleGroup_extends:
  assumes ok: "accrued_ok st" and key: "parseGroupKey key = Some (claimId, kind)"
    and cs: "qualities_ok cs" and env: "balances_ok env"
  shows "extends_by env claimId kind (poolBalance env claimId kind) st (settleGroup env (key, cs) st)"
  using key
proof (cases rule: settleGroup_cases [of key claimId kind env cs st])
  case 1
  then show ?thesis by (simp add: extends_refl poolBalance_nonneg [OF env])
next
  case 2
  then show ?thesis by (simp add: extends_stop poolBalance_nonneg [OF env])
next
  case (3 pool derived)
  let ?adj = "applyCandidateQualityDiscounts cs"
  have low: "list_all2 (lowered 0) cs ?adj" using candidate_discounts_spec [OF cs] by blast
  then have ids: "map rk_itemId ?adj = map rk_itemId cs" by (rule lowered_ids)
  have d: "distinct (map rk_itemId ?adj)" unfolding ids using cs by (simp add: qualities_ok_def)
  have pool: "0 \<le> pool" using env 3(1) by (simp add: balances_ok_def)
  have gt1: "sum_list (map (targetFor (targetMap derived)) ?adj) \<le> pool"
    by (rule targetMap_sound(1) [OF d pool]) (simp only: 3(2) groupTargets_def)
  have gt2: "0 \<le> v" if "jm_get (targetMap derived) i = Some v" for i v
    by (rule targetMap_sound(2) [OF d pool _ that]) (simp only: 3(2) groupTargets_def)
  have "extends_by env claimId kind pool st (settleCandidates env claimId kind (tg_marketPressureBps derived)
      (targetMap derived) ?adj st)"
    by (rule extends_weaken [OF settleCandidates_extends [OF ok gt2] gt1])
  then show ?thesis by (simp add: 3(3) poolBalance_def 3(1))
qed

section \<open>The run\<close>

text \<open>A run over a list of groups: what it pays from every pool and books on every item.\<close>

definition run_extends :: "settlement_env \<Rightarrow> (string \<times> reward_work_kind) set \<Rightarrow> settlement_state \<Rightarrow> settlement_state \<Rightarrow> bool" where
  "run_extends env pools st st' \<longleftrightarrow>
     (\<exists>new. st_requests st' = st_requests st @ new \<and>
        list_all (\<lambda>r. (sq_claimId r, sq_workKind r) \<in> pools \<and> 0 < sq_amountWei r) new \<and>
        (\<forall>c k. paidFrom c k new \<le> poolBalance env c k) \<and>
        (\<forall>i. ac_accruedWei (accruedFor st' i) = ac_accruedWei (accruedFor st i) + paidTo i new)) \<and>
     (within_maximum env (st_requests st) \<longrightarrow> within_maximum env (st_requests st'))"

definition bucketPool :: "string \<times> policy_candidate list \<Rightarrow> string \<times> reward_work_kind" where
  "bucketPool bucket = (rk_claimId (hd (snd bucket)), rk_workKind (hd (snd bucket)))"

definition bucket_ok :: "string \<times> policy_candidate list \<Rightarrow> bool" where
  "bucket_ok bucket \<longleftrightarrow> parseGroupKey (fst bucket) = Some (bucketPool bucket) \<and> qualities_ok (snd bucket)"

lemma paidFrom_request_of:
  assumes "list_all (request_of claimId kind) new"
  shows "paidFrom c k new = (if c = claimId \<and> k = kind then sum_list (map sq_amountWei new) else 0)"
proof -
  have "filter (\<lambda>r. sq_claimId r = c \<and> sq_workKind r = k) new = (if c = claimId \<and> k = kind then new else [])"
    using assms by (induction new) (auto simp: request_of_def)
  then show ?thesis by (simp add: paidFrom_def)
qed

lemma paidFrom_outside: "list_all (\<lambda>r. (sq_claimId r, sq_workKind r) \<in> pools \<and> 0 < sq_amountWei r) new \<Longrightarrow>
    (c, k) \<notin> pools \<Longrightarrow> paidFrom c k new = 0"
  by (induction new) (auto simp: paidFrom_def)

lemma run_extends_refl: "balances_ok env \<Longrightarrow> run_extends env pools st st"
  by (simp add: run_extends_def paidFrom_def poolBalance_nonneg)

lemma run_extends_step:
  assumes "extends_by env claimId kind (poolBalance env claimId kind) st st'" and "balances_ok env"
    and "run_extends env pools st' st''" and "(claimId, kind) \<notin> pools"
  shows "run_extends env (insert (claimId, kind) pools) st st''"
proof -
  obtain n1 where n1: "st_requests st' = st_requests st @ n1" "list_all (request_of claimId kind) n1"
      "sum_list (map sq_amountWei n1) \<le> poolBalance env claimId kind"
      "\<forall>i. ac_accruedWei (accruedFor st' i) = ac_accruedWei (accruedFor st i) + paidTo i n1"
    using assms(1) unfolding extends_by_def by blast
  obtain n2 where n2: "st_requests st'' = st_requests st' @ n2"
      "list_all (\<lambda>r. (sq_claimId r, sq_workKind r) \<in> pools \<and> 0 < sq_amountWei r) n2"
      "\<forall>c k. paidFrom c k n2 \<le> poolBalance env c k"
      "\<forall>i. ac_accruedWei (accruedFor st'' i) = ac_accruedWei (accruedFor st' i) + paidTo i n2"
    using assms(3) unfolding run_extends_def by blast
  show ?thesis unfolding run_extends_def
  proof (intro conjI exI [of _ "n1 @ n2"] allI)
    show "within_maximum env (st_requests st) \<longrightarrow> within_maximum env (st_requests st'')"
      using assms(1,3) unfolding extends_by_def run_extends_def by blast
    show "list_all (\<lambda>r. (sq_claimId r, sq_workKind r) \<in> insert (claimId, kind) pools \<and> 0 < sq_amountWei r) (n1 @ n2)"
      using n1(2) n2(2) by (auto simp: list_all_iff request_of_def)
    fix c k show "paidFrom c k (n1 @ n2) \<le> poolBalance env c k"
      using n1(3) n2(3) paidFrom_outside [OF n2(2) assms(4)]
      by (cases "c = claimId \<and> k = kind") (auto simp: paidFrom_request_of [OF n1(2)])
  qed (use n1 n2 in auto)
qed

lemma settle_groups_extend:
  assumes "accrued_ok st" and "list_all bucket_ok bs" and "distinct (map bucketPool bs)" and "balances_ok env"
  shows "run_extends env (set (map bucketPool bs)) st (fold (settleGroup env) bs st)"
  using assms(1-3)
proof (induction bs arbitrary: st)
  case Nil
  then show ?case by (simp add: run_extends_refl [OF assms(4)])
next
  case (Cons b bs)
  obtain claimId kind where p: "bucketPool b = (claimId, kind)" by fastforce
  have key: "parseGroupKey (fst b) = Some (claimId, kind)" and q: "qualities_ok (snd b)"
    using Cons.prems(2) p by (simp_all add: bucket_ok_def)
  have one: "extends_by env claimId kind (poolBalance env claimId kind) st (settleGroup env b st)"
    using settleGroup_extends [OF Cons.prems(1) key q assms(4)] by simp
  have rest: "run_extends env (set (map bucketPool bs)) (settleGroup env b st) (fold (settleGroup env) bs (settleGroup env b st))"
    using Cons.prems by (intro Cons.IH extends_accrued(2) [OF one]) simp_all
  show ?case using run_extends_step [OF one assms(4) rest] Cons.prems(3) p by simp
qed

text \<open>The groups of the candidates: each has its own pool.\<close>

definition settlement_candidates_ok :: "policy_candidate list \<Rightarrow> bool" where
  "settlement_candidates_ok cs \<longleftrightarrow> qualities_ok cs \<and> (\<forall>c \<in> set cs. CHR '':'' \<notin> set (rk_claimId c))"

lemma group_bucketD:
  assumes "settlement_candidates_ok cs" and "b \<in> set (jm_group groupKey cs)"
  shows "snd b = filter (\<lambda>c. groupKey c = fst b) cs" and "snd b \<noteq> []" and "bucket_ok b"
    and "fst b = fst (bucketPool b) @ '':'' @ show_work_kind (snd (bucketPool b))"
proof -
  obtain key bs where b: "b = (key, bs)" by (cases b)
  have bs: "bs = filter (\<lambda>c. groupKey c = key) cs" and ne: "bs \<noteq> []"
    using jm_group_bucket [of key bs groupKey cs] assms(2) b by auto
  show "snd b = filter (\<lambda>c. groupKey c = fst b) cs" and "snd b \<noteq> []" using b bs ne by simp_all
  have h: "hd bs \<in> set cs" and k: "groupKey (hd bs) = key"
    using hd_in_set [OF ne] bs by auto
  have "parseGroupKey key = Some (bucketPool b)"
    using parseGroupKey_groupKey [of "hd bs"] h k assms(1) by (simp add: bucketPool_def b settlement_candidates_ok_def)
  moreover have "qualities_ok bs"
    using assms(1) by (auto simp: settlement_candidates_ok_def qualities_ok_def bs distinct_map_filter)
  ultimately show "bucket_ok b" by (simp add: bucket_ok_def b)
  show "fst b = fst (bucketPool b) @ '':'' @ show_work_kind (snd (bucketPool b))"
    using k by (simp add: b bucketPool_def groupKey_def)
qed

lemma distinct_pools:
  assumes "settlement_candidates_ok cs"
  shows "distinct (map bucketPool (jm_group groupKey cs))"
proof -
  let ?bs = "jm_group groupKey cs"
  have e: "map (\<lambda>p. fst p @ '':'' @ show_work_kind (snd p)) (map bucketPool ?bs) = map fst ?bs"
    using group_bucketD(4) [OF assms] by simp
  have "distinct (map (\<lambda>p. fst p @ '':'' @ show_work_kind (snd p)) (map bucketPool ?bs))"
    unfolding e by (rule distinct_jm_group_keys)
  then show ?thesis by (rule distinct_map [THEN iffD1, THEN conjunct1])
qed

lemma settlement_run_extends:
  assumes "settlement_candidates_ok cs" and "balances_ok env"
    and "list_all (\<lambda>(itemId, a). 0 \<le> ac_accruedWei a) accrued"
  shows "run_extends env (set (map bucketPool (jm_group groupKey cs)))
    \<lparr>st_accrued = accrued, st_requests = [], st_running = True\<rparr> (settlementRun env accrued cs)"
  unfolding settlementRun_def
proof (rule settle_groups_extend)
  show "accrued_ok \<lparr>st_accrued = accrued, st_requests = [], st_running = True\<rparr>"
    using assms(3) by (auto simp: accrued_ok_def accruedFor_def nullish_def list_all_iff split: option.split dest!: map_of_SomeD)
  show "list_all bucket_ok (jm_group groupKey cs)" using group_bucketD(3) [OF assms(1)] by (simp add: list_all_iff)
qed (rule distinct_pools [OF assms(1)], rule assms(2))


section \<open>Running again\<close>

lemma settleCandidates_noop:
  "list_all (\<lambda>c. targetFor targets c = 0 \<or> targetFor targets c \<le> ac_accruedWei (accruedFor st (rk_itemId c))) cs \<Longrightarrow>
   settleCandidates env claimId kind mp targets cs st = st"
proof (induction cs)
  case (Cons c cs)
  have low: "targetFor targets c = 0 \<or> targetFor targets c \<le> ac_accruedWei (accruedFor st (rk_itemId c))"
    and rest: "settleCandidates env claimId kind mp targets cs st = st"
    using Cons by simp_all
  show ?case using low by (elim disjE) (simp_all add: Let_def rest)
qed simp

lemma settleCandidates_mono:
  "ac_accruedWei (accruedFor st i) \<le> ac_accruedWei (accruedFor (settleCandidates env claimId kind mp targets cs st) i)"
proof (induction cs arbitrary: st)
  case (Cons c cs)
  let ?st' = "st\<lparr>st_accrued := jm_set (rk_itemId c)
        \<lparr>ac_accruedWei = targetFor targets c, ac_count = ac_count (accruedFor st (rk_itemId c)) + 1\<rparr> (st_accrued st),
      st_requests := st_requests st @ [settlementRequest env claimId kind mp c (targetFor targets c) (accruedFor st (rk_itemId c))]\<rparr>"
  have "ac_accruedWei (accruedFor st i) \<le> ac_accruedWei (accruedFor (settleCandidates env claimId kind mp targets cs ?st') i)"
    if "\<not> targetFor targets c \<le> ac_accruedWei (accruedFor st (rk_itemId c))"
    using that Cons.IH [of ?st'] unfolding accruedFor_set by (auto split: if_splits)
  then show ?case using Cons.IH [of st] by (simp add: Let_def)
qed simp

text \<open>A loop that runs to its end leaves every candidate with at least its target.\<close>

lemma settleCandidates_covers:
  assumes "se_maxSettlements env = None" and "st_running (settleCandidates env claimId kind mp targets cs st)"
  shows "list_all (\<lambda>c. targetFor targets c = 0 \<or>
    targetFor targets c \<le> ac_accruedWei (accruedFor (settleCandidates env claimId kind mp targets cs st) (rk_itemId c))) cs"
  using assms(2)
proof (induction cs arbitrary: st)
  case (Cons c cs)
  let ?run = "settleCandidates env claimId kind mp targets cs"
  let ?st' = "st\<lparr>st_accrued := jm_set (rk_itemId c)
        \<lparr>ac_accruedWei = targetFor targets c, ac_count = ac_count (accruedFor st (rk_itemId c)) + 1\<rparr> (st_accrued st),
      st_requests := st_requests st @ [settlementRequest env claimId kind mp c (targetFor targets c) (accruedFor st (rk_itemId c))]\<rparr>"
  have m: "\<not> maxReached env st" by (simp add: maxReached_def assms(1))
  have set: "targetFor targets c \<le> ac_accruedWei (accruedFor (?run ?st') (rk_itemId c))"
    using settleCandidates_mono [of ?st' "rk_itemId c" env claimId kind mp targets cs] unfolding accruedFor_set by simp
  have keep: "ac_accruedWei (accruedFor st (rk_itemId c)) \<le> ac_accruedWei (accruedFor (?run st) (rk_itemId c))"
    by (rule settleCandidates_mono)
  let ?low = "targetFor targets c = 0 \<or> targetFor targets c \<le> ac_accruedWei (accruedFor st (rk_itemId c))"
  have skip: "?low \<Longrightarrow> settleCandidates env claimId kind mp targets (c # cs) st = ?run st"
    using m by (elim disjE) (simp_all add: Let_def)
  have pay: "\<not> ?low \<Longrightarrow> settleCandidates env claimId kind mp targets (c # cs) st = st\<lparr>st_running := False\<rparr> \<or>
      settleCandidates env claimId kind mp targets (c # cs) st = ?run ?st'"
    using m by (simp add: Let_def)
  show ?case
  proof (cases ?low)
    case True
    then have "targetFor targets c = 0 \<or> targetFor targets c \<le> ac_accruedWei (accruedFor (?run st) (rk_itemId c))"
      using keep by linarith
    then show ?thesis using Cons unfolding skip [OF True] list.pred_inject by blast
  next
    case False
    show ?thesis
    proof (cases "settleCandidates env claimId kind mp targets (c # cs) st = ?run ?st'")
      case p: True
      show ?thesis using Cons set unfolding p list.pred_inject by blast
    next
      case False
      with pay [OF \<open>\<not> ?low\<close>] have "\<not> st_running (settleCandidates env claimId kind mp targets (c # cs) st)" by simp
      with Cons.prems show ?thesis by contradiction
    qed
  qed
qed simp

text \<open>A group that would pay nothing, now or after further payments.\<close>

definition paid_up :: "settlement_env \<Rightarrow> settlement_state \<Rightarrow> string \<times> policy_candidate list \<Rightarrow> bool" where
  "paid_up env st b \<longleftrightarrow> (\<forall>st'. st_running st' \<longrightarrow>
     (\<forall>i. ac_accruedWei (accruedFor st i) \<le> ac_accruedWei (accruedFor st' i)) \<longrightarrow> settleGroup env b st' = st')"

lemma settleGroup_running: "st_running (settleGroup env b st) \<Longrightarrow> st_running st"
  by (cases "st_running st") (simp_all add: settleGroup_def)

lemma settleGroup_mono:
  "ac_accruedWei (accruedFor st i) \<le> ac_accruedWei (accruedFor (settleGroup env b st) i)"
  by (auto simp: settleGroup_def Let_def settleCandidates_mono split: option.split prod.split)

lemma settleGroup_pays_up:
  assumes "se_maxSettlements env = None" and run: "st_running (settleGroup env b st)"
  shows "paid_up env (settleGroup env b st) b"
  unfolding paid_up_def
proof (intro allI impI)
  fix st' assume r: "st_running st'" and le: "\<forall>i. ac_accruedWei (accruedFor (settleGroup env b st) i) \<le> ac_accruedWei (accruedFor st' i)"
  obtain claimId kind where k: "parseGroupKey (fst b) = Some (claimId, kind)"
    using run by (cases "parseGroupKey (fst b)") (auto simp: settleGroup_def split: if_splits)
  obtain pool where p: "se_balance env claimId kind = Some pool"
    using run k by (cases "se_balance env claimId kind") (auto simp: settleGroup_def split: if_splits)
  let ?adj = "applyCandidateQualityDiscounts (snd b)"
  let ?d = "groupTargets env claimId kind pool ?adj"
  let ?run = "settleCandidates env claimId kind (tg_marketPressureBps ?d) (targetMap ?d) ?adj"
  have g: "settleGroup env b s = (if pool = 0 \<or> tg_distributablePoolWei ?d = 0 then s else ?run s)" if "st_running s" for s
    using that k p by (simp add: settleGroup_def Let_def)
  show "settleGroup env b st' = st'"
  proof (cases "pool = 0 \<or> tg_distributablePoolWei ?d = 0")
    case False
    have e: "settleGroup env b st = ?run st" using g [OF settleGroup_running [OF run]] False by simp
    have c: "list_all (\<lambda>c. targetFor (targetMap ?d) c = 0 \<or>
        targetFor (targetMap ?d) c \<le> ac_accruedWei (accruedFor (?run st) (rk_itemId c))) ?adj"
      using run unfolding e by (rule settleCandidates_covers [OF assms(1)])
    have "?run st' = st'"
      by (rule settleCandidates_noop, rule list.pred_mono_strong [OF c]) (use le e order_trans in \<open>fastforce\<close>)
    then show ?thesis using g [OF r] False by simp
  qed (use g [OF r] in simp)
qed

lemma fold_settleGroup_running: "st_running (fold (settleGroup env) bs st) \<Longrightarrow> st_running st"
  by (induction bs arbitrary: st) (auto dest: settleGroup_running)

lemma fold_settleGroup_mono:
  "ac_accruedWei (accruedFor st i) \<le> ac_accruedWei (accruedFor (fold (settleGroup env) bs st) i)"
proof (induction bs arbitrary: st)
  case (Cons b bs)
  show ?case using order_trans [OF settleGroup_mono [of st i env b] Cons.IH [of "settleGroup env b st"]] by simp
qed simp

lemma settle_groups_pay_up:
  assumes "se_maxSettlements env = None" and "st_running (fold (settleGroup env) bs st)"
  shows "list_all (paid_up env (fold (settleGroup env) bs st)) bs"
  using assms(2)
proof (induction bs arbitrary: st)
  case (Cons b bs)
  let ?s = "settleGroup env b st"
  have "paid_up env ?s b"
    using Cons.prems by (intro settleGroup_pays_up [OF assms(1)]) (simp add: fold_settleGroup_running)
  moreover have "paid_up env (fold (settleGroup env) bs ?s) b" if "paid_up env ?s b"
    using that fold_settleGroup_mono [of ?s _ env bs] unfolding paid_up_def by (meson order_trans)
  ultimately show ?case using Cons.IH [of ?s] Cons.prems by simp
qed simp

lemma paid_up_fold:
  assumes "list_all (paid_up env st) bs" and "st_running st'"
    and "\<And>i. ac_accruedWei (accruedFor st i) \<le> ac_accruedWei (accruedFor st' i)"
  shows "fold (settleGroup env) bs st' = st'"
  using assms(1)
proof (induction bs)
  case (Cons b bs)
  then have "settleGroup env b st' = st'" using assms(2,3) unfolding paid_up_def list.pred_inject by blast
  with Cons show ?case by simp
qed simp


section \<open>A concrete run\<close>

definition sample_settlement_env :: settlement_env where
  "sample_settlement_env = \<lparr>se_balance = (\<lambda>claimId kind. if claimId = ''7'' then Some 1000 else None),
     se_settle = (\<lambda>r. True), se_challenges = [], se_forecasts = [], se_demand = [], se_policyVersion = ''v1'',
     se_maxSettlements = None\<rparr>"

lemma sample_group_discounted:
  "applyCandidateQualityDiscounts sample_group =
     [sample_policy_candidate ''a'' ''0xA'' 4624, sample_policy_candidate ''b'' ''0xa '' 10000]"
  by code_simp

lemma sample_group_bucket: "jm_group groupKey sample_group = [(''7:review'', sample_group)]"
  by code_simp

lemma sample_group_key: "parseGroupKey ''7:review'' = Some (''7'', Kind_review)"
  by code_simp

lemma sample_group_targets:
  "groupTargets sample_settlement_env ''7'' Kind_review 1000
     [sample_policy_candidate ''a'' ''0xA'' 4624, sample_policy_candidate ''b'' ''0xa '' 10000] =
   \<lparr>tg_allocations = [\<lparr>al_itemId = ''a'', al_targetTotalWei = 0\<rparr>, \<lparr>al_itemId = ''b'', al_targetTotalWei = 600\<rparr>],
    tg_distributablePoolWei = 600, tg_marketPressureBps = 5000\<rparr>"
  by code_simp

lemma sample_settlement_run:
  "map (\<lambda>r. (sq_itemId r, sq_amountWei r)) (st_requests (settlementRun sample_settlement_env [] sample_group)) = [(''b'', 600)]"
  "st_running (settlementRun sample_settlement_env [] sample_group)"
  using sample_group_targets
  by (simp_all add: settlementRun_def sample_group_bucket settleGroup_def sample_group_key sample_group_discounted
      sample_settlement_env_def targetMap_def jm_of_list_def Let_def maxReached_def accruedFor_def
      settlementRequest_def sample_policy_candidate_def)



end
