(* ===== verification/Tables.thy ===== *)
theory Tables
  imports Prelude
begin

text \<open>
  The SQL statements of the stores on tables as row lists in insertion order: \<open>UPDATE \<dots> WHERE\<close>,
  lookup by key, ordered selection with \<open>LIMIT\<close>. A store operation is one transaction; its model is
  the committed outcome, so a failed constraint, which rolls back, leaves the state as it was.
\<close>

definition update_where :: "('r \<Rightarrow> bool) \<Rightarrow> ('r \<Rightarrow> 'r) \<Rightarrow> 'r list \<Rightarrow> 'r list" where
  "update_where p f rows = map (\<lambda>r. if p r then f r else r) rows"

definition find_by :: "('r \<Rightarrow> 'k) \<Rightarrow> 'k \<Rightarrow> 'r list \<Rightarrow> 'r option" where
  "find_by key k rows = List.find (\<lambda>r. key r = k) rows"

text \<open>\<open>Math.max(1, Math.min(limit ?? 50, 200))\<close>\<close>

definition sweep_limit :: "int option \<Rightarrow> nat" where
  "sweep_limit l = nat (max 1 (min (nullish l 50) 200))"

lemma sweep_limit_bounds [bounds_intros]: "1 \<le> sweep_limit l" "sweep_limit l \<le> 200"
  by (simp_all add: sweep_limit_def)

text \<open>\<open>($3::text IS NULL OR column = $3)\<close>: with a null column the comparison is not true.\<close>

definition sql_matches :: "string option \<Rightarrow> string option \<Rightarrow> bool" where
  "sql_matches arg col \<longleftrightarrow> (case arg of None \<Rightarrow> True | Some a \<Rightarrow> col = Some a)"

lemma update_where_simps [simp]:
  "update_where p f [] = []"
  "update_where p f (r # rows) = (if p r then f r else r) # update_where p f rows"
  "update_where p f (rows @ rows') = update_where p f rows @ update_where p f rows'"
  "length (update_where p f rows) = length rows"
  by (simp_all add: update_where_def)

lemma set_update_where: "set (update_where p f rows) = (\<lambda>r. if p r then f r else r) ` set rows"
  by (simp add: update_where_def)

lemma update_where_key:
  "(\<And>r. key (f r) = key r) \<Longrightarrow> map key (update_where p f rows) = map key rows"
  by (simp add: update_where_def)

lemma update_where_none: "(\<And>r. r \<in> set rows \<Longrightarrow> \<not> p r) \<Longrightarrow> update_where p f rows = rows"
  by (induction rows) auto

lemma map_update_where:
  assumes "\<And>r. q (h r) = p r" and "\<And>r. p r \<Longrightarrow> h (f r) = g (h r)"
  shows "map h (update_where p f rows) = update_where q g (map h rows)"
  using assms by (simp add: update_where_def)

lemma map_update_where_frame:
  assumes "\<And>r. h (f r) = h r"
  shows "map h (update_where p f rows) = map h rows"
  using assms by (simp add: update_where_def)

lemma count_if_update_where_frame:
  assumes "\<And>r. r \<in> set rows \<Longrightarrow> p r \<Longrightarrow> q (f r) = q r"
  shows "count_if q (update_where p f rows) = count_if q rows"
  using assms by (induction rows) auto

lemma count_if_update_one:
  assumes "distinct (map key rows)" and "r \<in> set rows" and "q r"
    and "\<And>x. key x = key r \<Longrightarrow> x \<in> set rows \<Longrightarrow> \<not> q (f x)"
  shows "count_if q (update_where (\<lambda>x. key x = key r) f rows) = count_if q rows - 1"
  using assms
proof (induction rows)
  case (Cons y ys)
  show ?case
  proof (cases "y = r")
    case True
    with Cons.prems(1) have "\<And>x. x \<in> set ys \<Longrightarrow> \<not> key x = key r" by (auto dest: image_eqI [of _ key, rotated])
    then have "update_where (\<lambda>x. key x = key r) f ys = ys" by (rule update_where_none)
    with True Cons.prems show ?thesis by simp
  next
    case False
    with Cons.prems have "r \<in> set ys" "key y \<noteq> key r" by force+
    with Cons show ?thesis by simp
  qed
qed simp

lemma find_by_Some: "find_by key k rows = Some r \<Longrightarrow> r \<in> set rows \<and> key r = k"
  by (auto simp: find_by_def find_Some_iff)

lemma find_by_None: "find_by key k rows = None \<longleftrightarrow> k \<notin> key ` set rows"
  by (auto simp: find_by_def find_None_iff)

lemma find_by_distinct: "distinct (map key rows) \<Longrightarrow> r \<in> set rows \<Longrightarrow> find_by key (key r) rows = Some r"
  by (induction rows) (auto simp: find_by_def)

lemma find_by_append: "find_by key k (rows @ rows') = orelse (find_by key k rows) (find_by key k rows')"
  by (induction rows) (auto simp: find_by_def)

lemma find_by_update_other:
  assumes "k \<noteq> k'" and "\<And>r. key r = k' \<Longrightarrow> key (f r) = k'"
  shows "find_by key k (update_where (\<lambda>r. key r = k') f rows) = find_by key k rows"
  using assms by (induction rows) (auto simp: find_by_def)

text \<open>Sorting commutes with a projection that the comparator respects.\<close>

lemma map_js_insert:
  assumes "\<And>x y. cmp x y = cmp' (h x) (h y)"
  shows "map h (js_insert cmp x xs) = js_insert cmp' (h x) (map h xs)"
  using assms by (induction xs) auto

lemma map_js_sort:
  assumes "\<And>x y. cmp x y = cmp' (h x) (h y)"
  shows "map h (js_sort cmp xs) = js_sort cmp' (map h xs)"
  using assms by (induction xs) (simp_all add: map_js_insert [of cmp cmp' h])

end
