(* ===== verification/Lease_Spec.thy ===== *)
theory Lease_Spec
  imports Tables View_Types
begin

text \<open>
  The contract of the two job queues of \<open>coordinator/store.ts\<close>, as an abstract machine: tasks with
  a status, runs with a status and the time of their last heartbeat. Its invariant is exclusive
  leasing: a task is assigned exactly when one run of it is running, and never two runs are.
  The locale \<open>lease_store\<close> is the interface by which a concrete store implements the machine.
\<close>

record lease_task =
  lt_id :: int
  lt_status :: job_status

record lease_run =
  lr_id :: int
  lr_task :: int
  lr_status :: run_status
  lr_beat :: int

record lease_state =
  ls_tasks :: "lease_task list"
  ls_runs :: "lease_run list"
  ls_nextTask :: int
  ls_nextRun :: int

definition lease_empty :: lease_state where
  "lease_empty = \<lparr>ls_tasks = [], ls_runs = [], ls_nextTask = 1, ls_nextRun = 1\<rparr>"

definition lease_create :: "lease_state \<Rightarrow> lease_state" where
  "lease_create s = s\<lparr>ls_tasks := ls_tasks s @ [\<lparr>lt_id = ls_nextTask s, lt_status = Job_open\<rparr>],
     ls_nextTask := ls_nextTask s + 1\<rparr>"

definition set_status :: "int \<Rightarrow> job_status \<Rightarrow> lease_task list \<Rightarrow> lease_task list" where
  "set_status tid st = update_where (\<lambda>t. lt_id t = tid) (\<lambda>t. t\<lparr>lt_status := st\<rparr>)"

definition set_run :: "int \<Rightarrow> run_status \<Rightarrow> lease_run list \<Rightarrow> lease_run list" where
  "set_run rid st = update_where (\<lambda>r. lr_id r = rid) (\<lambda>r. r\<lparr>lr_status := st\<rparr>)"

definition lease_claim :: "int \<Rightarrow> int \<Rightarrow> lease_state \<Rightarrow> lease_state" where
  "lease_claim now tid s = s\<lparr>ls_tasks := set_status tid Job_assigned (ls_tasks s),
     ls_runs := ls_runs s @ [\<lparr>lr_id = ls_nextRun s, lr_task = tid, lr_status = Run_running, lr_beat = now\<rparr>],
     ls_nextRun := ls_nextRun s + 1\<rparr>"

definition lease_finish :: "job_status \<Rightarrow> run_status \<Rightarrow> int \<Rightarrow> int \<Rightarrow> lease_state \<Rightarrow> lease_state" where
  "lease_finish js rs rid tid s = s\<lparr>ls_tasks := set_status tid js (ls_tasks s),
     ls_runs := set_run rid rs (ls_runs s)\<rparr>"

definition lease_beat :: "int \<Rightarrow> int \<Rightarrow> lease_state \<Rightarrow> lease_state" where
  "lease_beat now rid s = s\<lparr>ls_runs := update_where (\<lambda>r. lr_id r = rid) (\<lambda>r. r\<lparr>lr_beat := now\<rparr>) (ls_runs s)\<rparr>"

definition is_assigned :: "int \<Rightarrow> lease_state \<Rightarrow> bool" where
  "is_assigned tid s \<longleftrightarrow> list_ex (\<lambda>t. lt_id t = tid \<and> lt_status t = Job_assigned) (ls_tasks s)"

definition is_open :: "int \<Rightarrow> lease_state \<Rightarrow> bool" where
  "is_open tid s \<longleftrightarrow> list_ex (\<lambda>t. lt_id t = tid \<and> lt_status t = Job_open) (ls_tasks s)"

definition has_lease :: "int \<Rightarrow> int \<Rightarrow> lease_state \<Rightarrow> bool" where
  "has_lease rid tid s \<longleftrightarrow>
     list_ex (\<lambda>r. lr_id r = rid \<and> lr_task r = tid \<and> lr_status r = Run_running) (ls_runs s)"

definition stale :: "int \<Rightarrow> lease_state \<Rightarrow> lease_run \<Rightarrow> bool" where
  "stale cutoff s r \<longleftrightarrow> lr_status r = Run_running \<and> is_assigned (lr_task r) s \<and> lr_beat r < cutoff"

definition compare_beats :: "lease_run \<Rightarrow> lease_run \<Rightarrow> int" where
  "compare_beats x y = (if lr_beat x - lr_beat y \<noteq> 0 then lr_beat x - lr_beat y else lr_id x - lr_id y)"

definition expire_one :: "lease_run \<Rightarrow> lease_state \<Rightarrow> lease_state" where
  "expire_one r = lease_finish Job_open Run_failed (lr_id r) (lr_task r)"

definition stale_runs :: "int \<Rightarrow> nat \<Rightarrow> lease_state \<Rightarrow> lease_run list" where
  "stale_runs cutoff limit s = take limit (js_sort compare_beats (filter (stale cutoff s) (ls_runs s)))"

definition lease_expire :: "int \<Rightarrow> nat \<Rightarrow> lease_state \<Rightarrow> lease_state" where
  "lease_expire cutoff limit s = fold expire_one (stale_runs cutoff limit s) s"

section \<open>The invariant\<close>

definition running_on :: "int \<Rightarrow> lease_run \<Rightarrow> bool" where
  "running_on tid r \<longleftrightarrow> lr_task r = tid \<and> lr_status r = Run_running"

definition lease_inv :: "lease_state \<Rightarrow> bool" where
  "lease_inv s \<longleftrightarrow>
     distinct (map lt_id (ls_tasks s)) \<and> (\<forall>t \<in> set (ls_tasks s). lt_id t < ls_nextTask s) \<and>
     distinct (map lr_id (ls_runs s)) \<and> (\<forall>r \<in> set (ls_runs s). lr_id r < ls_nextRun s) \<and>
     (\<forall>r \<in> set (ls_runs s). lr_task r \<in> lt_id ` set (ls_tasks s)) \<and>
     (\<forall>t \<in> set (ls_tasks s). count_if (running_on (lt_id t)) (ls_runs s) =
        (if lt_status t = Job_assigned then 1 else 0))"

lemma lt_id_set_status [simp]: "map lt_id (set_status tid st ts) = map lt_id ts"
  by (simp add: set_status_def update_where_key)

lemma lt_ids_set_status [simp]: "lt_id ` set (set_status tid st ts) = lt_id ` set ts"
  by (metis image_set lt_id_set_status)

lemma lr_id_set_run [simp]: "map lr_id (set_run rid st rs) = map lr_id rs"
  by (simp add: set_run_def update_where_key)

lemma set_status_cases:
  "t \<in> set (set_status tid st ts) \<Longrightarrow>
   (lt_id t = tid \<and> lt_status t = st \<and> tid \<in> lt_id ` set ts) \<or> (lt_id t \<noteq> tid \<and> t \<in> set ts)"
  by (auto simp: set_status_def set_update_where)

lemma lease_inv_empty: "lease_inv lease_empty"
  by (simp add: lease_inv_def lease_empty_def)

lemma lease_inv_create:
  assumes "lease_inv s" shows "lease_inv (lease_create s)"
proof -
  have "count_if (running_on (ls_nextTask s)) (ls_runs s) = 0"
    using assms by (force simp: lease_inv_def running_on_def count_if_zero_iff)
  with assms show ?thesis by (force simp: lease_inv_def lease_create_def)
qed

lemma lease_inv_claim:
  assumes inv: "lease_inv s" and "is_open tid s" shows "lease_inv (lease_claim now tid s)"
proof -
  obtain t0 where t0: "t0 \<in> set (ls_tasks s)" "lt_id t0 = tid" "lt_status t0 = Job_open"
    using assms(2) by (auto simp: is_open_def list_ex_iff)
  have none: "count_if (running_on tid) (ls_runs s) = 0"
    using inv t0 by (auto simp: lease_inv_def)
  have counts: "count_if (running_on (lt_id t)) (ls_runs (lease_claim now tid s)) =
      (if lt_status t = Job_assigned then 1 else 0)"
    if "t \<in> set (ls_tasks (lease_claim now tid s))" for t
    using set_status_cases [of t tid Job_assigned "ls_tasks s"] that none inv
    by (auto simp: lease_claim_def lease_inv_def running_on_def [of _ "\<lparr>lr_id = _, lr_task = _, lr_status = _, lr_beat = _\<rparr>"])
  have "tid \<in> lt_id ` set (ls_tasks s)" using t0 by force
  moreover have "lt_id t < ls_nextTask s" if "t \<in> set (set_status tid Job_assigned (ls_tasks s))" for t
    using set_status_cases [OF that] inv by (auto simp: lease_inv_def)
  ultimately show ?thesis
    using inv counts by (auto simp: lease_inv_def) (auto simp: lease_claim_def)
qed

text \<open>Finishing the current lease, as completed, failed or reopened, keeps the invariant.\<close>

lemma lease_inv_finish:
  assumes inv: "lease_inv s" and lease: "has_lease rid tid s"
    and "js \<noteq> Job_assigned" and "rs \<noteq> Run_running"
  shows "lease_inv (lease_finish js rs rid tid s)"
proof -
  obtain r where r: "r \<in> set (ls_runs s)" "lr_id r = rid" "running_on tid r"
    using lease by (auto simp: has_lease_def list_ex_iff running_on_def)
  have d: "distinct (map lr_id (ls_runs s))" using inv by (simp add: lease_inv_def)
  have mine: "count_if (running_on tid) (set_run rid rs (ls_runs s)) = count_if (running_on tid) (ls_runs s) - 1"
    unfolding set_run_def using count_if_update_one [OF d r(1), of "running_on tid"] r assms(4)
    by (simp add: running_on_def)
  have uniq: "x = r" if "x \<in> set (ls_runs s)" "lr_id x = rid" for x
    using d r that by (metis distinct_map inj_onD)
  have others: "count_if (running_on k) (set_run rid rs (ls_runs s)) = count_if (running_on k) (ls_runs s)"
    if "k \<noteq> tid" for k
    unfolding set_run_def by (rule count_if_update_where_frame) (use that r uniq in \<open>auto simp: running_on_def\<close>)
  have pos: "0 < count_if (running_on tid) (ls_runs s)" using r by (auto simp: count_if_pos_iff)
  obtain t0 where t0: "t0 \<in> set (ls_tasks s)" "lt_id t0 = tid"
    using inv r by (force simp: lease_inv_def running_on_def)
  then have one: "count_if (running_on tid) (ls_runs s) = 1"
    using inv pos by (auto simp: lease_inv_def split: if_splits)
  have counts: "count_if (running_on (lt_id t)) (set_run rid rs (ls_runs s)) =
      (if lt_status t = Job_assigned then 1 else 0)"
    if "t \<in> set (set_status tid js (ls_tasks s))" for t
    using set_status_cases [OF that] mine one others inv assms(3) by (auto simp: lease_inv_def)
  have ids: "lt_id t < ls_nextTask s" if "t \<in> set (set_status tid js (ls_tasks s))" for t
    using set_status_cases [OF that] inv by (auto simp: lease_inv_def)
  show ?thesis
    using inv counts ids
    by (auto simp: lease_inv_def lease_finish_def) (auto simp: set_run_def set_update_where)
qed

lemma lease_inv_beat:
  assumes "lease_inv s" shows "lease_inv (lease_beat now rid s)"
proof -
  have c: "count_if (running_on k) (update_where p (\<lambda>r. r\<lparr>lr_beat := now\<rparr>) rs) = count_if (running_on k) rs"
    for k p rs
    by (rule count_if_update_where_frame) (simp add: running_on_def)
  have "lr_task r \<in> lt_id ` set (ls_tasks s) \<and> lr_id r < ls_nextRun s"
    if "r \<in> set (update_where (\<lambda>r. lr_id r = rid) (\<lambda>r. r\<lparr>lr_beat := now\<rparr>) (ls_runs s))" for r
    using that assms by (auto simp: set_update_where lease_inv_def)
  with assms show ?thesis
    by (auto simp: lease_inv_def lease_beat_def c update_where_key [of lr_id])
qed

section \<open>Expiry\<close>

lemma fold_expire_one:
  "fold expire_one rs s = s\<lparr>
     ls_tasks := update_where (\<lambda>t. lt_id t \<in> lr_task ` set rs) (\<lambda>t. t\<lparr>lt_status := Job_open\<rparr>) (ls_tasks s),
     ls_runs := update_where (\<lambda>r. lr_id r \<in> lr_id ` set rs) (\<lambda>r. r\<lparr>lr_status := Run_failed\<rparr>) (ls_runs s)\<rparr>"
proof (induction rs arbitrary: s)
  case Nil
  then show ?case by (simp add: update_where_def)
next
  case (Cons r rs)
  show ?case
    by (simp add: Cons.IH) (simp add: expire_one_def lease_finish_def set_status_def set_run_def update_where_def)
qed

lemma stale_runs_subset: "r \<in> set (stale_runs cutoff limit s) \<Longrightarrow> r \<in> set (ls_runs s) \<and> stale cutoff s r"
  by (auto simp: stale_runs_def dest: in_set_takeD)

lemma distinct_stale_runs:
  assumes "lease_inv s" shows "distinct (map lr_id (stale_runs cutoff limit s))"
proof -
  have "distinct (map lr_id (filter (stale cutoff s) (ls_runs s)))"
    using assms by (simp add: lease_inv_def distinct_map_filter)
  then have "distinct (map lr_id (js_sort compare_beats (filter (stale cutoff s) (ls_runs s))))"
    by (metis mset_js_sort mset_map distinct_count_atmost_1 mset_eq_imp_distinct_iff)
  then show ?thesis by (simp add: stale_runs_def take_map [symmetric])
qed

lemma lease_inv_fold_expire:
  assumes "lease_inv s" and "distinct (map lr_id rs)"
    and "\<And>r. r \<in> set rs \<Longrightarrow> r \<in> set (ls_runs s) \<and> lr_status r = Run_running"
  shows "lease_inv (fold expire_one rs s)"
  using assms
proof (induction rs arbitrary: s)
  case (Cons r rs)
  have "has_lease (lr_id r) (lr_task r) s"
    using Cons.prems(3) [of r] by (auto simp: has_lease_def list_ex_iff)
  then have "lease_inv (expire_one r s)"
    unfolding expire_one_def by (intro lease_inv_finish Cons.prems) simp_all
  moreover have "r' \<in> set (ls_runs (expire_one r s)) \<and> lr_status r' = Run_running" if "r' \<in> set rs" for r'
  proof -
    have "lr_id r' \<noteq> lr_id r" using Cons.prems(2) that by (auto dest: image_eqI [of _ lr_id, rotated])
    with Cons.prems(3) [of r'] that show ?thesis
      by (force simp: expire_one_def lease_finish_def set_run_def set_update_where)
  qed
  ultimately show ?case using Cons.IH [of "expire_one r s"] Cons.prems(2) by simp
qed simp

lemma lease_inv_expire:
  assumes "lease_inv s" shows "lease_inv (lease_expire cutoff limit s)"
  unfolding lease_expire_def
  by (rule lease_inv_fold_expire [OF assms distinct_stale_runs [OF assms]])
     (auto dest: stale_runs_subset simp: stale_def)

text \<open>A sweep with room for all stale runs leaves none.\<close>

lemma expire_clears:
  assumes "length (filter (stale cutoff s) (ls_runs s)) \<le> limit"
    and "r \<in> set (ls_runs (lease_expire cutoff limit s))"
  shows "\<not> stale cutoff (lease_expire cutoff limit s) r"
proof
  assume st: "stale cutoff (lease_expire cutoff limit s) r"
  have all: "set (stale_runs cutoff limit s) = {r \<in> set (ls_runs s). stale cutoff s r}"
    using assms(1) by (simp add: stale_runs_def)
  from assms(2) st have r: "r \<in> set (ls_runs s)" "lr_id r \<notin> lr_id ` set (stale_runs cutoff limit s)"
    by (auto simp: lease_expire_def fold_expire_one set_update_where stale_def split: if_splits)
  from st have "is_assigned (lr_task r) s"
    by (auto simp: stale_def is_assigned_def list_ex_iff lease_expire_def fold_expire_one set_update_where
        split: if_splits)
  with st r all show False by (auto simp: stale_def)
qed

section \<open>Steps and the interface\<close>

inductive lease_step :: "lease_state \<Rightarrow> lease_state \<Rightarrow> bool" where
  create: "lease_step s (lease_create s)"
| claim: "is_open tid s \<Longrightarrow> lease_step s (lease_claim now tid s)"
| finish: "has_lease rid tid s \<Longrightarrow> js \<noteq> Job_assigned \<Longrightarrow> rs \<noteq> Run_running \<Longrightarrow>
    lease_step s (lease_finish js rs rid tid s)"
| beat: "lease_step s (lease_beat now rid s)"
| expire: "lease_step s (lease_expire cutoff limit s)"
| idle: "lease_step s s"

lemma lease_step_inv: "lease_step s s' \<Longrightarrow> lease_inv s \<Longrightarrow> lease_inv s'"
  by (induction rule: lease_step.induct)
     (simp_all add: lease_inv_create lease_inv_claim lease_inv_finish lease_inv_beat lease_inv_expire)

text \<open>Exclusive leasing, read off the invariant.\<close>

lemma lease_exclusive:
  assumes inv: "lease_inv s" and "has_lease rid tid s" and "has_lease rid' tid s"
  shows "rid = rid' \<and> is_assigned tid s"
proof -
  obtain r r' where r: "r \<in> set (ls_runs s)" "lr_id r = rid" "running_on tid r"
    and r': "r' \<in> set (ls_runs s)" "lr_id r' = rid'" "running_on tid r'"
    using assms(2,3) by (auto simp: has_lease_def list_ex_iff running_on_def)
  obtain t where t: "t \<in> set (ls_tasks s)" "lt_id t = tid"
    using inv r by (force simp: lease_inv_def running_on_def)
  have c: "count_if (running_on tid) (ls_runs s) = (if lt_status t = Job_assigned then 1 else 0)"
    using inv t by (auto simp: lease_inv_def)
  moreover have "0 < count_if (running_on tid) (ls_runs s)" using r by (auto simp: count_if_pos_iff)
  ultimately have a: "lt_status t = Job_assigned" and one: "length (filter (running_on tid) (ls_runs s)) = 1"
    by (auto simp: count_if_def split: if_splits)
  then obtain x where "filter (running_on tid) (ls_runs s) = [x]"
    by (metis One_nat_def length_0_conv length_Suc_conv)
  then have "set (filter (running_on tid) (ls_runs s)) = {x}" by simp
  moreover have "r \<in> set (filter (running_on tid) (ls_runs s))" "r' \<in> set (filter (running_on tid) (ls_runs s))"
    using r r' by simp_all
  ultimately have "r = r'" by (metis singletonD)
  with r r' a t show ?thesis by (auto simp: is_assigned_def list_ex_iff)
qed

lemma lease_exists:
  assumes inv: "lease_inv s" and "is_assigned tid s"
  shows "\<exists>rid. has_lease rid tid s"
proof -
  obtain t where t: "t \<in> set (ls_tasks s)" "lt_id t = tid" "lt_status t = Job_assigned"
    using assms(2) by (auto simp: is_assigned_def list_ex_iff)
  then have "0 < count_if (running_on tid) (ls_runs s)" using inv by (auto simp: lease_inv_def)
  then show ?thesis by (auto simp: count_if_pos_iff has_lease_def list_ex_iff running_on_def)
qed

locale lease_store =
  fixes lease_view :: "'db \<Rightarrow> lease_state"
    and initial :: 'db
    and store_step :: "'db \<Rightarrow> 'db \<Rightarrow> bool"
  assumes initial_view: "lease_view initial = lease_empty"
    and simulates: "lease_inv (lease_view s) \<Longrightarrow> store_step s s' \<Longrightarrow> lease_step (lease_view s) (lease_view s')"
begin

theorem reachable_inv: "store_step\<^sup>*\<^sup>* initial s \<Longrightarrow> lease_inv (lease_view s)"
  by (induction rule: rtranclp_induct)
     (auto simp: initial_view lease_inv_empty intro: lease_step_inv simulates)

theorem exclusive_lease:
  "store_step\<^sup>*\<^sup>* initial s \<Longrightarrow> has_lease rid tid (lease_view s) \<Longrightarrow> has_lease rid' tid (lease_view s) \<Longrightarrow>
   rid = rid' \<and> is_assigned tid (lease_view s)"
  by (rule lease_exclusive [OF reachable_inv])

theorem assigned_has_lease:
  "store_step\<^sup>*\<^sup>* initial s \<Longrightarrow> is_assigned tid (lease_view s) \<Longrightarrow> \<exists>rid. has_lease rid tid (lease_view s)"
  by (rule lease_exists [OF reachable_inv])

end

end
