(* ===== verification/Maintenance_Store.thy ===== *)
theory Maintenance_Store
  imports Lease_Spec
begin

text \<open>
  The artifact maintenance queue of \<open>coordinator/store.ts\<close> (tables of migration 010): creating,
  claiming, completing, failing, heartbeating and expiring tasks and their runs. Times are
  milliseconds; \<open>now\<close> is the transaction's \<open>NOW()\<close>, \<open>clock\<close> the client's \<open>Date.now()\<close>.
\<close>

record maintenance_row =
  mq_taskId :: int
  mq_artifactKey :: string
  mq_taskType :: maintenance_task_type
  mq_status :: job_status
  mq_requestedBy :: string
  mq_targetReplicaKey :: "string option"
  mq_targetProvider :: "string option"
  mq_assignedWorker :: "string option"
  mq_assignedAgentId :: "string option"
  mq_assignedAt :: "int option"
  mq_resultArtifactKey :: "string option"
  mq_failureReason :: "string option"
  mq_repairSourceReplicaKey :: "string option"
  mq_repairLocator :: "string option"
  mq_createdAt :: int
  mq_updatedAt :: int
  mq_completedAt :: "int option"

record maintenance_run_row =
  mu_runId :: int
  mu_taskId :: int
  mu_workerId :: string
  mu_agentId :: "string option"
  mu_status :: run_status
  mu_summaryArtifactKey :: "string option"
  mu_failureReason :: "string option"
  mu_startedAt :: int
  mu_finishedAt :: "int option"
  mu_lastHeartbeatAt :: "int option"

record maintenance_db =
  md_tasks :: "maintenance_row list"
  md_runs :: "maintenance_run_row list"
  md_nextTask :: int
  md_nextRun :: int

definition maintenance_empty :: maintenance_db where
  "maintenance_empty = \<lparr>md_tasks = [], md_runs = [], md_nextTask = 1, md_nextRun = 1\<rparr>"

section \<open>Operations\<close>

definition same_identity :: "string \<Rightarrow> maintenance_task_type \<Rightarrow> string option \<Rightarrow> maintenance_row \<Rightarrow> bool" where
  "same_identity artifactKey taskType replicaKey t \<longleftrightarrow> mq_artifactKey t = artifactKey \<and>
     mq_taskType t = taskType \<and> nullish (mq_targetReplicaKey t) [] = nullish replicaKey [] \<and>
     (mq_status t = Job_open \<or> mq_status t = Job_assigned)"

definition new_maintenance_row ::
  "int \<Rightarrow> int \<Rightarrow> string \<Rightarrow> string \<Rightarrow> string option \<Rightarrow> string option \<Rightarrow> maintenance_task_type \<Rightarrow> maintenance_row" where
  "new_maintenance_row now taskId artifactKey requestedBy provider replicaKey taskType =
     \<lparr>mq_taskId = taskId, mq_artifactKey = artifactKey, mq_taskType = taskType, mq_status = Job_open,
      mq_requestedBy = requestedBy, mq_targetReplicaKey = replicaKey, mq_targetProvider = provider,
      mq_assignedWorker = None, mq_assignedAgentId = None, mq_assignedAt = None,
      mq_resultArtifactKey = None, mq_failureReason = None, mq_repairSourceReplicaKey = None,
      mq_repairLocator = None, mq_createdAt = now, mq_updatedAt = now, mq_completedAt = None\<rparr>"

definition createArtifactMaintenanceTask ::
  "int \<Rightarrow> string \<Rightarrow> string \<Rightarrow> string option \<Rightarrow> string option \<Rightarrow> maintenance_task_type \<Rightarrow> maintenance_db \<Rightarrow>
   maintenance_db \<times> maintenance_row" where
  "createArtifactMaintenanceTask now artifactKey requestedBy provider replicaKey taskType db =
     (case js_sort (\<lambda>x y. mq_taskId x - mq_taskId y)
             (filter (same_identity artifactKey taskType replicaKey) (md_tasks db)) of
        existing # _ \<Rightarrow> (db, existing)
      | [] \<Rightarrow>
          let row = new_maintenance_row now (md_nextTask db) artifactKey requestedBy provider replicaKey taskType
          in (db\<lparr>md_tasks := md_tasks db @ [row], md_nextTask := md_nextTask db + 1\<rparr>, row))"

definition assign_task :: "int \<Rightarrow> string \<Rightarrow> string option \<Rightarrow> maintenance_row \<Rightarrow> maintenance_row" where
  "assign_task now worker agent t = t\<lparr>mq_status := Job_assigned, mq_assignedWorker := Some worker,
     mq_assignedAgentId := agent, mq_assignedAt := Some now, mq_updatedAt := now\<rparr>"

definition new_maintenance_run :: "int \<Rightarrow> int \<Rightarrow> int \<Rightarrow> string \<Rightarrow> string option \<Rightarrow> maintenance_run_row" where
  "new_maintenance_run now runId taskId worker agent =
     \<lparr>mu_runId = runId, mu_taskId = taskId, mu_workerId = worker, mu_agentId = agent,
      mu_status = Run_running, mu_summaryArtifactKey = None, mu_failureReason = None,
      mu_startedAt = now, mu_finishedAt = None, mu_lastHeartbeatAt = Some now\<rparr>"

definition lease_task_to ::
  "int \<Rightarrow> int \<Rightarrow> string \<Rightarrow> string option \<Rightarrow> maintenance_db \<Rightarrow> maintenance_db \<times> maintenance_run_row" where
  "lease_task_to now taskId worker agent db =
     (let run = new_maintenance_run now (md_nextRun db) taskId worker agent
      in (db\<lparr>md_tasks := update_where (\<lambda>t. mq_taskId t = taskId) (assign_task now worker agent) (md_tasks db),
             md_runs := md_runs db @ [run], md_nextRun := md_nextRun db + 1\<rparr>, run))"

text \<open>\<open>None\<close> is the rolled-back transaction that returns null.\<close>

definition claimNextOpenArtifactMaintenanceTask ::
  "int \<Rightarrow> string option \<Rightarrow> maintenance_task_type option \<Rightarrow> string \<Rightarrow> maintenance_db \<Rightarrow>
   (maintenance_db \<times> maintenance_run_row) option" where
  "claimNextOpenArtifactMaintenanceTask now agent taskType worker db =
     (case js_sort (\<lambda>x y. mq_taskId x - mq_taskId y)
             (filter (\<lambda>t. mq_status t = Job_open \<and>
                (case taskType of None \<Rightarrow> True | Some ty \<Rightarrow> mq_taskType t = ty)) (md_tasks db)) of
        [] \<Rightarrow> None
      | t # _ \<Rightarrow> Some (lease_task_to now (mq_taskId t) worker agent db))"

definition claimArtifactMaintenanceTaskById ::
  "int \<Rightarrow> string option \<Rightarrow> int \<Rightarrow> string \<Rightarrow> maintenance_db \<Rightarrow> (maintenance_db \<times> maintenance_run_row) option" where
  "claimArtifactMaintenanceTaskById now agent taskId worker db =
     (if list_ex (\<lambda>t. mq_taskId t = taskId \<and> mq_status t = Job_open) (md_tasks db)
      then Some (lease_task_to now taskId worker agent db) else None)"

text \<open>
  Both updates address their rows by id alone. The second component is the row read back after the
  commit, \<open>None\<close> where \<open>expectPresent\<close> throws.
\<close>

definition completeArtifactMaintenanceTask ::
  "int \<Rightarrow> string option \<Rightarrow> string option \<Rightarrow> string \<Rightarrow> int \<Rightarrow> int \<Rightarrow> maintenance_db \<Rightarrow>
   maintenance_db \<times> maintenance_row option" where
  "completeArtifactMaintenanceTask now locator sourceReplica resultKey runId taskId db =
     (let tasks = update_where (\<lambda>t. mq_taskId t = taskId)
            (\<lambda>t. t\<lparr>mq_status := Job_completed, mq_resultArtifactKey := Some resultKey,
                   mq_repairSourceReplicaKey := sourceReplica, mq_repairLocator := locator,
                   mq_completedAt := Some now, mq_updatedAt := now\<rparr>) (md_tasks db);
          runs = update_where (\<lambda>u. mu_runId u = runId)
            (\<lambda>u. u\<lparr>mu_status := Run_completed, mu_summaryArtifactKey := Some resultKey,
                   mu_finishedAt := Some now\<rparr>) (md_runs db)
      in (db\<lparr>md_tasks := tasks, md_runs := runs\<rparr>, find_by mq_taskId taskId tasks))"

definition failArtifactMaintenanceTask ::
  "int \<Rightarrow> string \<Rightarrow> int \<Rightarrow> int \<Rightarrow> maintenance_db \<Rightarrow> maintenance_db \<times> maintenance_row option" where
  "failArtifactMaintenanceTask now reason runId taskId db =
     (let truncated = take 2000 reason;
          tasks = update_where (\<lambda>t. mq_taskId t = taskId)
            (\<lambda>t. t\<lparr>mq_status := Job_failed, mq_failureReason := Some truncated, mq_updatedAt := now\<rparr>) (md_tasks db);
          runs = update_where (\<lambda>u. mu_runId u = runId)
            (\<lambda>u. u\<lparr>mu_status := Run_failed, mu_failureReason := Some truncated, mu_finishedAt := Some now\<rparr>) (md_runs db)
      in (db\<lparr>md_tasks := tasks, md_runs := runs\<rparr>, find_by mq_taskId taskId tasks))"

definition task_is_assigned :: "int \<Rightarrow> maintenance_db \<Rightarrow> bool" where
  "task_is_assigned taskId db \<longleftrightarrow> list_ex (\<lambda>t. mq_taskId t = taskId \<and> mq_status t = Job_assigned) (md_tasks db)"

definition heartbeatArtifactMaintenanceTaskRun ::
  "int \<Rightarrow> string option \<Rightarrow> int \<Rightarrow> int \<Rightarrow> string option \<Rightarrow> maintenance_db \<Rightarrow>
   (maintenance_db \<times> maintenance_run_row option) option" where
  "heartbeatArtifactMaintenanceTaskRun now agent runId taskId worker db =
     (let matches = (\<lambda>u. mu_runId u = runId \<and> mu_taskId u = taskId \<and> mu_status u = Run_running \<and>
            task_is_assigned (mu_taskId u) db \<and> sql_matches agent (mu_agentId u) \<and>
            sql_matches worker (Some (mu_workerId u)))
      in if \<not> list_ex matches (md_runs db) then None
         else let runs = update_where matches (\<lambda>u. u\<lparr>mu_lastHeartbeatAt := Some now\<rparr>) (md_runs db)
              in Some (db\<lparr>md_runs := runs, md_tasks := update_where (\<lambda>t. mq_taskId t = taskId)
                        (\<lambda>t. t\<lparr>mq_updatedAt := now\<rparr>) (md_tasks db)\<rparr>,
                   find_by mu_runId runId runs))"

definition heartbeat_or_start :: "maintenance_run_row \<Rightarrow> int" where
  "heartbeat_or_start u = nullish (mu_lastHeartbeatAt u) (mu_startedAt u)"

definition stale_maintenance_runs :: "int \<Rightarrow> nat \<Rightarrow> maintenance_db \<Rightarrow> maintenance_run_row list" where
  "stale_maintenance_runs staleBefore limit db = take limit (js_sort
     (\<lambda>x y. if heartbeat_or_start x - heartbeat_or_start y \<noteq> 0
            then heartbeat_or_start x - heartbeat_or_start y else mu_runId x - mu_runId y)
     (filter (\<lambda>u. mu_status u = Run_running \<and> task_is_assigned (mu_taskId u) db \<and>
                  heartbeat_or_start u < staleBefore) (md_runs db)))"

definition expire_candidate :: "int \<Rightarrow> maintenance_run_row \<Rightarrow> maintenance_db \<Rightarrow> maintenance_db" where
  "expire_candidate now c db = db\<lparr>
     md_runs := update_where (\<lambda>u. mu_runId u = mu_runId c)
       (\<lambda>u. u\<lparr>mu_status := Run_failed, mu_failureReason := Some ''heartbeat_timeout'',
              mu_finishedAt := Some now\<rparr>) (md_runs db),
     md_tasks := update_where (\<lambda>t. mq_taskId t = mu_taskId c)
       (\<lambda>t. t\<lparr>mq_status := Job_open, mq_assignedWorker := None, mq_assignedAgentId := None,
              mq_assignedAt := None, mq_updatedAt := now\<rparr>) (md_tasks db)\<rparr>"

text \<open>The result pairs each expired run with its reopened task as read inside the loop.\<close>

definition expire_and_read ::
  "int \<Rightarrow> maintenance_run_row \<Rightarrow> maintenance_db \<times> (maintenance_run_row \<times> maintenance_row) list \<Rightarrow>
   maintenance_db \<times> (maintenance_run_row \<times> maintenance_row) list" where
  "expire_and_read now c acc =
     (let db = expire_candidate now c (fst acc)
      in case (find_by mu_runId (mu_runId c) (md_runs db), find_by mq_taskId (mu_taskId c) (md_tasks db)) of
           (Some run, Some task) \<Rightarrow> (db, snd acc @ [(run, task)])
         | _ \<Rightarrow> (db, snd acc))"

definition expireStaleArtifactMaintenanceTaskRuns ::
  "int \<Rightarrow> int \<Rightarrow> int option \<Rightarrow> int \<Rightarrow> maintenance_db \<Rightarrow>
   maintenance_db \<times> (maintenance_run_row \<times> maintenance_row) list" where
  "expireStaleArtifactMaintenanceTaskRuns now clock limit staleAfterMs db =
     fold (expire_and_read now) (stale_maintenance_runs (clock - staleAfterMs) (sweep_limit limit) db) (db, [])"

section \<open>Refinement of the lease contract\<close>

definition maintenance_task_view :: "maintenance_row \<Rightarrow> lease_task" where
  "maintenance_task_view t = \<lparr>lt_id = mq_taskId t, lt_status = mq_status t\<rparr>"

definition maintenance_run_view :: "maintenance_run_row \<Rightarrow> lease_run" where
  "maintenance_run_view u = \<lparr>lr_id = mu_runId u, lr_task = mu_taskId u, lr_status = mu_status u,
     lr_beat = heartbeat_or_start u\<rparr>"

definition maintenance_view :: "maintenance_db \<Rightarrow> lease_state" where
  "maintenance_view db = \<lparr>ls_tasks = map maintenance_task_view (md_tasks db),
     ls_runs = map maintenance_run_view (md_runs db), ls_nextTask = md_nextTask db,
     ls_nextRun = md_nextRun db\<rparr>"

lemmas maintenance_views = maintenance_view_def maintenance_task_view_def maintenance_run_view_def
  heartbeat_or_start_def

lemma maintenance_open: "is_open k (maintenance_view db) \<longleftrightarrow>
    (\<exists>t \<in> set (md_tasks db). mq_taskId t = k \<and> mq_status t = Job_open)"
  by (auto simp: is_open_def list_ex_iff maintenance_views)

lemma maintenance_assigned: "is_assigned k (maintenance_view db) \<longleftrightarrow> task_is_assigned k db"
  by (auto simp: is_assigned_def task_is_assigned_def list_ex_iff maintenance_views)

lemma view_lease_task_to:
  "maintenance_view (fst (lease_task_to now k worker agent db)) = lease_claim now k (maintenance_view db)"
  by (simp add: lease_task_to_def lease_claim_def set_status_def Let_def update_where_def maintenance_views
      new_maintenance_run_def assign_task_def)

lemma claimNext_open:
  assumes "claimNextOpenArtifactMaintenanceTask now agent ty worker db = Some (db', run)"
  obtains t where "t \<in> set (md_tasks db)" "mq_status t = Job_open"
    "(db', run) = lease_task_to now (mq_taskId t) worker agent db"
proof -
  let ?open = "filter (\<lambda>t. mq_status t = Job_open \<and>
     (case ty of None \<Rightarrow> True | Some y \<Rightarrow> mq_taskType t = y)) (md_tasks db)"
  show thesis
  proof (cases "js_sort (\<lambda>x y. mq_taskId x - mq_taskId y) ?open")
    case Nil
    show ?thesis using assms unfolding claimNextOpenArtifactMaintenanceTask_def Nil by simp
  next
    case (Cons t ts)
    then have "t \<in> set ?open" by (rule js_sort_head)
    moreover have "lease_task_to now (mq_taskId t) worker agent db = (db', run)"
      using assms unfolding claimNextOpenArtifactMaintenanceTask_def Cons by simp
    ultimately show ?thesis by (intro that [of t]) simp_all
  qed
qed

lemma view_complete:
  "maintenance_view (fst (completeArtifactMaintenanceTask now loc src key rid tid db)) =
   lease_finish Job_completed Run_completed rid tid (maintenance_view db)"
  by (simp add: completeArtifactMaintenanceTask_def lease_finish_def set_status_def set_run_def Let_def
      update_where_def maintenance_views)

lemma view_fail:
  "maintenance_view (fst (failArtifactMaintenanceTask now reason rid tid db)) =
   lease_finish Job_failed Run_failed rid tid (maintenance_view db)"
  by (simp add: failArtifactMaintenanceTask_def lease_finish_def set_status_def set_run_def Let_def
      update_where_def maintenance_views)

lemma view_expire_and_read:
  "maintenance_view (fst (expire_and_read now c acc)) =
   expire_one (maintenance_run_view c) (maintenance_view (fst acc))"
proof -
  have "fst (expire_and_read now c acc) = expire_candidate now c (fst acc)"
    by (simp add: expire_and_read_def Let_def split: option.split)
  then show ?thesis
    by (simp add: expire_candidate_def expire_one_def lease_finish_def set_status_def set_run_def
        update_where_def maintenance_views)
qed

lemma view_stale: "map maintenance_run_view (stale_maintenance_runs cutoff n db) = stale_runs cutoff n (maintenance_view db)"
proof -
  have f: "map maintenance_run_view (filter (\<lambda>u. mu_status u = Run_running \<and> task_is_assigned (mu_taskId u) db \<and>
        heartbeat_or_start u < cutoff) (md_runs db)) =
      filter (stale cutoff (maintenance_view db)) (map maintenance_run_view (md_runs db))"
    by (simp add: filter_map comp_def stale_def maintenance_assigned) (simp add: maintenance_run_view_def)
  show ?thesis
    unfolding stale_maintenance_runs_def stale_runs_def take_map [symmetric]
    by (subst map_js_sort [where cmp' = compare_beats])
       (simp_all add: f compare_beats_def maintenance_run_view_def maintenance_view_def)
qed

lemma view_expire:
  "maintenance_view (fst (expireStaleArtifactMaintenanceTaskRuns now clock limit ms db)) =
   lease_expire (clock - ms) (sweep_limit limit) (maintenance_view db)"
proof -
  have "maintenance_view (fst (fold (expire_and_read now) cs acc)) =
      fold expire_one (map maintenance_run_view cs) (maintenance_view (fst acc))" for cs acc
    by (induction cs arbitrary: acc) (simp_all add: view_expire_and_read)
  then show ?thesis
    by (simp add: expireStaleArtifactMaintenanceTaskRuns_def lease_expire_def view_stale)
qed

lemma view_heartbeat:
  assumes inv: "lease_inv (maintenance_view db)"
    and "heartbeatArtifactMaintenanceTaskRun now agent rid tid worker db = Some (db', u)"
  shows "maintenance_view db' = lease_beat now rid (maintenance_view db)"
proof -
  define m :: "maintenance_run_row \<Rightarrow> bool" where "m = (\<lambda>u. mu_runId u = rid \<and> mu_taskId u = tid \<and> mu_status u = Run_running \<and>
     task_is_assigned (mu_taskId u) db \<and> sql_matches agent (mu_agentId u) \<and>
     sql_matches worker (Some (mu_workerId u)))"
  have ex: "\<exists>x \<in> set (md_runs db). m x" and db': "db' = db\<lparr>md_runs := update_where m
      (\<lambda>u. u\<lparr>mu_lastHeartbeatAt := Some now\<rparr>) (md_runs db),
      md_tasks := update_where (\<lambda>t. mq_taskId t = tid) (\<lambda>t. t\<lparr>mq_updatedAt := now\<rparr>) (md_tasks db)\<rparr>"
    using assms(2) by (auto simp: heartbeatArtifactMaintenanceTaskRun_def m_def Let_def list_ex_iff split: if_splits)
  have "lr_id \<circ> maintenance_run_view = mu_runId" by (simp add: fun_eq_iff maintenance_run_view_def)
  then have "distinct (map mu_runId (md_runs db))"
    using inv by (simp add: lease_inv_def maintenance_view_def)
  then have m: "m x \<longleftrightarrow> mu_runId x = rid" if "x \<in> set (md_runs db)" for x
    using ex that by (metis (no_types, lifting) distinct_map inj_onD m_def)
  then have "update_where m (\<lambda>u. u\<lparr>mu_lastHeartbeatAt := Some now\<rparr>) (md_runs db) =
      update_where (\<lambda>u. mu_runId u = rid) (\<lambda>u. u\<lparr>mu_lastHeartbeatAt := Some now\<rparr>) (md_runs db)"
    by (simp add: update_where_def)
  then show ?thesis
    unfolding db' by (simp add: lease_beat_def update_where_def maintenance_views)
qed

section \<open>Steps\<close>

text \<open>
  A worker finishes a task with the run it was given; the callers of the complete and fail
  operations check beforehand that this run is running, which \<open>holds_lease\<close> states. The theorem
  \<open>maintenance_stale_completion\<close> below shows what happens when the check is outdated.
\<close>

definition holds_lease :: "int \<Rightarrow> int \<Rightarrow> maintenance_db \<Rightarrow> bool" where
  "holds_lease runId taskId db \<longleftrightarrow>
     list_ex (\<lambda>u. mu_runId u = runId \<and> mu_taskId u = taskId \<and> mu_status u = Run_running) (md_runs db)"

inductive maintenance_step :: "maintenance_db \<Rightarrow> maintenance_db \<Rightarrow> bool" where
  create: "maintenance_step db (fst (createArtifactMaintenanceTask now key by provider replica ty db))"
| claim_next: "claimNextOpenArtifactMaintenanceTask now agent ty worker db = Some (db', run) \<Longrightarrow>
    maintenance_step db db'"
| claim_by_id: "claimArtifactMaintenanceTaskById now agent tid worker db = Some (db', run) \<Longrightarrow>
    maintenance_step db db'"
| complete: "holds_lease rid tid db \<Longrightarrow>
    maintenance_step db (fst (completeArtifactMaintenanceTask now loc src key rid tid db))"
| fail: "holds_lease rid tid db \<Longrightarrow>
    maintenance_step db (fst (failArtifactMaintenanceTask now reason rid tid db))"
| heartbeat: "heartbeatArtifactMaintenanceTaskRun now agent rid tid worker db = Some (db', u) \<Longrightarrow>
    maintenance_step db db'"
| expire: "maintenance_step db (fst (expireStaleArtifactMaintenanceTaskRuns now clock limit ms db))"

lemma holds_lease_view: "has_lease rid tid (maintenance_view db) \<longleftrightarrow> holds_lease rid tid db"
  by (auto simp: has_lease_def holds_lease_def list_ex_iff maintenance_view_def maintenance_run_view_def)

lemma view_create:
  "maintenance_view (fst (createArtifactMaintenanceTask now key by provider replica ty db)) =
     maintenance_view db \<or>
   maintenance_view (fst (createArtifactMaintenanceTask now key by provider replica ty db)) =
     lease_create (maintenance_view db)"
  by (simp add: createArtifactMaintenanceTask_def lease_create_def Let_def maintenance_view_def
      maintenance_task_view_def new_maintenance_row_def split: list.split)

lemma maintenance_simulates:
  assumes "lease_inv (maintenance_view db)" and "maintenance_step db db'"
  shows "lease_step (maintenance_view db) (maintenance_view db')"
  using assms(2,1)
proof cases
  case (create now key "by" provider replica ty)
  then show ?thesis using view_create [of now key "by" provider replica ty db]
    by (auto intro: lease_step.create lease_step.idle)
next
  case (claim_next now agent ty worker run)
  then obtain t where t: "t \<in> set (md_tasks db)" "mq_status t = Job_open"
    "(db', run) = lease_task_to now (mq_taskId t) worker agent db"
    by (blast elim: claimNext_open)
  then have "is_open (mq_taskId t) (maintenance_view db)" by (auto simp: maintenance_open)
  then show ?thesis
    using lease_step.claim [of "mq_taskId t" "maintenance_view db" now]
      view_lease_task_to [of now "mq_taskId t" worker agent db] by (simp add: t(3) [symmetric])
next
  case (claim_by_id now agent tid worker run)
  then have "is_open tid (maintenance_view db)" and eq: "lease_task_to now tid worker agent db = (db', run)"
    by (auto simp: claimArtifactMaintenanceTaskById_def maintenance_open list_ex_iff split: if_splits)
  then show ?thesis
    using lease_step.claim [of tid "maintenance_view db" now] view_lease_task_to [of now tid worker agent db]
    by simp
next
  case (complete rid tid now loc src key)
  then show ?thesis using lease_step.finish [of rid tid "maintenance_view db" Job_completed Run_completed]
    by (simp add: view_complete holds_lease_view)
next
  case (fail rid tid now reason)
  then show ?thesis using lease_step.finish [of rid tid "maintenance_view db" Job_failed Run_failed]
    by (simp add: view_fail holds_lease_view)
next
  case (heartbeat now agent rid tid worker u)
  then show ?thesis using view_heartbeat [OF assms(1)] lease_step.beat by metis
next
  case (expire now clock limit ms)
  then show ?thesis by (simp add: view_expire lease_step.expire)
qed

interpretation maintenance: lease_store maintenance_view maintenance_empty maintenance_step
proof
  show "maintenance_view maintenance_empty = lease_empty"
    by (simp add: maintenance_view_def maintenance_empty_def lease_empty_def)
qed (rule maintenance_simulates)

section \<open>One active task per identity\<close>

definition active_task :: "maintenance_row \<Rightarrow> bool" where
  "active_task t \<longleftrightarrow> mq_status t = Job_open \<or> mq_status t = Job_assigned"

definition task_identity :: "maintenance_row \<Rightarrow> string \<times> maintenance_task_type \<times> string" where
  "task_identity t = (mq_artifactKey t, mq_taskType t, nullish (mq_targetReplicaKey t) [])"

definition identity_unique :: "maintenance_db \<Rightarrow> bool" where
  "identity_unique db \<longleftrightarrow> (\<forall>t \<in> set (md_tasks db). \<forall>u \<in> set (md_tasks db). active_task t \<longrightarrow>
     active_task u \<longrightarrow> task_identity t = task_identity u \<longrightarrow> mq_taskId t = mq_taskId u)"

lemma identity_unique_frame:
  assumes "identity_unique db"
    and "\<And>t'. t' \<in> set (md_tasks db') \<Longrightarrow> active_task t' \<Longrightarrow> \<exists>t \<in> set (md_tasks db).
      active_task t \<and> task_identity t = task_identity t' \<and> mq_taskId t = mq_taskId t'"
  shows "identity_unique db'"
  unfolding identity_unique_def
proof (intro ballI impI)
  fix t u
  assume "t \<in> set (md_tasks db')" "u \<in> set (md_tasks db')" "active_task t" "active_task u"
    and eq: "task_identity t = task_identity u"
  then obtain t0 u0 where "t0 \<in> set (md_tasks db)" "active_task t0" "task_identity t0 = task_identity t"
      "mq_taskId t0 = mq_taskId t" "u0 \<in> set (md_tasks db)" "active_task u0"
      "task_identity u0 = task_identity u" "mq_taskId u0 = mq_taskId u"
    using assms(2) by metis
  with eq assms(1) show "mq_taskId t = mq_taskId u" unfolding identity_unique_def by metis
qed

lemma updated_row:
  assumes "t' \<in> set (update_where p f rows)"
  obtains t where "t \<in> set rows" "p t" "t' = f t" | "t' \<in> set rows" "\<not> p t'"
  using assms by (auto simp: set_update_where split: if_splits)

lemma identity_update:
  assumes "identity_unique db" and "md_tasks db' = update_where p f (md_tasks db)"
    and "\<And>t. t \<in> set (md_tasks db) \<Longrightarrow> p t \<Longrightarrow> active_task (f t) \<Longrightarrow> active_task t"
    and "\<And>t. task_identity (f t) = task_identity t \<and> mq_taskId (f t) = mq_taskId t"
  shows "identity_unique db'"
proof (rule identity_unique_frame [OF assms(1)])
  fix t'
  assume t': "t' \<in> set (md_tasks db')" "active_task t'"
  show "\<exists>t \<in> set (md_tasks db). active_task t \<and> task_identity t = task_identity t' \<and> mq_taskId t = mq_taskId t'"
    using t'(1)[unfolded assms(2)]
  proof (cases rule: updated_row)
    case (1 t)
    with t'(2) assms(3) [of t] assms(4) [of t] show ?thesis by (intro bexI [of _ t]) simp_all
  next
    case 2
    with t'(2) show ?thesis by blast
  qed
qed

lemma assigned_unique_row:
  assumes "lease_inv (maintenance_view db)" and "t \<in> set (md_tasks db)" and "u \<in> set (md_tasks db)"
    and "mq_taskId t = mq_taskId u"
  shows "t = u"
proof -
  have "lt_id \<circ> maintenance_task_view = mq_taskId" by (simp add: fun_eq_iff maintenance_task_view_def)
  then have "inj_on mq_taskId (set (md_tasks db))"
    using assms(1) by (simp add: lease_inv_def maintenance_view_def distinct_map)
  from inj_onD [OF this assms(4,2,3)] show ?thesis .
qed

lemma fold_expire_tasks:
  "md_tasks (fst (fold (expire_and_read now) cs acc)) =
     update_where (\<lambda>t. mq_taskId t \<in> mu_taskId ` set cs)
       (\<lambda>t. t\<lparr>mq_status := Job_open, mq_assignedWorker := None, mq_assignedAgentId := None,
              mq_assignedAt := None, mq_updatedAt := now\<rparr>) (md_tasks (fst acc))"
proof (induction cs arbitrary: acc)
  case Nil
  then show ?case by (simp add: update_where_def)
next
  case (Cons c cs)
  have "fst (expire_and_read now c acc) = expire_candidate now c (fst acc)"
    by (simp add: expire_and_read_def Let_def split: option.split)
  then show ?case by (simp add: Cons.IH) (simp add: expire_candidate_def update_where_def)
qed

lemma lease_task_to_tasks:
  "md_tasks (fst (lease_task_to now k worker agent db)) =
     update_where (\<lambda>t. mq_taskId t = k) (assign_task now worker agent) (md_tasks db)"
  by (simp add: lease_task_to_def Let_def)

lemma identity_claim:
  assumes "lease_inv (maintenance_view db)" and "identity_unique db"
    and "t0 \<in> set (md_tasks db)" "mq_status t0 = Job_open" "mq_taskId t0 = k"
    and "(db', run) = lease_task_to now k worker agent db"
  shows "identity_unique db'"
proof (rule identity_update [OF assms(2)])
  have "db' = fst (lease_task_to now k worker agent db)" by (simp flip: assms(6))
  then show "md_tasks db' = update_where (\<lambda>t. mq_taskId t = k) (assign_task now worker agent) (md_tasks db)"
    by (simp add: lease_task_to_tasks)
  show "active_task t" if "t \<in> set (md_tasks db)" "mq_taskId t = k" for t
    using assigned_unique_row [OF assms(1) that(1) assms(3)] that(2) assms(4,5) by (simp add: active_task_def)
qed (simp add: task_identity_def assign_task_def)

lemma identity_create:
  assumes "identity_unique db"
  shows "identity_unique (fst (createArtifactMaintenanceTask now key by provider replica ty db))"
proof (cases "js_sort (\<lambda>x y. mq_taskId x - mq_taskId y) (filter (same_identity key ty replica) (md_tasks db))")
  case (Cons e es)
  with assms show ?thesis unfolding createArtifactMaintenanceTask_def Cons by simp
next
  case Nil
  then have "filter (same_identity key ty replica) (md_tasks db) = []" by (simp only: js_sort_Nil_iff)
  then have none: "\<not> (active_task t \<and> task_identity t = (key, ty, nullish replica []))"
    if "t \<in> set (md_tasks db)" for t
    using that by (auto simp: filter_empty_conv same_identity_def active_task_def task_identity_def)
  have new: "md_tasks (fst (createArtifactMaintenanceTask now key by provider replica ty db)) =
      md_tasks db @ [new_maintenance_row now (md_nextTask db) key by provider replica ty]"
    unfolding createArtifactMaintenanceTask_def Nil by (simp add: Let_def)
  have "task_identity (new_maintenance_row now (md_nextTask db) key by provider replica ty) =
      (key, ty, nullish replica [])"
    by (simp add: task_identity_def new_maintenance_row_def)
  with none assms show ?thesis unfolding identity_unique_def new by fastforce
qed

lemma identity_step:
  assumes inv: "lease_inv (maintenance_view db)" and uq: "identity_unique db" and "maintenance_step db db'"
  shows "identity_unique db'"
  using assms(3)
proof cases
  case (create now key "by" provider replica ty)
  then show ?thesis using identity_create [OF uq] by simp
next
  case (claim_next now agent ty worker run)
  then obtain t where "t \<in> set (md_tasks db)" "mq_status t = Job_open"
    "(db', run) = lease_task_to now (mq_taskId t) worker agent db"
    by (blast elim: claimNext_open)
  then show ?thesis by (intro identity_claim [OF inv uq, of t "mq_taskId t"]) simp_all
next
  case (claim_by_id now agent tid worker run)
  then obtain t where "t \<in> set (md_tasks db)" "mq_taskId t = tid" "mq_status t = Job_open"
    "(db', run) = lease_task_to now tid worker agent db"
    by (auto simp: claimArtifactMaintenanceTaskById_def list_ex_iff split: if_splits)
  then show ?thesis by (intro identity_claim [OF inv uq, of t tid]) simp_all
next
  case (complete rid tid now loc src key)
  then have "md_tasks db' = update_where (\<lambda>t. mq_taskId t = tid)
      (\<lambda>t. t\<lparr>mq_status := Job_completed, mq_resultArtifactKey := Some key, mq_repairSourceReplicaKey := src,
             mq_repairLocator := loc, mq_completedAt := Some now, mq_updatedAt := now\<rparr>) (md_tasks db)"
    by (simp add: completeArtifactMaintenanceTask_def Let_def)
  then show ?thesis by (rule identity_update [OF uq]) (simp_all add: task_identity_def active_task_def)
next
  case (fail rid tid now reason)
  then have "md_tasks db' = update_where (\<lambda>t. mq_taskId t = tid)
      (\<lambda>t. t\<lparr>mq_status := Job_failed, mq_failureReason := Some (take 2000 reason), mq_updatedAt := now\<rparr>)
      (md_tasks db)"
    by (simp add: failArtifactMaintenanceTask_def Let_def)
  then show ?thesis by (rule identity_update [OF uq]) (simp_all add: task_identity_def active_task_def)
next
  case (heartbeat now agent rid tid worker u)
  then have "md_tasks db' = update_where (\<lambda>t. mq_taskId t = tid) (\<lambda>t. t\<lparr>mq_updatedAt := now\<rparr>) (md_tasks db)"
    by (auto simp: heartbeatArtifactMaintenanceTaskRun_def Let_def split: if_splits)
  then show ?thesis by (rule identity_update [OF uq]) (simp_all add: task_identity_def active_task_def)
next
  case (expire now clock limit ms)
  let ?cs = "stale_maintenance_runs (clock - ms) (sweep_limit limit) db"
  have tasks: "md_tasks db' = update_where (\<lambda>t. mq_taskId t \<in> mu_taskId ` set ?cs)
       (\<lambda>t. t\<lparr>mq_status := Job_open, mq_assignedWorker := None, mq_assignedAgentId := None,
              mq_assignedAt := None, mq_updatedAt := now\<rparr>) (md_tasks db)"
    unfolding expire expireStaleArtifactMaintenanceTaskRuns_def by (simp add: fold_expire_tasks)
  show ?thesis
  proof (rule identity_update [OF uq tasks])
    fix t
    assume t: "t \<in> set (md_tasks db)" "mq_taskId t \<in> mu_taskId ` set ?cs"
    then have "task_is_assigned (mq_taskId t) db"
      by (auto simp: stale_maintenance_runs_def dest!: in_set_takeD)
    then obtain x where x: "x \<in> set (md_tasks db)" "mq_taskId t = mq_taskId x" "mq_status x = Job_assigned"
      by (auto simp: task_is_assigned_def list_ex_iff)
    with assigned_unique_row [OF inv t(1) x(1,2)] show "active_task t" by (simp add: active_task_def)
  qed (simp add: task_identity_def)
qed

section \<open>Properties\<close>

text \<open>
  Exclusive leasing of maintenance tasks. In every state the store reaches through its
  operations, a task is assigned exactly when one run of it is running, and it never has two
  running runs.
\<close>

theorem maintenance_exclusive_lease:
  assumes "maintenance_step\<^sup>*\<^sup>* maintenance_empty db"
  shows "(task_is_assigned taskId db \<longleftrightarrow> (\<exists>runId. holds_lease runId taskId db)) \<and>
    (\<forall>r r'. holds_lease r taskId db \<longrightarrow> holds_lease r' taskId db \<longrightarrow> r = r')"
  using maintenance.exclusive_lease [OF assms] maintenance.assigned_has_lease [OF assms]
  unfolding holds_lease_view maintenance_assigned by blast

text \<open>
  No duplicate maintenance work: in every reachable state at most one open or assigned task has
  a given artifact, task type and target replica.
\<close>

theorem maintenance_identity_unique:
  assumes "maintenance_step\<^sup>*\<^sup>* maintenance_empty db"
    and "t \<in> set (md_tasks db)" and "u \<in> set (md_tasks db)"
    and "active_task t" and "active_task u" and "task_identity t = task_identity u"
  shows "t = u"
proof -
  have "identity_unique db"
    using assms(1)
  proof (induction rule: rtranclp_induct)
    case base
    then show ?case by (simp add: identity_unique_def maintenance_empty_def)
  next
    case (step db db')
    show ?case by (rule identity_step [OF maintenance.reachable_inv [OF step.hyps(1)] step.IH step.hyps(2)])
  qed
  then have "mq_taskId t = mq_taskId u" using assms(2-6) unfolding identity_unique_def by blast
  then show ?thesis by (rule assigned_unique_row [OF maintenance.reachable_inv [OF assms(1)] assms(2,3)])
qed

subsection \<open>Witnesses\<close>

definition created_task :: maintenance_db where
  "created_task = fst (createArtifactMaintenanceTask 1 ''k'' ''owner'' None (Some ''r'') Maint_audit maintenance_empty)"

definition claimed_task :: maintenance_db where
  "claimed_task = fst (the (claimArtifactMaintenanceTaskById 2 (Some ''7'') 1 ''w'' created_task))"

lemma claimed_reachable: "maintenance_step\<^sup>*\<^sup>* maintenance_empty claimed_task"
proof -
  have "maintenance_step maintenance_empty created_task"
    unfolding created_task_def by (rule maintenance_step.create)
  moreover have "claimArtifactMaintenanceTaskById 2 (Some ''7'') 1 ''w'' created_task =
      Some (claimed_task, new_maintenance_run 2 1 1 ''w'' (Some ''7''))"
    unfolding claimed_task_def by code_simp
  then have "maintenance_step created_task claimed_task" by (rule maintenance_step.claim_by_id)
  ultimately show ?thesis by (meson rtranclp.rtrancl_refl rtranclp.rtrancl_into_rtrancl)
qed

theorem maintenance_exclusive_lease_witness:
  "task_is_assigned 1 claimed_task \<and> (\<exists>runId. holds_lease runId 1 claimed_task)"
proof -
  have "task_is_assigned 1 claimed_task" by code_simp
  with maintenance_exclusive_lease [OF claimed_reachable, of 1] show ?thesis by blast
qed

theorem maintenance_identity_unique_witness:
  "\<exists>t \<in> set (md_tasks claimed_task). \<forall>u \<in> set (md_tasks claimed_task). active_task u \<longrightarrow>
     task_identity u = task_identity t \<longrightarrow> u = t"
proof -
  have "list_ex active_task (md_tasks claimed_task)" by code_simp
  then obtain t where "t \<in> set (md_tasks claimed_task)" "active_task t" by (auto simp: list_ex_iff)
  with maintenance_identity_unique [OF claimed_reachable] show ?thesis by metis
qed

end
