(* ===== verification/Replication_Store.thy ===== *)
theory Replication_Store
  imports Lease_Spec
begin

text \<open>
  The replication job queue of \<open>coordinator/store.ts\<close> (tables of migrations 005, 007, 008 and 013).
  It has the same lease contract as the maintenance queue, other columns, and no identity check on
  creation.
\<close>

record replication_row =
  rq_jobId :: int
  rq_claimId :: string
  rq_requestedBy :: string
  rq_status :: job_status
  rq_specHash :: string
  rq_specURI :: "string option"
  rq_assignedWorker :: "string option"
  rq_assignedAgentId :: "string option"
  rq_assignedAt :: "int option"
  rq_requestId :: "string option"
  rq_resultArtifactKey :: "string option"
  rq_resultHash :: "string option"
  rq_evidenceHash :: "string option"
  rq_evidenceURI :: "string option"
  rq_onchainReplicationId :: "string option"
  rq_submissionTxHash :: "string option"
  rq_submissionActor :: "string option"
  rq_submittedAt :: "int option"
  rq_failureReason :: "string option"
  rq_createdAt :: int
  rq_updatedAt :: int
  rq_completedAt :: "int option"

record replication_run_row =
  ru_runId :: int
  ru_jobId :: int
  ru_workerId :: string
  ru_agentId :: "string option"
  ru_status :: run_status
  ru_requestId :: "string option"
  ru_executionManifestHash :: "string option"
  ru_resultArtifactKey :: "string option"
  ru_resultHash :: "string option"
  ru_evidenceHash :: "string option"
  ru_evidenceURI :: "string option"
  ru_submissionTxHash :: "string option"
  ru_failureReason :: "string option"
  ru_startedAt :: int
  ru_finishedAt :: "int option"
  ru_lastHeartbeatAt :: "int option"

record replication_db =
  rd_jobs :: "replication_row list"
  rd_runs :: "replication_run_row list"
  rd_nextJob :: int
  rd_nextRun :: int

definition replication_empty :: replication_db where
  "replication_empty = \<lparr>rd_jobs = [], rd_runs = [], rd_nextJob = 1, rd_nextRun = 1\<rparr>"

section \<open>Operations\<close>

definition createReplicationJob ::
  "int \<Rightarrow> string \<Rightarrow> string \<Rightarrow> string \<Rightarrow> string option \<Rightarrow> replication_db \<Rightarrow> replication_db \<times> replication_row" where
  "createReplicationJob now claimId requestedBy specHash specURI db =
     (let row = \<lparr>rq_jobId = rd_nextJob db, rq_claimId = claimId, rq_requestedBy = requestedBy,
        rq_status = Job_open, rq_specHash = specHash, rq_specURI = specURI, rq_assignedWorker = None,
        rq_assignedAgentId = None, rq_assignedAt = None, rq_requestId = None, rq_resultArtifactKey = None,
        rq_resultHash = None, rq_evidenceHash = None, rq_evidenceURI = None,
        rq_onchainReplicationId = None, rq_submissionTxHash = None, rq_submissionActor = None,
        rq_submittedAt = None, rq_failureReason = None, rq_createdAt = now, rq_updatedAt = now,
        rq_completedAt = None\<rparr>
      in (db\<lparr>rd_jobs := rd_jobs db @ [row], rd_nextJob := rd_nextJob db + 1\<rparr>, row))"

definition assign_job :: "int \<Rightarrow> string \<Rightarrow> string option \<Rightarrow> replication_row \<Rightarrow> replication_row" where
  "assign_job now worker agent t = t\<lparr>rq_status := Job_assigned, rq_assignedWorker := Some worker,
     rq_assignedAgentId := agent, rq_assignedAt := Some now, rq_updatedAt := now\<rparr>"

definition new_replication_run :: "int \<Rightarrow> int \<Rightarrow> int \<Rightarrow> string \<Rightarrow> string option \<Rightarrow> replication_run_row" where
  "new_replication_run now runId jobId worker agent =
     \<lparr>ru_runId = runId, ru_jobId = jobId, ru_workerId = worker, ru_agentId = agent,
      ru_status = Run_running, ru_requestId = None, ru_executionManifestHash = None,
      ru_resultArtifactKey = None, ru_resultHash = None, ru_evidenceHash = None, ru_evidenceURI = None,
      ru_submissionTxHash = None, ru_failureReason = None, ru_startedAt = now, ru_finishedAt = None,
      ru_lastHeartbeatAt = Some now\<rparr>"

definition lease_job_to ::
  "int \<Rightarrow> int \<Rightarrow> string \<Rightarrow> string option \<Rightarrow> replication_db \<Rightarrow> replication_db \<times> replication_run_row" where
  "lease_job_to now jobId worker agent db =
     (let run = new_replication_run now (rd_nextRun db) jobId worker agent
      in (db\<lparr>rd_jobs := update_where (\<lambda>t. rq_jobId t = jobId) (assign_job now worker agent) (rd_jobs db),
             rd_runs := rd_runs db @ [run], rd_nextRun := rd_nextRun db + 1\<rparr>, run))"

definition claimNextOpenReplicationJob ::
  "int \<Rightarrow> string option \<Rightarrow> string \<Rightarrow> replication_db \<Rightarrow> (replication_db \<times> replication_run_row) option" where
  "claimNextOpenReplicationJob now agent worker db =
     (case js_sort (\<lambda>x y. rq_jobId x - rq_jobId y) (filter (\<lambda>t. rq_status t = Job_open) (rd_jobs db)) of
        [] \<Rightarrow> None
      | t # _ \<Rightarrow> Some (lease_job_to now (rq_jobId t) worker agent db))"

definition claimReplicationJobById ::
  "int \<Rightarrow> string option \<Rightarrow> int \<Rightarrow> string \<Rightarrow> replication_db \<Rightarrow> (replication_db \<times> replication_run_row) option" where
  "claimReplicationJobById now agent jobId worker db =
     (if list_ex (\<lambda>t. rq_jobId t = jobId \<and> rq_status t = Job_open) (rd_jobs db)
      then Some (lease_job_to now jobId worker agent db) else None)"

record replication_result_input =
  ro_evidenceHash :: string
  ro_evidenceURI :: string
  ro_executionManifestHash :: string
  ro_onchainReplicationId :: "string option"
  ro_requestId :: "string option"
  ro_resultArtifactKey :: string
  ro_resultHash :: string
  ro_submissionActor :: "string option"
  ro_submissionTxHash :: "string option"

definition complete_job :: "int \<Rightarrow> replication_result_input \<Rightarrow> replication_row \<Rightarrow> replication_row" where
  "complete_job now inp t = t\<lparr>rq_status := Job_completed,
     rq_requestId := orelse (ro_requestId inp) (rq_requestId t),
     rq_resultArtifactKey := Some (ro_resultArtifactKey inp), rq_resultHash := Some (ro_resultHash inp),
     rq_evidenceHash := Some (ro_evidenceHash inp), rq_evidenceURI := Some (ro_evidenceURI inp),
     rq_onchainReplicationId := ro_onchainReplicationId inp,
     rq_submissionTxHash := ro_submissionTxHash inp, rq_submissionActor := ro_submissionActor inp,
     rq_submittedAt := Some now, rq_completedAt := Some now, rq_updatedAt := now\<rparr>"

definition complete_run :: "int \<Rightarrow> replication_result_input \<Rightarrow> replication_run_row \<Rightarrow> replication_run_row" where
  "complete_run now inp u = u\<lparr>ru_status := Run_completed,
     ru_requestId := orelse (ro_requestId inp) (ru_requestId u),
     ru_executionManifestHash := Some (ro_executionManifestHash inp),
     ru_resultArtifactKey := Some (ro_resultArtifactKey inp), ru_resultHash := Some (ro_resultHash inp),
     ru_evidenceHash := Some (ro_evidenceHash inp), ru_evidenceURI := Some (ro_evidenceURI inp),
     ru_submissionTxHash := ro_submissionTxHash inp, ru_finishedAt := Some now\<rparr>"

definition completeReplicationJob ::
  "int \<Rightarrow> replication_result_input \<Rightarrow> int \<Rightarrow> int \<Rightarrow> replication_db \<Rightarrow> replication_db \<times> replication_row option" where
  "completeReplicationJob now inp runId jobId db =
     (let jobs = update_where (\<lambda>t. rq_jobId t = jobId) (complete_job now inp) (rd_jobs db);
          runs = update_where (\<lambda>u. ru_runId u = runId) (complete_run now inp) (rd_runs db)
      in (db\<lparr>rd_jobs := jobs, rd_runs := runs\<rparr>, find_by rq_jobId jobId jobs))"

definition failReplicationJob ::
  "int \<Rightarrow> string \<Rightarrow> string option \<Rightarrow> int \<Rightarrow> int \<Rightarrow> replication_db \<Rightarrow> replication_db \<times> replication_row option" where
  "failReplicationJob now reason requestId runId jobId db =
     (let jobs = update_where (\<lambda>t. rq_jobId t = jobId)
            (\<lambda>t. t\<lparr>rq_status := Job_failed, rq_requestId := orelse requestId (rq_requestId t),
                   rq_failureReason := Some (take 2000 reason), rq_updatedAt := now\<rparr>) (rd_jobs db);
          runs = update_where (\<lambda>u. ru_runId u = runId)
            (\<lambda>u. u\<lparr>ru_status := Run_failed, ru_requestId := orelse requestId (ru_requestId u),
                   ru_failureReason := Some (take 2000 reason), ru_finishedAt := Some now\<rparr>) (rd_runs db)
      in (db\<lparr>rd_jobs := jobs, rd_runs := runs\<rparr>, find_by rq_jobId jobId jobs))"

definition job_is_assigned :: "int \<Rightarrow> replication_db \<Rightarrow> bool" where
  "job_is_assigned jobId db \<longleftrightarrow> list_ex (\<lambda>t. rq_jobId t = jobId \<and> rq_status t = Job_assigned) (rd_jobs db)"

definition heartbeatReplicationJobRun ::
  "int \<Rightarrow> string option \<Rightarrow> int \<Rightarrow> int \<Rightarrow> string option \<Rightarrow> replication_db \<Rightarrow>
   (replication_db \<times> replication_run_row option) option" where
  "heartbeatReplicationJobRun now agent runId jobId worker db =
     (let matches = (\<lambda>u. ru_runId u = runId \<and> ru_jobId u = jobId \<and> ru_status u = Run_running \<and>
            job_is_assigned (ru_jobId u) db \<and> sql_matches agent (ru_agentId u) \<and>
            sql_matches worker (Some (ru_workerId u)))
      in if \<not> list_ex matches (rd_runs db) then None
         else let runs = update_where matches (\<lambda>u. u\<lparr>ru_lastHeartbeatAt := Some now\<rparr>) (rd_runs db)
              in Some (db\<lparr>rd_runs := runs, rd_jobs := update_where (\<lambda>t. rq_jobId t = jobId)
                        (\<lambda>t. t\<lparr>rq_updatedAt := now\<rparr>) (rd_jobs db)\<rparr>,
                   find_by ru_runId runId runs))"

definition run_beat :: "replication_run_row \<Rightarrow> int" where
  "run_beat u = nullish (ru_lastHeartbeatAt u) (ru_startedAt u)"

definition stale_replication_runs :: "int \<Rightarrow> nat \<Rightarrow> replication_db \<Rightarrow> replication_run_row list" where
  "stale_replication_runs staleBefore limit db = take limit (js_sort
     (\<lambda>x y. if run_beat x - run_beat y \<noteq> 0 then run_beat x - run_beat y else ru_runId x - ru_runId y)
     (filter (\<lambda>u. ru_status u = Run_running \<and> job_is_assigned (ru_jobId u) db \<and> run_beat u < staleBefore)
       (rd_runs db)))"

definition expire_job_candidate :: "int \<Rightarrow> replication_run_row \<Rightarrow> replication_db \<Rightarrow> replication_db" where
  "expire_job_candidate now c db = db\<lparr>
     rd_runs := update_where (\<lambda>u. ru_runId u = ru_runId c)
       (\<lambda>u. u\<lparr>ru_status := Run_failed, ru_failureReason := Some ''heartbeat_timeout'',
              ru_finishedAt := Some now\<rparr>) (rd_runs db),
     rd_jobs := update_where (\<lambda>t. rq_jobId t = ru_jobId c)
       (\<lambda>t. t\<lparr>rq_status := Job_open, rq_assignedWorker := None, rq_assignedAgentId := None,
              rq_assignedAt := None, rq_updatedAt := now\<rparr>) (rd_jobs db)\<rparr>"

definition expire_job_and_read ::
  "int \<Rightarrow> replication_run_row \<Rightarrow> replication_db \<times> (replication_run_row \<times> replication_row) list \<Rightarrow>
   replication_db \<times> (replication_run_row \<times> replication_row) list" where
  "expire_job_and_read now c acc =
     (let db = expire_job_candidate now c (fst acc)
      in case (find_by ru_runId (ru_runId c) (rd_runs db), find_by rq_jobId (ru_jobId c) (rd_jobs db)) of
           (Some run, Some job) \<Rightarrow> (db, snd acc @ [(run, job)])
         | _ \<Rightarrow> (db, snd acc))"

definition expireStaleReplicationJobRuns ::
  "int \<Rightarrow> int \<Rightarrow> int option \<Rightarrow> int \<Rightarrow> replication_db \<Rightarrow>
   replication_db \<times> (replication_run_row \<times> replication_row) list" where
  "expireStaleReplicationJobRuns now clock limit staleAfterMs db =
     fold (expire_job_and_read now) (stale_replication_runs (clock - staleAfterMs) (sweep_limit limit) db) (db, [])"

section \<open>Refinement of the lease contract\<close>

definition replication_job_view :: "replication_row \<Rightarrow> lease_task" where
  "replication_job_view t = \<lparr>lt_id = rq_jobId t, lt_status = rq_status t\<rparr>"

definition replication_run_view :: "replication_run_row \<Rightarrow> lease_run" where
  "replication_run_view u = \<lparr>lr_id = ru_runId u, lr_task = ru_jobId u, lr_status = ru_status u,
     lr_beat = run_beat u\<rparr>"

definition replication_lease_view :: "replication_db \<Rightarrow> lease_state" where
  "replication_lease_view db = \<lparr>ls_tasks = map replication_job_view (rd_jobs db),
     ls_runs = map replication_run_view (rd_runs db), ls_nextTask = rd_nextJob db,
     ls_nextRun = rd_nextRun db\<rparr>"

lemmas replication_views = replication_lease_view_def replication_job_view_def replication_run_view_def
  run_beat_def

lemma replication_open: "is_open k (replication_lease_view db) \<longleftrightarrow>
    (\<exists>t \<in> set (rd_jobs db). rq_jobId t = k \<and> rq_status t = Job_open)"
  by (auto simp: is_open_def list_ex_iff replication_views)

lemma replication_assigned: "is_assigned k (replication_lease_view db) \<longleftrightarrow> job_is_assigned k db"
  by (auto simp: is_assigned_def job_is_assigned_def list_ex_iff replication_views)

lemma view_lease_job_to:
  "replication_lease_view (fst (lease_job_to now k worker agent db)) = lease_claim now k (replication_lease_view db)"
  by (simp add: lease_job_to_def lease_claim_def set_status_def Let_def update_where_def replication_views
      new_replication_run_def assign_job_def)

lemma claimNext_job:
  assumes "claimNextOpenReplicationJob now agent worker db = Some (db', run)"
  obtains t where "t \<in> set (rd_jobs db)" "rq_status t = Job_open"
    "(db', run) = lease_job_to now (rq_jobId t) worker agent db"
    "\<forall>u \<in> set (rd_jobs db). rq_status u = Job_open \<longrightarrow> rq_jobId t \<le> rq_jobId u"
proof -
  let ?open = "filter (\<lambda>t. rq_status t = Job_open) (rd_jobs db)"
  show thesis
  proof (cases "js_sort (\<lambda>x y. rq_jobId x - rq_jobId y) ?open")
    case Nil
    show ?thesis using assms unfolding claimNextOpenReplicationJob_def Nil by simp
  next
    case (Cons t ts)
    then have "t \<in> set ?open" by (rule js_sort_head)
    moreover have "lease_job_to now (rq_jobId t) worker agent db = (db', run)"
      using assms unfolding claimNextOpenReplicationJob_def Cons by simp
    moreover have "rq_jobId t \<le> rq_jobId u" if "u \<in> set ?open" for u
      using comparator.hd_sort_least [OF comparator_diff Cons that] by simp
    ultimately show ?thesis by (intro that [of t]) simp_all
  qed
qed

lemma view_complete_job:
  "replication_lease_view (fst (completeReplicationJob now inp rid jid db)) =
   lease_finish Job_completed Run_completed rid jid (replication_lease_view db)"
  by (simp add: completeReplicationJob_def lease_finish_def set_status_def set_run_def Let_def
      update_where_def replication_views complete_job_def complete_run_def)

lemma view_fail_job:
  "replication_lease_view (fst (failReplicationJob now reason req rid jid db)) =
   lease_finish Job_failed Run_failed rid jid (replication_lease_view db)"
  by (simp add: failReplicationJob_def lease_finish_def set_status_def set_run_def Let_def
      update_where_def replication_views)

lemma expire_job_and_read_fst: "fst (expire_job_and_read now c acc) = expire_job_candidate now c (fst acc)"
  by (simp add: expire_job_and_read_def Let_def split: option.split)

lemma view_expire_job_and_read:
  "replication_lease_view (fst (expire_job_and_read now c acc)) =
   expire_one (replication_run_view c) (replication_lease_view (fst acc))"
  unfolding expire_job_and_read_fst
  by (simp add: expire_job_candidate_def expire_one_def lease_finish_def set_status_def set_run_def
      update_where_def replication_views)

lemma view_stale_filter:
  "map replication_run_view (filter (\<lambda>u. ru_status u = Run_running \<and> job_is_assigned (ru_jobId u) db \<and>
     run_beat u < cutoff) (rd_runs db)) =
   filter (stale cutoff (replication_lease_view db)) (ls_runs (replication_lease_view db))"
proof -
  have "ls_runs (replication_lease_view db) = map replication_run_view (rd_runs db)"
    by (simp add: replication_lease_view_def)
  then show ?thesis
    by (simp add: filter_map comp_def stale_def replication_assigned) (simp add: replication_run_view_def)
qed

lemma view_stale_jobs:
  "map replication_run_view (stale_replication_runs cutoff n db) = stale_runs cutoff n (replication_lease_view db)"
  unfolding stale_replication_runs_def stale_runs_def take_map [symmetric]
  by (subst map_js_sort [where cmp' = compare_beats])
     (simp_all add: view_stale_filter compare_beats_def replication_run_view_def)

lemma view_expire_jobs:
  "replication_lease_view (fst (expireStaleReplicationJobRuns now clock limit ms db)) =
   lease_expire (clock - ms) (sweep_limit limit) (replication_lease_view db)"
proof -
  have "replication_lease_view (fst (fold (expire_job_and_read now) cs acc)) =
      fold expire_one (map replication_run_view cs) (replication_lease_view (fst acc))" for cs acc
    by (induction cs arbitrary: acc) (simp_all add: view_expire_job_and_read)
  then show ?thesis
    by (simp add: expireStaleReplicationJobRuns_def lease_expire_def view_stale_jobs)
qed

lemma view_job_heartbeat:
  assumes inv: "lease_inv (replication_lease_view db)"
    and "heartbeatReplicationJobRun now agent rid tid worker db = Some (db', u)"
  shows "replication_lease_view db' = lease_beat now rid (replication_lease_view db)"
proof -
  define m :: "replication_run_row \<Rightarrow> bool" where "m = (\<lambda>u. ru_runId u = rid \<and> ru_jobId u = tid \<and> ru_status u = Run_running \<and>
     job_is_assigned (ru_jobId u) db \<and> sql_matches agent (ru_agentId u) \<and>
     sql_matches worker (Some (ru_workerId u)))"
  have ex: "\<exists>x \<in> set (rd_runs db). m x" and db': "db' = db\<lparr>rd_runs := update_where m
      (\<lambda>u. u\<lparr>ru_lastHeartbeatAt := Some now\<rparr>) (rd_runs db),
      rd_jobs := update_where (\<lambda>t. rq_jobId t = tid) (\<lambda>t. t\<lparr>rq_updatedAt := now\<rparr>) (rd_jobs db)\<rparr>"
    using assms(2) by (auto simp: heartbeatReplicationJobRun_def m_def Let_def list_ex_iff split: if_splits)
  have "lr_id \<circ> replication_run_view = ru_runId" by (simp add: fun_eq_iff replication_run_view_def)
  then have "distinct (map ru_runId (rd_runs db))"
    using inv by (simp add: lease_inv_def replication_lease_view_def)
  then have m: "m x \<longleftrightarrow> ru_runId x = rid" if "x \<in> set (rd_runs db)" for x
    using ex that by (metis (no_types, lifting) distinct_map inj_onD m_def)
  then have "update_where m (\<lambda>u. u\<lparr>ru_lastHeartbeatAt := Some now\<rparr>) (rd_runs db) =
      update_where (\<lambda>u. ru_runId u = rid) (\<lambda>u. u\<lparr>ru_lastHeartbeatAt := Some now\<rparr>) (rd_runs db)"
    by (simp add: update_where_def)
  then show ?thesis
    unfolding db' by (simp add: lease_beat_def update_where_def replication_views)
qed

section \<open>Steps\<close>

definition holds_job_lease :: "int \<Rightarrow> int \<Rightarrow> replication_db \<Rightarrow> bool" where
  "holds_job_lease runId taskId db \<longleftrightarrow>
     list_ex (\<lambda>u. ru_runId u = runId \<and> ru_jobId u = taskId \<and> ru_status u = Run_running) (rd_runs db)"

inductive replication_step :: "replication_db \<Rightarrow> replication_db \<Rightarrow> bool" where
  create: "replication_step db (fst (createReplicationJob now claimId by spec uri db))"
| claim_next: "claimNextOpenReplicationJob now agent worker db = Some (db', run) \<Longrightarrow>
    replication_step db db'"
| claim_by_id: "claimReplicationJobById now agent tid worker db = Some (db', run) \<Longrightarrow>
    replication_step db db'"
| complete: "holds_job_lease rid tid db \<Longrightarrow>
    replication_step db (fst (completeReplicationJob now inp rid tid db))"
| fail: "holds_job_lease rid tid db \<Longrightarrow>
    replication_step db (fst (failReplicationJob now reason req rid tid db))"
| heartbeat: "heartbeatReplicationJobRun now agent rid tid worker db = Some (db', u) \<Longrightarrow>
    replication_step db db'"
| expire: "replication_step db (fst (expireStaleReplicationJobRuns now clock limit ms db))"

lemma holds_job_lease_view: "has_lease rid tid (replication_lease_view db) \<longleftrightarrow> holds_job_lease rid tid db"
  by (auto simp: has_lease_def holds_job_lease_def list_ex_iff replication_lease_view_def replication_run_view_def)

lemma view_create_job:
  "replication_lease_view (fst (createReplicationJob now claimId by spec uri db)) =
   lease_create (replication_lease_view db)"
  by (simp add: createReplicationJob_def lease_create_def Let_def replication_lease_view_def replication_job_view_def)

lemma replication_simulates:
  assumes "lease_inv (replication_lease_view db)" and "replication_step db db'"
  shows "lease_step (replication_lease_view db) (replication_lease_view db')"
  using assms(2,1)
proof cases
  case (create now claimId "by" spec uri)
  then show ?thesis using view_create_job [of now claimId "by" spec uri db]
    by (auto intro: lease_step.create lease_step.idle)
next
  case (claim_next now agent worker run)
  then obtain t where t: "t \<in> set (rd_jobs db)" "rq_status t = Job_open"
    "(db', run) = lease_job_to now (rq_jobId t) worker agent db"
    by (blast elim: claimNext_job)
  then have "is_open (rq_jobId t) (replication_lease_view db)" by (auto simp: replication_open)
  then show ?thesis
    using lease_step.claim [of "rq_jobId t" "replication_lease_view db" now]
      view_lease_job_to [of now "rq_jobId t" worker agent db] by (simp add: t(3) [symmetric])
next
  case (claim_by_id now agent tid worker run)
  then have "is_open tid (replication_lease_view db)" and eq: "lease_job_to now tid worker agent db = (db', run)"
    by (auto simp: claimReplicationJobById_def replication_open list_ex_iff split: if_splits)
  then show ?thesis
    using lease_step.claim [of tid "replication_lease_view db" now] view_lease_job_to [of now tid worker agent db]
    by simp
next
  case (complete rid tid now inp)
  then show ?thesis using lease_step.finish [of rid tid "replication_lease_view db" Job_completed Run_completed]
    by (simp add: view_complete_job holds_job_lease_view)
next
  case (fail rid tid now reason req)
  then show ?thesis using lease_step.finish [of rid tid "replication_lease_view db" Job_failed Run_failed]
    by (simp add: view_fail_job holds_job_lease_view)
next
  case (heartbeat now agent rid tid worker u)
  then show ?thesis using view_job_heartbeat [OF assms(1)] lease_step.beat by metis
next
  case (expire now clock limit ms)
  then show ?thesis by (simp add: view_expire_jobs lease_step.expire)
qed

interpretation replication: lease_store replication_lease_view replication_empty replication_step
proof
  show "replication_lease_view replication_empty = lease_empty"
    by (simp add: replication_lease_view_def replication_empty_def lease_empty_def)
qed (rule replication_simulates)

section \<open>Properties\<close>


text \<open>
  Claiming the next replication job takes the open job of the least id: it becomes assigned to
  the worker, the returned run is a fresh running one with a heartbeat at the claim, and the claim
  returns null exactly when no job is open.
\<close>

theorem replication_claim_next:
  "(claimNextOpenReplicationJob now agent worker db = None \<longleftrightarrow>
      (\<forall>t \<in> set (rd_jobs db). rq_status t \<noteq> Job_open)) \<and>
   (\<forall>db' run. claimNextOpenReplicationJob now agent worker db = Some (db', run) \<longrightarrow>
      (\<exists>t \<in> set (rd_jobs db). rq_status t = Job_open \<and> ru_jobId run = rq_jobId t \<and>
         (\<forall>u \<in> set (rd_jobs db). rq_status u = Job_open \<longrightarrow> rq_jobId t \<le> rq_jobId u) \<and>
         assign_job now worker agent t \<in> set (rd_jobs db')) \<and>
      ru_status run = Run_running \<and> ru_workerId run = worker \<and> ru_lastHeartbeatAt run = Some now \<and>
      rd_runs db' = rd_runs db @ [run])"
proof (intro conjI allI impI)
  show "claimNextOpenReplicationJob now agent worker db = None \<longleftrightarrow>
      (\<forall>t \<in> set (rd_jobs db). rq_status t \<noteq> Job_open)"
  proof (cases "js_sort (\<lambda>x y. rq_jobId x - rq_jobId y) (filter (\<lambda>t. rq_status t = Job_open) (rd_jobs db))")
    case Nil
    then have "filter (\<lambda>t. rq_status t = Job_open) (rd_jobs db) = []" by (simp only: js_sort_Nil_iff)
    with Nil show ?thesis unfolding claimNextOpenReplicationJob_def Nil by (simp add: filter_empty_conv)
  next
    case (Cons t ts)
    from js_sort_head [OF Cons] show ?thesis unfolding claimNextOpenReplicationJob_def Cons by auto
  qed
next
  fix db' run
  assume "claimNextOpenReplicationJob now agent worker db = Some (db', run)"
  then obtain t where t: "t \<in> set (rd_jobs db)" "rq_status t = Job_open"
    "(db', run) = lease_job_to now (rq_jobId t) worker agent db"
    "\<forall>u \<in> set (rd_jobs db). rq_status u = Job_open \<longrightarrow> rq_jobId t \<le> rq_jobId u"
    by (rule claimNext_job)
  have run: "run = new_replication_run now (rd_nextRun db) (rq_jobId t) worker agent"
    and jobs: "rd_jobs db' = update_where (\<lambda>u. rq_jobId u = rq_jobId t) (assign_job now worker agent) (rd_jobs db)"
    and runs: "rd_runs db' = rd_runs db @ [run]"
    using t(3) by (simp_all add: lease_job_to_def Let_def)
  have "assign_job now worker agent t \<in> set (rd_jobs db')"
    unfolding jobs set_update_where using t(1) by force
  with t show "\<exists>t \<in> set (rd_jobs db). rq_status t = Job_open \<and> ru_jobId run = rq_jobId t \<and>
         (\<forall>u \<in> set (rd_jobs db). rq_status u = Job_open \<longrightarrow> rq_jobId t \<le> rq_jobId u) \<and>
         assign_job now worker agent t \<in> set (rd_jobs db')"
    by (auto simp: run new_replication_run_def)
  show "ru_status run = Run_running" "ru_workerId run = worker" "ru_lastHeartbeatAt run = Some now"
    by (simp_all add: run new_replication_run_def)
  show "rd_runs db' = rd_runs db @ [run]" by (rule runs)
qed

lemma find_by_updated:
  assumes "find_by key k (update_where (\<lambda>r. key r = k) f rows) = Some r" and "\<And>r. key (f r) = key r"
  shows "\<exists>x. r = f x"
  using find_by_Some [OF assms(1)] assms(2) by (auto simp: set_update_where split: if_splits)

lemma expire_reports:
  assumes "(run, job) \<in> set (snd (fold (expire_job_and_read now) cs acc))"
  shows "(run, job) \<in> set (snd acc) \<or>
    (ru_status run = Run_failed \<and> ru_failureReason run = Some ''heartbeat_timeout'' \<and>
     ru_finishedAt run = Some now \<and> rq_status job = Job_open \<and> rq_assignedWorker job = None \<and>
     rq_assignedAgentId job = None)"
  using assms
proof (induction cs arbitrary: acc)
  case (Cons c cs)
  have "(run, job) \<in> set (snd (expire_job_and_read now c acc)) \<Longrightarrow> (run, job) \<in> set (snd acc) \<or>
    (ru_status run = Run_failed \<and> ru_failureReason run = Some ''heartbeat_timeout'' \<and>
     ru_finishedAt run = Some now \<and> rq_status job = Job_open \<and> rq_assignedWorker job = None \<and>
     rq_assignedAgentId job = None)"
    by (auto simp: expire_job_and_read_def expire_job_candidate_def Let_def split: option.splits
        dest!: find_by_updated)
  with Cons show ?case by fastforce
qed simp

lemma expire_report_count: "length (snd (fold (expire_job_and_read now) cs acc)) \<le> length (snd acc) + length cs"
proof (induction cs arbitrary: acc)
  case (Cons c cs)
  have "length (snd (expire_job_and_read now c acc)) \<le> Suc (length (snd acc))"
    by (simp add: expire_job_and_read_def Let_def split: option.split)
  with Cons [of "expire_job_and_read now c acc"] show ?case by simp
qed simp



subsection \<open>Witnesses\<close>

text \<open>A trace: create, claim, sweep, claim again; the second run holds the job.\<close>

definition trace_claimed :: replication_db where
  "trace_claimed = fst (the (claimNextOpenReplicationJob 10 (Some ''7'') ''w1''
     (fst (createReplicationJob 1 ''3'' ''owner'' ''h'' None replication_empty))))"

definition trace_reclaimed :: replication_db where
  "trace_reclaimed = fst (the (claimNextOpenReplicationJob 5000 (Some ''8'') ''w2''
     (fst (expireStaleReplicationJobRuns 4000 4000 None 1000 trace_claimed))))"

lemma trace_steps: "replication_step\<^sup>*\<^sup>* replication_empty trace_reclaimed"
proof -
  let ?d1 = "fst (createReplicationJob 1 ''3'' ''owner'' ''h'' None replication_empty)"
  let ?d3 = "fst (expireStaleReplicationJobRuns 4000 4000 None 1000 trace_claimed)"
  have "replication_step replication_empty ?d1" by (rule replication_step.create)
  moreover have "\<exists>run. claimNextOpenReplicationJob 10 (Some ''7'') ''w1'' ?d1 = Some (trace_claimed, run)"
    unfolding trace_claimed_def by (rule exI [of _ "snd (the (claimNextOpenReplicationJob 10 (Some ''7'') ''w1'' ?d1))"]) code_simp
  then have "replication_step ?d1 trace_claimed" by (auto intro: replication_step.claim_next)
  moreover have "replication_step trace_claimed ?d3" by (rule replication_step.expire)
  moreover have "\<exists>run. claimNextOpenReplicationJob 5000 (Some ''8'') ''w2'' ?d3 = Some (trace_reclaimed, run)"
    unfolding trace_reclaimed_def by (rule exI [of _ "snd (the (claimNextOpenReplicationJob 5000 (Some ''8'') ''w2'' ?d3))"]) code_simp
  then have "replication_step ?d3 trace_reclaimed" by (auto intro: replication_step.claim_next)
  ultimately show ?thesis by (meson rtranclp.rtrancl_refl rtranclp.rtrancl_into_rtrancl)
qed

lemma trace_lease: "holds_job_lease 2 1 trace_reclaimed"
  by code_simp


theorem replication_claim_next_witness:
  "claimNextOpenReplicationJob 1 None ''w'' replication_empty = None \<and>
   claimNextOpenReplicationJob 1 None ''w'' (fst (createReplicationJob 1 ''3'' ''owner'' ''h'' None replication_empty)) \<noteq> None"
  using replication_claim_next [of 1 None "''w''" replication_empty]
    replication_claim_next [of 1 None "''w''" "fst (createReplicationJob 1 ''3'' ''owner'' ''h'' None replication_empty)"]
  by (auto simp: replication_empty_def createReplicationJob_def Let_def)


definition sample_result :: replication_result_input where
  "sample_result = \<lparr>ro_evidenceHash = ''e'', ro_evidenceURI = ''u'', ro_executionManifestHash = ''m'',
     ro_onchainReplicationId = None, ro_requestId = None, ro_resultArtifactKey = ''k'', ro_resultHash = ''r'',
     ro_submissionActor = None, ro_submissionTxHash = None\<rparr>"


end
