(* ===== verification/Pagination.thy ===== *)
theory Pagination
  imports Js_Number
begin

text \<open>
  \<open>shared/pagination.ts\<close> and the reader of \<open>api/read-payloads.ts\<close>: normalised page requests and
  the two loops that read all pages of a store. A page reader is a query that runs again on every
  turn of the loop, possibly on another state of the store, so that it takes the number of the turn.
  The loops may run for ever; they are partial functions, and their termination is a theorem.
  The locale \<open>paged_rows\<close> is the contract of a store's page query.
\<close>

type_synonym 'a page = "'a list \<times> int"
type_synonym 'a page_reader = "nat \<Rightarrow> int \<Rightarrow> int \<Rightarrow> 'a page"

record pagination =
  pg_limit :: int
  pg_offset :: int

text \<open>\<open>None\<close> is an absent or a non-finite number.\<close>

definition normalizePagination :: "rat option \<Rightarrow> rat option \<Rightarrow> rat option \<Rightarrow> pagination" where
  "normalizePagination limit offset defaultLimit =
     (let l = nullish limit (nullish defaultLimit 20); o' = nullish offset 0
      in \<lparr>pg_limit = max 1 (min 100 (js_floor l)), pg_offset = max 0 (js_floor o')\<rparr>)"

partial_function (option) shared_loop ::
  "'a page_reader \<Rightarrow> int \<Rightarrow> nat \<Rightarrow> int \<Rightarrow> 'a list \<Rightarrow> 'a list option" where
  "shared_loop readPage pageSize turn pos items =
     (case readPage turn pageSize pos of (rows, tot) \<Rightarrow>
        if rows = [] \<or> pos + int (length rows) \<ge> tot then Some (items @ rows)
        else shared_loop readPage pageSize (turn + 1) (pos + int (length rows)) (items @ rows))"

definition readAllPages :: "'a page_reader \<Rightarrow> rat option \<Rightarrow> 'a list option" where
  "readAllPages readPage pageSize =
     shared_loop readPage (max 1 (min 100 (js_floor (nullish pageSize 100)))) 0 0 []"

text \<open>The reader of the API: its page size is passed on as it is, its callback takes the offset first.\<close>

partial_function (option) api_loop ::
  "'a page_reader \<Rightarrow> int \<Rightarrow> nat \<Rightarrow> int \<Rightarrow> 'a list \<Rightarrow> 'a list option" where
  "api_loop fetchPage pageSize turn pos items =
     (case fetchPage turn pos pageSize of (rows, tot) \<Rightarrow>
        if rows = [] \<or> int (length (items @ rows)) \<ge> tot then Some (items @ rows)
        else api_loop fetchPage pageSize (turn + 1) (pos + int (length rows)) (items @ rows))"

definition apiReadAllPages :: "'a page_reader \<Rightarrow> int \<Rightarrow> 'a list option" where
  "apiReadAllPages fetchPage pageSize = api_loop fetchPage pageSize 0 0 []"

text \<open>\<open>LIMIT\<close> and \<open>OFFSET\<close> on the selected rows, with the count of all of them.\<close>

definition page_of :: "'a list \<Rightarrow> pagination \<Rightarrow> 'a page" where
  "page_of rows p = (take (nat (pg_limit p)) (drop (nat (pg_offset p)) rows), int (length rows))"

definition queryPage :: "'a list \<Rightarrow> int option \<Rightarrow> int option \<Rightarrow> 'a page" where
  "queryPage rows limit offset =
     page_of rows (normalizePagination (map_option of_int limit) (map_option of_int offset) None)"

lemma js_floor_of_int [simp]: "js_floor (of_int i) = i"
  by (simp add: js_floor_def)

lemma js_floor_numeral [simp]: "js_floor 0 = 0" "js_floor 1 = 1" "js_floor (numeral n) = numeral n"
  by (simp_all add: js_floor_def)

lemma normalizePagination_bounds [bounds_intros]:
  "1 \<le> pg_limit (normalizePagination l off d)" "pg_limit (normalizePagination l off d) \<le> 100"
  "0 \<le> pg_offset (normalizePagination l off d)"
  by (simp_all add: normalizePagination_def Let_def)

section \<open>Termination\<close>

text \<open>A page that is not empty moves the offset, so that a bound on the totals bounds the turns.\<close>

lemma shared_loop_returns:
  assumes "\<And>turn limit pos. snd (readPage turn limit pos) \<le> bound"
  shows "\<exists>rows. shared_loop readPage pageSize turn pos items = Some rows"
proof (induction "nat (bound - pos)" arbitrary: turn pos items rule: less_induct)
  case less
  obtain rows tot where p: "readPage turn pageSize pos = (rows, tot)" by fastforce
  show ?case
  proof (cases "rows = [] \<or> pos + int (length rows) \<ge> tot")
    case True
    then show ?thesis by (subst shared_loop.simps) (simp add: p)
  next
    case False
    have "tot \<le> bound" using assms [of turn pageSize pos] p by simp
    then have "nat (bound - (pos + int (length rows))) < nat (bound - pos)" using False by (cases rows) auto
    from less [OF this, of "turn + 1" "items @ rows"] show ?thesis
      using False by (subst shared_loop.simps) (simp add: p)
  qed
qed

text \<open>
  Reading all pages ends, even when rows come and go between the pages: it is enough that the
  totals the pages report stay below some bound.
\<close>

theorem read_all_pages_returns:
  assumes "\<forall>turn limit pos. snd (readPage turn limit pos) \<le> bound"
  shows "\<exists>rows. readAllPages readPage pageSize = Some rows"
  unfolding readAllPages_def using assms by (intro shared_loop_returns [of readPage bound]) blast

section \<open>The contract of a page query\<close>

locale paged_rows =
  fixes page :: "int \<Rightarrow> int \<Rightarrow> 'a page"
    and rows :: "'a list"
  assumes serves: "1 \<le> limit \<Longrightarrow> 0 \<le> pos \<Longrightarrow> pos \<le> int (length rows) \<Longrightarrow>
    page limit pos = (take (nat (min limit 100)) (drop (nat pos) rows), int (length rows))"
begin

lemma serves_at:
  assumes "1 \<le> limit" and "items @ rest = rows"
  defines "got \<equiv> take (nat (min limit 100)) rest" and "left \<equiv> drop (nat (min limit 100)) rest"
  shows "page limit (int (length items)) = (got, int (length rows))"
    and "got = [] \<or> int (length rows) \<le> int (length items) + int (length got) \<longleftrightarrow> left = []"
    and "left = [] \<Longrightarrow> items @ got = rows"
    and "left \<noteq> [] \<Longrightarrow> length left < length rest"
proof -
  have n: "1 \<le> nat (min limit 100)" using assms(1) by simp
  show "page limit (int (length items)) = (got, int (length rows))"
    using serves [OF assms(1), of "int (length items)"] unfolding assms(2) [symmetric] got_def by simp
  have len: "length rows = length items + length rest" by (simp flip: assms(2))
  have g: "length got = min (length rest) (nat (min limit 100))" by (simp add: got_def)
  have l: "left = [] \<longleftrightarrow> length rest \<le> nat (min limit 100)" by (simp add: left_def)
  show "got = [] \<or> int (length rows) \<le> int (length items) + int (length got) \<longleftrightarrow> left = []"
    using n unfolding l length_0_conv [symmetric, of got] g len by linarith
  show "items @ got = rows" if "left = []" using that assms(2) by (simp add: l got_def)
  show "length left < length rest" if "left \<noteq> []" using that n by (auto simp: left_def l)
qed

lemma shared_reads:
  assumes "1 \<le> pageSize" and "items @ rest = rows"
  shows "shared_loop (\<lambda>turn. page) pageSize turn (int (length items)) items = Some rows"
  using assms(2)
proof (induction "length rest" arbitrary: turn items rest rule: less_induct)
  case less
  note p = serves_at [OF assms(1) less.prems]
  show ?case
  proof (cases "drop (nat (min pageSize 100)) rest = []")
    case True
    then show ?thesis using less.prems p by (subst shared_loop.simps) simp
  next
    case False
    have "shared_loop (\<lambda>turn. page) pageSize (turn + 1)
        (int (length (items @ take (nat (min pageSize 100)) rest))) (items @ take (nat (min pageSize 100)) rest) = Some rows"
      using less.prems p(4) [OF False] by (intro less.hyps [of "drop (nat (min pageSize 100)) rest"]) simp_all
    then show ?thesis using False p(1,2) by (subst shared_loop.simps) simp
  qed
qed

lemma api_reads:
  assumes "1 \<le> pageSize" and "items @ rest = rows"
  shows "api_loop (\<lambda>turn pos limit. page limit pos) pageSize turn (int (length items)) items = Some rows"
  using assms(2)
proof (induction "length rest" arbitrary: turn items rest rule: less_induct)
  case less
  note p = serves_at [OF assms(1) less.prems]
  show ?case
  proof (cases "drop (nat (min pageSize 100)) rest = []")
    case True
    then show ?thesis using less.prems p by (subst api_loop.simps) simp
  next
    case False
    have "api_loop (\<lambda>turn pos limit. page limit pos) pageSize (turn + 1)
        (int (length (items @ take (nat (min pageSize 100)) rest))) (items @ take (nat (min pageSize 100)) rest) = Some rows"
      using less.prems p(4) [OF False] by (intro less.hyps [of "drop (nat (min pageSize 100)) rest"]) simp_all
    then show ?thesis using False p(1,2) by (subst api_loop.simps) simp
  qed
qed

lemma readers_agree:
  assumes "1 \<le> pageSize"
  shows "readAllPages (\<lambda>turn. page) given = Some rows"
    and "apiReadAllPages (\<lambda>turn pos limit. page limit pos) pageSize = Some rows"
  using shared_reads [of _ "[]" rows] api_reads [OF assms, of "[]" rows]
  by (simp_all add: readAllPages_def apiReadAllPages_def)

end

interpretation query: paged_rows "\<lambda>limit pos. queryPage rows (Some limit) (Some pos)" rows for rows
  by unfold_locales (simp add: queryPage_def page_of_def normalizePagination_def Let_def min.commute max_absorb2)

text \<open>
  The two readers are equivalent. On a store that does not change, both return all selected rows
  in order, though the API asks for 200 rows a page and the store hands out at most 100.
\<close>

theorem page_readers_equivalent:
  "readAllPages (\<lambda>turn limit pos. queryPage rows (Some limit) (Some pos)) pageSize = Some rows \<and>
   apiReadAllPages (\<lambda>turn pos limit. queryPage rows (Some limit) (Some pos)) 200 = Some rows"
  by (rule conjI, rule query.readers_agree(1) [of 1], simp, rule query.readers_agree(2), simp)

theorem read_all_pages_returns_witness:
  "\<exists>rows. readAllPages (\<lambda>turn limit pos. (take (nat limit) (drop (nat pos) [turn, 1, 2]), 3 - int (min turn 1))) (Some 1) = Some rows"
  by (rule read_all_pages_returns [of _ 3]) simp

end
