(* ===== verification/Js_Digits.thy ===== *)
theory Js_Digits
  imports Js_Date
begin

text \<open>
  Decimal numerals: what \<open>toString()\<close> prints of an integer, \<open>Number\<close> and \<open>BigInt\<close> read back, so that
  printed ids are distinct.
\<close>

lemma show_nat_digits: "show_nat n \<noteq> [] \<and> list_all is_digit (show_nat n) \<and>
    fold (\<lambda>c m. m * 10 + (int (code c) - 48)) (show_nat n) 0 = int n"
proof (induction n rule: show_nat.induct)
  case (1 n)
  have d: "is_digit (char_of (48 + k))" "int (code (char_of (48 + k) :: char)) = 48 + int k" if "k < 10" for k :: nat
    using that by (simp_all add: is_digit_def)
  show ?case
  proof (cases "n < 10")
    case True
    then show ?thesis using d [of n] by (subst (1 2 3) show_nat.simps) simp
  next
    case False
    have "n div 10 * 10 + n mod 10 = n" by simp
    then have "int (n div 10) * 10 + int (n mod 10) = int n" by presburger
    with False 1 d [of "n mod 10"] show ?thesis by (subst (1 2 3) show_nat.simps) simp
  qed
qed

lemma show_nat_inj: "show_nat m = show_nat n \<longleftrightarrow> m = n"
  using show_nat_digits [of m] show_nat_digits [of n] by (metis of_nat_eq_iff)

lemma show_int_inj [simp]: "show_int i = show_int j \<longleftrightarrow> i = j"
proof -
  have "hd (show_nat n) \<noteq> CHR ''-''" for n
    using show_nat_digits [of n] by (cases "show_nat n") (auto simp: is_digit_def)
  then have "CHR ''-'' # s \<noteq> show_nat n" for s n by (metis list.sel(1))
  then show ?thesis by (auto simp: show_int_def show_nat_inj) metis+
qed

lemma digits_value_show_int: "0 \<le> i \<Longrightarrow> digits_value (show_int i) = Some i"
  using show_nat_digits [of "nat i"] by (simp add: show_int_def digits_value_def)

lemma show_int_zero [simp]: "show_int 0 = ''0''"
  by code_simp

lemma show_int_eq_zero [simp]: "show_int n = ''0'' \<longleftrightarrow> n = 0" "''0'' = show_int n \<longleftrightarrow> n = 0"
  using show_int_inj [of n 0] by auto

end
