(* ===== verification/Coordinator_Reads.thy ===== *)
theory Coordinator_Reads
  imports Maintenance_Store Replication_Store Pagination Js_Digits
begin

text \<open>
  The queries of \<open>coordinator/store.ts\<close> (lines 1429-1475, 1892-1940 and 1957-2297): the rows of
  the two queues as the views the services exchange, filtered, ordered by id and paged. An absent or
  empty filter does not restrict.
\<close>

definition given_matches :: "string option \<Rightarrow> string option \<Rightarrow> bool" where
  "given_matches given column \<longleftrightarrow> (truthy given \<longrightarrow> column = given)"

section \<open>Rows as views\<close>

definition toReplicationJobView :: "replication_row \<Rightarrow> replication_job" where
  "toReplicationJobView row = \<lparr>jv_assignedAgentId = rq_assignedAgentId row,
     jv_assignedAt = map_option iso_string (rq_assignedAt row), jv_assignedWorker = rq_assignedWorker row,
     jv_claimId = rq_claimId row, jv_completedAt = map_option iso_string (rq_completedAt row),
     jv_createdAt = iso_string (rq_createdAt row), jv_evidenceHash = rq_evidenceHash row,
     jv_evidenceURI = rq_evidenceURI row, jv_failureReason = rq_failureReason row,
     jv_jobId = show_int (rq_jobId row), jv_onchainReplicationId = rq_onchainReplicationId row,
     jv_requestedBy = rq_requestedBy row, jv_requestId = rq_requestId row,
     jv_resultArtifactKey = rq_resultArtifactKey row, jv_resultHash = rq_resultHash row,
     jv_specHash = rq_specHash row, jv_specURI = rq_specURI row, jv_status = rq_status row,
     jv_submissionActor = rq_submissionActor row, jv_submissionTxHash = rq_submissionTxHash row,
     jv_submittedAt = map_option iso_string (rq_submittedAt row), jv_updatedAt = iso_string (rq_updatedAt row)\<rparr>"

definition toReplicationJobRunView :: "replication_run_row \<Rightarrow> replication_job_run" where
  "toReplicationJobRunView row = \<lparr>jr_agentId = ru_agentId row, jr_evidenceHash = ru_evidenceHash row,
     jr_evidenceURI = ru_evidenceURI row, jr_executionManifestHash = ru_executionManifestHash row,
     jr_failureReason = ru_failureReason row, jr_finishedAt = map_option iso_string (ru_finishedAt row),
     jr_jobId = show_int (ru_jobId row), jr_lastHeartbeatAt = map_option iso_string (ru_lastHeartbeatAt row),
     jr_requestId = ru_requestId row, jr_resultArtifactKey = ru_resultArtifactKey row,
     jr_resultHash = ru_resultHash row, jr_runId = show_int (ru_runId row),
     jr_startedAt = iso_string (ru_startedAt row), jr_status = ru_status row,
     jr_submissionTxHash = ru_submissionTxHash row, jr_workerId = ru_workerId row\<rparr>"

definition toMaintenanceTaskView :: "maintenance_row \<Rightarrow> maintenance_task" where
  "toMaintenanceTaskView row = \<lparr>mt_artifactKey = mq_artifactKey row, mt_assignedAgentId = mq_assignedAgentId row,
     mt_assignedAt = map_option iso_string (mq_assignedAt row), mt_assignedWorker = mq_assignedWorker row,
     mt_completedAt = map_option iso_string (mq_completedAt row), mt_createdAt = iso_string (mq_createdAt row),
     mt_failureReason = mq_failureReason row, mt_repairLocator = mq_repairLocator row,
     mt_repairSourceReplicaKey = mq_repairSourceReplicaKey row, mt_requestedBy = mq_requestedBy row,
     mt_resultArtifactKey = mq_resultArtifactKey row, mt_status = mq_status row,
     mt_targetProvider = mq_targetProvider row, mt_targetReplicaKey = mq_targetReplicaKey row,
     mt_taskId = show_int (mq_taskId row), mt_taskType = mq_taskType row, mt_updatedAt = iso_string (mq_updatedAt row)\<rparr>"

definition toMaintenanceTaskRunView :: "maintenance_run_row \<Rightarrow> maintenance_task_run" where
  "toMaintenanceTaskRunView row = \<lparr>mr_agentId = mu_agentId row, mr_failureReason = mu_failureReason row,
     mr_finishedAt = map_option iso_string (mu_finishedAt row),
     mr_lastHeartbeatAt = map_option iso_string (mu_lastHeartbeatAt row), mr_runId = show_int (mu_runId row),
     mr_startedAt = iso_string (mu_startedAt row), mr_status = mu_status row,
     mr_summaryArtifactKey = mu_summaryArtifactKey row, mr_taskId = show_int (mu_taskId row),
     mr_workerId = mu_workerId row\<rparr>"

section \<open>Queries\<close>

definition by_id :: "('r \<Rightarrow> int) \<Rightarrow> 'r list \<Rightarrow> 'r list" where
  "by_id key = js_sort (\<lambda>x y. key x - key y)"

record replication_filter =
  jf_assignedAgentId :: "string option"
  jf_assignedWorker :: "string option"
  jf_claimId :: "string option"
  jf_requestedBy :: "string option"
  jf_status :: "job_status option"

definition jobMatches :: "replication_filter \<Rightarrow> replication_row \<Rightarrow> bool" where
  "jobMatches f row \<longleftrightarrow> given_matches (jf_claimId f) (Some (rq_claimId row)) \<and>
     (jf_status f = None \<or> jf_status f = Some (rq_status row)) \<and>
     given_matches (map_option js_lower (jf_requestedBy f)) (Some (js_lower (rq_requestedBy row))) \<and>
     given_matches (jf_assignedWorker f) (rq_assignedWorker row) \<and>
     given_matches (jf_assignedAgentId f) (rq_assignedAgentId row)"

definition queryReplicationJobs :: "(replication_row \<Rightarrow> bool) \<Rightarrow> replication_db \<Rightarrow> replication_job list" where
  "queryReplicationJobs p db = map toReplicationJobView (by_id rq_jobId (filter p (rd_jobs db)))"

definition queryReplicationJobRuns :: "(replication_run_row \<Rightarrow> bool) \<Rightarrow> replication_db \<Rightarrow> replication_job_run list" where
  "queryReplicationJobRuns p db = map toReplicationJobRunView (by_id ru_runId (filter p (rd_runs db)))"

definition readReplicationJobsPage ::
  "replication_filter \<Rightarrow> int option \<Rightarrow> int option \<Rightarrow> replication_db \<Rightarrow> replication_job page" where
  "readReplicationJobsPage f limit offset db = queryPage (queryReplicationJobs (jobMatches f) db) limit offset"

definition readClaimReplicationJobsPage ::
  "string \<Rightarrow> replication_filter \<Rightarrow> int option \<Rightarrow> int option \<Rightarrow> replication_db \<Rightarrow> replication_job page" where
  "readClaimReplicationJobsPage claimId f = readReplicationJobsPage (f\<lparr>jf_claimId := Some claimId\<rparr>)"

definition readReplicationJob :: "int \<Rightarrow> replication_db \<Rightarrow> replication_job option" where
  "readReplicationJob jobId db = (case queryReplicationJobs (\<lambda>t. rq_jobId t = jobId) db of [] \<Rightarrow> None | j # _ \<Rightarrow> Some j)"

definition readReplicationJobRun :: "int \<Rightarrow> replication_db \<Rightarrow> replication_job_run option" where
  "readReplicationJobRun runId db = (case queryReplicationJobRuns (\<lambda>u. ru_runId u = runId) db of [] \<Rightarrow> None | u # _ \<Rightarrow> Some u)"

text \<open>\<open>WHERE job_id = $1\<close> on the printed id of a view.\<close>

definition readReplicationJobRuns :: "string \<Rightarrow> replication_db \<Rightarrow> replication_job_run list" where
  "readReplicationJobRuns jobId = queryReplicationJobRuns (\<lambda>u. show_int (ru_jobId u) = jobId)"

record maintenance_filter =
  af_artifactKey :: "string option"
  af_assignedAgentId :: "string option"
  af_status :: "job_status option"
  af_targetReplicaKey :: "string option"
  af_taskType :: "maintenance_task_type option"

definition maintenanceMatches :: "maintenance_filter \<Rightarrow> maintenance_row \<Rightarrow> bool" where
  "maintenanceMatches f row \<longleftrightarrow> given_matches (af_artifactKey f) (Some (mq_artifactKey row)) \<and>
     (af_taskType f = None \<or> af_taskType f = Some (mq_taskType row)) \<and>
     (af_status f = None \<or> af_status f = Some (mq_status row)) \<and>
     given_matches (af_assignedAgentId f) (mq_assignedAgentId row) \<and>
     given_matches (af_targetReplicaKey f) (mq_targetReplicaKey row)"

definition queryArtifactMaintenanceTasks :: "(maintenance_row \<Rightarrow> bool) \<Rightarrow> maintenance_db \<Rightarrow> maintenance_task list" where
  "queryArtifactMaintenanceTasks p db = map toMaintenanceTaskView (by_id mq_taskId (filter p (md_tasks db)))"

definition queryArtifactMaintenanceTaskRuns ::
  "(maintenance_run_row \<Rightarrow> bool) \<Rightarrow> maintenance_db \<Rightarrow> maintenance_task_run list" where
  "queryArtifactMaintenanceTaskRuns p db = map toMaintenanceTaskRunView (by_id mu_runId (filter p (md_runs db)))"

definition readArtifactMaintenanceTasksPage ::
  "maintenance_filter \<Rightarrow> int option \<Rightarrow> int option \<Rightarrow> maintenance_db \<Rightarrow> maintenance_task page" where
  "readArtifactMaintenanceTasksPage f limit offset db =
     queryPage (queryArtifactMaintenanceTasks (maintenanceMatches f) db) limit offset"

definition readPersistedArtifactMaintenanceTasksPage ::
  "string \<Rightarrow> maintenance_filter \<Rightarrow> int option \<Rightarrow> int option \<Rightarrow> maintenance_db \<Rightarrow> maintenance_task page" where
  "readPersistedArtifactMaintenanceTasksPage artifactKey f =
     readArtifactMaintenanceTasksPage (f\<lparr>af_artifactKey := Some artifactKey\<rparr>)"

definition readArtifactMaintenanceTask :: "int \<Rightarrow> maintenance_db \<Rightarrow> maintenance_task option" where
  "readArtifactMaintenanceTask taskId db =
     (case queryArtifactMaintenanceTasks (\<lambda>t. mq_taskId t = taskId) db of [] \<Rightarrow> None | t # _ \<Rightarrow> Some t)"

definition readArtifactMaintenanceTaskRun :: "int \<Rightarrow> maintenance_db \<Rightarrow> maintenance_task_run option" where
  "readArtifactMaintenanceTaskRun runId db =
     (case queryArtifactMaintenanceTaskRuns (\<lambda>u. mu_runId u = runId) db of [] \<Rightarrow> None | u # _ \<Rightarrow> Some u)"

definition readArtifactMaintenanceTaskRuns :: "string \<Rightarrow> maintenance_db \<Rightarrow> maintenance_task_run list" where
  "readArtifactMaintenanceTaskRuns taskId = queryArtifactMaintenanceTaskRuns (\<lambda>u. show_int (mu_taskId u) = taskId)"

section \<open>Pages\<close>

interpretation replication_pages: paged_rows "\<lambda>limit pos. readReplicationJobsPage f (Some limit) (Some pos) db" "queryReplicationJobs (jobMatches f) db" for f db
  unfolding readReplicationJobsPage_def by (rule query.paged_rows_axioms)

interpretation maintenance_pages: paged_rows "\<lambda>limit pos. readArtifactMaintenanceTasksPage f (Some limit) (Some pos) db" "queryArtifactMaintenanceTasks (maintenanceMatches f) db" for f db
  unfolding readArtifactMaintenanceTasksPage_def by (rule query.paged_rows_axioms)

lemma set_by_id [simp]: "set (by_id key rows) = set rows"
  by (simp add: by_id_def)

lemma set_queryReplicationJobs: "set (queryReplicationJobs p db) = toReplicationJobView ` {t \<in> set (rd_jobs db). p t}"
  by (auto simp: queryReplicationJobs_def)

lemma set_readReplicationJobRuns:
  "set (readReplicationJobRuns jobId db) = toReplicationJobRunView ` {u \<in> set (rd_runs db). show_int (ru_jobId u) = jobId}"
  by (auto simp: readReplicationJobRuns_def queryReplicationJobRuns_def)

end
