(* ===== verification/Review_Rows.thy ===== *)
theory Review_Rows
  imports View_Types Pagination
begin

text \<open>
  The rows of the review tables (\<open>review/store.ts\<close>, migrations 012, 013 and 018) and how they are
  read: the JSON columns are normalised on every read, since they come from callers. Ids are the
  integers of the \<open>BIGSERIAL\<close> columns, times are milliseconds; the views print both.
\<close>

section \<open>Reading JSON\<close>

definition json_field :: "string \<Rightarrow> json \<Rightarrow> json option" where
  "json_field key j = (case j of JObj fs \<Rightarrow> map_of fs key | _ \<Rightarrow> None)"

text \<open>\<open>clampInteger(input: unknown, ...)\<close>: what is no finite number becomes the fallback.\<close>

definition clamp_number :: "json option \<Rightarrow> int \<Rightarrow> int \<Rightarrow> int \<Rightarrow> int" where
  "clamp_number inp minimum maximum fallback =
     (case inp of Some (JNum r) \<Rightarrow> max minimum (min maximum (js_floor r)) | _ \<Rightarrow> fallback)"

definition default_consensus_policy :: consensus_policy where
  "default_consensus_policy = \<lparr>cp_maxSubmissions = 1, cp_minSubmissions = 1, cp_requireDistinctAgents = False\<rparr>"

definition normalizeConsensusPolicy :: "json \<Rightarrow> consensus_policy" where
  "normalizeConsensusPolicy inp =
     (let minSubmissions = clamp_number (json_field ''minSubmissions'' inp) 1 10
            (cp_minSubmissions default_consensus_policy);
          maxSubmissions = clamp_number (json_field ''maxSubmissions'' inp) minSubmissions 10
            (max (cp_maxSubmissions default_consensus_policy) minSubmissions)
      in \<lparr>cp_maxSubmissions = maxSubmissions, cp_minSubmissions = minSubmissions,
          cp_requireDistinctAgents = (case json_field ''requireDistinctAgents'' inp of
             Some (JBool b) \<Rightarrow> b | _ \<Rightarrow> cp_requireDistinctAgents default_consensus_policy)\<rparr>)"

definition consensus_json :: "consensus_policy \<Rightarrow> json" where
  "consensus_json p = JObj [(''maxSubmissions'', JNum (of_int (cp_maxSubmissions p))),
     (''minSubmissions'', JNum (of_int (cp_minSubmissions p))),
     (''requireDistinctAgents'', JBool (cp_requireDistinctAgents p))]"

definition normalizeStringArray :: "json \<Rightarrow> string list" where
  "normalizeStringArray inp =
     (case inp of
        JArr entries \<Rightarrow> filter (\<lambda>s. length s > 0)
          (map js_trim (List.map_filter (\<lambda>e. case e of JStr s \<Rightarrow> Some s | _ \<Rightarrow> None) entries))
      | _ \<Rightarrow> [])"

definition string_array_json :: "string list \<Rightarrow> json" where
  "string_array_json ss = JArr (map JStr ss)"

fun show_dimension :: "review_dimension \<Rightarrow> string" where
  "show_dimension ArtifactCompleteness = ''artifactCompleteness''"
| "show_dimension ArtifactIntegrity = ''artifactIntegrity''"
| "show_dimension CertificationReadiness = ''certificationReadiness''"
| "show_dimension ChallengePressure = ''challengePressure''"
| "show_dimension ContradictionPressure = ''contradictionPressure''"
| "show_dimension ForecastSupport = ''forecastSupport''"
| "show_dimension MethodConsistency = ''methodConsistency''"
| "show_dimension ReplicationSupport = ''replicationSupport''"
| "show_dimension ReproducibilityReadiness = ''reproducibilityReadiness''"
| "show_dimension ReviewCoverage = ''reviewCoverage''"
| "show_dimension ReviewDiversity = ''reviewDiversity''"
| "show_dimension ReviewFreshness = ''reviewFreshness''"
| "show_dimension StatisticalSanity = ''statisticalSanity''"

definition normalizeDimensionScores :: "json \<Rightarrow> review_dimension \<Rightarrow> int option" where
  "normalizeDimensionScores inp dimension =
     map_option (\<lambda>j. clamp_number (Some j) 0 10000 0) (json_field (show_dimension dimension) inp)"

definition dimension_json :: "(review_dimension \<Rightarrow> int option) \<Rightarrow> json" where
  "dimension_json scores = JObj (List.map_filter
     (\<lambda>d. map_option (\<lambda>n. (show_dimension d, JNum (of_int n))) (scores d)) review_dimensions)"

text \<open>The normalisers of enumerations: the values of a column that is not in the list throw.\<close>

definition review_task_types :: "review_task_type list" where
  "review_task_types = [Artifact_completeness_check, Artifact_integrity_check, Benchmark_rerun_check,
     Certification_synthesis_check, Claim_extraction_check, Claim_extraction_synthesis_check,
     Contradiction_scan, Method_consistency_check, Replication_readiness_check, Stats_sanity_check]"

definition parse_enum :: "('a \<Rightarrow> string) \<Rightarrow> 'a list \<Rightarrow> json \<Rightarrow> 'a option" where
  "parse_enum print values inp =
     (case inp of JStr s \<Rightarrow> List.find (\<lambda>v. print v = s) values | _ \<Rightarrow> None)"

definition normalizeTaskType :: "json \<Rightarrow> review_task_type option" where
  "normalizeTaskType = parse_enum show_review_task_type review_task_types"

definition normalizeVerdict :: "json \<Rightarrow> review_verdict option" where
  "normalizeVerdict = parse_enum show_verdict [Verdict_pass, Verdict_fail, Verdict_flag, Verdict_inconclusive]"

fun show_issue_severity :: "issue_severity \<Rightarrow> string" where
  "show_issue_severity Sev_critical = ''critical''"
| "show_issue_severity Sev_high = ''high''"
| "show_issue_severity Sev_low = ''low''"
| "show_issue_severity Sev_medium = ''medium''"

fun show_issue_status :: "issue_status \<Rightarrow> string" where
  "show_issue_status Issue_dismissed = ''dismissed''"
| "show_issue_status Issue_open = ''open''"
| "show_issue_status Issue_resolved = ''resolved''"
| "show_issue_status Issue_responded = ''responded''"

fun show_review_task_status :: "review_task_status \<Rightarrow> string" where
  "show_review_task_status RT_canceled = ''canceled''"
| "show_review_task_status RT_completed = ''completed''"
| "show_review_task_status RT_escalated = ''escalated''"
| "show_review_task_status RT_open = ''open''"

fun show_run_status :: "run_status \<Rightarrow> string" where
  "show_run_status Run_completed = ''completed''"
| "show_run_status Run_failed = ''failed''"
| "show_run_status Run_running = ''running''"

definition normalizeIssueSeverity :: "json \<Rightarrow> issue_severity option" where
  "normalizeIssueSeverity = parse_enum show_issue_severity [Sev_low, Sev_medium, Sev_high, Sev_critical]"

definition normalizeIssueStatus :: "json \<Rightarrow> issue_status option" where
  "normalizeIssueStatus = parse_enum show_issue_status [Issue_open, Issue_responded, Issue_resolved, Issue_dismissed]"

definition normalizeTaskStatus :: "json \<Rightarrow> review_task_status option" where
  "normalizeTaskStatus = parse_enum show_review_task_status [RT_open, RT_completed, RT_escalated, RT_canceled]"

definition normalizeRunStatus :: "json \<Rightarrow> run_status option" where
  "normalizeRunStatus = parse_enum show_run_status [Run_running, Run_completed, Run_failed]"

section \<open>Rows\<close>

record review_task_row =
  kt_taskId :: int
  kt_claimId :: "string option"
  kt_sourceId :: "string option"
  kt_subjectType :: review_subject_type
  kt_subjectId :: string
  kt_taskType :: review_task_type
  kt_scopeKey :: string
  kt_schemaVersion :: string
  kt_status :: review_task_status
  kt_requestedBy :: string
  kt_requiredCapabilities :: json
  kt_inputArtifactKeys :: json
  kt_consensusPolicy :: json
  kt_resultArtifactKey :: "string option"
  kt_failureReason :: "string option"
  kt_createdAt :: int
  kt_updatedAt :: int
  kt_completedAt :: "int option"

record review_run_row =
  ku_runId :: int
  ku_taskId :: int
  ku_workerId :: string
  ku_agentId :: "string option"
  ku_status :: run_status
  ku_failureReason :: "string option"
  ku_lastHeartbeatAt :: "int option"
  ku_startedAt :: int
  ku_finishedAt :: "int option"

record review_submission_row =
  ks_submissionId :: int
  ks_taskId :: int
  ks_runId :: "int option"
  ks_claimId :: "string option"
  ks_sourceId :: "string option"
  ks_reviewerActor :: string
  ks_reviewerAgentId :: "string option"
  ks_reviewType :: review_task_type
  ks_verdict :: review_verdict
  ks_confidenceBps :: int
  ks_evidenceArtifactKey :: "string option"
  ks_resultArtifactKey :: "string option"
  ks_schemaVersion :: string
  ks_dimensions :: json
  ks_payload :: "(string \<times> json) list"
  ks_createdAt :: int

record review_issue_row =
  ki_issueId :: int
  ki_submissionId :: int
  ki_severity :: issue_severity
  ki_category :: string
  ki_summary :: string
  ki_artifactAnchor :: "(string \<times> json) list"
  ki_status :: issue_status
  ki_createdAt :: int
  ki_updatedAt :: int

record review_response_row =
  kr_responseId :: int
  kr_claimId :: string
  kr_responderActor :: string
  kr_responseArtifactKey :: string
  kr_issueIds :: json
  kr_summary :: string
  kr_createdAt :: int

definition mapReviewTaskRow :: "review_task_row \<Rightarrow> review_task" where
  "mapReviewTaskRow row = \<lparr>rt_claimId = kt_claimId row,
     rt_completedAt = map_option iso_string (kt_completedAt row),
     rt_consensusPolicy = normalizeConsensusPolicy (kt_consensusPolicy row),
     rt_createdAt = iso_string (kt_createdAt row), rt_failureReason = kt_failureReason row,
     rt_inputArtifactKeys = normalizeStringArray (kt_inputArtifactKeys row),
     rt_requestedBy = kt_requestedBy row,
     rt_requiredCapabilities = normalizeStringArray (kt_requiredCapabilities row),
     rt_resultArtifactKey = kt_resultArtifactKey row, rt_schemaVersion = kt_schemaVersion row,
     rt_scopeKey = kt_scopeKey row, rt_sourceId = kt_sourceId row, rt_subjectId = kt_subjectId row,
     rt_subjectType = kt_subjectType row, rt_status = kt_status row, rt_taskId = show_int (kt_taskId row),
     rt_taskType = kt_taskType row, rt_updatedAt = iso_string (kt_updatedAt row)\<rparr>"

definition mapReviewTaskRunRow :: "review_run_row \<Rightarrow> review_task_run" where
  "mapReviewTaskRunRow row = \<lparr>rr_agentId = ku_agentId row, rr_failureReason = ku_failureReason row,
     rr_finishedAt = map_option iso_string (ku_finishedAt row),
     rr_lastHeartbeatAt = map_option iso_string (ku_lastHeartbeatAt row),
     rr_runId = show_int (ku_runId row), rr_startedAt = iso_string (ku_startedAt row),
     rr_status = ku_status row, rr_taskId = show_int (ku_taskId row), rr_workerId = ku_workerId row\<rparr>"

definition mapReviewSubmissionRow :: "review_submission_row \<Rightarrow> review_submission" where
  "mapReviewSubmissionRow row = \<lparr>rs_claimId = ks_claimId row,
     rs_confidenceBps = clamp_number (Some (JNum (of_int (ks_confidenceBps row)))) 0 10000 0,
     rs_createdAt = iso_string (ks_createdAt row),
     rs_dimensions = normalizeDimensionScores (ks_dimensions row),
     rs_evidenceArtifactKey = ks_evidenceArtifactKey row, rs_payload = ks_payload row,
     rs_resultArtifactKey = ks_resultArtifactKey row, rs_reviewType = ks_reviewType row,
     rs_reviewerActor = ks_reviewerActor row, rs_reviewerAgentId = ks_reviewerAgentId row,
     rs_runId = map_option show_int (ks_runId row), rs_schemaVersion = ks_schemaVersion row,
     rs_sourceId = ks_sourceId row, rs_submissionId = show_int (ks_submissionId row),
     rs_taskId = show_int (ks_taskId row), rs_verdict = ks_verdict row\<rparr>"

definition mapReviewIssueRow :: "review_issue_row \<Rightarrow> review_issue" where
  "mapReviewIssueRow row = \<lparr>ri_artifactAnchor = ki_artifactAnchor row, ri_category = ki_category row,
     ri_createdAt = iso_string (ki_createdAt row), ri_issueId = show_int (ki_issueId row),
     ri_status = ki_status row, ri_severity = ki_severity row,
     ri_submissionId = show_int (ki_submissionId row), ri_summary = ki_summary row,
     ri_updatedAt = iso_string (ki_updatedAt row)\<rparr>"

definition mapReviewAuthorResponseRow :: "review_response_row \<Rightarrow> review_author_response" where
  "mapReviewAuthorResponseRow row = \<lparr>ra_claimId = kr_claimId row, ra_createdAt = iso_string (kr_createdAt row),
     ra_issueIds = normalizeStringArray (kr_issueIds row), ra_responderActor = kr_responderActor row,
     ra_responseArtifactKey = kr_responseArtifactKey row, ra_responseId = show_int (kr_responseId row),
     ra_summary = kr_summary row\<rparr>"

section \<open>What is written is read back\<close>

lemma clamp_number_bounds [bounds_intros]:
  "minimum \<le> maximum \<Longrightarrow> minimum \<le> fallback \<Longrightarrow> minimum \<le> clamp_number inp minimum maximum fallback"
  "minimum \<le> maximum \<Longrightarrow> fallback \<le> maximum \<Longrightarrow> clamp_number inp minimum maximum fallback \<le> maximum"
  by (simp_all add: clamp_number_def split: option.split json.split)

lemma clamp_number_of_int:
  "minimum \<le> n \<Longrightarrow> n \<le> maximum \<Longrightarrow> clamp_number (Some (JNum (of_int n))) minimum maximum fallback = n"
  by (simp add: clamp_number_def)

definition consensus_policy_ok :: "consensus_policy \<Rightarrow> bool" where
  "consensus_policy_ok p \<longleftrightarrow> 1 \<le> cp_minSubmissions p \<and> cp_minSubmissions p \<le> cp_maxSubmissions p \<and>
     cp_maxSubmissions p \<le> 10"

lemma normalizeConsensusPolicy_ok: "consensus_policy_ok (normalizeConsensusPolicy j)"
proof -
  have m: "1 \<le> clamp_number x 1 10 1" "clamp_number x 1 10 1 \<le> 10" for x by (simp_all add: bounds_intros)
  then have "m \<le> clamp_number y m 10 (max 1 m)" "clamp_number y m 10 (max 1 m) \<le> 10"
    if "m = clamp_number x 1 10 1" for x y m
    using that by (auto intro!: clamp_number_bounds)
  with m show ?thesis
    by (simp add: consensus_policy_ok_def normalizeConsensusPolicy_def Let_def default_consensus_policy_def)
qed

lemma consensus_roundtrip:
  assumes "consensus_policy_ok p"
  shows "normalizeConsensusPolicy (consensus_json p) = p"
  using assms by (simp add: normalizeConsensusPolicy_def consensus_json_def json_field_def Let_def
      clamp_number_of_int consensus_policy_ok_def)

lemma dimension_fields:
  assumes "distinct ds"
  shows "map_of (List.map_filter (\<lambda>d. map_option (\<lambda>n. (show_dimension d, f n)) (scores d)) ds) (show_dimension d) =
    (if d \<in> set ds then map_option f (scores d) else None)"
proof -
  have inj: "show_dimension d = show_dimension e \<longleftrightarrow> d = e" for d e
    by (cases d; cases e; simp)
  show ?thesis using assms
    by (induction ds) (auto simp: List.map_filter_simps inj split: option.split)
qed

lemma dimension_roundtrip:
  assumes "\<And>d n. scores d = Some n \<Longrightarrow> 0 \<le> n \<and> n \<le> 10000"
  shows "normalizeDimensionScores (dimension_json scores) = scores"
proof
  fix d
  have "distinct review_dimensions" by (simp add: review_dimensions_def)
  from dimension_fields [OF this, of "\<lambda>n. JNum (of_int n)" scores d]
  have "json_field (show_dimension d) (dimension_json scores) = map_option (\<lambda>n. JNum (of_int n)) (scores d)"
    by (simp add: json_field_def dimension_json_def review_dimensions_complete)
  then show "normalizeDimensionScores (dimension_json scores) d = scores d"
    using assms [of d] by (cases "scores d") (simp_all add: normalizeDimensionScores_def clamp_number_of_int)
qed

lemma normalizeDimensionScores_bounds:
  "normalizeDimensionScores j d = Some n \<Longrightarrow> 0 \<le> n \<and> n \<le> 10000"
  by (auto simp: normalizeDimensionScores_def bounds_intros)

lemma dropWhile_idem_rev:
  assumes "s = [] \<or> \<not> p (hd s)"
  shows "rev (dropWhile p (rev s)) = [] \<or> \<not> p (hd (rev (dropWhile p (rev s))))"
proof (cases "rev (dropWhile p (rev s))")
  case (Cons c cs)
  have "rev (dropWhile p (rev s)) @ rev (takeWhile p (rev s)) = s"
    by (metis rev_append rev_rev_ident takeWhile_dropWhile_id)
  then have "hd s = c" using Cons by (metis append_Cons list.sel(1))
  moreover have "s \<noteq> []" using Cons by auto
  ultimately show ?thesis using assms Cons by simp
qed simp

lemma js_trim_idem [simp]: "js_trim (js_trim s) = js_trim s"
proof -
  let ?u = "dropWhile is_space s"
  let ?t = "rev (dropWhile is_space (rev ?u))"
  have "?u = [] \<or> \<not> is_space (hd ?u)" using hd_dropWhile [of is_space s] by (cases ?u) auto
  then have "?t = [] \<or> \<not> is_space (hd ?t)" by (rule dropWhile_idem_rev)
  then have "dropWhile is_space ?t = ?t" by (simp only: dropWhile_eq_self_iff)
  then show ?thesis by (simp add: js_trim_def)
qed

lemma string_array_roundtrip:
  "normalizeStringArray (string_array_json (normalizeStringArray j)) = normalizeStringArray j"
proof -
  have m: "List.map_filter (\<lambda>e. case e of JStr s \<Rightarrow> Some s | _ \<Rightarrow> None) (map JStr ss) = ss" for ss
    by (induction ss) (simp_all add: List.map_filter_simps)
  have t: "filter (\<lambda>s. s \<noteq> []) (map js_trim (filter (\<lambda>s. s \<noteq> []) (map js_trim us))) =
      filter (\<lambda>s. s \<noteq> []) (map js_trim us)" for us
    by (induction us) auto
  show ?thesis
    by (cases j) (simp_all add: normalizeStringArray_def string_array_json_def m t)
qed

lemma parse_enum_roundtrip:
  assumes "v \<in> set values" and "inj print"
  shows "parse_enum print values (JStr (print v)) = Some v"
  using assms(1) by (induction "values") (auto simp: parse_enum_def inj_eq [OF assms(2)])

lemma show_inj [simp]: "inj show_review_task_type" "inj show_verdict" "inj show_issue_severity"
  "inj show_issue_status" "inj show_review_task_status" "inj show_run_status"
proof -
  show "inj show_review_task_type" by (rule injI) (case_tac x; case_tac y; simp)
  show "inj show_verdict" by (rule injI) (case_tac x; case_tac y; simp)
  show "inj show_issue_severity" by (rule injI) (case_tac x; case_tac y; simp)
  show "inj show_issue_status" by (rule injI) (case_tac x; case_tac y; simp)
  show "inj show_review_task_status" by (rule injI) (case_tac x; case_tac y; simp)
  show "inj show_run_status" by (rule injI) (case_tac x; case_tac y; simp)
qed

lemma enum_roundtrips:
  "normalizeTaskType (JStr (show_review_task_type ty)) = Some ty"
  "normalizeVerdict (JStr (show_verdict v)) = Some v"
  "normalizeIssueSeverity (JStr (show_issue_severity sev)) = Some sev"
  "normalizeIssueStatus (JStr (show_issue_status ist)) = Some ist"
  "normalizeTaskStatus (JStr (show_review_task_status st)) = Some st"
  "normalizeRunStatus (JStr (show_run_status r)) = Some r"
proof -
  show "normalizeTaskType (JStr (show_review_task_type ty)) = Some ty" unfolding normalizeTaskType_def
    by (rule parse_enum_roundtrip; cases ty) (simp_all add: review_task_types_def)
  show "normalizeVerdict (JStr (show_verdict v)) = Some v" unfolding normalizeVerdict_def
    by (rule parse_enum_roundtrip; cases v) simp_all
  show "normalizeIssueSeverity (JStr (show_issue_severity sev)) = Some sev" unfolding normalizeIssueSeverity_def
    by (rule parse_enum_roundtrip; cases sev) simp_all
  show "normalizeIssueStatus (JStr (show_issue_status ist)) = Some ist" unfolding normalizeIssueStatus_def
    by (rule parse_enum_roundtrip; cases ist) simp_all
  show "normalizeTaskStatus (JStr (show_review_task_status st)) = Some st" unfolding normalizeTaskStatus_def
    by (rule parse_enum_roundtrip; cases st) simp_all
  show "normalizeRunStatus (JStr (show_run_status r)) = Some r" unfolding normalizeRunStatus_def
    by (rule parse_enum_roundtrip; cases r) simp_all
qed


end
