(* ===== verification/Review_Store.thy ===== *)
theory Review_Store
  imports Review_Rows Tables
begin

text \<open>
  The review queue of \<open>review/store.ts\<close>: its five tables, the transactions on them, the page
  queries, and the task lookup of \<open>review/worker.ts\<close>. \<open>now\<close> is the transaction's \<open>NOW()\<close>, \<open>clock\<close>
  the client's \<open>Date.now()\<close>. An operation that throws has an \<open>Inl\<close>, an operation that rolls back
  and returns null or undefined a \<open>None\<close>; both leave the tables as they were. The unique indexes of
  migrations 012 and 018 are part of the operations; the foreign keys into the tables of claims,
  sources and artifacts are not.
\<close>

record review_db =
  rb_tasks :: "review_task_row list"
  rb_runs :: "review_run_row list"
  rb_submissions :: "review_submission_row list"
  rb_issues :: "review_issue_row list"
  rb_responses :: "review_response_row list"
  rb_nextTask :: int
  rb_nextRun :: int
  rb_nextSubmission :: int
  rb_nextIssue :: int
  rb_nextResponse :: int

definition review_empty :: review_db where
  "review_empty = \<lparr>rb_tasks = [], rb_runs = [], rb_submissions = [], rb_issues = [], rb_responses = [],
     rb_nextTask = 1, rb_nextRun = 1, rb_nextSubmission = 1, rb_nextIssue = 1, rb_nextResponse = 1\<rparr>"

datatype review_error = Subject_required | Task_not_found | Run_not_found | Run_not_running
  | Run_agent_mismatch | Agent_already_submitted | Unique_violation

section \<open>Page queries\<close>

text \<open>\<open>if (options.x) clauses.push(...)\<close>: an absent or empty option does not restrict.\<close>

definition restricts :: "string option \<Rightarrow> string option \<Rightarrow> bool" where
  "restricts given column \<longleftrightarrow> (truthy given \<longrightarrow> column = given)"

record review_task_filter =
  tf_claimId :: "string option"
  tf_sourceId :: "string option"
  tf_status :: "review_task_status option"
  tf_taskType :: "review_task_type option"

definition taskMatches :: "review_task_filter \<Rightarrow> review_task_row \<Rightarrow> bool" where
  "taskMatches f t \<longleftrightarrow> restricts (tf_claimId f) (kt_claimId t) \<and> restricts (tf_sourceId f) (kt_sourceId t) \<and>
     (tf_status f = None \<or> tf_status f = Some (kt_status t)) \<and>
     (tf_taskType f = None \<or> tf_taskType f = Some (kt_taskType t))"

text \<open>\<open>ORDER BY created_at DESC, id DESC\<close>\<close>

definition newest_first :: "('r \<Rightarrow> int) \<Rightarrow> ('r \<Rightarrow> int) \<Rightarrow> 'r list \<Rightarrow> 'r list" where
  "newest_first created key rows = js_sort
     (\<lambda>x y. if created y - created x \<noteq> 0 then created y - created x else key y - key x) rows"

definition selectReviewTasks :: "review_task_filter \<Rightarrow> review_db \<Rightarrow> review_task list" where
  "selectReviewTasks f db =
     map mapReviewTaskRow (newest_first kt_createdAt kt_taskId (filter (taskMatches f) (rb_tasks db)))"

definition readReviewTasksPage ::
  "review_task_filter \<Rightarrow> int option \<Rightarrow> int option \<Rightarrow> review_db \<Rightarrow> review_task page" where
  "readReviewTasksPage f limit offset db = queryPage (selectReviewTasks f db) limit offset"

record review_submission_filter =
  sf_claimId :: "string option"
  sf_sourceId :: "string option"
  sf_taskId :: "int option"
  sf_reviewerAgentId :: "string option"
  sf_verdict :: "review_verdict option"

definition submissionMatches :: "review_submission_filter \<Rightarrow> review_submission_row \<Rightarrow> bool" where
  "submissionMatches f s \<longleftrightarrow> restricts (sf_claimId f) (ks_claimId s) \<and>
     restricts (sf_sourceId f) (ks_sourceId s) \<and> (sf_taskId f = None \<or> sf_taskId f = Some (ks_taskId s)) \<and>
     restricts (sf_reviewerAgentId f) (ks_reviewerAgentId s) \<and>
     (sf_verdict f = None \<or> sf_verdict f = Some (ks_verdict s))"

definition selectReviewSubmissions :: "review_submission_filter \<Rightarrow> review_db \<Rightarrow> review_submission list" where
  "selectReviewSubmissions f db = map mapReviewSubmissionRow
     (newest_first ks_createdAt ks_submissionId (filter (submissionMatches f) (rb_submissions db)))"

definition readReviewSubmissionsPage ::
  "review_submission_filter \<Rightarrow> int option \<Rightarrow> int option \<Rightarrow> review_db \<Rightarrow> review_submission page" where
  "readReviewSubmissionsPage f limit offset db = queryPage (selectReviewSubmissions f db) limit offset"

record review_issue_filter =
  if_claimId :: "string option"
  if_severity :: "issue_severity option"
  if_status :: "issue_status option"
  if_taskId :: "int option"

text \<open>The join with the submissions is made only for the filters that need it.\<close>

definition issueMatches :: "review_issue_filter \<Rightarrow> review_db \<Rightarrow> review_issue_row \<Rightarrow> bool" where
  "issueMatches f db i \<longleftrightarrow>
     (truthy (if_claimId f) \<or> if_taskId f \<noteq> None \<longrightarrow>
        list_ex (\<lambda>s. ks_submissionId s = ki_submissionId i \<and> restricts (if_claimId f) (ks_claimId s) \<and>
           (if_taskId f = None \<or> if_taskId f = Some (ks_taskId s))) (rb_submissions db)) \<and>
     (if_status f = None \<or> if_status f = Some (ki_status i)) \<and>
     (if_severity f = None \<or> if_severity f = Some (ki_severity i))"

definition selectReviewIssues :: "review_issue_filter \<Rightarrow> review_db \<Rightarrow> review_issue list" where
  "selectReviewIssues f db = map mapReviewIssueRow
     (newest_first ki_createdAt ki_issueId (filter (issueMatches f db) (rb_issues db)))"

definition readReviewIssuesPage ::
  "review_issue_filter \<Rightarrow> int option \<Rightarrow> int option \<Rightarrow> review_db \<Rightarrow> review_issue page" where
  "readReviewIssuesPage f limit offset db = queryPage (selectReviewIssues f db) limit offset"

definition selectReviewAuthorResponses :: "string option \<Rightarrow> review_db \<Rightarrow> review_author_response list" where
  "selectReviewAuthorResponses claimId db = map mapReviewAuthorResponseRow
     (newest_first kr_createdAt kr_responseId
        (filter (\<lambda>r. restricts claimId (Some (kr_claimId r))) (rb_responses db)))"

definition readReviewAuthorResponsesPage ::
  "string option \<Rightarrow> int option \<Rightarrow> int option \<Rightarrow> review_db \<Rightarrow> review_author_response page" where
  "readReviewAuthorResponsesPage claimId limit offset db =
     queryPage (selectReviewAuthorResponses claimId db) limit offset"

definition readReviewTask :: "int \<Rightarrow> review_db \<Rightarrow> review_task option" where
  "readReviewTask taskId db = map_option mapReviewTaskRow (find_by kt_taskId taskId (rb_tasks db))"

definition readReviewTaskRun :: "int \<Rightarrow> review_db \<Rightarrow> review_task_run option" where
  "readReviewTaskRun runId db = map_option mapReviewTaskRunRow (find_by ku_runId runId (rb_runs db))"

definition readReviewTaskRuns :: "string \<Rightarrow> review_db \<Rightarrow> review_task_run list" where
  "readReviewTaskRuns taskId db = map mapReviewTaskRunRow
     (newest_first ku_startedAt ku_runId (filter (\<lambda>u. show_int (ku_taskId u) = taskId) (rb_runs db)))"

definition readReviewSubmission :: "int \<Rightarrow> review_db \<Rightarrow> review_submission option" where
  "readReviewSubmission submissionId db =
     map_option mapReviewSubmissionRow (find_by ks_submissionId submissionId (rb_submissions db))"

definition readReviewAuthorResponse :: "int \<Rightarrow> review_db \<Rightarrow> review_author_response option" where
  "readReviewAuthorResponse responseId db =
     map_option mapReviewAuthorResponseRow (find_by kr_responseId responseId (rb_responses db))"

section \<open>Creating tasks\<close>

record review_task_input =
  ti_claimId :: "string option"
  ti_consensusPolicy :: "(string \<times> json) list"
  ti_inputArtifactKeys :: "string list option"
  ti_requestedBy :: string
  ti_requiredCapabilities :: "string list option"
  ti_schemaVersion :: "string option"
  ti_scopeKey :: "string option"
  ti_sourceId :: "string option"
  ti_sourceSubjectId :: "string option"
  ti_sourceSubjectType :: "review_subject_type option"
  ti_taskType :: review_task_type

text \<open>\<open>x?.trim() || null\<close>\<close>

definition trimmed :: "string option \<Rightarrow> string option" where
  "trimmed x = (case x of None \<Rightarrow> None | Some s \<Rightarrow> if js_trim s = [] then None else Some (js_trim s))"

text \<open>\<open>{...DEFAULT_CONSENSUS_POLICY, ...input.consensusPolicy}\<close>\<close>

definition merged_policy :: "(string \<times> json) list \<Rightarrow> json" where
  "merged_policy given = JObj (given @ (case consensus_json default_consensus_policy of JObj fs \<Rightarrow> fs | _ \<Rightarrow> []))"

definition new_review_task ::
  "int \<Rightarrow> int \<Rightarrow> review_task_input \<Rightarrow> review_subject_type \<Rightarrow> string \<Rightarrow> string \<Rightarrow> review_task_row" where
  "new_review_task now taskId inp subjectType subjectId scopeKey =
     \<lparr>kt_taskId = taskId, kt_claimId = trimmed (ti_claimId inp), kt_sourceId = trimmed (ti_sourceId inp),
      kt_subjectType = subjectType, kt_subjectId = subjectId, kt_taskType = ti_taskType inp,
      kt_scopeKey = scopeKey, kt_schemaVersion = nullish (ti_schemaVersion inp) ''review-task.v1'',
      kt_status = RT_open, kt_requestedBy = ti_requestedBy inp,
      kt_requiredCapabilities = string_array_json (nullish (ti_requiredCapabilities inp) []),
      kt_inputArtifactKeys = string_array_json (nullish (ti_inputArtifactKeys inp) []),
      kt_consensusPolicy = consensus_json (normalizeConsensusPolicy (merged_policy (ti_consensusPolicy inp))),
      kt_resultArtifactKey = None, kt_failureReason = None, kt_createdAt = now, kt_updatedAt = now,
      kt_completedAt = None\<rparr>"

definition same_subject ::
  "review_subject_type \<Rightarrow> string \<Rightarrow> review_task_type \<Rightarrow> string \<Rightarrow> review_task_row \<Rightarrow> bool" where
  "same_subject subjectType subjectId taskType scopeKey t \<longleftrightarrow> kt_subjectType t = subjectType \<and>
     kt_subjectId t = subjectId \<and> kt_taskType t = taskType \<and> kt_scopeKey t = scopeKey \<and> kt_status t = RT_open"

text \<open>The older unique index on \<open>(claim_id, task_type, scope_key)\<close>; nulls are distinct.\<close>

definition claim_identity_taken :: "review_task_row \<Rightarrow> review_db \<Rightarrow> bool" where
  "claim_identity_taken row db \<longleftrightarrow> kt_claimId row \<noteq> None \<and>
     list_ex (\<lambda>t. kt_claimId t = kt_claimId row \<and> kt_taskType t = kt_taskType row \<and>
        kt_scopeKey t = kt_scopeKey row \<and> kt_status t = RT_open) (rb_tasks db)"

definition createReviewTask ::
  "int \<Rightarrow> review_task_input \<Rightarrow> review_db \<Rightarrow> review_error + review_db \<times> review_task" where
  "createReviewTask now inp db =
     (let scopeKey = nullish (trimmed (ti_scopeKey inp)) (show_review_task_type (ti_taskType inp));
          claimId = trimmed (ti_claimId inp); sourceId = trimmed (ti_sourceId inp);
          subjectType = nullish (ti_sourceSubjectType inp) Subject_claim;
          subject = (if subjectType = Subject_source_record
            then orelse (trimmed (ti_sourceSubjectId inp)) sourceId else claimId)
      in case subject of
           None \<Rightarrow> Inl Subject_required
         | Some subjectId \<Rightarrow>
             (case js_sort (\<lambda>x y. kt_taskId x - kt_taskId y)
                     (filter (same_subject subjectType subjectId (ti_taskType inp) scopeKey) (rb_tasks db)) of
                existing # _ \<Rightarrow> Inr (db, mapReviewTaskRow existing)
              | [] \<Rightarrow>
                  let row = new_review_task now (rb_nextTask db) inp subjectType subjectId scopeKey
                  in if claim_identity_taken row db
                     then (case filter (\<lambda>t. rt_scopeKey t = scopeKey)
                              (fst (readReviewTasksPage \<lparr>tf_claimId = claimId, tf_sourceId = sourceId,
                                 tf_status = Some RT_open, tf_taskType = Some (ti_taskType inp)\<rparr>
                                 (Some 1) (Some 0) db)) of
                             task # _ \<Rightarrow> Inr (db, task)
                           | [] \<Rightarrow> Inl Unique_violation)
                     else Inr (db\<lparr>rb_tasks := rb_tasks db @ [row], rb_nextTask := rb_nextTask db + 1\<rparr>,
                               mapReviewTaskRow row)))"

section \<open>Claiming\<close>

definition countReviewTaskCompletedSubmissions :: "int \<Rightarrow> review_db \<Rightarrow> int" where
  "countReviewTaskCompletedSubmissions taskId db = count_if (\<lambda>s. ks_taskId s = taskId) (rb_submissions db)"

definition countReviewTaskRunningRuns :: "int \<Rightarrow> review_db \<Rightarrow> int" where
  "countReviewTaskRunningRuns taskId db =
     count_if (\<lambda>u. ku_taskId u = taskId \<and> ku_status u = Run_running) (rb_runs db)"

definition agent_submitted :: "int \<Rightarrow> string option \<Rightarrow> review_db \<Rightarrow> bool" where
  "agent_submitted taskId agentId db \<longleftrightarrow>
     list_ex (\<lambda>s. ks_taskId s = taskId \<and> ks_reviewerAgentId s = agentId) (rb_submissions db)"

definition agent_running :: "int \<Rightarrow> string option \<Rightarrow> review_db \<Rightarrow> bool" where
  "agent_running taskId agentId db \<longleftrightarrow>
     list_ex (\<lambda>u. ku_taskId u = taskId \<and> ku_agentId u = agentId \<and> ku_status u = Run_running) (rb_runs db)"

definition touch_task :: "int \<Rightarrow> int \<Rightarrow> review_task_row list \<Rightarrow> review_task_row list" where
  "touch_task now taskId = update_where (\<lambda>t. kt_taskId t = taskId) (\<lambda>t. t\<lparr>kt_updatedAt := now\<rparr>)"

text \<open>The unique index on the running runs of a task by agent and worker.\<close>

definition running_identity_taken :: "int \<Rightarrow> string option \<Rightarrow> string \<Rightarrow> review_db \<Rightarrow> bool" where
  "running_identity_taken taskId agentId workerId db \<longleftrightarrow>
     list_ex (\<lambda>u. ku_taskId u = taskId \<and> nullish (ku_agentId u) [] = nullish agentId [] \<and>
        ku_workerId u = workerId \<and> ku_status u = Run_running) (rb_runs db)"

definition new_review_run :: "int \<Rightarrow> int \<Rightarrow> int \<Rightarrow> string option \<Rightarrow> string \<Rightarrow> review_run_row" where
  "new_review_run now runId taskId agentId workerId =
     \<lparr>ku_runId = runId, ku_taskId = taskId, ku_workerId = workerId, ku_agentId = agentId,
      ku_status = Run_running, ku_failureReason = None, ku_lastHeartbeatAt = Some now,
      ku_startedAt = now, ku_finishedAt = None\<rparr>"

definition claimReviewTaskById ::
  "int \<Rightarrow> string option \<Rightarrow> int \<Rightarrow> string \<Rightarrow> review_db \<Rightarrow>
   review_error + (review_db \<times> review_run_row) option" where
  "claimReviewTaskById now agentId taskId workerId db =
     (case find_by kt_taskId taskId (rb_tasks db) of
        None \<Rightarrow> Inr None
      | Some row \<Rightarrow>
          let policy = normalizeConsensusPolicy (kt_consensusPolicy row);
              completed = countReviewTaskCompletedSubmissions taskId db;
              running = countReviewTaskRunningRuns taskId db
          in if kt_status row \<noteq> RT_open then Inr None
             else if completed \<ge> cp_maxSubmissions policy then Inr None
             else if completed + running \<ge> cp_maxSubmissions policy then Inr None
             else if truthy agentId \<and> cp_requireDistinctAgents policy \<and>
                (agent_submitted taskId agentId db \<or> agent_running taskId agentId db) then Inr None
             else if running_identity_taken taskId agentId workerId db then Inl Unique_violation
             else let run = new_review_run now (rb_nextRun db) taskId agentId workerId
                  in Inr (Some (db\<lparr>rb_runs := rb_runs db @ [run], rb_nextRun := rb_nextRun db + 1,
                       rb_tasks := touch_task now taskId (rb_tasks db)\<rparr>, run)))"

section \<open>Failing, heartbeating, expiring\<close>

definition fail_run :: "int \<Rightarrow> string \<Rightarrow> int \<Rightarrow> review_run_row list \<Rightarrow> review_run_row list" where
  "fail_run now reason runId = update_where (\<lambda>u. ku_runId u = runId)
     (\<lambda>u. u\<lparr>ku_status := Run_failed, ku_failureReason := Some reason, ku_finishedAt := Some now\<rparr>)"

definition failReviewTaskRun ::
  "int \<Rightarrow> string \<Rightarrow> int \<Rightarrow> int \<Rightarrow> review_db \<Rightarrow> review_db \<times> review_task_run option" where
  "failReviewTaskRun now failureReason runId taskId db =
     (let db' = db\<lparr>rb_runs := fail_run now failureReason runId (rb_runs db),
                   rb_tasks := touch_task now taskId (rb_tasks db)\<rparr>
      in (db', readReviewTaskRun runId db'))"

definition task_is_open :: "int \<Rightarrow> review_db \<Rightarrow> bool" where
  "task_is_open taskId db \<longleftrightarrow> list_ex (\<lambda>t. kt_taskId t = taskId \<and> kt_status t = RT_open) (rb_tasks db)"

definition heartbeatReviewTaskRun ::
  "int \<Rightarrow> string option \<Rightarrow> int \<Rightarrow> int \<Rightarrow> string option \<Rightarrow> review_db \<Rightarrow>
   (review_db \<times> review_task_run option) option" where
  "heartbeatReviewTaskRun now agentId runId taskId workerId db =
     (let matches = (\<lambda>u. ku_runId u = runId \<and> ku_taskId u = taskId \<and> ku_status u = Run_running \<and>
            task_is_open (ku_taskId u) db \<and> sql_matches agentId (ku_agentId u) \<and>
            sql_matches workerId (Some (ku_workerId u)));
          db' = db\<lparr>rb_runs := update_where matches (\<lambda>u. u\<lparr>ku_lastHeartbeatAt := Some now\<rparr>) (rb_runs db),
                   rb_tasks := touch_task now taskId (rb_tasks db)\<rparr>
      in if list_ex matches (rb_runs db) then Some (db', readReviewTaskRun runId db') else None)"

definition review_beat :: "review_run_row \<Rightarrow> int" where
  "review_beat u = nullish (ku_lastHeartbeatAt u) (ku_startedAt u)"

definition stale_review_runs :: "int \<Rightarrow> nat \<Rightarrow> review_db \<Rightarrow> review_run_row list" where
  "stale_review_runs staleBefore limit db = take limit (js_sort
     (\<lambda>x y. if review_beat x - review_beat y \<noteq> 0 then review_beat x - review_beat y else ku_runId x - ku_runId y)
     (filter (\<lambda>u. ku_status u = Run_running \<and> task_is_open (ku_taskId u) db \<and> review_beat u < staleBefore)
        (rb_runs db)))"

record expired_review_run =
  xr_claimId :: "string option"
  xr_run :: review_task_run
  xr_sourceId :: "string option"
  xr_taskId :: int
  xr_timedOutAt :: string

definition expire_review_run ::
  "int \<Rightarrow> int \<Rightarrow> review_run_row \<Rightarrow> review_db \<times> expired_review_run list \<Rightarrow> review_db \<times> expired_review_run list" where
  "expire_review_run now clock c acc =
     (let db = (fst acc)\<lparr>rb_runs := fail_run now ''heartbeat_timeout'' (ku_runId c) (rb_runs (fst acc)),
                 rb_tasks := touch_task now (ku_taskId c) (rb_tasks (fst acc))\<rparr>;
          task = find_by kt_taskId (ku_taskId c) (rb_tasks (fst acc))
      in (db, snd acc @ (case readReviewTaskRun (ku_runId c) db of
            None \<Rightarrow> []
          | Some run \<Rightarrow> [\<lparr>xr_claimId = Option.bind task kt_claimId, xr_run = run,
              xr_sourceId = Option.bind task kt_sourceId, xr_taskId = ku_taskId c,
              xr_timedOutAt = iso_string clock\<rparr>])))"

definition expireStaleReviewTaskRuns ::
  "int \<Rightarrow> int \<Rightarrow> int option \<Rightarrow> int \<Rightarrow> review_db \<Rightarrow> review_db \<times> expired_review_run list" where
  "expireStaleReviewTaskRuns now clock limit staleAfterMs db =
     fold (expire_review_run now clock) (stale_review_runs (clock - staleAfterMs) (sweep_limit limit) db) (db, [])"

section \<open>Submissions and responses\<close>

record review_issue_input =
  ii_artifactAnchor :: "(string \<times> json) list option"
  ii_category :: string
  ii_severity :: issue_severity
  ii_status :: "issue_status option"
  ii_summary :: string

record review_submission_input =
  si_claimId :: "string option"
  si_confidenceBps :: "rat option"
  si_dimensions :: json
  si_evidenceArtifactKey :: "string option"
  si_issues :: "review_issue_input list option"
  si_payload :: "(string \<times> json) list option"
  si_resultArtifactKey :: "string option"
  si_reviewType :: "review_task_type option"
  si_reviewerActor :: string
  si_reviewerAgentId :: "string option"
  si_runId :: "int option"
  si_schemaVersion :: "string option"
  si_sourceId :: "string option"
  si_taskId :: int
  si_verdict :: review_verdict

definition new_review_submission ::
  "int \<Rightarrow> int \<Rightarrow> review_submission_input \<Rightarrow> review_task_row \<Rightarrow> review_submission_row" where
  "new_review_submission now submissionId inp task =
     \<lparr>ks_submissionId = submissionId, ks_taskId = si_taskId inp, ks_runId = si_runId inp,
      ks_claimId = orelse (si_claimId inp) (kt_claimId task), ks_sourceId = orelse (si_sourceId inp) (kt_sourceId task),
      ks_reviewerActor = js_lower (si_reviewerActor inp), ks_reviewerAgentId = si_reviewerAgentId inp,
      ks_reviewType = nullish (si_reviewType inp) (kt_taskType task), ks_verdict = si_verdict inp,
      ks_confidenceBps = clamp_number (map_option JNum (si_confidenceBps inp)) 0 10000 0,
      ks_evidenceArtifactKey = si_evidenceArtifactKey inp, ks_resultArtifactKey = si_resultArtifactKey inp,
      ks_schemaVersion = nullish (si_schemaVersion inp) (kt_schemaVersion task),
      ks_dimensions = dimension_json (normalizeDimensionScores (si_dimensions inp)),
      ks_payload = nullish (si_payload inp) [], ks_createdAt = now\<rparr>"

definition insert_issue :: "int \<Rightarrow> int \<Rightarrow> review_issue_input \<Rightarrow> review_db \<Rightarrow> review_db" where
  "insert_issue now submissionId i db = db\<lparr>rb_issues := rb_issues db @
     [\<lparr>ki_issueId = rb_nextIssue db, ki_submissionId = submissionId, ki_severity = ii_severity i,
       ki_category = ii_category i, ki_summary = ii_summary i, ki_artifactAnchor = nullish (ii_artifactAnchor i) [],
       ki_status = nullish (ii_status i) Issue_open, ki_createdAt = now, ki_updatedAt = now\<rparr>],
     rb_nextIssue := rb_nextIssue db + 1\<rparr>"

text \<open>The checks on the run a submission names.\<close>

definition check_run :: "review_submission_input \<Rightarrow> review_db \<Rightarrow> review_error option" where
  "check_run inp db =
     (case si_runId inp of
        None \<Rightarrow> None
      | Some runId \<Rightarrow>
          (case find_by ku_runId runId (rb_runs db) of
             None \<Rightarrow> Some Run_not_found
           | Some run \<Rightarrow>
               if ku_taskId run \<noteq> si_taskId inp then Some Run_not_found
               else if ku_status run \<noteq> Run_running then Some Run_not_running
               else if truthy (si_reviewerAgentId inp) \<and> truthy (ku_agentId run) \<and>
                 si_reviewerAgentId inp \<noteq> ku_agentId run then Some Run_agent_mismatch
               else None))"

text \<open>The task after its submission count has reached the minimum, or has not.\<close>

definition settle_task :: "int \<Rightarrow> bool \<Rightarrow> string option \<Rightarrow> review_task_row \<Rightarrow> review_task_row" where
  "settle_task now enough resultArtifactKey t =
     (let t' = t\<lparr>kt_resultArtifactKey := orelse resultArtifactKey (kt_resultArtifactKey t), kt_updatedAt := now\<rparr>
      in if enough then t'\<lparr>kt_status := RT_completed, kt_completedAt := orelse (kt_completedAt t) (Some now)\<rparr> else t')"

definition complete_review_run :: "int \<Rightarrow> int option \<Rightarrow> review_run_row list \<Rightarrow> review_run_row list" where
  "complete_review_run now runId = update_where (\<lambda>u. Some (ku_runId u) = runId)
     (\<lambda>u. u\<lparr>ku_status := Run_completed, ku_finishedAt := Some now\<rparr>)"

definition store_submission :: "int \<Rightarrow> review_submission_input \<Rightarrow> review_task_row \<Rightarrow> review_db \<Rightarrow> review_db" where
  "store_submission now inp task db =
     (let sub = new_review_submission now (rb_nextSubmission db) inp task;
          db1 = db\<lparr>rb_submissions := rb_submissions db @ [sub], rb_nextSubmission := rb_nextSubmission db + 1\<rparr>;
          db2 = fold (insert_issue now (ks_submissionId sub)) (nullish (si_issues inp) []) db1;
          db3 = db2\<lparr>rb_runs := complete_review_run now (si_runId inp) (rb_runs db2)\<rparr>;
          enough = countReviewTaskCompletedSubmissions (si_taskId inp) db3 \<ge>
            cp_minSubmissions (normalizeConsensusPolicy (kt_consensusPolicy task))
      in db3\<lparr>rb_tasks := update_where (\<lambda>t. kt_taskId t = si_taskId inp)
               (settle_task now enough (si_resultArtifactKey inp)) (rb_tasks db3)\<rparr>)"

definition recordReviewSubmission ::
  "int \<Rightarrow> review_submission_input \<Rightarrow> review_db \<Rightarrow>
   review_error + review_db \<times> review_submission option \<times> review_task option" where
  "recordReviewSubmission now inp db =
     (case find_by kt_taskId (si_taskId inp) (rb_tasks db) of
        None \<Rightarrow> Inl Task_not_found
      | Some task \<Rightarrow>
          (case check_run inp db of
             Some e \<Rightarrow> Inl e
           | None \<Rightarrow>
               if truthy (si_reviewerAgentId inp) \<and>
                 cp_requireDistinctAgents (normalizeConsensusPolicy (kt_consensusPolicy task)) \<and>
                 agent_submitted (si_taskId inp) (si_reviewerAgentId inp) db
               then Inl Agent_already_submitted
               else if si_runId inp \<noteq> None \<and> list_ex (\<lambda>s. ks_runId s = si_runId inp) (rb_submissions db)
               then Inl Unique_violation
               else let db' = store_submission now inp task db
                    in Inr (db', readReviewSubmission (rb_nextSubmission db) db', readReviewTask (si_taskId inp) db')))"

definition createReviewAuthorResponse ::
  "int \<Rightarrow> string \<Rightarrow> string list \<Rightarrow> string \<Rightarrow> string \<Rightarrow> string \<Rightarrow> review_db \<Rightarrow>
   review_db \<times> review_author_response option" where
  "createReviewAuthorResponse now claimId issueIds responderActor responseArtifactKey summary db =
     (let row = \<lparr>kr_responseId = rb_nextResponse db, kr_claimId = claimId, kr_responderActor = js_lower responderActor,
            kr_responseArtifactKey = responseArtifactKey, kr_issueIds = string_array_json issueIds,
            kr_summary = summary, kr_createdAt = now\<rparr>;
          db' = db\<lparr>rb_responses := rb_responses db @ [row], rb_nextResponse := rb_nextResponse db + 1\<rparr>
      in (db', readReviewAuthorResponse (rb_nextResponse db) db'))"

text \<open>The tasks a worker tries to claim: one by id, or the first page of open tasks.\<close>

definition candidateTasks :: "int option \<Rightarrow> review_task_type option \<Rightarrow> review_db \<Rightarrow> review_task list" where
  "candidateTasks taskId taskType db =
     (let items = fst (readReviewTasksPage \<lparr>tf_claimId = None, tf_sourceId = None, tf_status = Some RT_open,
            tf_taskType = taskType\<rparr> (Some (if taskId \<noteq> None then 1 else 20)) (Some 0) db)
      in case taskId of None \<Rightarrow> items | Some k \<Rightarrow> filter (\<lambda>t. rt_taskId t = show_int k) items)"

end
