(* ===== verification/Review_Queue.thy ===== *)
theory Review_Queue
  imports Review_Store
begin

text \<open>
  The review queue as a transition system over the transactions of \<open>Review_Store\<close>, and its
  invariants: the consensus policy bounds the work on every task, a task is completed exactly when
  its minimum is reached, agents submit once where the policy says so, and an open task is unique
  for its subject.
\<close>

section \<open>Steps\<close>

text \<open>
  Submissions name their run, as both callers (\<open>review/worker.ts\<close> and the submission route of
  \<open>api/routes/agents.ts\<close>) make sure.
\<close>

inductive review_step :: "review_db \<Rightarrow> review_db \<Rightarrow> bool" where
  create: "createReviewTask now inp db = Inr (db', task) \<Longrightarrow> review_step db db'"
| claim: "claimReviewTaskById now agentId taskId workerId db = Inr (Some (db', run)) \<Longrightarrow> review_step db db'"
| fail: "review_step db (fst (failReviewTaskRun now reason runId taskId db))"
| heartbeat: "heartbeatReviewTaskRun now agentId runId taskId workerId db = Some (db', run) \<Longrightarrow> review_step db db'"
| expire: "review_step db (fst (expireStaleReviewTaskRuns now clock limit ms db))"
| submit: "si_runId inp \<noteq> None \<Longrightarrow> recordReviewSubmission now inp db = Inr (db', views) \<Longrightarrow> review_step db db'"
| respond: "review_step db (fst (createReviewAuthorResponse now claimId issueIds actor artifactKey summary db))"

section \<open>The invariant\<close>

definition taskPolicy :: "review_task_row \<Rightarrow> consensus_policy" where
  "taskPolicy t = normalizeConsensusPolicy (kt_consensusPolicy t)"

definition task_core :: "review_task_row \<Rightarrow> int \<times> consensus_policy \<times> review_task_status" where
  "task_core t = (kt_taskId t, taskPolicy t, kt_status t)"

abbreviation submitted :: "int \<Rightarrow> review_db \<Rightarrow> int" where
  "submitted \<equiv> countReviewTaskCompletedSubmissions"

abbreviation running :: "int \<Rightarrow> review_db \<Rightarrow> int" where
  "running \<equiv> countReviewTaskRunningRuns"

definition submitting_agents :: "int \<Rightarrow> review_db \<Rightarrow> string option list" where
  "submitting_agents k db =
     filter truthy (map ks_reviewerAgentId (filter (\<lambda>s. ks_taskId s = k) (rb_submissions db)))"

definition task_ok :: "review_db \<Rightarrow> int \<times> consensus_policy \<times> review_task_status \<Rightarrow> bool" where
  "task_ok db c \<longleftrightarrow> (case c of (k, p, st) \<Rightarrow>
     submitted k db + running k db \<le> cp_maxSubmissions p \<and>
     st = (if submitted k db \<ge> cp_minSubmissions p then RT_completed else RT_open) \<and>
     (cp_requireDistinctAgents p \<longrightarrow> distinct (submitting_agents k db)))"

definition review_inv :: "review_db \<Rightarrow> bool" where
  "review_inv db \<longleftrightarrow>
     distinct (map kt_taskId (rb_tasks db)) \<and> (\<forall>t \<in> set (rb_tasks db). kt_taskId t < rb_nextTask db) \<and>
     distinct (map ku_runId (rb_runs db)) \<and>
     (\<forall>u \<in> set (rb_runs db). ku_runId u < rb_nextRun db \<and> ku_taskId u < rb_nextTask db) \<and>
     (\<forall>s \<in> set (rb_submissions db). ks_taskId s < rb_nextTask db) \<and>
     (\<forall>c \<in> task_core ` set (rb_tasks db). task_ok db c)"

lemma taskPolicy_ok: "1 \<le> cp_minSubmissions (taskPolicy t)" "cp_minSubmissions (taskPolicy t) \<le> cp_maxSubmissions (taskPolicy t)"
  "cp_maxSubmissions (taskPolicy t) \<le> 10"
  using normalizeConsensusPolicy_ok [of "kt_consensusPolicy t"] by (simp_all add: taskPolicy_def consensus_policy_ok_def)

lemma review_inv_empty: "review_inv review_empty"
  by (simp add: review_inv_def review_empty_def)

lemma map_core: "map task_core ts' = map task_core ts \<Longrightarrow> map kt_taskId ts' = map kt_taskId ts"
  "map task_core ts' = map task_core ts \<Longrightarrow> task_core ` set ts' = task_core ` set ts"
proof -
  assume e: "map task_core ts' = map task_core ts"
  have f: "map kt_taskId us = map fst (map task_core us)" for us by (simp add: task_core_def)
  show "map kt_taskId ts' = map kt_taskId ts" unfolding f e ..
  show "task_core ` set ts' = task_core ` set ts" using arg_cong [OF e, of set] by simp
qed

lemma touch_task_core [simp]: "map task_core (touch_task now k ts) = map task_core ts"
  by (simp add: touch_task_def update_where_def task_core_def taskPolicy_def)

lemma ids_bounded: "(\<forall>t \<in> set ts. kt_taskId t < n) \<longleftrightarrow> (\<forall>k \<in> set (map kt_taskId ts). k < n)"
  by simp

lemma task_unique:
  "review_inv db \<Longrightarrow> t \<in> set (rb_tasks db) \<Longrightarrow> u \<in> set (rb_tasks db) \<Longrightarrow> kt_taskId t = kt_taskId u \<Longrightarrow> t = u"
  unfolding review_inv_def distinct_map by (blast dest: inj_onD)

lemma runs_bounded: "(\<forall>u \<in> set us. ku_runId u < a \<and> ku_taskId u < b) \<longleftrightarrow>
    (\<forall>k \<in> set (map ku_runId us). k < a) \<and> (\<forall>k \<in> set (map ku_taskId us). k < b)"
  by auto

text \<open>A change that keeps the tasks, adds no running run and no submission.\<close>

lemma review_inv_frame:
  assumes inv: "review_inv db" and "map task_core (rb_tasks db') = map task_core (rb_tasks db)"
    and "rb_submissions db' = rb_submissions db" and "rb_nextTask db' = rb_nextTask db"
    and "rb_nextRun db' = rb_nextRun db" and "map ku_runId (rb_runs db') = map ku_runId (rb_runs db)"
    and "map ku_taskId (rb_runs db') = map ku_taskId (rb_runs db)" and "\<And>k. running k db' \<le> running k db"
  shows "review_inv db'"
proof -
  note core = map_core [OF assms(2)]
  have s: "submitted k db' = submitted k db" "submitting_agents k db' = submitting_agents k db" for k
    by (simp_all add: countReviewTaskCompletedSubmissions_def submitting_agents_def assms(3))
  have ok: "task_ok db' c" if "task_ok db c" for c
    using that assms(8) [of "fst c"] by (auto simp: task_ok_def s split: prod.splits)
  show ?thesis
    using inv ok unfolding review_inv_def core runs_bounded assms(3-7) ids_bounded by blast
qed

subsection \<open>Runs\<close>

lemma fail_run_ids [simp]:
  "map ku_runId (fail_run now reason rid us) = map ku_runId us"
  "map ku_taskId (fail_run now reason rid us) = map ku_taskId us"
  by (simp_all add: fail_run_def update_where_def)

lemma fail_run_running: "running k (db\<lparr>rb_runs := fail_run now reason rid (rb_runs db), rb_tasks := ts\<rparr>) \<le> running k db"
proof -
  have "count_if p (fail_run now reason rid us) \<le> count_if p us"
    if "p = (\<lambda>u. ku_taskId u = k \<and> ku_status u = Run_running)" for p us
    using that by (induction us) (auto simp: fail_run_def)
  then show ?thesis by (simp add: countReviewTaskRunningRuns_def)
qed

lemma fail_run_inv:
  "review_inv db \<Longrightarrow> review_inv (db\<lparr>rb_runs := fail_run now reason rid (rb_runs db), rb_tasks := touch_task now' k (rb_tasks db)\<rparr>)"
  by (erule review_inv_frame) (simp_all add: fail_run_running)

lemma expire_fold_inv:
  "review_inv (fst acc) \<Longrightarrow> review_inv (fst (fold (expire_review_run now clock) cs acc))"
proof (induction cs arbitrary: acc)
  case (Cons c cs)
  have "review_inv (fst (expire_review_run now clock c acc))"
    using fail_run_inv [OF Cons.prems] by (simp add: expire_review_run_def Let_def)
  then show ?case using Cons.IH by simp
qed simp

lemma heartbeat_inv:
  assumes "review_inv db" and "heartbeatReviewTaskRun now agentId rid tid workerId db = Some (db', run)"
  shows "review_inv db'"
proof -
  have beat: "count_if (\<lambda>u. ku_taskId u = k \<and> ku_status u = Run_running)
      (update_where p (\<lambda>u. u\<lparr>ku_lastHeartbeatAt := Some now\<rparr>) us) =
      count_if (\<lambda>u. ku_taskId u = k \<and> ku_status u = Run_running) us" for k p us
    by (rule count_if_update_where_frame) simp
  show ?thesis using assms
    by (auto simp: heartbeatReviewTaskRun_def Let_def beat countReviewTaskRunningRuns_def update_where_key
        split: if_splits elim!: review_inv_frame)
qed

lemma claim_inv:
  assumes inv: "review_inv db" and "claimReviewTaskById now agentId tid workerId db = Inr (Some (db', run))"
  shows "review_inv db'"
proof -
  obtain row where row: "find_by kt_taskId tid (rb_tasks db) = Some row"
    using assms(2) by (cases "find_by kt_taskId tid (rb_tasks db)") (auto simp: claimReviewTaskById_def)
  note in_row = find_by_Some [OF row]
  have room: "submitted tid db + running tid db < cp_maxSubmissions (taskPolicy row)"
    and db': "db' = db\<lparr>rb_runs := rb_runs db @ [new_review_run now (rb_nextRun db) tid agentId workerId],
      rb_nextRun := rb_nextRun db + 1, rb_tasks := touch_task now tid (rb_tasks db)\<rparr>"
    using assms(2) row by (auto simp: claimReviewTaskById_def Let_def taskPolicy_def split: if_splits)
  have uniq: "taskPolicy t = taskPolicy row" if "t \<in> set (rb_tasks db)" "kt_taskId t = tid" for t
    using inv that in_row by (auto simp: review_inv_def distinct_map dest: inj_onD)
  have run: "running k db' = running k db + (if k = tid then 1 else 0)" for k
    by (simp add: db' countReviewTaskRunningRuns_def new_review_run_def)
  have s: "submitted k db' = submitted k db" "submitting_agents k db' = submitting_agents k db" for k
    by (simp_all add: countReviewTaskCompletedSubmissions_def submitting_agents_def db')
  have cores: "map task_core (rb_tasks db') = map task_core (rb_tasks db)" by (simp add: db')
  have ok: "task_ok db' (task_core t)" if "t \<in> set (rb_tasks db)" for t
  proof -
    have "task_ok db (task_core t)" using inv that by (simp add: review_inv_def)
    with room uniq [OF that] show ?thesis by (auto simp: task_ok_def task_core_def run s)
  qed
  have "tid < rb_nextTask db" using inv in_row by (auto simp: review_inv_def)
  moreover have "distinct (map ku_runId (rb_runs db'))" "\<forall>u \<in> set (rb_runs db). ku_runId u < rb_nextRun db'"
    using inv by (force simp: review_inv_def db' new_review_run_def)+
  ultimately show ?thesis
    using inv ok unfolding review_inv_def map_core [OF cores] ids_bounded
    by (auto simp: db' new_review_run_def)
qed

subsection \<open>Tasks and submissions\<close>

lemma create_cases:
  assumes "createReviewTask now inp db = Inr (db', task)"
  obtains "db' = db"
  | st sid sk where "filter (same_subject st sid (ti_taskType inp) sk) (rb_tasks db) = []"
      "db' = db\<lparr>rb_tasks := rb_tasks db @ [new_review_task now (rb_nextTask db) inp st sid sk],
         rb_nextTask := rb_nextTask db + 1\<rparr>"
proof -
  define sk where "sk = nullish (trimmed (ti_scopeKey inp)) (show_review_task_type (ti_taskType inp))"
  define st where "st = nullish (ti_sourceSubjectType inp) Subject_claim"
  define subj where "subj = (if st = Subject_source_record
    then orelse (trimmed (ti_sourceSubjectId inp)) (trimmed (ti_sourceId inp)) else trimmed (ti_claimId inp))"
  note eq = assms [unfolded createReviewTask_def Let_def, folded sk_def st_def, folded subj_def]
  from eq obtain sid where sid: "subj = Some sid" by (cases subj) simp_all
  let ?found = "filter (same_subject st sid (ti_taskType inp) sk) (rb_tasks db)"
  let ?row = "new_review_task now (rb_nextTask db) inp st sid sk"
  show thesis
  proof (cases "js_sort (\<lambda>x y. kt_taskId x - kt_taskId y) ?found")
    case (Cons e es)
    with eq sid have "db' = db" by simp
    then show thesis by (rule that(1))
  next
    case Nil
    note eq' = eq [unfolded sid option.case Nil list.case]
    show thesis
    proof (cases "claim_identity_taken ?row db")
      case True
      with eq' have "db' = db" by (simp split: list.splits)
      then show thesis by (rule that(1))
    next
      case False
      with eq' have "db' = db\<lparr>rb_tasks := rb_tasks db @ [?row], rb_nextTask := rb_nextTask db + 1\<rparr>" by simp
      moreover have "?found = []" using Nil by (simp only: js_sort_Nil_iff)
      ultimately show thesis by (intro that(2))
    qed
  qed
qed

lemma create_inv:
  assumes inv: "review_inv db" and "createReviewTask now inp db = Inr (db', task)"
  shows "review_inv db'"
  using assms(2)
proof (cases rule: create_cases)
  case (2 st sid sk)
  let ?k = "rb_nextTask db" and ?row = "new_review_task now (rb_nextTask db) inp st sid sk"
  have none: "submitted ?k db = 0" "running ?k db = 0" "submitting_agents ?k db = []"
    using inv by (force simp: review_inv_def countReviewTaskCompletedSubmissions_def
        countReviewTaskRunningRuns_def submitting_agents_def count_if_zero_iff filter_empty_conv)+
  have same: "submitted k db' = submitted k db" "running k db' = running k db"
    "submitting_agents k db' = submitting_agents k db" for k
    by (simp_all add: 2 countReviewTaskCompletedSubmissions_def countReviewTaskRunningRuns_def submitting_agents_def)
  have "task_core ?row = (?k, taskPolicy ?row, RT_open)" by (simp add: task_core_def new_review_task_def)
  then have "task_ok db' (task_core ?row)"
    using taskPolicy_ok [of ?row] by (simp add: task_ok_def same none)
  moreover have "task_ok db' c" if "task_ok db c" for c
    using that by (simp add: task_ok_def same)
  ultimately have "\<forall>c \<in> task_core ` set (rb_tasks db'). task_ok db' c"
    using inv by (auto simp: review_inv_def 2)
  then show ?thesis using inv unfolding review_inv_def
    by (force simp: 2 new_review_task_def)
qed (use inv in simp)

lemma insert_issues_frame:
  "rb_tasks (fold (insert_issue now k) is db) = rb_tasks db"
  "rb_runs (fold (insert_issue now k) is db) = rb_runs db"
  "rb_submissions (fold (insert_issue now k) is db) = rb_submissions db"
  "rb_nextTask (fold (insert_issue now k) is db) = rb_nextTask db"
  "rb_nextRun (fold (insert_issue now k) is db) = rb_nextRun db"
  by (induction "is" arbitrary: db) (simp_all add: insert_issue_def)

lemma store_submission_effect:
  assumes "db' = store_submission now inp task db"
  shows "rb_submissions db' = rb_submissions db @ [new_review_submission now (rb_nextSubmission db) inp task]"
    and "rb_runs db' = complete_review_run now (si_runId inp) (rb_runs db)"
    and "rb_tasks db' = update_where (\<lambda>t. kt_taskId t = si_taskId inp)
      (settle_task now (submitted (si_taskId inp) db + 1 \<ge> cp_minSubmissions (taskPolicy task)) (si_resultArtifactKey inp))
      (rb_tasks db)"
    and "rb_nextTask db' = rb_nextTask db" and "rb_nextRun db' = rb_nextRun db"
  by (simp_all add: assms store_submission_def Let_def insert_issues_frame countReviewTaskCompletedSubmissions_def
      new_review_submission_def taskPolicy_def)

lemma submit_result:
  assumes "recordReviewSubmission now inp db = Inr (db', views)"
  obtains task where "find_by kt_taskId (si_taskId inp) (rb_tasks db) = Some task" "check_run inp db = None"
    "truthy (si_reviewerAgentId inp) \<and> cp_requireDistinctAgents (taskPolicy task) \<Longrightarrow>
       \<not> agent_submitted (si_taskId inp) (si_reviewerAgentId inp) db"
    "db' = store_submission now inp task db"
    "views = (readReviewSubmission (rb_nextSubmission db) db', readReviewTask (si_taskId inp) db')"
  using assms unfolding recordReviewSubmission_def Let_def taskPolicy_def
  by (auto split: option.splits if_splits)

lemma checked_run:
  assumes "check_run inp db = None" and "si_runId inp = Some rid"
  obtains run where "run \<in> set (rb_runs db)" "ku_runId run = rid" "ku_taskId run = si_taskId inp" "ku_status run = Run_running"
  using assms unfolding check_run_def by (auto split: option.splits if_splits dest: find_by_Some)

lemma complete_review_run_running:
  assumes "distinct (map ku_runId (rb_runs db))" and "run \<in> set (rb_runs db)" and "ku_status run = Run_running"
  shows "count_if (\<lambda>u. ku_taskId u = k \<and> ku_status u = Run_running) (complete_review_run now (Some (ku_runId run)) (rb_runs db)) =
    running k db - (if k = ku_taskId run then 1 else 0)"
proof (cases "k = ku_taskId run")
  case True
  with count_if_update_one [OF assms(1,2), of "\<lambda>u. ku_taskId u = k \<and> ku_status u = Run_running"
      "\<lambda>u. u\<lparr>ku_status := Run_completed, ku_finishedAt := Some now\<rparr>"] assms(3)
  show ?thesis by (simp add: complete_review_run_def countReviewTaskRunningRuns_def)
next
  case False
  have "u = run" if "u \<in> set (rb_runs db)" "ku_runId u = ku_runId run" for u
    using assms(1,2) that by (metis distinct_map inj_onD)
  with False have "count_if (\<lambda>u. ku_taskId u = k \<and> ku_status u = Run_running)
      (update_where (\<lambda>u. ku_runId u = ku_runId run) (\<lambda>u. u\<lparr>ku_status := Run_completed, ku_finishedAt := Some now\<rparr>) (rb_runs db)) =
      count_if (\<lambda>u. ku_taskId u = k \<and> ku_status u = Run_running) (rb_runs db)"
    by (intro count_if_update_where_frame) auto
  with False show ?thesis by (simp add: complete_review_run_def countReviewTaskRunningRuns_def)
qed

lemma submit_inv:
  assumes inv: "review_inv db" and run: "si_runId inp \<noteq> None"
    and "recordReviewSubmission now inp db = Inr (db', views)"
  shows "review_inv db'"
  using assms(3)
proof (rule submit_result)
  fix task
  assume task: "find_by kt_taskId (si_taskId inp) (rb_tasks db) = Some task" and chk: "check_run inp db = None"
    and fresh: "truthy (si_reviewerAgentId inp) \<and> cp_requireDistinctAgents (taskPolicy task) \<Longrightarrow>
       \<not> agent_submitted (si_taskId inp) (si_reviewerAgentId inp) db"
    and db': "db' = store_submission now inp task db"
  let ?k = "si_taskId inp" and ?enough = "submitted (si_taskId inp) db + 1 \<ge> cp_minSubmissions (taskPolicy task)"
  obtain rid where rid: "si_runId inp = Some rid" using run by blast
  obtain r where r: "r \<in> set (rb_runs db)" "ku_runId r = rid" "ku_taskId r = ?k" "ku_status r = Run_running"
    using checked_run [OF chk rid] by blast
  note eff = store_submission_effect [OF db']
  have sub: "submitted k db' = submitted k db + (if k = ?k then 1 else 0)" for k
    by (simp add: countReviewTaskCompletedSubmissions_def eff new_review_submission_def)
  have ag: "submitting_agents k db' = submitting_agents k db @
      (if k = ?k \<and> truthy (si_reviewerAgentId inp) then [si_reviewerAgentId inp] else [])" for k
    by (simp add: submitting_agents_def eff new_review_submission_def)
  have rn: "running k db' = running k db - (if k = ?k then 1 else 0)" for k
    using complete_review_run_running [of db r k now] inv r
    by (simp add: review_inv_def rid [symmetric] countReviewTaskRunningRuns_def [of _ db'] eff)
  have ids: "map kt_taskId (rb_tasks db') = map kt_taskId (rb_tasks db)"
    unfolding eff by (rule update_where_key) (simp add: settle_task_def Let_def)
  have runs: "map ku_runId (rb_runs db') = map ku_runId (rb_runs db)"
    "map ku_taskId (rb_runs db') = map ku_taskId (rb_runs db)"
    by (simp_all add: eff complete_review_run_def update_where_key)
  note in_task = find_by_Some [OF task]
  have ok: "task_ok db' (task_core t')" if "t' \<in> set (rb_tasks db')" for t'
  proof -
    from that obtain t where t: "t \<in> set (rb_tasks db)"
        "t' = (if kt_taskId t = ?k then settle_task now ?enough (si_resultArtifactKey inp) t else t)"
      unfolding eff by (auto simp: set_update_where)
    have old: "task_ok db (task_core t)" using inv t(1) by (simp add: review_inv_def)
    show ?thesis
    proof (cases "kt_taskId t = ?k")
      case False
      with old t(2) show ?thesis by (simp add: task_ok_def task_core_def sub rn ag)
    next
      case True
      with task_unique [OF inv t(1)] in_task have "t = task" by simp
      with True t(2) have c: "task_core t' = (?k, taskPolicy task, if ?enough then RT_completed else kt_status task)"
        by (simp add: task_core_def settle_task_def Let_def taskPolicy_def)
      have "si_reviewerAgentId inp \<notin> set (submitting_agents ?k db)"
        if "truthy (si_reviewerAgentId inp)" "cp_requireDistinctAgents (taskPolicy task)"
        using fresh that by (auto simp: submitting_agents_def agent_submitted_def list_ex_iff)
      with old \<open>t = task\<close> True show ?thesis unfolding c
        by (auto simp: task_ok_def task_core_def sub rn ag)
    qed
  qed
  have "?k < rb_nextTask db" using inv in_task by (auto simp: review_inv_def)
  then have subs: "\<forall>s \<in> set (rb_submissions db'). ks_taskId s < rb_nextTask db'"
    using inv by (auto simp: review_inv_def eff new_review_submission_def)
  have "\<forall>u \<in> set (rb_runs db'). ku_runId u < rb_nextRun db' \<and> ku_taskId u < rb_nextTask db'"
    using inv unfolding runs_bounded runs eff(4,5) by (simp add: review_inv_def)
  then show "review_inv db'"
    using inv ok subs unfolding review_inv_def ids_bounded ids runs eff(4,5) by blast
qed

theorem review_step_inv:
  assumes "review_step db db'" and "review_inv db" shows "review_inv db'"
  using assms
proof (induction rule: review_step.induct)
  case (expire db now clock limit ms)
  then show ?case by (simp add: expireStaleReviewTaskRuns_def expire_fold_inv)
next
  case (fail db now reason runId taskId)
  then show ?case by (simp add: failReviewTaskRun_def Let_def fail_run_inv)
next
  case (respond db now claimId issueIds actor artifactKey summary)
  then show ?case by (auto simp: createReviewAuthorResponse_def Let_def countReviewTaskRunningRuns_def elim!: review_inv_frame)
qed (rule create_inv claim_inv heartbeat_inv submit_inv; assumption)+

lemma review_reachable_inv: "review_step\<^sup>*\<^sup>* review_empty db \<Longrightarrow> review_inv db"
  by (induction rule: rtranclp_induct) (auto simp: review_inv_empty intro: review_step_inv)

section \<open>One open task per subject\<close>

definition subject_identity :: "review_task_row \<Rightarrow> review_subject_type \<times> string \<times> review_task_type \<times> string" where
  "subject_identity t = (kt_subjectType t, kt_subjectId t, kt_taskType t, kt_scopeKey t)"

definition open_unique :: "review_db \<Rightarrow> bool" where
  "open_unique db \<longleftrightarrow> (\<forall>t \<in> set (rb_tasks db). \<forall>u \<in> set (rb_tasks db). kt_status t = RT_open \<longrightarrow>
     kt_status u = RT_open \<longrightarrow> subject_identity t = subject_identity u \<longrightarrow> kt_taskId t = kt_taskId u)"

text \<open>Every open task of \<open>us\<close> was open in \<open>ts\<close>.\<close>

definition opened_in :: "review_task_row list \<Rightarrow> review_task_row list \<Rightarrow> bool" where
  "opened_in ts us \<longleftrightarrow> (\<forall>u \<in> set us. kt_status u = RT_open \<longrightarrow> (\<exists>t \<in> set ts. kt_status t = RT_open \<and>
     subject_identity t = subject_identity u \<and> kt_taskId t = kt_taskId u))"

lemma opened_in_refl [simp]: "opened_in ts ts"
  by (auto simp: opened_in_def)

lemma opened_in_trans: "opened_in ts us \<Longrightarrow> opened_in us vs \<Longrightarrow> opened_in ts vs"
  unfolding opened_in_def by metis

lemma opened_in_update:
  assumes "\<And>t. kt_status (f t) = RT_open \<Longrightarrow> kt_status t = RT_open"
    and "\<And>t. subject_identity (f t) = subject_identity t \<and> kt_taskId (f t) = kt_taskId t"
  shows "opened_in ts (update_where p f ts)"
  unfolding opened_in_def
proof (intro ballI impI)
  fix u assume u: "u \<in> set (update_where p f ts)" "kt_status u = RT_open"
  then obtain t where "t \<in> set ts" "u = (if p t then f t else t)" by (auto simp: set_update_where)
  with u(2) assms [of t] show "\<exists>t \<in> set ts. kt_status t = RT_open \<and>
     subject_identity t = subject_identity u \<and> kt_taskId t = kt_taskId u"
    by (intro bexI [of _ t]) (auto split: if_splits)
qed

lemma opened_in_touch [simp]: "opened_in ts (touch_task now k ts)"
  unfolding touch_task_def by (rule opened_in_update) (simp_all add: subject_identity_def)

lemma open_unique_from:
  assumes "open_unique db" and "opened_in (rb_tasks db) (rb_tasks db')"
  shows "open_unique db'"
  using assms unfolding open_unique_def opened_in_def by metis

lemma expire_fold_opened:
  "opened_in (rb_tasks (fst acc)) (rb_tasks (fst (fold (expire_review_run now clock) cs acc)))"
proof (induction cs arbitrary: acc)
  case (Cons c cs)
  have "rb_tasks (fst (expire_review_run now clock c acc)) = touch_task now (ku_taskId c) (rb_tasks (fst acc))"
    by (simp add: expire_review_run_def Let_def)
  then have "opened_in (rb_tasks (fst acc)) (rb_tasks (fst (expire_review_run now clock c acc)))" by simp
  from opened_in_trans [OF this Cons.IH] show ?case by simp
qed simp

lemma create_open_unique:
  assumes "open_unique db" and "createReviewTask now inp db = Inr (db', task)"
  shows "open_unique db'"
  using assms(2)
proof (cases rule: create_cases)
  case (2 st sid sk)
  have "subject_identity t \<noteq> (st, sid, ti_taskType inp, sk)" if "t \<in> set (rb_tasks db)" "kt_status t = RT_open" for t
    using 2(1) that by (auto simp: filter_empty_conv same_subject_def subject_identity_def)
  moreover have "subject_identity (new_review_task now (rb_nextTask db) inp st sid sk) = (st, sid, ti_taskType inp, sk)"
    by (simp add: subject_identity_def new_review_task_def)
  ultimately show ?thesis using assms(1) unfolding open_unique_def 2(2) by fastforce
qed (use assms(1) in simp)

lemma review_step_opened:
  assumes "review_step db db'" and "open_unique db" shows "open_unique db'"
  using assms
proof (induction rule: review_step.induct)
  case (create now inp db db' task)
  then show ?case by (blast intro: create_open_unique)
next
  case (claim now agentId taskId workerId db db' run)
  have "rb_tasks db' = touch_task now taskId (rb_tasks db)"
    using claim(1) by (auto simp: claimReviewTaskById_def Let_def split: option.splits if_splits)
  then show ?case by (intro open_unique_from [OF claim(2)]) simp
next
  case (fail db now reason runId taskId)
  then show ?case by (rule open_unique_from) (simp add: failReviewTaskRun_def Let_def)
next
  case (heartbeat now agentId runId taskId workerId db db' run)
  have "rb_tasks db' = touch_task now taskId (rb_tasks db)"
    using heartbeat(1) by (auto simp: heartbeatReviewTaskRun_def Let_def split: if_splits)
  then show ?case by (intro open_unique_from [OF heartbeat(2)]) simp
next
  case (expire db now clock limit ms)
  then show ?case
    by (rule open_unique_from) (use expire_fold_opened [of "(db, [])"] in \<open>simp add: expireStaleReviewTaskRuns_def\<close>)
next
  case (submit inp now db db' views)
  from submit(2) obtain task where db': "db' = store_submission now inp task db" by (rule submit_result)
  show ?case unfolding db'
    by (rule open_unique_from [OF submit(3)], unfold store_submission_effect [OF refl], rule opened_in_update)
       (auto simp: settle_task_def Let_def subject_identity_def split: if_splits)
next
  case (respond db now claimId issueIds actor artifactKey summary)
  then show ?case by (rule open_unique_from) (simp add: createReviewAuthorResponse_def Let_def)
qed

text \<open>Claiming an open task on which nothing runs succeeds.\<close>

lemma open_claimable:
  assumes "review_step\<^sup>*\<^sup>* review_empty db" and "t \<in> set (rb_tasks db)" and "kt_status t = RT_open"
    and "countReviewTaskRunningRuns (kt_taskId t) db = 0"
    and "truthy agentId \<longrightarrow> \<not> agent_submitted (kt_taskId t) agentId db"
  shows "\<exists>db' run. claimReviewTaskById now agentId (kt_taskId t) workerId db = Inr (Some (db', run)) \<and>
    ku_status run = Run_running \<and> ku_taskId run = kt_taskId t \<and> countReviewTaskRunningRuns (kt_taskId t) db' = 1"
proof -
  have inv: "review_inv db" by (rule review_reachable_inv [OF assms(1)])
  have f: "find_by kt_taskId (kt_taskId t) (rb_tasks db) = Some t"
    using inv assms(2) by (intro find_by_distinct) (simp_all add: review_inv_def)
  have "task_ok db (task_core t)" using inv assms(2) by (simp add: review_inv_def)
  then have low: "submitted (kt_taskId t) db < cp_minSubmissions (taskPolicy t)"
    using assms(3) by (auto simp: task_ok_def task_core_def split: if_splits)
  have idle: "\<not> agent_running (kt_taskId t) agentId db" "\<not> running_identity_taken (kt_taskId t) agentId workerId db"
    using assms(4) by (auto simp: agent_running_def running_identity_taken_def countReviewTaskRunningRuns_def
        count_if_zero_iff list_ex_iff)
  show ?thesis
    using f low idle assms(3-5) taskPolicy_ok(2) [of t]
    by (simp add: claimReviewTaskById_def Let_def new_review_run_def flip: taskPolicy_def)
       (simp add: countReviewTaskRunningRuns_def)
qed

section \<open>Properties\<close>

text \<open>
  C11: The consensus policy bounds the review of every task. In every reachable state the submissions
  of a task and its running runs together stay within its maximum, the task is completed exactly
  when its minimum of submissions is reached and open otherwise, and no agent has submitted twice
  where the policy requires distinct agents.
\<close>

theorem review_task_quota:
  assumes "review_step\<^sup>*\<^sup>* review_empty db" and "t \<in> set (rb_tasks db)"
  shows "countReviewTaskCompletedSubmissions (kt_taskId t) db + countReviewTaskRunningRuns (kt_taskId t) db
      \<le> cp_maxSubmissions (normalizeConsensusPolicy (kt_consensusPolicy t)) \<and>
    kt_status t = (if countReviewTaskCompletedSubmissions (kt_taskId t) db
        \<ge> cp_minSubmissions (normalizeConsensusPolicy (kt_consensusPolicy t)) then RT_completed else RT_open) \<and>
    (cp_requireDistinctAgents (normalizeConsensusPolicy (kt_consensusPolicy t)) \<longrightarrow>
       distinct (submitting_agents (kt_taskId t) db))"
  using review_reachable_inv [OF assms(1)] assms(2)
  by (auto simp: review_inv_def task_ok_def task_core_def taskPolicy_def)

text \<open>
  Review work is never opened twice. In every reachable state two open tasks for the same subject,
  task type and scope are the same task.
\<close>

theorem review_open_identity_unique:
  assumes "review_step\<^sup>*\<^sup>* review_empty db" and "t \<in> set (rb_tasks db)" and "u \<in> set (rb_tasks db)"
    and "kt_status t = RT_open" and "kt_status u = RT_open" and "subject_identity t = subject_identity u"
  shows "t = u"
proof -
  have "open_unique db"
    using assms(1)
  proof (induction rule: rtranclp_induct)
    case base
    show ?case by (simp add: open_unique_def review_empty_def)
  qed (rule review_step_opened)
  then have "kt_taskId t = kt_taskId u" using assms(2-6) unfolding open_unique_def by blast
  then show ?thesis by (rule task_unique [OF review_reachable_inv [OF assms(1)] assms(2,3)])
qed

text \<open>
  An open review task is never stuck. In every reachable state, when no run of an open task is
  running, an agent that has not submitted to it (or a worker without an agent) gets a running run
  of it by claiming it.
\<close>

theorem review_open_claimable:
  assumes "review_step\<^sup>*\<^sup>* review_empty db" and "t \<in> set (rb_tasks db)" and "kt_status t = RT_open"
    and "countReviewTaskRunningRuns (kt_taskId t) db = 0"
    and "truthy agentId \<longrightarrow> \<not> agent_submitted (kt_taskId t) agentId db"
  shows "\<exists>db' run. claimReviewTaskById now agentId (kt_taskId t) workerId db = Inr (Some (db', run)) \<and>
    ku_status run = Run_running \<and> ku_taskId run = kt_taskId t \<and> countReviewTaskRunningRuns (kt_taskId t) db' = 1"
  using assms by (rule open_claimable)

text \<open>
  C30: A run that is still running when its task is completed runs for ever. Neither a heartbeat nor
  the sweep of stale runs ever touches it, whatever the cutoff: both look at runs of open tasks only,
  and no operation opens a task again.
\<close>

theorem review_orphaned_run:
  assumes "u \<in> set (rb_runs db)" and "ku_status u = Run_running" and "\<not> task_is_open (ku_taskId u) db"
    and "distinct (map ku_runId (rb_runs db))"
  shows "u \<in> set (rb_runs (fst (expireStaleReviewTaskRuns now clock limit ms db))) \<and>
    heartbeatReviewTaskRun now agentId (ku_runId u) (ku_taskId u) workerId db = None"
proof
  let ?cs = "stale_review_runs (clock - ms) (sweep_limit limit) db"
  have other: "ku_runId c \<noteq> ku_runId u" if "c \<in> set ?cs" for c
  proof -
    have "c \<in> set (rb_runs db)" "task_is_open (ku_taskId c) db"
      using that by (auto simp: stale_review_runs_def dest!: in_set_takeD)
    with assms show ?thesis by (auto simp: distinct_map dest: inj_onD)
  qed
  have "u \<in> set (rb_runs (fst (fold (expire_review_run now clock) cs acc)))"
    if "u \<in> set (rb_runs (fst acc))" "\<And>c. c \<in> set cs \<Longrightarrow> ku_runId c \<noteq> ku_runId u" for cs acc
    using that
  proof (induction cs arbitrary: acc)
    case (Cons c cs)
    have "u \<in> set (rb_runs (fst (expire_review_run now clock c acc)))"
      using Cons.prems(1) Cons.prems(2) [of c]
      by (force simp: expire_review_run_def Let_def fail_run_def set_update_where)
    then show ?case using Cons.IH Cons.prems(2) by simp
  qed simp
  from this [OF _ other, of "(db, [])"] show "u \<in> set (rb_runs (fst (expireStaleReviewTaskRuns now clock limit ms db)))"
    using assms(1) by (simp add: expireStaleReviewTaskRuns_def)
  show "heartbeatReviewTaskRun now agentId (ku_runId u) (ku_taskId u) workerId db = None"
    using assms(3) by (auto simp: heartbeatReviewTaskRun_def Let_def list_ex_iff)
qed

text \<open>
  C40: A worker asked for one task by its id rarely finds it. \<open>processReviewTask\<close> reads a page of one
  row, the newest open task, and looks for the id in it; every open task that is not the newest is
  reported as unavailable, though it is open and can be claimed.
\<close>

theorem worker_finds_newest_only:
  assumes "candidateTasks (Some taskId) taskType db = [task]"
  shows "map rt_taskId (take 1 (candidateTasks None taskType db)) = [show_int taskId]"
proof -
  let ?f = "\<lparr>tf_claimId = None, tf_sourceId = None, tf_status = Some RT_open, tf_taskType = taskType\<rparr>"
  have one: "fst (readReviewTasksPage ?f (Some 1) (Some 0) db) = take 1 (selectReviewTasks ?f db)"
    and many: "fst (readReviewTasksPage ?f (Some 20) (Some 0) db) = take 20 (selectReviewTasks ?f db)"
    by (simp_all add: readReviewTasksPage_def queryPage_def page_of_def normalizePagination_def)
  obtain ts where sel: "selectReviewTasks ?f db = task # ts" "rt_taskId task = show_int taskId"
    using assms one by (cases "selectReviewTasks ?f db")
      (auto simp: candidateTasks_def filter_eq_Cons_iff split: if_splits)
  then show ?thesis using many by (simp add: candidateTasks_def)
qed

section \<open>All pages of the review tables\<close>

interpretation review_task_pages: paged_rows "\<lambda>limit pos. readReviewTasksPage f (Some limit) (Some pos) db" "selectReviewTasks f db" for f db
  unfolding readReviewTasksPage_def by (rule query.paged_rows_axioms)

interpretation review_submission_pages: paged_rows "\<lambda>limit pos. readReviewSubmissionsPage f (Some limit) (Some pos) db" "selectReviewSubmissions f db" for f db
  unfolding readReviewSubmissionsPage_def by (rule query.paged_rows_axioms)

interpretation review_issue_pages: paged_rows "\<lambda>limit pos. readReviewIssuesPage f (Some limit) (Some pos) db" "selectReviewIssues f db" for f db
  unfolding readReviewIssuesPage_def by (rule query.paged_rows_axioms)

interpretation review_response_pages: paged_rows "\<lambda>limit pos. readReviewAuthorResponsesPage c (Some limit) (Some pos) db" "selectReviewAuthorResponses c db" for c db
  unfolding readReviewAuthorResponsesPage_def by (rule query.paged_rows_axioms)

text \<open>What \<open>review/worker.ts\<close> and \<open>rewards/settlement.ts\<close> read: all rows, whatever the page size.\<close>

lemma read_all_review_tables:
  "readAllPages (\<lambda>turn limit pos. readReviewTasksPage f (Some limit) (Some pos) db) n = Some (selectReviewTasks f db)"
  "readAllPages (\<lambda>turn limit pos. readReviewSubmissionsPage g (Some limit) (Some pos) db) n = Some (selectReviewSubmissions g db)"
  "readAllPages (\<lambda>turn limit pos. readReviewIssuesPage h (Some limit) (Some pos) db) n = Some (selectReviewIssues h db)"
  "readAllPages (\<lambda>turn limit pos. readReviewAuthorResponsesPage c (Some limit) (Some pos) db) n = Some (selectReviewAuthorResponses c db)"
  using review_task_pages.readers_agree(1) [of 1] review_submission_pages.readers_agree(1) [of 1]
    review_issue_pages.readers_agree(1) [of 1] review_response_pages.readers_agree(1) [of 1] by simp_all

section \<open>A concrete history\<close>

text \<open>A task for two reviewers of which one is enough; both claim it, the first submits.\<close>

definition sample_task_input :: "string \<Rightarrow> review_task_input" where
  "sample_task_input scope = \<lparr>ti_claimId = Some ''3 '', ti_consensusPolicy = [(''maxSubmissions'', JNum 2), (''requireDistinctAgents'', JBool True)],
     ti_inputArtifactKeys = None, ti_requestedBy = ''0xa'', ti_requiredCapabilities = Some [''stats''], ti_schemaVersion = None,
     ti_scopeKey = Some scope, ti_sourceId = None, ti_sourceSubjectId = None, ti_sourceSubjectType = None,
     ti_taskType = Stats_sanity_check\<rparr>"

definition right_db :: "'e + review_db \<times> 'a \<Rightarrow> review_db" where
  "right_db r = (case r of Inr (db, _) \<Rightarrow> db | Inl _ \<Rightarrow> review_empty)"

definition claimed_db :: "'e + (review_db \<times> 'a) option \<Rightarrow> review_db" where
  "claimed_db r = (case r of Inr (Some (db, _)) \<Rightarrow> db | _ \<Rightarrow> review_empty)"

definition rq1 :: review_db where "rq1 = right_db (createReviewTask 100 (sample_task_input [])  review_empty)"
definition rq2 :: review_db where "rq2 = claimed_db (claimReviewTaskById 200 (Some ''7'') 1 ''w'' rq1)"
definition rq3 :: review_db where "rq3 = claimed_db (claimReviewTaskById 300 (Some ''8'') 1 ''w'' rq2)"

definition sample_submission :: review_submission_input where
  "sample_submission = \<lparr>si_claimId = None, si_confidenceBps = Some 12000, si_dimensions = JObj [(''statisticalSanity'', JNum (15 / 2))],
     si_evidenceArtifactKey = None, si_issues = None, si_payload = None, si_resultArtifactKey = None, si_reviewType = None,
     si_reviewerActor = ''0xAB'', si_reviewerAgentId = Some ''7'', si_runId = Some 1, si_schemaVersion = None,
     si_sourceId = None, si_taskId = 1, si_verdict = Verdict_pass\<rparr>"

definition rq4 :: review_db where "rq4 = right_db (recordReviewSubmission 400 sample_submission rq3)"

lemma right_db: "\<not> isl r \<Longrightarrow> \<exists>x. r = Inr (right_db r, x)"
  by (cases r) (auto simp: right_db_def)

lemma claimed_db: "rb_runs (claimed_db r) \<noteq> [] \<Longrightarrow> \<exists>x. r = Inr (Some (claimed_db r, x))"
  by (auto simp: claimed_db_def review_empty_def split: sum.splits option.splits)

definition sample_task_row :: "int \<Rightarrow> string \<Rightarrow> review_task_status \<Rightarrow> int \<Rightarrow> int \<Rightarrow> int option \<Rightarrow> review_task_row" where
  "sample_task_row k scope status created updated finished = \<lparr>kt_taskId = k, kt_claimId = Some ''3'', kt_sourceId = None,
     kt_subjectType = Subject_claim, kt_subjectId = ''3'', kt_taskType = Stats_sanity_check, kt_scopeKey = scope,
     kt_schemaVersion = ''review-task.v1'', kt_status = status, kt_requestedBy = ''0xa'',
     kt_requiredCapabilities = JArr [JStr ''stats''], kt_inputArtifactKeys = JArr [],
     kt_consensusPolicy = JObj [(''maxSubmissions'', JNum 2), (''minSubmissions'', JNum 1), (''requireDistinctAgents'', JBool True)],
     kt_resultArtifactKey = None, kt_failureReason = None, kt_createdAt = created, kt_updatedAt = updated,
     kt_completedAt = finished\<rparr>"

lemma rq1_eq: "rq1 = review_empty\<lparr>rb_tasks := [sample_task_row 1 ''stats_sanity_check'' RT_open 100 100 None], rb_nextTask := 2\<rparr>"
  by code_simp

lemma rq1_step: "review_step review_empty rq1"
proof -
  have "\<not> isl (createReviewTask 100 (sample_task_input []) review_empty)" by code_simp
  then show ?thesis unfolding rq1_def by (rule right_db [THEN exE]) (rule review_step.create)
qed

lemma sample_policy: "normalizeConsensusPolicy (kt_consensusPolicy (sample_task_row k scope st a b c)) =
    \<lparr>cp_maxSubmissions = 2, cp_minSubmissions = 1, cp_requireDistinctAgents = True\<rparr>"
  by (simp add: sample_task_row_def normalizeConsensusPolicy_def json_field_def Let_def clamp_number_def)

lemmas sample_counts = find_by_def agent_submitted_def agent_running_def running_identity_taken_def
  countReviewTaskCompletedSubmissions_def countReviewTaskRunningRuns_def

lemma sample_task_id [simp]: "kt_taskId (sample_task_row k scope st a b c) = k" "kt_status (sample_task_row k scope st a b c) = st"
  by (simp_all add: sample_task_row_def)

lemma touch_sample [simp]: "touch_task now k [sample_task_row k scope st a b c] = [sample_task_row k scope st a now c]"
  by (simp add: touch_task_def sample_task_row_def)

lemma rq2_claim: "claimReviewTaskById 200 (Some ''7'') 1 ''w'' rq1 = Inr (Some (review_empty\<lparr>
    rb_tasks := [sample_task_row 1 ''stats_sanity_check'' RT_open 100 200 None], rb_runs := [new_review_run 200 1 1 (Some ''7'') ''w''],
    rb_nextTask := 2, rb_nextRun := 2\<rparr>, new_review_run 200 1 1 (Some ''7'') ''w''))"
  by (simp add: Let_def rq1_eq claimReviewTaskById_def sample_policy sample_counts review_empty_def)

lemmas rq2_eq = rq2_def [unfolded rq2_claim claimed_db_def, simplified]

lemma rq3_claim: "claimReviewTaskById 300 (Some ''8'') 1 ''w'' rq2 = Inr (Some (review_empty\<lparr>
    rb_tasks := [sample_task_row 1 ''stats_sanity_check'' RT_open 100 300 None],
    rb_runs := [new_review_run 200 1 1 (Some ''7'') ''w'', new_review_run 300 2 1 (Some ''8'') ''w''],
    rb_nextTask := 2, rb_nextRun := 3\<rparr>, new_review_run 300 2 1 (Some ''8'') ''w''))"
  by (simp add: Let_def rq2_eq claimReviewTaskById_def sample_policy sample_counts review_empty_def new_review_run_def)

lemmas rq3_eq = rq3_def [unfolded rq3_claim claimed_db_def, simplified]

lemma rq2_step: "review_step rq1 rq2"
  unfolding rq2_eq using rq2_claim by (rule review_step.claim)

lemma rq3_step: "review_step rq2 rq3"
  unfolding rq3_eq using rq3_claim by (rule review_step.claim)

lemma rq4_record: "\<not> isl (recordReviewSubmission 400 sample_submission rq3)"
  and rq4_facts: "map (\<lambda>u. (ku_runId u, ku_taskId u, ku_status u)) (rb_runs rq4) = [(1, 1, Run_completed), (2, 1, Run_running)]"
    "map (\<lambda>t. (kt_taskId t, kt_status t)) (rb_tasks rq4) = [(1, RT_completed)]"
    "countReviewTaskCompletedSubmissions 1 rq4 = 1" "countReviewTaskRunningRuns 1 rq4 = 1"
  by (simp_all add: rq4_def right_db_def recordReviewSubmission_def sample_submission_def rq3_eq sample_counts
      sample_policy check_run_def new_review_run_def store_submission_def Let_def review_empty_def complete_review_run_def
      settle_task_def new_review_submission_def)

lemma rq4_step: "review_step rq3 rq4"
  unfolding rq4_def using right_db [OF rq4_record]
  by (rule exE) (rule review_step.submit, auto simp: sample_submission_def)

lemma sample_reachable: "review_step\<^sup>*\<^sup>* review_empty rq1" "review_step\<^sup>*\<^sup>* review_empty rq3"
    "review_step\<^sup>*\<^sup>* review_empty rq4"
proof -
  show r1: "review_step\<^sup>*\<^sup>* review_empty rq1" by (rule r_into_rtranclp) (rule rq1_step)
  show r3: "review_step\<^sup>*\<^sup>* review_empty rq3"
    by (rule rtranclp.rtrancl_into_rtrancl [OF rtranclp.rtrancl_into_rtrancl [OF r1 rq2_step] rq3_step])
  show "review_step\<^sup>*\<^sup>* review_empty rq4" by (rule rtranclp.rtrancl_into_rtrancl [OF r3 rq4_step])
qed

theorem review_task_quota_witness:
  "\<exists>t. rb_tasks rq4 = [t] \<and> countReviewTaskCompletedSubmissions 1 rq4 + countReviewTaskRunningRuns 1 rq4
      \<le> cp_maxSubmissions (normalizeConsensusPolicy (kt_consensusPolicy t)) \<and>
    countReviewTaskCompletedSubmissions 1 rq4 = 1 \<and> countReviewTaskRunningRuns 1 rq4 = 1"
proof -
  obtain t where "rb_tasks rq4 = [t]" "kt_taskId t = 1" using rq4_facts(2) by auto
  then show ?thesis using review_task_quota [OF sample_reachable(3), of t] rq4_facts(3,4) by simp
qed

theorem review_open_identity_unique_witness:
  "\<exists>t \<in> set (rb_tasks rq1). kt_status t = RT_open \<and> t = hd (rb_tasks rq1)"
proof -
  obtain t where "rb_tasks rq1 = [t]" "kt_status t = RT_open" by (simp add: rq1_eq)
  with review_open_identity_unique [OF sample_reachable(1), of t t] show ?thesis by simp
qed

theorem review_open_claimable_witness:
  "\<exists>db' run. claimReviewTaskById 150 (Some ''9'') 1 ''w'' rq1 = Inr (Some (db', run)) \<and> ku_status run = Run_running"
proof -
  have i: "countReviewTaskRunningRuns 1 rq1 = 0" "\<not> agent_submitted 1 (Some ''9'') rq1"
    by (simp_all add: rq1_eq sample_counts review_empty_def)
  have "sample_task_row 1 ''stats_sanity_check'' RT_open 100 100 None \<in> set (rb_tasks rq1)" by (simp add: rq1_eq)
  from review_open_claimable [OF sample_reachable(1) this, of "Some ''9''" 150 "''w''"] i show ?thesis by auto
qed

theorem review_orphaned_run_witness:
  "\<exists>u \<in> set (rb_runs (fst (expireStaleReviewTaskRuns 900 900 None 1 rq4))). ku_runId u = 2 \<and> ku_status u = Run_running"
proof -
  obtain v u where u: "rb_runs rq4 = [v, u]" "ku_runId v = 1" "ku_runId u = 2" "ku_taskId u = 1" "ku_status u = Run_running"
    using rq4_facts(1) by auto
  have c: "\<not> task_is_open 1 rq4" using rq4_facts(2) by (auto simp: task_is_open_def)
  from review_orphaned_run [of u rq4 900 900 None 1] u c show ?thesis by auto
qed

text \<open>With a newer task, the older one is not found by its id.\<close>

definition rq_two :: review_db where
  "rq_two = review_empty\<lparr>rb_tasks := [sample_task_row 1 ''a'' RT_open 100 100 None, sample_task_row 2 ''b'' RT_open 200 200 None],
     rb_nextTask := 3\<rparr>"

lemma rq_two_selected: "selectReviewTasks \<lparr>tf_claimId = None, tf_sourceId = None, tf_status = Some RT_open, tf_taskType = None\<rparr> rq_two =
    map mapReviewTaskRow [sample_task_row 2 ''b'' RT_open 200 200 None, sample_task_row 1 ''a'' RT_open 100 100 None]"
  by (simp add: selectReviewTasks_def rq_two_def taskMatches_def restricts_def newest_first_def sample_task_row_def)

lemma rq_two_candidates: "candidateTasks (Some k) None rq_two =
    (if show_int 2 = show_int k then [mapReviewTaskRow (sample_task_row 2 ''b'' RT_open 200 200 None)] else [])"
  by (simp add: candidateTasks_def readReviewTasksPage_def queryPage_def page_of_def normalizePagination_def
      rq_two_selected mapReviewTaskRow_def)

theorem worker_finds_newest_only_witness:
  "map rt_taskId (take 1 (candidateTasks None None rq_two)) = [''2''] \<and>
   candidateTasks (Some 1) None rq_two = [] \<and> task_is_open 1 rq_two"
proof -
  have n: "show_int 2 = ''2''" "show_int 1 = ''1''" by code_simp+
  have "candidateTasks (Some 2) None rq_two = [mapReviewTaskRow (sample_task_row 2 ''b'' RT_open 200 200 None)]"
    by (simp only: rq_two_candidates) simp
  from worker_finds_newest_only [OF this] n(1) have "map rt_taskId (take 1 (candidateTasks None None rq_two)) = [''2'']"
    by simp
  moreover have "candidateTasks (Some 1) None rq_two = []" by (simp add: rq_two_candidates n)
  moreover have "task_is_open 1 rq_two" by (simp add: task_is_open_def rq_two_def)
  ultimately show ?thesis by blast
qed

end
