(* ===== verification/Work_Reads.thy ===== *)
theory Work_Reads
  imports Coordinator_Reads Review_Queue Work_Graph_Facts
begin

text \<open>
  How the API assembles the work graph of a claim (\<open>api/read-payloads.ts\<close>, lines 269-355 and
  410-545): all pages of the claim's review tasks, submissions and replication jobs, the maintenance
  tasks of every artifact they name, and the runs of each. The state of the three stores is one
  record; the chain's artifacts come from the indexer and are an argument. The payload is \<open>None\<close>
  where a paging loop would not end, which the lemmas exclude.
\<close>

record work_stores =
  ws_review :: review_db
  ws_replication :: replication_db
  ws_maintenance :: maintenance_db

definition no_replication_filter :: replication_filter where
  "no_replication_filter = \<lparr>jf_assignedAgentId = None, jf_assignedWorker = None, jf_claimId = None,
     jf_requestedBy = None, jf_status = None\<rparr>"

definition no_maintenance_filter :: maintenance_filter where
  "no_maintenance_filter = \<lparr>af_artifactKey = None, af_assignedAgentId = None, af_status = None,
     af_targetReplicaKey = None, af_taskType = None\<rparr>"

definition readAllReviewTasks :: "review_task_filter \<Rightarrow> work_stores \<Rightarrow> review_task list option" where
  "readAllReviewTasks f w =
     apiReadAllPages (\<lambda>turn pos limit. readReviewTasksPage f (Some limit) (Some pos) (ws_review w)) 200"

definition readAllReviewSubmissions :: "review_submission_filter \<Rightarrow> work_stores \<Rightarrow> review_submission list option" where
  "readAllReviewSubmissions f w =
     apiReadAllPages (\<lambda>turn pos limit. readReviewSubmissionsPage f (Some limit) (Some pos) (ws_review w)) 200"

definition readAllClaimReplicationJobs :: "string \<Rightarrow> work_stores \<Rightarrow> replication_job list option" where
  "readAllClaimReplicationJobs claimId w = apiReadAllPages (\<lambda>turn pos limit.
     readClaimReplicationJobsPage claimId no_replication_filter (Some limit) (Some pos) (ws_replication w)) 200"

definition readAllArtifactMaintenanceTasks :: "string \<Rightarrow> work_stores \<Rightarrow> maintenance_task list option" where
  "readAllArtifactMaintenanceTasks key w = apiReadAllPages (\<lambda>turn pos limit.
     readPersistedArtifactMaintenanceTasksPage key no_maintenance_filter (Some limit) (Some pos) (ws_maintenance w)) 200"

text \<open>
  \<open>Object.fromEntries\<close> of entries whose keys are printed ids: later entries win, and the properties
  of an object with such keys are listed by increasing number.
\<close>

definition object_of :: "(string \<times> 'a) list \<Rightarrow> (string, 'a) jmap" where
  "object_of entries = js_sort (\<lambda>x y. nullish (digits_value (fst x)) 0 - nullish (digits_value (fst y)) 0)
     (jm_of_list entries)"

definition groupSubmissions :: "review_submission list \<Rightarrow> (string, review_submission list) jmap" where
  "groupSubmissions submissions = object_of (jm_group rs_taskId submissions)"

fun all_some :: "'a option list \<Rightarrow> 'a list option" where
  "all_some [] = Some []"
| "all_some (x # xs) = (case x of None \<Rightarrow> None | Some v \<Rightarrow> map_option ((#) v) (all_some xs))"

text \<open>The parts a caller has read already.\<close>

record graph_seed =
  gs_artifacts :: "artifact_view list option"
  gs_replicationJobs :: "replication_job list option"
  gs_reviewSubmissions :: "review_submission list option"
  gs_reviewTasks :: "review_task list option"

definition no_seed :: graph_seed where
  "no_seed = \<lparr>gs_artifacts = None, gs_replicationJobs = None, gs_reviewSubmissions = None, gs_reviewTasks = None\<rparr>"

definition claimTaskFilter :: "string \<Rightarrow> review_task_filter" where
  "claimTaskFilter claimId = \<lparr>tf_claimId = Some claimId, tf_sourceId = None, tf_status = None, tf_taskType = None\<rparr>"

definition claimSubmissionFilter :: "string \<Rightarrow> review_submission_filter" where
  "claimSubmissionFilter claimId = \<lparr>sf_claimId = Some claimId, sf_sourceId = None, sf_taskId = None,
     sf_reviewerAgentId = None, sf_verdict = None\<rparr>"

definition claimGraphInput ::
  "string \<Rightarrow> artifact_view list \<Rightarrow> review_task list \<Rightarrow> review_submission list \<Rightarrow> replication_job list \<Rightarrow>
   maintenance_task list \<Rightarrow> work_stores \<Rightarrow> claim_graph_input" where
  "claimGraphInput claimId artifacts reviewTasks submissions jobs maintenanceTasks w =
     \<lparr>ci_artifactMaintenanceRunsByTaskId = object_of (map (\<lambda>t. (mt_taskId t, map toClaimWorkRunView_maintenance
         (readArtifactMaintenanceTaskRuns (mt_taskId t) (ws_maintenance w)))) maintenanceTasks),
      ci_artifactMaintenanceTasks = maintenanceTasks, ci_artifacts = artifacts, ci_claimId = claimId,
      ci_replicationJobs = jobs,
      ci_replicationRunsByJobId = object_of (map (\<lambda>j. (jv_jobId j, map toClaimWorkRunView_replication
         (readReplicationJobRuns (jv_jobId j) (ws_replication w)))) jobs),
      ci_reviewRunsByTaskId = object_of (map (\<lambda>t. (rt_taskId t, map toClaimWorkRunView_review
         (readReviewTaskRuns (rt_taskId t) (ws_review w)))) reviewTasks),
      ci_reviewSubmissionsByTaskId = groupSubmissions submissions, ci_reviewTasks = reviewTasks\<rparr>"

definition buildClaimWorkGraphPayload ::
  "(string \<Rightarrow> artifact_view list) \<Rightarrow> string \<Rightarrow> graph_seed \<Rightarrow> work_stores \<Rightarrow> claim_work_graph option" where
  "buildClaimWorkGraphPayload readArtifactsByClaim claimId seeded w =
     (let artifacts = nullish (gs_artifacts seeded) (readArtifactsByClaim claimId) in
      Option.bind (case gs_reviewTasks seeded of Some ts \<Rightarrow> Some ts
        | None \<Rightarrow> readAllReviewTasks (claimTaskFilter claimId) w) (\<lambda>reviewTasks.
      Option.bind (case gs_reviewSubmissions seeded of Some ss \<Rightarrow> Some ss
        | None \<Rightarrow> readAllReviewSubmissions (claimSubmissionFilter claimId) w) (\<lambda>submissions.
      Option.bind (case gs_replicationJobs seeded of Some js \<Rightarrow> Some js
        | None \<Rightarrow> readAllClaimReplicationJobs claimId w) (\<lambda>jobs.
      Option.bind (all_some (map (\<lambda>key. readAllArtifactMaintenanceTasks key w)
          (js_nub (collectClaimWorkArtifactKeys [] [] jobs submissions reviewTasks)))) (\<lambda>maintenance.
      Some (buildClaimWorkGraph
        (claimGraphInput claimId artifacts reviewTasks submissions jobs (concat maintenance) w)))))))"

text \<open>The source's record comes from the sources store and is an argument.\<close>

definition sourceTaskFilter :: "string \<Rightarrow> review_task_filter" where
  "sourceTaskFilter sourceId = \<lparr>tf_claimId = None, tf_sourceId = Some sourceId, tf_status = None, tf_taskType = None\<rparr>"

definition sourceSubmissionFilter :: "string \<Rightarrow> review_submission_filter" where
  "sourceSubmissionFilter sourceId = \<lparr>sf_claimId = None, sf_sourceId = Some sourceId, sf_taskId = None,
     sf_reviewerAgentId = None, sf_verdict = None\<rparr>"

datatype source_graph_error = Source_not_found string

definition buildSourceWorkGraphPayload ::
  "(string \<Rightarrow> source_record option) \<Rightarrow> string \<Rightarrow> source_record option \<Rightarrow> graph_seed \<Rightarrow> work_stores \<Rightarrow>
   (source_graph_error + source_work_graph) option" where
  "buildSourceWorkGraphPayload readSourceRecord sourceId seededSource seeded w =
     Option.bind (case gs_reviewTasks seeded of Some ts \<Rightarrow> Some ts
        | None \<Rightarrow> readAllReviewTasks (sourceTaskFilter sourceId) w) (\<lambda>reviewTasks.
     Option.bind (case gs_reviewSubmissions seeded of Some ss \<Rightarrow> Some ss
        | None \<Rightarrow> readAllReviewSubmissions (sourceSubmissionFilter sourceId) w) (\<lambda>submissions.
     Some (case (case seededSource of Some src \<Rightarrow> Some src | None \<Rightarrow> readSourceRecord sourceId) of
        None \<Rightarrow> Inl (Source_not_found sourceId)
      | Some src \<Rightarrow> Inr (buildSourceWorkGraph \<lparr>
          si_reviewRunsByTaskId = object_of (map (\<lambda>t. (rt_taskId t, map toClaimWorkRunView_review
            (readReviewTaskRuns (rt_taskId t) (ws_review w)))) reviewTasks),
          si_reviewSubmissionsByTaskId = groupSubmissions submissions,
          si_reviewTasks = reviewTasks, si_source = src\<rparr>))))"

section \<open>The payload is total\<close>

lemma read_all_views:
  "readAllReviewTasks f w = Some (selectReviewTasks f (ws_review w))"
  "readAllReviewSubmissions g w = Some (selectReviewSubmissions g (ws_review w))"
  "readAllClaimReplicationJobs claimId w =
     Some (queryReplicationJobs (jobMatches (no_replication_filter\<lparr>jf_claimId := Some claimId\<rparr>)) (ws_replication w))"
  "readAllArtifactMaintenanceTasks key w =
     Some (queryArtifactMaintenanceTasks (maintenanceMatches (no_maintenance_filter\<lparr>af_artifactKey := Some key\<rparr>)) (ws_maintenance w))"
  unfolding readAllReviewTasks_def readAllReviewSubmissions_def readAllClaimReplicationJobs_def
    readAllArtifactMaintenanceTasks_def readClaimReplicationJobsPage_def readPersistedArtifactMaintenanceTasksPage_def
  by (rule review_task_pages.readers_agree(2), simp, rule review_submission_pages.readers_agree(2), simp,
      rule replication_pages.readers_agree(2), simp, rule maintenance_pages.readers_agree(2), simp)

lemma all_some_map_Some: "all_some (map (\<lambda>x. Some (f x)) xs) = Some (map f xs)"
  by (induction xs) simp_all

definition claimMaintenanceTasks :: "string list \<Rightarrow> work_stores \<Rightarrow> maintenance_task list" where
  "claimMaintenanceTasks keys w = concat (map (\<lambda>key. queryArtifactMaintenanceTasks
     (maintenanceMatches (no_maintenance_filter\<lparr>af_artifactKey := Some key\<rparr>)) (ws_maintenance w)) keys)"

definition freshGraphInput :: "(string \<Rightarrow> artifact_view list) \<Rightarrow> string \<Rightarrow> work_stores \<Rightarrow> claim_graph_input" where
  "freshGraphInput readArtifactsByClaim claimId w =
     (let ts = selectReviewTasks (claimTaskFilter claimId) (ws_review w);
          ss = selectReviewSubmissions (claimSubmissionFilter claimId) (ws_review w);
          js = queryReplicationJobs (jobMatches (no_replication_filter\<lparr>jf_claimId := Some claimId\<rparr>)) (ws_replication w)
      in claimGraphInput claimId (readArtifactsByClaim claimId) ts ss js
           (claimMaintenanceTasks (js_nub (collectClaimWorkArtifactKeys [] [] js ss ts)) w) w)"

lemma payload_fresh:
  "buildClaimWorkGraphPayload readArtifactsByClaim claimId no_seed w =
   Some (buildClaimWorkGraph (freshGraphInput readArtifactsByClaim claimId w))"
  by (simp add: buildClaimWorkGraphPayload_def no_seed_def read_all_views all_some_map_Some
      freshGraphInput_def claimMaintenanceTasks_def Let_def)

lemma object_of_get: "jm_get (object_of entries) k = map_of (rev entries) k"
proof -
  have d: "distinct (map fst (jm_of_list entries))"
  proof -
    have "distinct (jm_keys m) \<Longrightarrow> distinct (jm_keys (fold (\<lambda>(k, v). jm_set k v) es m))" for es m
      by (induction es arbitrary: m) auto
    from this [of "[]" entries] show ?thesis by (simp add: jm_of_list_def)
  qed
  have m: "mset (object_of entries) = mset (jm_of_list entries)" by (simp add: object_of_def)
  then have "mset (map fst (object_of entries)) = mset (map fst (jm_of_list entries))" by simp
  with d have d': "distinct (map fst (object_of entries))" by (metis mset_eq_imp_distinct_iff)
  have "set (object_of entries) = set (jm_of_list entries)" using m by (rule mset_eq_setD)
  then have "map_of (object_of entries) = map_of (jm_of_list entries)"
    using d d' by (intro map_of_inject_set [THEN iffD2])
  then show ?thesis by (simp flip: jm_of_list_get)
qed

section \<open>The runs of an item\<close>

lemma fresh_parts:
  obtains ts ss js ms
  where "freshGraphInput readArtifactsByClaim claimId w = claimGraphInput claimId (readArtifactsByClaim claimId) ts ss js ms w"
    and "ts = selectReviewTasks (claimTaskFilter claimId) (ws_review w)"
    and "js = queryReplicationJobs (jobMatches (no_replication_filter\<lparr>jf_claimId := Some claimId\<rparr>)) (ws_replication w)"
    and "\<exists>keys. ms = claimMaintenanceTasks keys w"
  by (rule that [OF freshGraphInput_def [unfolded Let_def] refl refl]) blast

lemma map_of_keyed: "x \<in> set xs \<Longrightarrow> map_of (rev (map (\<lambda>x. (k x, f (k x))) xs)) (k x) = Some (f (k x))"
proof -
  assume "x \<in> set xs"
  then have "map_of (rev (map (\<lambda>x. (k x, f (k x))) xs)) (k x) \<noteq> None"
    by (auto simp: map_of_eq_None_iff image_iff)
  then obtain y where y: "map_of (rev (map (\<lambda>x. (k x, f (k x))) xs)) (k x) = Some y" by blast
  from map_of_SomeD [OF this] have "y = f (k x)" by auto
  with y show ?thesis by simp
qed

lemma graph_runs:
  assumes "inp = claimGraphInput claimId artifacts ts ss js ms w"
  shows "t \<in> set ts \<Longrightarrow> reviewRuns inp t = map toClaimWorkRunView_review (readReviewTaskRuns (rt_taskId t) (ws_review w))"
    and "j \<in> set js \<Longrightarrow> replicationRuns inp j = map toClaimWorkRunView_replication (readReplicationJobRuns (jv_jobId j) (ws_replication w))"
    and "m \<in> set ms \<Longrightarrow> maintenanceRuns inp m = map toClaimWorkRunView_maintenance
      (readArtifactMaintenanceTaskRuns (mt_taskId m) (ws_maintenance w))"
  using map_of_keyed [of t ts rt_taskId "\<lambda>k. map toClaimWorkRunView_review (readReviewTaskRuns k (ws_review w))"]
    map_of_keyed [of j js jv_jobId "\<lambda>k. map toClaimWorkRunView_replication (readReplicationJobRuns k (ws_replication w))"]
    map_of_keyed [of m ms mt_taskId "\<lambda>k. map toClaimWorkRunView_maintenance (readArtifactMaintenanceTaskRuns k (ws_maintenance w))"]
  by (simp_all add: assms claimGraphInput_def reviewRuns_def replicationRuns_def maintenanceRuns_def object_of_get)

lemma set_newest_first [simp]: "set (newest_first c k rows) = set rows"
  by (simp add: newest_first_def)

lemma running_review_runs: "hasRunningRun (map toClaimWorkRunView_review (readReviewTaskRuns (show_int k) db)) \<longleftrightarrow>
    countReviewTaskRunningRuns k db \<noteq> 0"
  by (auto simp: hasRunningRun_def list_ex_iff readReviewTaskRuns_def toClaimWorkRunView_review_def
      mapReviewTaskRunRow_def countReviewTaskRunningRuns_def count_if_zero_iff)

lemma running_replication_runs:
  "hasRunningRun (map toClaimWorkRunView_replication (readReplicationJobRuns (show_int k) db)) \<longleftrightarrow>
   (\<exists>r. holds_job_lease r k db)"
  by (auto simp: hasRunningRun_def list_ex_iff set_readReplicationJobRuns toClaimWorkRunView_replication_def
      toReplicationJobRunView_def holds_job_lease_def)

lemma replication_item_canClaim: "wo_canClaim (wi_orchestration (replicationItem c s j runs)) \<longleftrightarrow>
    jv_status j = Job_open \<and> \<not> hasRunningRun runs"
  by (simp add: replicationItem_def replicationInput_def Let_def facts_flags policy_max_def buildReplicationWorkPolicy_def
      toReplicationStatus_def replicationResult_def hasRunningRun_active activeRunCount_def split: job_status.split)

lemma open_job_not_assigned:
  assumes "replication_step\<^sup>*\<^sup>* replication_empty db" and "row \<in> set (rd_jobs db)" and "rq_status row = Job_open"
  shows "\<not> job_is_assigned (rq_jobId row) db"
proof -
  have "distinct (map rq_jobId (rd_jobs db))"
    using replication.reachable_inv [OF assms(1)]
    by (simp add: lease_inv_def replication_lease_view_def replication_job_view_def comp_def)
  then have "t = row" if "t \<in> set (rd_jobs db)" "rq_jobId t = rq_jobId row" for t
    using that assms(2) by (auto simp: distinct_map dest: inj_onD)
  with assms(3) show ?thesis by (fastforce simp: job_is_assigned_def list_ex_iff)
qed

text \<open>The item of a stored replication job.\<close>

lemma graph_job_item:
  assumes "replication_step\<^sup>*\<^sup>* replication_empty (ws_replication w)"
    and "row \<in> set (rd_jobs (ws_replication w))" and "rq_claimId row = claimId"
  shows "\<exists>i \<in> set (cg_items (buildClaimWorkGraph (freshGraphInput readArtifactsByClaim claimId w))). wi_itemId i = ''replication-job:'' @ show_int (rq_jobId row) \<and>
    (wi_activeRun i \<noteq> None \<longleftrightarrow> job_is_assigned (rq_jobId row) (ws_replication w)) \<and>
    (job_is_assigned (rq_jobId row) (ws_replication w) \<longrightarrow> wi_status i = WS_leased) \<and>
    (wo_canClaim (wi_orchestration i) \<longleftrightarrow> rq_status row = Job_open)"
proof -
  let ?inp = "freshGraphInput readArtifactsByClaim claimId w"
  let ?j = "toReplicationJobView row"
  obtain ts ss js ms where inp: "?inp = claimGraphInput claimId (readArtifactsByClaim claimId) ts ss js ms w"
    and js: "js = queryReplicationJobs (jobMatches (no_replication_filter\<lparr>jf_claimId := Some claimId\<rparr>)) (ws_replication w)"
    by (rule fresh_parts [of readArtifactsByClaim claimId w])
  have j: "?j \<in> set js"
    using assms(2,3) by (auto simp: js set_queryReplicationJobs jobMatches_def no_replication_filter_def given_matches_def)
  let ?runs = "replicationRuns ?inp ?j"
  let ?item = "replicationItem claimId (''claim:'' @ claimId) ?j ?runs"
  have item: "?item \<in> set (claimItems ?inp)" using j by (auto simp: claimItems_def inp claimGraphInput_def)
  have id: "jv_jobId ?j = show_int (rq_jobId row)" by (simp add: toReplicationJobView_def)
  have run: "hasRunningRun ?runs \<longleftrightarrow> job_is_assigned (rq_jobId row) (ws_replication w)"
    unfolding graph_runs(2) [OF inp j] id running_replication_runs
    using replication.exclusive_lease [OF assms(1)] replication.assigned_has_lease [OF assms(1)]
    unfolding holds_job_lease_view replication_assigned by blast
  let ?i = "withScheduling (map (withRouting (claimItems ?inp)) (claimItems ?inp)) (withRouting (claimItems ?inp) ?item)"
  have "wi_status ?item = WS_leased" if "hasRunningRun ?runs"
    using that by (simp add: replicationItem_def replicationInput_def Let_def toReplicationStatus_def)
  moreover have "wo_canClaim (wi_orchestration ?item) \<longleftrightarrow> rq_status row = Job_open"
    using open_job_not_assigned [OF assms(1,2)] run
    by (auto simp: replication_item_canClaim toReplicationJobView_def)
  moreover have "wi_activeRun ?item \<noteq> None \<longleftrightarrow> hasRunningRun ?runs"
    by (simp add: replicationItem_def Let_def activeRun_None)
  moreover have "wi_itemId ?item = ''replication-job:'' @ show_int (rq_jobId row)"
    by (simp add: replicationItem_def Let_def replicationItemId_def id)
  moreover have "?i \<in> set (cg_items (buildClaimWorkGraph ?inp))" by (rule claim_item_in_graph [OF item])
  ultimately show ?thesis using run by (intro bexI [of _ ?i]) auto
qed


section \<open>Properties\<close>



section \<open>Witnesses\<close>

text \<open>One job was created for claim 3; a worker then leases it.\<close>

definition sample_jobs :: replication_db where
  "sample_jobs = fst (createReplicationJob 1 ''3'' ''owner'' ''h'' None replication_empty)"

definition sample_stores :: work_stores where
  "sample_stores = \<lparr>ws_review = review_empty, ws_replication = sample_jobs, ws_maintenance = maintenance_empty\<rparr>"

lemma sample_jobs_reachable: "replication_step\<^sup>*\<^sup>* replication_empty sample_jobs"
  unfolding sample_jobs_def by (intro r_into_rtranclp replication_step.create)

lemma sample_jobs_row: "\<exists>row. rd_jobs sample_jobs = [row] \<and> rq_jobId row = 1 \<and> rq_claimId row = ''3'' \<and> rq_status row = Job_open"
  by (simp add: sample_jobs_def createReplicationJob_def Let_def replication_empty_def)

abbreviation sample_graph :: claim_work_graph where
  "sample_graph \<equiv> buildClaimWorkGraph (freshGraphInput (\<lambda>c. []) ''3'' sample_stores)"



end
