(* ===== verification/Work_Reaper.thy ===== *)
theory Work_Reaper
  imports Work_Reads
begin

text \<open>
  The reaper of abandoned work (\<open>work/reaper.ts\<close>): one sweep over the stale leases of the three
  queues, reported as one list of items. The sweeps run in three transactions, so each has the clock
  of its process (\<open>Date.now()\<close>) and the time of its transaction (\<open>NOW()\<close>) as arguments; the stores
  share no table, so their order does not matter.
\<close>

record reaped_lease =
  rl_claimId :: "string option"
  rl_itemId :: string
  rl_kind :: work_item_kind
  rl_run :: work_run
  rl_timedOutAt :: string

type_synonym expired_maintenance = "maintenance_task_run \<times> maintenance_task \<times> string"
type_synonym expired_replication = "replication_job_run \<times> replication_job \<times> string"

definition normalizeArtifactMaintenanceExpiry :: "expired_maintenance \<Rightarrow> reaped_lease" where
  "normalizeArtifactMaintenanceExpiry e = (case e of (run, reopenedTask, timedOutAt) \<Rightarrow>
     \<lparr>rl_claimId = None, rl_itemId = ''artifact-maintenance:'' @ mt_taskId reopenedTask,
      rl_kind = Artifact_maintenance, rl_run = toClaimWorkRunView_maintenance run, rl_timedOutAt = timedOutAt\<rparr>)"

definition normalizeReplicationExpiry :: "expired_replication \<Rightarrow> reaped_lease" where
  "normalizeReplicationExpiry e = (case e of (run, reopenedJob, timedOutAt) \<Rightarrow>
     \<lparr>rl_claimId = Some (jv_claimId reopenedJob), rl_itemId = ''replication-job:'' @ jv_jobId reopenedJob,
      rl_kind = Replication_job, rl_run = toClaimWorkRunView_replication run, rl_timedOutAt = timedOutAt\<rparr>)"

definition normalizeReviewExpiry :: "expired_review_run \<Rightarrow> reaped_lease" where
  "normalizeReviewExpiry e =
     \<lparr>rl_claimId = xr_claimId e, rl_itemId = ''review-task:'' @ show_int (xr_taskId e), rl_kind = Review_task,
      rl_run = toClaimWorkRunView_review (xr_run e), rl_timedOutAt = xr_timedOutAt e\<rparr>"

definition compareReaped :: "reaped_lease \<Rightarrow> reaped_lease \<Rightarrow> int" where
  "compareReaped l r =
     (if rl_timedOutAt l \<noteq> rl_timedOutAt r then locale_compare (rl_timedOutAt r) (rl_timedOutAt l)
      else locale_compare (rl_itemId l) (rl_itemId r))"

record sweep_clock =
  sc_clock :: int
  sc_now :: int

record reap_input =
  ri_includeArtifactMaintenance :: "bool option"
  ri_includeReplication :: "bool option"
  ri_includeReview :: "bool option"
  ri_limit :: "int option"
  ri_staleAfterMs :: int

record reap_result =
  rr_artifactMaintenance :: "expired_maintenance list"
  rr_byMaintenance :: int
  rr_byReplication :: int
  rr_byReview :: int
  rr_items :: "reaped_lease list"
  rr_limit :: int
  rr_limitStaleAfterMs :: int
  rr_replication :: "expired_replication list"
  rr_requestedAt :: string
  rr_review :: "expired_review_run list"
  rr_totalExpired :: int

definition sweepMaintenance :: "sweep_clock \<Rightarrow> int \<Rightarrow> reap_input \<Rightarrow> maintenance_db \<Rightarrow> maintenance_db \<times> expired_maintenance list" where
  "sweepMaintenance c bound i db = (if ri_includeArtifactMaintenance i = Some False then (db, [])
     else case expireStaleArtifactMaintenanceTaskRuns (sc_now c) (sc_clock c) (Some bound) (ri_staleAfterMs i) db of
       (db', expired) \<Rightarrow> (db', map (\<lambda>(u, t). (toMaintenanceTaskRunView u, toMaintenanceTaskView t, iso_string (sc_clock c))) expired))"

definition sweepReplication :: "sweep_clock \<Rightarrow> int \<Rightarrow> reap_input \<Rightarrow> replication_db \<Rightarrow> replication_db \<times> expired_replication list" where
  "sweepReplication c bound i db = (if ri_includeReplication i = Some False then (db, [])
     else case expireStaleReplicationJobRuns (sc_now c) (sc_clock c) (Some bound) (ri_staleAfterMs i) db of
       (db', expired) \<Rightarrow> (db', map (\<lambda>(u, t). (toReplicationJobRunView u, toReplicationJobView t, iso_string (sc_clock c))) expired))"

definition sweepReview :: "sweep_clock \<Rightarrow> int \<Rightarrow> reap_input \<Rightarrow> review_db \<Rightarrow> review_db \<times> expired_review_run list" where
  "sweepReview c bound i db = (if ri_includeReview i = Some False then (db, [])
     else expireStaleReviewTaskRuns (sc_now c) (sc_clock c) (Some bound) (ri_staleAfterMs i) db)"

definition reapStaleClaimWorkLeases ::
  "sweep_clock \<Rightarrow> sweep_clock \<Rightarrow> sweep_clock \<Rightarrow> int \<Rightarrow> reap_input \<Rightarrow> work_stores \<Rightarrow> work_stores \<times> reap_result" where
  "reapStaleClaimWorkLeases cm cr cv requestedAt i w =
     (let effectiveLimit = max 1 (min (nullish (ri_limit i) 50) 200) in
      case sweepMaintenance cm effectiveLimit i (ws_maintenance w) of (md, artifactMaintenance) \<Rightarrow>
      case sweepReplication cr effectiveLimit i (ws_replication w) of (rd, replication) \<Rightarrow>
      case sweepReview cv effectiveLimit i (ws_review w) of (rb, review) \<Rightarrow>
      let items = js_sort compareReaped (map normalizeArtifactMaintenanceExpiry artifactMaintenance @
            map normalizeReplicationExpiry replication @ map normalizeReviewExpiry review)
      in (\<lparr>ws_review = rb, ws_replication = rd, ws_maintenance = md\<rparr>,
          \<lparr>rr_artifactMaintenance = artifactMaintenance, rr_byMaintenance = int (length artifactMaintenance),
           rr_byReplication = int (length replication), rr_byReview = int (length review), rr_items = items,
           rr_limit = effectiveLimit, rr_limitStaleAfterMs = ri_staleAfterMs i, rr_replication = replication,
           rr_requestedAt = iso_string requestedAt, rr_review = review, rr_totalExpired = int (length items)\<rparr>))"

section \<open>The report\<close>

text \<open>A sweep's loop reports at most one entry per candidate.\<close>

lemma fold_reports:
  assumes "\<And>c acc. \<exists>xs. snd (f c acc) = snd acc @ xs \<and> length xs \<le> 1 \<and> list_all P xs"
  shows "list_all P (snd (fold f cs acc)) \<longleftrightarrow> list_all P (snd acc)"
    and "length (snd (fold f cs acc)) \<le> length (snd acc) + length cs"
proof -
  have "(list_all P (snd (fold f cs acc)) \<longleftrightarrow> list_all P (snd acc)) \<and>
      length (snd (fold f cs acc)) \<le> length (snd acc) + length cs"
  proof (induction cs arbitrary: acc)
    case (Cons c cs)
    obtain xs where "snd (f c acc) = snd acc @ xs" "length xs \<le> 1" "list_all P xs" using assms by blast
    with Cons [of "f c acc"] show ?case by simp
  qed simp
  then show "list_all P (snd (fold f cs acc)) \<longleftrightarrow> list_all P (snd acc)"
    and "length (snd (fold f cs acc)) \<le> length (snd acc) + length cs" by simp_all
qed

definition timed_out :: "work_run \<Rightarrow> bool" where
  "timed_out r \<longleftrightarrow> run_status r = Run_failed \<and> run_failureReason r = Some ''heartbeat_timeout''"

lemma maintenance_report:
  "\<exists>xs. snd (expire_and_read now c acc) = snd acc @ xs \<and> length xs \<le> 1 \<and>
     list_all (\<lambda>(u, t). timed_out (toClaimWorkRunView_maintenance (toMaintenanceTaskRunView u))) xs"
  by (auto simp: expire_and_read_def expire_candidate_def Let_def timed_out_def toClaimWorkRunView_maintenance_def
      toMaintenanceTaskRunView_def split: option.split dest!: find_by_updated)

lemma replication_report:
  "\<exists>xs. snd (expire_job_and_read now c acc) = snd acc @ xs \<and> length xs \<le> 1 \<and>
     list_all (\<lambda>(u, t). timed_out (toClaimWorkRunView_replication (toReplicationJobRunView u))) xs"
  by (auto simp: expire_job_and_read_def expire_job_candidate_def Let_def timed_out_def toClaimWorkRunView_replication_def
      toReplicationJobRunView_def split: option.split dest!: find_by_updated)

lemma review_report:
  "\<exists>xs. snd (expire_review_run now clock c acc) = snd acc @ xs \<and> length xs \<le> 1 \<and>
     list_all (\<lambda>e. timed_out (toClaimWorkRunView_review (xr_run e))) xs"
  by (auto simp: expire_review_run_def fail_run_def readReviewTaskRun_def Let_def timed_out_def toClaimWorkRunView_review_def
      mapReviewTaskRunRow_def split: option.split dest!: find_by_updated)

lemma store_reports:
  "list_all (\<lambda>(u, t). timed_out (toClaimWorkRunView_maintenance (toMaintenanceTaskRunView u)))
     (snd (expireStaleArtifactMaintenanceTaskRuns now clock l ms md))"
  "list_all (\<lambda>(u, t). timed_out (toClaimWorkRunView_replication (toReplicationJobRunView u)))
     (snd (expireStaleReplicationJobRuns now clock l ms rd))"
  "list_all (\<lambda>e. timed_out (toClaimWorkRunView_review (xr_run e))) (snd (expireStaleReviewTaskRuns now clock l ms rb))"
  unfolding expireStaleArtifactMaintenanceTaskRuns_def expireStaleReplicationJobRuns_def expireStaleReviewTaskRuns_def
    fold_reports(1) [OF maintenance_report] fold_reports(1) [OF replication_report] fold_reports(1) [OF review_report]
  by simp_all

lemma store_report_lengths:
  "length (snd (expireStaleArtifactMaintenanceTaskRuns now clock l ms md)) \<le> sweep_limit l"
  "length (snd (expireStaleReplicationJobRuns now clock l ms rd)) \<le> sweep_limit l"
  "length (snd (expireStaleReviewTaskRuns now clock l ms rb)) \<le> sweep_limit l"
  unfolding expireStaleArtifactMaintenanceTaskRuns_def expireStaleReplicationJobRuns_def expireStaleReviewTaskRuns_def
  by (rule order_trans [OF fold_reports(2) [OF maintenance_report]], simp add: stale_maintenance_runs_def,
      rule order_trans [OF fold_reports(2) [OF replication_report]], simp add: stale_replication_runs_def,
      rule order_trans [OF fold_reports(2) [OF review_report]], simp add: stale_review_runs_def)

lemma sweep_reports:
  "list_all (\<lambda>e. timed_out (rl_run (normalizeArtifactMaintenanceExpiry e))) (snd (sweepMaintenance c bound i md))"
  "list_all (\<lambda>e. timed_out (rl_run (normalizeReplicationExpiry e))) (snd (sweepReplication c bound i rd))"
  "list_all (\<lambda>e. timed_out (rl_run (normalizeReviewExpiry e))) (snd (sweepReview c bound i rb))"
  using store_reports [of "sc_now c" "sc_clock c" "Some bound" "ri_staleAfterMs i"]
  by (simp_all add: sweepMaintenance_def sweepReplication_def sweepReview_def list_all_length case_prod_beta
      normalizeArtifactMaintenanceExpiry_def normalizeReplicationExpiry_def normalizeReviewExpiry_def)

lemma sweep_lengths:
  "length (snd (sweepMaintenance c bound i md)) \<le> sweep_limit (Some bound)"
  "length (snd (sweepReplication c bound i rd)) \<le> sweep_limit (Some bound)"
  "length (snd (sweepReview c bound i rb)) \<le> sweep_limit (Some bound)"
  by (simp_all add: sweepMaintenance_def sweepReplication_def sweepReview_def case_prod_beta store_report_lengths)

lemma list_all_js_sort: "list_all P (js_sort cmp xs) = list_all P xs"
  by (simp add: list_all_iff)

lemma sweep_limit_effective: "sweep_limit (Some (max 1 (min (nullish l 50) 200))) = sweep_limit l"
  by (simp add: sweep_limit_def nullish_def)

lemma comparator_reaped [cmp_intros]: "comparator compareReaped"
proof -
  have eq: "compareReaped = (\<lambda>l r. if locale_compare (rl_timedOutAt r) (rl_timedOutAt l) \<noteq> 0
      then locale_compare (rl_timedOutAt r) (rl_timedOutAt l) else locale_compare (rl_itemId l) (rl_itemId r))"
    by (auto simp: fun_eq_iff compareReaped_def)
  show ?thesis
    unfolding eq by (intro comparator_lex comparator_locale_key_rev comparator_locale_key)
qed

lemma fold_expire_jobs:
  "rd_jobs (fst (fold (expire_job_and_read now) cs acc)) =
     update_where (\<lambda>t. rq_jobId t \<in> ru_jobId ` set cs)
       (\<lambda>t. t\<lparr>rq_status := Job_open, rq_assignedWorker := None, rq_assignedAgentId := None,
              rq_assignedAt := None, rq_updatedAt := now\<rparr>) (rd_jobs (fst acc))"
proof (induction cs arbitrary: acc)
  case Nil
  then show ?case by (simp add: update_where_def)
next
  case (Cons c cs)
  have "fst (expire_job_and_read now c acc) = expire_job_candidate now c (fst acc)"
    by (simp add: expire_job_and_read_def Let_def split: option.split)
  then show ?case by (simp add: Cons.IH) (simp add: expire_job_candidate_def update_where_def)
qed

section \<open>Properties\<close>

text \<open>
  What the reaper reports. Every item is a run that failed with \<open>heartbeat_timeout\<close>; the items
  are in the order of the code (newest timeout first, then item id); the total is the sum of the
  three kinds, and each kind keeps to the limit, whatever the caller asks for.
\<close>

theorem reaper_report:
  "list_all (\<lambda>i. timed_out (rl_run i)) (rr_items (snd (reapStaleClaimWorkLeases cm cr cv stamp i w))) \<and>
   sorted_wrt (\<lambda>x y. compareReaped x y \<le> 0) (rr_items (snd (reapStaleClaimWorkLeases cm cr cv stamp i w))) \<and>
   rr_totalExpired (snd (reapStaleClaimWorkLeases cm cr cv stamp i w)) =
     rr_byMaintenance (snd (reapStaleClaimWorkLeases cm cr cv stamp i w)) +
     rr_byReplication (snd (reapStaleClaimWorkLeases cm cr cv stamp i w)) +
     rr_byReview (snd (reapStaleClaimWorkLeases cm cr cv stamp i w)) \<and>
   rr_byMaintenance (snd (reapStaleClaimWorkLeases cm cr cv stamp i w)) \<le> int (sweep_limit (ri_limit i)) \<and>
   rr_byReplication (snd (reapStaleClaimWorkLeases cm cr cv stamp i w)) \<le> int (sweep_limit (ri_limit i)) \<and>
   rr_byReview (snd (reapStaleClaimWorkLeases cm cr cv stamp i w)) \<le> int (sweep_limit (ri_limit i))"
proof -
  let ?lim = "max 1 (min (nullish (ri_limit i) 50) 200)"
  have "list_all (\<lambda>e. timed_out (rl_run e)) (map normalizeArtifactMaintenanceExpiry (snd (sweepMaintenance cm ?lim i (ws_maintenance w))))"
    "list_all (\<lambda>e. timed_out (rl_run e)) (map normalizeReplicationExpiry (snd (sweepReplication cr ?lim i (ws_replication w))))"
    "list_all (\<lambda>e. timed_out (rl_run e)) (map normalizeReviewExpiry (snd (sweepReview cv ?lim i (ws_review w))))"
    unfolding list.pred_map comp_def by (rule sweep_reports)+
  moreover note sweep_lengths(1) [of cm ?lim i "ws_maintenance w"] sweep_lengths(2) [of cr ?lim i "ws_replication w"]
    sweep_lengths(3) [of cv ?lim i "ws_review w"]
  moreover have "sorted_wrt (\<lambda>x y. compareReaped x y \<le> 0) (js_sort compareReaped xs)" for xs
    by (rule comparator.sorted_sort [OF comparator_reaped])
  ultimately show ?thesis
    unfolding reapStaleClaimWorkLeases_def Let_def case_prod_beta sweep_limit_effective
    by (simp add: list_all_js_sort)
qed



section \<open>Witness\<close>

text \<open>The worker that leases the sample job at 10 is silent; the reaper runs at 4000.\<close>

definition leased_jobs :: replication_db where
  "leased_jobs = fst (lease_job_to 10 1 ''w1'' (Some ''7'') sample_jobs)"

definition silent_stores :: work_stores where
  "silent_stores = sample_stores\<lparr>ws_replication := leased_jobs\<rparr>"

definition sample_clock :: sweep_clock where
  "sample_clock = \<lparr>sc_clock = 4000, sc_now = 4001\<rparr>"

definition sample_reap :: reap_input where
  "sample_reap = \<lparr>ri_includeArtifactMaintenance = Some False, ri_includeReplication = None, ri_includeReview = Some False,
     ri_limit = None, ri_staleAfterMs = 1000\<rparr>"

lemma leased_jobs_rows: "\<exists>row. rd_jobs leased_jobs = [row] \<and> rq_jobId row = 1 \<and> rq_claimId row = ''3'' \<and>
    rd_runs leased_jobs = [new_replication_run 10 1 1 ''w1'' (Some ''7'')]"
  by (simp add: leased_jobs_def lease_job_to_def sample_jobs_def createReplicationJob_def Let_def replication_empty_def
      update_where_def assign_job_def)

lemma leased_jobs_reachable: "replication_step\<^sup>*\<^sup>* replication_empty leased_jobs"
proof -
  have "claimReplicationJobById 10 (Some ''7'') 1 ''w1'' sample_jobs = Some (leased_jobs, snd (lease_job_to 10 1 ''w1'' (Some ''7'') sample_jobs))"
    using sample_jobs_row by (auto simp: claimReplicationJobById_def leased_jobs_def)
  then have "replication_step sample_jobs leased_jobs" by (rule replication_step.claim_by_id)
  with sample_jobs_reachable show ?thesis by (rule rtranclp.rtrancl_into_rtrancl)
qed


end
