(* ===== verification/Review_Scores.thy ===== *)
theory Review_Scores
  imports Calibration
begin

text \<open>
  \<open>review/aggregation.ts\<close>, the scores: aggregation of submitted dimension scores by confidence and
  calibration, the fallbacks from artifacts, replications, forecasts, challenges and issues, and
  the derived readiness, support and uncertainty. Every score is in basis points.
\<close>

section \<open>Labels and tones\<close>

fun dimension_label :: "review_dimension \<Rightarrow> string" where
  "dimension_label ArtifactCompleteness = ''Artifact completeness''"
| "dimension_label ArtifactIntegrity = ''Artifact integrity''"
| "dimension_label CertificationReadiness = ''Certification readiness''"
| "dimension_label ChallengePressure = ''Challenge pressure''"
| "dimension_label ContradictionPressure = ''Contradiction pressure''"
| "dimension_label ForecastSupport = ''Forecast support''"
| "dimension_label MethodConsistency = ''Method consistency''"
| "dimension_label ReplicationSupport = ''Replication support''"
| "dimension_label ReproducibilityReadiness = ''Reproducibility readiness''"
| "dimension_label ReviewCoverage = ''Review coverage''"
| "dimension_label ReviewDiversity = ''Review diversity''"
| "dimension_label ReviewFreshness = ''Review freshness''"
| "dimension_label StatisticalSanity = ''Statistical sanity''"

definition positive_dimension :: "review_dimension \<Rightarrow> bool" where
  "positive_dimension d \<longleftrightarrow> d \<noteq> ChallengePressure \<and> d \<noteq> ContradictionPressure"

datatype tone = Tone_good | Tone_idle | Tone_negative | Tone_neutral

definition scoreTone :: "review_dimension \<Rightarrow> int option \<Rightarrow> tone" where
  "scoreTone d score = (case score of None \<Rightarrow> Tone_idle | Some s \<Rightarrow>
     if positive_dimension d then
       (if s \<ge> 7500 then Tone_good else if s \<ge> 4500 then Tone_neutral else Tone_negative)
     else
       (if s \<le> 3000 then Tone_good else if s \<le> 5500 then Tone_neutral else Tone_negative))"

section \<open>Submitted scores\<close>

definition average :: "int list \<Rightarrow> int option" where
  "average values = (if length values = 0 then None
     else Some (clampBps (int_div (sum_list values) (int (length values)))))"

record dimension_aggregate =
  da_evidenceCount :: int
  da_scoreBps :: "int option"
  da_updatedAt :: "string option"

definition effectiveWeight :: "(string, calibration_entry) jmap \<Rightarrow> review_submission \<Rightarrow> int" where
  "effectiveWeight calibration s =
     (let confidenceWeight = max 1000 (rs_confidenceBps s);
          calibrationWeight = (if truthy (rs_reviewerAgentId s)
            then (case jm_get calibration (the (rs_reviewerAgentId s)) of
                    None \<Rightarrow> 10000 | Some e \<Rightarrow> ce_weightBps e)
            else 10000)
      in max 1000 (js_round (int_div (confidenceWeight * calibrationWeight) 10000)))"

definition aggregateSubmittedDimension ::
  "review_submission list \<Rightarrow> review_dimension \<Rightarrow> (string, calibration_entry) jmap \<Rightarrow> dimension_aggregate" where
  "aggregateSubmittedDimension submissions d calibration =
     (let evidence = filter (\<lambda>s. rs_dimensions s d \<noteq> None) submissions
      in if length evidence = 0
         then \<lparr>da_evidenceCount = 0, da_scoreBps = None, da_updatedAt = None\<rparr>
         else
           let weighted = map (\<lambda>s. nullish (rs_dimensions s d) 0 * effectiveWeight calibration s) evidence;
               totalWeight = sum_list (map (effectiveWeight calibration) evidence)
           in \<lparr>da_evidenceCount = int (length evidence),
               da_scoreBps = Some (clampBps (int_div (sum_list weighted) totalWeight)),
               da_updatedAt = latest_timestamp (map (\<lambda>s. Some (rs_createdAt s)) evidence)\<rparr>)"

section \<open>Fallback scores\<close>

definition hasArtifactType :: "artifact_view list \<Rightarrow> int \<Rightarrow> bool" where
  "hasArtifactType artifacts ty = list_ex (\<lambda>a. av_artifactType a = ty) artifacts"

definition fallbackArtifactCompleteness :: "artifact_view list \<Rightarrow> int" where
  "fallbackArtifactCompleteness artifacts =
     (if length artifacts = 0 then 0
      else let score = 3500 + min (int (length artifacts)) 3 * 1300;
               score = (if hasArtifactType artifacts 5 then score + 1200 else score);
               score = (if hasArtifactType artifacts 1 \<or> hasArtifactType artifacts 4 then score + 1000 else score);
               score = (if hasArtifactType artifacts 2 then score + 700 else score)
           in clampBps (of_int score))"

definition fallbackArtifactIntegrity :: "artifact_view list \<Rightarrow> int" where
  "fallbackArtifactIntegrity artifacts =
     (if length artifacts = 0 then 0
      else let valid = count_if (\<lambda>a. js_starts_with ''0x'' (av_contentDigest a) \<and> length (js_trim (av_uri a)) > 0) artifacts
           in clampBps (num_mul (int_div valid (int (length artifacts))) 10000))"

definition fallbackMethodConsistency :: "artifact_view list \<Rightarrow> int" where
  "fallbackMethodConsistency artifacts =
     (if hasArtifactType artifacts 5
      then (if hasArtifactType artifacts 1 \<or> hasArtifactType artifacts 4 then 7000 else 6000)
      else if length artifacts > 0 then 4500 else 0)"

definition fallbackStatisticalSanity :: "artifact_view list \<Rightarrow> replication_view list \<Rightarrow> int" where
  "fallbackStatisticalSanity artifacts replications =
     (if hasArtifactType artifacts 5 \<and> length replications > 0 then 6500
      else if hasArtifactType artifacts 5 then 5000 else 0)"

definition fallbackReproducibilityReadiness :: "artifact_view list \<Rightarrow> int" where
  "fallbackReproducibilityReadiness artifacts =
     (let hasCode = hasArtifactType artifacts 1; hasContainer = hasArtifactType artifacts 2;
          hasNotebook = hasArtifactType artifacts 4
      in if hasCode \<and> (hasContainer \<or> hasNotebook) then 8500
         else if hasCode \<or> hasNotebook then 7000
         else if length artifacts > 0 then 4000 else 0)"

definition replicationScore :: "replication_view \<Rightarrow> int" where
  "replicationScore r =
     (if rv_resolutionStatus r \<in> {Some 1, Some 2} then 8500
      else if rv_resolutionStatus r \<in> {Some 4, Some 5} then 2000
      else if rv_outcome r \<in> {Some 1, Some 2} then 7500
      else if rv_outcome r \<in> {Some 4, Some 5, Some 6} then 2500
      else 5000)"

definition fallbackReplicationSupport :: "replication_view list \<Rightarrow> int option" where
  "fallbackReplicationSupport replications =
     (if length replications = 0 then Some 0 else average (map replicationScore replications))"

definition forecastScore :: "forecast_view \<Rightarrow> int" where
  "forecastScore f =
     (let confidence = clampBps (of_int (fv_confidenceBps f));
          base = (if fv_direction f = 0 then confidence
                  else if fv_direction f = 1 then 5000 else 10000 - confidence)
      in if fv_settled f \<and> fv_matched f = Some False then clampBps (of_int (10000 - base)) else base)"

definition fallbackForecastSupport :: "forecast_view list \<Rightarrow> int option" where
  "fallbackForecastSupport forecasts =
     (if length forecasts = 0 then Some 0 else average (map forecastScore forecasts))"

fun severityPoints :: "issue_severity \<Rightarrow> int" where
  "severityPoints Sev_critical = 3500"
| "severityPoints Sev_high = 2500"
| "severityPoints Sev_medium = 1500"
| "severityPoints Sev_low = 700"

definition severityPressure :: "review_issue list \<Rightarrow> int" where
  "severityPressure issues = (if length issues = 0 then 0
     else clampBps (of_int (sum_list (map (\<lambda>i. severityPoints (ri_severity i)) issues))))"

definition challengePoints :: "int \<Rightarrow> int" where
  "challengePoints status = (if status = 0 then 2000 else if status = 1 then 3500
     else if status = 2 then 800 else if status = 3 then 4500 else 300)"

definition fallbackChallengePressure :: "challenge_view list \<Rightarrow> review_issue list \<Rightarrow> int" where
  "fallbackChallengePressure challenges issues =
     clampBps (of_int (sum_list (map (\<lambda>c. challengePoints (hv_status c)) challenges) +
       severityPressure (filter (\<lambda>i. ri_status i = Issue_open) issues)))"

definition contradicts :: "review_submission \<Rightarrow> bool" where
  "contradicts s \<longleftrightarrow>
     (rs_reviewType s = Contradiction_scan \<or> rs_reviewType s = Method_consistency_check \<or>
      rs_reviewType s = Stats_sanity_check) \<and> (rs_verdict s = Verdict_fail \<or> rs_verdict s = Verdict_flag)"

definition fallbackContradictionPressure :: "review_submission list \<Rightarrow> review_issue list \<Rightarrow> int" where
  "fallbackContradictionPressure submissions issues =
     clampBps (of_int (sum_list (map (\<lambda>s. if contradicts s then max 2000 (rs_confidenceBps s) else 0) submissions) +
       severityPressure (filter (\<lambda>i. ri_status i = Issue_open \<and>
         (ri_category i = ''contradiction'' \<or> ri_category i = ''methodology'')) issues)))"

definition computeReviewCoverage :: "review_task list \<Rightarrow> review_submission list \<Rightarrow> int" where
  "computeReviewCoverage tasks submissions =
     (if length tasks = 0 then 0
      else clampBps (num_mul (int_div (js_set_size (map rs_reviewType submissions))
             (max 1 (js_set_size (map rt_taskType tasks)))) 10000))"

definition distinctReviewers :: "review_submission list \<Rightarrow> int" where
  "distinctReviewers submissions = js_set_size (filter truthy (map rs_reviewerAgentId submissions))"

definition computeReviewDiversity :: "review_submission list \<Rightarrow> int" where
  "computeReviewDiversity submissions =
     (if length submissions = 0 then 0
      else let n = int (length submissions);
               distinctActors = js_set_size (map rs_reviewerActor submissions);
               distinctTaskTypes = js_set_size (map rs_reviewType submissions)
           in clampBps (num_add (num_add (num_mul (int_div (distinctReviewers submissions) n) 5000)
                                         (num_mul (int_div distinctActors n) 2000))
                                (of_int (min 3000 (distinctTaskTypes * 600)))))"

text \<open>\<open>now\<close> is \<open>Date.now()\<close>; an unreadable date gives NaN, for which no comparison holds.\<close>

definition computeReviewFreshness :: "int \<Rightarrow> review_submission list \<Rightarrow> int" where
  "computeReviewFreshness now submissions =
     (case latest_timestamp (map (\<lambda>s. Some (rs_createdAt s)) submissions) of
        None \<Rightarrow> 0
      | Some latest \<Rightarrow>
          (case date_time latest of
             None \<Rightarrow> 2000
           | Some t \<Rightarrow>
               let ageDays = int_div (now - t) (1000 * 60 * 60 * 24)
               in if ageDays \<le> 7 then 10000 else if ageDays \<le> 30 then 8000
                  else if ageDays \<le> 90 then 6000 else if ageDays \<le> 180 then 4000 else 2000))"

section \<open>Derived scores\<close>

type_synonym dimension_scores = "review_dimension \<Rightarrow> int option"

abbreviation present :: "int option list \<Rightarrow> int list" where
  "present vs \<equiv> List.map_filter id vs"

definition computeCertificationReadiness :: "dimension_scores \<Rightarrow> int" where
  "computeCertificationReadiness d =
     (let positives = present [d ArtifactCompleteness, d ArtifactIntegrity, d MethodConsistency,
            d StatisticalSanity, d ReproducibilityReadiness, d ReplicationSupport, d ReviewCoverage,
            d ReviewDiversity, d ReviewFreshness, d ForecastSupport]
      in if length positives = 0 then 0
         else let base = nullish (average positives) 0;
                  penalty = int_div (nullish (d ChallengePressure) 0 + nullish (d ContradictionPressure) 0) 3
              in clampBps (num_sub (of_int base) penalty))"

definition pressureAverage :: "dimension_scores \<Rightarrow> int" where
  "pressureAverage d = nullish (average [nullish (d ChallengePressure) 0, nullish (d ContradictionPressure) 0]) 0"

definition computeSupportEstimate :: "dimension_scores \<Rightarrow> int" where
  "computeSupportEstimate d =
     (let signals = present [d ArtifactCompleteness, d ArtifactIntegrity, d MethodConsistency,
            d StatisticalSanity, d ReproducibilityReadiness, d ReplicationSupport, d ForecastSupport]
      in if length signals = 0 then 0
         else let base = nullish (average signals) 0
              in clampBps (num_sub (of_int base) (int_div (pressureAverage d) 2)))"

definition invertBps :: "int option \<Rightarrow> int" where
  "invertBps score = clampBps (of_int (10000 - nullish score 0))"

definition computeUncertaintyEstimate :: "dimension_scores \<Rightarrow> int option \<Rightarrow> int option" where
  "computeUncertaintyEstimate d support =
     (let ambiguity = (case support of None \<Rightarrow> 10000
            | Some s \<Rightarrow> clampBps (of_int (10000 - \<bar>s - 5000\<bar> * 2)))
      in average [invertBps (d ReviewCoverage), invertBps (d ReviewDiversity), invertBps (d ReviewFreshness),
           pressureAverage d, ambiguity])"

section \<open>Bounds\<close>

definition is_bps :: "int \<Rightarrow> bool" where
  "is_bps s \<longleftrightarrow> 0 \<le> s \<and> s \<le> 10000"

lemma is_bps_clamp [simp]: "is_bps (clampBps v)"
  by (simp add: is_bps_def)

lemma average_bps: "average xs = Some s \<Longrightarrow> is_bps s"
  by (auto simp: average_def split: if_splits)

lemma average_Some: "xs \<noteq> [] \<Longrightarrow> \<exists>s. average xs = Some s"
  by (simp add: average_def)

lemma fallback_bps [bounds_intros]:
  "is_bps (fallbackArtifactCompleteness artifacts)" "is_bps (fallbackArtifactIntegrity artifacts)"
  "is_bps (fallbackMethodConsistency artifacts)" "is_bps (fallbackStatisticalSanity artifacts reps)"
  "is_bps (fallbackReproducibilityReadiness artifacts)" "is_bps (fallbackChallengePressure chs issues)"
  "is_bps (fallbackContradictionPressure subs issues)" "is_bps (computeReviewCoverage tasks subs)"
  "is_bps (computeReviewDiversity subs)" "is_bps (computeReviewFreshness now subs)"
  "is_bps (computeCertificationReadiness d)" "is_bps (computeSupportEstimate d)"
  unfolding fallbackArtifactCompleteness_def fallbackArtifactIntegrity_def fallbackMethodConsistency_def
    fallbackStatisticalSanity_def fallbackReproducibilityReadiness_def fallbackChallengePressure_def
    fallbackContradictionPressure_def computeReviewCoverage_def computeReviewDiversity_def
    computeReviewFreshness_def computeCertificationReadiness_def computeSupportEstimate_def Let_def
  by (simp_all add: is_bps_def clamp_int_bounds split: option.split)

lemma fallback_average_bps [bounds_intros]:
  "\<exists>s. fallbackReplicationSupport reps = Some s \<and> is_bps s"
  "\<exists>s. fallbackForecastSupport fs = Some s \<and> is_bps s"
  by (auto simp: fallbackReplicationSupport_def fallbackForecastSupport_def average_def is_bps_def)

lemma aggregate_bps: "da_scoreBps (aggregateSubmittedDimension subs d cal) = Some s \<Longrightarrow> is_bps s"
  by (auto simp: aggregateSubmittedDimension_def Let_def split: if_splits)

lemma effectiveWeight_bounds:
  assumes "rs_confidenceBps s \<le> 10000" and "\<forall>(a, e) \<in> set cal. 0 \<le> ce_weightBps e \<and> ce_weightBps e \<le> 10000"
  shows "1000 \<le> effectiveWeight cal s" and "effectiveWeight cal s \<le> 10000"
proof -
  let ?c = "max 1000 (rs_confidenceBps s)"
  obtain w where w: "effectiveWeight cal s = max 1000 (js_round (int_div (?c * w) 10000))" "0 \<le> w" "w \<le> 10000"
  proof (cases "truthy (rs_reviewerAgentId s)")
    case True
    let ?w = "case jm_get cal (the (rs_reviewerAgentId s)) of None \<Rightarrow> 10000 | Some e \<Rightarrow> ce_weightBps e"
    have "0 \<le> ?w \<and> ?w \<le> 10000"
      using assms(2) by (cases "jm_get cal (the (rs_reviewerAgentId s))") (auto dest!: map_of_SomeD)
    with True show ?thesis using that [of ?w] by (simp add: effectiveWeight_def Let_def)
  next
    case False
    then show ?thesis using that [of 10000] by (simp add: effectiveWeight_def Let_def)
  qed
  show "1000 \<le> effectiveWeight cal s" by (simp add: w(1))
  have c: "0 \<le> ?c" "?c \<le> 10000" using assms(1) by simp_all
  have le: "?c * w \<le> 10000 * 10000" using c w(2,3) by (intro mult_mono) simp_all
  have "0 \<le> ?c * w" using c w(2) by simp
  moreover have "?c * w < 2 ^ 50" using le by (rule order_le_less_trans) simp
  ultimately have "js_round (int_div (?c * w) 10000) = round_div (?c * w) 10000" by (intro js_round_div) simp_all
  moreover have "round_div (?c * w) 10000 \<le> 10000" using le by (intro round_div_le) simp_all
  ultimately show "effectiveWeight cal s \<le> 10000" by (simp add: w(1))
qed

text \<open>A weighted average of scores lies between the scores.\<close>

lemma weighted_average_between:
  assumes "\<And>x. x \<in> set xs \<Longrightarrow> lo \<le> v x \<and> v x \<le> (hi :: int)"
    and "\<And>x. x \<in> set xs \<Longrightarrow> 1000 \<le> w x \<and> w x \<le> 10000" and "xs \<noteq> []"
    and "length xs \<le> 1000000" and "0 \<le> lo" and "hi \<le> 10000"
  shows "lo \<le> clampBps (int_div (sum_list (map (\<lambda>x. v x * w x) xs)) (sum_list (map w xs))) \<and>
    clampBps (int_div (sum_list (map (\<lambda>x. v x * w x) xs)) (sum_list (map w xs))) \<le> hi"
proof -
  have between: "sum_list (map w ys) * lo \<le> sum_list (map (\<lambda>x. v x * w x) ys) \<and>
      sum_list (map (\<lambda>x. v x * w x) ys) \<le> sum_list (map w ys) * hi" if "set ys \<subseteq> set xs" for ys
    using that
  proof (induction ys)
    case (Cons y ys)
    have "lo \<le> v y" "v y \<le> hi" "0 \<le> w y" using assms(1,2) [of y] Cons.prems by auto
    then have "lo * w y \<le> v y * w y" "v y * w y \<le> hi * w y" by (simp_all add: mult_right_mono)
    with Cons show ?case by (simp add: algebra_simps)
  qed simp
  have weights: "1000 * int (length ys) \<le> sum_list (map w ys) \<and> sum_list (map w ys) \<le> 10000 * int (length ys)"
    if "set ys \<subseteq> set xs" for ys
    using that
  proof (induction ys)
    case (Cons y ys)
    have "1000 \<le> w y" "w y \<le> 10000" using assms(2) [of y] Cons.prems by auto
    with Cons show ?case by simp
  qed simp
  let ?a = "sum_list (map (\<lambda>x. v x * w x) xs)" and ?b = "sum_list (map w xs)"
  have "0 < length xs" using assms(3) by simp
  then have b: "0 < ?b" "?b \<le> 10000000000" using weights [OF subset_refl] assms(4) by linarith+
  have a: "?b * lo \<le> ?a" "?a \<le> ?b * hi" using between [OF subset_refl] by simp_all
  have "0 \<le> ?b * lo" using b assms(5) by simp
  then have a0: "0 \<le> ?a" using a by linarith
  have "?b * hi \<le> ?b * 10000" using b assms(6) by (intro mult_left_mono) simp_all
  then have "?a \<le> 100000000000000" using a b by linarith
  then have "?a < 2 ^ 50" by (rule order_le_less_trans) simp
  from clamp_quotient_between [OF a0 this b(1) a assms(5,6)] show ?thesis .
qed

end
