(* ===== verification/Review_State.thy ===== *)
theory Review_State
  imports Review_Scores
begin

text \<open>
  \<open>review/aggregation.ts\<close>, the state of a claim's review: the thirteen dimensions with their
  fallbacks, the estimates, the certification ladder and the ordering of tasks. The narrative
  texts of \<open>buildReviewExplanation\<close> are not modelled.
\<close>

record review_state_input =
  ii_artifacts :: "artifact_view list"
  ii_challenges :: "challenge_view list"
  ii_claims :: "claim_view list option"
  ii_currentClaimId :: "string option"
  ii_forecasts :: "forecast_view list"
  ii_issues :: "review_issue list"
  ii_replications :: "replication_view list"
  ii_responses :: "review_author_response list"
  ii_submissionHistory :: "review_submission list option"
  ii_submissions :: "review_submission list"
  ii_tasks :: "review_task list"

record review_summary =
  sm_distinctAgents :: int
  sm_openIssues :: int
  sm_openTasks :: int
  sm_respondedIssues :: int
  sm_responses :: int
  sm_submissions :: int
  sm_taskTypesCovered :: int
  sm_tasks :: int

definition openIssues :: "review_state_input \<Rightarrow> review_issue list" where
  "openIssues inp = filter (\<lambda>i. ri_status i = Issue_open) (ii_issues inp)"

definition reviewSummary :: "review_state_input \<Rightarrow> review_summary" where
  "reviewSummary inp = \<lparr>
     sm_distinctAgents = distinctReviewers (ii_submissions inp),
     sm_openIssues = int (length (openIssues inp)),
     sm_openTasks = count_if (\<lambda>t. rt_status t = RT_open) (ii_tasks inp),
     sm_respondedIssues = count_if (\<lambda>i. ri_status i = Issue_responded) (ii_issues inp),
     sm_responses = int (length (ii_responses inp)),
     sm_submissions = int (length (ii_submissions inp)),
     sm_taskTypesCovered = js_set_size (map rs_reviewType (ii_submissions inp)),
     sm_tasks = int (length (ii_tasks inp))\<rparr>"

definition agentCalibration :: "review_state_input \<Rightarrow> (string, calibration_entry) jmap" where
  "agentCalibration inp = buildAgentCalibrationHistory (nullish (ii_claims inp) [])
     (nullish (ii_submissionHistory inp) (ii_submissions inp)) (ii_currentClaimId inp)"

section \<open>The dimensions\<close>

definition submittedDimension :: "review_state_input \<Rightarrow> review_dimension \<Rightarrow> dimension_aggregate" where
  "submittedDimension inp d = aggregateSubmittedDimension (ii_submissions inp) d (agentCalibration inp)"

text \<open>The \<open>??=\<close> assignments: the fallback of each dimension but certification readiness.\<close>

fun fallbackScore :: "int \<Rightarrow> review_state_input \<Rightarrow> review_dimension \<Rightarrow> int option" where
  "fallbackScore now inp ArtifactCompleteness = Some (fallbackArtifactCompleteness (ii_artifacts inp))"
| "fallbackScore now inp ArtifactIntegrity = Some (fallbackArtifactIntegrity (ii_artifacts inp))"
| "fallbackScore now inp MethodConsistency = Some (fallbackMethodConsistency (ii_artifacts inp))"
| "fallbackScore now inp StatisticalSanity =
     Some (fallbackStatisticalSanity (ii_artifacts inp) (ii_replications inp))"
| "fallbackScore now inp ReproducibilityReadiness = Some (fallbackReproducibilityReadiness (ii_artifacts inp))"
| "fallbackScore now inp ReplicationSupport = fallbackReplicationSupport (ii_replications inp)"
| "fallbackScore now inp ForecastSupport = fallbackForecastSupport (ii_forecasts inp)"
| "fallbackScore now inp ChallengePressure = Some (fallbackChallengePressure (ii_challenges inp) (openIssues inp))"
| "fallbackScore now inp ContradictionPressure =
     Some (fallbackContradictionPressure (ii_submissions inp) (openIssues inp))"
| "fallbackScore now inp ReviewCoverage = Some (computeReviewCoverage (ii_tasks inp) (ii_submissions inp))"
| "fallbackScore now inp ReviewDiversity = Some (computeReviewDiversity (ii_submissions inp))"
| "fallbackScore now inp ReviewFreshness = Some (computeReviewFreshness now (ii_submissions inp))"
| "fallbackScore now inp CertificationReadiness = None"

text \<open>\<open>dimensionScores\<close>: read before certification readiness gets its own fallback.\<close>

definition dimensionScores :: "int \<Rightarrow> review_state_input \<Rightarrow> dimension_scores" where
  "dimensionScores now inp d = orelse (da_scoreBps (submittedDimension inp d)) (fallbackScore now inp d)"

definition finalDimension :: "int \<Rightarrow> review_state_input \<Rightarrow> review_dimension \<Rightarrow> dimension_aggregate" where
  "finalDimension now inp d =
     (let a = submittedDimension inp d
      in if d = CertificationReadiness then
           a\<lparr>da_scoreBps := orelse (da_scoreBps a) (Some (computeCertificationReadiness (dimensionScores now inp))),
             da_updatedAt := orelse (da_updatedAt a) (latest_timestamp
               [da_updatedAt (submittedDimension inp ArtifactCompleteness),
                da_updatedAt (submittedDimension inp MethodConsistency),
                da_updatedAt (submittedDimension inp ReplicationSupport),
                da_updatedAt (submittedDimension inp ReviewCoverage)])\<rparr>
         else a\<lparr>da_scoreBps := dimensionScores now inp d\<rparr>)"

record vector_entry =
  ve_dimension :: review_dimension
  ve_evidenceCount :: int
  ve_label :: string
  ve_scoreBps :: "int option"
  ve_tone :: tone
  ve_updatedAt :: "string option"

definition reviewVector :: "int \<Rightarrow> review_state_input \<Rightarrow> vector_entry list" where
  "reviewVector now inp = map (\<lambda>d. let a = finalDimension now inp d in
     \<lparr>ve_dimension = d, ve_evidenceCount = da_evidenceCount a, ve_label = dimension_label d,
      ve_scoreBps = da_scoreBps a, ve_tone = scoreTone d (da_scoreBps a),
      ve_updatedAt = da_updatedAt a\<rparr>) review_dimensions"

definition supportEstimateBps :: "int \<Rightarrow> review_state_input \<Rightarrow> int" where
  "supportEstimateBps now inp = computeSupportEstimate (dimensionScores now inp)"

definition uncertaintyBps :: "int \<Rightarrow> review_state_input \<Rightarrow> int option" where
  "uncertaintyBps now inp =
     computeUncertaintyEstimate (dimensionScores now inp) (Some (supportEstimateBps now inp))"

section \<open>Certifications\<close>

datatype certification_status = Cert_blocked | Cert_certified | Cert_clear | Cert_contested
  | Cert_pending | Cert_provisional

record certification =
  ct_certificationKey :: string
  ct_label :: string
  ct_reason :: string
  ct_scoreBps :: "int option"
  ct_status :: certification_status

definition artifactReady :: "dimension_scores \<Rightarrow> bool" where
  "artifactReady d \<longleftrightarrow> nullish (d ArtifactCompleteness) 0 \<ge> 8000 \<and> nullish (d ArtifactIntegrity) 0 \<ge> 8000"

definition methodChecked :: "dimension_scores \<Rightarrow> bool" where
  "methodChecked d \<longleftrightarrow> nullish (d MethodConsistency) 0 \<ge> 7000 \<and> nullish (d StatisticalSanity) 0 \<ge> 7000"

definition reproReady :: "dimension_scores \<Rightarrow> bool" where
  "reproReady d \<longleftrightarrow> artifactReady d \<and> nullish (d ReproducibilityReadiness) 0 \<ge> 7500"

definition independentlyReplicated :: "dimension_scores \<Rightarrow> replication_view list \<Rightarrow> bool" where
  "independentlyReplicated d reps \<longleftrightarrow> length reps > 0 \<and> nullish (d ReplicationSupport) 0 \<ge> 7000"

definition contested :: "dimension_scores \<Rightarrow> bool" where
  "contested d \<longleftrightarrow> nullish (d ChallengePressure) 0 \<ge> 6000 \<or> nullish (d ContradictionPressure) 0 \<ge> 6000"

definition provisional :: "dimension_scores \<Rightarrow> bool" where
  "provisional d \<longleftrightarrow> nullish (d CertificationReadiness) 0 \<ge> 7500 \<and> \<not> contested d \<and>
     nullish (d ReviewCoverage) 0 \<ge> 6000 \<and> nullish (d ReviewDiversity) 0 \<ge> 4500"

definition fullyCertified :: "dimension_scores \<Rightarrow> review_summary \<Rightarrow> bool" where
  "fullyCertified d summary \<longleftrightarrow> provisional d \<and> nullish (d CertificationReadiness) 0 \<ge> 8500 \<and>
     sm_distinctAgents summary \<ge> 2"

definition buildCertifications ::
  "dimension_scores \<Rightarrow> review_summary \<Rightarrow> replication_view list \<Rightarrow> certification list" where
  "buildCertifications d summary reps = [
     \<lparr>ct_certificationKey = ''artifact_complete'', ct_label = ''Artifact complete'',
      ct_reason = (if artifactReady d
        then ''Artifacts are present with strong completeness and integrity support.''
        else if sm_tasks summary > 0 then ''Artifacts are still being evaluated by agent checks.''
        else ''No review evidence is available yet.''),
      ct_scoreBps = average [nullish (d ArtifactCompleteness) 0, nullish (d ArtifactIntegrity) 0],
      ct_status = (if artifactReady d then Cert_certified
                   else if sm_tasks summary > 0 then Cert_pending else Cert_blocked)\<rparr>,
     \<lparr>ct_certificationKey = ''method_checked'', ct_label = ''Method checked'',
      ct_reason = (if methodChecked d
        then ''Method and statistics checks are above the current threshold.''
        else if sm_submissions summary > 0
        then ''Method review evidence exists, but has not crossed the certification threshold.''
        else ''No method-focused review evidence exists yet.''),
      ct_scoreBps = average [nullish (d MethodConsistency) 0, nullish (d StatisticalSanity) 0],
      ct_status = (if methodChecked d then Cert_certified
                   else if sm_submissions summary > 0 then Cert_pending else Cert_blocked)\<rparr>,
     \<lparr>ct_certificationKey = ''repro_ready'', ct_label = ''Repro ready'',
      ct_reason = (if reproReady d
        then ''The current artifact bundle looks reproducible enough for downstream reruns.''
        else ''Reproducibility readiness still needs stronger artifact and execution evidence.''),
      ct_scoreBps = d ReproducibilityReadiness,
      ct_status = (if reproReady d then Cert_certified
                   else if sm_tasks summary > 0 then Cert_pending else Cert_blocked)\<rparr>,
     \<lparr>ct_certificationKey = ''independently_replicated'', ct_label = ''Independently replicated'',
      ct_reason = (if independentlyReplicated d reps
        then ''Replication evidence currently supports the claim.''
        else if length reps > 0 then ''Replication evidence exists but is still mixed or incomplete.''
        else ''No replication evidence has been recorded yet.''),
      ct_scoreBps = d ReplicationSupport,
      ct_status = (if independentlyReplicated d reps then Cert_certified
                   else if length reps > 0 then Cert_pending else Cert_blocked)\<rparr>,
     \<lparr>ct_certificationKey = ''contested'', ct_label = ''Contested state'',
      ct_reason = (if contested d
        then ''Open challenge or contradiction pressure is materially elevated.''
        else ''No strong active contradiction signal is currently dominating the record.''),
      ct_scoreBps = average [nullish (d ChallengePressure) 0, nullish (d ContradictionPressure) 0],
      ct_status = (if contested d then Cert_contested else Cert_clear)\<rparr>,
     \<lparr>ct_certificationKey = ''provisionally_certified'', ct_label = ''Provisional certification'',
      ct_reason = (if fullyCertified d summary
        then ''The claim clears the current review, diversity, and certification thresholds.''
        else if provisional d
        then ''The claim clears provisional thresholds but still needs deeper corroboration.''
        else if contested d
        then ''Certification is blocked by elevated contradiction or challenge pressure.''
        else ''The claim has not yet crossed the readiness threshold.''),
      ct_scoreBps = d CertificationReadiness,
      ct_status = (if contested d then Cert_contested
                   else if fullyCertified d summary then Cert_certified
                   else if provisional d then Cert_provisional else Cert_pending)\<rparr>]"

text \<open>The certifications of a claim read their scores from the finished vector.\<close>

definition reviewCertifications :: "int \<Rightarrow> review_state_input \<Rightarrow> certification list" where
  "reviewCertifications now inp = buildCertifications (\<lambda>d. da_scoreBps (finalDimension now inp d))
     (reviewSummary inp) (ii_replications inp)"

definition certification_status_of :: "string \<Rightarrow> certification list \<Rightarrow> certification_status option" where
  "certification_status_of key cs = map_option ct_status (List.find (\<lambda>c. ct_certificationKey c = key) cs)"

section \<open>Orderings and task types\<close>

text \<open>Creation times that do not parse give NaN, which a sort treats as equal.\<close>

definition compareTasks :: "review_task \<Rightarrow> review_task \<Rightarrow> int" where
  "compareTasks left right =
     (if rt_status left = rt_status right
      then (case (date_time (rt_createdAt right), date_time (rt_createdAt left)) of
              (Some r, Some l) \<Rightarrow> r - l | _ \<Rightarrow> 0)
      else if rt_status left = RT_open then -1 else 1)"

definition defaultReviewTaskTypesForClaim :: "artifact_view list \<Rightarrow> review_task_type list" where
  "defaultReviewTaskTypesForClaim artifacts =
     js_nub ([Artifact_integrity_check, Artifact_completeness_check, Replication_readiness_check,
        Contradiction_scan, Certification_synthesis_check] @
       (if hasArtifactType artifacts 5 then [Method_consistency_check, Stats_sanity_check] else []) @
       (if hasArtifactType artifacts 1 \<or> hasArtifactType artifacts 2 \<or> hasArtifactType artifacts 4
        then [Benchmark_rerun_check] else []))"

section \<open>Properties\<close>

lemma dimensionScores_bps:
  assumes "d \<noteq> CertificationReadiness"
  shows "\<exists>s. dimensionScores now inp d = Some s \<and> is_bps s"
proof (cases "da_scoreBps (submittedDimension inp d)")
  case None
  then show ?thesis
    using assms fallback_average_bps by (cases d) (simp_all add: dimensionScores_def fallback_bps)
next
  case (Some s)
  then show ?thesis using aggregate_bps by (auto simp: dimensionScores_def submittedDimension_def)
qed

lemma finalDimension_bps: "\<exists>s. da_scoreBps (finalDimension now inp d) = Some s \<and> is_bps s"
proof (cases "d = CertificationReadiness")
  case True
  then show ?thesis
    using aggregate_bps [of "ii_submissions inp" d "agentCalibration inp"]
    by (cases "da_scoreBps (submittedDimension inp d)")
       (auto simp: finalDimension_def Let_def submittedDimension_def fallback_bps)
next
  case False
  then show ?thesis using dimensionScores_bps [of d now inp] by (simp add: finalDimension_def Let_def)
qed

text \<open>
  The review vector is complete and calibrated: it has one entry for each of the thirteen
  dimensions, in order, every entry has a score within 0 and 10,000 basis points even without a
  single submission, and the support and uncertainty estimates are such scores as well.
\<close>

theorem review_vector_complete:
  "map ve_dimension (reviewVector now inp) = review_dimensions \<and>
   list_all (\<lambda>e. case ve_scoreBps e of None \<Rightarrow> False | Some s \<Rightarrow> 0 \<le> s \<and> s \<le> 10000) (reviewVector now inp) \<and>
   0 \<le> supportEstimateBps now inp \<and> supportEstimateBps now inp \<le> 10000 \<and>
   (\<exists>u. uncertaintyBps now inp = Some u \<and> 0 \<le> u \<and> u \<le> 10000)"
proof (intro conjI)
  show "map ve_dimension (reviewVector now inp) = review_dimensions"
    by (simp add: reviewVector_def Let_def comp_def)
  have "case da_scoreBps (finalDimension now inp d) of None \<Rightarrow> False | Some s \<Rightarrow> 0 \<le> s \<and> s \<le> 10000" for d
    using finalDimension_bps [of now inp d] by (auto simp: is_bps_def)
  then show "list_all (\<lambda>e. case ve_scoreBps e of None \<Rightarrow> False | Some s \<Rightarrow> 0 \<le> s \<and> s \<le> 10000) (reviewVector now inp)"
    by (simp add: reviewVector_def Let_def list_all_iff)
  show "0 \<le> supportEstimateBps now inp" "supportEstimateBps now inp \<le> 10000"
    using fallback_bps(12) [of "dimensionScores now inp"] by (simp_all add: supportEstimateBps_def is_bps_def)
  obtain u where "uncertaintyBps now inp = Some u"
    by (auto simp: uncertaintyBps_def computeUncertaintyEstimate_def Let_def average_def)
  moreover from this have "is_bps u"
    unfolding uncertaintyBps_def computeUncertaintyEstimate_def Let_def by (rule average_bps)
  ultimately show "\<exists>u. uncertaintyBps now inp = Some u \<and> 0 \<le> u \<and> u \<le> 10000" by (simp add: is_bps_def)
qed

text \<open>
  Submitted scores are averaged, never inflated: the score of a dimension lies between the
  lowest and the highest score submitted for it, whatever the confidences and the calibration
  weights of the reviewers (up to a million submissions).
\<close>

theorem review_score_between_submissions:
  assumes "\<forall>s \<in> set subs. \<forall>v. rs_dimensions s d = Some v \<longrightarrow> lo \<le> v \<and> v \<le> hi"
    and "\<forall>s \<in> set subs. rs_confidenceBps s \<le> 10000"
    and "\<forall>(a, e) \<in> set cal. 0 \<le> ce_weightBps e \<and> ce_weightBps e \<le> 10000"
    and "0 \<le> lo" and "hi \<le> 10000" and "length subs \<le> 1000000"
    and "da_scoreBps (aggregateSubmittedDimension subs d cal) = Some score"
  shows "lo \<le> score \<and> score \<le> hi"
proof -
  let ?ev = "filter (\<lambda>s. rs_dimensions s d \<noteq> None) subs"
  let ?w = "effectiveWeight cal" and ?v = "\<lambda>s. nullish (rs_dimensions s d) 0"
  have ne: "?ev \<noteq> []"
    using assms(7) by (auto simp: aggregateSubmittedDimension_def Let_def split: if_splits)
  have score: "score = clampBps (int_div (sum_list (map (\<lambda>s. ?v s * ?w s) ?ev)) (sum_list (map ?w ?ev)))"
    using assms(7) ne by (simp add: aggregateSubmittedDimension_def Let_def split: if_splits)
  have v: "lo \<le> ?v s \<and> ?v s \<le> hi" if "s \<in> set ?ev" for s
    using assms(1) that by auto
  have w: "1000 \<le> ?w s \<and> ?w s \<le> 10000" if "s \<in> set ?ev" for s
    using effectiveWeight_bounds [OF _ assms(3), of s] assms(2) that by simp
  have len: "length ?ev \<le> 1000000" by (rule order_trans [OF length_filter_le assms(6)])
  show ?thesis
    unfolding score by (rule weighted_average_between [OF v w ne len assms(4,5)])
qed


text \<open>
  The comparator that orders a claim's tasks is not lawful: of two tasks in different closed
  states each compares as greater than the other, so that the order of closed tasks, and which of
  them make it into the eight that are shown, depends on the sort algorithm and the input order.
\<close>

theorem task_order_inconsistent:
  assumes "rt_status t = RT_completed" and "rt_status u = RT_canceled"
  shows "compareTasks t u = 1 \<and> compareTasks u t = 1 \<and> \<not> comparator compareTasks"
proof -
  have c: "compareTasks t u = 1" "compareTasks u t = 1" using assms by (simp_all add: compareTasks_def)
  have "\<not> comparator compareTasks"
  proof
    assume "comparator compareTasks"
    then have "sgn (compareTasks t u) = - sgn (compareTasks u t)" by (rule comparator.anti)
    with c show False by simp
  qed
  with c show ?thesis by blast
qed

subsection \<open>Witnesses\<close>

theorem review_score_between_submissions_witness:
  "\<exists>score. da_scoreBps (aggregateSubmittedDimension [sample_submission ''3'' Verdict_pass, sample_submission ''3'' Verdict_fail]
     MethodConsistency []) = Some score \<and> 3000 \<le> score \<and> score \<le> 9000"
proof -
  obtain score where sc: "da_scoreBps (aggregateSubmittedDimension
      [sample_submission ''3'' Verdict_pass, sample_submission ''3'' Verdict_fail] MethodConsistency []) = Some score"
    by (auto simp: aggregateSubmittedDimension_def Let_def sample_submission_def)
  have "3000 \<le> score \<and> score \<le> 9000"
    by (rule review_score_between_submissions [OF _ _ _ _ _ _ sc]) (simp_all add: sample_submission_def)
  with sc show ?thesis by blast
qed

definition sample_summary :: review_summary where
  "sample_summary = \<lparr>sm_distinctAgents = 2, sm_openIssues = 0, sm_openTasks = 0, sm_respondedIssues = 0,
     sm_responses = 0, sm_submissions = 2, sm_taskTypesCovered = 1, sm_tasks = 1\<rparr>"


definition closed_task :: "review_task_status \<Rightarrow> review_task" where
  "closed_task st = \<lparr>rt_claimId = Some ''7'', rt_completedAt = None,
     rt_consensusPolicy = \<lparr>cp_maxSubmissions = 1, cp_minSubmissions = 1, cp_requireDistinctAgents = False\<rparr>,
     rt_createdAt = ''2026-06-19T13:45:59.123Z'', rt_failureReason = None, rt_inputArtifactKeys = [],
     rt_requestedBy = ''owner'', rt_requiredCapabilities = [], rt_resultArtifactKey = None,
     rt_schemaVersion = ''v1'', rt_scopeKey = ''claim'', rt_sourceId = None, rt_subjectId = ''7'',
     rt_subjectType = Subject_claim, rt_status = st, rt_taskId = ''1'',
     rt_taskType = Stats_sanity_check, rt_updatedAt = ''2026-06-19T13:45:59.123Z''\<rparr>"

theorem task_order_inconsistent_witness:
  "compareTasks (closed_task RT_completed) (closed_task RT_canceled) = 1 \<and>
   compareTasks (closed_task RT_canceled) (closed_task RT_completed) = 1"
  using task_order_inconsistent [of "closed_task RT_completed" "closed_task RT_canceled"]
  by (simp add: closed_task_def)

end
