(* ===== verification/Review_Evaluate.thy ===== *)
theory Review_Evaluate
  imports Review_State
begin

text \<open>
  The deterministic reviewer (\<open>review/evaluate.ts\<close>): from the artifacts, replications and challenges
  of a claim and its review vector to the dimensions, issues and verdict of one task. Dimensions are
  listed in the order of the code's object literals.
\<close>

record evaluation_issue =
  ei_category :: string
  ei_severity :: issue_severity
  ei_summary :: string

record evaluation =
  ev_confidenceBps :: int
  ev_dimensions :: "(review_dimension \<times> int) list"
  ev_issues :: "evaluation_issue list"
  ev_summary :: string
  ev_verdict :: review_verdict

record evaluation_input =
  en_artifactTypes :: "int list"
  en_artifactsCount :: int
  en_challengeCount :: int
  en_challengesOpen :: int
  en_claimStatus :: int
  en_vector :: "vector_entry list"
  en_replicationCount :: int
  en_supportiveReplications :: int

definition evaluateHasType :: "evaluation_input \<Rightarrow> int \<Rightarrow> bool" where
  "evaluateHasType inp t \<longleftrightarrow> t \<in> set (en_artifactTypes inp)"

abbreviation has_manuscript :: "evaluation_input \<Rightarrow> bool" where "has_manuscript inp \<equiv> evaluateHasType inp 5"
abbreviation has_code :: "evaluation_input \<Rightarrow> bool" where "has_code inp \<equiv> evaluateHasType inp 1"
abbreviation has_container :: "evaluation_input \<Rightarrow> bool" where "has_container inp \<equiv> evaluateHasType inp 2"
abbreviation has_notebook :: "evaluation_input \<Rightarrow> bool" where "has_notebook inp \<equiv> evaluateHasType inp 4"
abbreviation has_supplements :: "evaluation_input \<Rightarrow> bool" where "has_supplements inp \<equiv> evaluateHasType inp 6"

text \<open>\<open>state.vector.find(...)?.scoreBps ?? 0\<close>\<close>

definition vectorScore :: "vector_entry list \<Rightarrow> review_dimension \<Rightarrow> int" where
  "vectorScore v d = nullish (Option.bind (List.find (\<lambda>e. ve_dimension e = d) v) ve_scoreBps) 0"

definition evaluateCompleteness :: "evaluation_input \<Rightarrow> evaluation" where
  "evaluateCompleteness inp =
     (let score = clamp_int 0 10000 ((if en_artifactsCount inp = 0 then 0 else 5000) +
            (if has_manuscript inp then 1500 else 0) + (if has_code inp \<or> has_notebook inp then 1500 else 0) +
            (if has_container inp then 1000 else 0) + (if has_supplements inp then 500 else 0))
      in \<lparr>ev_confidenceBps = (if en_artifactsCount inp > 0 then 8000 else 9000),
          ev_dimensions = [(ArtifactCompleteness, score)],
          ev_issues = (if en_artifactsCount inp > 0 then []
            else [\<lparr>ei_category = ''missing_artifacts'', ei_severity = Sev_high,
              ei_summary = ''The claim has no attached artifacts to evaluate for completeness.''\<rparr>]),
          ev_summary = (if en_artifactsCount inp > 0
            then show_int (en_artifactsCount inp) @ '' artifacts are attached to the claim.''
            else ''No artifacts are currently attached to the claim.''),
          ev_verdict = (if score \<ge> 8000 then Verdict_pass
            else if en_artifactsCount inp > 0 then Verdict_inconclusive else Verdict_fail)\<rparr>)"

definition evaluateIntegrity :: "evaluation_input \<Rightarrow> evaluation" where
  "evaluateIntegrity inp =
     (let score = clamp_int 0 10000 (if en_artifactsCount inp > 0 then 8500 else 0)
      in \<lparr>ev_confidenceBps = 7500, ev_dimensions = [(ArtifactIntegrity, score)],
          ev_issues = (if en_artifactsCount inp > 0 then []
            else [\<lparr>ei_category = ''integrity_unverifiable'', ei_severity = Sev_medium,
              ei_summary = ''Artifact integrity cannot be checked before the claim has any attached artifacts.''\<rparr>]),
          ev_summary = (if en_artifactsCount inp > 0
            then ''Artifacts expose typed digests and URIs suitable for integrity checks.''
            else ''No artifact commitments are available for integrity checks.''),
          ev_verdict = (if en_artifactsCount inp > 0 then Verdict_pass else Verdict_fail)\<rparr>)"

definition evaluateMethod :: "evaluation_input \<Rightarrow> evaluation" where
  "evaluateMethod inp =
     (let score = clamp_int 0 10000 (if has_manuscript inp
            then (if has_code inp \<or> has_notebook inp then 7800 else 6300) else 2500)
      in \<lparr>ev_confidenceBps = (if has_manuscript inp then 6800 else 4000),
          ev_dimensions = [(MethodConsistency, score)],
          ev_issues = (if has_manuscript inp then []
            else [\<lparr>ei_category = ''missing_method_context'', ei_severity = Sev_medium,
              ei_summary = ''Method consistency review is weak without a manuscript or structured method artifact.''\<rparr>]),
          ev_summary = (if has_manuscript inp then ''A manuscript artifact is present for method-focused review.''
            else ''Method consistency review is limited because no manuscript artifact is present.''),
          ev_verdict = (if score \<ge> 7000 then Verdict_pass
            else if has_manuscript inp then Verdict_inconclusive else Verdict_fail)\<rparr>)"

definition evaluateStats :: "evaluation_input \<Rightarrow> evaluation" where
  "evaluateStats inp =
     (let score = clamp_int 0 10000 (if has_manuscript inp
            then (if en_replicationCount inp > 0 then 7200 else 5800) else 2000)
      in \<lparr>ev_confidenceBps = (if has_manuscript inp then 6500 else 3500),
          ev_dimensions = [(StatisticalSanity, score)],
          ev_issues = (if has_manuscript inp then []
            else [\<lparr>ei_category = ''missing_statistical_context'', ei_severity = Sev_medium,
              ei_summary = ''No manuscript artifact is present for a meaningful statistical sanity pass.''\<rparr>]),
          ev_summary = (if has_manuscript inp
            then ''The claim has enough manuscript context for a basic statistical pass.''
            else ''The claim lacks enough manuscript context for a meaningful statistical pass.''),
          ev_verdict = (if score \<ge> 7000 then Verdict_pass
            else if has_manuscript inp then Verdict_inconclusive else Verdict_fail)\<rparr>)"

definition evaluateReadiness :: "evaluation_input \<Rightarrow> evaluation" where
  "evaluateReadiness inp =
     (let score = clamp_int 0 10000 (if has_code inp \<and> (has_container inp \<or> has_notebook inp) then 8500
            else if has_code inp \<or> has_notebook inp then 7000
            else if en_artifactsCount inp > 0 then 4500 else 0)
      in \<lparr>ev_confidenceBps = 7800, ev_dimensions = [(ReproducibilityReadiness, score)],
          ev_issues = (if score \<ge> 7000 then []
            else [\<lparr>ei_category = ''execution_readiness'',
              ei_severity = (if en_artifactsCount inp > 0 then Sev_medium else Sev_high),
              ei_summary = (if en_artifactsCount inp > 0
                then ''Artifacts exist, but the execution bundle is incomplete for reliable reruns.''
                else ''No reproducibility artifacts are present.'')\<rparr>]),
          ev_summary = (if score \<ge> 7000
            then ''The artifact bundle looks runnable enough for downstream replication.''
            else ''The artifact bundle is not yet strong enough for reliable downstream replication.''),
          ev_verdict = (if score \<ge> 7500 then Verdict_pass
            else if score > 0 then Verdict_inconclusive else Verdict_fail)\<rparr>)"

definition evaluateContradiction :: "review_task \<Rightarrow> evaluation_input \<Rightarrow> evaluation" where
  "evaluateContradiction task inp =
     (let pressure = clamp_int 0 10000 (en_challengeCount inp * 1500 + en_challengesOpen inp * 1500 +
            (if rt_status task = RT_open then 500 else 0))
      in \<lparr>ev_confidenceBps = 6000,
          ev_dimensions = [(ChallengePressure, pressure), (ContradictionPressure, pressure)],
          ev_issues = (if pressure \<ge> 6000
            then [\<lparr>ei_category = ''contradiction'', ei_severity = Sev_high,
              ei_summary = ''Open contradiction pressure is elevated enough to block quiet certification.''\<rparr>] else []),
          ev_summary = (if pressure \<ge> 6000 then ''Challenge and contradiction pressure is elevated.''
            else ''No strong contradiction signal dominates the current record.''),
          ev_verdict = (if pressure \<ge> 6000 then Verdict_flag else Verdict_pass)\<rparr>)"

definition evaluateBenchmark :: "evaluation_input \<Rightarrow> evaluation" where
  "evaluateBenchmark inp =
     (let score = clamp_int 0 10000 (if en_supportiveReplications inp > 0 then 8600
            else if en_replicationCount inp > 0 then 5200
            else if has_code inp \<or> has_notebook inp then 5500 else 2000)
      in \<lparr>ev_confidenceBps = (if en_replicationCount inp > 0 then 8500 else 5500),
          ev_dimensions = [(ReplicationSupport, score)],
          ev_issues = (if en_replicationCount inp = 0
            then [\<lparr>ei_category = ''no_rerun_recorded'', ei_severity = Sev_medium,
              ei_summary = ''No replication result is recorded yet for this claim.''\<rparr>] else []),
          ev_summary = (if en_replicationCount inp > 0
            then show_int (en_replicationCount inp) @ '' replication result(s) are already recorded.''
            else ''No benchmark rerun has been recorded yet.''),
          ev_verdict = (if score \<ge> 8000 then Verdict_pass
            else if en_replicationCount inp > 0 then Verdict_inconclusive else Verdict_fail)\<rparr>)"

definition evaluateSynthesis :: "evaluation_input \<Rightarrow> evaluation" where
  "evaluateSynthesis inp =
     (let score = vectorScore (en_vector inp);
          readiness = score CertificationReadiness;
          contradiction = score ContradictionPressure;
          challenge = score ChallengePressure
      in \<lparr>ev_confidenceBps = 7000,
          ev_dimensions = [(CertificationReadiness, readiness), (ReviewCoverage, score ReviewCoverage),
            (ReviewDiversity, score ReviewDiversity), (ReviewFreshness, score ReviewFreshness),
            (ContradictionPressure, contradiction), (ChallengePressure, challenge),
            (ForecastSupport, score ForecastSupport), (ReplicationSupport, score ReplicationSupport)],
          ev_issues = (if contradiction \<ge> 6000 \<or> challenge \<ge> 6000
            then [\<lparr>ei_category = ''certification_blocker'', ei_severity = Sev_high,
              ei_summary = ''Current contradiction or challenge pressure blocks certification from being quiet.''\<rparr>] else []),
          ev_summary = (if readiness \<ge> 7500
            then ''The current claim review vector clears provisional certification thresholds.''
            else ''The current claim review vector has not yet cleared certification thresholds.''),
          ev_verdict = (if contradiction \<ge> 6000 \<or> challenge \<ge> 6000 then Verdict_flag
            else if readiness \<ge> 7500 then Verdict_pass else Verdict_inconclusive)\<rparr>)"

definition evaluateReviewTask :: "review_task \<Rightarrow> evaluation_input \<Rightarrow> evaluation" where
  "evaluateReviewTask task inp =
     (case rt_taskType task of
        Artifact_completeness_check \<Rightarrow> evaluateCompleteness inp
      | Artifact_integrity_check \<Rightarrow> evaluateIntegrity inp
      | Method_consistency_check \<Rightarrow> evaluateMethod inp
      | Stats_sanity_check \<Rightarrow> evaluateStats inp
      | Replication_readiness_check \<Rightarrow> evaluateReadiness inp
      | Contradiction_scan \<Rightarrow> evaluateContradiction task inp
      | Benchmark_rerun_check \<Rightarrow> evaluateBenchmark inp
      | Claim_extraction_check \<Rightarrow>
          \<lparr>ev_confidenceBps = 7200, ev_dimensions = [], ev_issues = [],
           ev_summary = ''Extraction work proposes a candidate atomic claim from the source snapshot.'',
           ev_verdict = Verdict_pass\<rparr>
      | Claim_extraction_synthesis_check \<Rightarrow>
          \<lparr>ev_confidenceBps = 6800, ev_dimensions = [], ev_issues = [],
           ev_summary = ''Synthesis work clusters extraction candidates into a publication-ready proposal.'',
           ev_verdict = Verdict_inconclusive\<rparr>
      | Certification_synthesis_check \<Rightarrow> evaluateSynthesis inp)"

section \<open>The inputs of the worker\<close>

text \<open>What \<open>buildTaskInputs\<close> of \<open>review/worker.ts\<close> computes from the claim's records.\<close>

definition supportiveReplication :: "replication_view \<Rightarrow> bool" where
  "supportiveReplication r \<longleftrightarrow> rv_resolutionStatus r = Some 1 \<or> rv_resolutionStatus r = Some 2 \<or>
     rv_outcome r = Some 1 \<or> rv_outcome r = Some 2"

definition taskInputs :: "int \<Rightarrow> claim_view \<Rightarrow> review_state_input \<Rightarrow> evaluation_input" where
  "taskInputs now claim s = \<lparr>en_artifactTypes = map av_artifactType (ii_artifacts s),
     en_artifactsCount = int (length (ii_artifacts s)), en_challengeCount = int (length (ii_challenges s)),
     en_challengesOpen = count_if (\<lambda>c. hv_status c = 0 \<or> hv_status c = 3) (ii_challenges s),
     en_claimStatus = cv_status claim, en_vector = reviewVector now s,
     en_replicationCount = int (length (ii_replications s)),
     en_supportiveReplications = count_if supportiveReplication (ii_replications s)\<rparr>"

lemma vector_score_bps: "0 \<le> vectorScore (reviewVector now s) d \<and> vectorScore (reviewVector now s) d \<le> 10000"
proof (cases "List.find (\<lambda>e. ve_dimension e = d) (reviewVector now s)")
  case (Some e)
  then have "e \<in> set (reviewVector now s)" by (auto simp: find_Some_iff)
  then obtain d' where "ve_scoreBps e = da_scoreBps (finalDimension now s d')"
    by (auto simp: reviewVector_def Let_def)
  then obtain v where "ve_scoreBps e = Some v" "is_bps v"
    using finalDimension_bps [of now s d'] by auto
  with Some show ?thesis by (simp add: vectorScore_def is_bps_def)
qed (simp add: vectorScore_def)

text \<open>The counts of the worker's inputs are consistent with the types and outcomes it lists.\<close>

lemma taskInputs_consistent:
  "evaluateHasType (taskInputs now claim s) t \<Longrightarrow> 0 < en_artifactsCount (taskInputs now claim s)"
  "0 < en_supportiveReplications (taskInputs now claim s) \<Longrightarrow> 0 < en_replicationCount (taskInputs now claim s)"
  "0 \<le> en_artifactsCount (taskInputs now claim s)" "0 \<le> en_replicationCount (taskInputs now claim s)"
  by (auto simp: evaluateHasType_def taskInputs_def count_if_pos_iff)

lemmas evaluate_defs = evaluateReviewTask_def evaluateCompleteness_def evaluateIntegrity_def evaluateMethod_def
  evaluateStats_def evaluateReadiness_def evaluateContradiction_def evaluateBenchmark_def evaluateSynthesis_def Let_def
  clamp_int_def

section \<open>Properties\<close>

text \<open>
  C39: Every evaluation is in range. On the inputs the worker builds, all dimension scores and the
  confidence are basis points between 0 and 10,000, whatever the task and the claim's records.
\<close>

theorem evaluation_in_range:
  "0 \<le> ev_confidenceBps (evaluateReviewTask task (taskInputs now claim s)) \<and>
   ev_confidenceBps (evaluateReviewTask task (taskInputs now claim s)) \<le> 10000 \<and>
   list_all (\<lambda>(d, v). 0 \<le> v \<and> v \<le> 10000) (ev_dimensions (evaluateReviewTask task (taskInputs now claim s)))"
  using vector_score_bps [of now s]
  by (cases "rt_taskType task") (simp_all add: evaluate_defs taskInputs_def)

text \<open>
  Verdicts and issues agree. On the inputs the worker builds, an evaluation that passes raises
  no issue, one that fails or flags raises exactly one, and no evaluation raises a critical issue.
\<close>

theorem evaluation_verdict_issues:
  "(ev_verdict (evaluateReviewTask task (taskInputs now claim s)) = Verdict_pass \<longrightarrow>
     ev_issues (evaluateReviewTask task (taskInputs now claim s)) = []) \<and>
   (ev_verdict (evaluateReviewTask task (taskInputs now claim s)) \<in> {Verdict_fail, Verdict_flag} \<longrightarrow>
     length (ev_issues (evaluateReviewTask task (taskInputs now claim s))) = 1) \<and>
   list_all (\<lambda>i. ei_severity i \<noteq> Sev_critical) (ev_issues (evaluateReviewTask task (taskInputs now claim s)))"
  using taskInputs_consistent(1) [of now claim s] taskInputs_consistent(2-4) [of now claim s]
  by (cases "rt_taskType task") (auto simp: evaluate_defs split: if_splits)


text \<open>A claim without artifacts fails the completeness check with one issue.\<close>

definition bare_claim :: review_state_input where
  "bare_claim = \<lparr>ii_artifacts = [], ii_challenges = [], ii_claims = None, ii_currentClaimId = Some ''3'', ii_forecasts = [],
     ii_issues = [], ii_replications = [], ii_responses = [], ii_submissionHistory = None, ii_submissions = [], ii_tasks = []\<rparr>"

definition sample_claim :: claim_view where
  "sample_claim = \<lparr>cv_claimId = ''3'', cv_author = ''0xa'', cv_domainId = 1, cv_metadataHash = ''0x1'',
     cv_resolutionModule = ''0x2'', cv_status = 1, cv_revisionOfClaimId = None, cv_createdAtBlock = 4\<rparr>"

definition sample_check :: review_task where
  "sample_check = \<lparr>rt_claimId = Some ''3'', rt_completedAt = None,
     rt_consensusPolicy = \<lparr>cp_maxSubmissions = 1, cp_minSubmissions = 1, cp_requireDistinctAgents = False\<rparr>,
     rt_createdAt = ''2026-01-01T00:00:00.000Z'', rt_failureReason = None, rt_inputArtifactKeys = [],
     rt_requestedBy = ''0xa'', rt_requiredCapabilities = [], rt_resultArtifactKey = None,
     rt_schemaVersion = ''review-task.v1'', rt_scopeKey = ''c'', rt_sourceId = None, rt_subjectId = ''3'',
     rt_subjectType = Subject_claim, rt_status = RT_open, rt_taskId = ''1'',
     rt_taskType = Artifact_completeness_check, rt_updatedAt = ''2026-01-01T00:00:00.000Z''\<rparr>"

theorem evaluation_verdict_issues_witness:
  "length (ev_issues (evaluateReviewTask sample_check (taskInputs 0 sample_claim bare_claim))) = 1"
proof -
  have "ev_verdict (evaluateReviewTask sample_check (taskInputs 0 sample_claim bare_claim)) = Verdict_fail"
    by (simp add: sample_check_def evaluateReviewTask_def evaluateCompleteness_def Let_def clamp_int_def taskInputs_def
        bare_claim_def evaluateHasType_def)
  then show ?thesis
    using evaluation_verdict_issues [of sample_check 0 sample_claim bare_claim] by simp
qed

end
