(* ===== verification/Review_Worker.thy ===== *)
theory Review_Worker
  imports Review_Queue Review_Evaluate Work_Policy
begin

text \<open>
  The review worker (\<open>review/worker.ts\<close>) and the opening of a claim's default tasks
  (\<open>review/workflow.ts\<close>): the worker claims the first task of its page that can be claimed, reads the
  claim's records and reviews, evaluates the task, stores the report as an artifact and records the
  submission; whatever throws after the claim fails the run. The indexer's records, the artifact store
  and the messages of the database driver are arguments.
\<close>

record indexer_reads =
  ix_operator :: "string \<Rightarrow> string option"
  ix_claim :: "string \<Rightarrow> claim_view option"
  ix_artifacts :: "string \<Rightarrow> artifact_view list"
  ix_challenges :: "string \<Rightarrow> challenge_view list"
  ix_forecasts :: "string \<Rightarrow> forecast_view list"
  ix_replications :: "string \<Rightarrow> replication_view list"
  ix_claims :: "claim_view list"

definition no_issue_filter :: "string \<Rightarrow> review_issue_filter" where
  "no_issue_filter claimId = \<lparr>if_claimId = Some claimId, if_severity = None, if_status = None, if_taskId = None\<rparr>"

definition workerTaskFilter :: "string \<Rightarrow> review_task_filter" where
  "workerTaskFilter claimId = \<lparr>tf_claimId = Some claimId, tf_sourceId = None, tf_status = None, tf_taskType = None\<rparr>"

definition workerSubmissionFilter :: "string option \<Rightarrow> review_submission_filter" where
  "workerSubmissionFilter claimId = \<lparr>sf_claimId = claimId, sf_sourceId = None, sf_taskId = None,
     sf_reviewerAgentId = None, sf_verdict = None\<rparr>"

text \<open>\<open>buildTaskInputs\<close>; the outer \<open>None\<close> is a paging loop that does not end.\<close>

definition buildTaskInputs ::
  "indexer_reads \<Rightarrow> int \<Rightarrow> review_db \<Rightarrow> review_task \<Rightarrow> (string + evaluation_input) option" where
  "buildTaskInputs ix now db task =
     (case rt_claimId task of
        None \<Rightarrow> Some (Inl ''source_backed_review_tasks_not_supported_by_worker'')
      | Some claimId \<Rightarrow>
          if claimId = [] then Some (Inl ''source_backed_review_tasks_not_supported_by_worker'') else
          Option.bind (readAllPages (\<lambda>turn limit pos. readReviewTasksPage (workerTaskFilter claimId) (Some limit) (Some pos) db) None) (\<lambda>tasks.
          Option.bind (readAllPages (\<lambda>turn limit pos. readReviewSubmissionsPage (workerSubmissionFilter (Some claimId)) (Some limit) (Some pos) db) None) (\<lambda>submissions.
          Option.bind (readAllPages (\<lambda>turn limit pos. readReviewSubmissionsPage (workerSubmissionFilter None) (Some limit) (Some pos) db) None) (\<lambda>history.
          Option.bind (readAllPages (\<lambda>turn limit pos. readReviewIssuesPage (no_issue_filter claimId) (Some limit) (Some pos) db) None) (\<lambda>issues.
          Option.bind (readAllPages (\<lambda>turn limit pos. readReviewAuthorResponsesPage (Some claimId) (Some limit) (Some pos) db) None) (\<lambda>responses.
          Some (case ix_claim ix claimId of
             None \<Rightarrow> Inl ''claim_not_found''
           | Some claim \<Rightarrow> Inr (taskInputs now claim
               \<lparr>ii_artifacts = ix_artifacts ix claimId, ii_challenges = ix_challenges ix claimId,
                ii_claims = Some (ix_claims ix), ii_currentClaimId = Some claimId, ii_forecasts = ix_forecasts ix claimId,
                ii_issues = issues, ii_replications = ix_replications ix claimId, ii_responses = responses,
                ii_submissionHistory = Some history, ii_submissions = submissions, ii_tasks = tasks\<rparr>))))))))"

definition resolveReviewerActor :: "indexer_reads \<Rightarrow> string \<Rightarrow> string option \<Rightarrow> string" where
  "resolveReviewerActor ix workerId agentId =
     (if truthy agentId
      then case ix_operator ix (the agentId) of Some operator \<Rightarrow> operator | None \<Rightarrow> ''agent:'' @ the agentId
      else workerId)"

definition show_severity :: "issue_severity \<Rightarrow> string" where
  "show_severity s = (case s of Sev_critical \<Rightarrow> ''critical'' | Sev_high \<Rightarrow> ''high'' | Sev_low \<Rightarrow> ''low'' | Sev_medium \<Rightarrow> ''medium'')"

definition evaluation_dimensions :: "evaluation \<Rightarrow> json" where
  "evaluation_dimensions e = JObj (map (\<lambda>(d, v). (show_dimension d, JNum (of_int v))) (ev_dimensions e))"

definition reviewReport :: "review_task \<Rightarrow> evaluation \<Rightarrow> string \<Rightarrow> (string \<times> json) list" where
  "reviewReport task e workerId =
     [(''claimId'', case rt_claimId task of None \<Rightarrow> JNull | Some c \<Rightarrow> JStr c),
      (''confidenceBps'', JNum (of_int (ev_confidenceBps e))), (''dimensions'', evaluation_dimensions e),
      (''issues'', JArr (map (\<lambda>i. JObj [(''category'', JStr (ei_category i)),
         (''severity'', JStr (show_severity (ei_severity i))), (''summary'', JStr (ei_summary i))]) (ev_issues e))),
      (''summary'', JStr (ev_summary e)), (''taskId'', JStr (rt_taskId task)),
      (''taskType'', JStr (show_review_task_type (rt_taskType task))), (''verdict'', JStr (show_verdict (ev_verdict e))),
      (''workerId'', JStr workerId)]"

definition submissionOf ::
  "evaluation \<Rightarrow> (string \<times> json) list \<Rightarrow> string \<Rightarrow> string \<Rightarrow> string option \<Rightarrow> int \<Rightarrow> int \<Rightarrow> review_submission_input" where
  "submissionOf e report artifactKey reviewerActor agentId runId taskId =
     \<lparr>si_claimId = None, si_confidenceBps = Some (of_int (ev_confidenceBps e)), si_dimensions = evaluation_dimensions e,
      si_evidenceArtifactKey = None,
      si_issues = Some (map (\<lambda>i. \<lparr>ii_artifactAnchor = None, ii_category = ei_category i, ii_severity = ei_severity i,
         ii_status = None, ii_summary = ei_summary i\<rparr>) (ev_issues e)),
      si_payload = Some report, si_resultArtifactKey = Some artifactKey, si_reviewType = None,
      si_reviewerActor = reviewerActor, si_reviewerAgentId = agentId, si_runId = Some runId, si_schemaVersion = None,
      si_sourceId = None, si_taskId = taskId, si_verdict = ev_verdict e\<rparr>"

text \<open>The messages of the errors \<open>recordReviewSubmission\<close> throws; a unique violation has the driver's.\<close>

fun error_message :: "string \<Rightarrow> review_error \<Rightarrow> string" where
  "error_message driver Subject_required = ''review_task_subject_required''"
| "error_message driver Task_not_found = ''review_task_not_found''"
| "error_message driver Run_not_found = ''review_task_run_not_found''"
| "error_message driver Run_not_running = ''review_task_run_not_running''"
| "error_message driver Run_agent_mismatch = ''review_task_run_agent_mismatch''"
| "error_message driver Agent_already_submitted = ''review_task_agent_already_submitted''"
| "error_message driver Unique_violation = driver"

datatype execution_result =
    Review_idle string
  | Review_completed string int "string option" string review_task_type string
  | Review_failed string int string review_task_type string

record worker_clock =
  wk_claimed :: int
  wk_read :: int
  wk_recorded :: int

text \<open>The loop over the candidates; an exception of a claim leaves it.\<close>

fun claim_first ::
  "int \<Rightarrow> string option \<Rightarrow> string \<Rightarrow> review_db \<Rightarrow> review_task list \<Rightarrow>
   review_error + (review_db \<times> review_run_row \<times> review_task) option" where
  "claim_first now agentId workerId db [] = Inr None"
| "claim_first now agentId workerId db (task # tasks) =
     (let taskId = nullish (digits_value (rt_taskId task)) 0 in
      case claimReviewTaskById now agentId taskId workerId db of
        Inl e \<Rightarrow> Inl e
      | Inr None \<Rightarrow> claim_first now agentId workerId db tasks
      | Inr (Some (db', run)) \<Rightarrow>
          (case readReviewTask taskId db' of None \<Rightarrow> Inl Task_not_found | Some fresh \<Rightarrow> Inr (Some (db', run, fresh))))"

definition fail_claimed ::
  "int \<Rightarrow> string \<Rightarrow> review_run_row \<Rightarrow> review_task \<Rightarrow> string \<Rightarrow> review_db \<Rightarrow> review_db \<times> execution_result" where
  "fail_claimed now message run task workerId db =
     (fst (failReviewTaskRun now message (ku_runId run) (ku_taskId run) db),
      Review_failed message (ku_runId run) (rt_taskId task) (rt_taskType task) workerId)"

definition executeClaimed ::
  "indexer_reads \<Rightarrow> ((string \<times> json) list \<Rightarrow> string + string) \<Rightarrow> string \<Rightarrow> worker_clock \<Rightarrow> string option \<Rightarrow> string \<Rightarrow>
   review_run_row \<Rightarrow> review_task \<Rightarrow> review_db \<Rightarrow> (review_db \<times> execution_result) option" where
  "executeClaimed ix persist driver clk agentId workerId run task db =
     map_option (\<lambda>inputs. case inputs of
        Inl message \<Rightarrow> fail_claimed (wk_recorded clk) message run task workerId db
      | Inr inp \<Rightarrow>
          let e = evaluateReviewTask task inp; report = reviewReport task e workerId in
          (case persist report of
             Inl message \<Rightarrow> fail_claimed (wk_recorded clk) message run task workerId db
           | Inr artifactKey \<Rightarrow>
               (case recordReviewSubmission (wk_recorded clk) (submissionOf e report artifactKey
                       (resolveReviewerActor ix workerId agentId) agentId (ku_runId run) (ku_taskId run)) db of
                  Inl err \<Rightarrow> fail_claimed (wk_recorded clk) (error_message driver err) run task workerId db
                | Inr (db', submission, settled) \<Rightarrow>
                    (db', Review_completed artifactKey (ku_runId run) (map_option rs_submissionId submission)
                       (rt_taskId task) (rt_taskType task) workerId))))
       (buildTaskInputs ix (wk_read clk) db task)"

definition processReviewTask ::
  "indexer_reads \<Rightarrow> ((string \<times> json) list \<Rightarrow> string + string) \<Rightarrow> string \<Rightarrow> worker_clock \<Rightarrow> string option \<Rightarrow>
   int option \<Rightarrow> review_task_type option \<Rightarrow> string \<Rightarrow> review_db \<Rightarrow> (review_error + review_db \<times> execution_result) option" where
  "processReviewTask ix persist driver clk agentId taskId taskType workerId db =
     (case claim_first (wk_claimed clk) agentId workerId db (candidateTasks taskId taskType db) of
        Inl e \<Rightarrow> Some (Inl e)
      | Inr None \<Rightarrow> Some (Inr (db, Review_idle workerId))
      | Inr (Some (db', run, task)) \<Rightarrow>
          map_option Inr (executeClaimed ix persist driver clk agentId workerId run task db'))"

text \<open>\<open>openDefaultReviewTasksForClaim\<close>: one task per default type, until one throws.\<close>

definition default_task_input :: "string \<Rightarrow> string \<Rightarrow> review_task_type \<Rightarrow> review_task_input" where
  "default_task_input claimId requestedBy taskType =
     \<lparr>ti_claimId = Some claimId,
      ti_consensusPolicy = (case consensus_json (defaultReviewConsensusPolicy taskType) of JObj fs \<Rightarrow> fs | _ \<Rightarrow> []),
      ti_inputArtifactKeys = None, ti_requestedBy = requestedBy,
      ti_requiredCapabilities = Some (requiredCapabilitiesForReviewTask taskType), ti_schemaVersion = None,
      ti_scopeKey = Some (show_review_task_type taskType), ti_sourceId = None, ti_sourceSubjectId = None,
      ti_sourceSubjectType = None, ti_taskType = taskType\<rparr>"

fun open_tasks ::
  "int \<Rightarrow> string \<Rightarrow> string \<Rightarrow> review_task_type list \<Rightarrow> review_db \<Rightarrow> review_db \<times> (review_error + review_task list)" where
  "open_tasks now claimId requestedBy [] db = (db, Inr [])"
| "open_tasks now claimId requestedBy (ty # tys) db =
     (case createReviewTask now (default_task_input claimId requestedBy ty) db of
        Inl e \<Rightarrow> (db, Inl e)
      | Inr (db', task) \<Rightarrow>
          (case open_tasks now claimId requestedBy tys db' of
             (db'', Inl e) \<Rightarrow> (db'', Inl e)
           | (db'', Inr tasks) \<Rightarrow> (db'', Inr (task # tasks))))"

definition openDefaultReviewTasksForClaim ::
  "indexer_reads \<Rightarrow> int \<Rightarrow> string \<Rightarrow> string \<Rightarrow> review_db \<Rightarrow> string + review_db \<times> (review_error + review_task list)" where
  "openDefaultReviewTasksForClaim ix now claimId requestedBy db =
     (case ix_claim ix claimId of
        None \<Rightarrow> Inl ''claim_not_found''
      | Some claim \<Rightarrow>
          Inr (open_tasks now claimId requestedBy (defaultReviewTaskTypesForClaim (ix_artifacts ix claimId)) db))"

section \<open>The worker settles its lease\<close>

lemma buildTaskInputs_total: "\<exists>r. buildTaskInputs ix now db task = Some r"
  by (simp add: buildTaskInputs_def read_all_review_tables split: option.split)

lemma claim_effect:
  assumes "claimReviewTaskById now agentId k workerId db = Inr (Some (db', run))"
  shows "run = new_review_run now (rb_nextRun db) k agentId workerId"
    and "rb_runs db' = rb_runs db @ [run]" and "rb_submissions db' = rb_submissions db"
    and "rb_tasks db' = touch_task now k (rb_tasks db)" and "rb_nextRun db' = rb_nextRun db + 1"
  using assms by (auto simp: claimReviewTaskById_def Let_def split: option.splits if_splits)

lemma claim_first_effect:
  assumes "claim_first now agentId workerId db tasks = Inr (Some (db', run, task))"
  shows "claimReviewTaskById now agentId (ku_taskId run) workerId db = Inr (Some (db', run)) \<and>
    readReviewTask (ku_taskId run) db' = Some task"
  using assms
proof (induction tasks)
  case (Cons t ts)
  have "ku_taskId run = k" if "claimReviewTaskById now agentId k workerId db = Inr (Some (db', run))" for k
    using claim_effect(1) [OF that] by (simp add: new_review_run_def)
  with Cons show ?case by (auto simp: Let_def split: sum.splits option.splits)
qed simp

lemma settle_new_run:
  assumes "review_inv db" and "run = new_review_run now (rb_nextRun db) k agentId workerId"
  shows "fail_run now' reason (ku_runId run) (rb_runs db @ [run]) = rb_runs db @
      [run\<lparr>ku_status := Run_failed, ku_failureReason := Some reason, ku_finishedAt := Some now'\<rparr>]"
    and "complete_review_run now' (Some (ku_runId run)) (rb_runs db @ [run]) = rb_runs db @
      [run\<lparr>ku_status := Run_completed, ku_finishedAt := Some now'\<rparr>]"
proof -
  have "ku_runId u \<noteq> rb_nextRun db" if "u \<in> set (rb_runs db)" for u
    using assms(1) that by (auto simp: review_inv_def)
  then show "fail_run now' reason (ku_runId run) (rb_runs db @ [run]) = rb_runs db @
      [run\<lparr>ku_status := Run_failed, ku_failureReason := Some reason, ku_finishedAt := Some now'\<rparr>]"
    and "complete_review_run now' (Some (ku_runId run)) (rb_runs db @ [run]) = rb_runs db @
      [run\<lparr>ku_status := Run_completed, ku_finishedAt := Some now'\<rparr>]"
    by (auto simp: fail_run_def complete_review_run_def update_where_def assms(2) new_review_run_def intro!: map_idI)
qed


text \<open>What the worker leaves behind: the claimed run is settled, and only a completion adds a submission.\<close>

definition settled_outcome :: "review_db \<Rightarrow> review_db \<Rightarrow> execution_result \<Rightarrow> bool" where
  "settled_outcome db db' result \<longleftrightarrow>
     (\<forall>k. countReviewTaskRunningRuns k db' = countReviewTaskRunningRuns k db) \<and>
     (case result of
        Review_completed artifactKey runId sid taskId taskType workerId \<Rightarrow>
          \<exists>s. rb_submissions db' = rb_submissions db @ [s] \<and> ks_runId s = Some runId \<and> ks_resultArtifactKey s = Some artifactKey
      | _ \<Rightarrow> rb_submissions db' = rb_submissions db)"

lemma fail_claimed_settles:
  assumes inv: "review_inv db" and c: "claimReviewTaskById now agentId k workerId db = Inr (Some (db1, run))"
    and "fail_claimed now' message run task workerId db1 = (db', result)"
  shows "settled_outcome db db' result \<and> review_step db1 db'"
proof -
  note eff = claim_effect [OF c]
  have run: "ku_status run = Run_running" by (simp add: eff(1) new_review_run_def)
  have "rb_runs db' = fail_run now' message (ku_runId run) (rb_runs db @ [run])" "rb_submissions db' = rb_submissions db"
    using assms(3) by (auto simp: fail_claimed_def failReviewTaskRun_def Let_def eff)
  moreover have "review_step db1 (fst (failReviewTaskRun now' message (ku_runId run) (ku_taskId run) db1))"
    by (rule review_step.fail)
  ultimately show ?thesis
    using assms(3) settle_new_run(1) [OF inv eff(1)]
    by (auto simp: settled_outcome_def countReviewTaskRunningRuns_def fail_claimed_def)
qed

lemma executeClaimed_settles:
  assumes inv: "review_inv db" and c: "claimReviewTaskById now agentId (ku_taskId run) workerId db = Inr (Some (db1, run))"
  shows "\<exists>db' result. executeClaimed ix persist driver clk agentId workerId run task db1 = Some (db', result) \<and>
    settled_outcome db db' result \<and> review_step db1 db'"
proof -
  note eff = claim_effect [OF c]
  obtain inputs where i: "buildTaskInputs ix (wk_read clk) db1 task = Some inputs" using buildTaskInputs_total by blast
  have failed: "\<exists>db' result. Some (fail_claimed (wk_recorded clk) m run task workerId db1) = Some (db', result) \<and>
    settled_outcome db db' result \<and> review_step db1 db'" for m
    using fail_claimed_settles [OF inv c, of "wk_recorded clk" m task]
    by (cases "fail_claimed (wk_recorded clk) m run task workerId db1") simp
  show ?thesis
  proof (cases inputs)
    case (Inl m)
    then show ?thesis using failed [of m] by (simp add: executeClaimed_def i)
  next
    case (Inr inp)
    let ?e = "evaluateReviewTask task inp"
    let ?report = "reviewReport task ?e workerId"
    show ?thesis
    proof (cases "persist ?report")
      case (Inl m)
      then show ?thesis using failed [of m] Inr by (simp add: executeClaimed_def i Let_def)
    next
      case (Inr key)
      let ?sub = "submissionOf ?e ?report key (resolveReviewerActor ix workerId agentId) agentId (ku_runId run) (ku_taskId run)"
      show ?thesis
      proof (cases "recordReviewSubmission (wk_recorded clk) ?sub db1")
        case (Inl err)
        then show ?thesis using failed [of "error_message driver err"] Inr \<open>inputs = Inr inp\<close>
          by (simp add: executeClaimed_def i Let_def)
      next
        case (Inr out)
        then obtain db' submission settled where out: "recordReviewSubmission (wk_recorded clk) ?sub db1 = Inr (db', submission, settled)"
          by (cases out) auto
        then obtain t where db': "db' = store_submission (wk_recorded clk) ?sub t db1" by (rule submit_result) simp
        note st = store_submission_effect [OF db']
        have "settled_outcome db db' (Review_completed key (ku_runId run) (map_option rs_submissionId submission)
            (rt_taskId task) (rt_taskType task) workerId)"
          using settle_new_run(2) [OF inv eff(1), of "wk_recorded clk"]
          by (simp add: settled_outcome_def st eff(2,3) countReviewTaskRunningRuns_def submissionOf_def new_review_submission_def
              eff(1) [symmetric])
        moreover have "review_step db1 db'"
          using out by (rule review_step.submit [rotated]) (simp add: submissionOf_def)
        ultimately show ?thesis using out \<open>persist ?report = Inr key\<close> \<open>inputs = Inr inp\<close>
          by (simp add: executeClaimed_def i Let_def)
      qed
    qed
  qed
qed

lemma claim_read:
  assumes "claimReviewTaskById now agentId k workerId db = Inr (Some (db', run))"
  shows "\<exists>task. readReviewTask k db' = Some task"
proof -
  have "find_by kt_taskId k (rb_tasks db) \<noteq> None"
    using assms by (auto simp: claimReviewTaskById_def split: option.splits)
  then have "k \<in> kt_taskId ` set (rb_tasks db)" by (auto dest: find_by_Some)
  then have "k \<in> set (map kt_taskId (rb_tasks db'))"
    unfolding claim_effect(4) [OF assms] touch_task_def by (subst update_where_key) auto
  then show ?thesis by (cases "find_by kt_taskId k (rb_tasks db')") (auto simp: readReviewTask_def find_by_def find_None_iff)
qed

lemma claim_first_error:
  assumes "claim_first now agentId workerId db tasks = Inl e" shows "e = Unique_violation"
proof -
  have claim: "e' = Unique_violation" if "claimReviewTaskById now agentId k workerId db = Inl e'" for k e'
    using that by (auto simp: claimReviewTaskById_def Let_def split: option.splits if_splits)
  show ?thesis
    using assms by (induction tasks) (auto simp: Let_def dest: claim claim_read split: sum.splits option.splits)
qed

section \<open>What a claim looks at\<close>

definition claim_kind :: "review_error + 'a option \<Rightarrow> review_error + bool" where
  "claim_kind r = map_sum id (\<lambda>c. c \<noteq> None) r"

lemma claim_kind_simps [simp]:
  "claim_kind (Inl e) = Inl e" "claim_kind (Inr None) = Inr False" "claim_kind (Inr (Some c)) = Inr True"
  by (simp_all add: claim_kind_def)

lemma claim_kind_iff:
  "claim_kind r = Inr False \<longleftrightarrow> r = Inr None" "claim_kind r = Inr True \<longleftrightarrow> (\<exists>c. r = Inr (Some c))"
  by (cases r; auto simp: claim_kind_def)+

definition same_queue :: "review_db \<Rightarrow> review_db \<Rightarrow> bool" where
  "same_queue db db' \<longleftrightarrow> rb_submissions db' = rb_submissions db \<and>
     filter (\<lambda>u. ku_status u = Run_running) (rb_runs db') = filter (\<lambda>u. ku_status u = Run_running) (rb_runs db) \<and>
     map (\<lambda>t. t\<lparr>kt_updatedAt := 0\<rparr>) (rb_tasks db') = map (\<lambda>t. t\<lparr>kt_updatedAt := 0\<rparr>) (rb_tasks db)"

lemma same_queue_counts:
  assumes "same_queue db db'"
  shows "countReviewTaskCompletedSubmissions k db' = countReviewTaskCompletedSubmissions k db"
    and "countReviewTaskRunningRuns k db' = countReviewTaskRunningRuns k db"
    and "agent_submitted k agentId db' = agent_submitted k agentId db"
    and "agent_running k agentId db' = agent_running k agentId db"
    and "running_identity_taken k agentId workerId db' = running_identity_taken k agentId workerId db"
proof -
  have f: "filter (\<lambda>u. p u \<and> ku_status u = Run_running) us = filter p (filter (\<lambda>u. ku_status u = Run_running) us)" for p us
    by (induction us) auto
  have e: "list_ex (\<lambda>u. p u \<and> ku_status u = Run_running) us \<longleftrightarrow> list_ex p (filter (\<lambda>u. ku_status u = Run_running) us)" for p us
    by (auto simp: list_ex_iff)
  note r = assms [unfolded same_queue_def, THEN conjunct2, THEN conjunct1]
  show "countReviewTaskCompletedSubmissions k db' = countReviewTaskCompletedSubmissions k db"
    "agent_submitted k agentId db' = agent_submitted k agentId db"
    using assms by (simp_all add: countReviewTaskCompletedSubmissions_def agent_submitted_def same_queue_def)
  show "countReviewTaskRunningRuns k db' = countReviewTaskRunningRuns k db"
    unfolding countReviewTaskRunningRuns_def count_if_def f r ..
  show "agent_running k agentId db' = agent_running k agentId db"
    unfolding agent_running_def conj_assoc [symmetric] e r ..
  show "running_identity_taken k agentId workerId db' = running_identity_taken k agentId workerId db"
    unfolding running_identity_taken_def conj_assoc [symmetric] e r ..
qed

lemma same_queue_task:
  assumes "same_queue db db'"
  shows "map_option (\<lambda>t. t\<lparr>kt_updatedAt := 0\<rparr>) (find_by kt_taskId k (rb_tasks db')) =
    map_option (\<lambda>t. t\<lparr>kt_updatedAt := 0\<rparr>) (find_by kt_taskId k (rb_tasks db))"
proof -
  have m: "map_option (\<lambda>t. t\<lparr>kt_updatedAt := 0\<rparr>) (find_by kt_taskId k ts) =
      find_by kt_taskId k (map (\<lambda>t. t\<lparr>kt_updatedAt := 0\<rparr>) ts)" for ts
    by (induction ts) (simp_all add: find_by_def)
  show ?thesis unfolding m using assms by (simp only: same_queue_def)
qed

lemma claim_kind_same:
  assumes q: "same_queue db db'"
  shows "claim_kind (claimReviewTaskById now' agentId k workerId db') = claim_kind (claimReviewTaskById now agentId k workerId db)"
proof (cases "find_by kt_taskId k (rb_tasks db)")
  case None
  then show ?thesis using same_queue_task [OF q, of k] by (simp add: claimReviewTaskById_def)
next
  case (Some t)
  then obtain t' where t': "find_by kt_taskId k (rb_tasks db') = Some t'" "t'\<lparr>kt_updatedAt := 0\<rparr> = t\<lparr>kt_updatedAt := 0\<rparr>"
    using same_queue_task [OF q, of k] by auto
  from arg_cong [OF t'(2), of kt_status] arg_cong [OF t'(2), of kt_consensusPolicy]
  have "kt_status t' = kt_status t" "kt_consensusPolicy t' = kt_consensusPolicy t" by simp_all
  with Some t'(1) show ?thesis
    by (auto simp: claimReviewTaskById_def same_queue_counts [OF q] Let_def)
qed

lemma claim_first_same:
  assumes q: "same_queue db db'" and "map rt_taskId ts' = map rt_taskId ts"
    and "claim_first now agentId workerId db ts = Inr (Some (d, run, task))"
  shows "\<exists>d' run' task'. claim_first now' agentId workerId db' ts' = Inr (Some (d', run', task')) \<and>
    ku_taskId run' = ku_taskId run"
  using assms(2,3)
proof (induction ts arbitrary: ts')
  case (Cons t ts)
  then obtain t' us where ts': "ts' = t' # us" "rt_taskId t' = rt_taskId t" "map rt_taskId us = map rt_taskId ts"
    by (cases ts') auto
  let ?k = "nullish (digits_value (rt_taskId t)) 0"
  note same = claim_kind_same [OF q, of now' agentId ?k workerId now]
  show ?case
  proof (cases "claimReviewTaskById now agentId ?k workerId db")
    case (Inr c)
    show ?thesis
    proof (cases c)
      case None
      then have "claimReviewTaskById now' agentId ?k workerId db' = Inr None"
        using same Inr by (simp add: claim_kind_iff)
      moreover have "claim_first now agentId workerId db ts = Inr (Some (d, run, task))"
        using Cons.prems(2) Inr None by (simp add: Let_def)
      ultimately show ?thesis using Cons.IH [OF ts'(3)] ts'(1,2) by (simp add: Let_def)
    next
      case (Some x)
      then obtain y where y: "claimReviewTaskById now' agentId ?k workerId db' = Inr (Some y)"
        using same Inr by (auto simp: claim_kind_iff)
      obtain d' run' where y': "y = (d', run')" by (cases y)
      have "x = (d, run)" using Cons.prems(2) Inr Some by (cases x) (auto simp: Let_def split: option.splits)
      with Inr Some have "claimReviewTaskById now agentId ?k workerId db = Inr (Some (d, run))" by simp
      from claim_effect(1) [OF this] claim_effect(1) [OF y [unfolded y']]
      have k: "ku_taskId run = ?k" "ku_taskId run' = ?k" by (simp_all add: new_review_run_def)
      obtain task' where "readReviewTask ?k d' = Some task'" using claim_read [OF y [unfolded y']] by blast
      with y y' k ts' show ?thesis by (simp add: Let_def)
    qed
  qed (use Cons.prems in \<open>simp add: Let_def\<close>)
qed simp

lemma taskMatches_touch [simp]: "taskMatches f (t\<lparr>kt_updatedAt := n\<rparr>) = taskMatches f t"
  by (simp add: taskMatches_def)

lemma same_queue_candidates:
  assumes "same_queue db db'"
  shows "map rt_taskId (candidateTasks None taskType db') = map rt_taskId (candidateTasks None taskType db)"
proof -
  let ?f = "\<lparr>tf_claimId = None, tf_sourceId = None, tf_status = Some RT_open, tf_taskType = taskType\<rparr>"
  let ?pair = "\<lambda>t. (kt_createdAt t, kt_taskId t)"
  have ids: "map rt_taskId (selectReviewTasks ?f d) = map (show_int \<circ> snd)
      (js_sort (\<lambda>x y. if fst y - fst x \<noteq> 0 then fst y - fst x else snd y - snd x)
        (map ?pair (filter (taskMatches ?f) (map (\<lambda>t. t\<lparr>kt_updatedAt := 0\<rparr>) (rb_tasks d)))))" for d
  proof -
    have m: "map ?pair (newest_first kt_createdAt kt_taskId rows) =
      js_sort (\<lambda>x y. if fst y - fst x \<noteq> 0 then fst y - fst x else snd y - snd x) (map ?pair rows)" for rows
      unfolding newest_first_def by (rule map_js_sort) simp
    have u: "taskMatches ?f \<circ> (\<lambda>t. t\<lparr>kt_updatedAt := 0\<rparr>) = taskMatches ?f"
      "?pair \<circ> (\<lambda>t. t\<lparr>kt_updatedAt := 0\<rparr>) = ?pair"
      by (simp_all add: fun_eq_iff)
    have f: "map ?pair (filter (taskMatches ?f) (rb_tasks d)) =
        map ?pair (filter (taskMatches ?f) (map (\<lambda>t. t\<lparr>kt_updatedAt := 0\<rparr>) (rb_tasks d)))"
      unfolding filter_map list.map_comp u ..
    have c: "rt_taskId \<circ> mapReviewTaskRow = (show_int \<circ> snd) \<circ> ?pair"
      by (simp add: fun_eq_iff mapReviewTaskRow_def)
    have "map rt_taskId (selectReviewTasks ?f d) =
        map ((show_int \<circ> snd) \<circ> ?pair) (newest_first kt_createdAt kt_taskId (filter (taskMatches ?f) (rb_tasks d)))"
      unfolding selectReviewTasks_def list.map_comp c ..
    then show ?thesis unfolding list.map_comp [symmetric] m f .
  qed
  have "map rt_taskId (candidateTasks None taskType d) = take 20 (map rt_taskId (selectReviewTasks ?f d))" for d
    by (simp add: candidateTasks_def readReviewTasksPage_def queryPage_def page_of_def normalizePagination_def take_map)
  then show ?thesis using assms by (simp add: ids same_queue_def)
qed

lemma touch_task_view [simp]:
  "map (\<lambda>t. t\<lparr>kt_updatedAt := 0\<rparr>) (touch_task now k ts) = map (\<lambda>t. t\<lparr>kt_updatedAt := 0\<rparr>) ts"
  by (simp add: touch_task_def update_where_def)

lemma same_queue_failed:
  assumes inv: "review_inv db" and c: "claimReviewTaskById now agentId k workerId db = Inr (Some (d, run))"
    and "fail_claimed now' message run task workerId d = (db', result)"
  shows "same_queue db db'"
proof -
  note eff = claim_effect [OF c]
  have "rb_runs db' = fail_run now' message (ku_runId run) (rb_runs db @ [run])" "rb_submissions db' = rb_submissions db"
    "rb_tasks db' = touch_task now' (ku_taskId run) (touch_task now k (rb_tasks db))"
    using assms(3) by (auto simp: fail_claimed_def failReviewTaskRun_def Let_def eff)
  then show ?thesis
    using settle_new_run(1) [OF inv eff(1)]
    by (simp add: same_queue_def eff(1) new_review_run_def)
qed

lemma claimed_task:
  assumes q: "same_queue db db'" and c: "claimReviewTaskById now agentId k workerId db = Inr (Some (d, run))"
    and c': "claimReviewTaskById now' agentId' k workerId' db' = Inr (Some (d', run'))"
    and t: "readReviewTask k d = Some task" and t': "readReviewTask k d' = Some task'"
  shows "rt_taskId task' = rt_taskId task \<and> rt_claimId task' = rt_claimId task"
proof -
  obtain row row' where row: "find_by kt_taskId k (rb_tasks d) = Some row" "task = mapReviewTaskRow row"
    and row': "find_by kt_taskId k (rb_tasks d') = Some row'" "task' = mapReviewTaskRow row'"
    using t t' by (auto simp: readReviewTask_def)
  have "same_queue (d\<lparr>rb_submissions := [], rb_runs := []\<rparr>) (d'\<lparr>rb_submissions := [], rb_runs := []\<rparr>)"
    using q by (simp add: same_queue_def claim_effect(4) [OF c] claim_effect(4) [OF c'])
  from same_queue_task [OF this, of k] have e: "row'\<lparr>kt_updatedAt := 0\<rparr> = row\<lparr>kt_updatedAt := 0\<rparr>"
    by (simp add: row(1) row'(1))
  from arg_cong [OF e, of kt_taskId] arg_cong [OF e, of kt_claimId] show ?thesis
    by (simp add: row(2) row'(2) mapReviewTaskRow_def)
qed

section \<open>Opening the default tasks\<close>

lemma js_trim_id: "list_all (\<lambda>c. \<not> is_space c) s \<Longrightarrow> js_trim s = s"
proof -
  assume a: "list_all (\<lambda>c. \<not> is_space c) s"
  then have "dropWhile is_space s = s" by (cases s) simp_all
  moreover have "dropWhile is_space (rev s) = rev s"
    using a by (cases "rev s") (auto simp: list_all_iff dest: arg_cong [of _ _ set])
  ultimately show ?thesis by (simp add: js_trim_def)
qed

text \<open>The open tasks that keep \<open>createReviewTask\<close> from inserting another one.\<close>

definition blocks_task :: "string \<Rightarrow> review_task_type \<Rightarrow> review_task_row \<Rightarrow> bool" where
  "blocks_task claimId ty t \<longleftrightarrow> kt_status t = RT_open \<and> kt_taskType t = ty \<and> kt_scopeKey t = show_review_task_type ty \<and>
     (kt_claimId t = Some claimId \<or> kt_subjectType t = Subject_claim \<and> kt_subjectId t = claimId)"

lemma create_default:
  "createReviewTask now (default_task_input c r ty) db =
     (case trimmed (Some c) of
        None \<Rightarrow> Inl Subject_required
      | Some claimId \<Rightarrow>
          (case js_sort (\<lambda>x y. kt_taskId x - kt_taskId y)
                  (filter (same_subject Subject_claim claimId ty (show_review_task_type ty)) (rb_tasks db)) of
             existing # _ \<Rightarrow> Inr (db, mapReviewTaskRow existing)
           | [] \<Rightarrow>
               if list_ex (\<lambda>t. kt_claimId t = Some claimId \<and> kt_taskType t = ty \<and>
                    kt_scopeKey t = show_review_task_type ty \<and> kt_status t = RT_open) (rb_tasks db)
               then (case filter (\<lambda>t. rt_scopeKey t = show_review_task_type ty)
                        (fst (readReviewTasksPage \<lparr>tf_claimId = Some claimId, tf_sourceId = None, tf_status = Some RT_open,
                           tf_taskType = Some ty\<rparr> (Some 1) (Some 0) db)) of
                       task # _ \<Rightarrow> Inr (db, task) | [] \<Rightarrow> Inl Unique_violation)
               else let row = new_review_task now (rb_nextTask db) (default_task_input c r ty) Subject_claim claimId (show_review_task_type ty)
                    in Inr (db\<lparr>rb_tasks := rb_tasks db @ [row], rb_nextTask := rb_nextTask db + 1\<rparr>, mapReviewTaskRow row)))"
proof -
  have "list_all (\<lambda>c. \<not> is_space c) (show_review_task_type ty)" "show_review_task_type ty \<noteq> []"
    by (cases ty; simp add: is_space_def)+
  then have "trimmed (Some (show_review_task_type ty)) = Some (show_review_task_type ty)" by (simp add: trimmed_def js_trim_id)
  moreover have "trimmed None = None" by (simp add: trimmed_def)
  ultimately show ?thesis
    by (cases "trimmed (Some c)")
      (simp_all add: createReviewTask_def default_task_input_def new_review_task_def claim_identity_taken_def Let_def
        cong: list.case_cong)
qed

lemma create_blocked:
  "createReviewTask now (default_task_input c r ty) db = Inl e \<Longrightarrow>
     createReviewTask now' (default_task_input c r' ty) db = Inl e"
  "trimmed (Some c) = Some claimId \<Longrightarrow> list_ex (blocks_task claimId ty) (rb_tasks db) \<Longrightarrow>
     createReviewTask now (default_task_input c r ty) db = Inr (db', task) \<Longrightarrow> db' = db"
  unfolding create_default
  by (auto simp: Let_def blocks_task_def same_subject_def list_ex_iff filter_empty_conv
      split: option.splits list.splits if_splits)

lemma create_blocks:
  assumes "createReviewTask now (default_task_input c r ty) db = Inr (db', task)"
  shows "\<exists>claimId rows. trimmed (Some c) = Some claimId \<and> rb_tasks db' = rb_tasks db @ rows \<and>
    list_ex (blocks_task claimId ty) (rb_tasks db')"
  using assms unfolding create_default
  by (auto simp: Let_def blocks_task_def same_subject_def list_ex_iff new_review_task_def default_task_input_def
      dest!: js_sort_head split: option.splits list.splits if_splits)

lemma open_tasks_extend: "\<exists>rows. rb_tasks (fst (open_tasks now c r tys db)) = rb_tasks db @ rows"
proof (induction tys arbitrary: db)
  case (Cons ty tys)
  show ?case
  proof (cases "createReviewTask now (default_task_input c r ty) db")
    case (Inr out)
    then obtain db' task where out: "createReviewTask now (default_task_input c r ty) db = Inr (db', task)" by (cases out) auto
    with create_blocks [OF out] Cons.IH [of db'] show ?thesis
      by (auto split: prod.splits sum.splits)
  qed simp
qed simp

lemma open_tasks_again:
  assumes "rb_tasks db2 = rb_tasks (fst (open_tasks now c r tys db)) @ rows"
    and "isl (snd (open_tasks now c r tys db)) \<longrightarrow> db2 = fst (open_tasks now c r tys db)"
  shows "fst (open_tasks now' c r' tys db2) = db2"
  using assms
proof (induction tys arbitrary: db)
  case (Cons ty tys)
  show ?case
  proof (cases "createReviewTask now (default_task_input c r ty) db")
    case (Inl e)
    then have "db2 = db" using Cons.prems(2) by simp
    then show ?thesis using create_blocked(1) [OF Inl] by simp
  next
    case (Inr out)
    then obtain db' task where out: "createReviewTask now (default_task_input c r ty) db = Inr (db', task)" by (cases out) auto
    have same: "fst (open_tasks now c r (ty # tys) db) = fst (open_tasks now c r tys db')"
      "isl (snd (open_tasks now c r (ty # tys) db)) = isl (snd (open_tasks now c r tys db'))"
      by (simp_all add: out split: prod.splits sum.splits)
    have again: "fst (open_tasks now' c r' tys db2) = db2"
      using Cons.prems unfolding same by (rule Cons.IH)
    obtain claimId rows' where c: "trimmed (Some c) = Some claimId" "list_ex (blocks_task claimId ty) (rb_tasks db')"
      using create_blocks [OF out] by blast
    obtain rows'' where "rb_tasks db2 = rb_tasks db' @ rows''"
      using Cons.prems(1) open_tasks_extend [of now c r tys db'] unfolding same by auto
    with c(2) have blocked: "list_ex (blocks_task claimId ty) (rb_tasks db2)" by simp
    show ?thesis
    proof (cases "createReviewTask now' (default_task_input c r' ty) db2")
      case (Inr out')
      then obtain d t where o: "createReviewTask now' (default_task_input c r' ty) db2 = Inr (d, t)" by (cases out') auto
      with create_blocked(2) [OF c(1) blocked o] again show ?thesis by (auto split: prod.splits sum.splits)
    qed simp
  qed
qed simp

section \<open>Properties\<close>



text \<open>
  C29: A source's task starves the worker. If the first task the worker can claim belongs to a source
  and not to a claim, the worker claims it, fails its own run with
  \<open>source_backed_review_tasks_not_supported_by_worker\<close>, and leaves the queue such that the next call
  claims the same task again: no task behind it is ever processed.
\<close>

theorem worker_retries_source_task:
  assumes "review_step\<^sup>*\<^sup>* review_empty db"
    and "claim_first (wk_claimed clk) agentId workerId db (candidateTasks None taskType db) = Inr (Some (d, run, task))"
    and "rt_claimId task = None"
  shows "\<exists>db'. processReviewTask ix persist driver clk agentId None taskType workerId db = Some (Inr (db',
      Review_failed ''source_backed_review_tasks_not_supported_by_worker'' (ku_runId run) (rt_taskId task) (rt_taskType task) workerId)) \<and>
    (\<exists>d' run' task'. claim_first (wk_claimed clk') agentId workerId db' (candidateTasks None taskType db') =
       Inr (Some (d', run', task')) \<and> rt_taskId task' = rt_taskId task \<and> rt_claimId task' = None)"
proof -
  let ?msg = "''source_backed_review_tasks_not_supported_by_worker''"
  note claim = claim_first_effect [OF assms(2)]
  obtain db' result where f: "fail_claimed (wk_recorded clk) ?msg run task workerId d = (db', result)" by fastforce
  then have r: "result = Review_failed ?msg (ku_runId run) (rt_taskId task) (rt_taskType task) workerId"
    by (auto simp: fail_claimed_def)
  have q: "same_queue db db'"
    by (rule same_queue_failed [OF review_reachable_inv [OF assms(1)] claim [THEN conjunct1] f])
  obtain d' run' task' where again: "claim_first (wk_claimed clk') agentId workerId db' (candidateTasks None taskType db') =
      Inr (Some (d', run', task'))" "ku_taskId run' = ku_taskId run"
    using claim_first_same [OF q same_queue_candidates [OF q] assms(2)] by blast
  note claim' = claim_first_effect [OF again(1), unfolded again(2)]
  have "rt_taskId task' = rt_taskId task \<and> rt_claimId task' = rt_claimId task"
    by (rule claimed_task [OF q claim [THEN conjunct1] claim' [THEN conjunct1] claim [THEN conjunct2] claim' [THEN conjunct2]])
  moreover have "processReviewTask ix persist driver clk agentId None taskType workerId db = Some (Inr (db', result))"
    by (simp add: processReviewTask_def assms(2) executeClaimed_def buildTaskInputs_def assms(3) f)
  ultimately show ?thesis using again(1) r assms(3) by auto
qed

text \<open>
  Opening the default tasks twice opens them once. Whatever the queue holds and whoever asks
  again, at whatever time, the second call inserts nothing, also where the first one stopped at an
  error half way.
\<close>

theorem default_tasks_idempotent:
  "fst (open_tasks now' claimId requestedBy' tys (fst (open_tasks now claimId requestedBy tys db))) =
   fst (open_tasks now claimId requestedBy tys db)"
  by (rule open_tasks_again [where rows = "[]" and now = now and r = requestedBy and db = db]) simp_all

section \<open>Witnesses\<close>

text \<open>One open task of a source in the queue.\<close>

definition source_task_input :: review_task_input where
  "source_task_input = (sample_task_input [])\<lparr>ti_claimId := None, ti_sourceId := Some ''5'',
     ti_sourceSubjectType := Some Subject_source_record, ti_taskType := Claim_extraction_check\<rparr>"

definition source_queue :: review_db where
  "source_queue = right_db (createReviewTask 100 source_task_input review_empty)"

definition no_reads :: indexer_reads where
  "no_reads = \<lparr>ix_operator = (\<lambda>_. None), ix_claim = (\<lambda>_. None), ix_artifacts = (\<lambda>_. []), ix_challenges = (\<lambda>_. []),
     ix_forecasts = (\<lambda>_. []), ix_replications = (\<lambda>_. []), ix_claims = []\<rparr>"

definition sample_ticks :: worker_clock where
  "sample_ticks = \<lparr>wk_claimed = 200, wk_read = 201, wk_recorded = 202\<rparr>"

definition source_task_row :: review_task_row where
  "source_task_row = (sample_task_row 1 ''claim_extraction_check'' RT_open 100 100 None)\<lparr>kt_claimId := None, kt_sourceId := Some ''5'',
     kt_subjectType := Subject_source_record, kt_subjectId := ''5'', kt_taskType := Claim_extraction_check\<rparr>"

lemma source_queue_created: "createReviewTask 100 source_task_input review_empty =
    Inr (review_empty\<lparr>rb_tasks := [source_task_row], rb_nextTask := 2\<rparr>, mapReviewTaskRow source_task_row)"
  by code_simp

lemma source_queue_eq: "source_queue = review_empty\<lparr>rb_tasks := [source_task_row], rb_nextTask := 2\<rparr>"
  by (simp add: source_queue_def source_queue_created right_db_def)

lemma source_queue_claimed:
  "\<exists>d run task. claim_first 200 (Some ''7'') ''w'' source_queue (candidateTasks None None source_queue) =
     Inr (Some (d, run, task)) \<and> rt_claimId task = None \<and> rt_taskId task = ''1'' \<and> rt_taskType task = Claim_extraction_check"
proof -
  have c: "candidateTasks None None source_queue = [mapReviewTaskRow source_task_row]"
    by (simp add: candidateTasks_def readReviewTasksPage_def queryPage_def page_of_def normalizePagination_def selectReviewTasks_def
        newest_first_def source_queue_eq taskMatches_def restricts_def source_task_row_def sample_task_row_def)
  have "show_int 1 = ''1''" "digits_value (show_int 1) = Some 1" by (code_simp+)
  then show ?thesis
    unfolding c by (simp add: Let_def claimReviewTaskById_def source_queue_eq normalizeConsensusPolicy_def json_field_def
        clamp_number_def sample_counts review_empty_def mapReviewTaskRow_def readReviewTask_def touch_task_def find_by_def source_task_row_def sample_task_row_def)
qed

lemma source_queue_reachable: "review_step\<^sup>*\<^sup>* review_empty source_queue"
proof -
  have "createReviewTask 100 source_task_input review_empty = Inr (source_queue, mapReviewTaskRow source_task_row)"
    by (simp add: source_queue_created source_queue_eq)
  then show ?thesis by (intro r_into_rtranclp review_step.create)
qed

theorem worker_retries_source_task_witness:
  "\<exists>db' run. processReviewTask no_reads (\<lambda>report. Inr ''key'') ''duplicate key'' sample_ticks (Some ''7'') None None ''w'' source_queue =
     Some (Inr (db', Review_failed ''source_backed_review_tasks_not_supported_by_worker'' run ''1'' Claim_extraction_check ''w''))"
proof -
  obtain d run task where c: "claim_first (wk_claimed sample_ticks) (Some ''7'') ''w'' source_queue (candidateTasks None None source_queue) =
      Inr (Some (d, run, task))" "rt_claimId task = None" "rt_taskId task = ''1''" "rt_taskType task = Claim_extraction_check"
    using source_queue_claimed by (auto simp: sample_ticks_def)
  from worker_retries_source_task [OF source_queue_reachable c(1,2), of no_reads "\<lambda>report. Inr ''key''" "''duplicate key''" sample_ticks] c(3,4)
  show ?thesis by auto
qed


end
