(* ===== verification/Outcomes.thy ===== *)
theory Outcomes
  imports Prelude
begin

text \<open>
  Fallible code: a value of type \<open>'e + 'a\<close> is a thrown error or a result. \<open>and_then\<close> sequences two
  steps, \<open>in_turn\<close> is a loop of awaited steps on a state that the first thrown error leaves, and
  \<open>traverse\<close> collects the results of fallible reads. A transaction commits an \<open>Inr\<close> and rolls back
  on an \<open>Inl\<close>, so that the caller goes on with the old state.
\<close>

definition and_then :: "'e + 'a \<Rightarrow> ('a \<Rightarrow> 'e + 'b) \<Rightarrow> 'e + 'b" where
  "and_then m f = (case m of Inl e \<Rightarrow> Inl e | Inr x \<Rightarrow> f x)"

fun in_turn :: "('x \<Rightarrow> 's \<Rightarrow> 'e + 's) \<Rightarrow> 'x list \<Rightarrow> 's \<Rightarrow> 'e + 's" where
  "in_turn step [] s = Inr s"
| "in_turn step (x # xs) s = and_then (step x s) (in_turn step xs)"

fun traverse :: "('x \<Rightarrow> 'e + 'y) \<Rightarrow> 'x list \<Rightarrow> 'e + 'y list" where
  "traverse f [] = Inr []"
| "traverse f (x # xs) = and_then (f x) (\<lambda>y. and_then (traverse f xs) (\<lambda>ys. Inr (y # ys)))"

definition committed :: "'s \<Rightarrow> 'e + 's \<Rightarrow> 's" where
  "committed s m = (case m of Inl e \<Rightarrow> s | Inr s' \<Rightarrow> s')"

lemma and_then_simps [simp]: "and_then (Inl e) f = Inl e" "and_then (Inr x) f = f x"
  by (simp_all add: and_then_def)

lemma and_then_Inr: "and_then m f = Inr y \<longleftrightarrow> (\<exists>x. m = Inr x \<and> f x = Inr y)"
  by (cases m) auto

lemma and_then_assoc [simp]: "and_then (and_then m f) g = and_then m (\<lambda>x. and_then (f x) g)"
  by (cases m) auto

lemma and_then_return [simp]: "and_then m Inr = m"
  by (cases m) auto

lemma committed_simps [simp]: "committed s (Inl e) = s" "committed s (Inr s') = s'"
  by (simp_all add: committed_def)

lemma returns: "\<not> isl m \<Longrightarrow> \<exists>x. m = Inr x"
  by (cases m) simp_all

lemma in_turn_append [simp]: "in_turn step (xs @ ys) s = and_then (in_turn step xs s) (in_turn step ys)"
  by (induction xs arbitrary: s) (simp_all add: and_then_def split: sum.split)

lemma in_turn_map [simp]: "in_turn step (map h xs) s = in_turn (\<lambda>x. step (h x)) xs s"
  by (induction xs arbitrary: s) (auto simp: and_then_def split: sum.split)

lemma traverse_total: "(\<And>x. x \<in> set xs \<Longrightarrow> f x = Inr (g x)) \<Longrightarrow> traverse f xs = Inr (map g xs)"
  by (induction xs) auto

lemma traverse_Inr:
  "traverse f xs = Inr ys \<longleftrightarrow> length ys = length xs \<and> (\<forall>i < length xs. f (xs ! i) = Inr (ys ! i))"
proof (induction xs arbitrary: ys)
  case (Cons x xs)
  show ?case
  proof (cases ys)
    case (Cons y ys')
    then show ?thesis using Cons.IH [of ys'] by (auto simp: and_then_Inr All_less_Suc2)
  qed (auto simp: and_then_Inr)
qed auto

text \<open>
  A step that checks and then changes. What a passed step leaves, \<open>kept\<close>, later steps do not break,
  and it lets the step pass again: so a loop that succeeded is the fold of its changes, and succeeds
  wherever all its steps are kept.
\<close>

locale checked_step =
  fixes step :: "'x \<Rightarrow> 's \<Rightarrow> 'e + 's"
    and ok :: "'x \<Rightarrow> 's \<Rightarrow> bool"
    and kept :: "'x \<Rightarrow> 's \<Rightarrow> bool"
    and change :: "'x \<Rightarrow> 's \<Rightarrow> 's"
  assumes passes: "ok x s \<Longrightarrow> step x s = Inr (change x s)"
    and fails: "\<not> ok x s \<Longrightarrow> \<exists>e. step x s = Inl e"
    and leaves: "ok x s \<Longrightarrow> kept x (change x s)"
    and steady: "kept x s \<Longrightarrow> kept x (change y s)"
    and kept_ok: "kept x s \<Longrightarrow> ok x s"
begin

lemma step_Inr: "step x s = Inr s' \<longleftrightarrow> ok x s \<and> s' = change x s"
  using passes [of x s] fails [of x s] by (cases "ok x s") auto

lemma kept_fold: "kept x s \<Longrightarrow> kept x (fold change ys s)"
  by (induction ys arbitrary: s) (auto intro: steady)

lemma succeeded: "in_turn step xs s = Inr s' \<Longrightarrow> s' = fold change xs s \<and> (\<forall>x \<in> set xs. kept x s')"
proof (induction xs arbitrary: s)
  case (Cons y ys)
  then have y: "ok y s" and ys: "in_turn step ys (change y s) = Inr s'"
    by (auto simp: and_then_Inr step_Inr)
  from Cons.IH [OF ys] show ?case using kept_fold [OF leaves [OF y], of ys] by auto
qed simp

lemma succeeds: "\<forall>x \<in> set xs. kept x s \<Longrightarrow> in_turn step xs s = Inr (fold change xs s)"
  by (induction xs arbitrary: s) (auto simp: passes kept_ok intro: steady)

end

text \<open>The checks of a loop that its changes do not touch can all be made at the start.\<close>

locale steady_step =
  fixes step :: "'x \<Rightarrow> 's \<Rightarrow> 'e + 's"
    and ok :: "'x \<Rightarrow> 's \<Rightarrow> bool"
    and change :: "'x \<Rightarrow> 's \<Rightarrow> 's"
  assumes passes: "ok x s \<Longrightarrow> step x s = Inr (change x s)"
    and fails: "\<not> ok x s \<Longrightarrow> \<exists>e. step x s = Inl e"
    and untouched: "ok x (change y s) = ok x s"

sublocale steady_step \<subseteq> checked: checked_step step ok ok change
  by unfold_locales (simp_all add: passes fails untouched)

context steady_step
begin

lemma ok_fold: "ok x (fold change ys s) = ok x s"
  by (induction ys arbitrary: s) (simp_all add: untouched)

lemma loop: "in_turn step xs s = Inr s' \<longleftrightarrow> (\<forall>x \<in> set xs. ok x s) \<and> s' = fold change xs s"
proof
  assume "in_turn step xs s = Inr s'"
  from checked.succeeded [OF this] show "(\<forall>x \<in> set xs. ok x s) \<and> s' = fold change xs s" by (metis ok_fold)
next
  assume "(\<forall>x \<in> set xs. ok x s) \<and> s' = fold change xs s"
  then show "in_turn step xs s = Inr s'" using checked.succeeds [of xs s] by simp
qed

end

end
