(* ===== verification/Read_Model.thy ===== *)
theory Read_Model
  imports View_Types Tables Outcomes Js_Digits
begin

text \<open>
  The read model of \<open>indexer/store.ts\<close>: its tables, and the writes of the indexer to them, one
  definition per function, with the primary keys, foreign keys and unique indexes of the migrations
  001 to 004, 024, 027 and 030. The rows of a table are the views of \<open>shared/read-model.ts\<close>, in
  insertion order. A write that throws, by itself or by a constraint, has an \<open>Inl\<close>; what it threw away
  is the business of the transaction around it. The columns \<open>updated_at\<close> and \<open>recorded_at\<close> of the
  cursor tables, which nothing reads, are left out.
\<close>

record checkpoint_view =
  pv_checkpointId :: string
  pv_domainId :: int
  pv_subjectType :: int
  pv_subjectActor :: string
  pv_subjectClaimId :: string
  pv_subjectAgentId :: string
  pv_subjectModule :: string
  pv_scoreVectorHash :: string
  pv_payloadHash :: string
  pv_uri :: string

record agent_view =
  nv_agentId :: string
  nv_operator :: string
  nv_metadataHash :: string
  nv_uri :: string
  nv_budgetBalance :: int
  nv_reservedBudget :: int
  nv_spendLimit :: int
  nv_active :: bool

record agent_controller_view =
  ov_agentId :: string
  ov_controller :: string
  ov_authorized :: bool

record resolution_decision_view =
  dv_decisionId :: string
  dv_claimId :: string
  dv_replicationId :: string
  dv_resolutionModule :: string
  dv_status :: int
  dv_claimStatus :: int
  dv_confidenceBps :: int
  dv_resolutionHash :: string
  dv_evidenceHash :: string
  dv_resolverType :: int
  dv_createdAt :: int
  dv_actor :: string
  dv_effective :: bool

record appeal_view =
  lv_appealId :: string
  lv_claimId :: string
  lv_replicationId :: string
  lv_challengeId :: string
  lv_appellant :: string
  lv_reason :: int
  lv_filingHash :: string
  lv_uri :: string
  lv_status :: int
  lv_adjudicationHash :: "string option"
  lv_adjudicationURI :: "string option"
  lv_bondAmount :: int
  lv_createdAt :: int
  lv_adjudicatedAt :: "int option"
  lv_refundedAmount :: "int option"

record runtime_row =
  ir_status :: string
  ir_lastStartedAt :: "int option"
  ir_lastFinishedAt :: "int option"
  ir_lastSuccessAt :: "int option"
  ir_lastErrorAt :: "int option"
  ir_lastErrorMessage :: "string option"
  ir_updatedAt :: int

record read_db =
  rm_metadata :: "(string, string) jmap"
  rm_claims :: "claim_view list"
  rm_artifacts :: "artifact_view list"
  rm_replications :: "replication_view list"
  rm_checkpoints :: "checkpoint_view list"
  rm_agents :: "agent_view list"
  rm_controllers :: "agent_controller_view list"
  rm_forecasts :: "forecast_view list"
  rm_decisions :: "resolution_decision_view list"
  rm_challenges :: "challenge_view list"
  rm_appeals :: "appeal_view list"
  rm_cursors :: "(string, int) jmap"
  rm_blocks :: "(string \<times> int, string) jmap"
  rm_runtime :: "(string, runtime_row) jmap"

datatype read_error =
    Claim_absent string | Replication_absent string | Decision_absent string string
  | Forecast_absent string | Challenge_absent string | Withdrawn_challenge_absent string | Appeal_absent string
  | Foreign_key_violation string | Duplicate_replication string
  | Chain_id_mismatch int string | Deployment_block_mismatch int string

section \<open>Inserting and updating\<close>

definition has_key :: "('r \<Rightarrow> 'k) \<Rightarrow> 'k \<Rightarrow> 'r list \<Rightarrow> bool" where
  "has_key key k rows \<longleftrightarrow> list_ex (\<lambda>r. key r = k) rows"

text \<open>\<open>ON CONFLICT (key) DO NOTHING\<close> and \<open>ON CONFLICT (key) DO UPDATE SET \<dots>\<close>\<close>

definition insert_new :: "('r \<Rightarrow> 'k) \<Rightarrow> 'r \<Rightarrow> 'r list \<Rightarrow> 'r list" where
  "insert_new key r rows = (if has_key key (key r) rows then rows else rows @ [r])"

definition upsert_by :: "('r \<Rightarrow> 'k) \<Rightarrow> ('r \<Rightarrow> 'r \<Rightarrow> 'r) \<Rightarrow> 'r \<Rightarrow> 'r list \<Rightarrow> 'r list" where
  "upsert_by key merge r rows = (if has_key key (key r) rows
     then update_where (\<lambda>x. key x = key r) (\<lambda>x. merge x r) rows else rows @ [r])"

definition set_row :: "('r \<Rightarrow> 'k) \<Rightarrow> 'k \<Rightarrow> ('r \<Rightarrow> 'r) \<Rightarrow> 'r list \<Rightarrow> 'r list" where
  "set_row key k f = update_where (\<lambda>r. key r = k) f"

definition guarded :: "bool \<Rightarrow> 'e \<Rightarrow> 's \<Rightarrow> 'e + 's" where
  "guarded p e s = (if p then Inr s else Inl e)"

text \<open>A nullable foreign key: null references nothing.\<close>

definition references :: "('r \<Rightarrow> 'k) \<Rightarrow> 'k option \<Rightarrow> 'r list \<Rightarrow> bool" where
  "references key k rows = (case k of None \<Rightarrow> True | Some k' \<Rightarrow> has_key key k' rows)"

definition claim_known :: "string \<Rightarrow> read_db \<Rightarrow> bool" where
  "claim_known claimId db = has_key cv_claimId claimId (rm_claims db)"

section \<open>Claims and artifacts\<close>

definition upsertClaim :: "claim_view \<Rightarrow> read_db \<Rightarrow> read_db" where
  "upsertClaim claim db = db\<lparr>rm_claims := upsert_by cv_claimId (\<lambda>old new. new) claim (rm_claims db)\<rparr>"

definition updateClaimStatus :: "string \<Rightarrow> int \<Rightarrow> read_db \<Rightarrow> read_error + read_db" where
  "updateClaimStatus claimId status db = guarded (claim_known claimId db) (Claim_absent claimId)
     (db\<lparr>rm_claims := set_row cv_claimId claimId (\<lambda>c. c\<lparr>cv_status := status\<rparr>) (rm_claims db)\<rparr>)"

definition insertArtifact :: "artifact_view \<Rightarrow> read_db \<Rightarrow> read_error + read_db" where
  "insertArtifact artifact db = guarded
     (has_key av_artifactId (av_artifactId artifact) (rm_artifacts db) \<or> claim_known (av_claimId artifact) db)
     (Foreign_key_violation ''artifacts'')
     (db\<lparr>rm_artifacts := insert_new av_artifactId artifact (rm_artifacts db)\<rparr>)"

section \<open>Replications and resolution decisions\<close>

text \<open>The statement inserts null for the columns of the resolution and leaves them on a conflict.\<close>

definition submitted_only :: "replication_view \<Rightarrow> replication_view" where
  "submitted_only r = r\<lparr>rv_outcome := None, rv_resolutionStatus := None, rv_confidenceBps := None,
     rv_resolverType := None, rv_resolutionHash := None, rv_evidenceHash := None, rv_evidenceURI := None\<rparr>"

definition merge_submission :: "replication_view \<Rightarrow> replication_view \<Rightarrow> replication_view" where
  "merge_submission old new = old\<lparr>rv_claimId := rv_claimId new, rv_replicator := rv_replicator new,
     rv_agentId := rv_agentId new, rv_resultHash := rv_resultHash new\<rparr>"

definition upsertReplicationSubmission :: "replication_view \<Rightarrow> read_db \<Rightarrow> read_error + read_db" where
  "upsertReplicationSubmission replication db = guarded (claim_known (rv_claimId replication) db)
     (Foreign_key_violation ''replications'')
     (db\<lparr>rm_replications := upsert_by rv_replicationId merge_submission (submitted_only replication)
        (rm_replications db)\<rparr>)"

record replication_resolution =
  rz_outcome :: int
  rz_resolutionStatus :: int
  rz_confidenceBps :: int
  rz_resolverType :: int
  rz_resolutionHash :: string
  rz_evidenceHash :: string
  rz_evidenceURI :: string

definition resolve_row :: "replication_resolution \<Rightarrow> replication_view \<Rightarrow> replication_view" where
  "resolve_row z r = r\<lparr>rv_outcome := Some (rz_outcome z), rv_resolutionStatus := Some (rz_resolutionStatus z),
     rv_confidenceBps := Some (rz_confidenceBps z), rv_resolverType := Some (rz_resolverType z),
     rv_resolutionHash := Some (rz_resolutionHash z), rv_evidenceHash := Some (rz_evidenceHash z),
     rv_evidenceURI := Some (rz_evidenceURI z)\<rparr>"

definition applyReplicationResolution ::
  "string \<Rightarrow> replication_resolution \<Rightarrow> read_db \<Rightarrow> read_error + read_db" where
  "applyReplicationResolution replicationId z db =
     guarded (has_key rv_replicationId replicationId (rm_replications db)) (Replication_absent replicationId)
       (db\<lparr>rm_replications := set_row rv_replicationId replicationId (resolve_row z) (rm_replications db)\<rparr>)"

text \<open>
  The insert leaves \<open>effective\<close> at its default. A row with the same decision id is kept; otherwise the
  claim and the replication must exist, and no other decision may name the replication.
\<close>

definition insertResolutionDecision :: "resolution_decision_view \<Rightarrow> read_db \<Rightarrow> read_error + read_db" where
  "insertResolutionDecision decision db =
     (if has_key dv_decisionId (dv_decisionId decision) (rm_decisions db) then Inr db
      else if has_key dv_replicationId (dv_replicationId decision) (rm_decisions db)
      then Inl (Duplicate_replication (dv_replicationId decision))
      else guarded (claim_known (dv_claimId decision) db \<and>
          has_key rv_replicationId (dv_replicationId decision) (rm_replications db))
        (Foreign_key_violation ''resolution_decisions'')
        (db\<lparr>rm_decisions := rm_decisions db @ [decision\<lparr>dv_effective := False\<rparr>]\<rparr>))"

definition decision_of :: "string \<Rightarrow> string \<Rightarrow> resolution_decision_view list \<Rightarrow> bool" where
  "decision_of claimId decisionId rows \<longleftrightarrow>
     list_ex (\<lambda>d. dv_claimId d = claimId \<and> dv_decisionId d = decisionId) rows"

definition mark_effective ::
  "string \<Rightarrow> string \<Rightarrow> resolution_decision_view list \<Rightarrow> resolution_decision_view list" where
  "mark_effective claimId decisionId rows =
     update_where (\<lambda>d. dv_claimId d = claimId \<and> dv_decisionId d = decisionId) (\<lambda>d. d\<lparr>dv_effective := True\<rparr>)
       (update_where (\<lambda>d. dv_claimId d = claimId) (\<lambda>d. d\<lparr>dv_effective := False\<rparr>) rows)"

definition markEffectiveResolutionDecision :: "string \<Rightarrow> string \<Rightarrow> read_db \<Rightarrow> read_error + read_db" where
  "markEffectiveResolutionDecision claimId decisionId db =
     guarded (decision_of claimId decisionId (rm_decisions db)) (Decision_absent decisionId claimId)
       (db\<lparr>rm_decisions := mark_effective claimId decisionId (rm_decisions db)\<rparr>)"

section \<open>Checkpoints and agents\<close>

definition insertCheckpoint :: "checkpoint_view \<Rightarrow> read_db \<Rightarrow> read_db" where
  "insertCheckpoint checkpoint db =
     db\<lparr>rm_checkpoints := insert_new pv_checkpointId checkpoint (rm_checkpoints db)\<rparr>"

definition upsertAgent :: "agent_view \<Rightarrow> read_db \<Rightarrow> read_db" where
  "upsertAgent agent db = db\<lparr>rm_agents := upsert_by nv_agentId (\<lambda>old new. new) agent (rm_agents db)\<rparr>"

definition controller_key :: "agent_controller_view \<Rightarrow> string \<times> string" where
  "controller_key c = (ov_agentId c, ov_controller c)"

definition upsertAgentController :: "agent_controller_view \<Rightarrow> read_db \<Rightarrow> read_error + read_db" where
  "upsertAgentController c db = guarded (has_key nv_agentId (ov_agentId c) (rm_agents db))
     (Foreign_key_violation ''agent_controllers'')
     (db\<lparr>rm_controllers := upsert_by controller_key (\<lambda>old new. old\<lparr>ov_authorized := ov_authorized new\<rparr>) c
        (rm_controllers db)\<rparr>)"

section \<open>Forecasts\<close>

text \<open>What an earlier write recorded of the settlement wins over the snapshot.\<close>

definition merge_forecast :: "forecast_view \<Rightarrow> forecast_view \<Rightarrow> forecast_view" where
  "merge_forecast old new = new\<lparr>
     fv_effectiveDecisionIdAtCommit := orelse (fv_effectiveDecisionIdAtCommit old) (fv_effectiveDecisionIdAtCommit new),
     fv_resolutionDecisionId := orelse (fv_resolutionDecisionId old) (fv_resolutionDecisionId new),
     fv_finalStatus := orelse (fv_finalStatus old) (fv_finalStatus new),
     fv_matched := orelse (fv_matched old) (fv_matched new),
     fv_payoutAmount := orelse (fv_payoutAmount old) (fv_payoutAmount new)\<rparr>"

definition forecast_keys_known :: "forecast_view \<Rightarrow> read_db \<Rightarrow> bool" where
  "forecast_keys_known f db \<longleftrightarrow> claim_known (fv_claimId f) db \<and>
     references dv_decisionId (fv_effectiveDecisionIdAtCommit f) (rm_decisions db) \<and>
     references dv_decisionId (fv_resolutionDecisionId f) (rm_decisions db)"

text \<open>The foreign keys are checked on the row the statement leaves.\<close>

definition written_forecast :: "forecast_view \<Rightarrow> read_db \<Rightarrow> forecast_view" where
  "written_forecast forecast db = (case find_by fv_forecastId (fv_forecastId forecast) (rm_forecasts db) of
     None \<Rightarrow> forecast | Some old \<Rightarrow> merge_forecast old forecast)"

definition upsertForecast :: "forecast_view \<Rightarrow> read_db \<Rightarrow> read_error + read_db" where
  "upsertForecast forecast db =
     guarded (forecast_keys_known (written_forecast forecast db) db) (Foreign_key_violation ''forecasts'')
       (db\<lparr>rm_forecasts := upsert_by fv_forecastId merge_forecast forecast (rm_forecasts db)\<rparr>)"

record forecast_settlement =
  fz_resolutionDecisionId :: "string option"
  fz_finalStatus :: int
  fz_matched :: bool
  fz_payoutAmount :: int

text \<open>\<open>NULLIF($2, '0')\<close>\<close>

definition null_if_zero :: "string option \<Rightarrow> string option" where
  "null_if_zero x = (if x = Some ''0'' then None else x)"

definition settle_row :: "forecast_settlement \<Rightarrow> forecast_view \<Rightarrow> forecast_view" where
  "settle_row z f = f\<lparr>fv_resolutionDecisionId := null_if_zero (fz_resolutionDecisionId z),
     fv_finalStatus := Some (fz_finalStatus z), fv_matched := Some (fz_matched z),
     fv_payoutAmount := Some (fz_payoutAmount z), fv_settled := True\<rparr>"

definition applyForecastSettlement ::
  "string \<Rightarrow> forecast_settlement \<Rightarrow> read_db \<Rightarrow> read_error + read_db" where
  "applyForecastSettlement forecastId z db =
     (if \<not> has_key fv_forecastId forecastId (rm_forecasts db) then Inl (Forecast_absent forecastId)
      else guarded (references dv_decisionId (null_if_zero (fz_resolutionDecisionId z)) (rm_decisions db))
        (Foreign_key_violation ''forecasts'')
        (db\<lparr>rm_forecasts := set_row fv_forecastId forecastId (settle_row z) (rm_forecasts db)\<rparr>))"

section \<open>Challenges and appeals\<close>

definition merge_challenge :: "challenge_view \<Rightarrow> challenge_view \<Rightarrow> challenge_view" where
  "merge_challenge old new = new\<lparr>hv_payoutAmount := orelse (hv_payoutAmount old) (hv_payoutAmount new),
     hv_refundedAmount := orelse (hv_refundedAmount old) (hv_refundedAmount new)\<rparr>"

definition upsertChallenge :: "challenge_view \<Rightarrow> read_db \<Rightarrow> read_error + read_db" where
  "upsertChallenge challenge db = guarded (claim_known (hv_claimId challenge) db)
     (Foreign_key_violation ''challenges'')
     (db\<lparr>rm_challenges := upsert_by hv_challengeId merge_challenge challenge (rm_challenges db)\<rparr>)"

record challenge_resolution =
  hz_status :: int
  hz_resolutionHash :: string
  hz_payoutAmount :: int

definition resolve_challenge_row :: "challenge_resolution \<Rightarrow> challenge_view \<Rightarrow> challenge_view" where
  "resolve_challenge_row z c = c\<lparr>hv_status := hz_status z, hv_resolutionHash := Some (hz_resolutionHash z),
     hv_payoutAmount := Some (hz_payoutAmount z)\<rparr>"

definition applyChallengeResolution ::
  "string \<Rightarrow> challenge_resolution \<Rightarrow> read_db \<Rightarrow> read_error + read_db" where
  "applyChallengeResolution challengeId z db =
     guarded (has_key hv_challengeId challengeId (rm_challenges db)) (Challenge_absent challengeId)
       (db\<lparr>rm_challenges := set_row hv_challengeId challengeId (resolve_challenge_row z) (rm_challenges db)\<rparr>)"

definition applyChallengeWithdrawal :: "string \<Rightarrow> int \<Rightarrow> read_db \<Rightarrow> read_error + read_db" where
  "applyChallengeWithdrawal challengeId refundedAmount db =
     guarded (has_key hv_challengeId challengeId (rm_challenges db)) (Withdrawn_challenge_absent challengeId)
       (db\<lparr>rm_challenges := set_row hv_challengeId challengeId
          (\<lambda>c. c\<lparr>hv_refundedAmount := Some refundedAmount\<rparr>) (rm_challenges db)\<rparr>)"

definition merge_appeal :: "appeal_view \<Rightarrow> appeal_view \<Rightarrow> appeal_view" where
  "merge_appeal old new = new\<lparr>lv_refundedAmount := orelse (lv_refundedAmount old) (lv_refundedAmount new)\<rparr>"

definition upsertAppeal :: "appeal_view \<Rightarrow> read_db \<Rightarrow> read_error + read_db" where
  "upsertAppeal appeal db = guarded (claim_known (lv_claimId appeal) db) (Foreign_key_violation ''appeals'')
     (db\<lparr>rm_appeals := upsert_by lv_appealId merge_appeal appeal (rm_appeals db)\<rparr>)"

record appeal_adjudication =
  lz_status :: int
  lz_adjudicationHash :: string
  lz_adjudicationURI :: string
  lz_refundedAmount :: int

definition adjudicate_row :: "appeal_adjudication \<Rightarrow> appeal_view \<Rightarrow> appeal_view" where
  "adjudicate_row z a = a\<lparr>lv_status := lz_status z, lv_adjudicationHash := Some (lz_adjudicationHash z),
     lv_adjudicationURI := Some (lz_adjudicationURI z), lv_refundedAmount := Some (lz_refundedAmount z)\<rparr>"

definition applyAppealAdjudication ::
  "string \<Rightarrow> appeal_adjudication \<Rightarrow> read_db \<Rightarrow> read_error + read_db" where
  "applyAppealAdjudication appealId z db =
     guarded (has_key lv_appealId appealId (rm_appeals db)) (Appeal_absent appealId)
       (db\<lparr>rm_appeals := set_row lv_appealId appealId (adjudicate_row z) (rm_appeals db)\<rparr>)"

section \<open>Metadata, cursor and runtime status\<close>

definition setMetadataValues :: "(string \<times> string) list \<Rightarrow> read_db \<Rightarrow> read_db" where
  "setMetadataValues values db =
     db\<lparr>rm_metadata := fold (\<lambda>(key, value). jm_set key value) values (rm_metadata db)\<rparr>"

record read_metadata =
  ma_chainId :: int
  ma_indexedAt :: string
  ma_deploymentBlock :: int
  ma_latestBlock :: int

definition updateReadModelMetadata :: "read_metadata \<Rightarrow> read_db \<Rightarrow> read_db" where
  "updateReadModelMetadata m = setMetadataValues
     [(''chainId'', show_int (ma_chainId m)), (''indexedAt'', ma_indexedAt m),
      (''deploymentBlock'', show_int (ma_deploymentBlock m)), (''latestBlock'', show_int (ma_latestBlock m))]"

definition cursor_name :: string where
  "cursor_name = ''read_model''"

definition readSyncCursor :: "read_db \<Rightarrow> int option" where
  "readSyncCursor db = jm_get (rm_cursors db) cursor_name"

definition writeSyncCursor :: "int \<Rightarrow> string option \<Rightarrow> read_db \<Rightarrow> read_db" where
  "writeSyncCursor lastProcessedBlock blockHash db =
     (let db' = db\<lparr>rm_cursors := jm_set cursor_name lastProcessedBlock (rm_cursors db)\<rparr>
      in if truthy blockHash
         then db'\<lparr>rm_blocks := jm_set (cursor_name, lastProcessedBlock) (js_lower (nullish blockHash [])) (rm_blocks db')\<rparr>
         else db')"

definition readIndexerBlockCheckpoint :: "int \<Rightarrow> read_db \<Rightarrow> string option" where
  "readIndexerBlockCheckpoint blockNumber db = jm_get (rm_blocks db) (cursor_name, blockNumber)"

text \<open>\<open>ON CONFLICT (name, block_number) DO NOTHING\<close>\<close>

definition recordIndexerBlockCheckpoint :: "int \<Rightarrow> string \<Rightarrow> read_db \<Rightarrow> read_db" where
  "recordIndexerBlockCheckpoint blockNumber blockHash db =
     (case readIndexerBlockCheckpoint blockNumber db of
        Some _ \<Rightarrow> db
      | None \<Rightarrow> db\<lparr>rm_blocks := jm_set (cursor_name, blockNumber) (js_lower blockHash) (rm_blocks db)\<rparr>)"

definition idle_runtime :: "int \<Rightarrow> runtime_row" where
  "idle_runtime now = \<lparr>ir_status = ''idle'', ir_lastStartedAt = None, ir_lastFinishedAt = None,
     ir_lastSuccessAt = None, ir_lastErrorAt = None, ir_lastErrorMessage = None, ir_updatedAt = now\<rparr>"

text \<open>The row a status statement updates, or the one it inserts: its own columns are set after.\<close>

definition runtime_or_new :: "int \<Rightarrow> read_db \<Rightarrow> runtime_row" where
  "runtime_or_new now db = nullish (jm_get (rm_runtime db) cursor_name) (idle_runtime now)"

definition put_runtime :: "runtime_row \<Rightarrow> read_db \<Rightarrow> read_db" where
  "put_runtime row db = db\<lparr>rm_runtime := jm_set cursor_name row (rm_runtime db)\<rparr>"

definition markSyncStarted :: "int \<Rightarrow> read_db \<Rightarrow> read_db" where
  "markSyncStarted now db = put_runtime ((runtime_or_new now db)\<lparr>ir_status := ''syncing'',
     ir_lastStartedAt := Some now, ir_lastErrorMessage := None, ir_updatedAt := now\<rparr>) db"

definition markSyncSucceeded :: "int \<Rightarrow> read_db \<Rightarrow> read_db" where
  "markSyncSucceeded now db = put_runtime ((runtime_or_new now db)\<lparr>ir_status := ''idle'',
     ir_lastFinishedAt := Some now, ir_lastSuccessAt := Some now, ir_lastErrorMessage := None,
     ir_updatedAt := now\<rparr>) db"

definition markSyncFailed :: "int \<Rightarrow> string \<Rightarrow> read_db \<Rightarrow> read_db" where
  "markSyncFailed now errorMessage db = put_runtime ((runtime_or_new now db)\<lparr>ir_status := ''failed'',
     ir_lastFinishedAt := Some now, ir_lastErrorAt := Some now,
     ir_lastErrorMessage := Some (take 2000 errorMessage), ir_updatedAt := now\<rparr>) db"

text \<open>
  \<open>Number(x)\<close> of a decimal literal with an optional sign, which is all the metadata columns hold.
\<close>

definition number_of_text :: "string \<Rightarrow> int" where
  "number_of_text s = (case s of CHR ''-'' # t \<Rightarrow> - nullish (digits_value t) 0 | _ \<Rightarrow> nullish (digits_value s) 0)"

definition readMetadata :: "read_db \<Rightarrow> read_metadata" where
  "readMetadata db = (let m = jm_get (rm_metadata db) in
     \<lparr>ma_chainId = number_of_text (nullish (m ''chainId'') ''0''), ma_indexedAt = nullish (m ''indexedAt'') '''',
      ma_deploymentBlock = number_of_text (nullish (m ''deploymentBlock'') ''0''),
      ma_latestBlock = number_of_text (nullish (m ''latestBlock'') ''0'')\<rparr>)"

text \<open>The first statements of a synchronisation: a read model of another deployment is refused.\<close>

definition other_number :: "string option \<Rightarrow> int \<Rightarrow> bool" where
  "other_number stored expected \<longleftrightarrow>
     (case stored of None \<Rightarrow> False | Some s \<Rightarrow> number_of_text s \<noteq> expected)"

definition ensureReadModelBaseState :: "int \<Rightarrow> int \<Rightarrow> int \<Rightarrow> read_db \<Rightarrow> read_error + read_db" where
  "ensureReadModelBaseState now chainId deploymentBlock db =
     (let m = jm_get (rm_metadata db);
          db1 = setMetadataValues [(''chainId'', show_int chainId), (''deploymentBlock'', show_int deploymentBlock)] db;
          db2 = (case readSyncCursor db1 of Some _ \<Rightarrow> db1
                 | None \<Rightarrow> db1\<lparr>rm_cursors := jm_set cursor_name (max 0 (deploymentBlock - 1)) (rm_cursors db1)\<rparr>);
          db3 = (case jm_get (rm_runtime db2) cursor_name of Some _ \<Rightarrow> db2
                 | None \<Rightarrow> put_runtime (idle_runtime now) db2)
      in if other_number (m ''chainId'') chainId then Inl (Chain_id_mismatch chainId (nullish (m ''chainId'') []))
         else if other_number (m ''deploymentBlock'') deploymentBlock
         then Inl (Deployment_block_mismatch deploymentBlock (nullish (m ''deploymentBlock'') []))
         else Inr db3)"

text \<open>The tables the migrations make.\<close>

definition empty_read_db :: read_db where
  "empty_read_db = \<lparr>rm_metadata = [], rm_claims = [], rm_artifacts = [], rm_replications = [], rm_checkpoints = [],
     rm_agents = [], rm_controllers = [], rm_forecasts = [], rm_decisions = [], rm_challenges = [], rm_appeals = [],
     rm_cursors = [], rm_blocks = [], rm_runtime = []\<rparr>"

end
