(* ===== verification/Projector.thy ===== *)
theory Projector
  imports Read_Model
begin

text \<open>
  The projector of \<open>indexer/projector.ts\<close>, one chunk of blocks at a time: the contract events with the
  arguments the code reads, the queries that fetch them with their retries, the records it reads back
  from the contracts, and \<open>applyChunk\<close>. The contracts are arguments: a query or a read is a function
  that returns its answer or what it threw; a query is asked again after a rate limit, so it takes
  the number of the attempt. \<open>bigint\<close>s are \<open>int\<close>; \<open>toString()\<close> of one is \<open>show_int\<close>.
\<close>

section \<open>Rate limits and retries\<close>

datatype error_code = Code_number int | Code_text string

text \<open>What a call of the provider throws: the fields \<open>isRateLimitError\<close> looks at.\<close>

record thrown =
  th_isError :: bool
  th_message :: string
  th_shortMessage :: "string option"
  th_errorMessage :: "string option"
  th_infoMessage :: "string option"
  th_code :: "error_code option"
  th_errorCode :: "error_code option"
  th_infoCode :: "error_code option"

fun js_includes :: "string \<Rightarrow> string \<Rightarrow> bool" where
  "js_includes p [] \<longleftrightarrow> p = []"
| "js_includes p (c # s) \<longleftrightarrow> js_starts_with p (c # s) \<or> js_includes p s"

definition isRateLimitError :: "thrown \<Rightarrow> bool" where
  "isRateLimitError e =
     (let messages = js_lower (js_join '' '' (List.map_filter (\<lambda>m. m)
            [Some (th_message e), th_shortMessage e, th_errorMessage e, th_infoMessage e]));
          codes = [th_code e, th_errorCode e, th_infoCode e]
      in th_isError e \<and> (Some (Code_number 429) \<in> set codes \<or> Some (Code_text ''429'') \<in> set codes \<or>
           js_includes ''compute units per second'' messages \<or> js_includes ''throughput'' messages \<or>
           js_includes ''rate limit'' messages \<or> js_includes ''too many requests'' messages))"

text \<open>
  The loop of \<open>queryFilterWithRetry\<close> with the delays it waited. \<open>attempt\<close> starts at 0; the limit is at
  least 0, so the loop makes at most one attempt more than the limit.
\<close>

function query_attempts ::
  "int \<Rightarrow> int \<Rightarrow> (nat \<Rightarrow> thrown + 'a) \<Rightarrow> nat \<Rightarrow> int list \<times> (thrown + 'a)" where
  "query_attempts maxRetries baseDelayMs query attempt =
     (case query attempt of
        Inr x \<Rightarrow> ([], Inr x)
      | Inl e \<Rightarrow>
          if \<not> isRateLimitError e \<or> int attempt \<ge> maxRetries then ([], Inl e)
          else (case query_attempts maxRetries baseDelayMs query (attempt + 1) of
                  (waits, result) \<Rightarrow> (baseDelayMs * (int attempt + 1) # waits, result)))"
  by pat_completeness auto

termination query_attempts
  by (relation "measure (\<lambda>(maxRetries, _, _, attempt). nat (maxRetries - int attempt))") auto

declare query_attempts.simps [simp del]

record retry_config =
  rc_retries :: int
  rc_delayMs :: int

definition queryFilterWithRetry :: "retry_config \<Rightarrow> (nat \<Rightarrow> thrown + 'a) \<Rightarrow> thrown + 'a" where
  "queryFilterWithRetry cfg query = snd (query_attempts (rc_retries cfg) (rc_delayMs cfg) query 0)"

section \<open>Events\<close>

record claim_created_event =
  cc_claimId :: int
  cc_author :: string
  cc_domainId :: int
  cc_metadataHash :: string
  cc_resolutionModule :: string
  cc_blockNumber :: int

record resolution_decision_event =
  de_decisionId :: int
  de_claimId :: int
  de_replicationId :: int
  de_resolutionModule :: string
  de_status :: int
  de_claimStatus :: int
  de_confidenceBps :: int
  de_resolutionHash :: string
  de_evidenceHash :: string
  de_resolverType :: int
  de_actor :: string

record artifact_event =
  ae_artifactId :: int
  ae_claimId :: int
  ae_artifactType :: int
  ae_contentDigest :: string
  ae_uri :: string
  ae_submitter :: string

record replication_submitted_event =
  re_replicationId :: int
  re_claimId :: int
  re_replicator :: string
  re_agentId :: int
  re_resultHash :: string

record replication_resolved_event =
  rze_replicationId :: int
  rze_outcome :: int
  rze_status :: int
  rze_confidenceBps :: int
  rze_resolverType :: int
  rze_resolutionHash :: string
  rze_evidenceHash :: string
  rze_evidenceURI :: string

record agent_controller_event =
  oe_agentId :: int
  oe_controller :: string
  oe_authorized :: bool

record checkpoint_event =
  pe_checkpointId :: int
  pe_domainId :: int
  pe_subjectType :: int
  pe_subjectActor :: string
  pe_subjectClaimId :: int
  pe_subjectAgentId :: int
  pe_subjectModule :: string
  pe_scoreVectorHash :: string
  pe_payloadHash :: string
  pe_uri :: string

record forecast_settled_event =
  fe_forecastId :: int
  fe_resolutionDecisionId :: int
  fe_finalStatus :: int
  fe_matched :: bool
  fe_payoutAmount :: int

record challenge_resolved_event =
  he_challengeId :: int
  he_status :: int
  he_resolutionHash :: string
  he_payoutAmount :: int

record appeal_adjudicated_event =
  le_appealId :: int
  le_status :: int
  le_adjudicationHash :: string
  le_adjudicationURI :: string
  le_refundedAmount :: int

text \<open>Events of which only the id is read are that id; \<open>(claimId, newStatus)\<close>, \<open>(claimId, decisionId)\<close>
  and \<open>(challengeId, refundedAmount)\<close> are pairs.\<close>

record chunk_events =
  ce_claimCreated :: "claim_created_event list"
  ce_claimStatus :: "(int \<times> int) list"
  ce_resolutionDecision :: "resolution_decision_event list"
  ce_effectiveDecision :: "(int \<times> int) list"
  ce_artifact :: "artifact_event list"
  ce_replicationSubmitted :: "replication_submitted_event list"
  ce_replicationResolved :: "replication_resolved_event list"
  ce_agentRegistered :: "int list"
  ce_agentController :: "agent_controller_event list"
  ce_agentBudgetDeposited :: "int list"
  ce_agentBudgetReserved :: "int list"
  ce_agentBudgetReleased :: "int list"
  ce_agentBudgetConsumed :: "int list"
  ce_agentBudgetWithdrawn :: "int list"
  ce_agentSpendLimit :: "int list"
  ce_agentStatus :: "int list"
  ce_checkpoint :: "checkpoint_event list"
  ce_forecastCommitted :: "int list"
  ce_forecastRevealed :: "int list"
  ce_forecastSettled :: "forecast_settled_event list"
  ce_challengeOpened :: "int list"
  ce_challengeResolved :: "challenge_resolved_event list"
  ce_challengeWithdrawn :: "(int \<times> int) list"
  ce_appealFiled :: "int list"
  ce_appealAdjudicated :: "appeal_adjudicated_event list"

section \<open>The contracts\<close>

record claim_record =
  xc_status :: int
  xc_revisionOfClaimId :: int

record agent_record =
  xn_operator :: string
  xn_metadataHash :: string
  xn_uri :: string
  xn_budgetBalance :: int
  xn_reservedBudget :: int
  xn_spendLimit :: int
  xn_active :: bool

record forecast_record =
  xf_claimId :: int
  xf_forecaster :: string
  xf_agentId :: int
  xf_commitmentHash :: string
  xf_stakeAmount :: int
  xf_committedAt :: int
  xf_revealDeadline :: int
  xf_revealed :: bool
  xf_settled :: bool
  xf_direction :: int
  xf_confidenceBps :: int
  xf_effectiveDecisionIdAtCommit :: int
  xf_resolutionDecisionId :: int

record challenge_record =
  xh_claimId :: int
  xh_replicationId :: int
  xh_challenger :: string
  xh_agentId :: int
  xh_evidenceHash :: string
  xh_evidenceURI :: string
  xh_bondAmount :: int
  xh_status :: int
  xh_resolutionHash :: string
  xh_createdAt :: int
  xh_resolvedAt :: int

record appeal_record =
  xl_claimId :: int
  xl_replicationId :: int
  xl_challengeId :: int
  xl_appellant :: string
  xl_reason :: int
  xl_filingHash :: string
  xl_uri :: string
  xl_status :: int
  xl_adjudicationHash :: string
  xl_adjudicationURI :: string
  xl_bondAmount :: int
  xl_createdAt :: int
  xl_adjudicatedAt :: int

text \<open>The view functions of the contracts the projector calls while it applies a chunk.\<close>

record contract_reads =
  xr_getClaim :: "int \<Rightarrow> thrown + claim_record"
  xr_getResolutionDecisionCreatedAt :: "int \<Rightarrow> thrown + int"
  xr_getAgent :: "int \<Rightarrow> thrown + agent_record"
  xr_getForecast :: "int \<Rightarrow> thrown + forecast_record"
  xr_getChallenge :: "int \<Rightarrow> thrown + challenge_record"
  xr_getAppeal :: "int \<Rightarrow> thrown + appeal_record"

text \<open>\<open>queryFilter(filter, fromBlock, toBlock)\<close> for each event, by block range and attempt.\<close>

type_synonym 'e event_query = "int \<Rightarrow> int \<Rightarrow> nat \<Rightarrow> thrown + 'e list"

record event_queries =
  eq_claimCreated :: "claim_created_event event_query"
  eq_claimStatus :: "(int \<times> int) event_query"
  eq_resolutionDecision :: "resolution_decision_event event_query"
  eq_effectiveDecision :: "(int \<times> int) event_query"
  eq_artifact :: "artifact_event event_query"
  eq_replicationSubmitted :: "replication_submitted_event event_query"
  eq_replicationResolved :: "replication_resolved_event event_query"
  eq_agentRegistered :: "int event_query"
  eq_agentController :: "agent_controller_event event_query"
  eq_agentBudgetDeposited :: "int event_query"
  eq_agentBudgetReserved :: "int event_query"
  eq_agentBudgetReleased :: "int event_query"
  eq_agentBudgetConsumed :: "int event_query"
  eq_agentBudgetWithdrawn :: "int event_query"
  eq_agentSpendLimit :: "int event_query"
  eq_agentStatus :: "int event_query"
  eq_checkpoint :: "checkpoint_event event_query"
  eq_forecastCommitted :: "int event_query"
  eq_forecastRevealed :: "int event_query"
  eq_forecastSettled :: "forecast_settled_event event_query"
  eq_challengeOpened :: "int event_query"
  eq_challengeResolved :: "challenge_resolved_event event_query"
  eq_challengeWithdrawn :: "(int \<times> int) event_query"
  eq_appealFiled :: "int event_query"
  eq_appealAdjudicated :: "appeal_adjudicated_event event_query"

text \<open>The queries run one after the other, in this order.\<close>

definition fetchChunkEvents :: "retry_config \<Rightarrow> event_queries \<Rightarrow> int \<Rightarrow> int \<Rightarrow> thrown + chunk_events" where
  "fetchChunkEvents cfg q fromBlock toBlock =
     and_then (queryFilterWithRetry cfg (eq_claimCreated q fromBlock toBlock)) (\<lambda>claimCreated.
     and_then (queryFilterWithRetry cfg (eq_claimStatus q fromBlock toBlock)) (\<lambda>claimStatus.
     and_then (queryFilterWithRetry cfg (eq_resolutionDecision q fromBlock toBlock)) (\<lambda>resolutionDecision.
     and_then (queryFilterWithRetry cfg (eq_effectiveDecision q fromBlock toBlock)) (\<lambda>effectiveDecision.
     and_then (queryFilterWithRetry cfg (eq_artifact q fromBlock toBlock)) (\<lambda>artifact.
     and_then (queryFilterWithRetry cfg (eq_replicationSubmitted q fromBlock toBlock)) (\<lambda>replicationSubmitted.
     and_then (queryFilterWithRetry cfg (eq_replicationResolved q fromBlock toBlock)) (\<lambda>replicationResolved.
     and_then (queryFilterWithRetry cfg (eq_agentRegistered q fromBlock toBlock)) (\<lambda>agentRegistered.
     and_then (queryFilterWithRetry cfg (eq_agentController q fromBlock toBlock)) (\<lambda>agentController.
     and_then (queryFilterWithRetry cfg (eq_agentBudgetDeposited q fromBlock toBlock)) (\<lambda>deposited.
     and_then (queryFilterWithRetry cfg (eq_agentBudgetReserved q fromBlock toBlock)) (\<lambda>reserved.
     and_then (queryFilterWithRetry cfg (eq_agentBudgetReleased q fromBlock toBlock)) (\<lambda>released.
     and_then (queryFilterWithRetry cfg (eq_agentBudgetConsumed q fromBlock toBlock)) (\<lambda>consumed.
     and_then (queryFilterWithRetry cfg (eq_agentBudgetWithdrawn q fromBlock toBlock)) (\<lambda>withdrawn.
     and_then (queryFilterWithRetry cfg (eq_agentSpendLimit q fromBlock toBlock)) (\<lambda>spendLimit.
     and_then (queryFilterWithRetry cfg (eq_agentStatus q fromBlock toBlock)) (\<lambda>agentStatus.
     and_then (queryFilterWithRetry cfg (eq_checkpoint q fromBlock toBlock)) (\<lambda>checkpoint.
     and_then (queryFilterWithRetry cfg (eq_forecastCommitted q fromBlock toBlock)) (\<lambda>forecastCommitted.
     and_then (queryFilterWithRetry cfg (eq_forecastRevealed q fromBlock toBlock)) (\<lambda>forecastRevealed.
     and_then (queryFilterWithRetry cfg (eq_forecastSettled q fromBlock toBlock)) (\<lambda>forecastSettled.
     and_then (queryFilterWithRetry cfg (eq_challengeOpened q fromBlock toBlock)) (\<lambda>challengeOpened.
     and_then (queryFilterWithRetry cfg (eq_challengeResolved q fromBlock toBlock)) (\<lambda>challengeResolved.
     and_then (queryFilterWithRetry cfg (eq_challengeWithdrawn q fromBlock toBlock)) (\<lambda>challengeWithdrawn.
     and_then (queryFilterWithRetry cfg (eq_appealFiled q fromBlock toBlock)) (\<lambda>appealFiled.
     and_then (queryFilterWithRetry cfg (eq_appealAdjudicated q fromBlock toBlock)) (\<lambda>appealAdjudicated.
     Inr \<lparr>ce_claimCreated = claimCreated, ce_claimStatus = claimStatus,
        ce_resolutionDecision = resolutionDecision, ce_effectiveDecision = effectiveDecision,
        ce_artifact = artifact, ce_replicationSubmitted = replicationSubmitted,
        ce_replicationResolved = replicationResolved, ce_agentRegistered = agentRegistered,
        ce_agentController = agentController, ce_agentBudgetDeposited = deposited,
        ce_agentBudgetReserved = reserved, ce_agentBudgetReleased = released,
        ce_agentBudgetConsumed = consumed, ce_agentBudgetWithdrawn = withdrawn,
        ce_agentSpendLimit = spendLimit, ce_agentStatus = agentStatus, ce_checkpoint = checkpoint,
        ce_forecastCommitted = forecastCommitted, ce_forecastRevealed = forecastRevealed,
        ce_forecastSettled = forecastSettled, ce_challengeOpened = challengeOpened,
        ce_challengeResolved = challengeResolved, ce_challengeWithdrawn = challengeWithdrawn,
        ce_appealFiled = appealFiled, ce_appealAdjudicated = appealAdjudicated\<rparr>
     )))))))))))))))))))))))))"

end
