(* ===== verification/Chunk.thy ===== *)
theory Chunk
  imports Projector
begin

text \<open>
  \<open>applyChunk\<close> of \<open>indexer/projector.ts\<close>: the views it builds from the events of a chunk and from the
  records it reads back, and the transaction that writes them with the cursor. The reads of one
  \<open>Promise.all\<close> are made in order here; when several throw, the first one's error is the result.
\<close>

datatype sync_error = Chain_threw thrown | Store_threw read_error | Block_unreadable int
  | Reorg_detected int string string | Sync_in_progress

definition reading :: "thrown + 'a \<Rightarrow> sync_error + 'a" where
  "reading m = (case m of Inl e \<Rightarrow> Inl (Chain_threw e) | Inr x \<Rightarrow> Inr x)"

definition storing :: "read_error + 'a \<Rightarrow> sync_error + 'a" where
  "storing m = (case m of Inl e \<Rightarrow> Inl (Store_threw e) | Inr x \<Rightarrow> Inr x)"

section \<open>Views\<close>

definition zero_hash :: string where
  "zero_hash = ''0x'' @ replicate 64 (CHR ''0'')"

text \<open>\<open>id === 0n ? null : id.toString()\<close>\<close>

definition nonzero_id :: "int \<Rightarrow> string option" where
  "nonzero_id n = (if n = 0 then None else Some (show_int n))"

text \<open>\<open>BigInt(id)\<close> of an id the code printed itself\<close>

definition big_int :: "string \<Rightarrow> int" where
  "big_int s = nullish (digits_value s) 0"

definition created_claim :: "contract_reads \<Rightarrow> claim_created_event \<Rightarrow> thrown + claim_view" where
  "created_claim x e = and_then (xr_getClaim x (cc_claimId e)) (\<lambda>claimRecord. Inr
     \<lparr>cv_claimId = show_int (cc_claimId e), cv_author = cc_author e, cv_domainId = cc_domainId e,
      cv_metadataHash = cc_metadataHash e, cv_resolutionModule = cc_resolutionModule e,
      cv_status = xc_status claimRecord, cv_revisionOfClaimId = nonzero_id (xc_revisionOfClaimId claimRecord),
      cv_createdAtBlock = cc_blockNumber e\<rparr>)"

definition artifact_of :: "artifact_event \<Rightarrow> artifact_view" where
  "artifact_of e = \<lparr>av_artifactId = show_int (ae_artifactId e), av_claimId = show_int (ae_claimId e),
     av_artifactType = ae_artifactType e, av_contentDigest = ae_contentDigest e, av_uri = ae_uri e,
     av_submitter = ae_submitter e\<rparr>"

definition decision_view :: "contract_reads \<Rightarrow> resolution_decision_event \<Rightarrow> thrown + resolution_decision_view" where
  "decision_view x e = and_then (xr_getResolutionDecisionCreatedAt x (de_decisionId e)) (\<lambda>createdAt. Inr
     \<lparr>dv_decisionId = show_int (de_decisionId e), dv_claimId = show_int (de_claimId e),
      dv_replicationId = show_int (de_replicationId e), dv_resolutionModule = de_resolutionModule e,
      dv_status = de_status e, dv_claimStatus = de_claimStatus e, dv_confidenceBps = de_confidenceBps e,
      dv_resolutionHash = de_resolutionHash e, dv_evidenceHash = de_evidenceHash e,
      dv_resolverType = de_resolverType e, dv_createdAt = createdAt, dv_actor = de_actor e,
      dv_effective = False\<rparr>)"

definition submitted_replication :: "replication_submitted_event \<Rightarrow> replication_view" where
  "submitted_replication e = \<lparr>rv_replicationId = show_int (re_replicationId e),
     rv_claimId = show_int (re_claimId e), rv_replicator = re_replicator e,
     rv_agentId = show_int (re_agentId e), rv_resultHash = re_resultHash e, rv_outcome = None,
     rv_resolutionStatus = None, rv_confidenceBps = None, rv_resolverType = None,
     rv_resolutionHash = None, rv_evidenceHash = None, rv_evidenceURI = None\<rparr>"

definition resolved_replication :: "replication_resolved_event \<Rightarrow> string \<times> replication_resolution" where
  "resolved_replication e = (show_int (rze_replicationId e),
     \<lparr>rz_outcome = rze_outcome e, rz_resolutionStatus = rze_status e, rz_confidenceBps = rze_confidenceBps e,
      rz_resolverType = rze_resolverType e, rz_resolutionHash = rze_resolutionHash e,
      rz_evidenceHash = rze_evidenceHash e, rz_evidenceURI = rze_evidenceURI e\<rparr>)"

definition published_checkpoint :: "checkpoint_event \<Rightarrow> checkpoint_view" where
  "published_checkpoint e = \<lparr>pv_checkpointId = show_int (pe_checkpointId e), pv_domainId = pe_domainId e,
     pv_subjectType = pe_subjectType e, pv_subjectActor = pe_subjectActor e,
     pv_subjectClaimId = show_int (pe_subjectClaimId e), pv_subjectAgentId = show_int (pe_subjectAgentId e),
     pv_subjectModule = pe_subjectModule e, pv_scoreVectorHash = pe_scoreVectorHash e,
     pv_payloadHash = pe_payloadHash e, pv_uri = pe_uri e\<rparr>"

text \<open>The \<open>Set\<close>s of ids touched by the events of a chunk, as decimal strings.\<close>

definition touchedAgentIds :: "chunk_events \<Rightarrow> string list" where
  "touchedAgentIds ev = js_nub (map show_int (ce_agentRegistered ev @ map oe_agentId (ce_agentController ev) @
     ce_agentBudgetDeposited ev @ ce_agentBudgetReserved ev @ ce_agentBudgetReleased ev @
     ce_agentBudgetConsumed ev @ ce_agentBudgetWithdrawn ev @ ce_agentSpendLimit ev @ ce_agentStatus ev))"

definition touchedForecastIds :: "chunk_events \<Rightarrow> string list" where
  "touchedForecastIds ev = js_nub (map show_int (ce_forecastCommitted ev @ ce_forecastRevealed ev @
     map fe_forecastId (ce_forecastSettled ev)))"

definition touchedChallengeIds :: "chunk_events \<Rightarrow> string list" where
  "touchedChallengeIds ev = js_nub (map show_int (ce_challengeOpened ev @
     map he_challengeId (ce_challengeResolved ev) @ map fst (ce_challengeWithdrawn ev)))"

definition touchedAppealIds :: "chunk_events \<Rightarrow> string list" where
  "touchedAppealIds ev = js_nub (map show_int (ce_appealFiled ev @ map le_appealId (ce_appealAdjudicated ev)))"

definition agent_snapshot :: "contract_reads \<Rightarrow> string \<Rightarrow> thrown + agent_view" where
  "agent_snapshot x agentId = and_then (xr_getAgent x (big_int agentId)) (\<lambda>record'. Inr
     \<lparr>nv_agentId = agentId, nv_operator = xn_operator record', nv_metadataHash = xn_metadataHash record',
      nv_uri = xn_uri record', nv_budgetBalance = xn_budgetBalance record',
      nv_reservedBudget = xn_reservedBudget record', nv_spendLimit = xn_spendLimit record',
      nv_active = xn_active record'\<rparr>)"

definition agent_controller :: "agent_controller_event \<Rightarrow> agent_controller_view" where
  "agent_controller e = \<lparr>ov_agentId = show_int (oe_agentId e), ov_controller = oe_controller e,
     ov_authorized = oe_authorized e\<rparr>"

definition forecast_view_of :: "string \<Rightarrow> forecast_record \<Rightarrow> forecast_view" where
  "forecast_view_of forecastId r =
     \<lparr>fv_forecastId = forecastId, fv_claimId = show_int (xf_claimId r), fv_forecaster = xf_forecaster r,
      fv_agentId = show_int (xf_agentId r), fv_commitmentHash = xf_commitmentHash r,
      fv_stakeAmount = xf_stakeAmount r, fv_committedAt = xf_committedAt r,
      fv_revealDeadline = xf_revealDeadline r, fv_revealed = xf_revealed r, fv_settled = xf_settled r,
      fv_direction = xf_direction r, fv_confidenceBps = xf_confidenceBps r,
      fv_effectiveDecisionIdAtCommit = nonzero_id (xf_effectiveDecisionIdAtCommit r),
      fv_resolutionDecisionId = nonzero_id (xf_resolutionDecisionId r), fv_finalStatus = None,
      fv_matched = None, fv_payoutAmount = None\<rparr>"

definition forecast_snapshot :: "contract_reads \<Rightarrow> string \<Rightarrow> thrown + forecast_view" where
  "forecast_snapshot x forecastId =
     and_then (xr_getForecast x (big_int forecastId)) (\<lambda>r. Inr (forecast_view_of forecastId r))"

definition challenge_snapshot :: "contract_reads \<Rightarrow> string \<Rightarrow> thrown + challenge_view" where
  "challenge_snapshot x challengeId = and_then (xr_getChallenge x (big_int challengeId)) (\<lambda>r. Inr
     \<lparr>hv_challengeId = challengeId, hv_claimId = show_int (xh_claimId r),
      hv_replicationId = show_int (xh_replicationId r), hv_challenger = xh_challenger r,
      hv_agentId = show_int (xh_agentId r), hv_evidenceHash = xh_evidenceHash r,
      hv_evidenceURI = xh_evidenceURI r, hv_bondAmount = xh_bondAmount r, hv_status = xh_status r,
      hv_resolutionHash = (if xh_resolutionHash r = zero_hash then None else Some (xh_resolutionHash r)),
      hv_createdAt = xh_createdAt r,
      hv_resolvedAt = (if xh_resolvedAt r = 0 then None else Some (xh_resolvedAt r)),
      hv_payoutAmount = None, hv_refundedAmount = None\<rparr>)"

definition appeal_snapshot :: "contract_reads \<Rightarrow> string \<Rightarrow> thrown + appeal_view" where
  "appeal_snapshot x appealId = and_then (xr_getAppeal x (big_int appealId)) (\<lambda>r. Inr
     \<lparr>lv_appealId = appealId, lv_claimId = show_int (xl_claimId r),
      lv_replicationId = show_int (xl_replicationId r), lv_challengeId = show_int (xl_challengeId r),
      lv_appellant = xl_appellant r, lv_reason = xl_reason r, lv_filingHash = xl_filingHash r,
      lv_uri = xl_uri r, lv_status = xl_status r,
      lv_adjudicationHash = (if xl_adjudicationHash r = zero_hash then None else Some (xl_adjudicationHash r)),
      lv_adjudicationURI = (if xl_adjudicationURI r = [] then None else Some (xl_adjudicationURI r)),
      lv_bondAmount = xl_bondAmount r, lv_createdAt = xl_createdAt r,
      lv_adjudicatedAt = (if xl_adjudicatedAt r = 0 then None else Some (xl_adjudicatedAt r)),
      lv_refundedAmount = None\<rparr>)"

definition settlement_of :: "forecast_settled_event \<Rightarrow> string \<times> forecast_settlement" where
  "settlement_of e = (show_int (fe_forecastId e),
     \<lparr>fz_resolutionDecisionId = nonzero_id (fe_resolutionDecisionId e), fz_finalStatus = fe_finalStatus e,
      fz_matched = fe_matched e, fz_payoutAmount = fe_payoutAmount e\<rparr>)"

definition challenge_outcome :: "challenge_resolved_event \<Rightarrow> string \<times> challenge_resolution" where
  "challenge_outcome e = (show_int (he_challengeId e), \<lparr>hz_status = he_status e,
     hz_resolutionHash = he_resolutionHash e, hz_payoutAmount = he_payoutAmount e\<rparr>)"

definition adjudication_of :: "appeal_adjudicated_event \<Rightarrow> string \<times> appeal_adjudication" where
  "adjudication_of e = (show_int (le_appealId e), \<lparr>lz_status = le_status e,
     lz_adjudicationHash = le_adjudicationHash e, lz_adjudicationURI = le_adjudicationURI e,
     lz_refundedAmount = le_refundedAmount e\<rparr>)"

definition keyed :: "int \<times> 'b \<Rightarrow> string \<times> 'b" where
  "keyed p = (show_int (fst p), snd p)"

text \<open>What the transaction writes, computed before it begins.\<close>

record chunk_writes =
  cw_claims :: "claim_view list"
  cw_statuses :: "(string \<times> int) list"
  cw_artifacts :: "artifact_view list"
  cw_replications :: "replication_view list"
  cw_resolutions :: "(string \<times> replication_resolution) list"
  cw_decisions :: "resolution_decision_view list"
  cw_effective :: "(string \<times> string) list"
  cw_checkpoints :: "checkpoint_view list"
  cw_agents :: "agent_view list"
  cw_controllers :: "agent_controller_view list"
  cw_forecasts :: "forecast_view list"
  cw_settlements :: "(string \<times> forecast_settlement) list"
  cw_challenges :: "challenge_view list"
  cw_challengeResolutions :: "(string \<times> challenge_resolution) list"
  cw_withdrawals :: "(string \<times> int) list"
  cw_appeals :: "appeal_view list"
  cw_adjudications :: "(string \<times> appeal_adjudication) list"

definition chunkWrites :: "contract_reads \<Rightarrow> chunk_events \<Rightarrow> thrown + chunk_writes" where
  "chunkWrites x ev =
     and_then (traverse (created_claim x) (ce_claimCreated ev)) (\<lambda>createdClaims.
     and_then (traverse (decision_view x) (ce_resolutionDecision ev)) (\<lambda>resolutionDecisions.
     and_then (traverse (agent_snapshot x) (touchedAgentIds ev)) (\<lambda>agentSnapshots.
     and_then (traverse (forecast_snapshot x) (touchedForecastIds ev)) (\<lambda>forecastSnapshots.
     and_then (traverse (challenge_snapshot x) (touchedChallengeIds ev)) (\<lambda>challengeSnapshots.
     and_then (traverse (appeal_snapshot x) (touchedAppealIds ev)) (\<lambda>appealSnapshots.
     Inr \<lparr>cw_claims = createdClaims, cw_statuses = map keyed (ce_claimStatus ev),
        cw_artifacts = map artifact_of (ce_artifact ev),
        cw_replications = map submitted_replication (ce_replicationSubmitted ev),
        cw_resolutions = map resolved_replication (ce_replicationResolved ev),
        cw_decisions = resolutionDecisions,
        cw_effective = map (\<lambda>(claimId, decisionId). (show_int claimId, show_int decisionId)) (ce_effectiveDecision ev),
        cw_checkpoints = map published_checkpoint (ce_checkpoint ev), cw_agents = agentSnapshots,
        cw_controllers = map agent_controller (ce_agentController ev), cw_forecasts = forecastSnapshots,
        cw_settlements = map settlement_of (ce_forecastSettled ev), cw_challenges = challengeSnapshots,
        cw_challengeResolutions = map challenge_outcome (ce_challengeResolved ev),
        cw_withdrawals = map keyed (ce_challengeWithdrawn ev), cw_appeals = appealSnapshots,
        cw_adjudications = map adjudication_of (ce_appealAdjudicated ev)\<rparr>))))))"

section \<open>The transaction\<close>

text \<open>\<open>for (const row of rows) await write(client, row)\<close>, up to the metadata and the cursor\<close>

definition writeTables :: "chunk_writes \<Rightarrow> read_db \<Rightarrow> read_error + read_db" where
  "writeTables w db =
     and_then (in_turn (\<lambda>(claimId, status). updateClaimStatus claimId status) (cw_statuses w)
        (fold upsertClaim (cw_claims w) db)) (\<lambda>db.
     and_then (in_turn insertArtifact (cw_artifacts w) db) (\<lambda>db.
     and_then (in_turn upsertReplicationSubmission (cw_replications w) db) (\<lambda>db.
     and_then (in_turn (\<lambda>(replicationId, z). applyReplicationResolution replicationId z) (cw_resolutions w) db) (\<lambda>db.
     and_then (in_turn insertResolutionDecision (cw_decisions w) db) (\<lambda>db.
     and_then (in_turn (\<lambda>(claimId, decisionId). markEffectiveResolutionDecision claimId decisionId) (cw_effective w) db) (\<lambda>db.
     and_then (in_turn upsertAgentController (cw_controllers w)
        (fold upsertAgent (cw_agents w) (fold insertCheckpoint (cw_checkpoints w) db))) (\<lambda>db.
     and_then (in_turn upsertForecast (cw_forecasts w) db) (\<lambda>db.
     and_then (in_turn (\<lambda>(forecastId, z). applyForecastSettlement forecastId z) (cw_settlements w) db) (\<lambda>db.
     and_then (in_turn upsertChallenge (cw_challenges w) db) (\<lambda>db.
     and_then (in_turn (\<lambda>(challengeId, z). applyChallengeResolution challengeId z) (cw_challengeResolutions w) db) (\<lambda>db.
     and_then (in_turn (\<lambda>(challengeId, amount). applyChallengeWithdrawal challengeId amount) (cw_withdrawals w) db) (\<lambda>db.
     and_then (in_turn upsertAppeal (cw_appeals w) db)
       (in_turn (\<lambda>(appealId, z). applyAppealAdjudication appealId z) (cw_adjudications w))))))))))))))"

record deployment =
  dp_chainId :: int
  dp_deploymentBlock :: int

definition chunk_metadata :: "int \<Rightarrow> deployment \<Rightarrow> int \<Rightarrow> read_metadata" where
  "chunk_metadata now dep latestBlock = \<lparr>ma_chainId = dp_chainId dep, ma_indexedAt = iso_string now,
     ma_deploymentBlock = dp_deploymentBlock dep, ma_latestBlock = latestBlock\<rparr>"

definition writeChunk ::
  "int \<Rightarrow> deployment \<Rightarrow> chunk_writes \<Rightarrow> int \<Rightarrow> string \<Rightarrow> read_db \<Rightarrow> read_error + read_db" where
  "writeChunk now dep w chunkEndBlock chunkEndBlockHash db =
     and_then (writeTables w db) (\<lambda>db.
       Inr (writeSyncCursor chunkEndBlock (Some chunkEndBlockHash)
         (updateReadModelMetadata (chunk_metadata now dep chunkEndBlock) db)))"

definition applyChunk ::
  "int \<Rightarrow> deployment \<Rightarrow> contract_reads \<Rightarrow> chunk_events \<Rightarrow> int \<Rightarrow> string \<Rightarrow> read_db \<Rightarrow>
   sync_error + read_db" where
  "applyChunk now dep x ev chunkEndBlock chunkEndBlockHash db =
     and_then (reading (chunkWrites x ev)) (\<lambda>w.
       storing (writeChunk now dep w chunkEndBlock chunkEndBlockHash db))"

end
