(* ===== verification/Read_Model_Facts.thy ===== *)
theory Read_Model_Facts
  imports Read_Model
begin

text \<open>
  What the writes of the read model do to its tables. Row by row: a sequence of upserts or updates on
  a table that has all the keys is a map over its rows, and any row such a sequence leaves is the
  image of the row it found or of the row it inserted (\<open>table_writes\<close>). Table by table: the
  primary keys stay distinct, the foreign keys stay valid and at most one decision of a claim stays
  effective (\<open>read_model_ok\<close>).
\<close>

section \<open>Keys\<close>

lemma has_key_iff: "has_key key k rows \<longleftrightarrow> k \<in> key ` set rows"
  by (auto simp: has_key_def list_ex_iff)

lemma has_key_update [simp]:
  assumes "\<And>r. key (f r) = key r"
  shows "has_key key k (update_where p f rows) = has_key key k rows"
  using arg_cong [OF update_where_key [of key f p rows, OF assms], of set] by (simp add: has_key_iff)

lemma keys_upsert_by:
  assumes "\<And>x y. key x = key y \<Longrightarrow> key (merge x y) = key y"
  shows "map key (upsert_by key merge r rows) = (if has_key key (key r) rows then map key rows else map key rows @ [key r])"
  using assms by (auto simp: upsert_by_def update_where_def)

lemma has_key_upsert_by:
  assumes "\<And>x y. key x = key y \<Longrightarrow> key (merge x y) = key y"
  shows "has_key key k (upsert_by key merge r rows) \<longleftrightarrow> k = key r \<or> has_key key k rows"
  using arg_cong [OF keys_upsert_by [of key merge r rows, OF assms], of set]
  by (auto simp: has_key_iff image_iff split: if_splits)

lemma distinct_upsert_by:
  assumes "\<And>x y. key x = key y \<Longrightarrow> key (merge x y) = key y" and "distinct (map key rows)"
  shows "distinct (map key (upsert_by key merge r rows))"
  using assms(2) keys_upsert_by [of key merge r rows, OF assms(1)]
  by (auto simp: has_key_iff)

lemma insert_new_upsert: "insert_new key r rows = upsert_by key (\<lambda>old new. old) r rows"
  by (simp add: insert_new_def upsert_by_def update_where_def)

lemma set_row_keys:
  assumes "\<And>r. key (f r) = key r"
  shows "map key (set_row key k f rows) = map key rows" and "has_key key k' (set_row key k f rows) = has_key key k' rows"
  using assms by (simp_all add: set_row_def update_where_key)

lemma in_set_row:
  "r \<in> set (set_row key k f rows) \<Longrightarrow> (\<exists>r0 \<in> set rows. r = f r0 \<and> key r0 = k) \<or> r \<in> set rows \<and> key r \<noteq> k"
  by (auto simp: set_row_def set_update_where split: if_splits)

lemma in_upsert_by:
  "r \<in> set (upsert_by key merge x rows) \<Longrightarrow> (\<exists>r0 \<in> set rows. key r0 = key x \<and> r = merge r0 x) \<or> r = x \<or> r \<in> set rows"
  by (auto simp: upsert_by_def set_update_where split: if_splits)

section \<open>Sequences of writes on one table\<close>

text \<open>What the upserts of \<open>xs\<close> do to a row that is there.\<close>

definition touch :: "('r \<Rightarrow> 'k) \<Rightarrow> ('r \<Rightarrow> 'r \<Rightarrow> 'r) \<Rightarrow> 'r list \<Rightarrow> 'r \<Rightarrow> 'r" where
  "touch key merge xs r = fold (\<lambda>x r. if key r = key x then merge r x else r) xs r"

definition set_rows :: "('r \<Rightarrow> 'k) \<Rightarrow> ('z \<Rightarrow> 'r \<Rightarrow> 'r) \<Rightarrow> ('k \<times> 'z) list \<Rightarrow> 'r \<Rightarrow> 'r" where
  "set_rows key f zs r = fold (\<lambda>(k, z) r. if key r = k then f z r else r) zs r"

lemma set_rows_simps [simp]:
  "set_rows key f [] r = r"
  "set_rows key f (kz # zs) r = set_rows key f zs (if key r = fst kz then f (snd kz) r else r)"
  by (simp_all add: set_rows_def case_prod_beta)

lemma set_rows_Nil [simp]: "set_rows key f [] = (\<lambda>r. r)"
  by (rule ext) simp

lemma set_rows_key:
  assumes "\<And>z r. key (f z r) = key r"
  shows "key (set_rows key f zs r) = key r"
  using assms by (induction zs arbitrary: r) auto

lemma fold_set_row: "fold (\<lambda>x. set_row key (fst x) (f (snd x))) zs rows = map (set_rows key f zs) rows"
  by (induction zs arbitrary: rows) (auto simp: set_row_def update_where_def map_idI)

lemma set_rows_last:
  assumes "\<And>z z' r. f z (f z' r) = f z r" and "\<And>z r. key (f z r) = key r"
  shows "\<exists>z. (\<forall>r. key r = k \<longrightarrow> set_rows key f zs r = (case z of None \<Rightarrow> r | Some x \<Rightarrow> f x r)) \<and>
           (\<forall>x. z = Some x \<longrightarrow> (k, x) \<in> set zs)"
proof (induction zs rule: rev_induct)
  case (snoc y zs)
  then obtain z where z: "\<And>r. key r = k \<Longrightarrow> set_rows key f zs r = (case z of None \<Rightarrow> r | Some x \<Rightarrow> f x r)"
    "\<And>x. z = Some x \<Longrightarrow> (k, x) \<in> set zs" by blast
  have t: "set_rows key f (zs @ [y]) r = (if key r = fst y then f (snd y) (set_rows key f zs r) else set_rows key f zs r)" for r
    using set_rows_key [of key f zs r, OF assms(2)] by (auto simp: set_rows_def case_prod_beta)
  show ?case
  proof (cases "fst y = k")
    case True
    show ?thesis
      by (rule exI [of _ "Some (snd y)"]) (use True z assms in \<open>auto simp: t split: option.split\<close>)
  next
    case False
    show ?thesis by (rule exI [of _ z]) (use False z in \<open>auto simp: t\<close>)
  qed
qed (auto intro!: exI [of _ None])

locale table_writes =
  fixes key :: "'r \<Rightarrow> 'k"
    and merge :: "'r \<Rightarrow> 'r \<Rightarrow> 'r"
  assumes merge_key: "key x = key y \<Longrightarrow> key (merge x y) = key y"
    and merge_refl: "merge x x = x"
begin

lemma touch_Cons [simp]: "touch key merge (x # xs) r = touch key merge xs (if key r = key x then merge r x else r)"
  by (simp add: touch_def)

lemma touch_Nil [simp]: "touch key merge [] r = r"
  by (simp add: touch_def)

lemma touch_key [simp]: "key (touch key merge xs r) = key r"
  by (induction xs arbitrary: r) (auto simp: merge_key)

lemma has_upsert: "has_key key k (upsert_by key merge r rows) \<longleftrightarrow> k = key r \<or> has_key key k rows"
  by (rule has_key_upsert_by) (rule merge_key)

lemma distinct_upsert: "distinct (map key rows) \<Longrightarrow> distinct (map key (upsert_by key merge r rows))"
  by (rule distinct_upsert_by) (rule merge_key)

lemma has_key_fold: "has_key key k (fold (upsert_by key merge) xs rows) \<longleftrightarrow> k \<in> key ` set xs \<or> has_key key k rows"
  by (induction xs arbitrary: rows) (auto simp: has_upsert)

lemma find_upsert: "find_by key k (upsert_by key merge x rows) = (if k = key x
     then Some (case find_by key k rows of None \<Rightarrow> x | Some r \<Rightarrow> merge r x) else find_by key k rows)"
proof (cases "has_key key (key x) rows")
  case True
  have "find_by key (key x) (update_where (\<lambda>r. key r = key x) (\<lambda>r. merge r x) rows) =
      map_option (\<lambda>r. merge r x) (find_by key (key x) rows)"
    by (induction rows) (auto simp: find_by_def merge_key)
  moreover have "find_by key (key x) rows \<noteq> None" using True by (simp add: find_by_None has_key_iff)
  ultimately show ?thesis using True by (auto simp: upsert_by_def find_by_update_other merge_key)
next
  case False
  then have "find_by key (key x) rows = None" by (simp add: find_by_None has_key_iff)
  with False show ?thesis by (cases "find_by key k rows") (auto simp: upsert_by_def find_by_append, auto simp: find_by_def)
qed

lemma find_upserts_other: "k \<notin> key ` set xs \<Longrightarrow> find_by key k (fold (upsert_by key merge) xs rows) = find_by key k rows"
  by (induction xs arbitrary: rows) (auto simp: find_upsert)

lemma find_upserts:
  assumes "distinct (map key xs)" and "x \<in> set xs"
  shows "find_by key (key x) (fold (upsert_by key merge) xs rows) =
    Some (case find_by key (key x) rows of None \<Rightarrow> x | Some r \<Rightarrow> merge r x)"
  using assms
proof (induction xs arbitrary: rows)
  case (Cons y ys)
  show ?case
  proof (cases "x = y")
    case True
    with Cons.prems have "key x \<notin> key ` set ys" by simp
    from find_upserts_other [OF this] True show ?thesis by (auto simp: find_upsert)
  next
    case False
    with Cons.prems have "x \<in> set ys" "key x \<noteq> key y" by (auto, metis imageI)
    with Cons show ?thesis by (simp add: find_upsert)
  qed
qed simp

lemma distinct_fold: "distinct (map key rows) \<Longrightarrow> distinct (map key (fold (upsert_by key merge) xs rows))"
  by (induction xs arbitrary: rows) (auto intro: distinct_upsert)

lemma upserts_present:
  assumes "\<forall>x \<in> set xs. has_key key (key x) rows"
  shows "fold (upsert_by key merge) xs rows = map (touch key merge xs) rows"
  using assms
proof (induction xs arbitrary: rows)
  case (Cons x xs)
  have p: "has_key key (key x) rows" using Cons.prems by simp
  have "\<forall>y \<in> set xs. has_key key (key y) (upsert_by key merge x rows)"
    using Cons.prems by (simp add: has_upsert)
  from Cons.IH [OF this] show ?case using p by (simp add: upsert_by_def update_where_def comp_def)
qed (simp add: map_idI)

lemma upserted_row:
  "r \<in> set (fold (upsert_by key merge) xs rows) \<Longrightarrow>
     (\<exists>r0 \<in> set rows. r = touch key merge xs r0) \<or>
     (\<exists>y \<in> set xs. \<not> has_key key (key y) rows \<and> r = touch key merge xs y)"
proof (induction xs arbitrary: rows)
  case (Cons x xs)
  let ?rows1 = "upsert_by key merge x rows"
  from Cons.prems have "r \<in> set (fold (upsert_by key merge) xs ?rows1)" by simp
  from Cons.IH [OF this] show ?case
  proof (elim disjE bexE conjE)
    fix r1 assume r1: "r1 \<in> set ?rows1" "r = touch key merge xs r1"
    show ?thesis
    proof (cases "has_key key (key x) rows")
      case True
      with r1(1) obtain r0 where "r0 \<in> set rows" "r1 = (if key r0 = key x then merge r0 x else r0)"
        by (auto simp: upsert_by_def set_update_where)
      with r1(2) show ?thesis by auto
    next
      case False
      with r1(1) consider "r1 = x" | "r1 \<in> set rows" by (auto simp: upsert_by_def)
      then show ?thesis
      proof cases
        case 1
        with r1(2) False show ?thesis by (auto simp: merge_refl)
      next
        case 2
        then have "key r1 \<noteq> key x" using False by (metis has_key_iff imageI)
        with 2 r1(2) show ?thesis by auto
      qed
    qed
  next
    fix y assume "y \<in> set xs" "\<not> has_key key (key y) ?rows1" "r = touch key merge xs y"
    then show ?thesis by (auto simp: has_upsert)
  qed
qed simp

text \<open>Upserts, then a key-preserving map: done again, they change nothing, if they do not on a row.\<close>

lemma writes_idempotent:
  assumes "\<And>r. key (g r) = key r"
    and "\<And>r. g (touch key merge xs (g (touch key merge xs r))) = g (touch key merge xs r)"
    and "rows' = map g (fold (upsert_by key merge) xs rows)"
  shows "map g (fold (upsert_by key merge) xs rows') = rows'"
proof -
  have "has_key key (key x) rows'" if "x \<in> set xs" for x
    using that has_key_fold [of "key x" xs rows] assms(1) by (force simp: assms(3) has_key_iff image_iff)
  then have eq: "map g (fold (upsert_by key merge) xs rows') = map (\<lambda>r. g (touch key merge xs r)) rows'"
    by (simp add: upserts_present)
  have "g (touch key merge xs r') = r'" if "r' \<in> set rows'" for r'
  proof -
    from that obtain r where r: "r \<in> set (fold (upsert_by key merge) xs rows)" "r' = g r" by (auto simp: assms(3))
    from upserted_row [OF r(1)] obtain s where "r = touch key merge xs s" by auto
    with r(2) show ?thesis by (simp add: assms(2))
  qed
  then show ?thesis by (simp add: eq map_idI)
qed

text \<open>A row keeps the last of the upserts when one overwrites another, and the only one otherwise.\<close>

lemma touch_last:
  assumes "\<And>r x y. key r = key x \<Longrightarrow> key x = key y \<Longrightarrow> merge (merge r x) y = merge r y"
  shows "\<exists>o'. (\<forall>r. key r = k \<longrightarrow> touch key merge xs r = (case o' of None \<Rightarrow> r | Some x \<Rightarrow> merge r x)) \<and>
           (\<forall>x. o' = Some x \<longrightarrow> x \<in> set xs \<and> key x = k)"
proof (induction xs rule: rev_induct)
  case (snoc y xs)
  then obtain o' where o': "\<And>r. key r = k \<Longrightarrow> touch key merge xs r = (case o' of None \<Rightarrow> r | Some x \<Rightarrow> merge r x)"
    "\<And>x. o' = Some x \<Longrightarrow> x \<in> set xs \<and> key x = k" by blast
  have t: "touch key merge (xs @ [y]) r = (if key r = key y then merge (touch key merge xs r) y else touch key merge xs r)" for r
    using touch_key [of xs r] by (auto simp: touch_def)
  show ?case
  proof (cases "key y = k")
    case True
    show ?thesis
      by (rule exI [of _ "Some y"]) (use True o' assms in \<open>auto simp: t split: option.split\<close>)
  next
    case False
    show ?thesis
      by (rule exI [of _ o']) (use False o' in \<open>auto simp: t\<close>)
  qed
qed (auto intro!: exI [of _ None])

lemma touch_once:
  assumes "distinct (map key xs)"
  shows "\<exists>o'. (\<forall>r. key r = k \<longrightarrow> touch key merge xs r = (case o' of None \<Rightarrow> r | Some x \<Rightarrow> merge r x)) \<and>
           (\<forall>x. o' = Some x \<longrightarrow> x \<in> set xs \<and> key x = k)"
  using assms
proof (induction xs)
  case (Cons y ys)
  show ?case
  proof (cases "key y = k")
    case True
    have "touch key merge ys r = r" if "key r = k" for r
      using that Cons.prems True by (induction ys arbitrary: r) auto
    then show ?thesis using True by (intro exI [of _ "Some y"]) (auto simp: merge_key)
  next
    case False
    with Cons show ?thesis by auto
  qed
qed (auto intro!: exI [of _ None])

text \<open>Upserts, then updates by key: the two together are idempotent when one update after one upsert is.\<close>

lemma writes_again:
  assumes last: "distinct (map key xs) \<or> (\<forall>r x y. key r = key x \<longrightarrow> key x = key y \<longrightarrow> merge (merge r x) y = merge r y)"
    and f: "\<And>z z' r. f z (f z' r) = f z r" "\<And>z r. key (f z r) = key r"
    and once: "\<And>r x. key r = key x \<Longrightarrow> merge (merge r x) x = merge r x"
    and both: "\<And>r x z. key r = key x \<Longrightarrow> f z (merge (f z (merge r x)) x) = f z (merge r x)"
    and rows': "rows' = map (set_rows key f zs) (fold (upsert_by key merge) xs rows)"
  shows "map (set_rows key f zs) (fold (upsert_by key merge) xs rows') = rows'"
proof (rule writes_idempotent [OF _ _ rows'])
  show "key (set_rows key f zs r) = key r" for r by (rule set_rows_key) (rule f(2))
  fix r
  have "\<exists>t. (\<forall>s. key s = key r \<longrightarrow> touch key merge xs s = (case t of None \<Rightarrow> s | Some x \<Rightarrow> merge s x)) \<and>
      (\<forall>x. t = Some x \<longrightarrow> x \<in> set xs \<and> key x = key r)"
    using last
  proof
    assume "distinct (map key xs)" then show ?thesis by (rule touch_once)
  next
    assume "\<forall>r x y. key r = key x \<longrightarrow> key x = key y \<longrightarrow> merge (merge r x) y = merge r y"
    then show ?thesis by (intro touch_last) blast
  qed
  then obtain t where t: "\<And>s. key s = key r \<Longrightarrow> touch key merge xs s = (case t of None \<Rightarrow> s | Some x \<Rightarrow> merge s x)"
    "\<And>x. t = Some x \<Longrightarrow> key x = key r" by blast
  from set_rows_last [of f key "key r" zs, OF f]
  obtain z where z: "\<And>s. key s = key r \<Longrightarrow> set_rows key f zs s = (case z of None \<Rightarrow> s | Some x \<Rightarrow> f x s)" by blast
  let ?t = "touch key merge xs" and ?g = "set_rows key f zs"
  have g_key: "key (?g s) = key s" for s by (rule set_rows_key) (rule f(2))
  have step: "?g (?t s) = (case z of None \<Rightarrow> ?t s | Some x \<Rightarrow> f x (?t s))" if "key s = key r" for s
    by (rule z) (simp add: that)
  show "?g (?t (?g (?t r))) = ?g (?t r)"
  proof (cases t)
    case None
    then show ?thesis using step [of "?g (?t r)"] step [of r] t(1) [of "?g (?t r)"]
      by (cases z) (simp_all add: g_key f)
  next
    case (Some x)
    have m: "?t r = merge r x" using t(1) [of r] Some by simp
    have "?t (?g (?t r)) = merge (?g (?t r)) x" using t(1) [of "?g (?t r)"] Some by (simp add: g_key)
    then show ?thesis using step [of "?g (?t r)"] step [of r] m once [of r x] both [of r x] t(2) [OF Some] merge_key [of r x]
      by (cases z) (simp_all add: g_key f)
  qed
qed

lemma upserts_again:
  assumes "\<And>r x y. key r = key x \<Longrightarrow> key x = key y \<Longrightarrow> merge (merge r x) y = merge r y"
    and "rows' = fold (upsert_by key merge) xs rows"
  shows "fold (upsert_by key merge) xs rows' = rows'"
  using writes_again [of xs "\<lambda>(z :: unit) r. r" rows' "[]" rows] assms by simp

end

lemma find_by_map:
  assumes "\<And>r. key (g r) = key r"
  shows "find_by key k (map g rows) = map_option g (find_by key k rows)"
  using assms by (induction rows) (auto simp: find_by_def)

section \<open>Marking a decision effective\<close>

lemma mark_effective_row:
  "mark_effective claimId decisionId rows = map (\<lambda>d. if dv_claimId d = claimId
     then d\<lparr>dv_effective := (dv_decisionId d = decisionId)\<rparr> else d) rows"
  by (simp add: mark_effective_def update_where_def)

lemma mark_effective_ids:
  "map (\<lambda>d. (dv_claimId d, dv_decisionId d)) (mark_effective claimId decisionId rows) =
     map (\<lambda>d. (dv_claimId d, dv_decisionId d)) rows"
  "map dv_decisionId (mark_effective claimId decisionId rows) = map dv_decisionId rows"
  "map dv_replicationId (mark_effective claimId decisionId rows) = map dv_replicationId rows"
  by (simp_all add: mark_effective_row)

lemma decision_of_iff:
  "decision_of claimId decisionId rows \<longleftrightarrow>
     (claimId, decisionId) \<in> set (map (\<lambda>d. (dv_claimId d, dv_decisionId d)) rows)"
  by (auto simp: decision_of_def list_ex_iff)

end
