(* ===== verification/Chunk_Facts.thy ===== *)
theory Chunk_Facts
  imports Chunk Read_Model_Facts
begin

text \<open>
  The transaction of a chunk, table by table: each loop of \<open>applyChunk\<close> is an instance of a checked
  step, and a transaction that commits is one function per table (\<open>tables_after\<close>). Writing the same
  chunk again changes nothing.
\<close>

section \<open>The loops\<close>

definition status_change :: "string \<times> int \<Rightarrow> read_db \<Rightarrow> read_db" where
  "status_change x db = db\<lparr>rm_claims := set_row cv_claimId (fst x) (\<lambda>c. c\<lparr>cv_status := snd x\<rparr>) (rm_claims db)\<rparr>"

interpretation statuses: steady_step "\<lambda>(claimId, status). updateClaimStatus claimId status"
    "\<lambda>x. claim_known (fst x)" status_change
  by unfold_locales (auto simp: updateClaimStatus_def guarded_def status_change_def claim_known_def set_row_keys)

interpretation artifacts: checked_step insertArtifact
    "\<lambda>a db. has_key av_artifactId (av_artifactId a) (rm_artifacts db) \<or> claim_known (av_claimId a) db"
    "\<lambda>a db. has_key av_artifactId (av_artifactId a) (rm_artifacts db)"
    "\<lambda>a db. db\<lparr>rm_artifacts := insert_new av_artifactId a (rm_artifacts db)\<rparr>"
  by unfold_locales (auto simp: insertArtifact_def guarded_def insert_new_upsert has_key_upsert_by)

interpretation submissions: steady_step upsertReplicationSubmission "\<lambda>r. claim_known (rv_claimId r)"
    "\<lambda>r db. db\<lparr>rm_replications := upsert_by rv_replicationId merge_submission (submitted_only r) (rm_replications db)\<rparr>"
  by unfold_locales (auto simp: upsertReplicationSubmission_def guarded_def claim_known_def)

interpretation resolutions: steady_step "\<lambda>(replicationId, z). applyReplicationResolution replicationId z"
    "\<lambda>x db. has_key rv_replicationId (fst x) (rm_replications db)"
    "\<lambda>x db. db\<lparr>rm_replications := set_row rv_replicationId (fst x) (resolve_row (snd x)) (rm_replications db)\<rparr>"
  by unfold_locales (auto simp: applyReplicationResolution_def guarded_def set_row_keys resolve_row_def)

interpretation controllers: steady_step upsertAgentController "\<lambda>c db. has_key nv_agentId (ov_agentId c) (rm_agents db)"
    "\<lambda>c db. db\<lparr>rm_controllers := upsert_by controller_key (\<lambda>old new. old\<lparr>ov_authorized := ov_authorized new\<rparr>) c (rm_controllers db)\<rparr>"
  by unfold_locales (auto simp: upsertAgentController_def guarded_def)

interpretation settlements: steady_step "\<lambda>(forecastId, z). applyForecastSettlement forecastId z"
    "\<lambda>x db. has_key fv_forecastId (fst x) (rm_forecasts db) \<and>
       references dv_decisionId (null_if_zero (fz_resolutionDecisionId (snd x))) (rm_decisions db)"
    "\<lambda>x db. db\<lparr>rm_forecasts := set_row fv_forecastId (fst x) (settle_row (snd x)) (rm_forecasts db)\<rparr>"
  by unfold_locales (auto simp: applyForecastSettlement_def guarded_def set_row_keys settle_row_def)

interpretation challenges: steady_step upsertChallenge "\<lambda>c. claim_known (hv_claimId c)"
    "\<lambda>c db. db\<lparr>rm_challenges := upsert_by hv_challengeId merge_challenge c (rm_challenges db)\<rparr>"
  by unfold_locales (auto simp: upsertChallenge_def guarded_def claim_known_def)

interpretation outcomes: steady_step "\<lambda>(challengeId, z). applyChallengeResolution challengeId z"
    "\<lambda>x db. has_key hv_challengeId (fst x) (rm_challenges db)"
    "\<lambda>x db. db\<lparr>rm_challenges := set_row hv_challengeId (fst x) (resolve_challenge_row (snd x)) (rm_challenges db)\<rparr>"
  by unfold_locales (auto simp: applyChallengeResolution_def guarded_def set_row_keys resolve_challenge_row_def)

interpretation withdrawals: steady_step "\<lambda>(challengeId, amount). applyChallengeWithdrawal challengeId amount"
    "\<lambda>x db. has_key hv_challengeId (fst x) (rm_challenges db)"
    "\<lambda>x db. db\<lparr>rm_challenges := set_row hv_challengeId (fst x) (\<lambda>c. c\<lparr>hv_refundedAmount := Some (snd x)\<rparr>) (rm_challenges db)\<rparr>"
  by unfold_locales (auto simp: applyChallengeWithdrawal_def guarded_def set_row_keys)

interpretation appeals: steady_step upsertAppeal "\<lambda>a. claim_known (lv_claimId a)"
    "\<lambda>a db. db\<lparr>rm_appeals := upsert_by lv_appealId merge_appeal a (rm_appeals db)\<rparr>"
  by unfold_locales (auto simp: upsertAppeal_def guarded_def claim_known_def)

interpretation adjudications: steady_step "\<lambda>(appealId, z). applyAppealAdjudication appealId z"
    "\<lambda>x db. has_key lv_appealId (fst x) (rm_appeals db)"
    "\<lambda>x db. db\<lparr>rm_appeals := set_row lv_appealId (fst x) (adjudicate_row (snd x)) (rm_appeals db)\<rparr>"
  by unfold_locales (auto simp: applyAppealAdjudication_def guarded_def set_row_keys adjudicate_row_def)

definition decision_change :: "resolution_decision_view \<Rightarrow> read_db \<Rightarrow> read_db" where
  "decision_change d db =
     db\<lparr>rm_decisions := insert_new dv_decisionId (d\<lparr>dv_effective := False\<rparr>) (rm_decisions db)\<rparr>"

definition decision_ok :: "resolution_decision_view \<Rightarrow> read_db \<Rightarrow> bool" where
  "decision_ok d db \<longleftrightarrow> has_key dv_decisionId (dv_decisionId d) (rm_decisions db) \<or>
     \<not> has_key dv_replicationId (dv_replicationId d) (rm_decisions db) \<and> claim_known (dv_claimId d) db \<and>
     has_key rv_replicationId (dv_replicationId d) (rm_replications db)"

interpretation decisions: checked_step insertResolutionDecision decision_ok
    "\<lambda>d db. has_key dv_decisionId (dv_decisionId d) (rm_decisions db)" decision_change
  by unfold_locales (auto simp: insertResolutionDecision_def decision_ok_def decision_change_def guarded_def
      insert_new_def has_key_def)

interpretation effective: steady_step "\<lambda>(claimId, decisionId). markEffectiveResolutionDecision claimId decisionId"
    "\<lambda>x db. decision_of (fst x) (snd x) (rm_decisions db)"
    "\<lambda>x db. db\<lparr>rm_decisions := mark_effective (fst x) (snd x) (rm_decisions db)\<rparr>"
  by unfold_locales
    (simp_all add: markEffectiveResolutionDecision_def guarded_def decision_of_iff mark_effective_ids case_prod_beta)

section \<open>The tables\<close>

interpretation claim_rows: table_writes cv_claimId "\<lambda>old new. new"
  by unfold_locales simp_all

interpretation artifact_rows: table_writes av_artifactId "\<lambda>old new. old"
  by unfold_locales simp_all

interpretation replication_rows: table_writes rv_replicationId merge_submission
  by unfold_locales (simp_all add: merge_submission_def)

interpretation decision_rows: table_writes dv_decisionId "\<lambda>old new. old"
  by unfold_locales simp_all

interpretation checkpoint_rows: table_writes pv_checkpointId "\<lambda>old new. old"
  by unfold_locales simp_all

interpretation agent_rows: table_writes nv_agentId "\<lambda>old new. new"
  by unfold_locales simp_all

interpretation controller_rows: table_writes controller_key "\<lambda>old new. old\<lparr>ov_authorized := ov_authorized new\<rparr>"
  by unfold_locales (simp_all add: controller_key_def)

lemma orelse_same [simp]: "orelse x x = x"
  by (cases x) simp_all

interpretation forecast_rows: table_writes fv_forecastId merge_forecast
  by unfold_locales (simp_all add: merge_forecast_def)

interpretation challenge_rows: table_writes hv_challengeId merge_challenge
  by unfold_locales (simp_all add: merge_challenge_def)

interpretation appeal_rows: table_writes lv_appealId merge_appeal
  by unfold_locales (simp_all add: merge_appeal_def)

definition claims_after :: "chunk_writes \<Rightarrow> claim_view list \<Rightarrow> claim_view list" where
  "claims_after w rows = map (set_rows cv_claimId (\<lambda>s c. c\<lparr>cv_status := s\<rparr>) (cw_statuses w))
     (fold (upsert_by cv_claimId (\<lambda>old new. new)) (cw_claims w) rows)"

definition artifacts_after :: "chunk_writes \<Rightarrow> artifact_view list \<Rightarrow> artifact_view list" where
  "artifacts_after w rows = fold (upsert_by av_artifactId (\<lambda>old new. old)) (cw_artifacts w) rows"

definition replications_after :: "chunk_writes \<Rightarrow> replication_view list \<Rightarrow> replication_view list" where
  "replications_after w rows = map (set_rows rv_replicationId resolve_row (cw_resolutions w))
     (fold (upsert_by rv_replicationId merge_submission) (map submitted_only (cw_replications w)) rows)"

definition effective_after :: "(string \<times> string) list \<Rightarrow> resolution_decision_view \<Rightarrow> resolution_decision_view" where
  "effective_after = set_rows dv_claimId (\<lambda>decisionId d. d\<lparr>dv_effective := (dv_decisionId d = decisionId)\<rparr>)"

definition decisions_after :: "chunk_writes \<Rightarrow> resolution_decision_view list \<Rightarrow> resolution_decision_view list" where
  "decisions_after w rows = map (effective_after (cw_effective w))
     (fold (upsert_by dv_decisionId (\<lambda>old new. old)) (map (\<lambda>d. d\<lparr>dv_effective := False\<rparr>) (cw_decisions w)) rows)"

definition checkpoints_after :: "chunk_writes \<Rightarrow> checkpoint_view list \<Rightarrow> checkpoint_view list" where
  "checkpoints_after w rows = fold (upsert_by pv_checkpointId (\<lambda>old new. old)) (cw_checkpoints w) rows"

definition agents_after :: "chunk_writes \<Rightarrow> agent_view list \<Rightarrow> agent_view list" where
  "agents_after w rows = fold (upsert_by nv_agentId (\<lambda>old new. new)) (cw_agents w) rows"

definition controllers_after :: "chunk_writes \<Rightarrow> agent_controller_view list \<Rightarrow> agent_controller_view list" where
  "controllers_after w rows = fold (upsert_by controller_key (\<lambda>old new. old\<lparr>ov_authorized := ov_authorized new\<rparr>)) (cw_controllers w) rows"

definition forecasts_after :: "chunk_writes \<Rightarrow> forecast_view list \<Rightarrow> forecast_view list" where
  "forecasts_after w rows = map (set_rows fv_forecastId settle_row (cw_settlements w))
     (fold (upsert_by fv_forecastId merge_forecast) (cw_forecasts w) rows)"

definition challenge_settled :: "chunk_writes \<Rightarrow> challenge_view \<Rightarrow> challenge_view" where
  "challenge_settled w c = set_rows hv_challengeId (\<lambda>amount c. c\<lparr>hv_refundedAmount := Some amount\<rparr>) (cw_withdrawals w)
     (set_rows hv_challengeId resolve_challenge_row (cw_challengeResolutions w) c)"

definition challenges_after :: "chunk_writes \<Rightarrow> challenge_view list \<Rightarrow> challenge_view list" where
  "challenges_after w rows = map (challenge_settled w)
     (fold (upsert_by hv_challengeId merge_challenge) (cw_challenges w) rows)"

definition appeals_after :: "chunk_writes \<Rightarrow> appeal_view list \<Rightarrow> appeal_view list" where
  "appeals_after w rows = map (set_rows lv_appealId adjudicate_row (cw_adjudications w))
     (fold (upsert_by lv_appealId merge_appeal) (cw_appeals w) rows)"

definition tables_after :: "chunk_writes \<Rightarrow> read_db \<Rightarrow> read_db" where
  "tables_after w db = db\<lparr>rm_claims := claims_after w (rm_claims db),
     rm_artifacts := artifacts_after w (rm_artifacts db),
     rm_replications := replications_after w (rm_replications db),
     rm_decisions := decisions_after w (rm_decisions db),
     rm_checkpoints := checkpoints_after w (rm_checkpoints db),
     rm_agents := agents_after w (rm_agents db),
     rm_controllers := controllers_after w (rm_controllers db),
     rm_forecasts := forecasts_after w (rm_forecasts db),
     rm_challenges := challenges_after w (rm_challenges db),
     rm_appeals := appeals_after w (rm_appeals db)\<rparr>"

subsection \<open>Writing the rows again\<close>

lemma claims_again: "claims_after w (claims_after w rows) = claims_after w rows"
  unfolding claims_after_def by (rule claim_rows.writes_again [OF _ _ _ _ _ refl]) simp_all

lemma artifacts_again: "artifacts_after w (artifacts_after w rows) = artifacts_after w rows"
  unfolding artifacts_after_def by (rule artifact_rows.upserts_again [OF _ refl]) simp_all

lemma replications_again: "replications_after w (replications_after w rows) = replications_after w rows"
  unfolding replications_after_def
  by (rule replication_rows.writes_again [OF _ _ _ _ _ refl]) (simp_all add: merge_submission_def resolve_row_def)

lemma checkpoints_again: "checkpoints_after w (checkpoints_after w rows) = checkpoints_after w rows"
  unfolding checkpoints_after_def by (rule checkpoint_rows.upserts_again [OF _ refl]) simp_all

lemma agents_again: "agents_after w (agents_after w rows) = agents_after w rows"
  unfolding agents_after_def by (rule agent_rows.upserts_again [OF _ refl]) simp_all

lemma controllers_again: "controllers_after w (controllers_after w rows) = controllers_after w rows"
  unfolding controllers_after_def
  by (rule controller_rows.upserts_again [OF _ refl]) simp_all

lemma orelse_again [simp]: "orelse (orelse x y) y = orelse x y"
  by (cases x) simp_all

lemma forecasts_again:
  "distinct (map fv_forecastId (cw_forecasts w)) \<Longrightarrow> forecasts_after w (forecasts_after w rows) = forecasts_after w rows"
  unfolding forecasts_after_def
  by (rule forecast_rows.writes_again [OF _ _ _ _ _ refl]) (simp_all add: merge_forecast_def settle_row_def)

lemma appeals_again:
  "distinct (map lv_appealId (cw_appeals w)) \<Longrightarrow> appeals_after w (appeals_after w rows) = appeals_after w rows"
  unfolding appeals_after_def
  by (rule appeal_rows.writes_again [OF _ _ _ _ _ refl]) (simp_all add: merge_appeal_def adjudicate_row_def)

lemma touch_kept [simp]: "touch key (\<lambda>old new. old) xs r = r"
  by (induction xs) (simp_all add: touch_def)

lemma effective_after_ids [simp]:
  "dv_claimId (effective_after zs r) = dv_claimId r" "dv_decisionId (effective_after zs r) = dv_decisionId r"
  "dv_replicationId (effective_after zs r) = dv_replicationId r"
  unfolding effective_after_def by (induction zs arbitrary: r) simp_all

lemma effective_again: "effective_after zs (effective_after zs r) = effective_after zs r"
proof -
  let ?f = "\<lambda>decisionId d. d\<lparr>dv_effective := (dv_decisionId d = decisionId)\<rparr>"
  from set_rows_last [of ?f dv_claimId "dv_claimId r" zs]
  obtain z where z: "\<And>s. dv_claimId s = dv_claimId r \<Longrightarrow> effective_after zs s = (case z of None \<Rightarrow> s | Some x \<Rightarrow> ?f x s)"
    unfolding effective_after_def by auto
  show ?thesis using z [of r] z [of "effective_after zs r"] by (cases z) simp_all
qed

lemma decisions_again: "decisions_after w (decisions_after w rows) = decisions_after w rows"
  unfolding decisions_after_def
  by (rule decision_rows.writes_idempotent [OF _ _ refl]) (simp_all add: effective_again)

lemma challenge_settled_id [simp]: "hv_challengeId (challenge_settled w c) = hv_challengeId c"
  unfolding challenge_settled_def by (simp add: set_rows_key resolve_challenge_row_def)

lemma challenges_again:
  assumes "distinct (map hv_challengeId (cw_challenges w))"
  shows "challenges_after w (challenges_after w rows) = challenges_after w rows"
  unfolding challenges_after_def
proof (rule challenge_rows.writes_idempotent [OF _ _ refl])
  fix c :: challenge_view
  let ?t = "touch hv_challengeId merge_challenge (cw_challenges w)" and ?g = "challenge_settled w"
    and ?f = "\<lambda>amount c. c\<lparr>hv_refundedAmount := Some amount\<rparr> :: challenge_view" and ?k = "hv_challengeId c"
  from challenge_rows.touch_once [OF assms, of ?k] obtain t where
    t: "\<And>x. hv_challengeId x = ?k \<Longrightarrow> ?t x = (case t of None \<Rightarrow> x | Some y \<Rightarrow> merge_challenge x y)"
      "\<And>y. t = Some y \<Longrightarrow> hv_challengeId y = ?k" by blast
  from set_rows_last [of resolve_challenge_row hv_challengeId ?k "cw_challengeResolutions w"] obtain z where
    z: "\<And>x. hv_challengeId x = ?k \<Longrightarrow> set_rows hv_challengeId resolve_challenge_row (cw_challengeResolutions w) x =
      (case z of None \<Rightarrow> x | Some y \<Rightarrow> resolve_challenge_row y x)" by (auto simp: resolve_challenge_row_def)
  from set_rows_last [of ?f hv_challengeId ?k "cw_withdrawals w"] obtain v where
    v: "\<And>x. hv_challengeId x = ?k \<Longrightarrow> set_rows hv_challengeId ?f (cw_withdrawals w) x =
      (case v of None \<Rightarrow> x | Some y \<Rightarrow> ?f y x)" by auto
  define T where "T x = (case t of None \<Rightarrow> x | Some y \<Rightarrow> merge_challenge x y)" for x
  define G where "G x = (case v of None \<Rightarrow> \<lambda>x. x | Some y \<Rightarrow> ?f y) (case z of None \<Rightarrow> x | Some y \<Rightarrow> resolve_challenge_row y x)" for x
  have g: "?g x = G x" if "hv_challengeId x = ?k" for x
    using that z [of x] v [of "case z of None \<Rightarrow> x | Some y \<Rightarrow> resolve_challenge_row y x"]
    by (auto simp: G_def challenge_settled_def resolve_challenge_row_def split: option.splits)
  have ids: "hv_challengeId (?t c) = ?k" "hv_challengeId (?g (?t c)) = ?k" "hv_challengeId (?t (?g (?t c))) = ?k"
    by simp_all
  have touched: "?t x = T x" if "hv_challengeId x = ?k" for x using t(1) [OF that] by (simp add: T_def)
  have e1: "?t c = T c" by (rule touched) simp
  have e2: "?g (?t c) = G (T c)" using g [OF ids(1)] unfolding e1 .
  have e3: "?t (?g (?t c)) = T (G (T c))" using touched [OF ids(2)] unfolding e2 .
  have "?g (?t (?g (?t c))) = G (T (G (T c)))" using g [OF ids(3)] unfolding e3 .
  moreover have "G (T (G (T c))) = G (T c)"
    by (cases t; cases z; cases v) (simp_all add: T_def G_def merge_challenge_def resolve_challenge_row_def)
  ultimately show "?g (?t (?g (?t c))) = ?g (?t c)" by (simp only: e2)
qed simp

subsection \<open>One loop, one table\<close>

lemma fold_updates:
  "fold (\<lambda>x db. db\<lparr>rm_claims := set_row cv_claimId (fst x) (\<lambda>c. c\<lparr>cv_status := snd x\<rparr>) (rm_claims db)\<rparr>) xs1 db =
     db\<lparr>rm_claims := map (set_rows cv_claimId (\<lambda>s c. c\<lparr>cv_status := s\<rparr>) xs1) (rm_claims db)\<rparr>"
  "fold (\<lambda>x db. db\<lparr>rm_replications := set_row rv_replicationId (fst x) (resolve_row (snd x)) (rm_replications db)\<rparr>) xs2 db =
     db\<lparr>rm_replications := map (set_rows rv_replicationId resolve_row xs2) (rm_replications db)\<rparr>"
  "fold (\<lambda>x db. db\<lparr>rm_forecasts := set_row fv_forecastId (fst x) (settle_row (snd x)) (rm_forecasts db)\<rparr>) xs3 db =
     db\<lparr>rm_forecasts := map (set_rows fv_forecastId settle_row xs3) (rm_forecasts db)\<rparr>"
  "fold (\<lambda>x db. db\<lparr>rm_challenges := set_row hv_challengeId (fst x) (resolve_challenge_row (snd x)) (rm_challenges db)\<rparr>) xs4 db =
     db\<lparr>rm_challenges := map (set_rows hv_challengeId resolve_challenge_row xs4) (rm_challenges db)\<rparr>"
  "fold (\<lambda>x db. db\<lparr>rm_challenges := set_row hv_challengeId (fst x) (\<lambda>c. c\<lparr>hv_refundedAmount := Some (snd x)\<rparr>) (rm_challenges db)\<rparr>) xs5 db =
     db\<lparr>rm_challenges := map (set_rows hv_challengeId (\<lambda>amount c. c\<lparr>hv_refundedAmount := Some amount\<rparr>) xs5) (rm_challenges db)\<rparr>"
  "fold (\<lambda>x db. db\<lparr>rm_appeals := set_row lv_appealId (fst x) (adjudicate_row (snd x)) (rm_appeals db)\<rparr>) xs6 db =
     db\<lparr>rm_appeals := map (set_rows lv_appealId adjudicate_row xs6) (rm_appeals db)\<rparr>"
  subgoal by (induction xs1 arbitrary: db) (simp_all add: set_row_def update_where_def comp_def)
  subgoal by (induction xs2 arbitrary: db) (simp_all add: set_row_def update_where_def comp_def)
  subgoal by (induction xs3 arbitrary: db) (simp_all add: set_row_def update_where_def comp_def)
  subgoal by (induction xs4 arbitrary: db) (simp_all add: set_row_def update_where_def comp_def)
  subgoal by (induction xs5 arbitrary: db) (simp_all add: set_row_def update_where_def comp_def)
  subgoal by (induction xs6 arbitrary: db) (simp_all add: set_row_def update_where_def comp_def)
  done

lemma fold_upserts:
  "fold (\<lambda>x db. db\<lparr>rm_artifacts := insert_new av_artifactId x (rm_artifacts db)\<rparr>) xs1 db = db\<lparr>rm_artifacts := fold (upsert_by av_artifactId (\<lambda>old new. old)) xs1 (rm_artifacts db)\<rparr>"
  "fold (\<lambda>x db. db\<lparr>rm_replications := upsert_by rv_replicationId merge_submission (submitted_only x) (rm_replications db)\<rparr>) xs2 db = db\<lparr>rm_replications := fold (upsert_by rv_replicationId merge_submission) (map submitted_only xs2) (rm_replications db)\<rparr>"
  "fold (\<lambda>x db. db\<lparr>rm_controllers := upsert_by controller_key (\<lambda>old new. old\<lparr>ov_authorized := ov_authorized new\<rparr>) x (rm_controllers db)\<rparr>) xs3 db = db\<lparr>rm_controllers := fold (upsert_by controller_key (\<lambda>old new. old\<lparr>ov_authorized := ov_authorized new\<rparr>)) xs3 (rm_controllers db)\<rparr>"
  "fold (\<lambda>x db. db\<lparr>rm_challenges := upsert_by hv_challengeId merge_challenge x (rm_challenges db)\<rparr>) xs4 db = db\<lparr>rm_challenges := fold (upsert_by hv_challengeId merge_challenge) xs4 (rm_challenges db)\<rparr>"
  "fold (\<lambda>x db. db\<lparr>rm_appeals := upsert_by lv_appealId merge_appeal x (rm_appeals db)\<rparr>) xs5 db = db\<lparr>rm_appeals := fold (upsert_by lv_appealId merge_appeal) xs5 (rm_appeals db)\<rparr>"
  "fold upsertClaim xs6 db = db\<lparr>rm_claims := fold (upsert_by cv_claimId (\<lambda>old new. new)) xs6 (rm_claims db)\<rparr>"
  "fold insertCheckpoint xs7 db = db\<lparr>rm_checkpoints := fold (upsert_by pv_checkpointId (\<lambda>old new. old)) xs7 (rm_checkpoints db)\<rparr>"
  "fold upsertAgent xs8 db = db\<lparr>rm_agents := fold (upsert_by nv_agentId (\<lambda>old new. new)) xs8 (rm_agents db)\<rparr>"
  "fold decision_change xs9 db = db\<lparr>rm_decisions := fold (upsert_by dv_decisionId (\<lambda>old new. old))
     (map (\<lambda>d. d\<lparr>dv_effective := False\<rparr>) xs9) (rm_decisions db)\<rparr>"
  subgoal by (induction xs1 arbitrary: db) (simp_all add: insert_new_upsert upsertClaim_def insertCheckpoint_def upsertAgent_def decision_change_def)
  subgoal by (induction xs2 arbitrary: db) (simp_all add: insert_new_upsert upsertClaim_def insertCheckpoint_def upsertAgent_def decision_change_def)
  subgoal by (induction xs3 arbitrary: db) (simp_all add: insert_new_upsert upsertClaim_def insertCheckpoint_def upsertAgent_def decision_change_def)
  subgoal by (induction xs4 arbitrary: db) (simp_all add: insert_new_upsert upsertClaim_def insertCheckpoint_def upsertAgent_def decision_change_def)
  subgoal by (induction xs5 arbitrary: db) (simp_all add: insert_new_upsert upsertClaim_def insertCheckpoint_def upsertAgent_def decision_change_def)
  subgoal by (induction xs6 arbitrary: db) (simp_all add: insert_new_upsert upsertClaim_def insertCheckpoint_def upsertAgent_def decision_change_def)
  subgoal by (induction xs7 arbitrary: db) (simp_all add: insert_new_upsert upsertClaim_def insertCheckpoint_def upsertAgent_def decision_change_def)
  subgoal by (induction xs8 arbitrary: db) (simp_all add: insert_new_upsert upsertClaim_def insertCheckpoint_def upsertAgent_def decision_change_def)
  subgoal by (induction xs9 arbitrary: db) (simp_all add: insert_new_upsert upsertClaim_def insertCheckpoint_def upsertAgent_def decision_change_def)
  done

lemma fold_effective:
  "fold (\<lambda>x db. db\<lparr>rm_decisions := mark_effective (fst x) (snd x) (rm_decisions db)\<rparr>) zs db =
     db\<lparr>rm_decisions := map (effective_after zs) (rm_decisions db)\<rparr>"
  by (induction zs arbitrary: db) (simp_all add: effective_after_def mark_effective_row comp_def)

lemma forecasts_loop:
  "distinct (map fv_forecastId fs) \<Longrightarrow> in_turn upsertForecast fs db = Inr db' \<longleftrightarrow>
     (\<forall>f \<in> set fs. forecast_keys_known (written_forecast f db) db) \<and>
     db' = db\<lparr>rm_forecasts := fold (upsert_by fv_forecastId merge_forecast) fs (rm_forecasts db)\<rparr>"
proof (induction fs arbitrary: db)
  case (Cons f fs)
  let ?db = "db\<lparr>rm_forecasts := upsert_by fv_forecastId merge_forecast f (rm_forecasts db)\<rparr>"
  have "written_forecast g ?db = written_forecast g db" if "g \<in> set fs" for g
  proof -
    have "fv_forecastId g \<noteq> fv_forecastId f" using that Cons.prems by (metis distinct.simps(2) image_eqI list.map(2) list.set_map)
    then show ?thesis by (simp add: written_forecast_def forecast_rows.find_upsert)
  qed
  moreover have "forecast_keys_known g ?db = forecast_keys_known g db" for g
    by (simp add: forecast_keys_known_def claim_known_def)
  ultimately show ?case using Cons.IH [of ?db] Cons.prems
    by (auto simp: and_then_Inr upsertForecast_def guarded_def)
qed auto

section \<open>Committing and committing again\<close>

definition writes_kept :: "chunk_writes \<Rightarrow> read_db \<Rightarrow> bool" where
  "writes_kept w db \<longleftrightarrow> (\<forall>x \<in> set (cw_statuses w). claim_known (fst x) db) \<and>
     (\<forall>a \<in> set (cw_artifacts w). has_key av_artifactId (av_artifactId a) (rm_artifacts db)) \<and>
     (\<forall>r \<in> set (cw_replications w). claim_known (rv_claimId r) db) \<and>
     (\<forall>x \<in> set (cw_resolutions w). has_key rv_replicationId (fst x) (rm_replications db)) \<and>
     (\<forall>d \<in> set (cw_decisions w). has_key dv_decisionId (dv_decisionId d) (rm_decisions db)) \<and>
     (\<forall>x \<in> set (cw_effective w). decision_of (fst x) (snd x) (rm_decisions db)) \<and>
     (\<forall>c \<in> set (cw_controllers w). has_key nv_agentId (ov_agentId c) (rm_agents db)) \<and>
     (\<forall>x \<in> set (cw_settlements w). has_key fv_forecastId (fst x) (rm_forecasts db) \<and>
        references dv_decisionId (null_if_zero (fz_resolutionDecisionId (snd x))) (rm_decisions db)) \<and>
     (\<forall>c \<in> set (cw_challenges w). claim_known (hv_claimId c) db) \<and>
     (\<forall>x \<in> set (cw_challengeResolutions w). has_key hv_challengeId (fst x) (rm_challenges db)) \<and>
     (\<forall>x \<in> set (cw_withdrawals w). has_key hv_challengeId (fst x) (rm_challenges db)) \<and>
     (\<forall>a \<in> set (cw_appeals w). claim_known (lv_claimId a) db) \<and>
     (\<forall>x \<in> set (cw_adjudications w). has_key lv_appealId (fst x) (rm_appeals db))"

definition forecasts_kept :: "chunk_writes \<Rightarrow> read_db \<Rightarrow> bool" where
  "forecasts_kept w db \<longleftrightarrow> (\<forall>f \<in> set (cw_forecasts w). forecast_keys_known (written_forecast f db) db)"

lemmas loops = statuses.loop submissions.loop resolutions.loop controllers.loop settlements.loop challenges.loop
  outcomes.loop withdrawals.loop appeals.loop adjudications.loop effective.loop

lemma status_fold: "fold status_change xs db =
    db\<lparr>rm_claims := map (set_rows cv_claimId (\<lambda>s c. c\<lparr>cv_status := s\<rparr>) xs) (rm_claims db)\<rparr>"
  unfolding status_change_def [abs_def] by (rule fold_updates)

lemmas phases = status_fold fold_updates fold_upserts fold_effective

lemma has_key_map:
  assumes "\<And>r. key (g r) = key r"
  shows "has_key key k (map g rows) = has_key key k rows"
  by (simp add: has_key_iff image_image assms)

lemma has_key_after:
  "has_key cv_claimId k (map (set_rows cv_claimId (\<lambda>s c. c\<lparr>cv_status := s\<rparr>) ss) cs) = has_key cv_claimId k cs"
  "has_key rv_replicationId k (map (set_rows rv_replicationId resolve_row zs) rs) = has_key rv_replicationId k rs"
  "has_key dv_decisionId k (map (effective_after es) ds) = has_key dv_decisionId k ds"
  "has_key fv_forecastId k (map (set_rows fv_forecastId settle_row ys) fs) = has_key fv_forecastId k fs"
  "has_key hv_challengeId k (map (set_rows hv_challengeId resolve_challenge_row os) hs) = has_key hv_challengeId k hs"
  "has_key hv_challengeId k (map (set_rows hv_challengeId (\<lambda>amount c. c\<lparr>hv_refundedAmount := Some amount\<rparr>) vs) hs) =
     has_key hv_challengeId k hs"
  "has_key lv_appealId k (map (set_rows lv_appealId adjudicate_row js) as) = has_key lv_appealId k as"
  by (rule has_key_map, (rule set_rows_key)?, simp add: resolve_row_def settle_row_def resolve_challenge_row_def adjudicate_row_def)+

lemmas has_key_folds = claim_rows.has_key_fold artifact_rows.has_key_fold replication_rows.has_key_fold
  decision_rows.has_key_fold agent_rows.has_key_fold forecast_rows.has_key_fold challenge_rows.has_key_fold
  appeal_rows.has_key_fold

lemma decision_of_after: "decision_of c d (map (effective_after es) ds) = decision_of c d ds"
  by (simp add: decision_of_iff comp_def)

lemmas afters = claims_after_def artifacts_after_def replications_after_def decisions_after_def checkpoints_after_def
  agents_after_def controllers_after_def forecasts_after_def challenges_after_def appeals_after_def

lemma challenge_settled_maps: "map (set_rows hv_challengeId (\<lambda>amount c. c\<lparr>hv_refundedAmount := Some amount\<rparr>) (cw_withdrawals w))
    (map (set_rows hv_challengeId resolve_challenge_row (cw_challengeResolutions w)) rows) = map (challenge_settled w) rows"
  by (simp add: challenge_settled_def comp_def)

lemma committed_tables:
  assumes "writeTables w db = Inr db'" and "distinct (map fv_forecastId (cw_forecasts w))"
  shows "db' = tables_after w db"
  using assms(1) unfolding writeTables_def
  by (auto simp: and_then_Inr loops phases forecasts_loop [OF assms(2)] tables_after_def afters
      challenge_settled_maps simp del: map_map dest!: artifacts.succeeded decisions.succeeded)

text \<open>No write removes a row, so that what a loop has checked is still there at the end.\<close>

definition grows :: "read_db \<Rightarrow> read_db \<Rightarrow> bool" where
  "grows a b \<longleftrightarrow> (\<forall>k. claim_known k a \<longrightarrow> claim_known k b) \<and>
     (\<forall>k. has_key av_artifactId k (rm_artifacts a) \<longrightarrow> has_key av_artifactId k (rm_artifacts b)) \<and>
     (\<forall>k. has_key rv_replicationId k (rm_replications a) \<longrightarrow> has_key rv_replicationId k (rm_replications b)) \<and>
     (\<forall>k. has_key dv_decisionId k (rm_decisions a) \<longrightarrow> has_key dv_decisionId k (rm_decisions b)) \<and>
     (\<forall>c d. decision_of c d (rm_decisions a) \<longrightarrow> decision_of c d (rm_decisions b)) \<and>
     (\<forall>k. has_key nv_agentId k (rm_agents a) \<longrightarrow> has_key nv_agentId k (rm_agents b)) \<and>
     (\<forall>k. has_key fv_forecastId k (rm_forecasts a) \<longrightarrow> has_key fv_forecastId k (rm_forecasts b)) \<and>
     (\<forall>k. has_key hv_challengeId k (rm_challenges a) \<longrightarrow> has_key hv_challengeId k (rm_challenges b)) \<and>
     (\<forall>k. has_key lv_appealId k (rm_appeals a) \<longrightarrow> has_key lv_appealId k (rm_appeals b))"

lemma grows_refl [simp]: "grows a a"
  by (simp add: grows_def)

lemma grows_trans [trans]: "grows a b \<Longrightarrow> grows b c \<Longrightarrow> grows a c"
  by (simp add: grows_def)

lemma decision_of_insert: "decision_of c d rows \<Longrightarrow> decision_of c d (fold (upsert_by dv_decisionId (\<lambda>old new. old)) ds rows)"
proof (induction ds arbitrary: rows)
  case (Cons x ds)
  have "decision_of c d (upsert_by dv_decisionId (\<lambda>old new. old) x rows)"
    using Cons.prems by (auto simp: decision_of_def upsert_by_def update_where_def)
  with Cons.IH show ?case by simp
qed simp

lemmas grow_rules = grows_def claim_known_def has_key_after has_key_folds decision_of_after decision_of_insert

lemma references_grows: "references dv_decisionId x (rm_decisions a) \<Longrightarrow> grows a b \<Longrightarrow> references dv_decisionId x (rm_decisions b)"
  by (simp add: references_def grows_def split: option.splits)

lemma status_phase: "in_turn (\<lambda>(claimId, status). updateClaimStatus claimId status) xs a = Inr b \<Longrightarrow>
    grows a b \<and> (\<forall>x \<in> set xs. claim_known (fst x) b)"
  by (simp add: loops phases grow_rules)

lemma artifact_phase: "in_turn insertArtifact xs a = Inr b \<Longrightarrow>
    grows a b \<and> (\<forall>x \<in> set xs. has_key av_artifactId (av_artifactId x) (rm_artifacts b))"
  by (drule artifacts.succeeded) (simp add: phases grow_rules)

lemma submission_phase: "in_turn upsertReplicationSubmission xs a = Inr b \<Longrightarrow>
    grows a b \<and> (\<forall>x \<in> set xs. claim_known (rv_claimId x) b)"
  by (simp add: loops phases grow_rules)

lemma resolution_phase: "in_turn (\<lambda>(replicationId, z). applyReplicationResolution replicationId z) xs a = Inr b \<Longrightarrow>
    grows a b \<and> (\<forall>x \<in> set xs. has_key rv_replicationId (fst x) (rm_replications b))"
  by (simp add: loops phases grow_rules)

lemma decision_phase: "in_turn insertResolutionDecision xs a = Inr b \<Longrightarrow>
    grows a b \<and> (\<forall>x \<in> set xs. has_key dv_decisionId (dv_decisionId x) (rm_decisions b))"
  by (drule decisions.succeeded) (auto simp: phases grow_rules image_image)

lemma effective_phase: "in_turn (\<lambda>(claimId, decisionId). markEffectiveResolutionDecision claimId decisionId) xs a = Inr b \<Longrightarrow>
    grows a b \<and> (\<forall>x \<in> set xs. decision_of (fst x) (snd x) (rm_decisions b))"
  by (simp add: loops phases grow_rules)

lemma plain_phase: "grows a (fold upsertClaim cs a)" "grows a (fold insertCheckpoint ps a)" "grows a (fold upsertAgent ns a)"
  by (simp_all add: phases grow_rules)

lemma controller_phase: "in_turn upsertAgentController xs a = Inr b \<Longrightarrow>
    grows a b \<and> (\<forall>x \<in> set xs. has_key nv_agentId (ov_agentId x) (rm_agents b))"
  by (simp add: loops phases grow_rules)

lemma forecast_phase:
  assumes "in_turn upsertForecast xs a = Inr b" and "distinct (map fv_forecastId xs)"
  shows "grows a b \<and> (\<forall>x \<in> set xs. forecast_keys_known (written_forecast x a) a)"
  using assms(1) by (simp add: forecasts_loop [OF assms(2)] grow_rules)

lemma settlement_phase: "in_turn (\<lambda>(forecastId, z). applyForecastSettlement forecastId z) xs a = Inr b \<Longrightarrow>
    grows a b \<and> (\<forall>x \<in> set xs. has_key fv_forecastId (fst x) (rm_forecasts b) \<and>
      references dv_decisionId (null_if_zero (fz_resolutionDecisionId (snd x))) (rm_decisions b))"
  by (simp add: loops phases grow_rules)

lemma challenge_phase: "in_turn upsertChallenge xs a = Inr b \<Longrightarrow> grows a b \<and> (\<forall>x \<in> set xs. claim_known (hv_claimId x) b)"
  by (simp add: loops phases grow_rules)

lemma outcome_phase: "in_turn (\<lambda>(challengeId, z). applyChallengeResolution challengeId z) xs a = Inr b \<Longrightarrow>
    grows a b \<and> (\<forall>x \<in> set xs. has_key hv_challengeId (fst x) (rm_challenges b))"
  by (simp add: loops phases grow_rules)

lemma withdrawal_phase: "in_turn (\<lambda>(challengeId, amount). applyChallengeWithdrawal challengeId amount) xs a = Inr b \<Longrightarrow>
    grows a b \<and> (\<forall>x \<in> set xs. has_key hv_challengeId (fst x) (rm_challenges b))"
  by (simp add: loops phases grow_rules)

lemma appeal_phase: "in_turn upsertAppeal xs a = Inr b \<Longrightarrow> grows a b \<and> (\<forall>x \<in> set xs. claim_known (lv_claimId x) b)"
  by (simp add: loops phases grow_rules)

lemma adjudication_phase: "in_turn (\<lambda>(appealId, z). applyAppealAdjudication appealId z) xs a = Inr b \<Longrightarrow>
    grows a b \<and> (\<forall>x \<in> set xs. has_key lv_appealId (fst x) (rm_appeals b))"
  by (simp add: loops phases grow_rules)

lemma keys_known_grows: "forecast_keys_known f a \<Longrightarrow> grows a b \<Longrightarrow> forecast_keys_known f b"
  by (auto simp: forecast_keys_known_def intro: references_grows) (simp add: grows_def)

lemma committed_kept:
  assumes w: "writeTables w db = Inr db'" and d: "distinct (map fv_forecastId (cw_forecasts w))"
  shows "writes_kept w db'" and "\<forall>f \<in> set (cw_forecasts w). forecast_keys_known (written_forecast f db) db'"
proof -
  from w obtain d1 d2 d3 d4 d5 d6 d7 d8 d9 d10 d11 d12 d13 where
    p1: "in_turn (\<lambda>(claimId, status). updateClaimStatus claimId status) (cw_statuses w) (fold upsertClaim (cw_claims w) db) = Inr d1"
    and p2: "in_turn insertArtifact (cw_artifacts w) d1 = Inr d2"
    and p3: "in_turn upsertReplicationSubmission (cw_replications w) d2 = Inr d3"
    and p4: "in_turn (\<lambda>(replicationId, z). applyReplicationResolution replicationId z) (cw_resolutions w) d3 = Inr d4"
    and p5: "in_turn insertResolutionDecision (cw_decisions w) d4 = Inr d5"
    and p6: "in_turn (\<lambda>(claimId, decisionId). markEffectiveResolutionDecision claimId decisionId) (cw_effective w) d5 = Inr d6"
    and p7: "in_turn upsertAgentController (cw_controllers w)
        (fold upsertAgent (cw_agents w) (fold insertCheckpoint (cw_checkpoints w) d6)) = Inr d7"
    and p8: "in_turn upsertForecast (cw_forecasts w) d7 = Inr d8"
    and p9: "in_turn (\<lambda>(forecastId, z). applyForecastSettlement forecastId z) (cw_settlements w) d8 = Inr d9"
    and p10: "in_turn upsertChallenge (cw_challenges w) d9 = Inr d10"
    and p11: "in_turn (\<lambda>(challengeId, z). applyChallengeResolution challengeId z) (cw_challengeResolutions w) d10 = Inr d11"
    and p12: "in_turn (\<lambda>(challengeId, amount). applyChallengeWithdrawal challengeId amount) (cw_withdrawals w) d11 = Inr d12"
    and p13: "in_turn upsertAppeal (cw_appeals w) d12 = Inr d13"
    and p14: "in_turn (\<lambda>(appealId, z). applyAppealAdjudication appealId z) (cw_adjudications w) d13 = Inr db'"
    unfolding writeTables_def by (simp only: and_then_Inr) blast
  note g14 = conjunct1 [OF adjudication_phase [OF p14]]
  note g13 = grows_trans [OF conjunct1 [OF appeal_phase [OF p13]] g14]
  note g12 = grows_trans [OF conjunct1 [OF withdrawal_phase [OF p12]] g13]
  note g11 = grows_trans [OF conjunct1 [OF outcome_phase [OF p11]] g12]
  note g10 = grows_trans [OF conjunct1 [OF challenge_phase [OF p10]] g11]
  note g9 = grows_trans [OF conjunct1 [OF settlement_phase [OF p9]] g10]
  note g8 = grows_trans [OF conjunct1 [OF forecast_phase [OF p8 d]] g9]
  note g7 = grows_trans [OF grows_trans [OF grows_trans [OF plain_phase(2) plain_phase(3)] conjunct1 [OF controller_phase [OF p7]]] g8]
  note g6 = grows_trans [OF conjunct1 [OF effective_phase [OF p6]] g7]
  note g5 = grows_trans [OF conjunct1 [OF decision_phase [OF p5]] g6]
  note g4 = grows_trans [OF conjunct1 [OF resolution_phase [OF p4]] g5]
  note g3 = grows_trans [OF conjunct1 [OF submission_phase [OF p3]] g4]
  note g2 = grows_trans [OF conjunct1 [OF artifact_phase [OF p2]] g3]
  show "writes_kept w db'"
    unfolding writes_kept_def
  proof (intro conjI)
    show "\<forall>x \<in> set (cw_statuses w). claim_known (fst x) db'" using status_phase [OF p1] g2 by (simp add: grows_def)
    show "\<forall>a \<in> set (cw_artifacts w). has_key av_artifactId (av_artifactId a) (rm_artifacts db')"
      using artifact_phase [OF p2] g3 by (simp add: grows_def)
    show "\<forall>r \<in> set (cw_replications w). claim_known (rv_claimId r) db'"
      using submission_phase [OF p3] g4 by (simp add: grows_def)
    show "\<forall>x \<in> set (cw_resolutions w). has_key rv_replicationId (fst x) (rm_replications db')"
      using resolution_phase [OF p4] g5 by (simp add: grows_def)
    show "\<forall>d \<in> set (cw_decisions w). has_key dv_decisionId (dv_decisionId d) (rm_decisions db')"
      using decision_phase [OF p5] g6 by (simp add: grows_def)
    show "\<forall>x \<in> set (cw_effective w). decision_of (fst x) (snd x) (rm_decisions db')"
      using effective_phase [OF p6] g7 by (simp add: grows_def)
    show "\<forall>c \<in> set (cw_controllers w). has_key nv_agentId (ov_agentId c) (rm_agents db')"
      using controller_phase [OF p7] g8 by (simp add: grows_def)
    show "\<forall>x \<in> set (cw_settlements w). has_key fv_forecastId (fst x) (rm_forecasts db') \<and>
        references dv_decisionId (null_if_zero (fz_resolutionDecisionId (snd x))) (rm_decisions db')"
      using settlement_phase [OF p9] g10 references_grows [OF _ g10] by (simp add: grows_def)
    show "\<forall>c \<in> set (cw_challenges w). claim_known (hv_claimId c) db'"
      using challenge_phase [OF p10] g11 by (simp add: grows_def)
    show "\<forall>x \<in> set (cw_challengeResolutions w). has_key hv_challengeId (fst x) (rm_challenges db')"
      using outcome_phase [OF p11] g12 by (simp add: grows_def)
    show "\<forall>x \<in> set (cw_withdrawals w). has_key hv_challengeId (fst x) (rm_challenges db')"
      using withdrawal_phase [OF p12] g13 by (simp add: grows_def)
    show "\<forall>a \<in> set (cw_appeals w). claim_known (lv_claimId a) db'"
      using appeal_phase [OF p13] g14 by (simp add: grows_def)
    show "\<forall>x \<in> set (cw_adjudications w). has_key lv_appealId (fst x) (rm_appeals db')"
      using adjudication_phase [OF p14] by simp
  qed
  have "rm_forecasts d7 = rm_forecasts db"
    using p1 p3 p4 p6 p7 artifacts.succeeded [OF p2] decisions.succeeded [OF p5] by (simp add: loops phases)
  then have "written_forecast f d7 = written_forecast f db" for f by (simp add: written_forecast_def)
  with forecast_phase [OF p8 d] show "\<forall>f \<in> set (cw_forecasts w). forecast_keys_known (written_forecast f db) db'"
    using keys_known_grows [OF _ grows_trans [OF _ g9]] by metis
qed

lemma kept_grows: "writes_kept w a \<Longrightarrow> grows a b \<Longrightarrow> writes_kept w b"
  by (auto simp: writes_kept_def grows_def references_def split: option.splits)

lemma kept_commits:
  assumes k: "writes_kept w db" and f: "forecasts_kept w db" and d: "distinct (map fv_forecastId (cw_forecasts w))"
  shows "writeTables w db = Inr (tables_after w db)"
proof -
  have c: "grows db (fold upsertClaim (cw_claims w) db)" by (rule plain_phase)
  obtain d1 where p1: "in_turn (\<lambda>(claimId, status). updateClaimStatus claimId status) (cw_statuses w) (fold upsertClaim (cw_claims w) db) = Inr d1"
    using kept_grows [OF k c] by (simp add: statuses.loop writes_kept_def)
  note g1 = grows_trans [OF c conjunct1 [OF status_phase [OF p1]]]
  obtain d2 where p2: "in_turn insertArtifact (cw_artifacts w) d1 = Inr d2"
    using kept_grows [OF k g1] artifacts.succeeds [of "cw_artifacts w" d1] by (simp add: writes_kept_def)
  note g2 = grows_trans [OF g1 conjunct1 [OF artifact_phase [OF p2]]]
  obtain d3 where p3: "in_turn upsertReplicationSubmission (cw_replications w) d2 = Inr d3"
    using kept_grows [OF k g2] by (simp add: submissions.loop writes_kept_def)
  note g3 = grows_trans [OF g2 conjunct1 [OF submission_phase [OF p3]]]
  obtain d4 where p4: "in_turn (\<lambda>(replicationId, z). applyReplicationResolution replicationId z) (cw_resolutions w) d3 = Inr d4"
    using kept_grows [OF k g3] by (simp add: resolutions.loop writes_kept_def)
  note g4 = grows_trans [OF g3 conjunct1 [OF resolution_phase [OF p4]]]
  obtain d5 where p5: "in_turn insertResolutionDecision (cw_decisions w) d4 = Inr d5"
    using kept_grows [OF k g4] decisions.succeeds [of "cw_decisions w" d4] by (simp add: writes_kept_def)
  note g5 = grows_trans [OF g4 conjunct1 [OF decision_phase [OF p5]]]
  obtain d6 where p6: "in_turn (\<lambda>(claimId, decisionId). markEffectiveResolutionDecision claimId decisionId) (cw_effective w) d5 = Inr d6"
    using kept_grows [OF k g5] by (simp add: effective.loop writes_kept_def)
  note g6 = grows_trans [OF g5 conjunct1 [OF effective_phase [OF p6]]]
  let ?d6 = "fold upsertAgent (cw_agents w) (fold insertCheckpoint (cw_checkpoints w) d6)"
  note h6 = grows_trans [OF g6 grows_trans [OF plain_phase(2) plain_phase(3)]]
  obtain d7 where p7: "in_turn upsertAgentController (cw_controllers w) ?d6 = Inr d7"
    using kept_grows [OF k h6] by (simp add: controllers.loop writes_kept_def)
  note g7 = grows_trans [OF h6 conjunct1 [OF controller_phase [OF p7]]]
  have "rm_forecasts d7 = rm_forecasts db"
    using p1 p3 p4 p6 p7 artifacts.succeeded [OF p2] decisions.succeeded [OF p5] by (simp add: loops phases)
  then have "written_forecast x d7 = written_forecast x db" for x by (simp add: written_forecast_def)
  then obtain d8 where p8: "in_turn upsertForecast (cw_forecasts w) d7 = Inr d8"
    using f keys_known_grows [OF _ g7] by (simp add: forecasts_loop [OF d] forecasts_kept_def)
  note g8 = grows_trans [OF g7 conjunct1 [OF forecast_phase [OF p8 d]]]
  obtain d9 where p9: "in_turn (\<lambda>(forecastId, z). applyForecastSettlement forecastId z) (cw_settlements w) d8 = Inr d9"
    using kept_grows [OF k g8] by (simp add: settlements.loop writes_kept_def)
  note g9 = grows_trans [OF g8 conjunct1 [OF settlement_phase [OF p9]]]
  obtain d10 where p10: "in_turn upsertChallenge (cw_challenges w) d9 = Inr d10"
    using kept_grows [OF k g9] by (simp add: challenges.loop writes_kept_def)
  note g10 = grows_trans [OF g9 conjunct1 [OF challenge_phase [OF p10]]]
  obtain d11 where p11: "in_turn (\<lambda>(challengeId, z). applyChallengeResolution challengeId z) (cw_challengeResolutions w) d10 = Inr d11"
    using kept_grows [OF k g10] by (simp add: outcomes.loop writes_kept_def)
  note g11 = grows_trans [OF g10 conjunct1 [OF outcome_phase [OF p11]]]
  obtain d12 where p12: "in_turn (\<lambda>(challengeId, amount). applyChallengeWithdrawal challengeId amount) (cw_withdrawals w) d11 = Inr d12"
    using kept_grows [OF k g11] by (simp add: withdrawals.loop writes_kept_def)
  note g12 = grows_trans [OF g11 conjunct1 [OF withdrawal_phase [OF p12]]]
  obtain d13 where p13: "in_turn upsertAppeal (cw_appeals w) d12 = Inr d13"
    using kept_grows [OF k g12] by (simp add: appeals.loop writes_kept_def)
  note g13 = grows_trans [OF g12 conjunct1 [OF appeal_phase [OF p13]]]
  obtain d14 where p14: "in_turn (\<lambda>(appealId, z). applyAppealAdjudication appealId z) (cw_adjudications w) d13 = Inr d14"
    using kept_grows [OF k g13] by (simp add: adjudications.loop writes_kept_def)
  note g14 = grows_trans [OF g13 conjunct1 [OF adjudication_phase [OF p14]]]
  have "writeTables w db = Inr d14"
    unfolding writeTables_def by (simp only: p1 and_then_simps p2 p3 p4 p5 p6 p7 p8 p9 p10 p11 p12 p13 p14)
  with committed_tables [OF this d] show ?thesis by simp
qed

end
