(* ===== verification/Chunk_Samples.thy ===== *)
theory Chunk_Samples
  imports Chunk
begin

text \<open>
  Concrete inputs of the indexer, for the theorems that apply only to a chunk that commits: a chain on
  which a claim is made, replicated, resolved and forecast in one chunk.
\<close>

definition sample_error :: "string \<Rightarrow> thrown" where
  "sample_error m = \<lparr>th_isError = True, th_message = m, th_shortMessage = None, th_errorMessage = None,
     th_infoMessage = None, th_code = None, th_errorCode = None, th_infoCode = None\<rparr>"

definition no_events :: chunk_events where
  "no_events = \<lparr>ce_claimCreated = [], ce_claimStatus = [], ce_resolutionDecision = [], ce_effectiveDecision = [],
     ce_artifact = [], ce_replicationSubmitted = [], ce_replicationResolved = [], ce_agentRegistered = [],
     ce_agentController = [], ce_agentBudgetDeposited = [], ce_agentBudgetReserved = [],
     ce_agentBudgetReleased = [], ce_agentBudgetConsumed = [], ce_agentBudgetWithdrawn = [],
     ce_agentSpendLimit = [], ce_agentStatus = [], ce_checkpoint = [], ce_forecastCommitted = [],
     ce_forecastRevealed = [], ce_forecastSettled = [], ce_challengeOpened = [], ce_challengeResolved = [],
     ce_challengeWithdrawn = [], ce_appealFiled = [], ce_appealAdjudicated = []\<rparr>"

definition sample_claim :: claim_created_event where
  "sample_claim = \<lparr>cc_claimId = 1, cc_author = ''0xa'', cc_domainId = 2, cc_metadataHash = ''0x1'',
     cc_resolutionModule = ''0xb'', cc_blockNumber = 1\<rparr>"

definition sample_replication :: replication_submitted_event where
  "sample_replication = \<lparr>re_replicationId = 4, re_claimId = 1, re_replicator = ''0xc'', re_agentId = 0,
     re_resultHash = ''0x2''\<rparr>"

definition sample_decision :: resolution_decision_event where
  "sample_decision = \<lparr>de_decisionId = 3, de_claimId = 1, de_replicationId = 4, de_resolutionModule = ''0xb'',
     de_status = 1, de_claimStatus = 2, de_confidenceBps = 9000, de_resolutionHash = ''0x3'',
     de_evidenceHash = ''0x4'', de_resolverType = 0, de_actor = ''0xd''\<rparr>"

definition sample_settlement :: forecast_settled_event where
  "sample_settlement = \<lparr>fe_forecastId = 7, fe_resolutionDecisionId = 3, fe_finalStatus = 2, fe_matched = True,
     fe_payoutAmount = 150\<rparr>"

definition sample_chunk :: chunk_events where
  "sample_chunk = no_events\<lparr>ce_claimCreated := [sample_claim], ce_replicationSubmitted := [sample_replication],
     ce_resolutionDecision := [sample_decision], ce_effectiveDecision := [(1, 3)],
     ce_forecastCommitted := [7], ce_forecastSettled := [sample_settlement]\<rparr>"

definition sample_forecast :: forecast_record where
  "sample_forecast = \<lparr>xf_claimId = 1, xf_forecaster = ''0xe'', xf_agentId = 0, xf_commitmentHash = ''0x5'',
     xf_stakeAmount = 100, xf_committedAt = 10, xf_revealDeadline = 20, xf_revealed = True, xf_settled = True,
     xf_direction = 1, xf_confidenceBps = 8000, xf_effectiveDecisionIdAtCommit = 0, xf_resolutionDecisionId = 3\<rparr>"

definition sample_reads :: contract_reads where
  "sample_reads = \<lparr>xr_getClaim = (\<lambda>_. Inr \<lparr>xc_status = 2, xc_revisionOfClaimId = 0\<rparr>),
     xr_getResolutionDecisionCreatedAt = (\<lambda>_. Inr 15), xr_getAgent = (\<lambda>_. Inl (sample_error ''none'')),
     xr_getForecast = (\<lambda>_. Inr sample_forecast), xr_getChallenge = (\<lambda>_. Inl (sample_error ''none'')),
     xr_getAppeal = (\<lambda>_. Inl (sample_error ''none''))\<rparr>"

definition sample_deployment :: deployment where
  "sample_deployment = \<lparr>dp_chainId = 1, dp_deploymentBlock = 1\<rparr>"

lemma sample_committed: "\<not> isl (applyChunk 0 sample_deployment sample_reads sample_chunk 2 ''0xAB'' empty_read_db)"
  by code_simp

end
