(* ===== verification/Chunk_Replay.thy ===== *)
theory Chunk_Replay
  imports Chunk_Facts Chunk_Samples
begin

text \<open>
  Applying a chunk again, and a chunk that can never be applied. A chunk that has committed can be
  applied again, and changes nothing: an indexer that lost its cursor repairs itself. But the records
  are read as they are now, not as they were in the chunk: a forecast that has been settled since
  names a decision of a later chunk, which a foreign key refuses.
\<close>

section \<open>The writes of a chunk\<close>

definition settlements_agree :: "chunk_writes \<Rightarrow> bool" where
  "settlements_agree w \<longleftrightarrow> (\<forall>x \<in> set (cw_settlements w). \<forall>f \<in> set (cw_forecasts w).
     fv_forecastId f = fst x \<longrightarrow> null_if_zero (fz_resolutionDecisionId (snd x)) = fv_resolutionDecisionId f)"

lemma settle_cases: "set_rows key f zs r = r \<or> (\<exists>z s. (k, z) \<in> set zs \<and> set_rows key f zs r = f z s)"
  if "key r = k" "\<And>z r. key (f z r) = key r"
  using that
proof (induction zs rule: rev_induct)
  case (snoc y zs)
  then show ?case
    using set_rows_key [of key f zs r] by (cases y) (fastforce simp: set_rows_def)
qed simp

lemma forecasts_kept_after:
  assumes w: "writeTables w db = Inr db'" and d: "distinct (map fv_forecastId (cw_forecasts w))"
    and agree: "settlements_agree w"
  shows "forecasts_kept w db'"
  unfolding forecasts_kept_def
proof
  fix f assume f: "f \<in> set (cw_forecasts w)"
  let ?W = "written_forecast f db" and ?g = "set_rows fv_forecastId settle_row (cw_settlements w)"
  have W: "forecast_keys_known ?W db'" using committed_kept(2) [OF w d] f by blast
  have sr: "fv_forecastId (settle_row z r) = fv_forecastId r" for z r by (simp add: settle_row_def)
  have "find_by fv_forecastId (fv_forecastId f) (rm_forecasts db') = Some (?g ?W)"
    unfolding committed_tables [OF w d]
    by (simp add: tables_after_def forecasts_after_def find_by_map set_rows_key sr
        forecast_rows.find_upserts [OF d f] written_forecast_def)
  then have again: "written_forecast f db' = merge_forecast (?g ?W) f" by (simp add: written_forecast_def)
  have id: "fv_forecastId ?W = fv_forecastId f"
    by (auto simp: written_forecast_def merge_forecast_def split: option.splits)
  have same: "fv_claimId ?W = fv_claimId f" "orelse (fv_effectiveDecisionIdAtCommit ?W) (fv_effectiveDecisionIdAtCommit f) =
      fv_effectiveDecisionIdAtCommit ?W" "orelse (fv_resolutionDecisionId ?W) (fv_resolutionDecisionId f) = fv_resolutionDecisionId ?W"
    by (auto simp: written_forecast_def merge_forecast_def split: option.splits)
  have eff: "fv_effectiveDecisionIdAtCommit (set_rows fv_forecastId settle_row zs r) = fv_effectiveDecisionIdAtCommit r" for zs r
    by (induction zs arbitrary: r) (simp_all add: settle_row_def)
  consider "?g ?W = ?W" | z s where "(fv_forecastId f, z) \<in> set (cw_settlements w)" "?g ?W = settle_row z s"
    using settle_cases [of fv_forecastId ?W "fv_forecastId f" settle_row "cw_settlements w"] id sr by blast
  then show "forecast_keys_known (written_forecast f db') db'"
  proof cases
    case 1
    with W same show ?thesis by (simp add: again forecast_keys_known_def merge_forecast_def)
  next
    case 2
    from 2(1) agree f have r: "null_if_zero (fz_resolutionDecisionId z) = fv_resolutionDecisionId f"
      by (fastforce simp: settlements_agree_def)
    have "references dv_decisionId (null_if_zero (fz_resolutionDecisionId z)) (rm_decisions db')"
      using committed_kept(1) [OF w d] 2(1) by (fastforce simp: writes_kept_def)
    moreover have "fv_effectiveDecisionIdAtCommit s = fv_effectiveDecisionIdAtCommit ?W"
      using eff [of "cw_settlements w" ?W] by (simp add: 2(2) settle_row_def)
    ultimately show ?thesis using W same r
      by (simp add: again 2(2) forecast_keys_known_def merge_forecast_def settle_row_def)
  qed
qed

lemma tables_again:
  assumes "distinct (map fv_forecastId (cw_forecasts w))" "distinct (map hv_challengeId (cw_challenges w))"
    "distinct (map lv_appealId (cw_appeals w))"
  shows "tables_after w (tables_after w db) = tables_after w db"
  using assms by (simp add: tables_after_def claims_again artifacts_again replications_again decisions_again
      checkpoints_again agents_again controllers_again forecasts_again challenges_again appeals_again)

lemma writeTables_again:
  assumes w: "writeTables w db = Inr db'" and "distinct (map fv_forecastId (cw_forecasts w))"
    "distinct (map hv_challengeId (cw_challenges w))" "distinct (map lv_appealId (cw_appeals w))"
    and "settlements_agree w"
  shows "writeTables w db' = Inr db'"
proof -
  have "db' = tables_after w db" using assms by (simp add: committed_tables)
  then have "tables_after w db' = db'" using assms by (simp add: tables_again)
  with kept_commits [OF committed_kept(1) [OF w] forecasts_kept_after [OF w]] assms show ?thesis by simp
qed

section \<open>The chunk\<close>

lemma snapshot_ids:
  "traverse (forecast_snapshot x) ids = Inr fs \<Longrightarrow> map fv_forecastId fs = ids"
  "traverse (challenge_snapshot x) ids = Inr hs \<Longrightarrow> map hv_challengeId hs = ids"
  "traverse (appeal_snapshot x) ids = Inr ls \<Longrightarrow> map lv_appealId ls = ids"
  subgoal by (induction ids arbitrary: fs) (auto simp: and_then_Inr forecast_snapshot_def forecast_view_of_def)
  subgoal by (induction ids arbitrary: hs) (auto simp: and_then_Inr challenge_snapshot_def)
  subgoal by (induction ids arbitrary: ls) (auto simp: and_then_Inr appeal_snapshot_def)
  done

lemma forecast_snapshot_Inr: "forecast_snapshot x i = Inr f \<longleftrightarrow>
    (\<exists>r. xr_getForecast x (big_int i) = Inr r \<and> f = forecast_view_of i r)"
  by (auto simp: forecast_snapshot_def and_then_Inr)

lemma forecast_snapshot_of:
  assumes "traverse (forecast_snapshot x) ids = Inr fs"
  shows "f \<in> set fs \<Longrightarrow> \<exists>r. xr_getForecast x (big_int (fv_forecastId f)) = Inr r \<and> f = forecast_view_of (fv_forecastId f) r"
    and "i \<in> set ids \<Longrightarrow> \<exists>f r. f \<in> set fs \<and> xr_getForecast x (big_int i) = Inr r \<and> f = forecast_view_of i r"
proof -
  have "(\<forall>f \<in> set fs. \<exists>r. xr_getForecast x (big_int (fv_forecastId f)) = Inr r \<and> f = forecast_view_of (fv_forecastId f) r) \<and>
      (\<forall>i \<in> set ids. \<exists>f r. f \<in> set fs \<and> xr_getForecast x (big_int i) = Inr r \<and> f = forecast_view_of i r)"
    using assms
  proof (induction ids arbitrary: fs)
    case (Cons j ids)
    then obtain r fs' where r: "xr_getForecast x (big_int j) = Inr r" and fs: "fs = forecast_view_of j r # fs'"
      and t: "traverse (forecast_snapshot x) ids = Inr fs'" by (auto simp: and_then_Inr forecast_snapshot_Inr)
    have "fv_forecastId (forecast_view_of j r) = j" by (simp add: forecast_view_of_def)
    with r fs Cons.IH [OF t] show ?case by force
  qed simp
  then show "f \<in> set fs \<Longrightarrow> \<exists>r. xr_getForecast x (big_int (fv_forecastId f)) = Inr r \<and> f = forecast_view_of (fv_forecastId f) r"
    and "i \<in> set ids \<Longrightarrow> \<exists>f r. f \<in> set fs \<and> xr_getForecast x (big_int i) = Inr r \<and> f = forecast_view_of i r" by blast+
qed

lemma chunk_snapshots:
  assumes "chunkWrites x ev = Inr w"
  shows "traverse (forecast_snapshot x) (touchedForecastIds ev) = Inr (cw_forecasts w)"
    and "traverse (challenge_snapshot x) (touchedChallengeIds ev) = Inr (cw_challenges w)"
    and "traverse (appeal_snapshot x) (touchedAppealIds ev) = Inr (cw_appeals w)"
    and "cw_settlements w = map settlement_of (ce_forecastSettled ev)"
    and "map dv_decisionId (cw_decisions w) = map (\<lambda>e. show_int (de_decisionId e)) (ce_resolutionDecision ev)"
proof -
  have d: "traverse (decision_view x) es = Inr ds \<Longrightarrow> map dv_decisionId ds = map (\<lambda>e. show_int (de_decisionId e)) es" for es ds
    by (induction es arbitrary: ds) (auto simp: and_then_Inr decision_view_def)
  show "traverse (forecast_snapshot x) (touchedForecastIds ev) = Inr (cw_forecasts w)"
    "traverse (challenge_snapshot x) (touchedChallengeIds ev) = Inr (cw_challenges w)"
    "traverse (appeal_snapshot x) (touchedAppealIds ev) = Inr (cw_appeals w)"
    "cw_settlements w = map settlement_of (ce_forecastSettled ev)"
    "map dv_decisionId (cw_decisions w) = map (\<lambda>e. show_int (de_decisionId e)) (ce_resolutionDecision ev)"
    using assms d unfolding chunkWrites_def by (auto simp: and_then_Inr)
qed

lemma chunk_distinct:
  assumes "chunkWrites x ev = Inr w"
  shows "distinct (map fv_forecastId (cw_forecasts w))" "distinct (map hv_challengeId (cw_challenges w))"
    "distinct (map lv_appealId (cw_appeals w))"
  using snapshot_ids(1) [OF chunk_snapshots(1) [OF assms]] snapshot_ids(2) [OF chunk_snapshots(2) [OF assms]]
    snapshot_ids(3) [OF chunk_snapshots(3) [OF assms]]
  by (simp_all add: touchedForecastIds_def touchedChallengeIds_def touchedAppealIds_def)

text \<open>
  What the contract promises: the record of a forecast that has been settled names the decision of the
  settlement event. The ids are unsigned.
\<close>

definition settlement_recorded :: "contract_reads \<Rightarrow> forecast_settled_event \<Rightarrow> bool" where
  "settlement_recorded x e \<longleftrightarrow> 0 \<le> fe_forecastId e \<and>
     (case xr_getForecast x (fe_forecastId e) of
        Inl _ \<Rightarrow> True | Inr r \<Rightarrow> xf_resolutionDecisionId r = fe_resolutionDecisionId e)"

lemma big_int_show [simp]: "0 \<le> n \<Longrightarrow> big_int (show_int n) = n"
  by (simp add: big_int_def digits_value_show_int)

lemma chunk_agrees:
  assumes w: "chunkWrites x ev = Inr w" and r: "\<forall>e \<in> set (ce_forecastSettled ev). settlement_recorded x e"
  shows "settlements_agree w"
  unfolding settlements_agree_def
proof (intro ballI impI)
  fix z f assume "z \<in> set (cw_settlements w)" and f: "f \<in> set (cw_forecasts w)" "fv_forecastId f = fst z"
  then obtain e where e: "e \<in> set (ce_forecastSettled ev)" "z = settlement_of e" by (auto simp: chunk_snapshots(4) [OF w])
  with r have n: "0 \<le> fe_forecastId e" by (auto simp: settlement_recorded_def)
  from forecast_snapshot_of(1) [OF chunk_snapshots(1) [OF w] f(1)] obtain c where
    c: "xr_getForecast x (fe_forecastId e) = Inr c" "f = forecast_view_of (show_int (fe_forecastId e)) c"
    using f(2) e(2) n by (auto simp: settlement_of_def)
  then have "xf_resolutionDecisionId c = fe_resolutionDecisionId e" using r e(1) by (auto simp: settlement_recorded_def)
  then show "null_if_zero (fz_resolutionDecisionId (snd z)) = fv_resolutionDecisionId f"
    by (simp add: c(2) e(2) settlement_of_def forecast_view_of_def null_if_zero_def nonzero_id_def)
qed

lemma jm_set_same: "jm_get m k = Some v \<Longrightarrow> jm_set k v m = m"
  by (induction k v m rule: jm_set.induct) (auto split: if_splits)

lemma metadata_again: "updateReadModelMetadata m (updateReadModelMetadata m db) = updateReadModelMetadata m db"
  by (simp add: updateReadModelMetadata_def setMetadataValues_def jm_set_same)

lemma cursor_again: "writeSyncCursor b h (writeSyncCursor b h db) = writeSyncCursor b h db"
  by (simp add: writeSyncCursor_def Let_def jm_set_same)

lemma tables_fixed: "tables_after w a = a \<longleftrightarrow> claims_after w (rm_claims a) = rm_claims a \<and>
    artifacts_after w (rm_artifacts a) = rm_artifacts a \<and> replications_after w (rm_replications a) = rm_replications a \<and>
    decisions_after w (rm_decisions a) = rm_decisions a \<and> checkpoints_after w (rm_checkpoints a) = rm_checkpoints a \<and>
    agents_after w (rm_agents a) = rm_agents a \<and> controllers_after w (rm_controllers a) = rm_controllers a \<and>
    forecasts_after w (rm_forecasts a) = rm_forecasts a \<and> challenges_after w (rm_challenges a) = rm_challenges a \<and>
    appeals_after w (rm_appeals a) = rm_appeals a"
  by (cases a) (simp add: tables_after_def, blast)

lemma only_tables:
  assumes "rm_claims a = rm_claims b" "rm_artifacts a = rm_artifacts b" "rm_replications a = rm_replications b"
    "rm_decisions a = rm_decisions b" "rm_agents a = rm_agents b" "rm_forecasts a = rm_forecasts b"
    "rm_challenges a = rm_challenges b" "rm_appeals a = rm_appeals b"
  shows "writes_kept w a = writes_kept w b" and "forecasts_kept w a = forecasts_kept w b"
  using assms by (simp_all add: writes_kept_def forecasts_kept_def claim_known_def written_forecast_def forecast_keys_known_def)

lemma applyChunk_Inr:
  "applyChunk now dep x ev b h db = Inr db' \<longleftrightarrow>
     (\<exists>w db1. chunkWrites x ev = Inr w \<and> writeTables w db = Inr db1 \<and>
        db' = writeSyncCursor b (Some h) (updateReadModelMetadata (chunk_metadata now dep b) db1))"
  by (auto simp: applyChunk_def writeChunk_def reading_def storing_def and_then_Inr split: sum.splits)

text \<open>
  C10: Applying a chunk is idempotent. A chunk that has been committed can be applied again, to the read
  model it left, and leaves it as it is: rows are not doubled, settlements, payouts and the effective
  decisions are not reset, and the metadata and the cursor stay.
\<close>

theorem chunk_replay_idempotent:
  assumes "applyChunk now dep x ev b h db = Inr db'"
    and "\<forall>e \<in> set (ce_forecastSettled ev). settlement_recorded x e"
  shows "applyChunk now dep x ev b h db' = Inr db'"
proof -
  obtain w db1 where w: "chunkWrites x ev = Inr w" "writeTables w db = Inr db1"
    and db': "db' = writeSyncCursor b (Some h) (updateReadModelMetadata (chunk_metadata now dep b) db1)"
    using assms(1) by (auto simp: applyChunk_Inr)
  note d = chunk_distinct [OF w(1)]
  have t: "rm_claims db' = rm_claims db1" "rm_artifacts db' = rm_artifacts db1" "rm_replications db' = rm_replications db1"
    "rm_decisions db' = rm_decisions db1" "rm_agents db' = rm_agents db1" "rm_forecasts db' = rm_forecasts db1"
    "rm_challenges db' = rm_challenges db1" "rm_appeals db' = rm_appeals db1" "rm_checkpoints db' = rm_checkpoints db1"
    "rm_controllers db' = rm_controllers db1"
    by (simp_all add: db' writeSyncCursor_def updateReadModelMetadata_def setMetadataValues_def Let_def)
  have "writes_kept w db'" "forecasts_kept w db'"
    using committed_kept(1) [OF w(2) d(1)] forecasts_kept_after [OF w(2) d(1) chunk_agrees [OF w(1) assms(2)]]
    by (simp_all add: only_tables [OF t(1-8)])
  from kept_commits [OF this d(1)] have "writeTables w db' = Inr (tables_after w db')" .
  moreover have "tables_after w db1 = db1"
    using committed_tables [OF w(2) d(1)] tables_again [OF d] by simp
  then have "tables_after w db' = db'" using t by (simp add: tables_fixed)
  ultimately have "applyChunk now dep x ev b h db' =
      Inr (writeSyncCursor b (Some h) (updateReadModelMetadata (chunk_metadata now dep b) db'))"
    using w(1) by (simp add: applyChunk_Inr)
  moreover have "updateReadModelMetadata m (writeSyncCursor b' h' a) = writeSyncCursor b' h' (updateReadModelMetadata m a)" for m b' h' a
    by (simp add: updateReadModelMetadata_def setMetadataValues_def writeSyncCursor_def Let_def)
  ultimately show ?thesis by (simp add: db' metadata_again cursor_again)
qed

theorem chunk_replay_idempotent_witness:
  "\<exists>db'. applyChunk 0 sample_deployment sample_reads sample_chunk 2 ''0xAB'' empty_read_db = Inr db' \<and>
     applyChunk 0 sample_deployment sample_reads sample_chunk 2 ''0xAB'' db' = Inr db'"
proof -
  obtain db' where db': "applyChunk 0 sample_deployment sample_reads sample_chunk 2 ''0xAB'' empty_read_db = Inr db'"
    using returns [OF sample_committed] ..
  have "\<forall>e \<in> set (ce_forecastSettled sample_chunk). settlement_recorded sample_reads e"
    by (simp add: sample_chunk_def no_events_def settlement_recorded_def sample_settlement_def sample_reads_def sample_forecast_def)
  from chunk_replay_idempotent [OF db' this] db' show ?thesis by blast
qed

section \<open>A chunk that is never applied\<close>

lemma tables_after_decisions: "has_key dv_decisionId k (rm_decisions (tables_after w db)) \<longleftrightarrow>
    k \<in> dv_decisionId ` set (cw_decisions w) \<or> has_key dv_decisionId k (rm_decisions db)"
  by (simp add: tables_after_def decisions_after_def has_key_after has_key_folds image_image)

text \<open>
  C23: The history of a settled forecast cannot be indexed again (a defect of the code). The projector
  stores the record as it is now; if the forecast has since been settled by a decision of a later
  chunk, the row names a decision that is not there yet, and the chunk throws, however often it is tried.
\<close>

theorem settled_forecast_not_indexed:
  assumes "i \<in> set (ce_forecastCommitted ev)" and "0 \<le> i"
    and "xr_getForecast x i = Inr r" and "xf_resolutionDecisionId r \<noteq> 0"
    and "find_by fv_forecastId (show_int i) (rm_forecasts db) = None"
    and "\<not> has_key dv_decisionId (show_int (xf_resolutionDecisionId r)) (rm_decisions db)"
    and "xf_resolutionDecisionId r \<notin> de_decisionId ` set (ce_resolutionDecision ev)"
  shows "\<exists>e. applyChunk now dep x ev b h db = Inl e"
proof (rule ccontr)
  assume "\<nexists>e. applyChunk now dep x ev b h db = Inl e"
  then obtain db' where "applyChunk now dep x ev b h db = Inr db'" by (cases "applyChunk now dep x ev b h db") auto
  then obtain w db1 where w: "chunkWrites x ev = Inr w" "writeTables w db = Inr db1" by (auto simp: applyChunk_Inr)
  note d = chunk_distinct(1) [OF w(1)]
  have "show_int i \<in> set (touchedForecastIds ev)" using assms(1) by (simp add: touchedForecastIds_def)
  from forecast_snapshot_of(2) [OF chunk_snapshots(1) [OF w(1)] this] obtain f where
    f: "f \<in> set (cw_forecasts w)" "f = forecast_view_of (show_int i) r" using assms(2,3) by auto
  have "written_forecast f db = f" using assms(5) by (simp add: written_forecast_def f(2) forecast_view_of_def)
  then have "references dv_decisionId (fv_resolutionDecisionId f) (rm_decisions db1)"
    using committed_kept(2) [OF w(2) d] f(1) by (fastforce simp: forecast_keys_known_def)
  then have "show_int (xf_resolutionDecisionId r) \<in> dv_decisionId ` set (cw_decisions w)"
    using assms(4,6) by (simp add: f(2) forecast_view_of_def nonzero_id_def references_def
        committed_tables [OF w(2) d] tables_after_decisions)
  then have "show_int (xf_resolutionDecisionId r) \<in> set (map (\<lambda>e. show_int (de_decisionId e)) (ce_resolutionDecision ev))"
    using chunk_snapshots(5) [OF w(1)] by (metis list.set_map)
  then show False using assms(7) by auto
qed

theorem settled_forecast_not_indexed_witness:
  "\<exists>e. applyChunk 0 sample_deployment sample_reads (no_events\<lparr>ce_claimCreated := [sample_claim], ce_forecastCommitted := [7]\<rparr>)
     2 ''0xAB'' empty_read_db = Inl e"
  by (rule settled_forecast_not_indexed [where i = 7 and r = sample_forecast])
    (simp_all add: no_events_def sample_reads_def sample_forecast_def empty_read_db_def has_key_def find_by_def)

end
