(* ===== verification/Settings.thy ===== *)
theory Settings
  imports Js_Digits
begin

text \<open>
  Settings from the environment and the command line: \<open>shared/secrets.ts\<close>, the parsers of
  \<open>shared/cli.ts\<close> and \<open>shared/numbers.ts\<close>. An environment and the files it may point to are maps; a
  file that cannot be read is absent. A parser that throws has an \<open>Inl\<close>.
\<close>

type_synonym environment = "string \<rightharpoonup> string"
type_synonym files = "string \<rightharpoonup> string"

datatype setting_error = File_unreadable string string | Not_an_integer string int | Not_a_boolean string
  | Not_one_of string "string list"

definition blank :: "string \<Rightarrow> bool" where
  "blank s \<longleftrightarrow> js_trim s = []"

definition normalizeValue :: "string \<Rightarrow> bool \<Rightarrow> string" where
  "normalizeValue value trim = (if trim then js_trim value else value)"

definition read_value_file :: "files \<Rightarrow> environment \<Rightarrow> string \<Rightarrow> bool \<Rightarrow> setting_error + string option" where
  "read_value_file files env key trim =
     (let path = js_trim (nullish (env (key @ ''_FILE'')) []) in
      if path = [] then Inr None
      else case files path of None \<Rightarrow> Inl (File_unreadable key path)
           | Some text \<Rightarrow> Inr (Some (normalizeValue text trim)))"

definition readEnvValue :: "files \<Rightarrow> environment \<Rightarrow> string \<Rightarrow> bool \<Rightarrow> setting_error + string option" where
  "readEnvValue files env key trim =
     (let direct = nullish (env key) [] in
      if \<not> blank direct then Inr (Some (normalizeValue direct trim)) else read_value_file files env key trim)"

definition hasSecretRef :: "environment \<Rightarrow> string \<Rightarrow> bool" where
  "hasSecretRef env key \<longleftrightarrow> \<not> blank (nullish (env (key @ ''_SECRET_REF'')) [])"

definition hasConfiguredEnvValue :: "files \<Rightarrow> environment \<Rightarrow> string \<Rightarrow> setting_error + bool" where
  "hasConfiguredEnvValue files env key =
     (case readEnvValue files env key True of Inl e \<Rightarrow> Inl e
      | Inr value \<Rightarrow> Inr (truthy value \<or> hasSecretRef env key))"

definition readOptionalTrimmedEnv :: "files \<Rightarrow> environment \<Rightarrow> string \<Rightarrow> setting_error + string option" where
  "readOptionalTrimmedEnv files env key = readEnvValue files env key True"

definition readCsvEnv :: "files \<Rightarrow> environment \<Rightarrow> string \<Rightarrow> setting_error + string list" where
  "readCsvEnv files env key =
     (case readEnvValue files env key True of Inl e \<Rightarrow> Inl e
      | Inr value \<Rightarrow> Inr (filter (\<lambda>entry. length entry > 0) (map js_trim (js_split (CHR '','') (nullish value [])))))"

definition readBooleanEnv :: "files \<Rightarrow> environment \<Rightarrow> string \<Rightarrow> bool \<Rightarrow> setting_error + bool" where
  "readBooleanEnv files env key fallback =
     (case readOptionalTrimmedEnv files env key of Inl e \<Rightarrow> Inl e
      | Inr value \<Rightarrow>
          if \<not> truthy value then Inr fallback
          else if value = Some ''true'' then Inr True
          else if value = Some ''false'' then Inr False
          else Inl (Not_a_boolean key))"

definition parseEnumValue :: "string option \<Rightarrow> string \<Rightarrow> string list \<Rightarrow> setting_error + string option" where
  "parseEnumValue raw key values =
     (let value = js_trim (nullish raw []) in
      if value = [] then Inr None
      else if value \<in> set values then Inr (Some value)
      else Inl (Not_one_of key values))"

definition readEnumEnv :: "files \<Rightarrow> environment \<Rightarrow> string \<Rightarrow> string list \<Rightarrow> setting_error + string option" where
  "readEnumEnv files env key values =
     (case readOptionalTrimmedEnv files env key of Inl e \<Rightarrow> Inl e | Inr raw \<Rightarrow> parseEnumValue raw key values)"

definition max_safe_integer :: int where
  "max_safe_integer = 9007199254740991"

text \<open>
  The digits-only test, then \<open>Number\<close>; a number that is not safe is refused, so that it does not matter
  which double \<open>Number\<close> makes of it.
\<close>

definition parseIntegerValue :: "string \<Rightarrow> string \<Rightarrow> int \<Rightarrow> int option \<Rightarrow> setting_error + int" where
  "parseIntegerValue value key lo hi =
     (case digits_value (js_trim value) of
        None \<Rightarrow> Inl (Not_an_integer key lo)
      | Some parsed \<Rightarrow>
          if parsed > max_safe_integer \<or> parsed < lo then Inl (Not_an_integer key lo)
          else Inr (case hi of None \<Rightarrow> parsed | Some m \<Rightarrow> min parsed m))"

definition readPositiveIntegerEnv ::
  "files \<Rightarrow> environment \<Rightarrow> string \<Rightarrow> int \<Rightarrow> int \<Rightarrow> int option \<Rightarrow> setting_error + int" where
  "readPositiveIntegerEnv files env key fallback lo hi =
     (case readOptionalTrimmedEnv files env key of Inl e \<Rightarrow> Inl e
      | Inr value \<Rightarrow> if \<not> truthy value then Inr fallback else parseIntegerValue (nullish value []) key lo hi)"

section \<open>Command lines\<close>

text \<open>
  \<open>parseCliArgs\<close>: \<open>--key=value\<close>, \<open>--key value\<close>, and \<open>--key\<close> alone for true; other tokens are skipped.
\<close>

definition is_flag :: "string \<Rightarrow> bool" where
  "is_flag token \<longleftrightarrow> js_starts_with ''--'' token"

definition split_at_equals :: "string \<Rightarrow> (string \<times> string) option" where
  "split_at_equals key = (if CHR ''='' \<in> set key
     then Some (takeWhile (\<lambda>c. c \<noteq> CHR ''='') key, tl (dropWhile (\<lambda>c. c \<noteq> CHR ''='') key)) else None)"

fun parse_cli_args :: "string list \<Rightarrow> (string, string) jmap \<Rightarrow> (string, string) jmap" where
  "parse_cli_args [] parsed = parsed"
| "parse_cli_args (token # rest) parsed =
     (if \<not> is_flag token then parse_cli_args rest parsed
      else let key = drop 2 token in
        case split_at_equals key of
          Some (k, v) \<Rightarrow> parse_cli_args rest (jm_set k v parsed)
        | None \<Rightarrow>
            (case rest of
               [] \<Rightarrow> jm_set key ''true'' parsed
             | next' # rest' \<Rightarrow>
                 if next' = [] \<or> is_flag next' then parse_cli_args rest (jm_set key ''true'' parsed)
                 else parse_cli_args rest' (jm_set key next' parsed)))"

definition parseCliArgs :: "string list \<Rightarrow> (string, string) jmap" where
  "parseCliArgs argv = parse_cli_args argv []"

section \<open>Inputs\<close>

text \<open>The value of a number is a rational; \<open>Number.isInteger\<close> is tested.\<close>

definition resolveIntegerInput :: "rat option \<Rightarrow> rat \<Rightarrow> string \<Rightarrow> int option \<Rightarrow> setting_error + rat" where
  "resolveIntegerInput value fallback label lo =
     (let resolved = nullish value fallback; m = nullish lo 0 in
      if resolved \<noteq> of_int \<lfloor>resolved\<rfloor> \<or> resolved < of_int m then Inl (Not_an_integer label m) else Inr resolved)"

definition resolveOptionalIntegerInput :: "rat option \<Rightarrow> string \<Rightarrow> int option \<Rightarrow> setting_error + rat option" where
  "resolveOptionalIntegerInput value label lo =
     (case value of None \<Rightarrow> Inr None
      | Some v \<Rightarrow> (case resolveIntegerInput value v label lo of Inl e \<Rightarrow> Inl e | Inr r \<Rightarrow> Inr (Some r)))"

definition resolveNonEmptyStringInput :: "string option \<Rightarrow> string \<Rightarrow> string" where
  "resolveNonEmptyStringInput value fallback =
     (let trimmed = js_trim (nullish value []) in if length trimmed > 0 then trimmed else fallback)"

section \<open>What the parsers guarantee\<close>

lemma readPositiveIntegerEnv_min:
  "readPositiveIntegerEnv files env key fallback lo None = Inr n \<Longrightarrow> lo \<le> fallback \<Longrightarrow> lo \<le> n"
  by (auto simp: readPositiveIntegerEnv_def parseIntegerValue_def split: sum.splits if_splits option.splits)

lemma no_space_digits: "list_all is_digit s \<Longrightarrow> js_trim s = s"
proof -
  assume d: "list_all is_digit s"
  have n: "\<not> is_space c" if "c \<in> set s" for c
    using d that by (auto simp: list_all_iff is_digit_def is_space_def)
  then have "dropWhile is_space s = s" by (metis dropWhile_eq_self_iff hd_in_set)
  moreover have "dropWhile is_space (rev s) = rev s" using n by (metis dropWhile_eq_self_iff hd_in_set set_rev)
  ultimately show ?thesis by (simp add: js_trim_def)
qed

text \<open>A safe integer that is printed into the environment is read back, whatever the files hold.\<close>

lemma integer_setting_roundtrip:
  assumes "env key = Some (show_int n)" and "0 \<le> n" and "lo \<le> n" and "n \<le> max_safe_integer"
  shows "readPositiveIntegerEnv files env key fallback lo None = Inr n"
proof -
  have d: "list_all is_digit (show_int n)" "show_int n \<noteq> []"
    using assms(2) show_nat_digits [of "nat n"] by (simp_all add: show_int_def)
  then show ?thesis
    using assms(3,4) by (simp add: readPositiveIntegerEnv_def readOptionalTrimmedEnv_def readEnvValue_def
        normalizeValue_def blank_def no_space_digits assms(1) parseIntegerValue_def digits_value_show_int [OF assms(2)])
qed

end
