(* ===== verification/Sync.thy ===== *)
theory Sync
  imports Chunk_Replay Settings
begin

text \<open>
  \<open>syncReadModel\<close> of \<open>indexer/projector.ts\<close>: from the stored cursor to the confirmed head in batches of
  blocks, each batch fetched, applied in its own transaction and followed by the next. The chain is an
  argument: its head, the hash of a block, the event queries, and the records as they are when the
  batch that ends at a block is applied; \<open>sc_now\<close> is the time of that batch. The advisory lock is a
  flag. The writing of the snapshot file is not modelled.
\<close>

record chain =
  sc_head :: "thrown + int"
  sc_blockHash :: "int \<Rightarrow> thrown + string option"
  sc_queries :: event_queries
  sc_reads :: "int \<Rightarrow> contract_reads"
  sc_now :: "int \<Rightarrow> int"

record sync_config =
  sn_deployment :: deployment
  sn_confirmationDepth :: int
  sn_batchSize :: int
  sn_retry :: retry_config

section \<open>Settings\<close>

definition getSyncBatchSize :: "files \<Rightarrow> environment \<Rightarrow> setting_error + int" where
  "getSyncBatchSize files env = readPositiveIntegerEnv files env ''SP_INDEXER_BATCH_SIZE'' 1000 1 None"

text \<open>\<open>isLocalDevelopmentRpcUrl(getRpcUrl(env))\<close> is the argument.\<close>

definition getIndexerConfirmationDepth :: "files \<Rightarrow> environment \<Rightarrow> bool \<Rightarrow> setting_error + int" where
  "getIndexerConfirmationDepth files env localRpc =
     readPositiveIntegerEnv files env ''SP_INDEXER_CONFIRMATION_DEPTH'' (if localRpc then 0 else 12) 0 None"

definition getQueryRetryLimit :: "files \<Rightarrow> environment \<Rightarrow> setting_error + int" where
  "getQueryRetryLimit files env = readPositiveIntegerEnv files env ''SP_INDEXER_QUERY_RETRIES'' 5 0 None"

definition getQueryRetryDelayMs :: "files \<Rightarrow> environment \<Rightarrow> setting_error + int" where
  "getQueryRetryDelayMs files env = readPositiveIntegerEnv files env ''SP_INDEXER_QUERY_RETRY_DELAY_MS'' 1000 0 None"

section \<open>One batch\<close>

text \<open>\<open>canonicalBlock?.hash\<close>, thrown on when there is none\<close>

definition canonical_hash :: "chain \<Rightarrow> int \<Rightarrow> sync_error + string" where
  "canonical_hash ch b = and_then (reading (sc_blockHash ch b)) (\<lambda>hash.
     if truthy hash then Inr (nullish hash []) else Inl (Block_unreadable b))"

definition sync_batch :: "sync_config \<Rightarrow> chain \<Rightarrow> int \<Rightarrow> int \<Rightarrow> read_db \<Rightarrow> sync_error + read_db" where
  "sync_batch cfg ch fromBlock toBlock db =
     and_then (reading (fetchChunkEvents (sn_retry cfg) (sc_queries ch) fromBlock toBlock)) (\<lambda>chunkEvents.
     and_then (canonical_hash ch toBlock) (\<lambda>hash.
       applyChunk (sc_now ch toBlock) (sn_deployment cfg) (sc_reads ch toBlock) chunkEvents toBlock hash db))"

text \<open>
  The loop, with the read model it leaves and what it threw. A batch size that is not positive would
  make it run for ever.
\<close>

partial_function (option) sync_loop ::
  "sync_config \<Rightarrow> chain \<Rightarrow> int \<Rightarrow> int \<Rightarrow> read_db \<Rightarrow> (read_db \<times> sync_error option) option" where
  "sync_loop cfg ch latestBlock fromBlock db =
     (if fromBlock > latestBlock then Some (db, None)
      else let toBlock = min (fromBlock + sn_batchSize cfg - 1) latestBlock in
        case sync_batch cfg ch fromBlock toBlock db of
          Inl e \<Rightarrow> Some (db, Some e)
        | Inr db' \<Rightarrow> sync_loop cfg ch latestBlock (toBlock + 1) db')"

section \<open>The whole run\<close>

definition latest_block :: "sync_config \<Rightarrow> int \<Rightarrow> int" where
  "latest_block cfg chainHead =
     max (dp_deploymentBlock (sn_deployment cfg) - 1) (chainHead - sn_confirmationDepth cfg)"

definition checkCursor :: "sync_config \<Rightarrow> chain \<Rightarrow> read_db \<Rightarrow> sync_error + read_db" where
  "checkCursor cfg ch db =
     (case readSyncCursor db of
        None \<Rightarrow> Inr db
      | Some cursor \<Rightarrow>
          if cursor < dp_deploymentBlock (sn_deployment cfg) then Inr db
          else and_then (canonical_hash ch cursor) (\<lambda>hash.
            let stored = readIndexerBlockCheckpoint cursor db in
            if truthy stored \<and> js_lower (nullish stored []) \<noteq> js_lower hash
            then Inl (Reorg_detected cursor (nullish stored []) hash)
            else if \<not> truthy stored then Inr (recordIndexerBlockCheckpoint cursor hash db)
            else Inr db))"

definition first_block :: "sync_config \<Rightarrow> read_db \<Rightarrow> int" where
  "first_block cfg db = (let d = dp_deploymentBlock (sn_deployment cfg) in
     max d (nullish (readSyncCursor db) (d - 1) + 1))"

text \<open>After the loop the cursor has reached the head, so the metadata are always written.\<close>

definition finishSync :: "int \<Rightarrow> sync_config \<Rightarrow> int \<Rightarrow> read_db \<Rightarrow> read_db" where
  "finishSync now cfg latestBlock db =
     markSyncSucceeded now (updateReadModelMetadata (chunk_metadata now (sn_deployment cfg) latestBlock) db)"

text \<open>
  The texts of the errors; the argument stands for the texts PostgreSQL gives a violated constraint.
\<close>

definition read_error_message :: "(read_error \<Rightarrow> string) \<Rightarrow> read_error \<Rightarrow> string" where
  "read_error_message pg e = (case e of
       Claim_absent c \<Rightarrow> ''claim '' @ c @ '' was not present when applying ClaimStatusUpdated''
     | Replication_absent r \<Rightarrow> ''replication '' @ r @ '' was not present when applying ReplicationResolved''
     | Decision_absent d c \<Rightarrow> ''effective resolution decision '' @ d @ '' missing for claim '' @ c
     | Forecast_absent f \<Rightarrow> ''forecast '' @ f @ '' was not present when applying ForecastSettled''
     | Challenge_absent c \<Rightarrow> ''challenge '' @ c @ '' was not present when applying ChallengeResolved''
     | Withdrawn_challenge_absent c \<Rightarrow> ''challenge '' @ c @ '' was not present when applying ChallengeWithdrawn''
     | Appeal_absent a \<Rightarrow> ''appeal '' @ a @ '' was not present when applying AppealAdjudicated''
     | Chain_id_mismatch expected found \<Rightarrow> ''read model chainId mismatch: expected '' @ show_int expected @
         '', found '' @ found @ ''; reset the database before reusing it''
     | Deployment_block_mismatch expected found \<Rightarrow> ''read model deploymentBlock mismatch: expected '' @
         show_int expected @ '', found '' @ found @ ''; reset the database before reusing it''
     | _ \<Rightarrow> pg e)"

definition sync_error_message :: "(read_error \<Rightarrow> string) \<Rightarrow> sync_error \<Rightarrow> string" where
  "sync_error_message pg e = (case e of
       Chain_threw t \<Rightarrow> th_message t
     | Store_threw r \<Rightarrow> read_error_message pg r
     | Block_unreadable b \<Rightarrow> ''unable to read canonical block '' @ show_int b
     | Reorg_detected b stored canonical \<Rightarrow> ''read model reorg detected at block '' @ show_int b @ '': stored '' @
         stored @ '', canonical '' @ canonical @ ''; rebuild is required''
     | Sync_in_progress \<Rightarrow> ''read model sync is already in progress'')"

definition syncReadModel ::
  "(read_error \<Rightarrow> string) \<Rightarrow> int \<Rightarrow> bool \<Rightarrow> sync_config \<Rightarrow> chain \<Rightarrow> read_db \<Rightarrow>
   (read_db \<times> (sync_error + read_metadata)) option" where
  "syncReadModel pg now locked cfg ch db =
     (case sc_head ch of
        Inl e \<Rightarrow> Some (db, Inl (Chain_threw e))
      | Inr chainHead \<Rightarrow>
          let latestBlock = latest_block cfg chainHead;
              failed = (\<lambda>e db'. Some (markSyncFailed now (sync_error_message pg e) db', Inl e))
          in case ensureReadModelBaseState now (dp_chainId (sn_deployment cfg))
                    (dp_deploymentBlock (sn_deployment cfg)) db of
               Inl e \<Rightarrow> failed (Store_threw e) db
             | Inr db1 \<Rightarrow>
                 if locked then Some (db1, Inl Sync_in_progress)
                 else let db2 = markSyncStarted now db1 in
                   case checkCursor cfg ch db2 of
                     Inl e \<Rightarrow> failed e db2
                   | Inr db3 \<Rightarrow>
                       (case sync_loop cfg ch latestBlock (first_block cfg db3) db3 of
                          None \<Rightarrow> None
                        | Some (db4, Some e) \<Rightarrow> failed e db4
                        | Some (db4, None) \<Rightarrow>
                            let db5 = finishSync now cfg latestBlock db4 in Some (db5, Inr (readMetadata db5))))"

section \<open>The batches\<close>

function batch_ranges :: "int \<Rightarrow> int \<Rightarrow> int \<Rightarrow> (int \<times> int) list" where
  "batch_ranges batch latestBlock fromBlock =
     (if batch < 1 \<or> fromBlock > latestBlock then []
      else let toBlock = min (fromBlock + batch - 1) latestBlock
        in (fromBlock, toBlock) # batch_ranges batch latestBlock (toBlock + 1))"
  by pat_completeness auto

termination batch_ranges
  by (relation "measure (\<lambda>(batch, latestBlock, fromBlock). nat (latestBlock + 1 - fromBlock))") auto

declare batch_ranges.simps [simp del]

lemma batch_ranges_cover:
  assumes "1 \<le> batch"
  shows "concat (map (\<lambda>(a, b). [a..b]) (batch_ranges batch latestBlock fromBlock)) = [fromBlock..latestBlock]"
proof (induction "nat (latestBlock + 1 - fromBlock)" arbitrary: fromBlock rule: less_induct)
  case less
  show ?case
  proof (cases "fromBlock > latestBlock")
    case True
    then show ?thesis by (simp add: batch_ranges.simps)
  next
    case False
    define t where "t = min (fromBlock + batch - 1) latestBlock"
    have t: "fromBlock \<le> t" "t \<le> latestBlock" using assms False by (auto simp: t_def)
    have "concat (map (\<lambda>(a, b). [a..b]) (batch_ranges batch latestBlock (t + 1))) = [t + 1..latestBlock]"
      using t by (intro less.hyps) linarith
    moreover have "batch_ranges batch latestBlock fromBlock = (fromBlock, t) # batch_ranges batch latestBlock (t + 1)"
      using assms False by (subst batch_ranges.simps) (simp add: t_def Let_def)
    moreover have "[fromBlock..t] @ [t + 1..latestBlock] = [fromBlock..latestBlock]"
      using upto_split2 [of fromBlock t latestBlock] t by simp
    ultimately show ?thesis by simp
  qed
qed

lemma batch_ranges_size:
  "(a, b) \<in> set (batch_ranges batch latestBlock fromBlock) \<Longrightarrow> fromBlock \<le> a \<and> a \<le> b \<and> b \<le> latestBlock \<and> b < a + batch"
proof (induction batch latestBlock fromBlock rule: batch_ranges.induct)
  case (1 batch latestBlock fromBlock)
  then show ?case
    by (subst (asm) (2) batch_ranges.simps) (fastforce simp: Let_def split: if_splits)
qed

text \<open>The batches one after the other, up to the first that throws.\<close>

fun run_batches :: "sync_config \<Rightarrow> chain \<Rightarrow> (int \<times> int) list \<Rightarrow> read_db \<Rightarrow> read_db \<times> sync_error option" where
  "run_batches cfg ch [] db = (db, None)"
| "run_batches cfg ch ((a, b) # rs) db =
     (case sync_batch cfg ch a b db of Inl e \<Rightarrow> (db, Some e) | Inr db' \<Rightarrow> run_batches cfg ch rs db')"

lemma sync_loop_batches:
  assumes "1 \<le> sn_batchSize cfg"
  shows "sync_loop cfg ch latestBlock fromBlock db =
    Some (run_batches cfg ch (batch_ranges (sn_batchSize cfg) latestBlock fromBlock) db)"
proof (induction "nat (latestBlock + 1 - fromBlock)" arbitrary: fromBlock db rule: less_induct)
  case less
  show ?case
  proof (cases "fromBlock > latestBlock")
    case True
    then show ?thesis by (subst sync_loop.simps, subst batch_ranges.simps) simp
  next
    case False
    define t where "t = min (fromBlock + sn_batchSize cfg - 1) latestBlock"
    have "fromBlock \<le> t" "t \<le> latestBlock" using assms False by (auto simp: t_def)
    then have IH: "sync_loop cfg ch latestBlock (t + 1) db' =
        Some (run_batches cfg ch (batch_ranges (sn_batchSize cfg) latestBlock (t + 1)) db')" for db'
      by (intro less.hyps) linarith
    have r: "batch_ranges (sn_batchSize cfg) latestBlock fromBlock =
        (fromBlock, t) # batch_ranges (sn_batchSize cfg) latestBlock (t + 1)"
      using assms False by (subst batch_ranges.simps) (simp add: t_def Let_def)
    show ?thesis using False
      by (subst sync_loop.simps) (simp add: r IH t_def [symmetric] Let_def split: sum.split)
  qed
qed

lemma run_batches_split:
  "run_batches cfg ch rs db = (db', err) \<Longrightarrow> \<exists>ps qs. rs = ps @ qs \<and>
     in_turn (\<lambda>(a, b). sync_batch cfg ch a b) ps db = Inr db' \<and>
     (case err of None \<Rightarrow> qs = [] | Some e \<Rightarrow> \<exists>a b qs'. qs = (a, b) # qs' \<and> sync_batch cfg ch a b db' = Inl e)"
proof (induction cfg ch rs db rule: run_batches.induct)
  case (2 cfg ch a b rs db)
  show ?case
  proof (cases "sync_batch cfg ch a b db")
    case (Inl e)
    with 2 show ?thesis by (intro exI [of _ "[]"] exI [of _ "(a, b) # rs"]) auto
  next
    case (Inr d)
    with 2 obtain ps qs where "rs = ps @ qs" "in_turn (\<lambda>(a, b). sync_batch cfg ch a b) ps d = Inr db'"
      "case err of None \<Rightarrow> qs = [] | Some e \<Rightarrow> \<exists>a b qs'. qs = (a, b) # qs' \<and> sync_batch cfg ch a b db' = Inl e" by auto
    with Inr show ?thesis by (intro exI [of _ "(a, b) # ps"] exI [of _ qs]) simp
  qed
qed simp

lemma run_batches_append:
  "in_turn (\<lambda>(a, b). sync_batch cfg ch a b) ps db = Inr db' \<Longrightarrow>
     run_batches cfg ch (ps @ qs) db = run_batches cfg ch qs db'"
  by (induction ps arbitrary: db) (auto simp: and_then_Inr)

lemma batch_ranges_Cons:
  "batch_ranges batch latestBlock fromBlock = r # rs \<Longrightarrow>
     r = (fromBlock, snd r) \<and> rs = batch_ranges batch latestBlock (snd r + 1)"
  by (subst (asm) batch_ranges.simps) (auto simp: Let_def split: if_splits)

lemma batch_ranges_append:
  assumes "1 \<le> batch" and "batch_ranges batch latestBlock fromBlock = ps @ qs" and "ps \<noteq> []"
  shows "qs = batch_ranges batch latestBlock (snd (last ps) + 1)"
  using assms(2,3)
proof (induction ps arbitrary: fromBlock)
  case (Cons p ps)
  from Cons.prems have "ps @ qs = batch_ranges batch latestBlock (snd p + 1)"
    using batch_ranges_Cons [of batch latestBlock fromBlock p "ps @ qs"] by simp
  with Cons.IH show ?case by (cases "ps = []") auto
qed simp

text \<open>A committed batch leaves its last block as the cursor, with the hash in lower case.\<close>

lemma batch_cursor:
  assumes "sync_batch cfg ch a b db = Inr db'"
  shows "readSyncCursor db' = Some b"
    and "\<exists>h. canonical_hash ch b = Inr h \<and> h \<noteq> [] \<and> readIndexerBlockCheckpoint b db' = Some (js_lower h)"
proof -
  from assms obtain h ev where h: "canonical_hash ch b = Inr h"
    and ev: "applyChunk (sc_now ch b) (sn_deployment cfg) (sc_reads ch b) ev b h db = Inr db'"
    by (auto simp: sync_batch_def and_then_Inr)
  have ne: "h \<noteq> []"
    using h by (auto simp: canonical_hash_def and_then_Inr nullish_def truthy_def split: if_splits option.splits)
  show "readSyncCursor db' = Some b"
    using ev by (auto simp: applyChunk_Inr writeSyncCursor_def readSyncCursor_def Let_def)
  show "\<exists>h. canonical_hash ch b = Inr h \<and> h \<noteq> [] \<and> readIndexerBlockCheckpoint b db' = Some (js_lower h)"
    using h ev ne by (auto simp: applyChunk_Inr writeSyncCursor_def readIndexerBlockCheckpoint_def Let_def)
qed

lemma batches_cursor:
  "in_turn (\<lambda>(a, b). sync_batch cfg ch a b) ps db = Inr db' \<Longrightarrow> ps \<noteq> [] \<Longrightarrow> readSyncCursor db' = Some (snd (last ps))"
  by (induction ps rule: rev_induct) (auto simp: and_then_Inr dest: batch_cursor(1))

lemma batch_prefix_cover:
  assumes "1 \<le> batch" and "batch_ranges batch latestBlock fromBlock = ps @ qs" and "ps \<noteq> []"
  shows "concat (map (\<lambda>(a, b). [a..b]) ps) = [fromBlock..snd (last ps)]" and "fromBlock \<le> snd (last ps)"
    and "snd (last ps) \<le> latestBlock"
proof -
  obtain a b where l: "last ps = (a, b)" by fastforce
  have "last ps \<in> set (batch_ranges batch latestBlock fromBlock)" using assms(2,3) by simp
  with l batch_ranges_size [of a b] show b: "fromBlock \<le> snd (last ps)" "snd (last ps) \<le> latestBlock" by force+
  have "concat (map (\<lambda>(a, b). [a..b]) ps) @ [snd (last ps) + 1..latestBlock] = [fromBlock..latestBlock]"
    using batch_ranges_cover [OF assms(1), of latestBlock fromBlock] batch_ranges_cover [OF assms(1), of latestBlock "snd (last ps) + 1"]
    by (simp add: assms(2) batch_ranges_append [OF assms])
  also have "[fromBlock..latestBlock] = [fromBlock..snd (last ps)] @ [snd (last ps) + 1..latestBlock]"
    by (rule upto_split2 [OF b])
  finally show "concat (map (\<lambda>(a, b). [a..b]) ps) = [fromBlock..snd (last ps)]" by simp
qed

text \<open>
  C9: The synchronisation returns, and indexes every block once. With a positive batch size the loop
  ends; the batches it has committed cover the blocks from the first one up to some block without gap
  or overlap, the cursor is that block, and unless something was thrown it is the head.
\<close>

theorem sync_indexes_once:
  assumes "1 \<le> sn_batchSize cfg" and "fromBlock \<le> latestBlock"
  shows "\<exists>rs db' err upTo. sync_loop cfg ch latestBlock fromBlock db = Some (db', err) \<and>
    in_turn (\<lambda>(a, b). sync_batch cfg ch a b) rs db = Inr db' \<and>
    concat (map (\<lambda>(a, b). [a..b]) rs) = [fromBlock..upTo] \<and>
    readSyncCursor db' = (if rs = [] then readSyncCursor db else Some upTo) \<and>
    (err = None \<longleftrightarrow> upTo = latestBlock)"
proof -
  let ?R = "batch_ranges (sn_batchSize cfg) latestBlock fromBlock"
  obtain db' err where r: "run_batches cfg ch ?R db = (db', err)" by fastforce
  from run_batches_split [OF r] obtain ps qs where
    ps: "?R = ps @ qs" "in_turn (\<lambda>(a, b). sync_batch cfg ch a b) ps db = Inr db'" "err = None \<longleftrightarrow> qs = []"
    by (auto split: option.splits)
  have l: "sync_loop cfg ch latestBlock fromBlock db = Some (db', err)"
    by (simp add: sync_loop_batches [OF assms(1)] r)
  have "?R \<noteq> []" using assms by (subst batch_ranges.simps) (simp add: Let_def)
  show ?thesis
  proof (cases "ps = []")
    case True
    with ps \<open>?R \<noteq> []\<close> l assms(2) show ?thesis
      by (intro exI [of _ "[]"] exI [of _ db'] exI [of _ err] exI [of _ "fromBlock - 1"]) auto
  next
    case False
    note c = batch_prefix_cover [OF assms(1) ps(1) False]
    have "qs = [] \<longleftrightarrow> snd (last ps) = latestBlock"
      unfolding batch_ranges_append [OF assms(1) ps(1) False] using c(3) assms(1)
      by (subst batch_ranges.simps) (auto simp: Let_def)
    with False ps l c batches_cursor [OF ps(2) False] show ?thesis
      by (intro exI [of _ ps] exI [of _ db'] exI [of _ err] exI [of _ "snd (last ps)"]) simp
  qed
qed

text \<open>
  C18: An interrupted synchronisation resumes where it stopped. When a run has thrown in the middle, the
  next run, on answers of the chain that agree with those the first one could use, leaves the same
  read model as if nothing had happened.
\<close>

theorem sync_resumes:
  assumes "1 \<le> sn_batchSize cfg"
    and "sync_loop cfg ch latestBlock (first_block cfg db) db = Some (db', Some e)"
    and "\<forall>a b d d'. sync_batch cfg ch a b d = Inr d' \<longrightarrow> sync_batch cfg ch' a b d = Inr d'"
  shows "sync_loop cfg ch' latestBlock (first_block cfg db') db' = sync_loop cfg ch' latestBlock (first_block cfg db) db"
proof -
  let ?R = "batch_ranges (sn_batchSize cfg) latestBlock (first_block cfg db)"
  have "run_batches cfg ch ?R db = (db', Some e)" using assms(2) by (simp add: sync_loop_batches [OF assms(1)])
  from run_batches_split [OF this] obtain ps qs where
    ps: "?R = ps @ qs" "in_turn (\<lambda>(a, b). sync_batch cfg ch a b) ps db = Inr db'" by auto
  have ps': "in_turn (\<lambda>(a, b). sync_batch cfg ch' a b) ps db = Inr db'"
    using ps(2) assms(3) by (induction ps arbitrary: db) (auto simp: and_then_Inr)
  show ?thesis
  proof (cases "ps = []")
    case True
    with ps(2) show ?thesis by simp
  next
    case False
    note c = batch_prefix_cover [OF assms(1) ps(1) False]
    have "first_block cfg db' = snd (last ps) + 1"
      using c(2) by (simp add: first_block_def Let_def batches_cursor [OF ps(2) False])
    then show ?thesis
      by (simp add: sync_loop_batches [OF assms(1)] ps(1) run_batches_append [OF ps']
          batch_ranges_append [OF assms(1) ps(1) False])
  qed
qed


section \<open>Retries\<close>

lemma query_attempts_result:
  "int attempt \<le> maxRetries \<Longrightarrow> snd (query_attempts maxRetries delay query attempt) = Inr x \<longleftrightarrow>
     (\<exists>n. attempt \<le> n \<and> int n \<le> maxRetries \<and> query n = Inr x \<and>
        (\<forall>m. attempt \<le> m \<and> m < n \<longrightarrow> (\<exists>e. query m = Inl e \<and> isRateLimitError e)))"
proof (induction maxRetries delay query attempt rule: query_attempts.induct)
  case (1 maxRetries delay query attempt)
  let ?ok = "\<lambda>k n. k \<le> n \<and> int n \<le> maxRetries \<and> query n = Inr x \<and>
    (\<forall>m. k \<le> m \<and> m < n \<longrightarrow> (\<exists>e. query m = Inl e \<and> isRateLimitError e))"
  show ?case
  proof (cases "query attempt")
    case (Inr y)
    have "(\<exists>n. ?ok attempt n) \<longleftrightarrow> y = x"
    proof
      assume "\<exists>n. ?ok attempt n"
      then obtain n where n: "?ok attempt n" by blast
      then have "n = attempt" using Inr by (metis Inl_Inr_False le_eq_less_or_eq order_refl)
      with n Inr show "y = x" by simp
    next
      assume "y = x"
      with Inr 1(2) show "\<exists>n. ?ok attempt n" by (intro exI [of _ attempt]) auto
    qed
    with Inr show ?thesis by (subst query_attempts.simps) simp
  next
    case (Inl e)
    have step: "(\<exists>n. ?ok attempt n) \<longleftrightarrow> isRateLimitError e \<and> (\<exists>n. ?ok (attempt + 1) n)"
    proof
      assume "\<exists>n. ?ok attempt n"
      then obtain n where n: "?ok attempt n" by blast
      with Inl have "attempt < n" by (metis Inl_Inr_False le_eq_less_or_eq)
      with n Inl show "isRateLimitError e \<and> (\<exists>n. ?ok (attempt + 1) n)" by (auto intro!: exI [of _ n])
    next
      assume "isRateLimitError e \<and> (\<exists>n. ?ok (attempt + 1) n)"
      then obtain n where "isRateLimitError e" "?ok (attempt + 1) n" by blast
      moreover have "attempt \<le> m \<and> m < n \<Longrightarrow> m = attempt \<or> attempt + 1 \<le> m \<and> m < n" for m by linarith
      ultimately show "\<exists>n. ?ok attempt n"
        using Inl by (intro exI [of _ n]) (metis add_leD1)
    qed
    show ?thesis
    proof (cases "\<not> isRateLimitError e \<or> int attempt \<ge> maxRetries")
      case True
      then have "\<not> (isRateLimitError e \<and> (\<exists>n. ?ok (attempt + 1) n))" by auto
      with True Inl step show ?thesis by (subst query_attempts.simps) simp
    next
      case False
      then have "int (attempt + 1) \<le> maxRetries" by simp
      from 1(1) [OF Inl False this] False Inl step show ?thesis
        by (cases "query_attempts maxRetries delay query (attempt + 1)") (subst query_attempts.simps, simp)
    qed
  qed
qed

lemma query_attempts_waits:
  "int attempt \<le> maxRetries \<Longrightarrow> int (length (fst (query_attempts maxRetries delay query attempt))) \<le> maxRetries - int attempt"
proof (induction maxRetries delay query attempt rule: query_attempts.induct)
  case (1 maxRetries delay query attempt)
  show ?case
  proof (cases "query attempt")
    case (Inr y)
    with 1(2) show ?thesis by (subst query_attempts.simps) simp
  next
    case (Inl e)
    show ?thesis
    proof (cases "\<not> isRateLimitError e \<or> int attempt \<ge> maxRetries")
      case True
      with Inl 1(2) show ?thesis by (subst query_attempts.simps) simp
    next
      case False
      then have "int (attempt + 1) \<le> maxRetries" by simp
      from 1(1) [OF Inl False this] False Inl show ?thesis
        by (cases "query_attempts maxRetries delay query (attempt + 1)") (subst query_attempts.simps, simp)
    qed
  qed
qed

text \<open>
  A query is retried after a rate limit and after nothing else, as often as the limit allows. It
  answers with \<open>x\<close> exactly when one of its first attempts, at most one more than the limit, does and all
  before it were rate limits; the loop waits at most as often as the limit.
\<close>

theorem query_retry_bounded:
  assumes "0 \<le> rc_retries cfg"
  shows "(queryFilterWithRetry cfg query = Inr x \<longleftrightarrow> (\<exists>n. int n \<le> rc_retries cfg \<and> query n = Inr x \<and>
      (\<forall>m < n. \<exists>e. query m = Inl e \<and> isRateLimitError e))) \<and>
    int (length (fst (query_attempts (rc_retries cfg) (rc_delayMs cfg) query 0))) \<le> rc_retries cfg"
  using query_attempts_result [of 0 "rc_retries cfg" "rc_delayMs cfg" query x]
    query_attempts_waits [of 0 "rc_retries cfg" "rc_delayMs cfg" query] assms
  by (simp add: queryFilterWithRetry_def)

section \<open>Examples\<close>

definition sample_queries :: event_queries where
  "sample_queries = \<lparr>eq_claimCreated = (\<lambda>a b _. Inr (if a \<le> 1 \<and> 1 \<le> b then [sample_claim] else [])),
     eq_claimStatus = (\<lambda>_ _ _. Inr []), eq_resolutionDecision = (\<lambda>_ _ _. Inr []),
     eq_effectiveDecision = (\<lambda>_ _ _. Inr []), eq_artifact = (\<lambda>_ _ _. Inr []),
     eq_replicationSubmitted = (\<lambda>_ _ _. Inr []), eq_replicationResolved = (\<lambda>_ _ _. Inr []),
     eq_agentRegistered = (\<lambda>_ _ _. Inr []), eq_agentController = (\<lambda>_ _ _. Inr []),
     eq_agentBudgetDeposited = (\<lambda>_ _ _. Inr []), eq_agentBudgetReserved = (\<lambda>_ _ _. Inr []),
     eq_agentBudgetReleased = (\<lambda>_ _ _. Inr []), eq_agentBudgetConsumed = (\<lambda>_ _ _. Inr []),
     eq_agentBudgetWithdrawn = (\<lambda>_ _ _. Inr []), eq_agentSpendLimit = (\<lambda>_ _ _. Inr []),
     eq_agentStatus = (\<lambda>_ _ _. Inr []), eq_checkpoint = (\<lambda>_ _ _. Inr []),
     eq_forecastCommitted = (\<lambda>_ _ _. Inr []), eq_forecastRevealed = (\<lambda>_ _ _. Inr []),
     eq_forecastSettled = (\<lambda>_ _ _. Inr []), eq_challengeOpened = (\<lambda>_ _ _. Inr []),
     eq_challengeResolved = (\<lambda>_ _ _. Inr []), eq_challengeWithdrawn = (\<lambda>_ _ _. Inr []),
     eq_appealFiled = (\<lambda>_ _ _. Inr []), eq_appealAdjudicated = (\<lambda>_ _ _. Inr [])\<rparr>"

definition sample_config :: sync_config where
  "sample_config = \<lparr>sn_deployment = sample_deployment, sn_confirmationDepth = 0, sn_batchSize = 2,
     sn_retry = \<lparr>rc_retries = 1, rc_delayMs = 100\<rparr>\<rparr>"

definition sample_chain :: chain where
  "sample_chain = \<lparr>sc_head = Inr 4, sc_blockHash = (\<lambda>_. Inr (Some ''0xAB'')), sc_queries = sample_queries,
     sc_reads = (\<lambda>_. sample_reads), sc_now = (\<lambda>b. 1000 * b)\<rparr>"

text \<open>The provider fails to answer for block 4.\<close>

definition failing_chain :: chain where
  "failing_chain = sample_chain\<lparr>sc_blockHash := (\<lambda>b. if b = 4 then Inl (sample_error ''timeout'') else Inr (Some ''0xAB''))\<rparr>"

lemma sample_batch: "\<not> isl (sync_batch sample_config failing_chain 1 2 empty_read_db)"
  by code_simp

lemma failing_batch: "sync_batch sample_config failing_chain a 4 db = Inl (Chain_threw (sample_error ''timeout''))"
proof -
  have "fetchChunkEvents (sn_retry sample_config) (sc_queries failing_chain) a 4 =
      Inr (no_events\<lparr>ce_claimCreated := (if a \<le> 1 then [sample_claim] else [])\<rparr>)"
    by (simp add: fetchChunkEvents_def queryFilterWithRetry_def query_attempts.simps failing_chain_def sample_chain_def
        sample_queries_def no_events_def)
  then show ?thesis
    by (simp add: sync_batch_def reading_def canonical_hash_def failing_chain_def)
qed

text \<open>Batches after which nothing failed on the failing chain succeed on the sound one.\<close>

lemma failing_chain_agrees: "sync_batch sample_config failing_chain a b d = Inr d' \<Longrightarrow> sync_batch sample_config sample_chain a b d = Inr d'"
proof (cases "b = 4")
  case False
  then have "sync_batch sample_config failing_chain a b d = sync_batch sample_config sample_chain a b d"
    by (simp add: sync_batch_def canonical_hash_def failing_chain_def sample_chain_def)
  then show "sync_batch sample_config failing_chain a b d = Inr d' \<Longrightarrow> sync_batch sample_config sample_chain a b d = Inr d'" by simp
qed (simp add: failing_batch)

lemma failing_loop: "\<exists>db'. sync_loop sample_config failing_chain 4 1 empty_read_db =
    Some (db', Some (Chain_threw (sample_error ''timeout'')))"
proof -
  obtain d where d: "sync_batch sample_config failing_chain 1 2 empty_read_db = Inr d"
    using returns [OF sample_batch] ..
  have s: "sn_batchSize sample_config = 2" by (simp add: sample_config_def)
  have "sync_loop sample_config failing_chain 4 3 d = Some (d, Some (Chain_threw (sample_error ''timeout'')))"
    by (subst sync_loop.simps) (simp add: s failing_batch)
  then show ?thesis
    by (subst sync_loop.simps) (simp add: s d)
qed

theorem sync_indexes_once_witness:
  "\<exists>rs db' err upTo. sync_loop sample_config failing_chain 4 1 empty_read_db = Some (db', err) \<and>
    in_turn (\<lambda>(a, b). sync_batch sample_config failing_chain a b) rs empty_read_db = Inr db' \<and>
    concat (map (\<lambda>(a, b). [a..b]) rs) = [1..upTo] \<and>
    readSyncCursor db' = (if rs = [] then readSyncCursor empty_read_db else Some upTo) \<and>
    (err = None \<longleftrightarrow> upTo = 4)"
  by (rule sync_indexes_once) (simp_all add: sample_config_def)

theorem sync_resumes_witness:
  "\<exists>db' e. sync_loop sample_config failing_chain 4 1 empty_read_db = Some (db', Some e) \<and>
     sync_loop sample_config sample_chain 4 (first_block sample_config db') db' =
       sync_loop sample_config sample_chain 4 1 empty_read_db"
proof -
  have first: "first_block sample_config empty_read_db = 1"
    by (simp add: first_block_def sample_config_def sample_deployment_def empty_read_db_def readSyncCursor_def nullish_def)
  obtain db' e where r: "sync_loop sample_config failing_chain 4 (first_block sample_config empty_read_db) empty_read_db = Some (db', Some e)"
    using failing_loop unfolding first by blast
  have "1 \<le> sn_batchSize sample_config" by (simp add: sample_config_def)
  moreover have "\<forall>a b d d'. sync_batch sample_config failing_chain a b d = Inr d' \<longrightarrow> sync_batch sample_config sample_chain a b d = Inr d'"
    using failing_chain_agrees by blast
  with \<open>1 \<le> sn_batchSize sample_config\<close> r have "sync_loop sample_config sample_chain 4 (first_block sample_config db') db' =
      sync_loop sample_config sample_chain 4 (first_block sample_config empty_read_db) empty_read_db"
    using sync_resumes by blast
  with r show ?thesis unfolding first by blast
qed


theorem query_retry_bounded_witness:
  "queryFilterWithRetry \<lparr>rc_retries = 1, rc_delayMs = 100\<rparr> (\<lambda>n. if n = 0 then Inl (sample_error ''rate limit'') else Inr [n]) = Inr [1] \<longleftrightarrow>
     (\<exists>n. int n \<le> 1 \<and> (if n = 0 then Inl (sample_error ''rate limit'') else Inr [n]) = Inr [1 :: nat] \<and>
       (\<forall>m < n. \<exists>e. (if m = 0 then Inl (sample_error ''rate limit'') else Inr [m]) = Inl e \<and> isRateLimitError e))"
  using query_retry_bounded [of "\<lparr>rc_retries = 1, rc_delayMs = 100\<rparr>"
      "\<lambda>n. if n = 0 then Inl (sample_error ''rate limit'') else Inr [n]" "[1]"] by simp

end
