(* ===== verification/Read_Integrity.thy ===== *)
theory Read_Integrity
  imports Sync
begin

text \<open>
  The integrity of the read model: keys are distinct, references are valid, and a claim has at most
  one effective decision. Every write keeps it, hence every chunk, every run of the indexer, and every
  read model the indexer can reach.
\<close>

definition keys_distinct :: "read_db \<Rightarrow> bool" where
  "keys_distinct db \<longleftrightarrow> distinct (map cv_claimId (rm_claims db)) \<and> distinct (map av_artifactId (rm_artifacts db)) \<and>
     distinct (map rv_replicationId (rm_replications db)) \<and> distinct (map pv_checkpointId (rm_checkpoints db)) \<and>
     distinct (map nv_agentId (rm_agents db)) \<and> distinct (map controller_key (rm_controllers db)) \<and>
     distinct (map fv_forecastId (rm_forecasts db)) \<and> distinct (map dv_decisionId (rm_decisions db)) \<and>
     distinct (map hv_challengeId (rm_challenges db)) \<and> distinct (map lv_appealId (rm_appeals db))"

definition references_valid :: "read_db \<Rightarrow> bool" where
  "references_valid db \<longleftrightarrow> (\<forall>a \<in> set (rm_artifacts db). claim_known (av_claimId a) db) \<and>
     (\<forall>r \<in> set (rm_replications db). claim_known (rv_claimId r) db) \<and>
     (\<forall>c \<in> set (rm_controllers db). has_key nv_agentId (ov_agentId c) (rm_agents db)) \<and>
     (\<forall>f \<in> set (rm_forecasts db). forecast_keys_known f db) \<and>
     (\<forall>d \<in> set (rm_decisions db). claim_known (dv_claimId d) db \<and>
        has_key rv_replicationId (dv_replicationId d) (rm_replications db)) \<and>
     (\<forall>c \<in> set (rm_challenges db). claim_known (hv_claimId c) db) \<and>
     (\<forall>a \<in> set (rm_appeals db). claim_known (lv_claimId a) db)"

definition decisions_unique :: "read_db \<Rightarrow> bool" where
  "decisions_unique db \<longleftrightarrow> distinct (map dv_replicationId (rm_decisions db)) \<and>
     (\<forall>d \<in> set (rm_decisions db). \<forall>d' \<in> set (rm_decisions db).
        dv_effective d \<and> dv_effective d' \<and> dv_claimId d = dv_claimId d' \<longrightarrow> d = d')"

definition read_model_ok :: "read_db \<Rightarrow> bool" where
  "read_model_ok db \<longleftrightarrow> keys_distinct db \<and> references_valid db \<and> decisions_unique db"

section \<open>Single writes\<close>

lemma guarded_Inr: "guarded p e s = Inr s' \<longleftrightarrow> p \<and> s' = s"
  by (auto simp: guarded_def)

lemma in_turn_keeps:
  assumes "in_turn step xs s = Inr s'" and "P s" and "\<And>x s s'. step x s = Inr s' \<Longrightarrow> P s \<Longrightarrow> P s'"
  shows "P s'"
  using assms(1,2) by (induction xs arbitrary: s) (auto simp: and_then_Inr dest: assms(3))

lemma fold_keeps: "P s \<Longrightarrow> (\<And>x s. P s \<Longrightarrow> P (f x s)) \<Longrightarrow> P (fold f xs s)"
  by (induction xs arbitrary: s) auto

lemmas ok_defs = read_model_ok_def keys_distinct_def references_valid_def decisions_unique_def forecast_keys_known_def
  claim_known_def

lemma claim_kept:
  "read_model_ok db \<Longrightarrow> read_model_ok (upsertClaim c db)"
  by (simp add: ok_defs upsertClaim_def claim_rows.distinct_upsert claim_rows.has_upsert)

lemma status_kept: "updateClaimStatus c s db = Inr db' \<Longrightarrow> read_model_ok db \<Longrightarrow> read_model_ok db'"
  by (clarsimp simp: ok_defs updateClaimStatus_def guarded_Inr set_row_keys)

lemma artifact_kept: "insertArtifact a db = Inr db' \<Longrightarrow> read_model_ok db \<Longrightarrow> read_model_ok db'"
  by (auto simp: ok_defs insertArtifact_def guarded_Inr insert_new_upsert artifact_rows.distinct_upsert
      upsert_by_def update_where_def has_key_iff)

lemma submission_kept: "upsertReplicationSubmission r db = Inr db' \<Longrightarrow> read_model_ok db \<Longrightarrow> read_model_ok db'"
  by (clarsimp simp: ok_defs upsertReplicationSubmission_def guarded_Inr replication_rows.distinct_upsert
      replication_rows.has_upsert)
    (auto dest!: in_upsert_by simp: merge_submission_def submitted_only_def)

lemma resolution_kept: "applyReplicationResolution r z db = Inr db' \<Longrightarrow> read_model_ok db \<Longrightarrow> read_model_ok db'"
  by (clarsimp simp: ok_defs applyReplicationResolution_def guarded_Inr set_row_keys resolve_row_def)
    (auto dest!: in_set_row simp: resolve_row_def)

lemma decision_kept:
  assumes "insertResolutionDecision d db = Inr db'" and "read_model_ok db"
  shows "read_model_ok db'"
proof (cases "has_key dv_decisionId (dv_decisionId d) (rm_decisions db)")
  case True
  with assms show ?thesis by (simp add: insertResolutionDecision_def)
next
  case False
  have sub: "has_key dv_decisionId k (rm_decisions db) \<Longrightarrow> references dv_decisionId x (rm_decisions db) \<Longrightarrow>
      has_key dv_decisionId k (rm_decisions db @ ds)" for k x ds by (simp add: has_key_def)
  have "references dv_decisionId x (rm_decisions db) \<Longrightarrow> references dv_decisionId x (rm_decisions db @ ds)" for x ds
    by (auto simp: references_def has_key_def split: option.splits)
  with assms False show ?thesis
    by (auto simp: ok_defs insertResolutionDecision_def guarded_Inr has_key_iff split: if_splits)
qed

lemma effective_kept:
  assumes "markEffectiveResolutionDecision c d db = Inr db'" and ok: "read_model_ok db"
  shows "read_model_ok db'"
proof -
  let ?ds = "mark_effective c d (rm_decisions db)"
  have db': "db' = db\<lparr>rm_decisions := ?ds\<rparr>" using assms(1) by (simp add: markEffectiveResolutionDecision_def guarded_Inr)
  have keys: "has_key dv_decisionId k ?ds = has_key dv_decisionId k (rm_decisions db)" for k
    by (simp add: mark_effective_row has_key_map)
  have refs: "references dv_decisionId x ?ds = references dv_decisionId x (rm_decisions db)" for x
    by (simp add: references_def keys split: option.split)
  have "\<forall>x \<in> set ?ds. \<forall>y \<in> set ?ds. dv_effective x \<and> dv_effective y \<and> dv_claimId x = dv_claimId y \<longrightarrow> x = y"
  proof (intro ballI impI)
    fix x y assume x: "x \<in> set ?ds" and y: "y \<in> set ?ds"
      and e: "dv_effective x \<and> dv_effective y \<and> dv_claimId x = dv_claimId y"
    have ex: "\<exists>x0 \<in> set (rm_decisions db). x = (if dv_claimId x0 = c then x0\<lparr>dv_effective := (dv_decisionId x0 = d)\<rparr> else x0)"
      if "x \<in> set ?ds" for x using that unfolding mark_effective_row set_map by blast
    obtain x0 where x0: "x0 \<in> set (rm_decisions db)"
      "x = (if dv_claimId x0 = c then x0\<lparr>dv_effective := (dv_decisionId x0 = d)\<rparr> else x0)" using ex [OF x] by blast
    obtain y0 where y0: "y0 \<in> set (rm_decisions db)"
      "y = (if dv_claimId y0 = c then y0\<lparr>dv_effective := (dv_decisionId y0 = d)\<rparr> else y0)" using ex [OF y] by blast
    note xy = x0(1) y0(1) x0(2) y0(2)
    have "x0 = y0"
    proof (cases "dv_claimId x0 = c")
      case True
      then have cx: "x = x0\<lparr>dv_effective := (dv_decisionId x0 = d)\<rparr>" using xy(3) by simp
      have cy: "dv_claimId y0 = c"
      proof (rule ccontr)
        assume n: "dv_claimId y0 \<noteq> c"
        then have "y = y0" using xy(4) by simp
        with n cx e True show False by simp
      qed
      then have "y = y0\<lparr>dv_effective := (dv_decisionId y0 = d)\<rparr>" using xy(4) by simp
      with cx e have "dv_decisionId x0 = dv_decisionId y0" by simp
      moreover have "distinct (map dv_decisionId (rm_decisions db))" using ok by (simp add: ok_defs)
      ultimately show ?thesis using xy(1,2) by (simp add: distinct_map inj_on_def)
    next
      case False
      then have cx: "x = x0" using xy(3) by simp
      have cy: "y = y0"
      proof (cases "dv_claimId y0 = c")
        case True
        with xy(4) have "dv_claimId y = c" by simp
        with False cx e show ?thesis by simp
      next
        case False
        with xy(4) show ?thesis by simp
      qed
      have u: "decisions_unique db" using ok by (simp add: read_model_ok_def)
      show ?thesis using u xy(1,2) e unfolding decisions_unique_def cx cy by blast
    qed
    with xy(3,4) show "x = y" by simp
  qed
  with ok show ?thesis
    by (simp add: db' ok_defs refs mark_effective_ids) (auto simp: mark_effective_row)
qed

lemma plain_kept: "read_model_ok db \<Longrightarrow> read_model_ok (insertCheckpoint p db)"
  "read_model_ok db \<Longrightarrow> read_model_ok (upsertAgent n db)"
  by (simp_all add: ok_defs insertCheckpoint_def upsertAgent_def insert_new_upsert checkpoint_rows.distinct_upsert
      agent_rows.distinct_upsert agent_rows.has_upsert)

lemma controller_kept: "upsertAgentController c db = Inr db' \<Longrightarrow> read_model_ok db \<Longrightarrow> read_model_ok db'"
  by (clarsimp simp: ok_defs upsertAgentController_def guarded_Inr controller_rows.distinct_upsert)
    (auto dest!: in_upsert_by)

lemma forecast_kept:
  assumes "upsertForecast f db = Inr db'" and "read_model_ok db"
  shows "read_model_ok db'"
proof -
  have w: "forecast_keys_known (written_forecast f db) db"
    and db': "db' = db\<lparr>rm_forecasts := upsert_by fv_forecastId merge_forecast f (rm_forecasts db)\<rparr>"
    using assms(1) by (simp_all add: upsertForecast_def guarded_Inr)
  have d: "distinct (map fv_forecastId (rm_forecasts db))" using assms(2) by (simp add: ok_defs)
  have "forecast_keys_known r db" if "r \<in> set (rm_forecasts db')" for r
  proof -
    have dd: "distinct (map fv_forecastId (rm_forecasts db'))" by (simp add: db' forecast_rows.distinct_upsert d)
    have r: "find_by fv_forecastId (fv_forecastId r) (rm_forecasts db') = Some r" by (rule find_by_distinct [OF dd that])
    show ?thesis
    proof (cases "fv_forecastId r = fv_forecastId f")
      case True
      then have "r = written_forecast f db"
        using r by (simp add: db' forecast_rows.find_upsert written_forecast_def)
      with w show ?thesis by simp
    next
      case False
      then have "find_by fv_forecastId (fv_forecastId r) (rm_forecasts db) = Some r"
        using r by (simp add: db' forecast_rows.find_upsert)
      then have "r \<in> set (rm_forecasts db)" by (blast dest: find_by_Some)
      with assms(2) show ?thesis by (simp add: read_model_ok_def references_valid_def)
    qed
  qed
  then have "\<forall>r \<in> set (rm_forecasts db'). forecast_keys_known r db'"
    by (simp add: db' forecast_keys_known_def claim_known_def)
  with assms(2) show ?thesis
    by (simp add: db' ok_defs forecast_rows.distinct_upsert)
qed

lemma settlement_kept: "applyForecastSettlement f z db = Inr db' \<Longrightarrow> read_model_ok db \<Longrightarrow> read_model_ok db'"
  by (clarsimp simp: ok_defs applyForecastSettlement_def guarded_Inr set_row_keys settle_row_def split: if_splits)
    (auto dest!: in_set_row simp: settle_row_def)

lemma challenge_kept: "upsertChallenge c db = Inr db' \<Longrightarrow> read_model_ok db \<Longrightarrow> read_model_ok db'"
  by (clarsimp simp: ok_defs upsertChallenge_def guarded_Inr challenge_rows.distinct_upsert)
    (auto dest!: in_upsert_by simp: merge_challenge_def)

lemma outcome_kept: "applyChallengeResolution c z db = Inr db' \<Longrightarrow> read_model_ok db \<Longrightarrow> read_model_ok db'"
  by (clarsimp simp: ok_defs applyChallengeResolution_def guarded_Inr set_row_keys resolve_challenge_row_def)
    (auto dest!: in_set_row simp: resolve_challenge_row_def)

lemma withdrawal_kept: "applyChallengeWithdrawal c n db = Inr db' \<Longrightarrow> read_model_ok db \<Longrightarrow> read_model_ok db'"
  by (clarsimp simp: ok_defs applyChallengeWithdrawal_def guarded_Inr set_row_keys) (auto dest!: in_set_row)

lemma appeal_kept: "upsertAppeal a db = Inr db' \<Longrightarrow> read_model_ok db \<Longrightarrow> read_model_ok db'"
  by (clarsimp simp: ok_defs upsertAppeal_def guarded_Inr appeal_rows.distinct_upsert)
    (auto dest!: in_upsert_by simp: merge_appeal_def)

lemma adjudication_kept: "applyAppealAdjudication a z db = Inr db' \<Longrightarrow> read_model_ok db \<Longrightarrow> read_model_ok db'"
  by (clarsimp simp: ok_defs applyAppealAdjudication_def guarded_Inr set_row_keys adjudicate_row_def)
    (auto dest!: in_set_row simp: adjudicate_row_def)

section \<open>Chunks and runs\<close>

lemma pairs_keep:
  assumes "in_turn (\<lambda>(k, z). step k z) xs s = Inr s'" and "P s" and "\<And>k z s s'. step k z s = Inr s' \<Longrightarrow> P s \<Longrightarrow> P s'"
  shows "P s'"
  using assms(1,2) by (rule in_turn_keeps) (auto dest: assms(3))

lemma loops_kept:
  "in_turn insertArtifact xs0 db = Inr db' \<Longrightarrow> read_model_ok db \<Longrightarrow> read_model_ok db'"
  "in_turn upsertReplicationSubmission xs1 db = Inr db' \<Longrightarrow> read_model_ok db \<Longrightarrow> read_model_ok db'"
  "in_turn insertResolutionDecision xs2 db = Inr db' \<Longrightarrow> read_model_ok db \<Longrightarrow> read_model_ok db'"
  "in_turn upsertAgentController xs3 db = Inr db' \<Longrightarrow> read_model_ok db \<Longrightarrow> read_model_ok db'"
  "in_turn upsertForecast xs4 db = Inr db' \<Longrightarrow> read_model_ok db \<Longrightarrow> read_model_ok db'"
  "in_turn upsertChallenge xs5 db = Inr db' \<Longrightarrow> read_model_ok db \<Longrightarrow> read_model_ok db'"
  "in_turn upsertAppeal xs6 db = Inr db' \<Longrightarrow> read_model_ok db \<Longrightarrow> read_model_ok db'"
  subgoal by (erule (1) in_turn_keeps) (rule artifact_kept)
  subgoal by (erule (1) in_turn_keeps) (rule submission_kept)
  subgoal by (erule (1) in_turn_keeps) (rule decision_kept)
  subgoal by (erule (1) in_turn_keeps) (rule controller_kept)
  subgoal by (erule (1) in_turn_keeps) (rule forecast_kept)
  subgoal by (erule (1) in_turn_keeps) (rule challenge_kept)
  subgoal by (erule (1) in_turn_keeps) (rule appeal_kept)
  done

lemma pair_loops_kept:
  "in_turn (\<lambda>(k, z). updateClaimStatus k z) ys0 db = Inr db' \<Longrightarrow> read_model_ok db \<Longrightarrow> read_model_ok db'"
  "in_turn (\<lambda>(k, z). applyReplicationResolution k z) ys1 db = Inr db' \<Longrightarrow> read_model_ok db \<Longrightarrow> read_model_ok db'"
  "in_turn (\<lambda>(k, z). markEffectiveResolutionDecision k z) ys2 db = Inr db' \<Longrightarrow> read_model_ok db \<Longrightarrow> read_model_ok db'"
  "in_turn (\<lambda>(k, z). applyForecastSettlement k z) ys3 db = Inr db' \<Longrightarrow> read_model_ok db \<Longrightarrow> read_model_ok db'"
  "in_turn (\<lambda>(k, z). applyChallengeResolution k z) ys4 db = Inr db' \<Longrightarrow> read_model_ok db \<Longrightarrow> read_model_ok db'"
  "in_turn (\<lambda>(k, z). applyChallengeWithdrawal k z) ys5 db = Inr db' \<Longrightarrow> read_model_ok db \<Longrightarrow> read_model_ok db'"
  "in_turn (\<lambda>(k, z). applyAppealAdjudication k z) ys6 db = Inr db' \<Longrightarrow> read_model_ok db \<Longrightarrow> read_model_ok db'"
  subgoal by (erule (1) pairs_keep) (rule status_kept)
  subgoal by (erule (1) pairs_keep) (rule resolution_kept)
  subgoal by (erule (1) pairs_keep) (rule effective_kept)
  subgoal by (erule (1) pairs_keep) (rule settlement_kept)
  subgoal by (erule (1) pairs_keep) (rule outcome_kept)
  subgoal by (erule (1) pairs_keep) (rule withdrawal_kept)
  subgoal by (erule (1) pairs_keep) (rule adjudication_kept)
  done

lemma tables_kept:
  assumes "writeTables w db = Inr db'" and "read_model_ok db"
  shows "read_model_ok db'"
proof -
  have f: "read_model_ok (fold upsertClaim cs db)" "read_model_ok (fold insertCheckpoint ps db)" "read_model_ok (fold upsertAgent ns db)"
    if "read_model_ok db" for cs ps ns db using that by (auto intro!: fold_keeps [where P = read_model_ok] claim_kept plain_kept)
  obtain d1 d2 d3 d4 d5 d6 d7 d8 d9 d10 d11 d12 d13 where s:
    "in_turn (\<lambda>(k, z). updateClaimStatus k z) (cw_statuses w) (fold upsertClaim (cw_claims w) db) = Inr d1"
    "in_turn insertArtifact (cw_artifacts w) d1 = Inr d2"
    "in_turn upsertReplicationSubmission (cw_replications w) d2 = Inr d3"
    "in_turn (\<lambda>(k, z). applyReplicationResolution k z) (cw_resolutions w) d3 = Inr d4"
    "in_turn insertResolutionDecision (cw_decisions w) d4 = Inr d5"
    "in_turn (\<lambda>(k, z). markEffectiveResolutionDecision k z) (cw_effective w) d5 = Inr d6"
    "in_turn upsertAgentController (cw_controllers w)
       (fold upsertAgent (cw_agents w) (fold insertCheckpoint (cw_checkpoints w) d6)) = Inr d7"
    "in_turn upsertForecast (cw_forecasts w) d7 = Inr d8"
    "in_turn (\<lambda>(k, z). applyForecastSettlement k z) (cw_settlements w) d8 = Inr d9"
    "in_turn upsertChallenge (cw_challenges w) d9 = Inr d10"
    "in_turn (\<lambda>(k, z). applyChallengeResolution k z) (cw_challengeResolutions w) d10 = Inr d11"
    "in_turn (\<lambda>(k, z). applyChallengeWithdrawal k z) (cw_withdrawals w) d11 = Inr d12"
    "in_turn upsertAppeal (cw_appeals w) d12 = Inr d13"
    "in_turn (\<lambda>(k, z). applyAppealAdjudication k z) (cw_adjudications w) d13 = Inr db'"
    using assms(1) unfolding writeTables_def and_then_Inr by blast
  note k1 = pair_loops_kept(1) [OF s(1) f(1) [OF assms(2)]]
  note k2 = loops_kept(1) [OF s(2) k1]
  note k3 = loops_kept(2) [OF s(3) k2]
  note k4 = pair_loops_kept(2) [OF s(4) k3]
  note k5 = loops_kept(3) [OF s(5) k4]
  note k6 = pair_loops_kept(3) [OF s(6) k5]
  note k7 = loops_kept(4) [OF s(7) f(3) [OF f(2) [OF k6]]]
  note k8 = loops_kept(5) [OF s(8) k7]
  note k9 = pair_loops_kept(4) [OF s(9) k8]
  note k10 = loops_kept(6) [OF s(10) k9]
  note k11 = pair_loops_kept(5) [OF s(11) k10]
  note k12 = pair_loops_kept(6) [OF s(12) k11]
  note k13 = loops_kept(7) [OF s(13) k12]
  show ?thesis by (rule pair_loops_kept(7) [OF s(14) k13])
qed

lemma bookkeeping_kept [simp]:
  "read_model_ok (writeSyncCursor b h db) = read_model_ok db"
  "read_model_ok (updateReadModelMetadata m db) = read_model_ok db"
  "read_model_ok (recordIndexerBlockCheckpoint n g db) = read_model_ok db"
  "read_model_ok (put_runtime r db) = read_model_ok db"
  "read_model_ok (setMetadataValues vs db) = read_model_ok db"
  "read_model_ok (rm_cursors_update k db) = read_model_ok db"
  by (simp_all add: ok_defs writeSyncCursor_def updateReadModelMetadata_def setMetadataValues_def
      recordIndexerBlockCheckpoint_def put_runtime_def Let_def split: option.split)

lemma base_kept: "ensureReadModelBaseState now c d db = Inr db' \<Longrightarrow> read_model_ok db' = read_model_ok db"
  by (auto simp: ensureReadModelBaseState_def Let_def split: option.splits if_splits)

lemma batch_kept: "sync_batch cfg ch a b db = Inr db' \<Longrightarrow> read_model_ok db \<Longrightarrow> read_model_ok db'"
  by (auto simp: sync_batch_def and_then_Inr applyChunk_Inr dest: tables_kept)

lemma batches_kept: "run_batches cfg ch rs db = (db', err) \<Longrightarrow> read_model_ok db \<Longrightarrow> read_model_ok db'"
  by (induction cfg ch rs db rule: run_batches.induct) (auto split: sum.splits dest: batch_kept)

lemma cursor_check_kept: "checkCursor cfg ch db = Inr db' \<Longrightarrow> read_model_ok db' = read_model_ok db"
  by (auto simp: checkCursor_def Let_def and_then_Inr split: option.splits if_splits)

lemma marks_kept [simp]: "read_model_ok (markSyncStarted now db) = read_model_ok db"
  "read_model_ok (markSyncFailed now m db) = read_model_ok db" "read_model_ok (finishSync now cfg b db) = read_model_ok db"
  by (simp_all add: markSyncStarted_def markSyncFailed_def markSyncSucceeded_def finishSync_def)

lemma loop_kept:
  assumes "1 \<le> sn_batchSize cfg" and "sync_loop cfg ch upTo a db = Some (db', err)" and "read_model_ok db"
  shows "read_model_ok db'"
  using assms by (auto simp: sync_loop_batches dest: batches_kept)

lemma run_kept:
  assumes "1 \<le> sn_batchSize cfg" and "syncReadModel pg now locked cfg ch db = Some (db', r)" and "read_model_ok db"
  shows "read_model_ok db'"
  using assms(2,3) unfolding syncReadModel_def Let_def
  by (auto split: sum.splits if_splits option.splits prod.splits
      simp: base_kept cursor_check_kept dest: loop_kept [OF assms(1)])

text \<open>The read models the indexer can reach, from the empty tables.\<close>

inductive indexed :: "read_db \<Rightarrow> bool" where
  migrated: "indexed empty_read_db"
| synced: "indexed db \<Longrightarrow> 1 \<le> sn_batchSize cfg \<Longrightarrow> syncReadModel pg now locked cfg ch db = Some (db', r) \<Longrightarrow> indexed db'"

text \<open>
  C8: The read model keeps its integrity. In every read model the indexer can reach, whatever the
  chain answers and wherever a run is stopped, the keys of each table are distinct, every reference
  names a row that is there, and a claim has at most one effective decision.
\<close>

theorem read_model_integrity:
  assumes "indexed db"
  shows "keys_distinct db \<and> references_valid db \<and> decisions_unique db"
proof -
  have "read_model_ok db" using assms
  proof induction
    case migrated
    show ?case by (simp add: ok_defs empty_read_db_def)
  next
    case (synced db cfg pg now locked ch db' r)
    then show ?case by (blast intro: run_kept)
  qed
  then show ?thesis by (simp add: read_model_ok_def)
qed

theorem read_model_integrity_witness:
  "\<exists>db' r. syncReadModel (\<lambda>_. []) 0 False sample_config failing_chain empty_read_db = Some (db', r) \<and>
     keys_distinct db' \<and> references_valid db' \<and> decisions_unique db'"
proof -
  have b: "1 \<le> sn_batchSize sample_config" by (simp add: sample_config_def)
  have "syncReadModel (\<lambda>_. []) 0 False sample_config failing_chain empty_read_db \<noteq> None"
    unfolding syncReadModel_def Let_def by (simp add: sync_loop_batches [OF b] split: sum.split prod.split option.split)
  then obtain db' r where r: "syncReadModel (\<lambda>_. []) 0 False sample_config failing_chain empty_read_db = Some (db', r)"
    by (metis not_Some_eq surj_pair)
  from read_model_integrity [OF indexed.synced [OF indexed.migrated b r]] r show ?thesis by blast
qed

end
