(* ===== verification/Read_Queries.thy ===== *)
theory Read_Queries
  imports Read_Model Pagination
begin

text \<open>
  The queries of \<open>indexer/store.ts\<close> (lines 1102-2075): filters, order by the number of the id, pages,
  counts and the whole read model. A query names the columns it selects; PostgreSQL refuses one that
  the migrations have not added to the table. \<open>CAST(id AS INTEGER)\<close> is the number of a decimal id;
  ids above the range of \<open>INTEGER\<close>, for which the cast throws, are not modelled.
\<close>

datatype query_error = Undefined_column string

definition select_rows :: "string list \<Rightarrow> string list \<Rightarrow> 'r list \<Rightarrow> query_error + 'r list" where
  "select_rows columns selected rows = (case List.find (\<lambda>c. c \<notin> set columns) selected of
     Some c \<Rightarrow> Inl (Undefined_column c) | None \<Rightarrow> Inr rows)"

definition by_number :: "('r \<Rightarrow> string) \<Rightarrow> 'r list \<Rightarrow> 'r list" where
  "by_number key = js_sort (\<lambda>x y. number_of_text (key x) - number_of_text (key y))"

section \<open>Columns of the tables\<close>

definition claim_columns :: "string list" where
  "claim_columns = [''claim_id'', ''author'', ''domain_id'', ''metadata_hash'', ''resolution_module'', ''status'',
     ''revision_of_claim_id'', ''created_at_block'']"

definition artifact_columns :: "string list" where
  "artifact_columns = [''artifact_id'', ''claim_id'', ''artifact_type'', ''content_digest'', ''uri'', ''submitter'']"

definition replication_columns :: "string list" where
  "replication_columns = [''replication_id'', ''claim_id'', ''replicator'', ''agent_id'', ''result_hash'', ''outcome'',
     ''resolution_status'', ''confidence_bps'', ''resolver_type'', ''resolution_hash'', ''evidence_hash'', ''evidence_uri'']"

definition checkpoint_columns :: "string list" where
  "checkpoint_columns = [''checkpoint_id'', ''domain_id'', ''subject_type'', ''subject_actor'', ''subject_claim_id'',
     ''subject_agent_id'', ''subject_module'', ''score_vector_hash'', ''payload_hash'', ''uri'']"

definition agent_columns :: "string list" where
  "agent_columns = [''agent_id'', ''operator'', ''metadata_hash'', ''uri'', ''budget_balance'', ''reserved_budget'',
     ''spend_limit'', ''active'']"

definition controller_columns :: "string list" where
  "controller_columns = [''agent_id'', ''controller'', ''authorized'']"

definition forecast_columns :: "string list" where
  "forecast_columns = [''forecast_id'', ''claim_id'', ''forecaster'', ''agent_id'', ''commitment_hash'', ''stake_amount'',
     ''committed_at'', ''reveal_deadline'', ''revealed'', ''settled'', ''direction'', ''confidence_bps'', ''final_status'',
     ''matched'', ''payout_amount'', ''resolution_decision_id'', ''effective_decision_id_at_commit'']"

definition challenge_columns :: "string list" where
  "challenge_columns = [''challenge_id'', ''claim_id'', ''replication_id'', ''challenger'', ''agent_id'', ''evidence_hash'',
     ''evidence_uri'', ''bond_amount'', ''status'', ''resolution_hash'', ''created_at'', ''resolved_at'', ''payout_amount'',
     ''refunded_amount'']"

definition appeal_columns :: "string list" where
  "appeal_columns = [''appeal_id'', ''claim_id'', ''replication_id'', ''challenge_id'', ''appellant'', ''reason'',
     ''filing_hash'', ''uri'', ''status'', ''adjudication_hash'', ''adjudication_uri'', ''bond_amount'', ''created_at'',
     ''adjudicated_at'', ''refunded_amount'']"

section \<open>Queries\<close>

definition queryClaims :: "(claim_view \<Rightarrow> bool) \<Rightarrow> read_db \<Rightarrow> query_error + claim_view list" where
  "queryClaims p db = select_rows claim_columns
     [''claim_id'', ''author'', ''domain_id'', ''metadata_hash'', ''resolution_module'', ''status'',
      ''revision_of_claim_id'', ''created_at_block''] (by_number cv_claimId (filter p (rm_claims db)))"

definition queryArtifacts :: "(artifact_view \<Rightarrow> bool) \<Rightarrow> read_db \<Rightarrow> query_error + artifact_view list" where
  "queryArtifacts p db = select_rows artifact_columns
     [''artifact_id'', ''claim_id'', ''artifact_type'', ''content_digest'', ''uri'', ''submitter'']
     (by_number av_artifactId (filter p (rm_artifacts db)))"

definition queryReplications :: "(replication_view \<Rightarrow> bool) \<Rightarrow> read_db \<Rightarrow> query_error + replication_view list" where
  "queryReplications p db = select_rows replication_columns
     [''replication_id'', ''claim_id'', ''replicator'', ''agent_id'', ''result_hash'', ''outcome'', ''resolution_status'',
      ''confidence_bps'', ''resolution_decision_id'', ''resolver_type'', ''resolution_hash'', ''evidence_hash'',
      ''evidence_uri''] (by_number rv_replicationId (filter p (rm_replications db)))"

definition queryCheckpoints :: "(checkpoint_view \<Rightarrow> bool) \<Rightarrow> read_db \<Rightarrow> query_error + checkpoint_view list" where
  "queryCheckpoints p db = select_rows checkpoint_columns
     [''checkpoint_id'', ''domain_id'', ''subject_type'', ''subject_actor'', ''subject_claim_id'', ''subject_agent_id'',
      ''subject_module'', ''score_vector_hash'', ''payload_hash'', ''uri'']
     (by_number pv_checkpointId (filter p (rm_checkpoints db)))"

definition queryAgents :: "(agent_view \<Rightarrow> bool) \<Rightarrow> read_db \<Rightarrow> query_error + agent_view list" where
  "queryAgents p db = select_rows agent_columns
     [''agent_id'', ''operator'', ''metadata_hash'', ''uri'', ''budget_balance'', ''reserved_budget'', ''spend_limit'',
      ''active''] (by_number nv_agentId (filter p (rm_agents db)))"

text \<open>\<open>ORDER BY CAST(agent_id AS INTEGER) ASC, lower(controller) ASC\<close>; addresses are hexadecimal.\<close>

definition queryAgentControllers ::
  "(agent_controller_view \<Rightarrow> bool) \<Rightarrow> read_db \<Rightarrow> query_error + agent_controller_view list" where
  "queryAgentControllers p db = select_rows controller_columns [''agent_id'', ''controller'', ''authorized'']
     (js_sort (\<lambda>x y. let n = number_of_text (ov_agentId x) - number_of_text (ov_agentId y) in
        if n \<noteq> 0 then n else cmp_list (map (\<lambda>c. int (code c)) (js_lower (ov_controller x)))
          (map (\<lambda>c. int (code c)) (js_lower (ov_controller y)))) (filter p (rm_controllers db)))"

definition queryForecasts :: "(forecast_view \<Rightarrow> bool) \<Rightarrow> read_db \<Rightarrow> query_error + forecast_view list" where
  "queryForecasts p db = select_rows forecast_columns
     [''forecast_id'', ''claim_id'', ''forecaster'', ''agent_id'', ''commitment_hash'', ''stake_amount'', ''committed_at'',
      ''reveal_deadline'', ''revealed'', ''settled'', ''direction'', ''confidence_bps'',
      ''effective_decision_id_at_commit'', ''resolution_decision_id'', ''final_status'', ''matched'', ''payout_amount'']
     (by_number fv_forecastId (filter p (rm_forecasts db)))"

definition queryChallenges :: "(challenge_view \<Rightarrow> bool) \<Rightarrow> read_db \<Rightarrow> query_error + challenge_view list" where
  "queryChallenges p db = select_rows challenge_columns
     [''challenge_id'', ''claim_id'', ''replication_id'', ''challenger'', ''agent_id'', ''evidence_hash'', ''evidence_uri'',
      ''bond_amount'', ''status'', ''resolution_hash'', ''created_at'', ''resolved_at'', ''payout_amount'',
      ''refunded_amount''] (by_number hv_challengeId (filter p (rm_challenges db)))"

definition queryAppeals :: "(appeal_view \<Rightarrow> bool) \<Rightarrow> read_db \<Rightarrow> query_error + appeal_view list" where
  "queryAppeals p db = select_rows appeal_columns
     [''appeal_id'', ''claim_id'', ''replication_id'', ''challenge_id'', ''appellant'', ''reason'', ''filing_hash'', ''uri'',
      ''status'', ''adjudication_hash'', ''adjudication_uri'', ''bond_amount'', ''created_at'', ''adjudicated_at'',
      ''refunded_amount''] (by_number lv_appealId (filter p (rm_appeals db)))"

section \<open>Filters\<close>

text \<open>
  The clauses of the \<open>build\<dots>WhereClause\<close> functions: a text that is absent or empty does not restrict,
  nor does an undefined number or flag, nor an absent or empty list of ids; addresses are compared in
  lower case.
\<close>

definition text_clause :: "string option \<Rightarrow> string \<Rightarrow> bool" where
  "text_clause given column \<longleftrightarrow> (truthy given \<longrightarrow> given = Some column)"

definition folded_clause :: "string option \<Rightarrow> string \<Rightarrow> bool" where
  "folded_clause given column \<longleftrightarrow> (truthy given \<longrightarrow> map_option js_lower given = Some (js_lower column))"

definition value_clause :: "'a option \<Rightarrow> 'a \<Rightarrow> bool" where
  "value_clause given column \<longleftrightarrow> (case given of None \<Rightarrow> True | Some v \<Rightarrow> v = column)"

text \<open>A nullable column: null equals nothing.\<close>

definition nullable_clause :: "'a option \<Rightarrow> 'a option \<Rightarrow> bool" where
  "nullable_clause given column \<longleftrightarrow> (given = None \<or> given = column)"

definition any_clause :: "string list option \<Rightarrow> string \<Rightarrow> bool" where
  "any_clause given column \<longleftrightarrow> (case given of None \<Rightarrow> True | Some ids \<Rightarrow> ids = [] \<or> column \<in> set ids)"

record claim_list_options =
  oc_author :: "string option"
  oc_domainId :: "int option"
  oc_status :: "int option"

definition buildClaimWhereClause :: "claim_list_options \<Rightarrow> claim_view \<Rightarrow> bool" where
  "buildClaimWhereClause f c \<longleftrightarrow> folded_clause (oc_author f) (cv_author c) \<and>
     value_clause (oc_domainId f) (cv_domainId c) \<and> value_clause (oc_status f) (cv_status c)"

record artifact_list_options =
  oa_artifactType :: "int option"
  oa_claimId :: "string option"
  oa_claimIds :: "string list option"
  oa_submitter :: "string option"

definition buildArtifactWhereClause :: "artifact_list_options \<Rightarrow> artifact_view \<Rightarrow> bool" where
  "buildArtifactWhereClause f a \<longleftrightarrow> text_clause (oa_claimId f) (av_claimId a) \<and>
     any_clause (oa_claimIds f) (av_claimId a) \<and> value_clause (oa_artifactType f) (av_artifactType a) \<and>
     folded_clause (oa_submitter f) (av_submitter a)"

record replication_list_options =
  or_agentId :: "string option"
  or_claimId :: "string option"
  or_claimIds :: "string list option"
  or_confidenceBps :: "int option"
  or_outcome :: "int option"
  or_replicator :: "string option"
  or_resolutionStatus :: "int option"
  or_resolverType :: "int option"

definition buildReplicationWhereClause :: "replication_list_options \<Rightarrow> replication_view \<Rightarrow> bool" where
  "buildReplicationWhereClause f r \<longleftrightarrow> text_clause (or_claimId f) (rv_claimId r) \<and>
     any_clause (or_claimIds f) (rv_claimId r) \<and> folded_clause (or_replicator f) (rv_replicator r) \<and>
     text_clause (or_agentId f) (rv_agentId r) \<and> nullable_clause (or_outcome f) (rv_outcome r) \<and>
     nullable_clause (or_resolutionStatus f) (rv_resolutionStatus r) \<and>
     nullable_clause (or_resolverType f) (rv_resolverType r) \<and> nullable_clause (or_confidenceBps f) (rv_confidenceBps r)"

record checkpoint_list_options =
  op_claimId :: "string option"
  op_domainId :: "int option"
  op_subjectActor :: "string option"
  op_subjectAgentId :: "string option"
  op_subjectModule :: "string option"
  op_subjectType :: "int option"

definition buildCheckpointWhereClause :: "checkpoint_list_options \<Rightarrow> checkpoint_view \<Rightarrow> bool" where
  "buildCheckpointWhereClause f c \<longleftrightarrow> text_clause (op_claimId f) (pv_subjectClaimId c) \<and>
     value_clause (op_domainId f) (pv_domainId c) \<and> value_clause (op_subjectType f) (pv_subjectType c) \<and>
     folded_clause (op_subjectActor f) (pv_subjectActor c) \<and> text_clause (op_subjectAgentId f) (pv_subjectAgentId c) \<and>
     folded_clause (op_subjectModule f) (pv_subjectModule c)"

record agent_list_options =
  on_active :: "bool option"
  on_operator :: "string option"

definition buildAgentWhereClause :: "agent_list_options \<Rightarrow> agent_view \<Rightarrow> bool" where
  "buildAgentWhereClause f a \<longleftrightarrow> folded_clause (on_operator f) (nv_operator a) \<and> value_clause (on_active f) (nv_active a)"

record controller_list_options =
  oo_agentId :: "string option"
  oo_authorized :: "bool option"
  oo_controller :: "string option"

definition buildAgentControllerWhereClause :: "controller_list_options \<Rightarrow> agent_controller_view \<Rightarrow> bool" where
  "buildAgentControllerWhereClause f c \<longleftrightarrow> text_clause (oo_agentId f) (ov_agentId c) \<and>
     folded_clause (oo_controller f) (ov_controller c) \<and> value_clause (oo_authorized f) (ov_authorized c)"

record forecast_list_options =
  of_agentId :: "string option"
  of_claimId :: "string option"
  of_finalStatus :: "int option"
  of_forecaster :: "string option"
  of_revealed :: "bool option"
  of_settled :: "bool option"

definition buildForecastWhereClause :: "forecast_list_options \<Rightarrow> forecast_view \<Rightarrow> bool" where
  "buildForecastWhereClause f v \<longleftrightarrow> text_clause (of_claimId f) (fv_claimId v) \<and>
     folded_clause (of_forecaster f) (fv_forecaster v) \<and> text_clause (of_agentId f) (fv_agentId v) \<and>
     value_clause (of_revealed f) (fv_revealed v) \<and> value_clause (of_settled f) (fv_settled v) \<and>
     nullable_clause (of_finalStatus f) (fv_finalStatus v)"

record challenge_list_options =
  oh_agentId :: "string option"
  oh_challenger :: "string option"
  oh_claimId :: "string option"
  oh_replicationId :: "string option"
  oh_status :: "int option"

definition buildChallengeWhereClause :: "challenge_list_options \<Rightarrow> challenge_view \<Rightarrow> bool" where
  "buildChallengeWhereClause f c \<longleftrightarrow> text_clause (oh_claimId f) (hv_claimId c) \<and>
     text_clause (oh_replicationId f) (hv_replicationId c) \<and> folded_clause (oh_challenger f) (hv_challenger c) \<and>
     text_clause (oh_agentId f) (hv_agentId c) \<and> value_clause (oh_status f) (hv_status c)"

record appeal_list_options =
  ol_appellant :: "string option"
  ol_challengeId :: "string option"
  ol_claimId :: "string option"
  ol_reason :: "int option"
  ol_replicationId :: "string option"
  ol_status :: "int option"

definition buildAppealWhereClause :: "appeal_list_options \<Rightarrow> appeal_view \<Rightarrow> bool" where
  "buildAppealWhereClause f a \<longleftrightarrow> text_clause (ol_claimId f) (lv_claimId a) \<and>
     text_clause (ol_replicationId f) (lv_replicationId a) \<and> text_clause (ol_challengeId f) (lv_challengeId a) \<and>
     folded_clause (ol_appellant f) (lv_appellant a) \<and> value_clause (ol_reason f) (lv_reason a) \<and>
     value_clause (ol_status f) (lv_status a)"

section \<open>Pages and single reads\<close>

definition page_rows :: "int option \<Rightarrow> int option \<Rightarrow> query_error + 'r list \<Rightarrow> query_error + 'r page" where
  "page_rows limit offset rows = and_then rows (\<lambda>rs. Inr (queryPage rs limit offset))"

definition readClaimsPage where
  "readClaimsPage db f limit offset = page_rows limit offset (queryClaims (buildClaimWhereClause f) db)"

definition readArtifactsPage where
  "readArtifactsPage db f limit offset = page_rows limit offset (queryArtifacts (buildArtifactWhereClause f) db)"

definition readReplicationsPage where
  "readReplicationsPage db f limit offset = page_rows limit offset (queryReplications (buildReplicationWhereClause f) db)"

definition readCheckpointsPage where
  "readCheckpointsPage db f limit offset = page_rows limit offset (queryCheckpoints (buildCheckpointWhereClause f) db)"

definition readAgentsPage where
  "readAgentsPage db f limit offset = page_rows limit offset (queryAgents (buildAgentWhereClause f) db)"

definition readAgentControllersPage where
  "readAgentControllersPage db f limit offset =
     page_rows limit offset (queryAgentControllers (buildAgentControllerWhereClause f) db)"

definition readForecastsPage where
  "readForecastsPage db f limit offset = page_rows limit offset (queryForecasts (buildForecastWhereClause f) db)"

definition readChallengesPage where
  "readChallengesPage db f limit offset = page_rows limit offset (queryChallenges (buildChallengeWhereClause f) db)"

definition readAppealsPage where
  "readAppealsPage db f limit offset = page_rows limit offset (queryAppeals (buildAppealWhereClause f) db)"

text \<open>\<open>result[0]\<close>\<close>

definition first_row :: "query_error + 'r list \<Rightarrow> query_error + 'r option" where
  "first_row rows = and_then rows (\<lambda>rs. Inr (case rs of [] \<Rightarrow> None | r # _ \<Rightarrow> Some r))"

definition readClaim :: "read_db \<Rightarrow> string \<Rightarrow> query_error + claim_view option" where
  "readClaim db claimId = first_row (queryClaims (\<lambda>c. cv_claimId c = claimId) db)"

definition readAgent :: "read_db \<Rightarrow> string \<Rightarrow> query_error + agent_view option" where
  "readAgent db agentId = first_row (queryAgents (\<lambda>a. nv_agentId a = agentId) db)"

definition readForecast :: "read_db \<Rightarrow> string \<Rightarrow> query_error + forecast_view option" where
  "readForecast db forecastId = first_row (queryForecasts (\<lambda>f. fv_forecastId f = forecastId) db)"

definition readChallenge :: "read_db \<Rightarrow> string \<Rightarrow> query_error + challenge_view option" where
  "readChallenge db challengeId = first_row (queryChallenges (\<lambda>c. hv_challengeId c = challengeId) db)"

definition readArtifactsByClaim where
  "readArtifactsByClaim db claimId = queryArtifacts (\<lambda>a. av_claimId a = claimId) db"

definition readReplicationsByClaim where
  "readReplicationsByClaim db claimId = queryReplications (\<lambda>r. rv_claimId r = claimId) db"

definition readCheckpointsByClaim where
  "readCheckpointsByClaim db claimId = queryCheckpoints (\<lambda>c. pv_subjectClaimId c = claimId) db"

definition readCheckpointsByActor where
  "readCheckpointsByActor db actor = queryCheckpoints (\<lambda>c. js_lower (pv_subjectActor c) = js_lower actor) db"

definition readAgentControllers where
  "readAgentControllers db agentId = queryAgentControllers (\<lambda>c. ov_agentId c = agentId) db"

definition readForecastsByClaim where
  "readForecastsByClaim db claimId = queryForecasts (\<lambda>f. fv_claimId f = claimId) db"

definition readChallengesByClaim where
  "readChallengesByClaim db claimId = queryChallenges (\<lambda>c. hv_claimId c = claimId) db"

definition readAppealsByClaim where
  "readAppealsByClaim db claimId = queryAppeals (\<lambda>a. lv_claimId a = claimId) db"

section \<open>The whole read model\<close>

record read_model_counts =
  rn_agentControllers :: nat
  rn_agents :: nat
  rn_appeals :: nat
  rn_artifacts :: nat
  rn_challenges :: nat
  rn_checkpoints :: nat
  rn_claims :: nat
  rn_forecasts :: nat
  rn_replications :: nat

text \<open>\<open>SELECT COUNT(*)\<close> of each table\<close>

definition readReadModelCounts :: "read_db \<Rightarrow> read_model_counts" where
  "readReadModelCounts db = \<lparr>rn_agentControllers = length (rm_controllers db), rn_agents = length (rm_agents db),
     rn_appeals = length (rm_appeals db), rn_artifacts = length (rm_artifacts db),
     rn_challenges = length (rm_challenges db), rn_checkpoints = length (rm_checkpoints db),
     rn_claims = length (rm_claims db), rn_forecasts = length (rm_forecasts db),
     rn_replications = length (rm_replications db)\<rparr>"

record read_model =
  ro_metadata :: read_metadata
  ro_claims :: "claim_view list"
  ro_artifacts :: "artifact_view list"
  ro_replications :: "replication_view list"
  ro_checkpoints :: "checkpoint_view list"
  ro_agents :: "agent_view list"
  ro_agentControllers :: "agent_controller_view list"
  ro_forecasts :: "forecast_view list"
  ro_challenges :: "challenge_view list"
  ro_appeals :: "appeal_view list"

definition readReadModel :: "read_db \<Rightarrow> query_error + read_model" where
  "readReadModel db =
     and_then (queryClaims (\<lambda>_. True) db) (\<lambda>claims.
     and_then (queryArtifacts (\<lambda>_. True) db) (\<lambda>artifacts.
     and_then (queryReplications (\<lambda>_. True) db) (\<lambda>replications.
     and_then (queryCheckpoints (\<lambda>_. True) db) (\<lambda>checkpoints.
     and_then (queryAgents (\<lambda>_. True) db) (\<lambda>agents.
     and_then (queryAgentControllers (\<lambda>_. True) db) (\<lambda>agentControllers.
     and_then (queryForecasts (\<lambda>_. True) db) (\<lambda>forecasts.
     and_then (queryChallenges (\<lambda>_. True) db) (\<lambda>challenges.
     and_then (queryAppeals (\<lambda>_. True) db) (\<lambda>appeals.
     Inr \<lparr>ro_metadata = readMetadata db, ro_claims = claims, ro_artifacts = artifacts,
        ro_replications = replications, ro_checkpoints = checkpoints, ro_agents = agents,
        ro_agentControllers = agentControllers, ro_forecasts = forecasts, ro_challenges = challenges,
        ro_appeals = appeals\<rparr>)))))))))"

section \<open>What the queries return\<close>

lemma set_by_number [simp]: "set (by_number key rows) = set rows"
  by (simp add: by_number_def)

lemma queries_run:
  "queryClaims p1 db = Inr (by_number cv_claimId (filter p1 (rm_claims db)))"
  "queryArtifacts p2 db = Inr (by_number av_artifactId (filter p2 (rm_artifacts db)))"
  "queryCheckpoints p3 db = Inr (by_number pv_checkpointId (filter p3 (rm_checkpoints db)))"
  "queryAgents p4 db = Inr (by_number nv_agentId (filter p4 (rm_agents db)))"
  "queryForecasts p5 db = Inr (by_number fv_forecastId (filter p5 (rm_forecasts db)))"
  "queryChallenges p6 db = Inr (by_number hv_challengeId (filter p6 (rm_challenges db)))"
  "queryAppeals p7 db = Inr (by_number lv_appealId (filter p7 (rm_appeals db)))"
  by (simp_all add: queryClaims_def queryArtifacts_def queryCheckpoints_def queryAgents_def queryForecasts_def
      queryChallenges_def queryAppeals_def select_rows_def claim_columns_def artifact_columns_def checkpoint_columns_def
      agent_columns_def forecast_columns_def challenge_columns_def appeal_columns_def)

text \<open>
  C37: No replication can be read (a defect of the code). Every query of the replications selects the
  column \<open>resolution_decision_id\<close>, which no migration adds to that table, and throws; so does reading
  the whole read model, whatever it holds.
\<close>

theorem replications_unreadable:
  "queryReplications p db = Inl (Undefined_column ''resolution_decision_id'') \<and>
   readReadModel db = Inl (Undefined_column ''resolution_decision_id'')"
proof -
  have "queryReplications q db = Inl (Undefined_column ''resolution_decision_id'')" for q
    by (simp add: queryReplications_def select_rows_def replication_columns_def)
  then show ?thesis by (simp add: readReadModel_def queries_run)
qed

end
