(* ===== verification/Reputation.thy ===== *)
theory Reputation
  imports Read_Model Pagination
begin

text \<open>
  \<open>reputation/engine.ts\<close> and \<open>reputation/store.ts\<close>: the leaderboard of a domain. The claims of the domain,
  the replications and the checkpoints, as the page readers return them, are arguments; so are the hash of
  a payload and the artifact store. A score is computed by one pass over each list that updates an
  aggregate per actor, found by the address in lower case.
\<close>

record actor_aggregate =
  ag_checkpointCount :: int
  ag_claimCount :: int
  ag_fraudSignalReplicationCount :: int
  ag_fraudulentClaimCount :: int
  ag_inconclusiveReplicationCount :: int
  ag_refutedClaimCount :: int
  ag_refutedReplicationCount :: int
  ag_replicationCount :: int
  ag_score :: int
  ag_subjectActor :: string
  ag_supportedClaimCount :: int
  ag_supportedReplicationCount :: int

definition new_aggregate :: "string \<Rightarrow> actor_aggregate" where
  "new_aggregate actor = \<lparr>ag_checkpointCount = 0, ag_claimCount = 0, ag_fraudSignalReplicationCount = 0,
     ag_fraudulentClaimCount = 0, ag_inconclusiveReplicationCount = 0, ag_refutedClaimCount = 0,
     ag_refutedReplicationCount = 0, ag_replicationCount = 0, ag_score = 0, ag_subjectActor = actor,
     ag_supportedClaimCount = 0, ag_supportedReplicationCount = 0\<rparr>"

definition replicationWorkQualityScore :: "int option \<Rightarrow> int" where
  "replicationWorkQualityScore resolutionStatus =
     (if resolutionStatus = Some 1 \<or> resolutionStatus = Some 2 then 25
      else if resolutionStatus = Some 3 then 10
      else if resolutionStatus = Some 4 then 30
      else if resolutionStatus = Some 5 then 35
      else if resolutionStatus = Some 6 then 5
      else 0)"

text \<open>\<open>getAggregate\<close> and the assignments to what it returns.\<close>

definition with_aggregate ::
  "string \<Rightarrow> (actor_aggregate \<Rightarrow> actor_aggregate) \<Rightarrow> (string, actor_aggregate) jmap \<Rightarrow> (string, actor_aggregate) jmap" where
  "with_aggregate actor f m =
     (let key = js_lower actor in jm_set key (f (nullish (jm_get m key) (new_aggregate actor))) m)"

definition count_claim :: "claim_view \<Rightarrow> actor_aggregate \<Rightarrow> actor_aggregate" where
  "count_claim claim a =
     (let b = a\<lparr>ag_claimCount := ag_claimCount a + 1, ag_score := ag_score a + 10\<rparr> in
      if cv_status claim = 3 \<or> cv_status claim = 4
      then b\<lparr>ag_supportedClaimCount := ag_supportedClaimCount b + 1,
             ag_score := ag_score b + (if cv_status claim = 4 then 40 else 25)\<rparr>
      else if cv_status claim = 5
      then b\<lparr>ag_refutedClaimCount := ag_refutedClaimCount b + 1, ag_score := ag_score b - 20\<rparr>
      else if cv_status claim = 6
      then b\<lparr>ag_fraudulentClaimCount := ag_fraudulentClaimCount b + 1, ag_score := ag_score b - 60\<rparr>
      else b)"

definition count_replication :: "replication_view \<Rightarrow> actor_aggregate \<Rightarrow> actor_aggregate" where
  "count_replication replication a =
     (let s = rv_resolutionStatus replication;
          b = a\<lparr>ag_replicationCount := ag_replicationCount a + 1,
                ag_score := ag_score a + replicationWorkQualityScore s\<rparr>
      in if s = Some 1 \<or> s = Some 2
         then b\<lparr>ag_supportedReplicationCount := ag_supportedReplicationCount b + 1\<rparr>
         else if s = Some 3 then b\<lparr>ag_inconclusiveReplicationCount := ag_inconclusiveReplicationCount b + 1\<rparr>
         else if s = Some 4 then b\<lparr>ag_refutedReplicationCount := ag_refutedReplicationCount b + 1\<rparr>
         else if s = Some 5 then b\<lparr>ag_fraudSignalReplicationCount := ag_fraudSignalReplicationCount b + 1\<rparr>
         else b)"

definition count_checkpoint :: "checkpoint_view \<Rightarrow> actor_aggregate \<Rightarrow> actor_aggregate" where
  "count_checkpoint _ a = a\<lparr>ag_checkpointCount := ag_checkpointCount a + 1\<rparr>"

definition zero_address :: string where
  "zero_address = ''0x'' @ replicate 40 (CHR ''0'')"

definition actor_aggregates ::
  "claim_view list \<Rightarrow> replication_view list \<Rightarrow> checkpoint_view list \<Rightarrow> (string, actor_aggregate) jmap" where
  "actor_aggregates claims replications checkpoints =
     fold (\<lambda>c. with_aggregate (pv_subjectActor c) (count_checkpoint c))
       (filter (\<lambda>c. pv_subjectActor c \<noteq> zero_address) checkpoints)
       (fold (\<lambda>r. with_aggregate (rv_replicator r) (count_replication r)) replications
         (fold (\<lambda>c. with_aggregate (cv_author c) (count_claim c)) claims []))"

definition compareActors :: "actor_aggregate \<Rightarrow> actor_aggregate \<Rightarrow> int" where
  "compareActors left right =
     (if ag_score left = ag_score right
      then locale_compare (js_lower (ag_subjectActor left)) (js_lower (ag_subjectActor right))
      else if ag_score left > ag_score right then -1 else 1)"

definition orderedActors ::
  "claim_view list \<Rightarrow> replication_view list \<Rightarrow> checkpoint_view list \<Rightarrow> int \<Rightarrow> actor_aggregate list" where
  "orderedActors claims allReplications allCheckpoints domainId =
     (let claimIds = map cv_claimId claims;
          replications = filter (\<lambda>r. rv_claimId r \<in> set claimIds) allReplications;
          checkpoints = filter (\<lambda>c. pv_domainId c = domainId) allCheckpoints
      in js_sort compareActors (jm_values (actor_aggregates claims replications checkpoints)))"

section \<open>The payload and the tables\<close>

record payload_row =
  pl_payloadId :: int
  pl_domainId :: int
  pl_cutoffBlock :: int
  pl_cursorBlock :: "int option"
  pl_payloadHash :: string
  pl_artifactKey :: string
  pl_entryCount :: int
  pl_policyVersion :: string
  pl_createdAt :: int

record leaderboard_entry =
  lr_payloadId :: int
  lr_domainId :: int
  lr_rank :: int
  lr_subjectActor :: string
  lr_score :: int
  lr_claimCount :: int
  lr_supportedClaimCount :: int
  lr_refutedClaimCount :: int
  lr_fraudulentClaimCount :: int
  lr_replicationCount :: int
  lr_checkpointCount :: int

text \<open>The two tables and the sequence of the payload ids.\<close>

record reputation_db =
  ud_payloads :: "payload_row list"
  ud_entries :: "leaderboard_entry list"
  ud_nextPayloadId :: int

datatype reputation_error = Artifact_not_persisted string | Duplicate_payload string | Duplicate_entry int string

definition REPUTATION_POLICY_VERSION :: string where
  "REPUTATION_POLICY_VERSION = ''reputation-v2-direction-neutral-work''"

definition json_int :: "int \<Rightarrow> json" where
  "json_int n = JNum (of_int n)"

definition entry_json :: "nat \<Rightarrow> actor_aggregate \<Rightarrow> json" where
  "entry_json index e = JObj [(''rank'', json_int (int index + 1)), (''subjectActor'', JStr (ag_subjectActor e)),
     (''score'', JStr (show_int (ag_score e))), (''claimCount'', json_int (ag_claimCount e)),
     (''supportedClaimCount'', json_int (ag_supportedClaimCount e)),
     (''refutedClaimCount'', json_int (ag_refutedClaimCount e)),
     (''fraudulentClaimCount'', json_int (ag_fraudulentClaimCount e)),
     (''replicationCount'', json_int (ag_replicationCount e)), (''checkpointCount'', json_int (ag_checkpointCount e)),
     (''workQuality'', JObj [(''fraudSignalReplicationCount'', json_int (ag_fraudSignalReplicationCount e)),
        (''inconclusiveReplicationCount'', json_int (ag_inconclusiveReplicationCount e)),
        (''refutedReplicationCount'', json_int (ag_refutedReplicationCount e)),
        (''supportedReplicationCount'', json_int (ag_supportedReplicationCount e))])]"

definition payload_body :: "int \<Rightarrow> read_db \<Rightarrow> int \<Rightarrow> actor_aggregate list \<Rightarrow> json" where
  "payload_body now rdb domainId ordered = JObj [(''contentHashAlgorithm'', JStr ''sha256''),
     (''createdAt'', JStr (iso_string now)), (''cutoffBlock'', json_int (ma_latestBlock (readMetadata rdb))),
     (''cursorBlock'', case readSyncCursor rdb of None \<Rightarrow> JNull | Some b \<Rightarrow> json_int b),
     (''domainId'', json_int domainId), (''entries'', JArr (map (\<lambda>(i, e). entry_json i e) (enumerate 0 ordered))),
     (''policyVersion'', JStr REPUTATION_POLICY_VERSION), (''producer'', JStr ''scientific-protocol/reputation-engine''),
     (''schemaVersion'', JStr ''2.0.0''),
     (''scoringSemantics'', JObj [(''checkpointCadenceAffectsScore'', JBool False),
        (''replicationWorkQualityIsOutcomeDirectionNeutral'', JBool True)])]"

text \<open>A new id of the sequence, whatever becomes of the row; the hash is unique.\<close>

definition insertReputationPayload :: "payload_row \<Rightarrow> reputation_db \<Rightarrow> reputation_error + payload_row \<times> reputation_db" where
  "insertReputationPayload row db =
     (let inserted = row\<lparr>pl_payloadId := ud_nextPayloadId db\<rparr> in
      if pl_payloadHash row \<in> pl_payloadHash ` set (ud_payloads db) then Inl (Duplicate_payload (pl_payloadHash row))
      else Inr (inserted, db\<lparr>ud_payloads := ud_payloads db @ [inserted], ud_nextPayloadId := ud_nextPayloadId db + 1\<rparr>))"

text \<open>The primary key of the entries is the payload and the actor.\<close>

definition insertEntry :: "leaderboard_entry \<Rightarrow> reputation_db \<Rightarrow> reputation_error + reputation_db" where
  "insertEntry e db =
     (if (lr_payloadId e, lr_subjectActor e) \<in> (\<lambda>r. (lr_payloadId r, lr_subjectActor r)) ` set (ud_entries db)
      then Inl (Duplicate_entry (lr_payloadId e) (lr_subjectActor e))
      else Inr (db\<lparr>ud_entries := ud_entries db @ [e]\<rparr>))"

definition leaderboard_entry_of :: "int \<Rightarrow> int \<Rightarrow> nat \<times> actor_aggregate \<Rightarrow> leaderboard_entry" where
  "leaderboard_entry_of payloadId domainId ie = (case ie of (index, entry) \<Rightarrow>
     \<lparr>lr_payloadId = payloadId, lr_domainId = domainId, lr_rank = int index + 1,
      lr_subjectActor = ag_subjectActor entry, lr_score = ag_score entry, lr_claimCount = ag_claimCount entry,
      lr_supportedClaimCount = ag_supportedClaimCount entry, lr_refutedClaimCount = ag_refutedClaimCount entry,
      lr_fraudulentClaimCount = ag_fraudulentClaimCount entry, lr_replicationCount = ag_replicationCount entry,
      lr_checkpointCount = ag_checkpointCount entry\<rparr>)"

definition replaceLeaderboardEntries ::
  "leaderboard_entry list \<Rightarrow> reputation_db \<Rightarrow> reputation_error + reputation_db" where
  "replaceLeaderboardEntries entries db = in_turn insertEntry entries db"

text \<open>
  The whole computation. \<open>persist\<close> stores the payload and answers with the key of the artifact, or
  throws; \<open>hash\<close> is \<open>sha256\<close> of the text of the payload. An \<open>Inl\<close> is a rolled-back transaction.
\<close>

definition computeDomainLeaderboard ::
  "int \<Rightarrow> (json \<Rightarrow> reputation_error + string) \<Rightarrow> (json \<Rightarrow> string) \<Rightarrow> read_db \<Rightarrow> claim_view list \<Rightarrow>
   replication_view list \<Rightarrow> checkpoint_view list \<Rightarrow> int \<Rightarrow> reputation_db \<Rightarrow>
   reputation_error + (leaderboard_entry list \<times> payload_row) \<times> reputation_db" where
  "computeDomainLeaderboard now persist hash rdb claims allReplications allCheckpoints domainId db =
     (let ordered = orderedActors claims allReplications allCheckpoints domainId;
          body = payload_body now rdb domainId ordered
      in and_then (persist body) (\<lambda>artifactKey.
         and_then (insertReputationPayload \<lparr>pl_payloadId = 0, pl_domainId = domainId,
              pl_cutoffBlock = ma_latestBlock (readMetadata rdb), pl_cursorBlock = readSyncCursor rdb,
              pl_payloadHash = ''0x'' @ hash body, pl_artifactKey = artifactKey, pl_entryCount = int (length ordered),
              pl_policyVersion = REPUTATION_POLICY_VERSION, pl_createdAt = now\<rparr> db) (\<lambda>(payload, db).
         let entries = map (leaderboard_entry_of (pl_payloadId payload) domainId) (enumerate 0 ordered) in
         and_then (replaceLeaderboardEntries entries db) (\<lambda>db. Inr ((entries, payload), db)))))"

section \<open>Reading\<close>

text \<open>\<open>ORDER BY created_at DESC, payload_id DESC\<close>\<close>

definition queryReputationPayloads :: "(payload_row \<Rightarrow> bool) \<Rightarrow> reputation_db \<Rightarrow> payload_row list" where
  "queryReputationPayloads p db =
     js_sort (\<lambda>x y. if pl_createdAt y - pl_createdAt x \<noteq> 0 then pl_createdAt y - pl_createdAt x
       else pl_payloadId y - pl_payloadId x) (filter p (ud_payloads db))"

definition readLatestReputationPayload :: "reputation_db \<Rightarrow> int \<Rightarrow> payload_row option" where
  "readLatestReputationPayload db domainId =
     (case queryReputationPayloads (\<lambda>p. pl_domainId p = domainId) db of [] \<Rightarrow> None | p # _ \<Rightarrow> Some p)"

definition readReputationPayload :: "reputation_db \<Rightarrow> int \<Rightarrow> payload_row option" where
  "readReputationPayload db payloadId =
     (case queryReputationPayloads (\<lambda>p. pl_payloadId p = payloadId) db of [] \<Rightarrow> None | p # _ \<Rightarrow> Some p)"

text \<open>\<open>ORDER BY rank ASC, lower(subject_actor) ASC\<close>\<close>

definition queryLeaderboardEntries :: "int \<Rightarrow> reputation_db \<Rightarrow> leaderboard_entry list" where
  "queryLeaderboardEntries payloadId db =
     js_sort (\<lambda>x y. if lr_rank x - lr_rank y \<noteq> 0 then lr_rank x - lr_rank y
       else cmp_list (map (\<lambda>c. int (code c)) (js_lower (lr_subjectActor x)))
         (map (\<lambda>c. int (code c)) (js_lower (lr_subjectActor y))))
       (filter (\<lambda>e. lr_payloadId e = payloadId) (ud_entries db))"

definition readDomainLeaderboard ::
  "reputation_db \<Rightarrow> int \<Rightarrow> rat option \<Rightarrow> rat option \<Rightarrow> leaderboard_entry page \<times> pagination" where
  "readDomainLeaderboard db domainId limit offset =
     (let p = normalizePagination limit offset None in
      case readLatestReputationPayload db domainId of
        None \<Rightarrow> (([], 0), p)
      | Some latestPayload \<Rightarrow> (page_of (queryLeaderboardEntries (pl_payloadId latestPayload) db) p, p))"

section \<open>Tallies\<close>

definition amount :: "(actor_aggregate \<Rightarrow> int) \<Rightarrow> (string, actor_aggregate) jmap \<Rightarrow> string \<Rightarrow> int" where
  "amount q m k = (case jm_get m k of None \<Rightarrow> 0 | Some a \<Rightarrow> q a)"

locale tally =
  fixes q :: "actor_aggregate \<Rightarrow> int"
    and f :: "'x \<Rightarrow> actor_aggregate \<Rightarrow> actor_aggregate"
    and w :: "'x \<Rightarrow> int"
  assumes fresh: "q (new_aggregate a) = 0"
    and step: "q (f x b) = q b + w x"
begin

lemma one: "amount q (with_aggregate actor (f x) m) k = amount q m k + (if js_lower actor = k then w x else 0)"
  by (auto simp: amount_def with_aggregate_def Let_def nullish_def step fresh split: option.split)

lemma sums: "amount q (fold (\<lambda>x. with_aggregate (actor x) (f x)) xs m) k =
    amount q m k + sum_list (map w (filter (\<lambda>x. js_lower (actor x) = k) xs))"
  by (induction xs arbitrary: m) (simp_all add: one)

end

definition claim_points :: "claim_view \<Rightarrow> int" where
  "claim_points c = 10 + (if cv_status c = 4 then 40 else if cv_status c = 3 then 25
     else if cv_status c = 5 then -20 else if cv_status c = 6 then -60 else 0)"

lemmas count_defs = count_claim_def count_replication_def count_checkpoint_def new_aggregate_def claim_points_def Let_def

interpretation claim_scores: tally ag_score count_claim claim_points
  by unfold_locales (auto simp: count_defs)
interpretation replication_scores: tally ag_score count_replication "\<lambda>r. replicationWorkQualityScore (rv_resolutionStatus r)"
  by unfold_locales (auto simp: count_defs)
interpretation checkpoint_scores: tally ag_score count_checkpoint "\<lambda>_. 0"
  by unfold_locales (auto simp: count_defs)
interpretation claim_counts: tally ag_claimCount count_claim "\<lambda>_. 1"
  by unfold_locales (auto simp: count_defs)
interpretation replication_claims: tally ag_claimCount count_replication "\<lambda>_. 0"
  by unfold_locales (auto simp: count_defs)
interpretation checkpoint_claims: tally ag_claimCount count_checkpoint "\<lambda>_. 0"
  by unfold_locales (auto simp: count_defs)
interpretation claim_replications: tally ag_replicationCount count_claim "\<lambda>_. 0"
  by unfold_locales (auto simp: count_defs)
interpretation replication_counts: tally ag_replicationCount count_replication "\<lambda>_. 1"
  by unfold_locales (auto simp: count_defs)
interpretation checkpoint_replications: tally ag_replicationCount count_checkpoint "\<lambda>_. 0"
  by unfold_locales (auto simp: count_defs)

lemmas tallies = claim_scores.sums replication_scores.sums checkpoint_scores.sums claim_counts.sums
  replication_claims.sums checkpoint_claims.sums claim_replications.sums replication_counts.sums checkpoint_replications.sums

definition by_actor :: "('x \<Rightarrow> string) \<Rightarrow> 'x list \<Rightarrow> string \<Rightarrow> 'x list" where
  "by_actor actor xs k = filter (\<lambda>x. js_lower (actor x) = k) xs"

lemma amounts:
  "amount ag_score (actor_aggregates cs rs ps) k = sum_list (map claim_points (by_actor cv_author cs k)) +
     sum_list (map (\<lambda>r. replicationWorkQualityScore (rv_resolutionStatus r)) (by_actor rv_replicator rs k))"
  "amount ag_claimCount (actor_aggregates cs rs ps) k = int (length (by_actor cv_author cs k))"
  "amount ag_replicationCount (actor_aggregates cs rs ps) k = int (length (by_actor rv_replicator rs k))"
  unfolding actor_aggregates_def tallies by_actor_def
  by (simp_all add: amount_def sum_list_triv)

section \<open>Keys\<close>

definition keyed_by_actor :: "(string, actor_aggregate) jmap \<Rightarrow> bool" where
  "keyed_by_actor m \<longleftrightarrow> distinct (jm_keys m) \<and> (\<forall>(k, a) \<in> set m. js_lower (ag_subjectActor a) = k)"

lemma jm_set_member: "(k', v') \<in> set (jm_set k v m) \<Longrightarrow> (k', v') = (k, v) \<or> (k', v') \<in> set m"
  by (induction k v m rule: jm_set.induct) (auto split: if_splits)

lemma keyed_with_aggregate:
  assumes "keyed_by_actor m" and "\<And>a. ag_subjectActor (f a) = ag_subjectActor a"
  shows "keyed_by_actor (with_aggregate actor f m)"
proof -
  have "js_lower (ag_subjectActor (f (nullish (jm_get m (js_lower actor)) (new_aggregate actor)))) = js_lower actor"
    using assms(1) by (auto simp: assms(2) nullish_def new_aggregate_def keyed_by_actor_def dest!: map_of_SomeD split: option.split)
  then show ?thesis using assms(1) by (auto simp: keyed_by_actor_def with_aggregate_def Let_def dest!: jm_set_member)
qed

lemma keyed_fold:
  "keyed_by_actor m \<Longrightarrow> (\<And>x a. ag_subjectActor (f x a) = ag_subjectActor a) \<Longrightarrow>
     keyed_by_actor (fold (\<lambda>x. with_aggregate (actor x) (f x)) xs m)"
  by (induction xs arbitrary: m) (simp_all add: keyed_with_aggregate)

lemma count_names [simp]: "ag_subjectActor (count_claim c a) = ag_subjectActor a"
  "ag_subjectActor (count_replication r a) = ag_subjectActor a" "ag_subjectActor (count_checkpoint p a) = ag_subjectActor a"
  by (simp_all add: count_defs)

lemma keyed_aggregates: "keyed_by_actor (actor_aggregates cs rs ps)"
  unfolding actor_aggregates_def by (intro keyed_fold) (simp_all add: keyed_by_actor_def)

lemma keys_fold: "fst ` set (fold (\<lambda>x. with_aggregate (actor x) (f x)) xs m) = fst ` set m \<union> (js_lower \<circ> actor) ` set xs"
  by (induction xs arbitrary: m) (auto simp: with_aggregate_def Let_def jm_keys_set)

lemma comparator_actors: "comparator compareActors"
proof -
  have c: "comparator (\<lambda>x y. if ag_score y - ag_score x \<noteq> 0 then ag_score y - ag_score x
      else locale_compare (js_lower (ag_subjectActor x)) (js_lower (ag_subjectActor y)))"
    by (rule comparator_lex [OF comparator_rev [OF comparator_diff] comparator_key [OF comparator_locale_compare]])
  have s: "sgn (compareActors x y) = sgn (if ag_score y - ag_score x \<noteq> 0 then ag_score y - ag_score x
      else locale_compare (js_lower (ag_subjectActor x)) (js_lower (ag_subjectActor y)))"
    and l: "compareActors x y \<le> 0 \<longleftrightarrow> (if ag_score y - ag_score x \<noteq> 0 then ag_score y - ag_score x
      else locale_compare (js_lower (ag_subjectActor x)) (js_lower (ag_subjectActor y))) \<le> 0" for x y
    by (auto simp: compareActors_def sgn_if locale_order.refl)
  show ?thesis
  proof (rule comparatorI)
    fix x y z
    show "sgn (compareActors y x) = - sgn (compareActors x y)" unfolding s by (rule comparator.anti [OF c])
    show "compareActors x y \<le> 0 \<Longrightarrow> compareActors y z \<le> 0 \<Longrightarrow> compareActors x z \<le> 0"
      unfolding l by (rule comparator.trans [OF c])
  qed
qed

interpretation actors: comparator compareActors
  by (rule comparator_actors)

section \<open>The leaderboard\<close>

lemma js_sort_id: "sorted_wrt (\<lambda>x y. cmp x y \<le> 0) xs \<Longrightarrow> js_sort cmp xs = xs"
proof (induction xs)
  case (Cons x xs)
  then show ?case by (cases xs) auto
qed simp

lemma ordered_actors:
  "set (orderedActors cs rs ps d) = snd ` set (actor_aggregates cs
     (filter (\<lambda>r. rv_claimId r \<in> set (map cv_claimId cs)) rs) (filter (\<lambda>c. pv_domainId c = d) ps))"
  by (simp add: orderedActors_def Let_def)

lemma keyed_names: "keyed_by_actor m \<Longrightarrow> map (\<lambda>a. js_lower (ag_subjectActor a)) (jm_values m) = jm_keys m"
  by (auto simp: keyed_by_actor_def)

lemma distinct_actors: "distinct (map (\<lambda>a. js_lower (ag_subjectActor a)) (orderedActors cs rs ps d))"
proof -
  let ?m = "actor_aggregates cs (filter (\<lambda>r. rv_claimId r \<in> set (map cv_claimId cs)) rs) (filter (\<lambda>c. pv_domainId c = d) ps)"
  have "distinct (map (\<lambda>a. js_lower (ag_subjectActor a)) (jm_values ?m))"
    using keyed_aggregates by (simp only: keyed_names) (simp add: keyed_by_actor_def)
  moreover have "mset (map (\<lambda>a. js_lower (ag_subjectActor a)) (orderedActors cs rs ps d)) =
      mset (map (\<lambda>a. js_lower (ag_subjectActor a)) (jm_values ?m))"
    by (simp only: orderedActors_def Let_def mset_map mset_js_sort)
  ultimately show ?thesis by (metis mset_eq_imp_distinct_iff)
qed


lemma leaderboard_actors:
  "(\<lambda>a. js_lower (ag_subjectActor a)) ` set (orderedActors cs rs ps d) =
     (js_lower \<circ> cv_author) ` set cs \<union> (js_lower \<circ> rv_replicator) ` set (filter (\<lambda>r. rv_claimId r \<in> cv_claimId ` set cs) rs) \<union>
     (js_lower \<circ> pv_subjectActor) ` set (filter (\<lambda>c. pv_domainId c = d \<and> pv_subjectActor c \<noteq> zero_address) ps)"
proof -
  let ?m = "actor_aggregates cs (filter (\<lambda>r. rv_claimId r \<in> set (map cv_claimId cs)) rs) (filter (\<lambda>c. pv_domainId c = d) ps)"
  have "(\<lambda>a. js_lower (ag_subjectActor a)) ` set (orderedActors cs rs ps d) = set (map (\<lambda>a. js_lower (ag_subjectActor a)) (jm_values ?m))"
    unfolding ordered_actors by (simp add: image_image)
  also have "\<dots> = fst ` set ?m" using keyed_names [OF keyed_aggregates] by simp
  finally show ?thesis unfolding actor_aggregates_def keys_fold by (auto simp: image_iff)
qed

section \<open>Reading a leaderboard back\<close>

definition reputation_ok :: "reputation_db \<Rightarrow> bool" where
  "reputation_ok db \<longleftrightarrow> (\<forall>p \<in> set (ud_payloads db). pl_payloadId p < ud_nextPayloadId db) \<and>
     (\<forall>e \<in> set (ud_entries db). lr_payloadId e < ud_nextPayloadId db)"

lemma entries_commit:
  assumes "distinct (map (\<lambda>r. (lr_payloadId r, lr_subjectActor r)) es)"
    and "\<forall>e \<in> set es. (lr_payloadId e, lr_subjectActor e) \<notin> (\<lambda>r. (lr_payloadId r, lr_subjectActor r)) ` set (ud_entries db)"
  shows "replaceLeaderboardEntries es db = Inr (db\<lparr>ud_entries := ud_entries db @ es\<rparr>)"
  unfolding replaceLeaderboardEntries_def using assms
proof (induction es arbitrary: db)
  case (Cons e es)
  let ?db = "db\<lparr>ud_entries := ud_entries db @ [e]\<rparr>"
  have "insertEntry e db = Inr ?db" using Cons.prems(2) by (simp add: insertEntry_def)
  moreover have "\<forall>x \<in> set es. (lr_payloadId x, lr_subjectActor x) \<notin>
      (\<lambda>r. (lr_payloadId r, lr_subjectActor r)) ` set (ud_entries ?db)"
    using Cons.prems by (simp add: image_iff) metis
  ultimately show ?case using Cons.IH [of ?db] Cons.prems(1) by simp
qed simp

lemma entry_order:
  "js_sort (\<lambda>x y. if lr_rank x - lr_rank y \<noteq> 0 then lr_rank x - lr_rank y else t x y)
     (map (leaderboard_entry_of n d) (enumerate k as)) = map (leaderboard_entry_of n d) (enumerate k as)"
proof (rule js_sort_id)
  have "sorted_wrt (\<lambda>x y. lr_rank x < lr_rank y) (map (leaderboard_entry_of n d) (enumerate k as))"
    by (auto simp: sorted_wrt_iff_nth_less leaderboard_entry_of_def nth_enumerate_eq)
  then show "sorted_wrt (\<lambda>x y. (if lr_rank x - lr_rank y \<noteq> 0 then lr_rank x - lr_rank y else t x y) \<le> 0)
      (map (leaderboard_entry_of n d) (enumerate k as))"
    by (rule sorted_wrt_mono_rel [rotated]) auto
qed

lemma distinct_entries:
  "distinct (map (\<lambda>r. (lr_payloadId r, lr_subjectActor r))
     (map (leaderboard_entry_of n d) (enumerate 0 (orderedActors cs rs ps j))))"
proof -
  let ?as = "orderedActors cs rs ps j"
  have "map (\<lambda>r. (lr_payloadId r, lr_subjectActor r)) (map (leaderboard_entry_of n d) (enumerate 0 ?as)) =
      map (\<lambda>a. (n, ag_subjectActor a)) ?as"
    by (rule nth_equalityI) (simp_all add: leaderboard_entry_of_def nth_enumerate_eq)
  moreover have "distinct (map ag_subjectActor ?as)"
    using distinct_actors [of cs rs ps j] by (metis (no_types, lifting) distinct_map inj_on_def)
  ultimately show ?thesis by (simp add: distinct_map inj_on_def)
qed

lemma leaderboard_computed:
  assumes "persist (payload_body now rdb j (orderedActors cs rs ps j)) = Inr k" and "ud_payloads db = []" and "ud_entries db = []"
  shows "\<exists>r. computeDomainLeaderboard now persist hash rdb cs rs ps j db = Inr r"
  using assms distinct_entries [of "ud_nextPayloadId db" j cs rs ps j]
  by (simp add: computeDomainLeaderboard_def insertReputationPayload_def Let_def entries_commit)


section \<open>An example\<close>

definition example_claim :: "string \<Rightarrow> string \<Rightarrow> int \<Rightarrow> claim_view" where
  "example_claim claimId author status = \<lparr>cv_claimId = claimId, cv_author = author, cv_domainId = 2, cv_metadataHash = ''0x1'',
     cv_resolutionModule = ''0xb'', cv_status = status, cv_revisionOfClaimId = None, cv_createdAtBlock = 1\<rparr>"

definition example_replication :: "string \<Rightarrow> string \<Rightarrow> int \<Rightarrow> replication_view" where
  "example_replication claimId replicator status = \<lparr>rv_replicationId = ''4'', rv_claimId = claimId,
     rv_replicator = replicator, rv_agentId = ''0'', rv_resultHash = ''0x2'', rv_outcome = None,
     rv_resolutionStatus = Some status, rv_confidenceBps = None, rv_resolverType = None, rv_resolutionHash = None,
     rv_evidenceHash = None, rv_evidenceURI = None\<rparr>"

definition example_claims :: "claim_view list" where
  "example_claims = [example_claim ''1'' ''0xA'' 4, example_claim ''2'' ''0xa'' 5, example_claim ''3'' ''0xb'' 1]"

definition example_replications :: "replication_view list" where
  "example_replications = [example_replication ''1'' ''0xB'' 5, example_replication ''9'' ''0xc'' 1]"

lemma example_order: "map (\<lambda>a. (ag_subjectActor a, ag_score a)) (orderedActors example_claims example_replications [] 2) =
    [(''0xb'', 45), (''0xA'', 40)]"
  by code_simp


definition empty_reputation_db :: reputation_db where
  "empty_reputation_db = \<lparr>ud_payloads = [], ud_entries = [], ud_nextPayloadId = 1\<rparr>"


end
