(* ===== verification/Rate_Limit.thy ===== *)
theory Rate_Limit
  imports Settings Outcomes
begin

text \<open>
  \<open>api/rate-limit.ts\<close>: the rate limits of the API with their settings, the scope of a request, the
  buckets in memory and the table that replaces them, and the cooldown of duplicate sources. The time
  is an argument, in milliseconds; what the functions write on the response is a record of headers.
  \<open>isLocalDevelopmentRpcUrl(getRpcUrl(env))\<close> and \<open>NODE_ENV === "test"\<close> are flags.
\<close>

section \<open>Settings\<close>

record rate_rule =
  ru_maxRequests :: int
  ru_windowMs :: int

record rate_config =
  rf_adminActions :: rate_rule
  rf_agentSourceSubmission :: rate_rule
  rf_publicDemoActions :: rate_rule
  rf_sourceSubmission :: rate_rule
  rf_trustProxy :: bool

record partial_rule =
  pu_maxRequests :: "int option"
  pu_windowMs :: "int option"

record partial_config =
  pf_adminActions :: "partial_rule option"
  pf_agentSourceSubmission :: "partial_rule option"
  pf_publicDemoActions :: "partial_rule option"
  pf_sourceSubmission :: "partial_rule option"
  pf_trustProxy :: "bool option"

definition readRateLimitInteger :: "environment \<Rightarrow> string \<Rightarrow> int \<Rightarrow> setting_error + int" where
  "readRateLimitInteger env key fallback =
     (if \<not> blank (nullish (env key) []) then parseIntegerValue (nullish (env key) []) key 0 None else Inr fallback)"

definition read_rule :: "environment \<Rightarrow> string \<Rightarrow> string \<Rightarrow> int \<Rightarrow> setting_error + rate_rule" where
  "read_rule env windowKey requestsKey requests =
     and_then (readRateLimitInteger env windowKey 60000) (\<lambda>windowMs.
     and_then (readRateLimitInteger env requestsKey requests) (\<lambda>maxRequests.
       Inr \<lparr>ru_maxRequests = maxRequests, ru_windowMs = windowMs\<rparr>))"

definition defaultRateLimitConfig :: "files \<Rightarrow> environment \<Rightarrow> bool \<Rightarrow> setting_error + rate_config" where
  "defaultRateLimitConfig files env localRpc =
     and_then (readBooleanEnv files env ''SP_TRUST_PROXY'' False) (\<lambda>trustProxy.
     and_then (read_rule env ''SP_PUBLIC_RATE_LIMIT_WINDOW_MS'' ''SP_PUBLIC_RATE_LIMIT_MAX_REQUESTS''
       (if localRpc then 0 else 20)) (\<lambda>publicDemo.
     and_then (read_rule env ''SP_ADMIN_RATE_LIMIT_WINDOW_MS'' ''SP_ADMIN_RATE_LIMIT_MAX_REQUESTS''
       (if localRpc then 0 else 10)) (\<lambda>admin.
     and_then (read_rule env ''SP_SOURCE_RATE_LIMIT_WINDOW_MS'' ''SP_SOURCE_RATE_LIMIT_MAX_REQUESTS''
       (if localRpc then 0 else 1)) (\<lambda>source.
     and_then (read_rule env ''SP_AGENT_SOURCE_RATE_LIMIT_WINDOW_MS'' ''SP_AGENT_SOURCE_RATE_LIMIT_MAX_REQUESTS''
       (if localRpc then 0 else 1)) (\<lambda>agentSource.
       Inr \<lparr>rf_adminActions = admin, rf_agentSourceSubmission = agentSource, rf_publicDemoActions = publicDemo,
          rf_sourceSubmission = source, rf_trustProxy = trustProxy\<rparr>)))))"

definition resolve_rule :: "partial_rule option \<Rightarrow> rate_rule \<Rightarrow> rate_rule" where
  "resolve_rule override d = (case override of None \<Rightarrow> d
     | Some p \<Rightarrow> \<lparr>ru_maxRequests = nullish (pu_maxRequests p) (ru_maxRequests d),
                 ru_windowMs = nullish (pu_windowMs p) (ru_windowMs d)\<rparr>)"

definition resolveRateLimitConfig ::
  "partial_config option \<Rightarrow> files \<Rightarrow> environment \<Rightarrow> bool \<Rightarrow> setting_error + rate_config" where
  "resolveRateLimitConfig override files env localRpc =
     and_then (defaultRateLimitConfig files env localRpc) (\<lambda>d.
       let given = (\<lambda>f. Option.bind override f) in
       Inr \<lparr>rf_adminActions = resolve_rule (given pf_adminActions) (rf_adminActions d),
          rf_agentSourceSubmission = resolve_rule (given pf_agentSourceSubmission) (rf_agentSourceSubmission d),
          rf_publicDemoActions = resolve_rule (given pf_publicDemoActions) (rf_publicDemoActions d),
          rf_sourceSubmission = resolve_rule (given pf_sourceSubmission) (rf_sourceSubmission d),
          rf_trustProxy = nullish (Option.bind override pf_trustProxy) (rf_trustProxy d)\<rparr>)"

datatype rate_backend = Memory_backend | Postgres_backend
datatype backend_error = Unknown_backend | Memory_backend_remote

text \<open>A blank setting is not \<open>null\<close>, so it is kept as the backend: neither of the two.\<close>

definition resolveRateLimitBackend :: "environment \<Rightarrow> bool \<Rightarrow> bool \<Rightarrow> backend_error + rate_backend option" where
  "resolveRateLimitBackend env localRpc testMode =
     (let configured = map_option (\<lambda>v. js_lower (js_trim v)) (env ''SP_RATE_LIMIT_BACKEND'') in
      if truthy configured \<and> configured \<noteq> Some ''memory'' \<and> configured \<noteq> Some ''postgres'' then Inl Unknown_backend
      else let remote = (\<not> localRpc \<and> \<not> testMode);
               backend = (case configured of
                  None \<Rightarrow> Some (if remote then Postgres_backend else Memory_backend)
                | Some v \<Rightarrow> if v = ''memory'' then Some Memory_backend
                            else if v = ''postgres'' then Some Postgres_backend else None)
           in if backend = Some Memory_backend \<and> remote then Inl Memory_backend_remote else Inr backend)"

section \<open>Scopes and clients\<close>

datatype rate_scope = AdminActions | AgentSourceSubmission | PublicDemoActions | SourceSubmission

definition scope_name :: "rate_scope \<Rightarrow> string" where
  "scope_name s = (case s of AdminActions \<Rightarrow> ''adminActions'' | AgentSourceSubmission \<Rightarrow> ''agentSourceSubmission''
     | PublicDemoActions \<Rightarrow> ''publicDemoActions'' | SourceSubmission \<Rightarrow> ''sourceSubmission'')"

text \<open>\<open>/^prefix\d+suffix$/\<close>\<close>

definition numbered_path :: "string \<Rightarrow> string \<Rightarrow> string \<Rightarrow> bool" where
  "numbered_path prefix suffix path \<longleftrightarrow> js_starts_with prefix path \<and>
     (let rest = drop (length prefix) path; digits = takeWhile is_digit rest
      in digits \<noteq> [] \<and> drop (length digits) rest = suffix)"

definition isSandboxAdminRoutesEnabled :: "files \<Rightarrow> environment \<Rightarrow> setting_error + bool" where
  "isSandboxAdminRoutesEnabled files env = readBooleanEnv files env ''SP_ENABLE_SANDBOX_ADMIN_ROUTES'' False"

definition admin_path :: "string \<Rightarrow> bool" where
  "admin_path path \<longleftrightarrow> numbered_path ''/replication-jobs/'' ''/process'' path \<or>
     numbered_path ''/replication-jobs/'' ''/resolve'' path \<or> numbered_path ''/domains/'' ''/recompute'' path"

definition public_demo_path :: "string \<Rightarrow> bool" where
  "public_demo_path path \<longleftrightarrow> path = ''/claim-drafts/from-artifact'' \<or> path = ''/claims'' \<or>
     numbered_path ''/claims/'' ''/replication-jobs'' path \<or> path = ''/demo/artifact-maintenance-tasks'' \<or>
     path = ''/demo/artifact-maintenance-tasks/enqueue-audits'' \<or> path = ''/demo/claim-drafts/from-artifact'' \<or>
     path = ''/demo/claims'' \<or> path = ''/demo/replication-jobs'' \<or>
     numbered_path ''/demo/replication-jobs/'' ''/process'' path \<or>
     numbered_path ''/demo/replication-jobs/'' ''/resolve'' path \<or>
     numbered_path ''/demo/domains/'' ''/recompute'' path"

definition demoRateLimitScope ::
  "files \<Rightarrow> environment \<Rightarrow> string \<Rightarrow> string option \<Rightarrow> setting_error + rate_scope option" where
  "demoRateLimitScope files env path method' =
     (if path = ''/admin/sync'' \<and> method' = Some ''GET'' then Inr (Some AdminActions)
      else if method' \<noteq> Some ''POST'' then Inr None
      else and_then (if path = ''/demo/admin/reseed-operational'' then isSandboxAdminRoutesEnabled files env else Inr False)
        (\<lambda>sandbox.
           Inr (if sandbox \<or> admin_path path then Some AdminActions
             else if public_demo_path path then Some PublicDemoActions
             else if path = ''/sources'' then Some SourceSubmission
             else if path = ''/agent/sources'' then Some AgentSourceSubmission
             else None)))"

text \<open>The \<open>x-forwarded-for\<close> header when it is one string, and the address of the socket.\<close>

definition requestClientKey :: "string option \<Rightarrow> string option \<Rightarrow> bool \<Rightarrow> string" where
  "requestClientKey forwarded remoteAddress trustProxy =
     (let first = (case forwarded of None \<Rightarrow> [] | Some f \<Rightarrow> js_trim (hd (js_split (CHR '','') f))) in
      if trustProxy \<and> first \<noteq> [] then first else nullish remoteAddress ''unknown'')"

definition sourceDuplicateCooldownKey :: "string \<Rightarrow> string \<Rightarrow> string \<Rightarrow> string option \<Rightarrow> string" where
  "sourceDuplicateCooldownKey scope canonicalSourceKey actorAddress agentId =
     js_join '':'' ([scope, canonicalSourceKey, js_lower actorAddress] @
       (if truthy agentId then [nullish agentId []] else []))"

section \<open>Buckets\<close>

record rate_bucket =
  rb_requests :: int
  rb_resetAt :: int

record rate_headers =
  rh_limit :: int
  rh_remaining :: int
  rh_reset :: int
  rh_retryAfter :: "int option"

text \<open>\<open>Math.ceil(ms / 1000)\<close>\<close>

definition ceil_seconds :: "int \<Rightarrow> int" where
  "ceil_seconds ms = - ((- ms) div 1000)"

definition retry_after_seconds :: "int \<Rightarrow> rate_bucket \<Rightarrow> int" where
  "retry_after_seconds now b = max 1 (ceil_seconds (rb_resetAt b - now))"

definition setRateLimitHeaders :: "int \<Rightarrow> rate_rule \<Rightarrow> rate_bucket \<Rightarrow> (bool \<times> int) \<times> rate_headers" where
  "setRateLimitHeaders now rule b =
     (let allowed = (rb_requests b \<le> ru_maxRequests rule)
      in ((allowed, retry_after_seconds now b),
          \<lparr>rh_limit = ru_maxRequests rule, rh_remaining = max 0 (ru_maxRequests rule - rb_requests b),
           rh_reset = ceil_seconds (rb_resetAt b),
           rh_retryAfter = (if allowed then None else Some (retry_after_seconds now b))\<rparr>))"

type_synonym buckets = "(string, rate_bucket) jmap"

definition unlimited :: "rate_rule \<Rightarrow> bool" where
  "unlimited rule \<longleftrightarrow> ru_maxRequests rule \<le> 0 \<or> ru_windowMs rule \<le> 0"

text \<open>Expired buckets are dropped when there are many.\<close>

definition sweep_buckets :: "int \<Rightarrow> buckets \<Rightarrow> buckets" where
  "sweep_buckets now m = (if length m \<ge> 256 then filter (\<lambda>(key, b). \<not> rb_resetAt b \<le> now) m else m)"

definition current_bucket :: "int \<Rightarrow> int \<Rightarrow> rate_bucket option \<Rightarrow> rate_bucket" where
  "current_bucket windowMs now existing = (case existing of
     None \<Rightarrow> \<lparr>rb_requests = 0, rb_resetAt = now + windowMs\<rparr>
   | Some b \<Rightarrow> if rb_resetAt b \<le> now then \<lparr>rb_requests = 0, rb_resetAt = now + windowMs\<rparr> else b)"

text \<open>The bucket of a key with one more request, in memory.\<close>

definition memory_take :: "int \<Rightarrow> int \<Rightarrow> string \<Rightarrow> buckets \<Rightarrow> rate_bucket \<times> buckets" where
  "memory_take windowMs now key m =
     (let m' = sweep_buckets now m;
          c = current_bucket windowMs now (jm_get m' key);
          current = c\<lparr>rb_requests := rb_requests c + 1\<rparr>
      in (current, jm_set key current m'))"

definition consumeRateLimit ::
  "int \<Rightarrow> rate_scope \<Rightarrow> string \<Rightarrow> rate_rule \<Rightarrow> buckets \<Rightarrow> ((bool \<times> int) \<times> rate_headers option) \<times> buckets" where
  "consumeRateLimit now scope clientKey rule m =
     (if unlimited rule then (((True, 0), None), m)
      else case memory_take (ru_windowMs rule) now (scope_name scope @ '':'' @ clientKey) m of
        (b, m') \<Rightarrow> (case setRateLimitHeaders now rule b of (r, h) \<Rightarrow> ((r, Some h), m')))"

text \<open>
  The table: up to a hundred expired rows, the oldest first, are deleted, then the row of the key is
  inserted or updated.
\<close>

definition sweep_rows :: "int \<Rightarrow> buckets \<Rightarrow> buckets" where
  "sweep_rows now rows =
     (let expired = take 100 (js_sort (\<lambda>x y. rb_resetAt (snd x) - rb_resetAt (snd y))
            (filter (\<lambda>(key, b). rb_resetAt b \<le> now) rows))
      in filter (\<lambda>(key, b). key \<notin> fst ` set expired) rows)"

definition upsert_row :: "int \<Rightarrow> int \<Rightarrow> string \<Rightarrow> buckets \<Rightarrow> rate_bucket \<times> buckets" where
  "upsert_row windowMs now key rows =
     (let row = (case jm_get rows key of
            None \<Rightarrow> \<lparr>rb_requests = 1, rb_resetAt = now + windowMs\<rparr>
          | Some b \<Rightarrow> \<lparr>rb_requests = (if rb_resetAt b \<le> now then 1 else rb_requests b + 1),
                      rb_resetAt = (if rb_resetAt b \<le> now then now + windowMs else rb_resetAt b)\<rparr>)
      in (row, jm_set key row rows))"

definition postgres_take :: "int \<Rightarrow> int \<Rightarrow> string \<Rightarrow> buckets \<Rightarrow> rate_bucket \<times> buckets" where
  "postgres_take windowMs now key rows = upsert_row windowMs now key (sweep_rows now rows)"

text \<open>
  The map in memory and the table. A query that fails becomes \<open>rate_limit_store_unavailable\<close>; the
  argument \<open>available\<close> says whether it does.
\<close>

record rate_store =
  rs_memory :: buckets
  rs_table :: buckets

definition consumeConfiguredRateLimit ::
  "int \<Rightarrow> bool \<Rightarrow> rate_backend \<Rightarrow> string \<Rightarrow> rate_rule \<Rightarrow> rate_store \<Rightarrow>
   (string + ((bool \<times> int) \<times> rate_headers option)) \<times> rate_store" where
  "consumeConfiguredRateLimit now available backend bucketKey rule s =
     (if unlimited rule then (Inr ((True, 0), None), s)
      else case backend of
        Memory_backend \<Rightarrow>
          (case consumeRateLimit now PublicDemoActions bucketKey rule (rs_memory s) of
             (r, m) \<Rightarrow> (Inr r, s\<lparr>rs_memory := m\<rparr>))
      | Postgres_backend \<Rightarrow>
          if \<not> available then (Inl ''rate_limit_store_unavailable'', s)
          else (case postgres_take (ru_windowMs rule) now bucketKey (rs_table s) of
             (b, rows) \<Rightarrow> (case setRateLimitHeaders now rule b of (r, h) \<Rightarrow> (Inr (r, Some h), s\<lparr>rs_table := rows\<rparr>))))"

section \<open>Cooldown of duplicates\<close>

text \<open>Asking does not take a place; recording an accepted source does.\<close>

definition consumeDuplicateCooldown ::
  "int \<Rightarrow> string \<Rightarrow> rate_rule \<Rightarrow> buckets \<Rightarrow> ((bool \<times> int) \<times> rate_headers option) \<times> buckets" where
  "consumeDuplicateCooldown now bucketKey rule m =
     (if unlimited rule then (((True, 0), None), m)
      else let m' = sweep_buckets now m;
               current = current_bucket (ru_windowMs rule) now (jm_get m' bucketKey);
               allowed = (\<not> rb_requests current \<ge> ru_maxRequests rule);
               h = \<lparr>rh_limit = ru_maxRequests rule, rh_remaining = max 0 (ru_maxRequests rule - rb_requests current),
                    rh_reset = ceil_seconds (rb_resetAt current),
                    rh_retryAfter = (if allowed then None else Some (retry_after_seconds now current))\<rparr>
           in (((allowed, retry_after_seconds now current), Some h), m'))"

definition recordDuplicateCooldown :: "int \<Rightarrow> string \<Rightarrow> rate_rule \<Rightarrow> buckets \<Rightarrow> buckets" where
  "recordDuplicateCooldown now bucketKey rule m =
     (if unlimited rule then m
      else let c = current_bucket (ru_windowMs rule) now (jm_get m bucketKey)
           in jm_set bucketKey (c\<lparr>rb_requests := rb_requests c + 1\<rparr>) m)"

end
