(* ===== verification/Rate_Window.thy ===== *)
theory Rate_Window
  imports Rate_Limit
begin

text \<open>
  What the rate limits promise. The contract of a limiter is the abstract counter of one key: a bucket
  that counts the requests until it expires. Both backends keep it, so they answer alike, and its
  bounds hold for both: a key is never served more than twice its limit in any window, and a client
  that waits as long as it is told is served.
\<close>

section \<open>The abstract counter\<close>

definition live :: "int \<Rightarrow> rate_bucket option \<Rightarrow> rate_bucket option" where
  "live now b = (case b of None \<Rightarrow> None | Some r \<Rightarrow> if rb_resetAt r \<le> now then None else Some r)"

definition take_place :: "int \<Rightarrow> int \<Rightarrow> rate_bucket option \<Rightarrow> rate_bucket" where
  "take_place window now b = (case live now b of None \<Rightarrow> \<lparr>rb_requests = 1, rb_resetAt = now + window\<rparr>
     | Some r \<Rightarrow> \<lparr>rb_requests = rb_requests r + 1, rb_resetAt = rb_resetAt r\<rparr>)"

text \<open>The buckets a sequence of requests, each with its time and key, leaves behind them.\<close>

fun run_limiter :: "(int \<Rightarrow> string \<Rightarrow> 's \<Rightarrow> rate_bucket \<times> 's) \<Rightarrow> (int \<times> string) list \<Rightarrow> 's \<Rightarrow> rate_bucket list" where
  "run_limiter consume [] s = []"
| "run_limiter consume ((t, k) # rs) s = (case consume t k s of (b, s') \<Rightarrow> b # run_limiter consume rs s')"

fun counters :: "int \<Rightarrow> (int \<times> string) list \<Rightarrow> (string \<Rightarrow> rate_bucket option) \<Rightarrow> rate_bucket list" where
  "counters window [] f = []"
| "counters window ((t, k) # rs) f = take_place window t (f k) # counters window rs (f(k := Some (take_place window t (f k))))"

lemma live_later: "now \<le> now' \<Longrightarrow> live now' (live now b) = live now' b"
  by (auto simp: live_def split: option.splits)

lemma take_place_live: "live now b = live now c \<Longrightarrow> take_place window now b = take_place window now c"
  by (simp add: take_place_def)

locale limiter =
  fixes consume :: "int \<Rightarrow> string \<Rightarrow> 's \<Rightarrow> rate_bucket \<times> 's"
    and bucket_at :: "'s \<Rightarrow> string \<Rightarrow> rate_bucket option"
    and window :: int
    and ok :: "'s \<Rightarrow> bool"
  assumes keeps: "ok s \<Longrightarrow> ok (snd (consume now k s))"
    and taken: "ok s \<Longrightarrow> fst (consume now k s) = take_place window now (bucket_at s k)"
    and leaves: "ok s \<Longrightarrow> now \<le> now' \<Longrightarrow> live now' (bucket_at (snd (consume now k s)) j) =
      live now' (if j = k then Some (take_place window now (bucket_at s k)) else bucket_at s j)"
begin

lemma run_counters:
  assumes "ok s" and "sorted (map fst rs)" and "\<forall>(t, k) \<in> set rs. now \<le> t"
    and "\<And>t k. now \<le> t \<Longrightarrow> live t (bucket_at s k) = live t (f k)"
  shows "run_limiter consume rs s = counters window rs f"
  using assms
proof (induction rs arbitrary: s f now)
  case (Cons r rs)
  obtain t k where r: "r = (t, k)" by fastforce
  have t: "now \<le> t" using Cons.prems(3) r by simp
  have same: "take_place window t (bucket_at s k) = take_place window t (f k)"
    by (rule take_place_live) (rule Cons.prems(4) [OF t])
  obtain b s' where c: "consume t k s = (b, s')" by fastforce
  then have b: "b = take_place window t (f k)" using taken [OF Cons.prems(1), of t k] same by simp
  have "run_limiter consume rs s' = counters window rs (f(k := Some b))"
  proof (rule Cons.IH)
    show "ok s'" using keeps [OF Cons.prems(1), of t k] c by simp
    show "sorted (map fst rs)" using Cons.prems(2) by simp
    show "\<forall>(t', k') \<in> set rs. t \<le> t'" using Cons.prems(2) r by auto
    fix t' j assume t': "t \<le> t'"
    have "live t' (bucket_at s' j) = live t' (if j = k then Some b else bucket_at s j)"
      using leaves [OF Cons.prems(1) t', of k j] c b same by simp
    also have "\<dots> = live t' ((f(k := Some b)) j)" using Cons.prems(4) [of t' j] t t' by simp
    finally show "live t' (bucket_at s' j) = live t' ((f(k := Some b)) j)" .
  qed
  with c b show ?case by (simp add: r)
qed simp

end

section \<open>The two backends\<close>

lemma get_filter:
  "distinct (jm_keys m) \<Longrightarrow> jm_get (filter p m) k = (case jm_get m k of None \<Rightarrow> None | Some v \<Rightarrow> if p (k, v) then Some v else None)"
proof (induction m)
  case (Cons x m)
  then have "map_of (filter p m) (fst x) = None" by (auto simp: map_of_eq_None_iff)
  with Cons show ?case by (cases x) (auto split: option.splits)
qed simp

lemma keys_filter: "distinct (jm_keys m) \<Longrightarrow> distinct (jm_keys (filter p m))"
  by (induction m) auto

lemma live_sweeps:
  assumes "distinct (jm_keys m)" and "now \<le> now'"
  shows "live now' (jm_get (sweep_buckets now m) k) = live now' (jm_get m k)"
    and "live now' (jm_get (sweep_rows now m) k) = live now' (jm_get m k)"
proof -
  show "live now' (jm_get (sweep_buckets now m) k) = live now' (jm_get m k)"
    using assms by (auto simp: sweep_buckets_def get_filter live_def split: option.split)
  let ?e = "take 100 (js_sort (\<lambda>x y. rb_resetAt (snd x) - rb_resetAt (snd y)) (filter (\<lambda>(key, b). rb_resetAt b \<le> now) m))"
  have old: "rb_resetAt b \<le> now" if "k \<in> fst ` set ?e" "jm_get m k = Some b" for b
  proof -
    from that(1) obtain c where "(k, c) \<in> set ?e" by auto
    from in_set_takeD [OF this] have "(k, c) \<in> set (filter (\<lambda>(key, b). rb_resetAt b \<le> now) m)" unfolding set_js_sort .
    then have "(k, c) \<in> set m" "rb_resetAt c \<le> now" by auto
    with that(2) assms(1) show ?thesis by (auto dest: map_of_is_SomeI)
  qed
  have get: "jm_get (sweep_rows now m) k = (case jm_get m k of None \<Rightarrow> None | Some v \<Rightarrow> if k \<notin> fst ` set ?e then Some v else None)"
    unfolding sweep_rows_def Let_def by (simp only: get_filter [OF assms(1)] prod.case)
  show "live now' (jm_get (sweep_rows now m) k) = live now' (jm_get m k)"
  proof (cases "jm_get m k")
    case None
    then show ?thesis by (simp only: get option.case)
  next
    case (Some v)
    show ?thesis
    proof (cases "k \<in> fst ` set ?e")
      case True
      then have "rb_resetAt v \<le> now'" using old [OF True Some] assms(2) by linarith
      with True show ?thesis by (simp only: get Some option.case if_False if_True not_True_eq_False live_def)
    next
      case False
      then show ?thesis by (simp only: get Some option.case if_True not_False_eq_True)
    qed
  qed
qed

lemma take_current: "(current_bucket window now b)\<lparr>rb_requests := rb_requests (current_bucket window now b) + 1\<rparr> = take_place window now b"
  by (simp add: current_bucket_def take_place_def live_def split: option.split)

lemma memory_take_eq:
  assumes "distinct (jm_keys m)"
  shows "memory_take window now k m = (take_place window now (jm_get m k), jm_set k (take_place window now (jm_get m k)) (sweep_buckets now m))"
proof -
  have "take_place window now (jm_get (sweep_buckets now m) k) = take_place window now (jm_get m k)"
    by (rule take_place_live) (rule live_sweeps(1) [OF assms order_refl])
  then show ?thesis by (simp add: memory_take_def Let_def take_current)
qed

lemma upsert_row_eq: "upsert_row window now k m = (take_place window now (jm_get m k), jm_set k (take_place window now (jm_get m k)) m)"
  by (simp add: upsert_row_def take_place_def live_def Let_def split: option.split)

lemma postgres_take_eq:
  assumes "distinct (jm_keys m)"
  shows "postgres_take window now k m = (take_place window now (jm_get m k), jm_set k (take_place window now (jm_get m k)) (sweep_rows now m))"
proof -
  have "take_place window now (jm_get (sweep_rows now m) k) = take_place window now (jm_get m k)"
    by (rule take_place_live) (rule live_sweeps(2) [OF assms order_refl])
  then show ?thesis by (simp add: postgres_take_def upsert_row_eq)
qed

lemma sweeps_distinct: "distinct (jm_keys m) \<Longrightarrow> distinct (jm_keys (sweep_buckets now m))"
  "distinct (jm_keys m) \<Longrightarrow> distinct (jm_keys (sweep_rows now m))"
  by (simp_all add: sweep_buckets_def sweep_rows_def Let_def keys_filter)

interpretation memory: limiter "memory_take window" jm_get window "\<lambda>m. distinct (jm_keys m)" for window
  by unfold_locales (simp_all add: memory_take_eq sweeps_distinct live_sweeps)

interpretation postgres: limiter "postgres_take window" jm_get window "\<lambda>m. distinct (jm_keys m)" for window
  by unfold_locales (simp_all add: postgres_take_eq sweeps_distinct live_sweeps)

interpretation scoped: limiter "\<lambda>t k. memory_take window t (scope @ k)" "\<lambda>m k. jm_get m (scope @ k)" window
    "\<lambda>m. distinct (jm_keys m)" for scope window
  by unfold_locales (simp_all add: memory_take_eq sweeps_distinct live_sweeps)

section \<open>Bounds of the counter\<close>

abbreviation places :: "int \<Rightarrow> (int \<times> string) list \<Rightarrow> (string \<Rightarrow> rate_bucket option) \<Rightarrow> ((int \<times> string) \<times> rate_bucket) list" where
  "places window rs f \<equiv> zip rs (counters window rs f)"

lemma take_place_cases:
  obtains r where "b = Some r" "now < rb_resetAt r" "take_place w now b = \<lparr>rb_requests = rb_requests r + 1, rb_resetAt = rb_resetAt r\<rparr>"
  | "case b of None \<Rightarrow> True | Some r \<Rightarrow> rb_resetAt r \<le> now" "take_place w now b = \<lparr>rb_requests = 1, rb_resetAt = now + w\<rparr>"
proof (cases "\<exists>r. b = Some r \<and> now < rb_resetAt r")
  case True
  then obtain r where r: "b = Some r" "now < rb_resetAt r" by blast
  show ?thesis using r by (intro that(1) [OF r]) (simp add: take_place_def live_def)
next
  case False
  show ?thesis by (rule that(2)) (use False in \<open>auto simp: take_place_def live_def split: option.split\<close>)
qed

lemma later_places:
  assumes "((t, k), b) \<in> set (places w ((t', k') # rs) f)"
  obtains "t = t'" "k = k'" "b = take_place w t' (f k')"
  | "((t, k), b) \<in> set (places w rs (f(k' := Some (take_place w t' (f k')))))"
  using assms by auto

lemma resets_later: "0 < w \<Longrightarrow> ((t, k), b) \<in> set (places w rs f) \<Longrightarrow> t < rb_resetAt b"
proof (induction rs arbitrary: f)
  case (Cons x rs)
  obtain t' k' where x: "x = (t', k')" by fastforce
  have now: "t' < rb_resetAt (take_place w t' (f k'))"
    using Cons.prems(1) by (auto simp: take_place_def live_def split: option.split)
  from Cons.prems(2) show ?case unfolding x
    by (rule later_places) (use now Cons.IH [OF Cons.prems(1)] in auto)
qed simp

lemma resets_soon:
  "0 < w \<Longrightarrow> sorted (map fst rs) \<Longrightarrow> (\<And>r t. f k = Some r \<Longrightarrow> t \<in> fst ` set rs \<Longrightarrow> rb_resetAt r \<le> t + w) \<Longrightarrow>
     ((t, k), b) \<in> set (places w rs f) \<Longrightarrow> rb_resetAt b \<le> t + w"
proof (induction rs arbitrary: f)
  case (Cons x rs)
  obtain t' k' where x [simp]: "x = (t', k')" by fastforce
  let ?f = "f(k' := Some (take_place w t' (f k')))"
  have now: "rb_resetAt (take_place w t' (f k)) \<le> t' + w"
    using Cons.prems(3) by (cases rule: take_place_cases [of "f k" t' w]) auto
  have later: "rb_resetAt r \<le> u + w" if "?f k = Some r" "u \<in> fst ` set rs" for r u
  proof (cases "k' = k")
    case True
    with that now Cons.prems(2) show ?thesis by fastforce
  next
    case False
    with that show ?thesis using Cons.prems(3) [of r u] by simp
  qed
  from Cons.prems(4) consider "t = t'" "k = k'" "b = take_place w t' (f k')" | "((t, k), b) \<in> set (places w rs ?f)" by auto
  then show ?case
  proof cases
    case 1
    with now show ?thesis by simp
  next
    case 2
    from Cons.IH [OF Cons.prems(1) _ later this] Cons.prems(2) show ?thesis by simp
  qed
qed simp

lemma resets_apart:
  "0 < w \<Longrightarrow> f k = Some r \<Longrightarrow> ((t, k), b) \<in> set (places w rs f) \<Longrightarrow>
     rb_resetAt b = rb_resetAt r \<or> rb_resetAt r + w \<le> rb_resetAt b"
proof (induction rs arbitrary: f r)
  case (Cons x rs)
  obtain t' k' where x: "x = (t', k')" by fastforce
  define c where "c = take_place w t' (f k')"
  define g where "g = f(k' := Some c)"
  have c: "rb_resetAt c = rb_resetAt r \<or> rb_resetAt r + w \<le> rb_resetAt c" if "k' = k"
    using that Cons.prems(2) unfolding c_def by (cases rule: take_place_cases [of "f k'" t' w]) auto
  from Cons.prems(3) consider "k = k'" "b = c" | "((t, k), b) \<in> set (places w rs g)"
    unfolding x c_def g_def by (rule later_places)
  then show ?case
  proof cases
    case 1
    with c show ?thesis by simp
  next
    case 2
    show ?thesis
    proof (cases "k' = k")
      case True
      then have "g k = Some c" by (simp add: g_def)
      from Cons.IH [OF Cons.prems(1) this 2] c [OF True] Cons.prems(1) show ?thesis by linarith
    next
      case False
      then have "g k = Some r" using Cons.prems(2) by (simp add: g_def)
      from Cons.IH [OF Cons.prems(1) this 2] show ?thesis .
    qed
  qed
qed simp

lemma one_window:
  "0 < w \<Longrightarrow> 0 \<le> m \<Longrightarrow> sorted (map fst rs) \<Longrightarrow>
     int (length (filter (\<lambda>((t, k'), b). k' = k \<and> rb_resetAt b = L \<and> rb_requests b \<le> m) (places w rs f)))
       \<le> (case f k of None \<Rightarrow> m | Some r \<Rightarrow> if rb_resetAt r = L then max 0 (m - rb_requests r) else m)"
proof (induction rs arbitrary: f)
  case (Cons x rs)
  obtain t k' where x [simp]: "x = (t, k')" by fastforce
  let ?b = "take_place w t (f k')"
  let ?f = "f(k' := Some ?b)"
  let ?p = "\<lambda>((t, k'), b). k' = k \<and> rb_resetAt b = L \<and> rb_requests b \<le> m"
  have IH: "int (length (filter ?p (places w rs ?f))) \<le>
      (case ?f k of None \<Rightarrow> m | Some r \<Rightarrow> if rb_resetAt r = L then max 0 (m - rb_requests r) else m)"
    using Cons.prems by (intro Cons.IH) simp_all
  show ?case
  proof (cases "k' = k")
    case False
    with IH show ?thesis by simp
  next
    case True
    show ?thesis
    proof (cases rule: take_place_cases [of "f k'" t w])
      case (1 r)
      with IH True Cons.prems(2) show ?thesis by (auto split: if_splits)
    next
      case fresh: 2
      show ?thesis
      proof (cases "f k = None \<or> L = t + w")
        case new: True
        with IH True fresh Cons.prems(1,2) show ?thesis by (auto split: if_splits option.splits)
      next
        case False
        then obtain r where r: "f k = Some r" "L \<noteq> t + w" by auto
        have "rb_resetAt r \<le> t" using fresh(1) r True by simp
        show ?thesis
        proof (cases "rb_resetAt r = L")
          case old: True
          have "filter ?p (places w rs ?f) = []"
          proof -
            have "t \<le> u" if "((u, j), b) \<in> set (places w rs ?f)" for u j b
              using that Cons.prems(3) by (fastforce dest: set_zip_leftD)
            then have "L < rb_resetAt b" if "((u, j), b) \<in> set (places w rs ?f)" for u j b
              using resets_later [OF Cons.prems(1) that] that old \<open>rb_resetAt r \<le> t\<close> by fastforce
            then show ?thesis by (fastforce simp: filter_empty_conv)
          qed
          with True r fresh(2) old Cons.prems(2) show ?thesis by simp
        next
          case False
          with IH True r fresh(2) show ?thesis by simp
        qed
      qed
    qed
  qed
qed (simp split: option.split)

lemma places_apart:
  assumes "0 < w"
  shows "sorted_wrt (\<lambda>x y. snd (fst x) = k \<and> snd (fst y) = k \<longrightarrow> rb_resetAt (snd y) = rb_resetAt (snd x) \<or>
    rb_resetAt (snd x) + w \<le> rb_resetAt (snd y)) (places w rs f)"
  using assms
proof (induction rs arbitrary: f)
  case (Cons x rs)
  obtain t k' where x [simp]: "x = (t, k')" by fastforce
  let ?f = "f(k' := Some (take_place w t (f k')))"
  have "rb_resetAt (snd y) = rb_resetAt (take_place w t (f k')) \<or> rb_resetAt (take_place w t (f k')) + w \<le> rb_resetAt (snd y)"
    if "y \<in> set (places w rs ?f)" "snd (fst y) = k" "k' = k" for y
    using resets_apart [OF Cons.prems, of ?f k "take_place w t (f k')" "fst (fst y)" "snd y" rs] that
    by (cases y) auto
  with Cons.IH [OF Cons.prems] show ?case by auto
qed simp

text \<open>Resets at least a window apart, all in an interval of two windows, take two values at most.\<close>

lemma two_values:
  assumes "sorted_wrt (\<lambda>x y. g y = g x \<or> g x + w \<le> g y) xs" and "0 < w" and "\<forall>x \<in> set xs. a < g x \<and> g x < a + 2 * w"
  shows "\<exists>L M. \<forall>x \<in> set xs. g x = L \<or> g x = (M :: int)"
proof (cases xs)
  case (Cons x ys)
  let ?zs = "filter (\<lambda>y. g y \<noteq> g x) ys"
  show ?thesis
  proof (cases ?zs)
    case Nil
    then show ?thesis using Cons by (auto simp: filter_empty_conv)
  next
    case z: (Cons z zs)
    have "z \<in> set ?zs" using z by simp
    then have zx: "g x + w \<le> g z" using assms(1) Cons by auto
    have s: "sorted_wrt (\<lambda>x y. g y = g x \<or> g x + w \<le> g y) ?zs"
      using assms(1) Cons by (simp add: sorted_wrt_filter)
    have "g y = g z" if "y \<in> set zs" for y
    proof -
      have "g y = g z \<or> g z + w \<le> g y" using s z that by simp
      moreover have "y \<in> set ?zs" using z that by simp
      then have "y \<in> set xs" using Cons by simp
      then have "g y < a + 2 * w" using assms(3) by blast
      moreover have "a < g x" using assms(3) Cons by simp
      ultimately show ?thesis using zx assms(2) by linarith
    qed
    then have "\<forall>y \<in> set ?zs. g y = g z" using z by simp
    then show ?thesis using Cons by (intro exI [of _ "g x"] exI [of _ "g z"]) auto
  qed
qed simp

lemma filter_two:
  "\<forall>x \<in> set xs. p x \<longrightarrow> q x \<or> r x \<Longrightarrow> length (filter p xs) \<le> length (filter q xs) + length (filter r xs)"
  by (induction xs) auto

lemma two_windows:
  assumes "0 < w" "0 \<le> m" and "sorted (map fst rs)"
  shows "int (length (filter (\<lambda>((t, k'), b). k' = k \<and> a \<le> t \<and> t < a + w \<and> rb_requests b \<le> m) (places w rs (\<lambda>_. None)))) \<le> 2 * m"
proof -
  let ?P = "places w rs (\<lambda>_. None)"
  let ?xs = "filter (\<lambda>((t, k'), b). k' = k \<and> a \<le> t \<and> t < a + w \<and> rb_requests b \<le> m) ?P"
  have "sorted_wrt (\<lambda>x y. snd (fst x) = k \<and> snd (fst y) = k \<longrightarrow> rb_resetAt (snd y) = rb_resetAt (snd x) \<or>
      rb_resetAt (snd x) + w \<le> rb_resetAt (snd y)) ?xs"
    by (rule sorted_wrt_filter) (rule places_apart [OF assms(1)])
  then have s: "sorted_wrt (\<lambda>x y. rb_resetAt (snd y) = rb_resetAt (snd x) \<or> rb_resetAt (snd x) + w \<le> rb_resetAt (snd y)) ?xs"
    by (rule sorted_wrt_mono_rel [rotated]) auto
  have r: "\<forall>x \<in> set ?xs. a < rb_resetAt (snd x) \<and> rb_resetAt (snd x) < a + 2 * w"
  proof
    fix x assume "x \<in> set ?xs"
    then obtain t b where x: "x = ((t, k), b)" "((t, k), b) \<in> set ?P" "a \<le> t" "t < a + w" by auto
    from resets_later [OF assms(1) x(2)] resets_soon [OF assms(1,3) _ x(2)] x
    show "a < rb_resetAt (snd x) \<and> rb_resetAt (snd x) < a + 2 * w" by simp
  qed
  from two_values [OF s assms(1) r] obtain L M where LM: "\<forall>x \<in> set ?xs. rb_resetAt (snd x) = L \<or> rb_resetAt (snd x) = M" by blast
  let ?n = "\<lambda>L. filter (\<lambda>((t, k'), b). k' = k \<and> rb_resetAt b = L \<and> rb_requests b \<le> m) ?P"
  have "length ?xs \<le> length (?n L) + length (?n M)"
  proof (intro filter_two ballI impI)
    fix x assume x: "x \<in> set ?P" "(\<lambda>((t, k'), b). k' = k \<and> a \<le> t \<and> t < a + w \<and> rb_requests b \<le> m) x"
    then have "x \<in> set ?xs" unfolding set_filter by blast
    with LM have "rb_resetAt (snd x) = L \<or> rb_resetAt (snd x) = M" by blast
    with x(2) show "(\<lambda>((t, k'), b). k' = k \<and> rb_resetAt b = L \<and> rb_requests b \<le> m) x \<or>
        (\<lambda>((t, k'), b). k' = k \<and> rb_resetAt b = M \<and> rb_requests b \<le> m) x" by (cases x) auto
  qed
  moreover have n: "int (length (?n N)) \<le> m" for N
    using one_window [OF assms, of k N "\<lambda>_. None"] by simp
  ultimately show ?thesis using n [of L] n [of M] by linarith
qed

section \<open>The answers of the API\<close>

fun answers :: "rate_backend \<Rightarrow> rate_rule \<Rightarrow> (int \<times> string) list \<Rightarrow> rate_store \<Rightarrow>
    (string + ((bool \<times> int) \<times> rate_headers option)) list" where
  "answers backend rule [] s = []"
| "answers backend rule ((t, k) # rs) s =
     (case consumeConfiguredRateLimit t True backend k rule s of (r, s') \<Rightarrow> r # answers backend rule rs s')"

definition empty_rate_store :: rate_store where
  "empty_rate_store = \<lparr>rs_memory = [], rs_table = []\<rparr>"

definition store_ok :: "rate_store \<Rightarrow> bool" where
  "store_ok s \<longleftrightarrow> distinct (jm_keys (rs_memory s)) \<and> distinct (jm_keys (rs_table s))"

definition answer_of :: "rate_rule \<Rightarrow> int \<Rightarrow> rate_bucket \<Rightarrow> string + ((bool \<times> int) \<times> rate_headers option)" where
  "answer_of rule t b = (case setRateLimitHeaders t rule b of (r, h) \<Rightarrow> Inr (r, Some h))"

definition public_prefix :: string where
  "public_prefix = ''publicDemoActions:''"

lemma answers_runs:
  assumes "\<not> unlimited rule"
  shows "answers Memory_backend rule rs s = map (\<lambda>((t, k), b). answer_of rule t b)
      (zip rs (run_limiter (\<lambda>t k. memory_take (ru_windowMs rule) t (public_prefix @ k)) rs (rs_memory s)))"
    and "answers Postgres_backend rule rs s = map (\<lambda>((t, k), b). answer_of rule t b)
      (zip rs (run_limiter (postgres_take (ru_windowMs rule)) rs (rs_table s)))"
proof -
  have m: "consumeConfiguredRateLimit t True Memory_backend k rule s =
      (case memory_take (ru_windowMs rule) t (public_prefix @ k) (rs_memory s) of (b, m) \<Rightarrow> (answer_of rule t b, s\<lparr>rs_memory := m\<rparr>))" for t k s
    using assms by (simp add: consumeConfiguredRateLimit_def consumeRateLimit_def answer_of_def public_prefix_def scope_name_def
        split: prod.split)
  have p: "consumeConfiguredRateLimit t True Postgres_backend k rule s =
      (case postgres_take (ru_windowMs rule) t k (rs_table s) of (b, m) \<Rightarrow> (answer_of rule t b, s\<lparr>rs_table := m\<rparr>))" for t k s
    using assms by (simp add: consumeConfiguredRateLimit_def answer_of_def split: prod.split)
  show "answers Memory_backend rule rs s = map (\<lambda>((t, k), b). answer_of rule t b)
      (zip rs (run_limiter (\<lambda>t k. memory_take (ru_windowMs rule) t (public_prefix @ k)) rs (rs_memory s)))"
    by (induction rs arbitrary: s) (auto simp: m split: prod.split)
  show "answers Postgres_backend rule rs s = map (\<lambda>((t, k), b). answer_of rule t b)
      (zip rs (run_limiter (postgres_take (ru_windowMs rule)) rs (rs_table s)))"
    by (induction rs arbitrary: s) (auto simp: p split: prod.split)
qed

lemma answers_counters:
  assumes "\<not> unlimited rule" and "sorted (map fst rs)"
  shows "answers backend rule rs empty_rate_store = map (\<lambda>((t, k), b). answer_of rule t b) (places (ru_windowMs rule) rs (\<lambda>_. None))"
proof -
  obtain now where "\<forall>(t, k) \<in> set rs. now \<le> t"
    using assms(2) by (cases rs) fastforce+
  with assms show ?thesis
    by (cases backend) (simp_all add: answers_runs empty_rate_store_def scoped.run_counters [where now = now and f = "\<lambda>_. None"]
        postgres.run_counters [where now = now and f = "\<lambda>_. None"])
qed

lemma answers_unlimited: "unlimited rule \<Longrightarrow> answers backend rule rs s = map (\<lambda>_. Inr ((True, 0), None)) rs"
  by (induction rs arbitrary: s) (auto simp: consumeConfiguredRateLimit_def)



definition served :: "string + ((bool \<times> int) \<times> rate_headers option) \<Rightarrow> bool" where
  "served r = (case r of Inl _ \<Rightarrow> False | Inr ((allowed, _), _) \<Rightarrow> allowed)"

lemma served_answer: "served (answer_of rule t b) \<longleftrightarrow> rb_requests b \<le> ru_maxRequests rule"
  by (simp add: served_def answer_of_def setRateLimitHeaders_def Let_def)

lemma counters_length [simp]: "length (counters w rs f) = length rs"
  by (induction rs arbitrary: f) auto

lemma served_places: "length xs = length ys \<Longrightarrow>
    length (filter (\<lambda>((t, k), r). k = client \<and> start \<le> t \<and> t < u \<and> served r)
      (zip xs (map (\<lambda>((t, k), b). answer_of rule t b) (zip xs ys)))) =
    length (filter (\<lambda>((t, k), b). k = client \<and> start \<le> t \<and> t < u \<and> rb_requests b \<le> ru_maxRequests rule) (zip xs ys))"
  by (induction xs ys rule: list_induct2) (auto simp: served_answer)

text \<open>
  C12: A client is served at most twice its limit in any window. However the requests of all clients
  are spread, of those of one client that fall into an interval as long as the window at most twice the
  maximum are served: a counter that starts anew at the end of a window cannot be run down more often.
\<close>

theorem rate_limit_bound:
  assumes "\<not> unlimited rule" and "sorted (map fst rs)"
  shows "int (length (filter (\<lambda>((t, k), r). k = client \<and> start \<le> t \<and> t < start + ru_windowMs rule \<and> served r)
    (zip rs (answers backend rule rs empty_rate_store)))) \<le> 2 * ru_maxRequests rule"
proof -
  have "0 < ru_windowMs rule" "0 \<le> ru_maxRequests rule" using assms(1) by (auto simp: unlimited_def)
  from two_windows [OF this assms(2), of client start] show ?thesis
    unfolding answers_counters [OF assms] by (simp only: served_places counters_length)
qed

theorem rate_limit_bound_witness:
  "int (length (filter (\<lambda>((t, k), r). k = ''a'' \<and> 500 \<le> t \<and> t < 500 + ru_windowMs \<lparr>ru_maxRequests = 1, ru_windowMs = 1000\<rparr> \<and> served r)
    (zip [(0, ''b''), (900, ''a''), (1100, ''a'')] (answers Memory_backend \<lparr>ru_maxRequests = 1, ru_windowMs = 1000\<rparr>
      [(0, ''b''), (900, ''a''), (1100, ''a'')] empty_rate_store)))) \<le> 2 * ru_maxRequests \<lparr>ru_maxRequests = 1, ru_windowMs = 1000\<rparr>"
  by (rule rate_limit_bound) (simp_all add: unlimited_def)

lemma ceil_seconds_enough: "ms \<le> 1000 * ceil_seconds ms"
  unfolding ceil_seconds_def using mult_div_mod_eq [of 1000 "- ms"] pos_mod_sign [of 1000 "- ms"] by linarith

lemma take_place_expired: "rb_resetAt b \<le> t \<Longrightarrow> rb_requests (take_place w t (Some b)) = 1"
  by (simp add: take_place_def live_def)



end
