(* ===== verification/Outbound_Address.thy ===== *)
theory Outbound_Address
  imports Js_Number Js_Digits "HOL-Library.Word"
begin

unbundle bit_operations_syntax

text \<open>
  The address rules of \<open>shared/outbound-request.ts\<close>: host names as they are compared, IPv4 and IPv6
  text as the code parses it, and the test for a private or special address. \<open>Number\<close> on a string and
  \<open>isIP\<close> of \<open>node:net\<close> are written out. An IPv4 address is a list of four numbers, an IPv6 address a
  list of sixteen bytes.
\<close>

section \<open>\<open>Number\<close> on a string\<close>

definition dec_value :: "string \<Rightarrow> int" where
  "dec_value s = fold (\<lambda>c n. n * 10 + (int (code c) - 48)) s 0"

definition power10 :: "int \<Rightarrow> rat" where
  "power10 e = (if 0 \<le> e then 10 ^ nat e else 1 / 10 ^ nat (- e))"

definition exponent_part :: "string \<Rightarrow> int option" where
  "exponent_part s = (case s of [] \<Rightarrow> Some 0
     | c # t \<Rightarrow>
        if c = CHR ''e'' \<or> c = CHR ''E''
        then (case t of [] \<Rightarrow> None
           | d # u \<Rightarrow> if d = CHR ''-'' then map_option uminus (digits_value u)
               else if d = CHR ''+'' then digits_value u else digits_value t)
        else None)"

definition decimal_literal :: "string \<Rightarrow> rat option" where
  "decimal_literal s =
     (let whole = takeWhile is_digit s; r = dropWhile is_digit s;
          dotted = (r \<noteq> [] \<and> hd r = CHR ''.'');
          frac = (if dotted then takeWhile is_digit (tl r) else []);
          rest = (if dotted then dropWhile is_digit (tl r) else r)
      in if whole = [] \<and> frac = [] then None
         else map_option (\<lambda>e. of_int (dec_value (whole @ frac)) * power10 (e - int (length frac)))
                (exponent_part rest))"

definition digit_of :: "char \<Rightarrow> int" where
  "digit_of c =
     (if is_digit c then int (code c) - 48
      else if is_lower c then int (code c) - 87
      else if is_upper c then int (code c) - 55 else 99)"

definition radix_value :: "int \<Rightarrow> string \<Rightarrow> int option" where
  "radix_value r s = (if s \<noteq> [] \<and> list_all (\<lambda>c. digit_of c < r) s
     then Some (fold (\<lambda>c n. n * r + digit_of c) s 0) else None)"

definition radix_of :: "char \<Rightarrow> int option" where
  "radix_of c =
     (if c = CHR ''x'' \<or> c = CHR ''X'' then Some 16
      else if c = CHR ''o'' \<or> c = CHR ''O'' then Some 8
      else if c = CHR ''b'' \<or> c = CHR ''B'' then Some 2 else None)"

text \<open>
  The number a numeral names, before rounding; \<open>None\<close> is NaN or an infinity. \<open>fl\<close> has no smallest
  exponent: what a double rounds to zero is treated apart, and the numbers it keeps with fewer digits
  are between 0 and 1, like their roundings.
\<close>

definition numeral_value :: "string \<Rightarrow> rat option" where
  "numeral_value t =
     (case t of [] \<Rightarrow> Some 0
      | c # u \<Rightarrow>
          if c = CHR ''-'' then map_option uminus (decimal_literal u)
          else if c = CHR ''+'' then decimal_literal u
          else (case u of [] \<Rightarrow> decimal_literal t
             | d # v \<Rightarrow>
                 if c = CHR ''0'' then (case radix_of d of Some r \<Rightarrow> map_option of_int (radix_value r v)
                    | None \<Rightarrow> decimal_literal t)
                 else decimal_literal t))"

definition to_number :: "string \<Rightarrow> rat option" where
  "to_number s = map_option (\<lambda>x. if 1 \<le> \<bar>x\<bar> then fl x else if \<bar>x\<bar> \<le> 1 / 2 ^ 1075 then 0 else fl x) (numeral_value (js_trim s))"

section \<open>Host names\<close>

definition js_ends_with :: "string \<Rightarrow> string \<Rightarrow> bool" where
  "js_ends_with s suffix \<longleftrightarrow> length suffix \<le> length s \<and> drop (length s - length suffix) s = suffix"

definition strip_last :: "char \<Rightarrow> string \<Rightarrow> string" where
  "strip_last c s = (if s \<noteq> [] \<and> last s = c then butlast s else s)"

definition strip_first :: "char \<Rightarrow> string \<Rightarrow> string" where
  "strip_first c s = (if s \<noteq> [] \<and> hd s = c then tl s else s)"

definition normalizeHostname :: "string \<Rightarrow> string" where
  "normalizeHostname hostname = strip_last (CHR '']'') (strip_first (CHR ''['') (strip_last (CHR ''.'') (js_lower hostname)))"

definition BLOCKED_HOSTNAMES :: "string list" where
  "BLOCKED_HOSTNAMES = [''metadata.google.internal'', ''metadata.aws.internal'', ''instance-data.ec2.internal'']"

section \<open>\<open>isIP\<close>\<close>

fun split_colons :: "string \<Rightarrow> string list" where
  "split_colons [] = [[]]"
| "split_colons [c] = [[c]]"
| "split_colons (c # d # s) =
     (if c = CHR '':'' \<and> d = CHR '':'' then [] # split_colons s
      else (case split_colons (d # s) of [] \<Rightarrow> [[c]] | w # ws \<Rightarrow> (c # w) # ws))"

definition is_hex :: "char \<Rightarrow> bool" where
  "is_hex c \<longleftrightarrow> digit_of c < 16"

definition v4_segment :: "string \<Rightarrow> bool" where
  "v4_segment p \<longleftrightarrow> p \<noteq> [] \<and> list_all is_digit p \<and> length p \<le> 3 \<and> (1 < length p \<longrightarrow> hd p \<noteq> CHR ''0'') \<and> dec_value p < 256"

definition isIPv4 :: "string \<Rightarrow> bool" where
  "isIPv4 s \<longleftrightarrow> length (js_split (CHR ''.'') s) = 4 \<and> list_all v4_segment (js_split (CHR ''.'') s)"

definition v6_segment :: "string \<Rightarrow> bool" where
  "v6_segment p \<longleftrightarrow> 1 \<le> length p \<and> length p \<le> 4 \<and> list_all is_hex p"

text \<open>The number of 16-bit groups of a colon-separated part, whose last group may be dotted.\<close>

definition v6_groups :: "bool \<Rightarrow> string \<Rightarrow> nat option" where
  "v6_groups dotted s =
     (let parts = js_split (CHR '':'') s in
      if s = [] then Some 0
      else if list_all v6_segment parts then Some (length parts)
      else if dotted \<and> list_all v6_segment (butlast parts) \<and> isIPv4 (last parts) then Some (length parts + 1)
      else None)"

definition zone_char :: "char \<Rightarrow> bool" where
  "zone_char c \<longleftrightarrow> is_digit c \<or> is_lower c \<or> is_upper c \<or> c \<in> {CHR ''-'', CHR ''.'', CHR '':''}"

definition isIPv6 :: "string \<Rightarrow> bool" where
  "isIPv6 s =
     (let body = takeWhile (\<lambda>c. c \<noteq> CHR ''%'') s; zone = dropWhile (\<lambda>c. c \<noteq> CHR ''%'') s in
      (zone = [] \<or> 1 < length zone \<and> list_all zone_char (tl zone)) \<and>
      (case split_colons body of
         [whole] \<Rightarrow> v6_groups True whole = Some 8
       | [l, r] \<Rightarrow> (case (v6_groups False l, v6_groups True r) of (Some m, Some n) \<Rightarrow> m + n \<le> 7 | _ \<Rightarrow> False)
       | _ \<Rightarrow> False))"

definition isIP :: "string \<Rightarrow> int" where
  "isIP s = (if isIPv4 s then 4 else if isIPv6 s then 6 else 0)"

section \<open>Parsing addresses\<close>

type_synonym byte = "8 word"

definition parse_octet :: "string \<Rightarrow> int option" where
  "parse_octet part = (case to_number part of None \<Rightarrow> None
     | Some x \<Rightarrow> if of_int \<lfloor>x\<rfloor> = x \<and> 0 \<le> x \<and> x < 256 then Some \<lfloor>x\<rfloor> else None)"

definition parseIpv4 :: "string \<Rightarrow> int list option" where
  "parseIpv4 address =
     (let parts = map parse_octet (js_split (CHR ''.'') address)
      in if length parts = 4 \<and> list_all (\<lambda>part. part \<noteq> None) parts then Some (map the parts) else None)"

definition js_at :: "'a list \<Rightarrow> nat \<Rightarrow> 'a option" where
  "js_at xs i = (if i < length xs then Some (xs ! i) else None)"

definition parse_group :: "string \<Rightarrow> int list option" where
  "parse_group rawGroup =
     (case parseIpv4 rawGroup of
        Some dotted \<Rightarrow>
          (let a = nullish (js_at dotted 0) 0; b = nullish (js_at dotted 1) 0;
               c = nullish (js_at dotted 2) 0; d = nullish (js_at dotted 3) 0
           in Some [push_bit 8 a OR b, push_bit 8 c OR d])
      | None \<Rightarrow>
          if v6_segment rawGroup \<and> list_all (\<lambda>c. \<not> is_upper c) rawGroup then map_option (\<lambda>n. [n]) (radix_value 16 rawGroup) else None)"

definition parseGroups :: "string \<Rightarrow> int list option" where
  "parseGroups part =
     (if part = [] then Some [] else map_option concat (those (map parse_group (js_split (CHR '':'') part))))"

definition parseIpv6 :: "string \<Rightarrow> byte list option" where
  "parseIpv6 address =
     (let normalized = hd (js_split (CHR ''%'') (js_lower address)); halves = split_colons normalized in
      if isIP normalized \<noteq> 6 then None
      else if length halves > 2 then None
      else (case (parseGroups (nullish (js_at halves 0) []), parseGroups (nullish (js_at halves 1) [])) of
        (Some left, Some right) \<Rightarrow>
          (let omitted = 8 - int (length left) - int (length right);
               groups = left @ replicate (nat omitted) 0 @ right in
           if length halves = 1 \<and> omitted \<noteq> 0 \<or> length halves = 2 \<and> omitted < 1 then None
           else if length groups \<noteq> 8 then None
           else Some (concat (map (\<lambda>g. [word_of_int (drop_bit 8 g), word_of_int (g AND 255)]) groups)))
      | _ \<Rightarrow> None))"

section \<open>Private and special addresses\<close>

definition hasPrefix :: "byte list \<Rightarrow> byte list \<Rightarrow> nat \<Rightarrow> bool" where
  "hasPrefix bytes prefix bits =
     (let fullBytes = bits div 8; remainingBits = bits mod 8; mask = push_bit (8 - remainingBits) 255 AND 255 in
      list_all (\<lambda>i. js_at bytes i = js_at prefix i) [0..<fullBytes] \<and>
      (remainingBits = 0 \<or>
        nullish (js_at bytes fullBytes) 0 AND mask = nullish (js_at prefix fullBytes) 0 AND mask))"

definition isPrivateOrSpecialIpv4 :: "int list \<Rightarrow> bool" where
  "isPrivateOrSpecialIpv4 ipv4 =
     (let a = nullish (js_at ipv4 0) 0; b = nullish (js_at ipv4 1) 0; c = nullish (js_at ipv4 2) 0 in
      a = 0 \<or> a = 10 \<or> a = 127 \<or>
      (a = 100 \<and> b \<ge> 64 \<and> b \<le> 127) \<or>
      (a = 169 \<and> b = 254) \<or>
      (a = 172 \<and> b \<ge> 16 \<and> b \<le> 31) \<or>
      (a = 192 \<and> b = 0) \<or>
      (a = 192 \<and> b = 88 \<and> c = 99) \<or>
      (a = 192 \<and> b = 168) \<or>
      (a = 198 \<and> (b = 18 \<or> b = 19)) \<or>
      (a = 198 \<and> b = 51 \<and> c = 100) \<or>
      (a = 203 \<and> b = 0 \<and> c = 113) \<or>
      a \<ge> 224)"

text \<open>\<open>address.match(/^::ffff:(\d+\.\d+\.\d+\.\d+)$/u)?.[1]\<close>\<close>

definition mapped_ipv4 :: "string \<Rightarrow> string option" where
  "mapped_ipv4 address =
     (let rest = drop 7 address; parts = js_split (CHR ''.'') rest in
      if js_starts_with ''::ffff:'' address \<and> length parts = 4 \<and> list_all (\<lambda>p. p \<noteq> [] \<and> list_all is_digit p) parts
      then Some rest else None)"

definition isPrivateOrSpecialAddress :: "string \<Rightarrow> bool" where
  "isPrivateOrSpecialAddress rawAddress =
     (let address = hd (js_split (CHR ''%'') (normalizeHostname rawAddress)) in
      case parseIpv4 (nullish (mapped_ipv4 address) address) of
        Some ipv4 \<Rightarrow> isPrivateOrSpecialIpv4 ipv4
      | None \<Rightarrow>
        (case parseIpv6 address of
           None \<Rightarrow> True
         | Some ipv6 \<Rightarrow>
             if hasPrefix ipv6 [0, 0, 0, 0, 0, 0, 0, 0, 0, 0, 255, 255] 96
             then isPrivateOrSpecialIpv4 (map uint (drop 12 ipv6))
             else if \<not> hasPrefix ipv6 [32] 3 then True
             else hasPrefix ipv6 [32, 1, 0] 23 \<or> hasPrefix ipv6 [32, 2] 16 \<or> hasPrefix ipv6 [32, 1, 13, 184] 32))"

definition isBlockedOutboundHostname :: "string \<Rightarrow> bool" where
  "isBlockedOutboundHostname rawHostname =
     (let hostname = normalizeHostname rawHostname in
      hostname = [] \<or> hostname \<in> set BLOCKED_HOSTNAMES \<or> hostname = ''localhost'' \<or>
      js_ends_with hostname ''.localhost'' \<or> (isIP hostname \<noteq> 0 \<and> isPrivateOrSpecialAddress hostname))"


end
