(* ===== verification/Outbound_Classes.thy ===== *)
theory Outbound_Classes
  imports Outbound_Address Settings
begin

text \<open>
  What the tests of \<open>shared/outbound-request.ts\<close> say of real addresses: printed IPv4 addresses are
  parsed back, and the chain of comparisons is membership in a table of address blocks, for an IPv4
  address and for both ways of writing it as an IPv4-mapped IPv6 address.
\<close>

section \<open>Splitting\<close>

lemma js_split_fresh: "d \<notin> set s \<Longrightarrow> js_split d s = [s]"
  by (induction s) auto

lemma js_split_join: "d \<notin> set a \<Longrightarrow> js_split d (a @ d # s) = a # js_split d s"
  by (induction a) auto

lemma js_split_neq_Nil [simp]: "js_split d s \<noteq> []"
  by (induction s) (auto split: list.splits)

definition no_colons :: "string \<Rightarrow> bool" where
  "no_colons = successively (\<lambda>c d. \<not> (c = CHR '':'' \<and> d = CHR '':''))"

lemma split_colons_whole: "no_colons s \<Longrightarrow> split_colons s = [s]"
  by (induction s rule: split_colons.induct) (auto simp: no_colons_def)

section \<open>Printed numbers\<close>

definition hexit :: "nat \<Rightarrow> char" where
  "hexit k = char_of (if k < 10 then 48 + k else 87 + k)"

fun show_hex :: "nat \<Rightarrow> string" where
  "show_hex n = (if n < 16 then [hexit n] else show_hex (n div 16) @ [hexit (n mod 16)])"

declare show_hex.simps [simp del]

lemma hexit: "k < 16 \<Longrightarrow> digit_of (hexit k) = int k" "k < 16 \<Longrightarrow> is_digit (hexit k) \<or> is_lower (hexit k)"
  by (auto simp: hexit_def digit_of_def is_digit_def is_lower_def is_upper_def)

lemma digit_range: "is_digit c \<Longrightarrow> is_digit (to_lower_char c) \<and> to_lower_char c = c \<and> \<not> is_space c \<and> \<not> is_upper c"
  by (auto simp: is_digit_def to_lower_char_def is_upper_def is_space_def)

lemma digit_plain:
  assumes "is_digit c"
  shows "c \<noteq> CHR ''.'' \<and> c \<noteq> CHR '':'' \<and> c \<noteq> CHR ''%'' \<and> c \<noteq> CHR '']'' \<and> c \<noteq> CHR ''['' \<and> c \<noteq> CHR ''-'' \<and> c \<noteq> CHR ''+'' \<and> radix_of c = None"
proof -
  have "c \<noteq> d" if "\<not> is_digit d" for d using assms that by blast
  then show ?thesis by (simp add: radix_of_def is_digit_def)
qed

lemma decimal_literal_digits:
  assumes "s \<noteq> []" "list_all is_digit s"
  shows "decimal_literal s = Some (of_int (dec_value s))"
proof -
  have t: "takeWhile is_digit s = s" and d: "dropWhile is_digit s = []"
    using assms(2) by (auto simp: list_all_iff takeWhile_eq_all_conv dropWhile_eq_Nil_conv)
  show ?thesis
    unfolding decimal_literal_def Let_def t d using assms(1) by (simp add: exponent_part_def power10_def)
qed

lemma numeral_value_digits:
  assumes "s \<noteq> []" "list_all is_digit s"
  shows "numeral_value s = Some (of_int (dec_value s))"
proof (cases s)
  case (Cons c u)
  note d = decimal_literal_digits [OF assms, unfolded Cons]
  have c: "is_digit c" "u \<noteq> [] \<Longrightarrow> is_digit (hd u)"
    using assms(2) Cons by (cases u; simp)+
  then show ?thesis
    using d digit_plain [OF c(1)] digit_plain [OF c(2)] by (cases u) (auto simp: Cons numeral_value_def)
qed (use assms in simp)

lemma dec_value_show: "dec_value (show_nat n) = int n"
  using show_nat_digits [of n] by (simp add: dec_value_def)

lemma show_nat_plain: "show_nat n \<noteq> []" "list_all is_digit (show_nat n)"
  using show_nat_digits [of n] by auto

lemma to_number_show:
  assumes "n < 2 ^ 53"
  shows "to_number (show_nat n) = Some (of_nat n)"
proof -
  have "fl (of_nat n) = of_nat n"
    using assms fl_of_int [of "int n"] by (simp add: zless_nat_eq_int_zless [symmetric])
  then show ?thesis
    using numeral_value_digits [OF show_nat_plain, of n]
    by (cases "n = 0") (auto simp: to_number_def dec_value_show no_space_digits show_nat_plain)
qed

lemma parse_octet_show: "n < 256 \<Longrightarrow> parse_octet (show_nat n) = Some (int n)"
  by (simp add: parse_octet_def to_number_show)

lemma show_nat_short: "n < 1000 \<Longrightarrow> length (show_nat n) \<le> 3"
  by (subst show_nat.simps, subst show_nat.simps, subst show_nat.simps) simp

lemma show_nat_lead: "0 < n \<Longrightarrow> hd (show_nat n) \<noteq> CHR ''0''"
proof (induction n rule: show_nat.induct)
  case (1 n)
  show ?case
  proof (cases "n < 10")
    case True
    then have "code (char_of (48 + n) :: char) = 48 + n" by simp
    moreover have "code (CHR ''0'') = (48 :: nat)" by simp
    ultimately have "char_of (48 + n) \<noteq> CHR ''0''" using 1 by (metis add_cancel_right_right less_numeral_extra(3))
    with True show ?thesis by (subst show_nat.simps) simp
  next
    case False
    with 1 show ?thesis by (subst show_nat.simps) (simp add: show_nat_plain)
  qed
qed

lemma v4_segment_show: "n < 256 \<Longrightarrow> v4_segment (show_nat n)"
  using show_nat_plain [of n] show_nat_short [of n] show_nat_lead [of n] dec_value_show [of n]
  by (cases "n = 0") (auto simp: v4_segment_def show_nat.simps [of 0])

lemma show_hex_value: "radix_value 16 (show_hex n) = Some (int n)"
proof (induction n rule: show_hex.induct)
  case (1 n)
  have "n div 16 * 16 + n mod 16 = n" by simp
  then have "int (n div 16) * 16 + int (n mod 16) = int n" by presburger
  with 1 hexit(1) [of "n mod 16"] hexit(1) [of n] show ?case
    by (subst show_hex.simps) (auto simp: radix_value_def split: if_splits)
qed

lemma show_hex_chars: "list_all (\<lambda>c. is_hex c \<and> (is_digit c \<or> is_lower c)) (show_hex n)"
proof (induction n rule: show_hex.induct)
  case (1 n)
  then show ?case
    using hexit [of "n mod 16"] hexit [of n] by (subst show_hex.simps) (auto simp: is_hex_def)
qed

lemma show_hex_length: "n < 65536 \<Longrightarrow> 1 \<le> length (show_hex n) \<and> length (show_hex n) \<le> 4"
  by (simp add: show_hex.simps [of n] show_hex.simps [of "n div 16"] show_hex.simps [of "n div 256"]
      show_hex.simps [of "n div 4096"] div_mult2_eq [symmetric])

section \<open>IPv4 addresses\<close>

definition octet :: "nat \<Rightarrow> 32 word \<Rightarrow> nat" where
  "octet k w = unat w div 256 ^ k mod 256"

definition show_ipv4 :: "32 word \<Rightarrow> string" where
  "show_ipv4 w = show_nat (octet 3 w) @ ''.'' @ show_nat (octet 2 w) @ ''.'' @ show_nat (octet 1 w) @ ''.'' @ show_nat (octet 0 w)"

definition octets :: "32 word \<Rightarrow> int list" where
  "octets w = map int [octet 3 w, octet 2 w, octet 1 w, octet 0 w]"

lemma octet_less [simp]: "octet k w < 256"
  by (simp add: octet_def)

lemma show_nat_no_dot: "CHR ''.'' \<notin> set (show_nat n)"
  using show_nat_plain(2) [of n] digit_plain by (auto simp: list_all_iff)

lemma split_show_ipv4: "js_split (CHR ''.'') (show_ipv4 w) = map show_nat [octet 3 w, octet 2 w, octet 1 w, octet 0 w]"
  by (simp add: show_ipv4_def js_split_join js_split_fresh show_nat_no_dot)

lemma parseIpv4_show: "parseIpv4 (show_ipv4 w) = Some (octets w)"
  by (simp add: parseIpv4_def split_show_ipv4 parse_octet_show octets_def)

lemma isIPv4_show: "isIPv4 (show_ipv4 w)"
  by (simp add: isIPv4_def split_show_ipv4 v4_segment_show)

text \<open>The special blocks of IPv4, as prefixes with their lengths.\<close>

definition in_block :: "32 word \<Rightarrow> 32 word \<times> nat \<Rightarrow> bool" where
  "in_block w block = (drop_bit (32 - snd block) w = drop_bit (32 - snd block) (fst block))"

definition ipv4_blocks :: "(32 word \<times> nat) list" where
  "ipv4_blocks =
     [(0x00000000, 8), (0x0A000000, 8), (0x7F000000, 8), (0x64400000, 10), (0xA9FE0000, 16), (0xAC100000, 12),
      (0xC0000000, 16), (0xC0586300, 24), (0xC0A80000, 16), (0xC6120000, 15), (0xC6336400, 24), (0xCB007100, 24),
      (0xE0000000, 3)]"

lemma in_block_div: "in_block w (p, n) \<longleftrightarrow> unat w div 2 ^ (32 - n) = unat p div 2 ^ (32 - n)"
  by (simp only: in_block_def fst_conv snd_conv word_unat_eq_iff unat_drop_bit_eq) (simp add: drop_bit_eq_div)

lemma prefix_octets:
  "unat w div 2 ^ 24 = octet 3 w" "unat w div 2 ^ 16 = octet 3 w * 256 + octet 2 w"
  "unat w div 2 ^ 8 = (octet 3 w * 256 + octet 2 w) * 256 + octet 1 w"
proof -
  have "unat w < 2 ^ 32" using unsigned_less [of w, where ?'a = nat] by simp
  then show "unat w div 2 ^ 24 = octet 3 w" by (simp add: octet_def)
  have *: "unat w div 2 ^ 16 div 256 = unat w div 2 ^ 24" "unat w div 2 ^ 8 div 256 = unat w div 2 ^ 16"
    by (simp_all add: div_mult2_eq [symmetric])
  then show **: "unat w div 2 ^ 16 = octet 3 w * 256 + octet 2 w"
    using \<open>unat w div 2 ^ 24 = octet 3 w\<close> div_mult_mod_eq [of "unat w div 2 ^ 16" 256] by (simp add: octet_def)
  show "unat w div 2 ^ 8 = (octet 3 w * 256 + octet 2 w) * 256 + octet 1 w"
    using * ** div_mult_mod_eq [of "unat w div 2 ^ 8" 256] by (simp add: octet_def)
qed

lemma blocks_octets:
  fixes a b c v :: nat
  assumes "v div 2 ^ 24 = a" "v div 2 ^ 16 = a * 256 + b"
  shows "v div 4194304 = a * 4 + b div 64" "v div 1048576 = a * 16 + b div 16"
    "v div 131072 = a * 128 + b div 2" "v div 536870912 = a div 32"
proof -
  have "v div 4194304 = v div 2 ^ 16 div 64" "v div 1048576 = v div 2 ^ 16 div 16"
    "v div 131072 = v div 2 ^ 16 div 2" "v div 536870912 = v div 2 ^ 24 div 32"
    by (simp_all add: div_mult2_eq [symmetric])
  moreover have "(a * 256 + b) div 64 = a * 4 + b div 64" "(a * 256 + b) div 16 = a * 16 + b div 16"
    "(a * 256 + b) div 2 = a * 128 + b div 2"
    using div_mult_self1 [of 64 b "a * 4"] div_mult_self1 [of 16 b "a * 16"] div_mult_self1 [of 2 b "a * 128"]
    by (simp_all add: ac_simps)
  ultimately show "v div 4194304 = a * 4 + b div 64" "v div 1048576 = a * 16 + b div 16"
    "v div 131072 = a * 128 + b div 2" "v div 536870912 = a div 32"
    unfolding assms by simp_all
qed

lemma radix_digits: "y < k \<Longrightarrow> x * k + y = n \<longleftrightarrow> x = n div k \<and> y = n mod k" for k x y n :: nat
  by auto

lemma isPrivateOrSpecialIpv4_blocks: "isPrivateOrSpecialIpv4 (octets w) \<longleftrightarrow> list_ex (in_block w) ipv4_blocks"
proof -
  define a b c where "a = octet 3 w" and "b = octet 2 w" and "c = octet (Suc 0) w"
  have l: "a < 256" "b < 256" "c < 256" by (simp_all add: a_def b_def c_def)
  have v: "unat w div 2 ^ 24 = a" "unat w div 2 ^ 16 = a * 256 + b" "unat w div 2 ^ 8 = (a * 256 + b) * 256 + c"
    by (simp_all only: prefix_octets a_def b_def c_def One_nat_def)
  note m = v [simplified] blocks_octets [OF v(1,2)]
  have d: "b div 64 < 4" "b div 16 < 16" "b div 2 < 128" "a div 32 = 7 \<longleftrightarrow> 224 \<le> a" using l by auto
  have q: "b div 64 = 1 \<longleftrightarrow> 64 \<le> b \<and> b \<le> 127" "b div 16 = 1 \<longleftrightarrow> 16 \<le> b \<and> b \<le> 31" "b div 2 = 9 \<longleftrightarrow> b = 18 \<or> b = 19"
    by auto
  have "(a * 256 + b) * 256 + c = n \<longleftrightarrow> a = n div 256 div 256 \<and> b = n div 256 mod 256 \<and> c = n mod 256" for n
    using l by (simp only: radix_digits conj_assoc)
  then have t: "65536 * a + b * 256 + c = n \<longleftrightarrow> a = n div 256 div 256 \<and> b = n div 256 mod 256 \<and> c = n mod 256" for n
    by (simp add: algebra_simps)
  show ?thesis
    by (simp add: ipv4_blocks_def in_block_div m isPrivateOrSpecialIpv4_def octets_def js_at_def nullish_def a_def [symmetric]
        b_def [symmetric] c_def [symmetric] t radix_digits l d q q [unfolded One_nat_def])
qed

section \<open>Addresses as they are compared\<close>

definition address_char :: "char \<Rightarrow> bool" where
  "address_char c \<longleftrightarrow> is_digit c \<or> is_lower c \<or> c = CHR '':'' \<or> c = CHR ''.''"

lemma address_char_lower: "address_char c \<Longrightarrow> to_lower_char c = c"
  by (auto simp: address_char_def is_digit_def is_lower_def is_upper_def to_lower_char_def)

lemma address_char_plain: "address_char c \<Longrightarrow> c \<noteq> CHR ''%'' \<and> c \<noteq> CHR ''['' \<and> c \<noteq> CHR '']''"
proof -
  assume a: "address_char c"
  have "c \<noteq> d" if "\<not> address_char d" for d using a that by blast
  then show ?thesis by (simp add: address_char_def is_digit_def is_lower_def)
qed

lemma js_lower_address: "list_all address_char s \<Longrightarrow> js_lower s = s"
  by (induction s) (simp_all add: js_lower_def address_char_lower)

lemma normalizeHostname_address:
  assumes "list_all address_char s" "s = [] \<or> last s \<noteq> CHR ''.''"
  shows "normalizeHostname s = s"
  using assms(2) address_char_plain assms(1)
  by (cases "s = []") (auto simp: normalizeHostname_def js_lower_address strip_last_def strip_first_def list_all_iff)

lemma no_zone: "list_all address_char s \<Longrightarrow> js_split (CHR ''%'') s = [s]"
  using address_char_plain by (intro js_split_fresh) (auto simp: list_all_iff)

lemma address_show_nat: "list_all address_char (show_nat n)"
  using show_nat_plain(2) [of n] by (auto simp: list_all_iff address_char_def)

lemma address_show_hex: "list_all address_char (show_hex n)"
  using show_hex_chars [of n] by (auto simp: list_all_iff address_char_def)

lemma address_show_ipv4: "list_all address_char (show_ipv4 w)"
  using address_show_nat by (simp add: show_ipv4_def) (simp add: address_char_def)

lemma last_show_ipv4: "last (show_ipv4 w) \<noteq> CHR ''.''"
proof -
  have "last (show_nat n) \<noteq> CHR ''.''" for n
    using show_nat_no_dot [of n] show_nat_plain(1) [of n] last_in_set by fastforce
  then show ?thesis by (simp add: show_ipv4_def show_nat_plain)
qed

definition show_mapped :: "32 word \<Rightarrow> string" where
  "show_mapped w = ''::ffff:'' @ show_ipv4 w"

definition show_mapped_hex :: "32 word \<Rightarrow> string" where
  "show_mapped_hex w = ''::ffff:'' @ show_hex (unat w div 65536) @ '':'' @ show_hex (unat w mod 65536)"

lemma address_mapped: "list_all address_char (show_mapped w)" "list_all address_char (show_mapped_hex w)"
  using address_show_ipv4 address_show_hex
  by (simp_all add: show_mapped_def show_mapped_hex_def) (simp_all add: address_char_def is_lower_def)

lemma mapped_ipv4_show: "mapped_ipv4 (show_mapped w) = Some (show_ipv4 w)"
  by (simp add: mapped_ipv4_def show_mapped_def js_starts_with_def Let_def split_show_ipv4 show_nat_plain)

lemma private_mapped: "isPrivateOrSpecialAddress (show_mapped w) \<longleftrightarrow> isPrivateOrSpecialIpv4 (octets w)"
proof -
  have "last (show_mapped w) \<noteq> CHR ''.''"
    using last_show_ipv4 [of w] by (simp add: show_mapped_def show_ipv4_def)
  then show ?thesis
    by (simp add: isPrivateOrSpecialAddress_def normalizeHostname_address address_mapped no_zone mapped_ipv4_show
        parseIpv4_show nullish_def)
qed

lemma mapped_ipv4_bare: "mapped_ipv4 (show_ipv4 w) = None"
proof -
  have "hd (show_ipv4 w) \<noteq> CHR '':''"
    using digit_plain [of "hd (show_nat (octet 3 w))"] show_nat_plain [of "octet 3 w"]
    by (auto simp: show_ipv4_def list_all_iff)
  then show ?thesis by (cases "show_ipv4 w") (auto simp: mapped_ipv4_def js_starts_with_def)
qed

lemma private_show_ipv4: "isPrivateOrSpecialAddress (show_ipv4 w) \<longleftrightarrow> isPrivateOrSpecialIpv4 (octets w)"
  by (simp add: isPrivateOrSpecialAddress_def normalizeHostname_address address_show_ipv4 last_show_ipv4 no_zone
      mapped_ipv4_bare parseIpv4_show nullish_def)

section \<open>The mapped address in hexadecimal\<close>

lemma show_hex_plain: "c \<in> set (show_hex n) \<Longrightarrow> c \<noteq> CHR ''.'' \<and> c \<noteq> CHR '':'' \<and> \<not> is_upper c \<and> is_hex c"
proof -
  assume "c \<in> set (show_hex n)"
  then have c: "is_hex c" "is_digit c \<or> is_lower c"
    using show_hex_chars [of n] by (auto simp: list_all_iff)
  have "c \<noteq> d" if "\<not> (is_digit d \<or> is_lower d)" for d using c that by blast
  with c show ?thesis by (auto simp: is_digit_def is_lower_def is_upper_def)
qed

lemma v6_segment_show: "n < 65536 \<Longrightarrow> v6_segment (show_hex n) \<and> list_all (\<lambda>c. \<not> is_upper c) (show_hex n)"
  using show_hex_length [of n] show_hex_plain [of _ n] by (auto simp: v6_segment_def list_all_iff)

lemma parse_group_plain:
  assumes "CHR ''.'' \<notin> set g" "v6_segment g" "list_all (\<lambda>c. \<not> is_upper c) g"
  shows "parse_group g = map_option (\<lambda>n. [n]) (radix_value 16 g)"
  using assms by (simp add: parse_group_def parseIpv4_def js_split_fresh)

lemma parse_group_show: "n < 65536 \<Longrightarrow> parse_group (show_hex n) = Some [int n]"
  using parse_group_plain [of "show_hex n"] v6_segment_show [of n] show_hex_plain [of "CHR ''.''" n]
  by (auto simp: show_hex_value)

lemma split_hex_pair:
  "js_split (CHR '':'') (show_hex h @ CHR '':'' # show_hex l) = [show_hex h, show_hex l]"
proof -
  have "CHR '':'' \<notin> set (show_hex n)" for n using show_hex_plain [of "CHR '':''" n] by auto
  then show ?thesis by (simp add: js_split_join js_split_fresh)
qed

lemma mapped_halves:
  "split_colons (show_mapped_hex w) = [[], ''ffff:'' @ show_hex (unat w div 65536) @ '':'' @ show_hex (unat w mod 65536)]"
proof -
  have n: "no_colons (show_hex n)" for n
    using show_hex_plain [of _ n] unfolding no_colons_def
    by (auto simp: successively_conv_nth)
  have h: "hd (show_hex n) \<noteq> CHR '':''" "last (show_hex n) \<noteq> CHR '':''" "show_hex n \<noteq> []" for n
    using show_hex_plain [of _ n] show_hex.simps [of n] by (metis append_is_Nil_conv hd_in_set last_in_set not_Cons_self2)+
  have "no_colons (''ffff:'' @ show_hex a @ '':'' @ show_hex b)" for a b
    using n [of a] n [of b] h [of a] h [of b] by (auto simp: no_colons_def successively_append_iff successively_Cons)
  then have "split_colons (CHR '':'' # CHR '':'' # (''ffff:'' @ show_hex a @ '':'' @ show_hex b)) =
      [[], ''ffff:'' @ show_hex a @ '':'' @ show_hex b]" for a b
    by (simp only: split_colons.simps split_colons_whole if_True simp_thms)
  then show ?thesis by (simp add: show_mapped_hex_def)
qed

lemma halves_less: "unat w div 65536 < 65536" "unat w mod 65536 < 65536" for w :: "32 word"
proof -
  have "unat w < 2 ^ 32" using unsigned_less [of w, where ?'a = nat] by simp
  then show "unat w div 65536 < 65536" by (simp add: less_mult_imp_div_less)
qed simp

lemma isIPv6_mapped: "isIPv6 (show_mapped_hex w)"
proof -
  have "v6_groups True (''ffff:'' @ show_hex (unat w div 65536) @ '':'' @ show_hex (unat w mod 65536)) = Some 3"
    by (simp add: v6_groups_def split_hex_pair v6_segment_show halves_less) (simp add: v6_segment_def is_hex_def digit_of_def is_digit_def is_lower_def)
  moreover have "takeWhile (\<lambda>c. c \<noteq> CHR ''%'') (show_mapped_hex w) = show_mapped_hex w"
    "dropWhile (\<lambda>c. c \<noteq> CHR ''%'') (show_mapped_hex w) = []"
    using address_mapped(2) [of w] address_char_plain
    by (auto simp: takeWhile_eq_all_conv dropWhile_eq_Nil_conv list_all_iff)
  ultimately show ?thesis
    unfolding isIPv6_def Let_def by (simp only: mapped_halves) (simp add: v6_groups_def)
qed

lemma isIPv4_mapped: "\<not> isIPv4 (show_mapped_hex w)"
proof -
  have "CHR ''.'' \<notin> set (show_mapped_hex w)"
    using show_hex_plain [of "CHR ''.''"] by (auto simp: show_mapped_hex_def)
  then show ?thesis by (simp add: isIPv4_def js_split_fresh)
qed

lemma parseIpv6_mapped:
  "parseIpv6 (show_mapped_hex w) = Some ([0, 0, 0, 0, 0, 0, 0, 0, 0, 0, 255, 255] @ map word_of_nat [octet 3 w, octet 2 w, octet 1 w, octet 0 w])"
proof -
  define h l where "h = unat w div 65536" and "l = unat w mod 65536"
  have less: "h < 65536" "l < 65536" by (simp_all add: h_def l_def halves_less)
  have g: "parseGroups (''ffff:'' @ show_hex h @ '':'' @ show_hex l) = Some [65535, int h, int l]"
  proof -
    have "parse_group ''ffff'' = Some [65535]" by code_simp
    then show ?thesis using less by (simp add: parseGroups_def split_hex_pair parse_group_show)
  qed
  have o: "h div 256 = octet 3 w" "h mod 256 = octet 2 w" "l div 256 = octet 1 w" "l mod 256 = octet 0 w"
    using prefix_octets(1) [of w] mod_mult2_eq [of "unat w" 256 256] mod_mod_cancel [of 256 65536 "unat w"]
    by (simp_all add: h_def l_def octet_def div_mult2_eq [symmetric])
  have m: "x AND 255 = x mod 256" for x :: int
    using take_bit_eq_mask [of 8 x] by (simp add: take_bit_eq_mod mask_eq_exp_minus_1)
  have b: "drop_bit 8 (int n) = int (n div 256)" "int n AND 255 = int (n mod 256)" for n
    by (simp_all add: drop_bit_eq_div zdiv_int m zmod_int)
  have r: "replicate 5 x = [x, x, x, x, x]" for x :: int
    by (simp add: numeral_eq_Suc)
  have "isIP (show_mapped_hex w) = 6"
    by (simp add: isIP_def isIPv4_mapped isIPv6_mapped)
  then show ?thesis
    unfolding parseIpv6_def Let_def js_lower_address [OF address_mapped(2)] no_zone [OF address_mapped(2)] list.sel
      mapped_halves h_def [symmetric] l_def [symmetric]
    by (simp add: js_at_def nullish_def g [simplified] parseGroups_def [of "[]"] b o r)
qed

lemma byte_of_nat: "n < 256 \<Longrightarrow> uint (word_of_nat n :: byte) = int n"
  by (simp add: unsigned_of_nat take_bit_nat_eq_self)

lemma hasPrefix_append: "hasPrefix (p @ rest) p (8 * length p)"
  by (simp add: hasPrefix_def js_at_def list_all_iff nth_append)

lemma private_mapped_hex: "isPrivateOrSpecialAddress (show_mapped_hex w) \<longleftrightarrow> isPrivateOrSpecialIpv4 (octets w)"
proof -
  have no_dot: "CHR ''.'' \<notin> set (show_mapped_hex w)"
    using show_hex_plain [of "CHR ''.''"] by (auto simp: show_mapped_hex_def)
  have "mapped_ipv4 (show_mapped_hex w) = None"
  proof -
    have "CHR ''.'' \<notin> set (drop 7 (show_mapped_hex w))" using no_dot by (blast dest: in_set_dropD)
    then show ?thesis by (simp add: mapped_ipv4_def js_split_fresh)
  qed
  moreover have "parseIpv4 (show_mapped_hex w) = None"
    using no_dot by (simp add: parseIpv4_def js_split_fresh)
  moreover have "normalizeHostname (show_mapped_hex w) = show_mapped_hex w"
    using no_dot by (intro normalizeHostname_address address_mapped) (metis last_in_set)
  moreover have "hasPrefix ([0, 0, 0, 0, 0, 0, 0, 0, 0, 0, 255, 255] @ map word_of_nat [octet 3 w, octet 2 w, octet 1 w, octet 0 w])
      [0, 0, 0, 0, 0, 0, 0, 0, 0, 0, 255, 255] 96"
    using hasPrefix_append [of "[0, 0, 0, 0, 0, 0, 0, 0, 0, 0, 255, 255]"] by simp
  moreover have "map uint (drop 12 ([0, 0, 0, 0, 0, 0, 0, 0, 0, 0, 255, 255] @ map word_of_nat [octet 3 w, octet 2 w, octet 1 w, octet 0 w] :: byte list)) = octets w"
    by (simp add: octets_def byte_of_nat)
  ultimately show ?thesis
    by (simp add: isPrivateOrSpecialAddress_def no_zone address_mapped nullish_def parseIpv6_mapped)
qed

text \<open>
  C13: \<open>isPrivateOrSpecialAddress\<close> on every IPv4 address: the address is refused exactly when it lies in
  one of the thirteen blocks of the table, and the two ways of writing it as an IPv4-mapped IPv6
  address, dotted and in the hexadecimal form of a URL, are classified like the address itself.
\<close>

theorem address_classes:
  "isPrivateOrSpecialAddress (show_ipv4 w) = list_ex (in_block w) ipv4_blocks \<and>
   isPrivateOrSpecialAddress (show_mapped w) = list_ex (in_block w) ipv4_blocks \<and>
   isPrivateOrSpecialAddress (show_mapped_hex w) = list_ex (in_block w) ipv4_blocks"
  by (simp add: private_show_ipv4 private_mapped private_mapped_hex isPrivateOrSpecialIpv4_blocks)

end
