(* ===== verification/Outbound_Fetch.thy ===== *)
theory Outbound_Fetch
  imports Outbound_Classes Outcomes
begin

text \<open>
  The requests of \<open>shared/outbound-request.ts\<close>: the check of a destination, the pinned lookup, the
  bounded body and the loop over redirects. The URL parser, the DNS and the transport are parameters;
  the last two may answer differently at every hop, the number of which they get. A body is what
  \<open>reader.read()\<close> gives, call after call; reading it need not end, and \<open>None\<close> is a fetch that does not
  return. The timer that aborts the transport is a transport that fails.
\<close>

section \<open>Destinations\<close>

record url =
  ul_protocol :: string
  ul_username :: string
  ul_password :: string
  ul_hostname :: string
  ul_href :: string

text \<open>\<open>new URL(input, base)\<close>; \<open>None\<close> when the constructor throws.\<close>

type_synonym url_parser = "string \<Rightarrow> string option \<Rightarrow> url option"

record lookup_result =
  lr_address :: string
  lr_family :: int

datatype outbound_error = Unsafe_destination string | Response_limit int | Invalid_location | Transport_failed string

record outbound_policy =
  op_allowPrivateNetworks :: bool
  op_maxBytes :: "int option"
  op_maxRedirects :: "int option"
  op_method :: "string option"

definition DEFAULT_OUTBOUND_MAX_BYTES :: int where
  "DEFAULT_OUTBOUND_MAX_BYTES = 32 * 1024 * 1024"

definition DEFAULT_OUTBOUND_MAX_REDIRECTS :: int where
  "DEFAULT_OUTBOUND_MAX_REDIRECTS = 3"

type_synonym dns = "string \<Rightarrow> string + lookup_result list"

definition parseSafeOutboundUrl :: "url_parser \<Rightarrow> bool \<Rightarrow> string \<Rightarrow> outbound_error + url" where
  "parseSafeOutboundUrl parse allowPrivate rawUrl =
     (case parse rawUrl None of
        None \<Rightarrow> Inl (Unsafe_destination ''outbound destination must be an absolute URL'')
      | Some url \<Rightarrow>
          if ul_protocol url \<noteq> ''https:'' \<and> ul_protocol url \<noteq> ''http:''
          then Inl (Unsafe_destination ''outbound destination must use http or https'')
          else if ul_username url \<noteq> [] \<or> ul_password url \<noteq> []
          then Inl (Unsafe_destination ''outbound destination must not contain credentials'')
          else let hostname = normalizeHostname (ul_hostname url) in
            if isBlockedOutboundHostname hostname \<and> \<not> (allowPrivate \<and> isIP hostname \<noteq> 0)
            then Inl (Unsafe_destination ''outbound destination host is blocked'')
            else Inr url)"

definition lookup_addresses :: "dns \<Rightarrow> string \<Rightarrow> outbound_error + lookup_result list" where
  "lookup_addresses dnsLookup hostname =
     (case dnsLookup hostname of Inl e \<Rightarrow> Inl (Transport_failed e) | Inr results \<Rightarrow> Inr results)"

definition assertSafeOutboundUrl :: "url_parser \<Rightarrow> dns \<Rightarrow> bool \<Rightarrow> string \<Rightarrow> outbound_error + url" where
  "assertSafeOutboundUrl parse dnsLookup allowPrivate rawUrl =
     and_then (parseSafeOutboundUrl parse allowPrivate rawUrl) (\<lambda>url.
       let hostname = normalizeHostname (ul_hostname url) in
       if allowPrivate \<or> isIP hostname \<noteq> 0 then Inr url
       else and_then (lookup_addresses dnsLookup hostname) (\<lambda>results.
         if results = [] \<or> list_ex (\<lambda>result. isPrivateOrSpecialAddress (lr_address result)) results
         then Inl (Unsafe_destination ''outbound destination resolves to a private or special address'')
         else Inr url))"

definition createPinnedLookup ::
  "string \<Rightarrow> lookup_result list \<Rightarrow> string \<Rightarrow> bool \<Rightarrow> outbound_error + lookup_result list" where
  "createPinnedLookup expectedHostname pinned hostname all =
     (if normalizeHostname hostname \<noteq> normalizeHostname expectedHostname \<or> pinned = []
      then Inl (Unsafe_destination ''outbound transport hostname was not validated'')
      else if all then Inr pinned
      else (case js_at pinned 0 of
          None \<Rightarrow> Inl (Unsafe_destination ''outbound transport has no pinned address'')
        | Some selected \<Rightarrow> Inr [selected]))"

definition resolveSafeOutboundTarget ::
  "url_parser \<Rightarrow> dns \<Rightarrow> bool \<Rightarrow> string \<Rightarrow> outbound_error + lookup_result list \<times> url" where
  "resolveSafeOutboundTarget parse dnsLookup allowPrivate rawUrl =
     and_then (parseSafeOutboundUrl parse allowPrivate rawUrl) (\<lambda>url.
       let hostname = normalizeHostname (ul_hostname url) in
       and_then (if isIP hostname \<noteq> 0 then Inr [\<lparr>lr_address = hostname, lr_family = isIP hostname\<rparr>]
           else lookup_addresses dnsLookup hostname) (\<lambda>addresses.
         if addresses = [] then Inl (Unsafe_destination ''outbound destination has no resolved address'')
         else if \<not> allowPrivate \<and> list_ex (\<lambda>entry. isPrivateOrSpecialAddress (lr_address entry)) addresses
         then Inl (Unsafe_destination ''outbound destination resolves to a private or special address'')
         else Inr (addresses, url)))"

section \<open>Bodies\<close>

datatype read_result = Done | Chunk "byte list" | Broken string

record response =
  re_status :: int
  re_headers :: "string \<Rightarrow> string option"
  re_body :: "(nat \<Rightarrow> read_result) option"
  re_cancel :: "string option"

definition buffer_concat :: "byte list list \<Rightarrow> nat \<Rightarrow> byte list" where
  "buffer_concat chunks received = take received (concat chunks) @ replicate (received - length (concat chunks)) 0"

partial_function (option) read_chunks ::
  "(nat \<Rightarrow> read_result) \<Rightarrow> string option \<Rightarrow> int \<Rightarrow> nat \<Rightarrow> nat \<Rightarrow> byte list list \<Rightarrow> (outbound_error + byte list) option" where
  "read_chunks read cancel maxBytes i received chunks =
     (case read i of
        Done \<Rightarrow> Some (Inr (buffer_concat chunks received))
      | Broken e \<Rightarrow> Some (Inl (Transport_failed e))
      | Chunk value \<Rightarrow>
          if int (received + length value) > maxBytes
          then Some (Inl (case cancel of Some e \<Rightarrow> Transport_failed e | None \<Rightarrow> Response_limit maxBytes))
          else read_chunks read cancel maxBytes (Suc i) (received + length value) (chunks @ [value]))"

text \<open>\<open>Number(s) > bound\<close>\<close>

definition number_exceeds :: "string \<Rightarrow> int \<Rightarrow> bool" where
  "number_exceeds s bound \<longleftrightarrow>
     (case to_number s of Some x \<Rightarrow> of_int bound < x | None \<Rightarrow> js_trim s \<in> {''Infinity'', ''+Infinity''})"

definition readBoundedBody :: "response \<Rightarrow> int \<Rightarrow> (outbound_error + byte list) option" where
  "readBoundedBody response maxBytes =
     (let contentLength = re_headers response ''content-length'' in
      if truthy contentLength \<and> number_exceeds (nullish contentLength []) maxBytes then Some (Inl (Response_limit maxBytes))
      else (case re_body response of None \<Rightarrow> Some (Inr [])
        | Some read \<Rightarrow> read_chunks read (re_cancel response) maxBytes 0 0 []))"

section \<open>The redirect loop\<close>

record outbound_request =
  or_url :: url
  or_method :: "string option"
  or_lookup :: "string \<Rightarrow> bool \<Rightarrow> outbound_error + lookup_result list"

record outbound_response =
  ob_body :: "byte list"
  ob_finalUrl :: string
  ob_headers :: "string \<Rightarrow> string option"
  ob_status :: int

datatype outbound_event = Sent outbound_request | Closed

record network =
  nw_parse :: url_parser
  nw_lookup :: "nat \<Rightarrow> dns"
  nw_fetch :: "nat \<Rightarrow> outbound_request \<Rightarrow> string + response"

type_synonym outbound_run = "(outbound_error + outbound_response) option \<times> outbound_event list"

definition redirect_statuses :: "int list" where
  "redirect_statuses = [301, 302, 303, 307, 308]"

function fetch_hop :: "network \<Rightarrow> bool \<Rightarrow> string option \<Rightarrow> int \<Rightarrow> int \<Rightarrow> nat \<Rightarrow> string \<Rightarrow> outbound_run" where
  "fetch_hop net allowPrivate method' maxBytes maxRedirects redirects currentUrl =
     (case resolveSafeOutboundTarget (nw_parse net) (nw_lookup net redirects) allowPrivate currentUrl of
        Inl e \<Rightarrow> (Some (Inl e), [])
      | Inr (addresses, url) \<Rightarrow>
        (let request = \<lparr>or_url = url, or_method = method', or_lookup = createPinnedLookup (ul_hostname url) addresses\<rparr> in
         case nw_fetch net redirects request of
           Inl e \<Rightarrow> (Some (Inl (Transport_failed e)), [Sent request, Closed])
         | Inr response \<Rightarrow>
             if re_status response \<in> set redirect_statuses then
               (let location = re_headers response ''location'' in
                if \<not> truthy location
                then (Some (Inl (Unsafe_destination ''outbound redirect is missing a location'')), [Sent request, Closed])
                else if int redirects \<ge> maxRedirects
                then (Some (Inl (Unsafe_destination ''outbound redirect limit exceeded'')), [Sent request, Closed])
                else if re_body response \<noteq> None \<and> re_cancel response \<noteq> None
                then (Some (Inl (Transport_failed (the (re_cancel response)))), [Sent request, Closed])
                else (case nw_parse net (nullish location []) (Some (ul_href url)) of
                    None \<Rightarrow> (Some (Inl Invalid_location), [Sent request, Closed])
                  | Some target \<Rightarrow>
                      (let run = fetch_hop net allowPrivate method' maxBytes maxRedirects (Suc redirects) (ul_href target)
                       in (fst run, Sent request # Closed # snd run))))
             else (case readBoundedBody response maxBytes of
                 None \<Rightarrow> (None, [Sent request])
               | Some (Inl e) \<Rightarrow> (Some (Inl e), [Sent request, Closed])
               | Some (Inr body) \<Rightarrow>
                   (Some (Inr \<lparr>ob_body = body, ob_finalUrl = ul_href url, ob_headers = re_headers response,
                      ob_status = re_status response\<rparr>), [Sent request, Closed]))))"
  by pat_completeness auto

termination
  by (relation "measure (\<lambda>(net, allowPrivate, method', maxBytes, maxRedirects, redirects, currentUrl). nat (maxRedirects - int redirects))") auto

declare fetch_hop.simps [simp del]

definition fetchBoundedOutbound :: "network \<Rightarrow> string \<Rightarrow> string option \<Rightarrow> outbound_policy \<Rightarrow> outbound_run" where
  "fetchBoundedOutbound net rawUrl initMethod policy =
     fetch_hop net (op_allowPrivateNetworks policy) (orelse (op_method policy) initMethod)
       (nullish (op_maxBytes policy) DEFAULT_OUTBOUND_MAX_BYTES)
       (nullish (op_maxRedirects policy) DEFAULT_OUTBOUND_MAX_REDIRECTS) 0 rawUrl"

section \<open>Destinations are public\<close>

definition public_addresses :: "lookup_result list \<Rightarrow> bool" where
  "public_addresses addresses \<longleftrightarrow>
     addresses \<noteq> [] \<and> list_all (\<lambda>entry. \<not> isPrivateOrSpecialAddress (lr_address entry)) addresses"

definition public_url :: "url \<Rightarrow> bool" where
  "public_url url \<longleftrightarrow> ul_protocol url \<in> {''https:'', ''http:''} \<and> ul_username url = [] \<and> ul_password url = [] \<and>
     (let hostname = normalizeHostname (ul_hostname url) in
      \<not> isBlockedOutboundHostname hostname \<and> (isIP hostname \<noteq> 0 \<longrightarrow> \<not> isPrivateOrSpecialAddress hostname))"

definition public_request :: "outbound_request \<Rightarrow> bool" where
  "public_request request \<longleftrightarrow> public_url (or_url request) \<and>
     (\<forall>hostname all addresses. or_lookup request hostname all = Inr addresses \<longrightarrow>
        public_addresses addresses \<and> normalizeHostname hostname = normalizeHostname (ul_hostname (or_url request)))"

definition sent :: "outbound_event list \<Rightarrow> outbound_request list" where
  "sent events = concat (map (\<lambda>event. case event of Sent request \<Rightarrow> [request] | Closed \<Rightarrow> []) events)"

lemma sent_simps [simp]: "sent [] = []" "sent (Sent r # es) = r # sent es" "sent (Closed # es) = sent es"
  by (simp_all add: sent_def)

lemma resolve_public:
  assumes "resolveSafeOutboundTarget parse dnsLookup False rawUrl = Inr (addresses, url)"
  shows "public_addresses addresses \<and> public_url url"
proof -
  define hostname where "hostname = normalizeHostname (ul_hostname url)"
  from assms have p: "parseSafeOutboundUrl parse False rawUrl = Inr url" "public_addresses addresses"
    and i: "isIP hostname \<noteq> 0 \<longrightarrow> addresses = [\<lparr>lr_address = hostname, lr_family = isIP hostname\<rparr>]"
    by (auto simp: resolveSafeOutboundTarget_def and_then_Inr Let_def public_addresses_def hostname_def list_ex_iff list_all_iff
        split: if_splits)
  from p(1) have "ul_protocol url \<in> {''https:'', ''http:''}" "ul_username url = []" "ul_password url = []"
      "\<not> isBlockedOutboundHostname hostname"
    by (auto simp: parseSafeOutboundUrl_def Let_def hostname_def split: option.splits if_splits)
  moreover have "isIP hostname \<noteq> 0 \<longrightarrow> \<not> isPrivateOrSpecialAddress hostname"
    using i p(2) by (auto simp: public_addresses_def)
  ultimately show ?thesis using p(2) by (simp add: public_url_def hostname_def)
qed

lemma pinned_public:
  assumes "public_addresses pinned" "createPinnedLookup expected pinned hostname all = Inr addresses"
  shows "public_addresses addresses \<and> normalizeHostname hostname = normalizeHostname expected"
  using assms by (cases pinned) (auto simp: createPinnedLookup_def public_addresses_def js_at_def split: if_splits)

text \<open>
  One hop: it fails before a request, or ends with its request, or does not return from the body, or
  follows a redirect that the limit allows.
\<close>

definition hop_request :: "string option \<Rightarrow> lookup_result list \<times> url \<Rightarrow> outbound_request" where
  "hop_request method' target =
     \<lparr>or_url = snd target, or_method = method', or_lookup = createPinnedLookup (ul_hostname (snd target)) (fst target)\<rparr>"

lemma fetch_hop_unfold:
  assumes "resolveSafeOutboundTarget (nw_parse net) (nw_lookup net k) allow rawUrl = Inr target"
  shows "(\<exists>e. fetch_hop net allow m maxBytes maxRedirects k rawUrl = (Some (Inl e), [Sent (hop_request m target), Closed])) \<or>
    (\<exists>reply body. nw_fetch net k (hop_request m target) = Inr reply \<and> readBoundedBody reply maxBytes = Some (Inr body) \<and>
       fetch_hop net allow m maxBytes maxRedirects k rawUrl =
         (Some (Inr \<lparr>ob_body = body, ob_finalUrl = ul_href (snd target), ob_headers = re_headers reply,
                      ob_status = re_status reply\<rparr>), [Sent (hop_request m target), Closed])) \<or>
    (\<exists>reply. nw_fetch net k (hop_request m target) = Inr reply \<and> readBoundedBody reply maxBytes = None \<and>
       fetch_hop net allow m maxBytes maxRedirects k rawUrl = (None, [Sent (hop_request m target)])) \<or>
    (int k < maxRedirects \<and> (\<exists>u. fetch_hop net allow m maxBytes maxRedirects k rawUrl =
       (fst (fetch_hop net allow m maxBytes maxRedirects (Suc k) u),
        Sent (hop_request m target) # Closed # snd (fetch_hop net allow m maxBytes maxRedirects (Suc k) u))))"
proof -
  obtain addresses url where t: "target = (addresses, url)" by (cases target)
  note u = fetch_hop.simps [of net allow m maxBytes maxRedirects k rawUrl, unfolded assms t sum.case prod.case Let_def]
  show ?thesis
    unfolding hop_request_def t fst_conv snd_conv u by (auto split: sum.splits option.splits)
qed

lemma fetch_hop_refused:
  "resolveSafeOutboundTarget (nw_parse net) (nw_lookup net k) allow rawUrl = Inl e \<Longrightarrow>
    fetch_hop net allow m maxBytes maxRedirects k rawUrl = (Some (Inl e), [])"
  by (simp add: fetch_hop.simps)

lemma fetch_hop_public: "list_all public_request (sent (snd (fetch_hop net False m maxBytes maxRedirects k rawUrl)))"
proof (induction "nat (maxRedirects - int k)" arbitrary: k rawUrl rule: less_induct)
  case less
  show ?case
  proof (cases "resolveSafeOutboundTarget (nw_parse net) (nw_lookup net k) False rawUrl")
    case (Inr target)
    have r: "public_addresses (fst target) \<and> public_url (snd target)"
      using resolve_public [of "nw_parse net" "nw_lookup net k" rawUrl "fst target" "snd target"] Inr by simp
    then have "public_request (hop_request m target)"
      using pinned_public [OF conjunct1 [OF r]] by (simp add: public_request_def hop_request_def)
    with fetch_hop_unfold [OF Inr, of m maxBytes maxRedirects] less [of "Suc k"] show ?thesis by auto
  qed (simp add: fetch_hop_refused)
qed

text \<open>Every dispatcher that was opened is closed, and the redirects are bounded.\<close>

definition closings :: "outbound_event list \<Rightarrow> nat" where
  "closings events = length (filter (\<lambda>event. event = Closed) events)"

lemma closings_simps [simp]: "closings [] = 0" "closings (Sent r # es) = closings es" "closings (Closed # es) = Suc (closings es)"
  by (simp_all add: closings_def)

lemma fetch_hop_bounded:
  "int (length (sent (snd (fetch_hop net allow m maxBytes maxRedirects k rawUrl)))) \<le> max 0 (maxRedirects - int k) + 1"
proof (induction "nat (maxRedirects - int k)" arbitrary: k rawUrl rule: less_induct)
  case less
  show ?case
  proof (cases "resolveSafeOutboundTarget (nw_parse net) (nw_lookup net k) allow rawUrl")
    case (Inr target)
    with fetch_hop_unfold [OF Inr, of m maxBytes maxRedirects] less [of "Suc k"] show ?thesis by fastforce
  qed (simp add: fetch_hop_refused)
qed

section \<open>Bodies are bounded and read to their end\<close>

definition chunk_bytes :: "read_result \<Rightarrow> byte list" where
  "chunk_bytes r = (case r of Chunk value \<Rightarrow> value | _ \<Rightarrow> [])"

lemma read_chunks_returns:
  assumes "\<And>i. read i \<noteq> Chunk []"
  shows "\<exists>r. read_chunks read cancel maxBytes i received chunks = Some r"
proof (induction "nat (maxBytes - int received)" arbitrary: i received chunks rule: less_induct)
  case less
  show ?case
  proof (cases "read i")
    case (Chunk v)
    with assms [of i] have "v \<noteq> []" by auto
    then have "nat (maxBytes - int (received + length v)) < nat (maxBytes - int received)"
      if "\<not> int (received + length v) > maxBytes" using that by (cases v) auto
    from less [OF this] show ?thesis
      by (subst read_chunks.simps) (simp add: Chunk)
  qed (simp_all add: read_chunks.simps)
qed


definition body_read :: "(nat \<Rightarrow> read_result) \<Rightarrow> int \<Rightarrow> nat \<Rightarrow> nat \<Rightarrow> byte list list \<Rightarrow> outbound_error + byte list \<Rightarrow> bool" where
  "body_read read maxBytes i received chunks r \<longleftrightarrow>
     (received = length (concat chunks) \<longrightarrow> int received \<le> maxBytes \<longrightarrow>
      (\<forall>body. r = Inr body \<longrightarrow> int (length body) \<le> maxBytes \<and>
        (\<exists>n \<ge> i. read n = Done \<and> body = concat chunks @ concat (map (\<lambda>j. chunk_bytes (read j)) [i..<n]))))"

lemma read_chunks_body:
  assumes "read_chunks read cancel maxBytes i received chunks = Some r"
  shows "body_read read maxBytes i received chunks r"
proof (rule read_chunks.raw_induct [where P = "\<lambda>read cancel maxBytes i received chunks r. body_read read maxBytes i received chunks r", OF _ assms])
  fix f :: "(nat \<Rightarrow> read_result) \<Rightarrow> string option \<Rightarrow> int \<Rightarrow> nat \<Rightarrow> nat \<Rightarrow> byte list list \<Rightarrow> (outbound_error + byte list) option"
  fix read cancel maxBytes i received chunks r
  assume f: "\<And>read cancel maxBytes i received chunks r. f read cancel maxBytes i received chunks = Some r \<Longrightarrow> body_read read maxBytes i received chunks r"
    and e: "(case read i of Done \<Rightarrow> Some (Inr (buffer_concat chunks received)) | Broken e \<Rightarrow> Some (Inl (Transport_failed e))
      | Chunk v \<Rightarrow> if int (received + length v) > maxBytes
          then Some (Inl (case cancel of Some e \<Rightarrow> Transport_failed e | None \<Rightarrow> Response_limit maxBytes))
          else f read cancel maxBytes (Suc i) (received + length v) (chunks @ [v])) = Some r"
  show "body_read read maxBytes i received chunks r"
  proof (cases "read i")
    case Done
    with e show ?thesis by (auto simp: body_read_def buffer_concat_def intro!: exI [of _ i])
  next
    case (Chunk v)
    show ?thesis
    proof (cases "int (received + length v) > maxBytes")
      case False
      with e Chunk have "f read cancel maxBytes (Suc i) (received + length v) (chunks @ [v]) = Some r" by simp
      note r = f [OF this]
      have u: "[i..<n] = i # [Suc i..<n]" if "Suc i \<le> n" for n using that by (simp add: upt_conv_Cons)
      show ?thesis
        using r False Chunk u unfolding body_read_def by (fastforce simp: chunk_bytes_def dest: Suc_leD)
    qed (use e Chunk in \<open>auto simp: body_read_def\<close>)
  qed (use e in \<open>auto simp: body_read_def\<close>)
qed

lemma readBoundedBody_returns:
  "(\<And>read i. re_body reply = Some read \<Longrightarrow> read i \<noteq> Chunk []) \<Longrightarrow> \<exists>r. readBoundedBody reply maxBytes = Some r"
  using read_chunks_returns by (auto simp: readBoundedBody_def Let_def split: option.split)

lemma readBoundedBody_bound:
  assumes "readBoundedBody reply maxBytes = Some (Inr body)" "0 \<le> maxBytes"
  shows "int (length body) \<le> maxBytes"
  using assms read_chunks_body [of _ "re_cancel reply" maxBytes 0 0 "[]" "Inr body"]
  by (auto simp: body_read_def readBoundedBody_def Let_def split: option.splits if_splits)

definition productive :: "network \<Rightarrow> bool" where
  "productive net \<longleftrightarrow>
     (\<forall>k request reply read i. nw_fetch net k request = Inr reply \<longrightarrow> re_body reply = Some read \<longrightarrow> read i \<noteq> Chunk [])"

lemma fetch_hop_returns:
  assumes "productive net"
    and "0 \<le> maxBytes"
  shows "\<exists>r events. fetch_hop net allow m maxBytes maxRedirects k rawUrl = (Some r, events) \<and>
    closings events = length (sent events) \<and> (\<forall>reply. r = Inr reply \<longrightarrow> int (length (ob_body reply)) \<le> maxBytes)"
proof (induction "nat (maxRedirects - int k)" arbitrary: k rawUrl rule: less_induct)
  case less
  show ?case
  proof (cases "resolveSafeOutboundTarget (nw_parse net) (nw_lookup net k) allow rawUrl")
    case (Inr target)
    have n: "readBoundedBody reply maxBytes \<noteq> None" if "nw_fetch net k (hop_request m target) = Inr reply" for reply
      using readBoundedBody_returns [of reply] assms(1) that unfolding productive_def by blast
    have b: "int (length body) \<le> maxBytes" if "readBoundedBody reply maxBytes = Some (Inr body)" for reply body
      using readBoundedBody_bound [OF that assms(2)] .
    from fetch_hop_unfold [OF Inr, of m maxBytes maxRedirects] show ?thesis
    proof (elim disjE)
      assume a: "int k < maxRedirects \<and> (\<exists>u. fetch_hop net allow m maxBytes maxRedirects k rawUrl =
         (fst (fetch_hop net allow m maxBytes maxRedirects (Suc k) u),
          Sent (hop_request m target) # Closed # snd (fetch_hop net allow m maxBytes maxRedirects (Suc k) u)))"
      then obtain u where u: "fetch_hop net allow m maxBytes maxRedirects k rawUrl =
         (fst (fetch_hop net allow m maxBytes maxRedirects (Suc k) u),
          Sent (hop_request m target) # Closed # snd (fetch_hop net allow m maxBytes maxRedirects (Suc k) u))" by blast
      from a have "nat (maxRedirects - int (Suc k)) < nat (maxRedirects - int k)" by auto
      from less [OF this, of u] u show ?thesis by auto
    qed (use n b in auto)
  qed (simp add: fetch_hop_refused)
qed

text \<open>
  C4: safety of \<open>fetchBoundedOutbound\<close> without \<open>allowPrivateNetworks\<close>: whatever the URL parser, the DNS
  and the servers answer, and whatever they redirect to, every request that is sent is to an http or
  https URL without credentials whose host is not blocked, and any lookup its transport makes gives
  only validated public addresses, and only for the validated host.
\<close>

theorem outbound_requests_public:
  assumes "\<not> op_allowPrivateNetworks policy"
  shows "list_all public_request (sent (snd (fetchBoundedOutbound net rawUrl initMethod policy)))"
  using assms fetch_hop_public by (simp add: fetchBoundedOutbound_def)

text \<open>
  C21: termination and bounds of \<open>fetchBoundedOutbound\<close>: when no body sends empty chunks, the call returns
  after at most \<open>maxRedirects + 1\<close> requests, every dispatcher it opened is closed, and the body it
  returns is not longer than \<open>maxBytes\<close>.
\<close>

theorem outbound_returns:
  assumes "productive net"
    and "0 \<le> nullish (op_maxBytes policy) DEFAULT_OUTBOUND_MAX_BYTES"
  shows "\<exists>r events. fetchBoundedOutbound net rawUrl initMethod policy = (Some r, events) \<and>
    int (length (sent events)) \<le> max 0 (nullish (op_maxRedirects policy) DEFAULT_OUTBOUND_MAX_REDIRECTS) + 1 \<and>
    closings events = length (sent events) \<and>
    (\<forall>reply. r = Inr reply \<longrightarrow> int (length (ob_body reply)) \<le> nullish (op_maxBytes policy) DEFAULT_OUTBOUND_MAX_BYTES)"
proof -
  obtain r events where r: "fetchBoundedOutbound net rawUrl initMethod policy = (Some r, events)"
    "closings events = length (sent events)"
    "\<forall>reply. r = Inr reply \<longrightarrow> int (length (ob_body reply)) \<le> nullish (op_maxBytes policy) DEFAULT_OUTBOUND_MAX_BYTES"
    using fetch_hop_returns [OF assms, of "op_allowPrivateNetworks policy" "orelse (op_method policy) initMethod"
        "nullish (op_maxRedirects policy) DEFAULT_OUTBOUND_MAX_REDIRECTS" 0 rawUrl]
    unfolding fetchBoundedOutbound_def by blast
  moreover have "int (length (sent events)) \<le> max 0 (nullish (op_maxRedirects policy) DEFAULT_OUTBOUND_MAX_REDIRECTS) + 1"
    using fetch_hop_bounded [of net "op_allowPrivateNetworks policy" "orelse (op_method policy) initMethod"
        "nullish (op_maxBytes policy) DEFAULT_OUTBOUND_MAX_BYTES" "nullish (op_maxRedirects policy) DEFAULT_OUTBOUND_MAX_REDIRECTS" 0 rawUrl] r(1)
    unfolding fetchBoundedOutbound_def by simp
  ultimately show ?thesis by blast
qed

text \<open>The two checks of a destination agree on the same DNS answers.\<close>

lemma assert_agrees:
  assumes "resolveSafeOutboundTarget parse dnsLookup False rawUrl = Inr target"
  shows "assertSafeOutboundUrl parse dnsLookup False rawUrl = Inr (snd target)"
proof -
  obtain url where p: "parseSafeOutboundUrl parse False rawUrl = Inr url"
    using assms by (auto simp: resolveSafeOutboundTarget_def and_then_Inr)
  define hostname where "hostname = normalizeHostname (ul_hostname url)"
  have r: "url = snd target \<and> (isIP hostname = 0 \<longrightarrow> lookup_addresses dnsLookup hostname = Inr (fst target)) \<and> public_addresses (fst target)"
    using assms by (auto simp: resolveSafeOutboundTarget_def p and_then_Inr Let_def hostname_def public_addresses_def list_ex_iff
        list_all_iff split: if_splits)
  then have "\<not> list_ex (\<lambda>result. isPrivateOrSpecialAddress (lr_address result)) (fst target)" "fst target \<noteq> []"
    by (auto simp: public_addresses_def list_ex_iff list_all_iff)
  moreover have "hostname = normalizeHostname (ul_hostname (snd target))" using r by (simp add: hostname_def)
  ultimately show ?thesis
    using r by (cases "isIP hostname = 0") (simp_all add: assertSafeOutboundUrl_def p Let_def)
qed

section \<open>A redirect to a link-local address\<close>

text \<open>
  \<open>https://example.com/paper\<close> resolves to a public address and redirects to the metadata service: the
  first request is sent, the second is not.
\<close>

definition sample_url :: "string \<Rightarrow> url" where
  "sample_url s = \<lparr>ul_protocol = ''https:'', ul_username = [], ul_password = [],
     ul_hostname = (if s = ''paper'' then ''example.com'' else ''169.254.169.254''), ul_href = s\<rparr>"

definition sample_net :: network where
  "sample_net =
     \<lparr>nw_parse = (\<lambda>s base. Some (sample_url s)),
      nw_lookup = (\<lambda>k hostname. Inr [\<lparr>lr_address = ''93.184.216.34'', lr_family = 4\<rparr>]),
      nw_fetch = (\<lambda>k request. Inr \<lparr>re_status = 302, re_headers = (\<lambda>key. if key = ''location'' then Some ''metadata'' else None),
         re_body = None, re_cancel = None\<rparr>)\<rparr>"

definition sample_outbound :: outbound_policy where
  "sample_outbound = \<lparr>op_allowPrivateNetworks = False, op_maxBytes = Some 10, op_maxRedirects = None, op_method = None\<rparr>"

lemma digit_chars:
  "char_of (48 :: nat) = CHR ''0''" "char_of (49 :: nat) = CHR ''1''" "char_of (50 :: nat) = CHR ''2''"
  "char_of (51 :: nat) = CHR ''3''" "char_of (52 :: nat) = CHR ''4''" "char_of (53 :: nat) = CHR ''5''"
  "char_of (54 :: nat) = CHR ''6''" "char_of (55 :: nat) = CHR ''7''" "char_of (56 :: nat) = CHR ''8''"
  "char_of (57 :: nat) = CHR ''9''"
  by code_simp+

lemma sample_public: "\<not> isPrivateOrSpecialAddress ''93.184.216.34''"
proof -
  have "''93.184.216.34'' = show_ipv4 0x5DB8D822"
    by (simp add: show_ipv4_def octet_def show_nat.simps digit_chars)
  then show ?thesis
    by (simp add: private_show_ipv4 isPrivateOrSpecialIpv4_blocks ipv4_blocks_def in_block_def)
qed

lemma sample_private: "isPrivateOrSpecialAddress ''169.254.169.254'' \<and> isIP ''169.254.169.254'' = 4"
proof -
  have e: "''169.254.169.254'' = show_ipv4 0xA9FEA9FE"
    by (simp add: show_ipv4_def octet_def show_nat.simps digit_chars)
  show ?thesis
    unfolding e by (simp add: private_show_ipv4 isPrivateOrSpecialIpv4_blocks ipv4_blocks_def in_block_def isIP_def isIPv4_show)
qed

lemma sample_names:
  "normalizeHostname ''example.com'' = ''example.com''" "normalizeHostname ''169.254.169.254'' = ''169.254.169.254''"
  "isIP ''example.com'' = 0" "js_ends_with ''example.com'' ''.localhost'' = False"
  by code_simp+

lemma sample_hosts: "isBlockedOutboundHostname ''example.com'' = False" "isBlockedOutboundHostname ''169.254.169.254''"
  using sample_private by (simp_all add: isBlockedOutboundHostname_def sample_names BLOCKED_HOSTNAMES_def)

lemma sample_paper:
  "resolveSafeOutboundTarget (nw_parse sample_net) (nw_lookup sample_net k) False ''paper'' =
    Inr ([\<lparr>lr_address = ''93.184.216.34'', lr_family = 4\<rparr>], sample_url ''paper'')"
  by (simp add: resolveSafeOutboundTarget_def parseSafeOutboundUrl_def sample_net_def sample_url_def sample_hosts sample_names
      lookup_addresses_def sample_public)

lemma sample_metadata:
  "resolveSafeOutboundTarget (nw_parse sample_net) (nw_lookup sample_net k) False ''metadata'' =
    Inl (Unsafe_destination ''outbound destination host is blocked'')"
  by (simp add: resolveSafeOutboundTarget_def parseSafeOutboundUrl_def sample_net_def sample_url_def sample_hosts sample_names)

lemma sample_fetch:
  "fetchBoundedOutbound sample_net ''paper'' None sample_outbound =
    (Some (Inl (Unsafe_destination ''outbound destination host is blocked'')),
     [Sent (hop_request None ([\<lparr>lr_address = ''93.184.216.34'', lr_family = 4\<rparr>], sample_url ''paper'')), Closed])"
proof -
  have u: "nw_parse sample_net s b = Some (sample_url s)" "nw_fetch sample_net k q = Inr \<lparr>re_status = 302,
      re_headers = (\<lambda>key. if key = ''location'' then Some ''metadata'' else None), re_body = None, re_cancel = None\<rparr>"
      "ul_href (sample_url ''metadata'') = ''metadata''" for s b k q
    by (simp_all add: sample_net_def sample_url_def)
  show ?thesis
    unfolding fetchBoundedOutbound_def
    by (subst fetch_hop.simps) (simp add: sample_outbound_def sample_paper u nullish_def orelse_def truthy_def redirect_statuses_def
      fetch_hop_refused [OF sample_metadata] DEFAULT_OUTBOUND_MAX_REDIRECTS_def hop_request_def)
qed

theorem outbound_requests_public_witness:
  "length (sent (snd (fetchBoundedOutbound sample_net ''paper'' None sample_outbound))) = 1 \<and>
   list_all public_request (sent (snd (fetchBoundedOutbound sample_net ''paper'' None sample_outbound)))"
proof -
  have "\<not> op_allowPrivateNetworks sample_outbound" by (simp add: sample_outbound_def)
  from outbound_requests_public [OF this, of sample_net "''paper''" None] show ?thesis
    by (simp add: sample_fetch)
qed

theorem outbound_returns_witness:
  "productive sample_net \<and>
   (\<exists>r events. fetchBoundedOutbound sample_net ''paper'' None sample_outbound = (Some r, events) \<and>
      int (length (sent events)) \<le> 4 \<and> closings events = length (sent events))"
proof -
  have p: "productive sample_net" by (simp add: productive_def sample_net_def)
  moreover have "0 \<le> nullish (op_maxBytes sample_outbound) DEFAULT_OUTBOUND_MAX_BYTES"
    by (simp add: sample_outbound_def nullish_def)
  moreover have "max 0 (nullish (op_maxRedirects sample_outbound) DEFAULT_OUTBOUND_MAX_REDIRECTS) + 1 = 4"
    by (simp add: sample_outbound_def nullish_def DEFAULT_OUTBOUND_MAX_REDIRECTS_def)
  ultimately show ?thesis using outbound_returns [of sample_net sample_outbound "''paper''" None] by metis
qed

end
