(* ===== verification/Request_Envelopes.thy ===== *)
theory Request_Envelopes
  imports Outbound_Classes Work_Types
begin

text \<open>
  The signed envelopes of \<open>shared/public-write-envelope.ts\<close>, \<open>shared/agent-request-envelope.ts\<close> and
  \<open>shared/operator-requests.ts\<close>, whose three copies of \<open>stableSerialize\<close> are the same. Numbers in an
  envelope are integers; \<open>sha256Hex\<close> and \<open>verifyMessage\<close> are parameters.
\<close>

datatype js_value = V_undefined | V_null | V_bool bool | V_number int | V_bigint int | V_string string
  | V_array "js_value list" | V_object "(string \<times> js_value) list"

section \<open>\<open>JSON.stringify\<close> and \<open>stableSerialize\<close>\<close>

definition json_escape :: "char \<Rightarrow> string" where
  "json_escape c =
     (let b = CHR 0x5C in
      if c = CHR 0x22 \<or> c = b then [b, c]
      else if code c = 8 then [b, CHR ''b'']
      else if code c = 12 then [b, CHR ''f'']
      else if code c = 10 then [b, CHR ''n'']
      else if code c = 13 then [b, CHR ''r'']
      else if code c = 9 then [b, CHR ''t'']
      else if code c < 32 then [b, CHR ''u'', CHR ''0'', CHR ''0'', hexit (code c div 16), hexit (code c mod 16)]
      else [c])"

definition json_string :: "string \<Rightarrow> string" where
  "json_string s = CHR 0x22 # concat (map json_escape s) @ [CHR 0x22]"

definition compare_entries :: "string \<times> 'a \<Rightarrow> string \<times> 'a \<Rightarrow> int" where
  "compare_entries left right = locale_compare (fst left) (fst right)"

text \<open>
  \<open>JSON.stringify(undefined)\<close> is \<open>undefined\<close>, here \<open>None\<close>: \<open>join\<close> prints it as nothing, a template as
  the word.
\<close>

fun stableSerialize :: "js_value \<Rightarrow> string option" where
  "stableSerialize V_undefined = None"
| "stableSerialize V_null = Some ''null''"
| "stableSerialize (V_bool b) = Some (if b then ''true'' else ''false'')"
| "stableSerialize (V_number n) = Some (show_int n)"
| "stableSerialize (V_bigint n) = Some (json_string (show_int n))"
| "stableSerialize (V_string s) = Some (json_string s)"
| "stableSerialize (V_array vs) =
     Some (''['' @ js_join '','' (map (\<lambda>v. nullish (stableSerialize v) []) vs) @ '']'')"
| "stableSerialize (V_object entries) =
     Some (''{'' @ js_join '','' (map (\<lambda>(key, text). json_string key @ '':'' @ nullish text ''undefined'')
       (js_sort compare_entries (map (\<lambda>(key, v). (key, stableSerialize v)) entries))) @ ''}'')"

section \<open>Envelopes\<close>

datatype public_write_action = Claim_create | Claim_publish | Claim_draft_from_artifact | Domain_recompute
  | Replication_job_open | Replication_job_process | Replication_job_resolve | Source_submit
  | Source_publication_confirm | Source_publication_reject

fun public_write_action_name :: "public_write_action \<Rightarrow> string" where
  "public_write_action_name Claim_create = ''claim_create''"
| "public_write_action_name Claim_publish = ''claim_publish''"
| "public_write_action_name Claim_draft_from_artifact = ''claim_draft_from_artifact''"
| "public_write_action_name Domain_recompute = ''domain_recompute''"
| "public_write_action_name Replication_job_open = ''replication_job_open''"
| "public_write_action_name Replication_job_process = ''replication_job_process''"
| "public_write_action_name Replication_job_resolve = ''replication_job_resolve''"
| "public_write_action_name Source_submit = ''source_submit''"
| "public_write_action_name Source_publication_confirm = ''source_publication_confirm''"
| "public_write_action_name Source_publication_reject = ''source_publication_reject''"

fun agent_action_name :: "agent_request_action \<Rightarrow> string" where
  "agent_action_name Artifact_task_audit_submission = ''artifact_task_audit_submission''"
| "agent_action_name Artifact_task_claim = ''artifact_task_claim''"
| "agent_action_name Artifact_task_heartbeat = ''artifact_task_heartbeat''"
| "agent_action_name Artifact_task_repair_submission = ''artifact_task_repair_submission''"
| "agent_action_name Replication_job_claim = ''replication_job_claim''"
| "agent_action_name Replication_job_heartbeat = ''replication_job_heartbeat''"
| "agent_action_name Replication_job_submission = ''replication_job_submission''"
| "agent_action_name Source_discovery_submission = ''source_discovery_submission''"
| "agent_action_name Webhook_subscription_create = ''webhook_subscription_create''"
| "agent_action_name Webhook_subscription_delete = ''webhook_subscription_delete''"
| "agent_action_name Webhook_subscription_ping = ''webhook_subscription_ping''"
| "agent_action_name Review_task_heartbeat = ''review_task_heartbeat''"
| "agent_action_name Review_task_claim = ''review_task_claim''"
| "agent_action_name Review_task_submission = ''review_task_submission''"

datatype operator_action = Checkpoint_publication | Replication_submission | Resolution_submission

fun operator_action_name :: "operator_action \<Rightarrow> string" where
  "operator_action_name Checkpoint_publication = ''checkpoint_publication''"
| "operator_action_name Replication_submission = ''replication_submission''"
| "operator_action_name Resolution_submission = ''resolution_submission''"

record public_write_envelope =
  pe_actionType :: public_write_action
  pe_actorAddress :: string
  pe_chainId :: int
  pe_issuedAt :: string
  pe_payload :: "(string \<times> js_value) list"
  pe_requestNonce :: string
  pe_scopeKey :: string

record agent_envelope =
  ae_actionType :: agent_request_action
  ae_actorAddress :: string
  ae_agentId :: string
  ae_issuedAt :: string
  ae_payload :: "(string \<times> js_value) list"
  ae_requestNonce :: string
  ae_scopeKey :: string

record operator_envelope =
  oe_actionType :: operator_action
  oe_chainId :: int
  oe_issuedAt :: string
  oe_operatorAddress :: string
  oe_payload :: "(string \<times> js_value) list"
  oe_requestNonce :: int
  oe_scopeKey :: string

definition public_write_value :: "public_write_envelope \<Rightarrow> js_value" where
  "public_write_value e = V_object
     [(''actionType'', V_string (public_write_action_name (pe_actionType e))), (''actorAddress'', V_string (pe_actorAddress e)),
      (''chainId'', V_number (pe_chainId e)), (''issuedAt'', V_string (pe_issuedAt e)), (''payload'', V_object (pe_payload e)),
      (''requestNonce'', V_string (pe_requestNonce e)), (''scopeKey'', V_string (pe_scopeKey e))]"

definition agent_value :: "agent_envelope \<Rightarrow> js_value" where
  "agent_value e = V_object
     [(''actionType'', V_string (agent_action_name (ae_actionType e))), (''actorAddress'', V_string (ae_actorAddress e)),
      (''agentId'', V_string (ae_agentId e)), (''issuedAt'', V_string (ae_issuedAt e)), (''payload'', V_object (ae_payload e)),
      (''requestNonce'', V_string (ae_requestNonce e)), (''scopeKey'', V_string (ae_scopeKey e))]"

definition operator_value :: "operator_envelope \<Rightarrow> js_value" where
  "operator_value e = V_object
     [(''actionType'', V_string (operator_action_name (oe_actionType e))), (''chainId'', V_number (oe_chainId e)),
      (''issuedAt'', V_string (oe_issuedAt e)), (''operatorAddress'', V_string (oe_operatorAddress e)),
      (''payload'', V_object (oe_payload e)), (''requestNonce'', V_number (oe_requestNonce e)),
      (''scopeKey'', V_string (oe_scopeKey e))]"

definition hash_value :: "(string \<Rightarrow> string) \<Rightarrow> js_value \<Rightarrow> string" where
  "hash_value sha256Hex value = ''0x'' @ sha256Hex (nullish (stableSerialize value) ''undefined'')"

definition hashPublicWriteEnvelope :: "(string \<Rightarrow> string) \<Rightarrow> public_write_envelope \<Rightarrow> string" where
  "hashPublicWriteEnvelope sha256Hex envelope = hash_value sha256Hex (public_write_value envelope)"

definition hashAgentRequestEnvelope :: "(string \<Rightarrow> string) \<Rightarrow> agent_envelope \<Rightarrow> string" where
  "hashAgentRequestEnvelope sha256Hex envelope = hash_value sha256Hex (agent_value envelope)"

definition hashOperatorRequestEnvelope :: "(string \<Rightarrow> string) \<Rightarrow> operator_envelope \<Rightarrow> string" where
  "hashOperatorRequestEnvelope sha256Hex envelope = hash_value sha256Hex (operator_value envelope)"

text \<open>
  \<open>verifyMessage\<close> recovers the address that signed a message, or throws; the message is the hash as
  bytes. A wrong signer is the error with the two addresses.
\<close>

datatype signature_error = Unreadable_signature string | Signer_mismatch string string

type_synonym recover = "string \<Rightarrow> string \<Rightarrow> string + string"

definition check_signer :: "recover \<Rightarrow> string \<Rightarrow> string \<Rightarrow> string \<Rightarrow> signature_error + string \<times> string" where
  "check_signer verifyMessage requestHash signature expected =
     (case verifyMessage requestHash signature of
        Inl e \<Rightarrow> Inl (Unreadable_signature e)
      | Inr recovered \<Rightarrow>
          if js_lower recovered \<noteq> js_lower expected then Inl (Signer_mismatch expected recovered)
          else Inr (recovered, requestHash))"

definition verifyPublicWriteEnvelope ::
  "(string \<Rightarrow> string) \<Rightarrow> recover \<Rightarrow> public_write_envelope \<Rightarrow> string \<Rightarrow> signature_error + string \<times> string" where
  "verifyPublicWriteEnvelope sha256Hex verifyMessage envelope signature =
     (let requestHash = hashPublicWriteEnvelope sha256Hex envelope
      in check_signer verifyMessage requestHash signature (pe_actorAddress envelope))"

definition verifyAgentRequestEnvelope ::
  "(string \<Rightarrow> string) \<Rightarrow> recover \<Rightarrow> agent_envelope \<Rightarrow> string \<Rightarrow> signature_error + string \<times> string" where
  "verifyAgentRequestEnvelope sha256Hex verifyMessage envelope signature =
     (let requestHash = hashAgentRequestEnvelope sha256Hex envelope
      in check_signer verifyMessage requestHash signature (ae_actorAddress envelope))"

text \<open>A signer has an address and signs messages; \<open>createSignedAgentRequest\<close> fills in what is missing.\<close>

record signer =
  sg_address :: string
  sg_sign :: "string \<Rightarrow> string"

definition signAgentRequestEnvelope :: "(string \<Rightarrow> string) \<Rightarrow> signer \<Rightarrow> agent_envelope \<Rightarrow> agent_envelope \<times> string" where
  "signAgentRequestEnvelope sha256Hex signer envelope =
     (let requestHash = hashAgentRequestEnvelope sha256Hex envelope in (envelope, sg_sign signer requestHash))"

definition createSignedAgentRequest ::
  "(string \<Rightarrow> string) \<Rightarrow> string \<Rightarrow> agent_request_action \<Rightarrow> string option \<Rightarrow> string \<Rightarrow> string option \<Rightarrow> (string \<times> js_value) list \<Rightarrow>
   string \<Rightarrow> string \<Rightarrow> signer \<Rightarrow> agent_envelope \<times> string" where
  "createSignedAgentRequest sha256Hex nowText actionType actorAddress agentId issuedAt payload requestNonce scopeKey signer =
     signAgentRequestEnvelope sha256Hex signer
       \<lparr>ae_actionType = actionType, ae_actorAddress = nullish actorAddress (sg_address signer), ae_agentId = agentId,
        ae_issuedAt = nullish issuedAt nowText, ae_payload = payload, ae_requestNonce = requestNonce, ae_scopeKey = scopeKey\<rparr>"

definition buildOperatorRequestEnvelope ::
  "string \<Rightarrow> operator_action \<Rightarrow> int \<Rightarrow> string \<Rightarrow> (string \<times> js_value) list \<Rightarrow> int \<Rightarrow> string \<Rightarrow> operator_envelope" where
  "buildOperatorRequestEnvelope nowText actionType chainId operatorAddress payload requestNonce scopeKey =
     \<lparr>oe_actionType = actionType, oe_chainId = chainId, oe_issuedAt = nowText, oe_operatorAddress = operatorAddress,
      oe_payload = payload, oe_requestNonce = requestNonce, oe_scopeKey = scopeKey\<rparr>"

definition signOperatorRequestEnvelope ::
  "(string \<Rightarrow> string) \<Rightarrow> recover \<Rightarrow> signer \<Rightarrow> operator_envelope \<Rightarrow> signature_error + string \<times> string" where
  "signOperatorRequestEnvelope sha256Hex verifyMessage signer envelope =
     (let requestHash = hashOperatorRequestEnvelope sha256Hex envelope;
          signature = sg_sign signer requestHash
      in (case check_signer verifyMessage requestHash signature (oe_operatorAddress envelope) of
            Inl e \<Rightarrow> Inl e | Inr r \<Rightarrow> Inr (requestHash, signature)))"

end
