(* ===== verification/Envelope_Facts.thy ===== *)
theory Envelope_Facts
  imports Request_Envelopes
begin

text \<open>
  What a signature over an envelope covers: the serialised text is a prefix code, so that two
  envelopes with the same text agree up to the order of the keys of their payloads.
\<close>

section \<open>The text of a value in canonical form\<close>

fun canonical :: "js_value \<Rightarrow> js_value" where
  "canonical (V_bigint n) = V_string (show_int n)"
| "canonical (V_array vs) = V_array (map canonical vs)"
| "canonical (V_object entries) = V_object (js_sort compare_entries (map (\<lambda>(key, v). (key, canonical v)) entries))"
| "canonical v = v"

fun json_text :: "js_value \<Rightarrow> string" where
  "json_text V_undefined = []"
| "json_text V_null = ''null''"
| "json_text (V_bool b) = (if b then ''true'' else ''false'')"
| "json_text (V_number n) = show_int n"
| "json_text (V_bigint n) = []"
| "json_text (V_string s) = json_string s"
| "json_text (V_array vs) = CHR ''['' # js_join '','' (map json_text vs) @ '']''"
| "json_text (V_object entries) = CHR ''{'' #
     js_join '','' (map (\<lambda>(key, v). json_string key @ CHR '':'' # json_text v) entries) @ ''}''"

text \<open>Values without \<open>undefined\<close>, and those that have no bigint either.\<close>

fun has_text :: "bool \<Rightarrow> js_value \<Rightarrow> bool" where
  "has_text big V_undefined = False"
| "has_text big (V_bigint n) = big"
| "has_text big (V_array vs) = list_all (has_text big) vs"
| "has_text big (V_object entries) = list_all (\<lambda>(key, v). has_text big v) entries"
| "has_text big v = True"

lemma js_insert_map: "(\<And>a b. cmp (f a) (f b) = cmp' a b) \<Longrightarrow> js_insert cmp (f x) (map f xs) = map f (js_insert cmp' x xs)"
  by (induction xs) auto

lemma js_sort_map: "(\<And>a b. cmp (f a) (f b) = cmp' a b) \<Longrightarrow> js_sort cmp (map f xs) = map f (js_sort cmp' xs)"
  by (induction xs) (auto simp: js_insert_map)

lemma stableSerialize_text: "has_text True v \<Longrightarrow> stableSerialize v = Some (json_text (canonical v))"
proof (induction v)
  case (V_array vs)
  then have "map (\<lambda>v. nullish (stableSerialize v) []) vs = map (json_text \<circ> canonical) vs"
    by (auto simp: list_all_iff nullish_def)
  then show ?case by (simp add: comp_def del: map_eq_conv)
next
  case (V_object entries)
  define f where "f = (\<lambda>(key :: string, v). (key, Some (json_text v)))"
  have "stableSerialize v = Some (json_text (canonical v))" if "(key, v) \<in> set entries" for key v
    using V_object.IH [OF that, of v] V_object.prems that by (auto simp: list_all_iff)
  then have m: "map (\<lambda>(key, v). (key, stableSerialize v)) entries = map f (map (\<lambda>(key, v). (key, canonical v)) entries)"
    by (auto simp: f_def)
  have sort: "js_sort compare_entries (map f xs) = map f (js_sort compare_entries xs)" for xs
    by (rule js_sort_map) (auto simp: f_def compare_entries_def split: prod.splits)
  show ?case
    unfolding stableSerialize.simps canonical.simps json_text.simps m sort by (simp add: f_def comp_def case_prod_unfold)
qed (simp_all add: json_string_def)

lemma canonical_text: "has_text True v \<Longrightarrow> has_text False (canonical v)"
proof (induction v)
  case (V_object entries)
  have "has_text False (canonical v)" if "(key, v) \<in> set entries" for key v
    using V_object.IH [OF that, of v] V_object.prems that by (auto simp: list_all_iff)
  then show ?case by (auto simp: list_all_iff)
next
  case (V_array vs)
  then show ?case by (simp add: list_all_iff)
qed simp_all

section \<open>Strings\<close>

text \<open>Reading one escaped character back.\<close>

definition json_unescape :: "string \<Rightarrow> (char \<times> string) option" where
  "json_unescape s =
     (case s of [] \<Rightarrow> None | c # r \<Rightarrow>
        if c \<noteq> CHR 0x5C then Some (c, r)
        else (case r of [] \<Rightarrow> None | d # u \<Rightarrow>
          if d = CHR ''u'' then Some (char_of (nat (digit_of (u ! 2) * 16 + digit_of (u ! 3))), drop 4 u)
          else if d = CHR ''b'' then Some (char_of (8 :: nat), u)
          else if d = CHR ''f'' then Some (char_of (12 :: nat), u)
          else if d = CHR ''n'' then Some (char_of (10 :: nat), u)
          else if d = CHR ''r'' then Some (char_of (13 :: nat), u)
          else if d = CHR ''t'' then Some (char_of (9 :: nat), u)
          else Some (d, u)))"

lemma char_of_code: "code c = n \<Longrightarrow> c = char_of n" for n :: nat
  by auto

lemma json_unescape_escape: "json_unescape (json_escape c @ u) = Some (c, u)"
proof -
  have h: "char_of (nat (digit_of (hexit (code c div 16)) * 16 + digit_of (hexit (code c mod 16)))) = c" if "code c < (32 :: nat)"
  proof -
    have "digit_of (hexit (code c div 16)) * 16 + digit_of (hexit (code c mod 16)) = int (code c)"
      using that hexit(1) [of "code c div 16"] hexit(1) [of "code c mod 16"] div_mult_mod_eq [of "code c" "16 :: nat"]
      by simp presburger
    then show ?thesis by simp
  qed
  show ?thesis
    by (auto simp: json_escape_def json_unescape_def Let_def h dest!: char_of_code)
qed

lemma json_escape_head: "\<exists>e r. json_escape c = e # r \<and> e \<noteq> CHR 0x22"
  by (auto simp: json_escape_def Let_def)

lemma json_string_prefix: "json_string s @ x = json_string t @ y \<Longrightarrow> s = t \<and> x = y"
proof -
  have "concat (map json_escape s) @ CHR 0x22 # x = concat (map json_escape t) @ CHR 0x22 # y \<Longrightarrow> s = t \<and> x = y"
  proof (induction s arbitrary: t)
    case Nil
    show ?case
    proof (cases t)
      case (Cons d t')
      obtain e r where "json_escape d = e # r" "e \<noteq> CHR 0x22" using json_escape_head by blast
      with Nil Cons show ?thesis by simp
    qed (use Nil in simp)
  next
    case (Cons c s)
    show ?case
    proof (cases t)
      case Nil
      obtain e r where "json_escape c = e # r" "e \<noteq> CHR 0x22" using json_escape_head by blast
      with Nil Cons.prems show ?thesis by simp
    next
      case (Cons d t')
      let ?u = "\<lambda>s x. concat (map json_escape s) @ CHR 0x22 # x"
      have "json_unescape (json_escape c @ ?u s x) = json_unescape (json_escape d @ ?u t' y)"
        using Cons.prems Cons by simp
      then have "c = d" "?u s x = ?u t' y" by (simp_all add: json_unescape_escape)
      with Cons.IH [of t'] Cons show ?thesis by simp
    qed
  qed
  then show "json_string s @ x = json_string t @ y \<Longrightarrow> s = t \<and> x = y" by (simp add: json_string_def)
qed

section \<open>Values\<close>

definition ends :: "string \<Rightarrow> bool" where
  "ends x \<longleftrightarrow> x = [] \<or> hd x = CHR '','' \<or> hd x = CHR '']'' \<or> hd x = CHR ''}''"

lemma show_int_prefix:
  assumes "show_int m @ x = show_int n @ y" "ends x" "ends y"
  shows "m = n \<and> x = y"
proof -
  have t: "takeWhile (\<lambda>c. is_digit c \<or> c = CHR ''-'') (show_int k @ z) = show_int k \<and>
      dropWhile (\<lambda>c. is_digit c \<or> c = CHR ''-'') (show_int k @ z) = z" if "ends z" for k z
  proof -
    have d: "\<forall>c \<in> set (show_int k). is_digit c \<or> c = CHR ''-''"
      using show_nat_plain(2) by (auto simp: show_int_def list_all_iff)
    have "z = [] \<or> \<not> (is_digit (hd z) \<or> hd z = CHR ''-'')" using that by (auto simp: ends_def is_digit_def)
    with d show ?thesis by (cases z) (auto simp: takeWhile_append2 dropWhile_append2)
  qed
  from t [OF assms(2), of m] t [OF assms(3), of n] assms(1) show ?thesis by (metis show_int_inj)
qed

text \<open>The first character of a text tells the constructor, and no text starts like an end.\<close>

fun kind_of :: "js_value \<Rightarrow> nat" where
  "kind_of V_null = 0"
| "kind_of (V_bool b) = (if b then 1 else 2)"
| "kind_of (V_number n) = 3"
| "kind_of (V_string s) = 4"
| "kind_of (V_array vs) = 5"
| "kind_of (V_object es) = 6"
| "kind_of v = 7"

definition kind_char :: "char \<Rightarrow> nat" where
  "kind_char c = (if c = CHR ''n'' then 0 else if c = CHR ''t'' then 1 else if c = CHR ''f'' then 2
     else if is_digit c \<or> c = CHR ''-'' then 3 else if c = CHR 0x22 then 4 else if c = CHR ''['' then 5
     else if c = CHR ''{'' then 6 else 7)"

lemma kind_text: "has_text False v \<Longrightarrow> json_text v \<noteq> [] \<and> kind_char (hd (json_text v)) = kind_of v \<and> kind_of v < 7"
proof (cases v)
  case (V_number n)
  have "show_int n \<noteq> []" "is_digit (hd (show_int n)) \<or> hd (show_int n) = CHR ''-''"
    using show_nat_plain [of "nat n"] by (auto simp: show_int_def neq_Nil_conv)
  with V_number show ?thesis by (auto simp: kind_char_def is_digit_def)
qed (auto simp: kind_char_def json_string_def is_digit_def)

lemma js_join_Cons: "js_join sep (w # ws) = w @ (if ws = [] then [] else sep @ js_join sep ws)"
  by (cases ws) simp_all

text \<open>Items printed by a prefix code are one when they are joined by commas and closed.\<close>

lemma items_prefix:
  assumes "\<And>a b x y. a \<in> set as \<Longrightarrow> P b \<Longrightarrow> ends x \<Longrightarrow> ends y \<Longrightarrow> f a @ x = f b @ y \<Longrightarrow> a = b \<and> x = y"
    and "\<And>b. b \<in> set as \<or> P b \<Longrightarrow> f b \<noteq> [] \<and> hd (f b) \<noteq> c"
    and "c = CHR '']'' \<or> c = CHR ''}''" and "list_all P bs"
    and "js_join '','' (map f as) @ c # x = js_join '','' (map f bs) @ c # y"
  shows "as = bs \<and> x = y"
  using assms
proof (induction as arbitrary: bs)
  case Nil
  show ?case
  proof (cases bs)
    case (Cons b bs')
    then have "f b \<noteq> []" "hd (f b) \<noteq> c" using Nil.prems(2) [of b] Nil.prems(4) by auto
    then show ?thesis using Nil.prems(5) Cons by (cases "f b") (auto simp: js_join_Cons)
  qed (use Nil.prems in simp)
next
  case (Cons a as)
  show ?case
  proof (cases bs)
    case Nil
    have "f a \<noteq> []" "hd (f a) \<noteq> c" using Cons.prems(2) [of a] by auto
    then show ?thesis using Cons.prems(5) Nil by (cases "f a") (auto simp: js_join_Cons)
  next
    case (Cons b bs')
    define rest where "rest = (\<lambda>es :: 'a list. \<lambda>z. (if es = [] then [] else '','' @ js_join '','' (map f es)) @ c # z)"
    have e: "ends (rest es z)" for es z using Cons.prems(3) by (auto simp: rest_def ends_def)
    have "f a @ rest as x = f b @ rest bs' y"
      using Cons.prems(5) Cons by (simp add: js_join_Cons rest_def)
    moreover have "P b" using Cons.prems(4) Cons by simp
    ultimately have ab: "a = b" "rest as x = rest bs' y"
      using Cons.prems(1) [of a b, OF _ _ e e] by simp_all
    have "as = bs' \<and> x = y"
    proof (cases "as = [] \<or> bs' = []")
      case True
      then show ?thesis using ab(2) Cons.prems(3) by (auto simp: rest_def split: if_splits)
    next
      case False
      then have "js_join '','' (map f as) @ c # x = js_join '','' (map f bs') @ c # y"
        using ab(2) by (simp add: rest_def)
      then show ?thesis
        using Cons.prems(1-4) Cons by (intro Cons.IH) auto
    qed
    then show ?thesis using ab Cons by simp
  qed
qed

lemma kind_end: "has_text False v \<Longrightarrow> json_text v \<noteq> [] \<and> hd (json_text v) \<noteq> CHR '']'' \<and> hd (json_text v) \<noteq> CHR ''}''"
  using kind_text [of v] by (auto simp: kind_char_def is_digit_def)

lemma same_kind:
  assumes "has_text False v" "has_text False w" "json_text v @ x = json_text w @ y"
  shows "kind_of v = kind_of w"
  using kind_text [OF assms(1)] kind_text [OF assms(2)] assms(3) by (metis hd_append2)

lemma json_text_prefix:
  "has_text False v \<Longrightarrow> has_text False w \<Longrightarrow> ends x \<Longrightarrow> ends y \<Longrightarrow> json_text v @ x = json_text w @ y \<Longrightarrow> v = w \<and> x = y"
proof (induction v arbitrary: w x y)
  case V_null
  with same_kind [of V_null w x y] show ?case by (cases w) (auto split: if_splits)
next
  case (V_bool b)
  with same_kind [of "V_bool b" w x y] show ?case by (cases w) (auto split: if_splits)
next
  case (V_number n)
  with same_kind [of "V_number n" w x y] show_int_prefix [of n x _ y] show ?case by (cases w) (auto split: if_splits)
next
  case (V_string s)
  with same_kind [of "V_string s" w x y] json_string_prefix [of s x _ y] show ?case by (cases w) (auto split: if_splits)
next
  case (V_array vs)
  then obtain ws where w: "w = V_array ws"
    using same_kind [of "V_array vs" w x y] by (cases w) (auto split: if_splits)
  have "vs = ws \<and> x = y"
  proof (rule items_prefix [where f = json_text and P = "has_text False" and c = "CHR '']''"])
    show "a = b \<and> x' = y'" if "a \<in> set vs" "has_text False b" "ends x'" "ends y'" "json_text a @ x' = json_text b @ y'" for a b x' y'
      using V_array.IH [OF that(1) _ that(2-5)] V_array.prems(1) that(1) by (simp add: list_all_iff)
    show "json_text b \<noteq> [] \<and> hd (json_text b) \<noteq> CHR '']''" if "b \<in> set vs \<or> has_text False b" for b
      using kind_end [of b] that V_array.prems(1) by (auto simp: list_all_iff)
  qed (use V_array.prems w in simp_all)
  then show ?case using w by simp
next
  case (V_object entries)
  then obtain es where w: "w = V_object es"
    using same_kind [of "V_object entries" w x y] by (cases w) (auto split: if_splits)
  have "entries = es \<and> x = y"
  proof (rule items_prefix [where f = "\<lambda>(key, v). json_string key @ CHR '':'' # json_text v"
        and P = "\<lambda>(key, v). has_text False v" and c = "CHR ''}''"])
    show "a = b \<and> x' = y'"
      if "a \<in> set entries" "case b of (key, v) \<Rightarrow> has_text False v" "ends x'" "ends y'"
        "(case a of (key, v) \<Rightarrow> json_string key @ CHR '':'' # json_text v) @ x' =
         (case b of (key, v) \<Rightarrow> json_string key @ CHR '':'' # json_text v) @ y'" for a b x' y'
    proof -
      obtain k v where a: "a = (k, v)" by (cases a)
      obtain l u where b: "b = (l, u)" by (cases b)
      have "k = l \<and> CHR '':'' # json_text v @ x' = CHR '':'' # json_text u @ y'"
        using json_string_prefix [of k "CHR '':'' # json_text v @ x'" l "CHR '':'' # json_text u @ y'"] that(5) a b by simp
      moreover have "has_text False v" using V_object.prems(1) that(1) a by (auto simp: list_all_iff)
      ultimately show ?thesis
        using V_object.IH [of a v u x' y'] that(1-4) a b by simp
    qed
    show "(case b of (key, v) \<Rightarrow> json_string key @ CHR '':'' # json_text v) \<noteq> [] \<and>
        hd (case b of (key, v) \<Rightarrow> json_string key @ CHR '':'' # json_text v) \<noteq> CHR ''}''" for b
      by (cases b) (simp add: json_string_def)
  qed (use V_object.prems w in simp_all)
  then show ?case using w by simp
qed simp_all

lemma stableSerialize_iff:
  assumes "has_text True v" "has_text True w"
  shows "stableSerialize v = stableSerialize w \<longleftrightarrow> canonical v = canonical w"
  using json_text_prefix [of "canonical v" "canonical w" "[]" "[]"] assms
  by (auto simp: stableSerialize_text canonical_text ends_def)

section \<open>Envelopes\<close>

lemma public_write_action_name_inj: "public_write_action_name a = public_write_action_name b \<longleftrightarrow> a = b"
  by (cases a; cases b) simp_all

lemma agent_action_name_inj: "agent_action_name a = agent_action_name b \<longleftrightarrow> a = b"
  by (cases a; cases b) simp_all

lemma operator_action_name_inj: "operator_action_name a = operator_action_name b \<longleftrightarrow> a = b"
  by (cases a; cases b) simp_all

definition same_payload :: "(string \<times> js_value) list \<Rightarrow> (string \<times> js_value) list \<Rightarrow> bool" where
  "same_payload p q \<longleftrightarrow> canonical (V_object p) = canonical (V_object q)"

lemma canonical_fields:
  assumes "distinct (map fst es)" "distinct (map fst fs)"
  shows "canonical (V_object es) = canonical (V_object fs) \<Longrightarrow> (k, v) \<in> set es \<Longrightarrow> (k, w) \<in> set fs \<Longrightarrow> canonical v = canonical w"
proof -
  assume c: "canonical (V_object es) = canonical (V_object fs)" and v: "(k, v) \<in> set es" and w: "(k, w) \<in> set fs"
  have "js_sort compare_entries (map (\<lambda>(key, v). (key, canonical v)) es) = js_sort compare_entries (map (\<lambda>(key, v). (key, canonical v)) fs)"
    using c by (simp only: canonical.simps js_value.inject)
  from arg_cong [OF this, of set]
  have "set (map (\<lambda>(key, v). (key, canonical v)) es) = set (map (\<lambda>(key, v). (key, canonical v)) fs)"
    by (simp only: set_js_sort)
  moreover have "(k, canonical v) \<in> set (map (\<lambda>(key, v). (key, canonical v)) es)" using imageI [OF v, of "\<lambda>(key, v). (key, canonical v)"] by simp
  ultimately have "(k, canonical v) \<in> set (map (\<lambda>(key, v). (key, canonical v)) fs)" by (simp only:)
  then obtain u where "(k, u) \<in> set fs" "canonical u = canonical v" by auto
  then show ?thesis using eq_key_imp_eq_value [OF assms(2) w, of u] by simp
qed

lemma public_write_text:
  assumes "has_text True (V_object (pe_payload e))" "has_text True (V_object (pe_payload e'))"
  shows "stableSerialize (public_write_value e) = stableSerialize (public_write_value e') \<longleftrightarrow>
    e\<lparr>pe_payload := []\<rparr> = e'\<lparr>pe_payload := []\<rparr> \<and> same_payload (pe_payload e) (pe_payload e')"
proof -
  have t: "has_text True (public_write_value e)" "has_text True (public_write_value e')"
    using assms by (simp_all add: public_write_value_def)
  have "e\<lparr>pe_payload := []\<rparr> = e'\<lparr>pe_payload := []\<rparr> \<and> same_payload (pe_payload e) (pe_payload e')"
    if "canonical (public_write_value e) = canonical (public_write_value e')"
  proof -
    note f = canonical_fields [OF _ _ that [unfolded public_write_value_def]]
    show ?thesis
      using f [of "''actionType''" "V_string _" "V_string _"]
        f [of "''actorAddress''" "V_string _" "V_string _"] f [of "''chainId''" "V_number _" "V_number _"]
        f [of "''issuedAt''" "V_string _" "V_string _"] f [of "''payload''" "V_object _" "V_object _"]
        f [of "''requestNonce''" "V_string _" "V_string _"] f [of "''scopeKey''" "V_string _" "V_string _"]
      by (simp add: same_payload_def public_write_action_name_inj)
  qed
  moreover have "canonical (public_write_value e) = canonical (public_write_value e')"
    if "e\<lparr>pe_payload := []\<rparr> = e'\<lparr>pe_payload := []\<rparr> \<and> same_payload (pe_payload e) (pe_payload e')"
    using that by (cases e; cases e') (simp add: public_write_value_def same_payload_def)
  ultimately show ?thesis using stableSerialize_iff [OF t] by blast
qed

lemma agent_text:
  assumes "has_text True (V_object (ae_payload e))" "has_text True (V_object (ae_payload e'))"
  shows "stableSerialize (agent_value e) = stableSerialize (agent_value e') \<longleftrightarrow>
    e\<lparr>ae_payload := []\<rparr> = e'\<lparr>ae_payload := []\<rparr> \<and> same_payload (ae_payload e) (ae_payload e')"
proof -
  have t: "has_text True (agent_value e)" "has_text True (agent_value e')"
    using assms by (simp_all add: agent_value_def)
  have "e\<lparr>ae_payload := []\<rparr> = e'\<lparr>ae_payload := []\<rparr> \<and> same_payload (ae_payload e) (ae_payload e')"
    if "canonical (agent_value e) = canonical (agent_value e')"
  proof -
    note f = canonical_fields [OF _ _ that [unfolded agent_value_def]]
    show ?thesis
      using f [of "''actionType''" "V_string _" "V_string _"]
        f [of "''actorAddress''" "V_string _" "V_string _"]
        f [of "''agentId''" "V_string _" "V_string _"]
        f [of "''issuedAt''" "V_string _" "V_string _"]
        f [of "''payload''" "V_object _" "V_object _"]
        f [of "''requestNonce''" "V_string _" "V_string _"]
        f [of "''scopeKey''" "V_string _" "V_string _"]
      by (simp add: same_payload_def agent_action_name_inj)
  qed
  moreover have "canonical (agent_value e) = canonical (agent_value e')"
    if "e\<lparr>ae_payload := []\<rparr> = e'\<lparr>ae_payload := []\<rparr> \<and> same_payload (ae_payload e) (ae_payload e')"
    using that by (cases e; cases e') (simp add: agent_value_def same_payload_def)
  ultimately show ?thesis using stableSerialize_iff [OF t] by blast
qed

lemma operator_text:
  assumes "has_text True (V_object (oe_payload e))" "has_text True (V_object (oe_payload e'))"
  shows "stableSerialize (operator_value e) = stableSerialize (operator_value e') \<longleftrightarrow>
    e\<lparr>oe_payload := []\<rparr> = e'\<lparr>oe_payload := []\<rparr> \<and> same_payload (oe_payload e) (oe_payload e')"
proof -
  have t: "has_text True (operator_value e)" "has_text True (operator_value e')"
    using assms by (simp_all add: operator_value_def)
  have "e\<lparr>oe_payload := []\<rparr> = e'\<lparr>oe_payload := []\<rparr> \<and> same_payload (oe_payload e) (oe_payload e')"
    if "canonical (operator_value e) = canonical (operator_value e')"
  proof -
    note f = canonical_fields [OF _ _ that [unfolded operator_value_def]]
    show ?thesis
      using f [of "''actionType''" "V_string _" "V_string _"]
        f [of "''chainId''" "V_number _" "V_number _"]
        f [of "''issuedAt''" "V_string _" "V_string _"]
        f [of "''operatorAddress''" "V_string _" "V_string _"]
        f [of "''payload''" "V_object _" "V_object _"]
        f [of "''requestNonce''" "V_number _" "V_number _"]
        f [of "''scopeKey''" "V_string _" "V_string _"]
      by (simp add: same_payload_def operator_action_name_inj)
  qed
  moreover have "canonical (operator_value e) = canonical (operator_value e')"
    if "e\<lparr>oe_payload := []\<rparr> = e'\<lparr>oe_payload := []\<rparr> \<and> same_payload (oe_payload e) (oe_payload e')"
    using that by (cases e; cases e') (simp add: operator_value_def same_payload_def)
  ultimately show ?thesis using stableSerialize_iff [OF t] by blast
qed


definition sample_envelope :: public_write_envelope where
  "sample_envelope = \<lparr>pe_actionType = Claim_create, pe_actorAddress = ''0xA'', pe_chainId = 1, pe_issuedAt = ''now'',
     pe_payload = [], pe_requestNonce = ''n1'', pe_scopeKey = ''claim:7''\<rparr>"


end
