(* ===== verification/Requests.thy ===== *)
theory Requests
  imports Envelope_Facts Outcomes Tables Pagination
begin

text \<open>
  The request tables of \<open>shared/public-write-requests.ts\<close>, \<open>shared/agent-requests.ts\<close> and
  \<open>shared/operator-requests.ts\<close> (migrations 008, 011, 016 and 028): inserting under the unique keys,
  the status updates, the execution leases and the nonces. A request id is the decimal text of the
  row's serial number; times are milliseconds, printed in the views.
\<close>

datatype request_error = Unique_violation | Insert_failed | Request_not_found | Lease_lost

section \<open>Public writes\<close>

datatype public_write_status = Pw_accepted | Pw_pending | Pw_rejected

record public_write_row =
  pw_requestId :: int
  pw_actionType :: public_write_action
  pw_actorAddress :: string
  pw_chainId :: int
  pw_requestNonce :: string
  pw_scopeKey :: string
  pw_requestHash :: string
  pw_signature :: string
  pw_payload :: "(string \<times> js_value) list"
  pw_status :: public_write_status
  pw_outcomeDetail :: "string option"
  pw_createdAt :: int
  pw_updatedAt :: int
  pw_leaseOwner :: "string option"
  pw_leaseExpiresAt :: "int option"

record public_write_view =
  pv_actionType :: public_write_action
  pv_actorAddress :: string
  pv_chainId :: int
  pv_createdAt :: string
  pv_outcomeDetail :: "string option"
  pv_payload :: "(string \<times> js_value) list"
  pv_requestHash :: string
  pv_requestId :: string
  pv_requestNonce :: string
  pv_scopeKey :: string
  pv_signature :: string
  pv_status :: public_write_status
  pv_updatedAt :: string

record public_write_input =
  pn_actionType :: public_write_action
  pn_actorAddress :: string
  pn_chainId :: int
  pn_outcomeDetail :: "string option"
  pn_payload :: "(string \<times> js_value) list"
  pn_requestHash :: string
  pn_requestNonce :: string
  pn_scopeKey :: string
  pn_signature :: string
  pn_status :: public_write_status

record public_write_db =
  pd_rows :: "public_write_row list"
  pd_next :: int

definition public_write_empty :: public_write_db where
  "public_write_empty = \<lparr>pd_rows = [], pd_next = 1\<rparr>"

definition public_write_view_of :: "public_write_row \<Rightarrow> public_write_view" where
  "public_write_view_of r =
     \<lparr>pv_actionType = pw_actionType r, pv_actorAddress = pw_actorAddress r, pv_chainId = pw_chainId r,
      pv_createdAt = iso_string (pw_createdAt r), pv_outcomeDetail = pw_outcomeDetail r, pv_payload = pw_payload r,
      pv_requestHash = pw_requestHash r, pv_requestId = show_int (pw_requestId r), pv_requestNonce = pw_requestNonce r,
      pv_scopeKey = pw_scopeKey r, pv_signature = pw_signature r, pv_status = pw_status r,
      pv_updatedAt = iso_string (pw_updatedAt r)\<rparr>"

definition pw_named :: "string \<Rightarrow> public_write_row \<Rightarrow> bool" where
  "pw_named requestId r \<longleftrightarrow> show_int (pw_requestId r) = requestId"

definition readPublicWriteRequest :: "string \<Rightarrow> public_write_db \<Rightarrow> public_write_view option" where
  "readPublicWriteRequest requestId db = map_option public_write_view_of (List.find (pw_named requestId) (pd_rows db))"

definition readPublicWriteRequestByHash :: "string \<Rightarrow> public_write_db \<Rightarrow> public_write_view option" where
  "readPublicWriteRequestByHash requestHash db =
     (case List.find (\<lambda>r. pw_requestHash r = requestHash) (pd_rows db) of None \<Rightarrow> None
      | Some r \<Rightarrow> readPublicWriteRequest (show_int (pw_requestId r)) db)"

text \<open>The unique keys: the hash, and the nonce of an actor's action.\<close>

definition pw_nonce_key :: "public_write_row \<Rightarrow> public_write_action \<times> string \<times> string" where
  "pw_nonce_key r = (pw_actionType r, js_lower (pw_actorAddress r), pw_requestNonce r)"

definition pw_row_of :: "int \<Rightarrow> int \<Rightarrow> public_write_input \<Rightarrow> public_write_row" where
  "pw_row_of now requestId input =
     \<lparr>pw_requestId = requestId, pw_actionType = pn_actionType input, pw_actorAddress = js_lower (pn_actorAddress input),
      pw_chainId = pn_chainId input, pw_requestNonce = pn_requestNonce input, pw_scopeKey = pn_scopeKey input,
      pw_requestHash = pn_requestHash input, pw_signature = pn_signature input, pw_payload = pn_payload input,
      pw_status = pn_status input, pw_outcomeDetail = pn_outcomeDetail input, pw_createdAt = now, pw_updatedAt = now,
      pw_leaseOwner = None, pw_leaseExpiresAt = None\<rparr>"

definition insertPublicWriteRequest ::
  "int \<Rightarrow> public_write_input \<Rightarrow> public_write_db \<Rightarrow> request_error + public_write_db \<times> public_write_view" where
  "insertPublicWriteRequest now input db =
     (let row = pw_row_of now (pd_next db) input; db' = db\<lparr>pd_rows := pd_rows db @ [row], pd_next := pd_next db + 1\<rparr> in
      if list_ex (\<lambda>r. pw_requestHash r = pw_requestHash row \<or> pw_nonce_key r = pw_nonce_key row) (pd_rows db)
      then Inl Unique_violation
      else (case readPublicWriteRequest (show_int (pw_requestId row)) db' of
          None \<Rightarrow> Inl Insert_failed | Some view \<Rightarrow> Inr (db', view)))"

text \<open>The three status updates: no update leaves \<open>accepted\<close>.\<close>

definition pw_set_status :: "int \<Rightarrow> public_write_status \<Rightarrow> string option \<Rightarrow> public_write_row \<Rightarrow> public_write_row" where
  "pw_set_status now status detail r = r\<lparr>pw_status := status, pw_outcomeDetail := detail, pw_updatedAt := now\<rparr>"

definition pw_mark ::
  "int \<Rightarrow> public_write_status \<Rightarrow> string \<Rightarrow> string option \<Rightarrow> public_write_db \<Rightarrow> public_write_db" where
  "pw_mark now status requestId detail db =
     db\<lparr>pd_rows := update_where (\<lambda>r. pw_named requestId r \<and> pw_status r \<noteq> Pw_accepted) (pw_set_status now status detail) (pd_rows db)\<rparr>"

definition pw_read_back :: "string \<Rightarrow> public_write_db \<Rightarrow> public_write_db \<times> (request_error + public_write_view)" where
  "pw_read_back requestId db =
     (db, case readPublicWriteRequest requestId db of None \<Rightarrow> Inl Request_not_found | Some view \<Rightarrow> Inr view)"

definition markPublicWriteRequestAccepted ::
  "int \<Rightarrow> string \<Rightarrow> string option \<Rightarrow> public_write_db \<Rightarrow> public_write_db \<times> (request_error + public_write_view)" where
  "markPublicWriteRequestAccepted now requestId outcomeDetail db =
     pw_read_back requestId (pw_mark now Pw_accepted requestId outcomeDetail db)"

definition markPublicWriteRequestPending ::
  "int \<Rightarrow> string \<Rightarrow> string \<Rightarrow> public_write_db \<Rightarrow> public_write_db \<times> (request_error + public_write_view)" where
  "markPublicWriteRequestPending now requestId outcomeDetail db =
     pw_read_back requestId (pw_mark now Pw_pending requestId (Some (take 2000 outcomeDetail)) db)"

definition markPublicWriteRequestRejected ::
  "int \<Rightarrow> string \<Rightarrow> string \<Rightarrow> public_write_db \<Rightarrow> public_write_db \<times> (request_error + public_write_view)" where
  "markPublicWriteRequestRejected now requestId outcomeDetail db =
     pw_read_back requestId (pw_mark now Pw_rejected requestId (Some (take 2000 outcomeDetail)) db)"

text \<open>Execution leases. The boolean is \<open>rowCount === 1\<close>.\<close>

definition row_count :: "('r \<Rightarrow> bool) \<Rightarrow> 'r list \<Rightarrow> nat" where
  "row_count p rows = length (filter p rows)"

definition pw_update_lease ::
  "(public_write_row \<Rightarrow> bool) \<Rightarrow> (public_write_row \<Rightarrow> public_write_row) \<Rightarrow> public_write_db \<Rightarrow> public_write_db \<times> bool" where
  "pw_update_lease p f db = (db\<lparr>pd_rows := update_where p f (pd_rows db)\<rparr>, row_count p (pd_rows db) = 1)"

definition pw_free :: "int \<Rightarrow> public_write_row \<Rightarrow> bool" where
  "pw_free now r \<longleftrightarrow> (case pw_leaseExpiresAt r of None \<Rightarrow> True | Some t \<Rightarrow> t \<le> now)"

definition pw_held :: "int \<Rightarrow> string \<Rightarrow> public_write_row \<Rightarrow> bool" where
  "pw_held now leaseOwner r \<longleftrightarrow> pw_leaseOwner r = Some leaseOwner \<and>
     (case pw_leaseExpiresAt r of None \<Rightarrow> False | Some t \<Rightarrow> t > now)"

definition reservePublicWriteRequestExecution ::
  "int \<Rightarrow> int \<Rightarrow> string \<Rightarrow> string \<Rightarrow> public_write_db \<Rightarrow> public_write_db \<times> bool" where
  "reservePublicWriteRequestExecution now leaseMs leaseOwner requestId =
     pw_update_lease (\<lambda>r. pw_named requestId r \<and> pw_free now r)
       (\<lambda>r. r\<lparr>pw_leaseOwner := Some leaseOwner, pw_leaseExpiresAt := Some (now + leaseMs), pw_updatedAt := now\<rparr>)"

definition renewPublicWriteRequestExecution ::
  "int \<Rightarrow> int \<Rightarrow> string \<Rightarrow> string \<Rightarrow> public_write_db \<Rightarrow> public_write_db \<times> bool" where
  "renewPublicWriteRequestExecution now leaseMs leaseOwner requestId =
     pw_update_lease (\<lambda>r. pw_named requestId r \<and> pw_held now leaseOwner r)
       (\<lambda>r. r\<lparr>pw_leaseExpiresAt := Some (now + leaseMs), pw_updatedAt := now\<rparr>)"

definition assertPublicWriteRequestExecution :: "int \<Rightarrow> string \<Rightarrow> string \<Rightarrow> public_write_db \<Rightarrow> request_error + unit" where
  "assertPublicWriteRequestExecution now leaseOwner requestId db =
     (if row_count (\<lambda>r. pw_named requestId r \<and> pw_held now leaseOwner r) (pd_rows db) \<noteq> 1 then Inl Lease_lost else Inr ())"

definition releasePublicWriteRequestExecution :: "int \<Rightarrow> string \<Rightarrow> string \<Rightarrow> public_write_db \<Rightarrow> public_write_db" where
  "releasePublicWriteRequestExecution now leaseOwner requestId db =
     db\<lparr>pd_rows := update_where (\<lambda>r. pw_named requestId r \<and> pw_leaseOwner r = Some leaseOwner)
       (\<lambda>r. r\<lparr>pw_leaseOwner := None, pw_leaseExpiresAt := None, pw_updatedAt := now\<rparr>) (pd_rows db)\<rparr>"

section \<open>Agent requests\<close>

datatype agent_request_status = Aq_accepted | Aq_rejected

record agent_request_row =
  aq_requestId :: int
  aq_actionType :: agent_request_action
  aq_agentId :: string
  aq_actorAddress :: string
  aq_requestNonce :: string
  aq_scopeKey :: string
  aq_requestHash :: string
  aq_signature :: string
  aq_payload :: "(string \<times> js_value) list"
  aq_status :: agent_request_status
  aq_outcomeDetail :: "string option"
  aq_createdAt :: int
  aq_updatedAt :: int

record agent_request_view =
  ax_actionType :: agent_request_action
  ax_actorAddress :: string
  ax_agentId :: string
  ax_createdAt :: string
  ax_outcomeDetail :: "string option"
  ax_payload :: "(string \<times> js_value) list"
  ax_requestHash :: string
  ax_requestId :: string
  ax_requestNonce :: string
  ax_scopeKey :: string
  ax_signature :: string
  ax_status :: agent_request_status
  ax_updatedAt :: string

record agent_request_input =
  an_actionType :: agent_request_action
  an_actorAddress :: string
  an_agentId :: string
  an_outcomeDetail :: "string option"
  an_payload :: "(string \<times> js_value) list"
  an_requestHash :: string
  an_requestNonce :: string
  an_scopeKey :: string
  an_signature :: string
  an_status :: agent_request_status

record agent_request_db =
  ad_rows :: "agent_request_row list"
  ad_next :: int

record agent_request_options =
  ap_actionType :: "agent_request_action option"
  ap_agentId :: "string option"
  ap_limit :: "int option"
  ap_offset :: "int option"
  ap_scopeKey :: "string option"
  ap_status :: "agent_request_status option"

definition agent_request_view_of :: "agent_request_row \<Rightarrow> agent_request_view" where
  "agent_request_view_of r =
     \<lparr>ax_actionType = aq_actionType r, ax_actorAddress = aq_actorAddress r, ax_agentId = aq_agentId r,
      ax_createdAt = iso_string (aq_createdAt r), ax_outcomeDetail = aq_outcomeDetail r, ax_payload = aq_payload r,
      ax_requestHash = aq_requestHash r, ax_requestId = show_int (aq_requestId r), ax_requestNonce = aq_requestNonce r,
      ax_scopeKey = aq_scopeKey r, ax_signature = aq_signature r, ax_status = aq_status r,
      ax_updatedAt = iso_string (aq_updatedAt r)\<rparr>"

definition readAgentRequest :: "string \<Rightarrow> agent_request_db \<Rightarrow> agent_request_view option" where
  "readAgentRequest requestId db =
     map_option agent_request_view_of (List.find (\<lambda>r. show_int (aq_requestId r) = requestId) (ad_rows db))"

definition aq_nonce_key :: "agent_request_row \<Rightarrow> agent_request_action \<times> string \<times> string" where
  "aq_nonce_key r = (aq_actionType r, js_lower (aq_actorAddress r), aq_requestNonce r)"

definition aq_row_of :: "int \<Rightarrow> int \<Rightarrow> agent_request_input \<Rightarrow> agent_request_row" where
  "aq_row_of now requestId input =
     \<lparr>aq_requestId = requestId, aq_actionType = an_actionType input, aq_agentId = an_agentId input,
      aq_actorAddress = js_lower (an_actorAddress input), aq_requestNonce = an_requestNonce input,
      aq_scopeKey = an_scopeKey input, aq_requestHash = an_requestHash input, aq_signature = an_signature input,
      aq_payload = an_payload input, aq_status = an_status input, aq_outcomeDetail = an_outcomeDetail input,
      aq_createdAt = now, aq_updatedAt = now\<rparr>"

definition insertAgentRequest ::
  "int \<Rightarrow> agent_request_input \<Rightarrow> agent_request_db \<Rightarrow> request_error + agent_request_db \<times> agent_request_view" where
  "insertAgentRequest now input db =
     (let row = aq_row_of now (ad_next db) input; db' = db\<lparr>ad_rows := ad_rows db @ [row], ad_next := ad_next db + 1\<rparr> in
      if list_ex (\<lambda>r. aq_requestHash r = aq_requestHash row \<or> aq_nonce_key r = aq_nonce_key row) (ad_rows db)
      then Inl Unique_violation
      else (case readAgentRequest (show_int (aq_requestId row)) db' of
          None \<Rightarrow> Inl Insert_failed | Some view \<Rightarrow> Inr (db', view)))"

definition given :: "'a option \<Rightarrow> ('a \<Rightarrow> bool) \<Rightarrow> bool" where
  "given filter_value p = (case filter_value of None \<Rightarrow> True | Some v \<Rightarrow> p v)"

text \<open>A string option that is empty is falsy: no clause.\<close>

definition given_text :: "string option \<Rightarrow> (string \<Rightarrow> bool) \<Rightarrow> bool" where
  "given_text filter_value p = (truthy filter_value \<longrightarrow> p (nullish filter_value []))"

definition agent_request_selected :: "agent_request_options \<Rightarrow> agent_request_row \<Rightarrow> bool" where
  "agent_request_selected options r \<longleftrightarrow>
     given (ap_actionType options) (\<lambda>v. aq_actionType r = v) \<and> given_text (ap_agentId options) (\<lambda>v. aq_agentId r = v) \<and>
     given_text (ap_scopeKey options) (\<lambda>v. aq_scopeKey r = v) \<and> given (ap_status options) (\<lambda>v. aq_status r = v)"

definition compare_newest :: "('r \<Rightarrow> int) \<Rightarrow> ('r \<Rightarrow> int) \<Rightarrow> 'r \<Rightarrow> 'r \<Rightarrow> int" where
  "compare_newest createdAt serial x y =
     (if createdAt y - createdAt x \<noteq> 0 then createdAt y - createdAt x else serial y - serial x)"

definition readAgentRequestsPage :: "agent_request_options \<Rightarrow> agent_request_db \<Rightarrow> agent_request_view page" where
  "readAgentRequestsPage options db =
     (let page = queryPage (js_sort (compare_newest aq_createdAt aq_requestId)
                   (filter (agent_request_selected options) (ad_rows db))) (ap_limit options) (ap_offset options)
      in (map agent_request_view_of (fst page), snd page))"

end
