(* ===== verification/Operator_Requests.thy ===== *)
theory Operator_Requests
  imports Requests
begin

text \<open>
  \<open>shared/operator-requests.ts\<close>: the nonces of an operator, one counter for each action and address,
  and the table of operator requests. Neither status update looks at the status it replaces.
\<close>

section \<open>Nonces\<close>

record nonce_row =
  nr_actionType :: operator_action
  nr_operatorAddress :: string
  nr_nextNonce :: int

definition nonce_key :: "nonce_row \<Rightarrow> operator_action \<times> string" where
  "nonce_key r = (nr_actionType r, nr_operatorAddress r)"

definition nonce_row_present :: "operator_action \<Rightarrow> string \<Rightarrow> nonce_row list \<Rightarrow> nonce_row list" where
  "nonce_row_present action address rows =
     (if list_ex (\<lambda>r. nonce_key r = (action, address)) rows then rows
      else rows @ [\<lparr>nr_actionType = action, nr_operatorAddress = address, nr_nextNonce = 0\<rparr>])"

text \<open>One transaction: the row is created when it is missing, locked, read and counted up.\<close>

definition reserveOperatorRequestNonce :: "operator_action \<Rightarrow> string \<Rightarrow> nonce_row list \<Rightarrow> nonce_row list \<times> int" where
  "reserveOperatorRequestNonce action operatorAddress rows =
     (let address = js_lower operatorAddress; rows' = nonce_row_present action address rows;
          reserved = (case List.find (\<lambda>r. nonce_key r = (action, address)) rows' of None \<Rightarrow> 0 | Some r \<Rightarrow> nr_nextNonce r)
      in (update_where (\<lambda>r. nonce_key r = (action, address)) (\<lambda>r. r\<lparr>nr_nextNonce := reserved + 1\<rparr>) rows', reserved))"

section \<open>Operator requests\<close>

datatype operator_status = Op_failed | Op_prepared | Op_submitted

record operator_row =
  ow_requestId :: int
  ow_actionType :: operator_action
  ow_operatorAddress :: string
  ow_requestNonce :: int
  ow_chainId :: int
  ow_scopeKey :: string
  ow_requestHash :: string
  ow_signature :: string
  ow_payloadArtifactKey :: "string option"
  ow_status :: operator_status
  ow_submissionReference :: "string option"
  ow_failureReason :: "string option"
  ow_createdAt :: int
  ow_submittedAt :: "int option"
  ow_updatedAt :: int

record operator_view =
  oy_actionType :: operator_action
  oy_chainId :: int
  oy_createdAt :: string
  oy_failureReason :: "string option"
  oy_operatorAddress :: string
  oy_payloadArtifactKey :: "string option"
  oy_requestHash :: string
  oy_requestId :: string
  oy_requestNonce :: string
  oy_scopeKey :: string
  oy_signature :: string
  oy_status :: operator_status
  oy_submissionReference :: "string option"
  oy_submittedAt :: "string option"
  oy_updatedAt :: string

record operator_input =
  on_actionType :: operator_action
  on_chainId :: int
  on_operatorAddress :: string
  on_payloadArtifactKey :: "string option"
  on_requestHash :: string
  on_requestNonce :: int
  on_scopeKey :: string
  on_signature :: string

record operator_options =
  og_actionType :: "operator_action option"
  og_limit :: "int option"
  og_offset :: "int option"
  og_operatorAddress :: "string option"
  og_scopeKey :: "string option"
  og_status :: "operator_status option"

record operator_db =
  od_rows :: "operator_row list"
  od_next :: int

definition operator_empty :: operator_db where
  "operator_empty = \<lparr>od_rows = [], od_next = 1\<rparr>"

text \<open>The view has the nonce as text.\<close>

definition operator_view_of :: "operator_row \<Rightarrow> operator_view" where
  "operator_view_of r =
     \<lparr>oy_actionType = ow_actionType r, oy_chainId = ow_chainId r, oy_createdAt = iso_string (ow_createdAt r),
      oy_failureReason = ow_failureReason r, oy_operatorAddress = ow_operatorAddress r,
      oy_payloadArtifactKey = ow_payloadArtifactKey r, oy_requestHash = ow_requestHash r,
      oy_requestId = show_int (ow_requestId r), oy_requestNonce = show_int (ow_requestNonce r), oy_scopeKey = ow_scopeKey r,
      oy_signature = ow_signature r, oy_status = ow_status r, oy_submissionReference = ow_submissionReference r,
      oy_submittedAt = map_option iso_string (ow_submittedAt r), oy_updatedAt = iso_string (ow_updatedAt r)\<rparr>"

definition by_serial :: "operator_row \<Rightarrow> operator_row \<Rightarrow> int" where
  "by_serial x y = ow_requestId x - ow_requestId y"

definition queryOperatorRequests :: "(operator_row \<Rightarrow> bool) \<Rightarrow> operator_db \<Rightarrow> operator_row list" where
  "queryOperatorRequests selected db = js_sort by_serial (filter selected (od_rows db))"

definition ow_named :: "string \<Rightarrow> operator_row \<Rightarrow> bool" where
  "ow_named requestId r \<longleftrightarrow> show_int (ow_requestId r) = requestId"

definition readOperatorRequest :: "string \<Rightarrow> operator_db \<Rightarrow> operator_view option" where
  "readOperatorRequest requestId db =
     (case queryOperatorRequests (ow_named requestId) db of [] \<Rightarrow> None | r # _ \<Rightarrow> Some (operator_view_of r))"

definition ow_row_of :: "int \<Rightarrow> int \<Rightarrow> operator_input \<Rightarrow> operator_row" where
  "ow_row_of now requestId input =
     \<lparr>ow_requestId = requestId, ow_actionType = on_actionType input, ow_operatorAddress = js_lower (on_operatorAddress input),
      ow_requestNonce = on_requestNonce input, ow_chainId = on_chainId input, ow_scopeKey = on_scopeKey input,
      ow_requestHash = on_requestHash input, ow_signature = on_signature input,
      ow_payloadArtifactKey = on_payloadArtifactKey input, ow_status = Op_prepared, ow_submissionReference = None,
      ow_failureReason = None, ow_createdAt = now, ow_submittedAt = None, ow_updatedAt = now\<rparr>"

definition ow_nonce_key :: "operator_row \<Rightarrow> operator_action \<times> string \<times> int" where
  "ow_nonce_key r = (ow_actionType r, ow_operatorAddress r, ow_requestNonce r)"

definition insertOperatorRequest ::
  "int \<Rightarrow> operator_input \<Rightarrow> operator_db \<Rightarrow> request_error + operator_db \<times> operator_view" where
  "insertOperatorRequest now input db =
     (let row = ow_row_of now (od_next db) input; db' = db\<lparr>od_rows := od_rows db @ [row], od_next := od_next db + 1\<rparr> in
      if list_ex (\<lambda>r. ow_requestHash r = ow_requestHash row \<or> ow_nonce_key r = ow_nonce_key row) (od_rows db)
      then Inl Unique_violation
      else (case readOperatorRequest (show_int (ow_requestId row)) db' of
          None \<Rightarrow> Inl Insert_failed | Some view \<Rightarrow> Inr (db', view)))"

definition ow_read_back :: "string \<Rightarrow> operator_db \<Rightarrow> operator_db \<times> (request_error + operator_view)" where
  "ow_read_back requestId db =
     (db, case readOperatorRequest requestId db of None \<Rightarrow> Inl Request_not_found | Some view \<Rightarrow> Inr view)"

definition markOperatorRequestSubmitted ::
  "int \<Rightarrow> string \<Rightarrow> string \<Rightarrow> operator_db \<Rightarrow> operator_db \<times> (request_error + operator_view)" where
  "markOperatorRequestSubmitted now requestId submissionReference db =
     ow_read_back requestId (db\<lparr>od_rows := update_where (ow_named requestId)
       (\<lambda>r. r\<lparr>ow_status := Op_submitted, ow_submissionReference := Some submissionReference, ow_submittedAt := Some now,
            ow_updatedAt := now\<rparr>) (od_rows db)\<rparr>)"

definition markOperatorRequestFailed ::
  "int \<Rightarrow> string \<Rightarrow> string \<Rightarrow> operator_db \<Rightarrow> operator_db \<times> (request_error + operator_view)" where
  "markOperatorRequestFailed now requestId failureReason db =
     ow_read_back requestId (db\<lparr>od_rows := update_where (ow_named requestId)
       (\<lambda>r. r\<lparr>ow_status := Op_failed, ow_failureReason := Some (take 2000 failureReason), ow_updatedAt := now\<rparr>) (od_rows db)\<rparr>)"

definition operator_selected :: "operator_options \<Rightarrow> operator_row \<Rightarrow> bool" where
  "operator_selected options r \<longleftrightarrow>
     given (og_actionType options) (\<lambda>v. ow_actionType r = v) \<and>
     given_text (og_operatorAddress options) (\<lambda>v. js_lower (ow_operatorAddress r) = js_lower v) \<and>
     given_text (og_scopeKey options) (\<lambda>v. ow_scopeKey r = v) \<and> given (og_status options) (\<lambda>v. ow_status r = v)"

definition readOperatorRequestsPage :: "operator_options \<Rightarrow> operator_db \<Rightarrow> operator_view page" where
  "readOperatorRequestsPage options db =
     (let page = queryPage (queryOperatorRequests (operator_selected options) db) (og_limit options) (og_offset options)
      in (map operator_view_of (fst page), snd page))"

section \<open>Reservations give every nonce once\<close>

definition nonces_distinct :: "nonce_row list \<Rightarrow> bool" where
  "nonces_distinct rows \<longleftrightarrow> distinct (map nonce_key rows)"

definition next_nonce :: "operator_action \<times> string \<Rightarrow> nonce_row list \<Rightarrow> int" where
  "next_nonce key rows = (case List.find (\<lambda>r. nonce_key r = key) rows of None \<Rightarrow> 0 | Some r \<Rightarrow> nr_nextNonce r)"

text \<open>A sequence of reservations, with the nonces they return in order.\<close>

fun reserve_all :: "(operator_action \<times> string) list \<Rightarrow> nonce_row list \<Rightarrow> nonce_row list \<times> int list" where
  "reserve_all [] rows = (rows, [])"
| "reserve_all ((action, address) # calls) rows =
     (let (rows', nonce) = reserveOperatorRequestNonce action address rows; (rows'', nonces) = reserve_all calls rows'
      in (rows'', nonce # nonces))"

definition call_key :: "operator_action \<times> string \<Rightarrow> operator_action \<times> string" where
  "call_key c = (fst c, js_lower (snd c))"

lemma find_update_where:
  "(\<And>r. nonce_key (f r) = nonce_key r) \<Longrightarrow>
    List.find (\<lambda>r. nonce_key r = k) (update_where (\<lambda>r. nonce_key r = k') f rows) =
      map_option (\<lambda>r. if k = k' then f r else r) (List.find (\<lambda>r. nonce_key r = k) rows)"
  by (induction rows) auto

lemma find_append: "List.find p (xs @ ys) = (case List.find p xs of None \<Rightarrow> List.find p ys | Some x \<Rightarrow> Some x)"
  by (induction xs) auto

lemma nonce_key_simps [simp]:
  "nonce_key \<lparr>nr_actionType = a, nr_operatorAddress = s, nr_nextNonce = n\<rparr> = (a, s)"
  "nonce_key (r\<lparr>nr_nextNonce := n\<rparr>) = nonce_key r"
  by (simp_all add: nonce_key_def)

lemma next_nonce_present: "next_nonce k (nonce_row_present a s rows) = next_nonce k rows"
proof (cases "list_ex (\<lambda>r. nonce_key r = (a, s)) rows")
  case False
  then show ?thesis
    by (auto simp: next_nonce_def nonce_row_present_def find_append split: option.split)
qed (simp add: nonce_row_present_def)

lemma present_found: "List.find (\<lambda>r. nonce_key r = (a, s)) (nonce_row_present a s rows) \<noteq> None"
  by (auto simp: nonce_row_present_def find_None_iff list_ex_iff intro: exI [of _ "\<lparr>nr_actionType = a, nr_operatorAddress = s, nr_nextNonce = 0\<rparr>"])

lemma reserve_nonce:
  "snd (reserveOperatorRequestNonce a s rows) = next_nonce (a, js_lower s) rows"
  "next_nonce k (fst (reserveOperatorRequestNonce a s rows)) = next_nonce k rows + (if k = (a, js_lower s) then 1 else 0)"
proof -
  define rows' where "rows' = nonce_row_present a (js_lower s) rows"
  have n: "next_nonce k rows' = next_nonce k rows" for k by (simp add: rows'_def next_nonce_present)
  have r: "reserveOperatorRequestNonce a s rows =
      (update_where (\<lambda>r. nonce_key r = (a, js_lower s)) (\<lambda>r. r\<lparr>nr_nextNonce := next_nonce (a, js_lower s) rows' + 1\<rparr>) rows',
       next_nonce (a, js_lower s) rows')"
    by (simp add: reserveOperatorRequestNonce_def rows'_def next_nonce_def Let_def)
  show "snd (reserveOperatorRequestNonce a s rows) = next_nonce (a, js_lower s) rows"
    by (simp add: r n)
  obtain x where x: "List.find (\<lambda>r. nonce_key r = (a, js_lower s)) rows' = Some x"
    using present_found [of a "js_lower s" rows] by (auto simp: rows'_def)
  have "next_nonce k (fst (reserveOperatorRequestNonce a s rows)) = next_nonce k rows' + (if k = (a, js_lower s) then 1 else 0)"
    by (cases "k = (a, js_lower s)") (simp_all add: r next_nonce_def find_update_where x option.case_eq_if option.map_ident)
  then show "next_nonce k (fst (reserveOperatorRequestNonce a s rows)) = next_nonce k rows + (if k = (a, js_lower s) then 1 else 0)"
    by (simp add: n)
qed

text \<open>
  C15: \<open>reserveOperatorRequestNonce\<close> over any interleaving of calls: the calls for one action and one
  operator, in whatever case its address is written, get consecutive nonces from the one that was
  next, whatever other operators reserve in between.
\<close>

theorem operator_nonces_consecutive:
  "map snd (filter (\<lambda>p. call_key (fst p) = k) (zip calls (snd (reserve_all calls rows)))) =
   map (\<lambda>i. next_nonce k rows + int i) [0..<length (filter (\<lambda>c. call_key c = k) calls)]"
proof (induction calls arbitrary: rows)
  case (Cons c calls)
  obtain a s where c: "c = (a, s)" by (cases c)
  define rows' where "rows' = fst (reserveOperatorRequestNonce a s rows)"
  have e: "snd (reserve_all (c # calls) rows) = next_nonce (a, js_lower s) rows # snd (reserve_all calls rows')"
    using reserve_nonce(1) [of a s rows] by (simp add: c rows'_def case_prod_unfold Let_def)
  have n: "next_nonce k rows' = next_nonce k rows + (if k = call_key c then 1 else 0)"
    by (simp add: rows'_def reserve_nonce c call_key_def)
  have m: "map (\<lambda>i. b + int i) [0..<Suc m] = b # map (\<lambda>i. b + 1 + int i) [0..<m]" for b m
    by (simp add: upt_conv_Cons map_Suc_upt [symmetric] comp_def del: upt_Suc)
  show ?case
    using Cons.IH [of rows'] unfolding e by (simp add: n m del: upt_Suc reserve_all.simps) (auto simp: c call_key_def)
qed simp

end
