(* ===== verification/Request_Auth.thy ===== *)
theory Request_Auth
  imports Requests Read_Queries Settings
begin

text \<open>
  The authentication of \<open>api/auth.ts\<close>: signed agent requests, signed public writes with their
  recording and replays, and the operator's lifecycle requests. \<open>sha256Hex\<close>, \<open>verifyMessage\<close> and
  \<open>Date.parse\<close> are parameters; \<open>clock\<close> is \<open>Date.now()\<close> and \<open>now\<close> the database's \<open>NOW()\<close>. Errors are
  the messages of the thrown errors, or HTTP errors with their status.
\<close>

datatype api_error = Thrown string | Http int string | Query_failed query_error

record crypto =
  cr_sha256 :: "string \<Rightarrow> string"
  cr_recover :: recover
  cr_date :: "string \<Rightarrow> int option"

definition api_error_message :: "api_error \<Rightarrow> string" where
  "api_error_message e = (case e of Thrown m \<Rightarrow> m | Http status m \<Rightarrow> m | Query_failed q \<Rightarrow> ''query failed'')"

definition signature_message :: "string \<Rightarrow> signature_error \<Rightarrow> string" where
  "signature_message kind e =
     (case e of Unreadable_signature m \<Rightarrow> m
      | Signer_mismatch expected recovered \<Rightarrow>
          kind @ '' request signature mismatch: expected '' @ expected @ '', recovered '' @ recovered)"

definition verified :: "string \<Rightarrow> signature_error + 'a \<Rightarrow> api_error + 'a" where
  "verified kind r = (case r of Inl e \<Rightarrow> Inl (Thrown (signature_message kind e)) | Inr x \<Rightarrow> Inr x)"

definition max_age_ms :: int where
  "max_age_ms = 15 * 60 * 1000"

text \<open>The two tests of \<open>issuedAt\<close>.\<close>

definition check_age :: "crypto \<Rightarrow> int \<Rightarrow> string \<Rightarrow> string \<Rightarrow> string \<Rightarrow> api_error + unit" where
  "check_age cr clock issuedAt invalid expired =
     (case cr_date cr issuedAt of
        None \<Rightarrow> Inl (Thrown invalid)
      | Some t \<Rightarrow> if \<bar>clock - t\<bar> > max_age_ms then Inl (Thrown expired) else Inr ())"

section \<open>Agent requests\<close>

definition assertAuthorizedAgentActor :: "read_db \<Rightarrow> string \<Rightarrow> string \<Rightarrow> api_error + unit" where
  "assertAuthorizedAgentActor rdb agentId actorAddress =
     (case readAgent rdb agentId of Inl e \<Rightarrow> Inl (Query_failed e) | Inr agent \<Rightarrow>
      (case readAgentControllers rdb agentId of Inl e \<Rightarrow> Inl (Query_failed e) | Inr controllers \<Rightarrow>
        (case agent of None \<Rightarrow> Inl (Thrown ''agent_not_found'')
         | Some a \<Rightarrow>
            let normalizedActor = js_lower actorAddress in
            if js_lower (nv_operator a) = normalizedActor then Inr ()
            else if \<not> list_ex (\<lambda>c. ov_authorized c \<and> js_lower (ov_controller c) = normalizedActor) controllers
            then Inl (Thrown ''agent_actor_unauthorized'') else Inr ())))"

record agent_expected =
  gx_actionType :: agent_request_action
  gx_scopeKey :: "string option"
  gx_scopeKeyValidator :: "(string \<Rightarrow> agent_envelope \<Rightarrow> bool) option"

record authenticated_agent =
  ga_envelope :: agent_envelope
  ga_requestHash :: string
  ga_signature :: string

definition scope_refused :: "string option \<Rightarrow> (string \<Rightarrow> 'e \<Rightarrow> bool) option \<Rightarrow> string \<Rightarrow> 'e \<Rightarrow> bool" where
  "scope_refused scopeKey validator actual envelope \<longleftrightarrow>
     (case scopeKey of None \<Rightarrow> False | Some s \<Rightarrow> actual \<noteq> s) \<or>
     (case validator of None \<Rightarrow> False | Some p \<Rightarrow> \<not> p actual envelope)"

definition authenticateSignedAgentRequest ::
  "crypto \<Rightarrow> read_db \<Rightarrow> int \<Rightarrow> agent_expected \<Rightarrow> agent_envelope \<Rightarrow> string \<Rightarrow> api_error + authenticated_agent" where
  "authenticateSignedAgentRequest cr rdb clock expected envelope signature =
     (if ae_actionType envelope \<noteq> gx_actionType expected then Inl (Thrown ''agent_request_action_mismatch'')
      else if scope_refused (gx_scopeKey expected) (gx_scopeKeyValidator expected) (ae_scopeKey envelope) envelope
      then Inl (Thrown ''agent_request_scope_mismatch'')
      else and_then (check_age cr clock (ae_issuedAt envelope) ''invalid_agent_request_issued_at'' ''agent_request_expired'') (\<lambda>_.
        and_then (verified ''agent'' (verifyAgentRequestEnvelope (cr_sha256 cr) (cr_recover cr) envelope signature)) (\<lambda>(_, requestHash).
        and_then (assertAuthorizedAgentActor rdb (ae_agentId envelope) (ae_actorAddress envelope)) (\<lambda>_.
          Inr \<lparr>ga_envelope = envelope, ga_requestHash = requestHash, ga_signature = signature\<rparr>))))"

section \<open>Public writes\<close>

record public_write_expected =
  px_actionTypes :: "public_write_action list"
  px_allowRecordedReplay :: bool
  px_replayActionTypes :: "public_write_action list"
  px_chainId :: int
  px_scopeKey :: "string option"
  px_scopeKeyValidator :: "(string \<Rightarrow> public_write_envelope \<Rightarrow> bool) option"

record authenticated_write =
  aw_acceptedRequestId :: string
  aw_envelope :: public_write_envelope
  aw_recordedReplay :: bool
  aw_requestHash :: string
  aw_signature :: string

definition replay_allowed :: "public_write_expected \<Rightarrow> public_write_envelope \<Rightarrow> bool" where
  "replay_allowed expected envelope \<longleftrightarrow>
     px_allowRecordedReplay expected \<or> pe_actionType envelope \<in> set (px_replayActionTypes expected)"

definition write_input :: "public_write_envelope \<Rightarrow> string \<Rightarrow> string \<Rightarrow> public_write_input" where
  "write_input envelope requestHash signature =
     \<lparr>pn_actionType = pe_actionType envelope, pn_actorAddress = pe_actorAddress envelope, pn_chainId = pe_chainId envelope,
      pn_outcomeDetail = None, pn_payload = pe_payload envelope, pn_requestHash = requestHash,
      pn_requestNonce = pe_requestNonce envelope, pn_scopeKey = pe_scopeKey envelope, pn_signature = signature,
      pn_status = Pw_pending\<rparr>"

text \<open>
  The recording. Other requests may be recorded between the first look at the table, \<open>seen\<close>, and the
  insertion into \<open>db\<close>.
\<close>

definition record_write ::
  "int \<Rightarrow> bool \<Rightarrow> public_write_envelope \<Rightarrow> string \<Rightarrow> string \<Rightarrow> public_write_db \<Rightarrow>
   public_write_db \<times> (api_error + authenticated_write)" where
  "record_write now allowRecordedReplay envelope requestHash signature db =
     (case insertPublicWriteRequest now (write_input envelope requestHash signature) db of
        Inr (db', accepted) \<Rightarrow>
          (db', Inr \<lparr>aw_acceptedRequestId = pv_requestId accepted, aw_envelope = envelope, aw_recordedReplay = False,
             aw_requestHash = requestHash, aw_signature = signature\<rparr>)
      | Inl Unique_violation \<Rightarrow>
          (db, case (if allowRecordedReplay then readPublicWriteRequestByHash requestHash db else None) of
             None \<Rightarrow> Inl (Thrown ''public_write_request_duplicate'')
           | Some existing \<Rightarrow> Inr \<lparr>aw_acceptedRequestId = pv_requestId existing, aw_envelope = envelope,
               aw_recordedReplay = True, aw_requestHash = requestHash, aw_signature = signature\<rparr>)
      | Inl e \<Rightarrow> (db, Inl (Thrown ''public_write_request_insert_failed'')))"

definition authenticateSignedPublicWriteRequestBody ::
  "crypto \<Rightarrow> int \<Rightarrow> int \<Rightarrow> public_write_expected \<Rightarrow> public_write_envelope \<Rightarrow> string \<Rightarrow> public_write_db \<Rightarrow> public_write_db \<Rightarrow>
   public_write_db \<times> (api_error + authenticated_write)" where
  "authenticateSignedPublicWriteRequestBody cr clock now expected envelope signature seen db =
     (if pe_actionType envelope \<notin> set (px_actionTypes expected) then (db, Inl (Thrown ''public_write_action_mismatch''))
      else if pe_chainId envelope \<noteq> px_chainId expected then (db, Inl (Thrown ''public_write_chain_mismatch''))
      else if scope_refused (px_scopeKey expected) (px_scopeKeyValidator expected) (pe_scopeKey envelope) envelope
      then (db, Inl (Thrown ''public_write_scope_mismatch''))
      else (case verified ''public write'' (verifyPublicWriteEnvelope (cr_sha256 cr) (cr_recover cr) envelope signature) of
          Inl e \<Rightarrow> (db, Inl e)
        | Inr (_, requestHash) \<Rightarrow>
           (let allowRecordedReplay = replay_allowed expected envelope in
            case (if allowRecordedReplay then readPublicWriteRequestByHash requestHash seen else None) of
              Some recorded \<Rightarrow>
                (db, Inr \<lparr>aw_acceptedRequestId = pv_requestId recorded, aw_envelope = envelope, aw_recordedReplay = True,
                   aw_requestHash = requestHash, aw_signature = signature\<rparr>)
            | None \<Rightarrow>
                (case check_age cr clock (pe_issuedAt envelope) ''invalid_public_write_issued_at'' ''public_write_request_expired'' of
                   Inl e \<Rightarrow> (db, Inl e)
                 | Inr _ \<Rightarrow> record_write now allowRecordedReplay envelope requestHash signature db))))"

section \<open>Operator lifecycle requests\<close>

definition message_includes :: "string \<Rightarrow> string \<Rightarrow> bool" where
  "message_includes s part \<longleftrightarrow> list_ex (\<lambda>i. take (length part) (drop i s) = part) [0..<Suc (length s)]"

definition bad_request_messages :: "string list" where
  "bad_request_messages =
     [''invalid_content_length'', ''invalid_json_body'', ''invalid_public_write_request_envelope'',
      ''invalid_public_write_request_signature'', ''public_write_action_mismatch'', ''public_write_chain_mismatch'',
      ''public_write_scope_mismatch'', ''invalid_public_write_issued_at'', ''public_write_request_expired'']"

definition mapSignedPublicWriteAuthError :: "api_error \<Rightarrow> api_error" where
  "mapSignedPublicWriteAuthError e =
     (let message = api_error_message e in
      if message = ''json_body_too_large'' then Http 413 message
      else if message \<in> set bad_request_messages then Http 400 message
      else if message = ''public_write_request_duplicate'' then Http 409 message
      else if message_includes message ''public write request signature mismatch'' then Http 401 ''operator_unauthorized''
      else Http 500 message)"

definition operatorTokenFallbackEnabled :: "files \<Rightarrow> environment \<Rightarrow> setting_error + bool" where
  "operatorTokenFallbackEnabled files env = readBooleanEnv files env ''SP_ENABLE_OPERATOR_TOKEN_FALLBACK'' False"

definition readOperatorApiToken :: "files \<Rightarrow> environment \<Rightarrow> setting_error + string option" where
  "readOperatorApiToken files env =
     (case readEnvValue files env ''SP_OPERATOR_API_TOKEN'' True of Inl e \<Rightarrow> Inl e
      | Inr token \<Rightarrow> Inr (if truthy token then token else None))"

text \<open>The two headers are the arguments, and so is \<open>isLocalDevelopmentRpcUrl(getRpcUrl(env))\<close>.\<close>

definition isOperatorAuthorized ::
  "files \<Rightarrow> environment \<Rightarrow> bool \<Rightarrow> string option \<Rightarrow> string option \<Rightarrow> setting_error + bool" where
  "isOperatorAuthorized files env localRpc headerToken authHeader =
     (case readOperatorApiToken files env of Inl e \<Rightarrow> Inl e
      | Inr None \<Rightarrow> Inr localRpc
      | Inr (Some configuredToken) \<Rightarrow>
          if headerToken = Some configuredToken then Inr True
          else (case authHeader of None \<Rightarrow> Inr False
            | Some h \<Rightarrow> Inr (js_starts_with ''Bearer '' h \<and> drop 7 h = configuredToken)))"

datatype operator_authentication = Signed_operator string public_write_envelope "(string \<times> js_value) list"
  | Token_operator

text \<open>
  The body is a signed envelope, another object, or no object. \<open>authorize\<close> is \<open>authorizeSignedActor\<close>;
  its rejection is a message. A refused actor's request is marked rejected.
\<close>

datatype operator_body = Signed_body public_write_envelope string | Object_body | No_object

definition authenticateOperatorLifecycleRequest ::
  "crypto \<Rightarrow> int \<Rightarrow> int \<Rightarrow> setting_error + bool \<Rightarrow> setting_error + bool \<Rightarrow> (string \<Rightarrow> string + bool) \<Rightarrow> public_write_action \<Rightarrow> int \<Rightarrow> string \<Rightarrow>
   operator_body \<Rightarrow> public_write_db \<Rightarrow> public_write_db \<times> (api_error + operator_authentication)" where
  "authenticateOperatorLifecycleRequest cr clock now fallbackEnabled operatorAuthorized authorize actionType chainId scopeKey body db =
     (case body of
        Signed_body envelope signature \<Rightarrow>
          (case authenticateSignedPublicWriteRequestBody cr clock now
              \<lparr>px_actionTypes = [actionType], px_allowRecordedReplay = False, px_replayActionTypes = [], px_chainId = chainId,
               px_scopeKey = Some scopeKey, px_scopeKeyValidator = None\<rparr> envelope signature db db of
             (db', Inl e) \<Rightarrow> (db', Inl (mapSignedPublicWriteAuthError e))
           | (db', Inr authenticated) \<Rightarrow>
               (case authorize (pe_actorAddress (aw_envelope authenticated)) of
                  Inl message \<Rightarrow>
                    (fst (markPublicWriteRequestRejected now (aw_acceptedRequestId authenticated) message db'), Inl (Http 500 message))
                | Inr False \<Rightarrow>
                    (fst (markPublicWriteRequestRejected now (aw_acceptedRequestId authenticated) ''operator_forbidden'' db'),
                     Inl (Http 403 ''operator_forbidden''))
                | Inr True \<Rightarrow>
                    (db', Inr (Signed_operator (aw_acceptedRequestId authenticated) (aw_envelope authenticated)
                       (pe_payload (aw_envelope authenticated))))))
      | Object_body \<Rightarrow>
          (case fallbackEnabled of Inl e \<Rightarrow> (db, Inl (Thrown ''invalid setting''))
           | Inr False \<Rightarrow> (db, Inl (Http 401 ''operator_unauthorized''))
           | Inr True \<Rightarrow> (case operatorAuthorized of Inl e \<Rightarrow> (db, Inl (Thrown ''invalid setting''))
               | Inr ok \<Rightarrow> (db, if ok then Inr Token_operator else Inl (Http 401 ''operator_unauthorized''))))
      | No_object \<Rightarrow> (db, Inl (Http 400 ''invalid_json_body'')))"

end
