(* ===== verification/Request_Facts.thy ===== *)
theory Request_Facts
  imports Request_Auth
begin

text \<open>
  Runs of the operations on the public writes, interleaved in any order: a signed request is recorded
  at most once, an accepted request stays as it was accepted, and an execution lease is exclusive
  until it expires or is released.
\<close>

datatype pw_call =
    Authenticate int int public_write_expected public_write_envelope string public_write_db
  | Mark_accepted int string "string option"
  | Mark_pending int string string
  | Mark_rejected int string string
  | Reserve int int string string
  | Renew int int string string
  | Release int string string

fun pw_exec :: "crypto \<Rightarrow> pw_call \<Rightarrow> public_write_db \<Rightarrow> public_write_db \<times> authenticated_write option" where
  "pw_exec cr (Authenticate clock now expected envelope signature seen) db =
     (case authenticateSignedPublicWriteRequestBody cr clock now expected envelope signature seen db of
        (db', Inl e) \<Rightarrow> (db', None) | (db', Inr a) \<Rightarrow> (db', Some a))"
| "pw_exec cr (Mark_accepted now requestId detail) db = (fst (markPublicWriteRequestAccepted now requestId detail db), None)"
| "pw_exec cr (Mark_pending now requestId detail) db = (fst (markPublicWriteRequestPending now requestId detail db), None)"
| "pw_exec cr (Mark_rejected now requestId detail) db = (fst (markPublicWriteRequestRejected now requestId detail db), None)"
| "pw_exec cr (Reserve now leaseMs owner requestId) db = (fst (reservePublicWriteRequestExecution now leaseMs owner requestId db), None)"
| "pw_exec cr (Renew now leaseMs owner requestId) db = (fst (renewPublicWriteRequestExecution now leaseMs owner requestId db), None)"
| "pw_exec cr (Release now owner requestId) db = (releasePublicWriteRequestExecution now owner requestId db, None)"

fun pw_run :: "crypto \<Rightarrow> pw_call list \<Rightarrow> public_write_db \<Rightarrow> public_write_db \<times> authenticated_write list" where
  "pw_run cr [] db = (db, [])"
| "pw_run cr (c # cs) db =
     (let (db', a) = pw_exec cr c db; (db'', as) = pw_run cr cs db'
      in (db'', (case a of None \<Rightarrow> as | Some x \<Rightarrow> x # as)))"

section \<open>The rows that are there stay\<close>

definition pw_identity :: "public_write_row \<Rightarrow> int \<times> string \<times> public_write_action \<times> string \<times> string" where
  "pw_identity r = (pw_requestId r, pw_requestHash r, pw_nonce_key r)"

definition pw_inv :: "public_write_db \<Rightarrow> bool" where
  "pw_inv db \<longleftrightarrow> distinct (map pw_requestId (pd_rows db)) \<and> (\<forall>r \<in> set (pd_rows db). pw_requestId r < pd_next db) \<and>
     distinct (map pw_requestHash (pd_rows db)) \<and> distinct (map pw_nonce_key (pd_rows db))"

text \<open>A step either updates rows in place or appends the row of a fresh request.\<close>

definition pw_updated :: "public_write_db \<Rightarrow> public_write_db \<Rightarrow> bool" where
  "pw_updated db db' \<longleftrightarrow> pd_next db' = pd_next db \<and> map pw_identity (pd_rows db') = map pw_identity (pd_rows db)"

lemma pw_updated_refl [simp]: "pw_updated db db"
  by (simp add: pw_updated_def)

lemma pw_updated_where:
  assumes "\<And>r. pw_identity (f r) = pw_identity r"
  shows "pw_updated db (db\<lparr>pd_rows := update_where p f (pd_rows db)\<rparr>)"
  using assms by (simp add: pw_updated_def update_where_key)

lemma pw_identity_set [simp]:
  "pw_identity (r\<lparr>pw_status := st\<rparr>) = pw_identity r"
  "pw_identity (r\<lparr>pw_outcomeDetail := d\<rparr>) = pw_identity r"
  "pw_identity (r\<lparr>pw_updatedAt := t\<rparr>) = pw_identity r"
  "pw_identity (r\<lparr>pw_leaseOwner := w\<rparr>) = pw_identity r"
  "pw_identity (r\<lparr>pw_leaseExpiresAt := e\<rparr>) = pw_identity r"
  by (simp_all add: pw_identity_def pw_nonce_key_def)

lemma pw_calls_update:
  "pw_updated db (fst (markPublicWriteRequestAccepted now requestId detail db))"
  "pw_updated db (fst (markPublicWriteRequestPending now requestId text db))"
  "pw_updated db (fst (markPublicWriteRequestRejected now requestId text db))"
  "pw_updated db (fst (reservePublicWriteRequestExecution now leaseMs owner requestId db))"
  "pw_updated db (fst (renewPublicWriteRequestExecution now leaseMs owner requestId db))"
  "pw_updated db (releasePublicWriteRequestExecution now owner requestId db)"
  by (simp_all add: markPublicWriteRequestAccepted_def markPublicWriteRequestPending_def markPublicWriteRequestRejected_def
      reservePublicWriteRequestExecution_def renewPublicWriteRequestExecution_def releasePublicWriteRequestExecution_def
      pw_read_back_def pw_mark_def pw_update_lease_def pw_set_status_def pw_updated_where)

definition pw_appended :: "authenticated_write \<Rightarrow> public_write_db \<Rightarrow> public_write_db \<Rightarrow> bool" where
  "pw_appended a db db' \<longleftrightarrow>
     (\<exists>r. pd_rows db' = pd_rows db @ [r] \<and> pd_next db' = pd_next db + 1 \<and> pw_requestId r = pd_next db \<and> pw_status r = Pw_pending \<and>
        aw_acceptedRequestId a = show_int (pw_requestId r) \<and> aw_requestHash a = pw_requestHash r \<and>
        pw_nonce_key r = (pe_actionType (aw_envelope a), js_lower (pe_actorAddress (aw_envelope a)), pe_requestNonce (aw_envelope a)) \<and>
        (\<forall>q \<in> set (pd_rows db). pw_requestHash q \<noteq> pw_requestHash r \<and> pw_nonce_key q \<noteq> pw_nonce_key r))"

lemma insert_appends:
  assumes "insertPublicWriteRequest now (write_input envelope requestHash signature) db = Inr (db', view)"
  shows "pw_appended \<lparr>aw_acceptedRequestId = pv_requestId view, aw_envelope = envelope, aw_recordedReplay = False,
      aw_requestHash = requestHash, aw_signature = signature\<rparr> db db'"
proof -
  define row where "row = pw_row_of now (pd_next db) (write_input envelope requestHash signature)"
  have new: "\<not> list_ex (\<lambda>r. pw_requestHash r = pw_requestHash row \<or> pw_nonce_key r = pw_nonce_key row) (pd_rows db)"
    and db': "db' = db\<lparr>pd_rows := pd_rows db @ [row], pd_next := pd_next db + 1\<rparr>"
    and view: "readPublicWriteRequest (show_int (pw_requestId row)) db' = Some view"
    using assms by (auto simp: insertPublicWriteRequest_def Let_def row_def split: if_splits option.splits)
  have "pv_requestId view = show_int (pw_requestId row)"
    using view by (auto simp: readPublicWriteRequest_def public_write_view_of_def pw_named_def find_Some_iff)
  then show ?thesis
    using new by (auto simp: pw_appended_def db' row_def pw_row_of_def write_input_def pw_nonce_key_def list_ex_iff)
qed

lemma record_cases:
  assumes "record_write now allow envelope requestHash signature db = (db', out)"
  shows "(db' = db \<and> (\<forall>a. out = Inr a \<longrightarrow> aw_recordedReplay a \<and> allow \<and> readPublicWriteRequestByHash requestHash db \<noteq> None)) \<or>
    (\<exists>a. out = Inr a \<and> \<not> aw_recordedReplay a \<and> pw_appended a db db')"
proof (cases "insertPublicWriteRequest now (write_input envelope requestHash signature) db")
  case (Inr p)
  obtain db1 view where p: "p = (db1, view)" by (cases p)
  from insert_appends [OF Inr [unfolded p]] show ?thesis using assms Inr p by (auto simp: record_write_def)
next
  case (Inl e)
  then show ?thesis using assms by (cases e) (auto simp: record_write_def split: option.splits if_splits)
qed

lemma authenticate_cases:
  assumes "authenticateSignedPublicWriteRequestBody cr clock now expected envelope signature seen db = (db', out)"
  shows "(db' = db \<and> (\<forall>a. out = Inr a \<longrightarrow> aw_recordedReplay a)) \<or> (\<exists>a. out = Inr a \<and> \<not> aw_recordedReplay a \<and> pw_appended a db db')"
  using assms record_cases [of now "replay_allowed expected envelope" envelope _ signature db db' out]
  by (auto simp: authenticateSignedPublicWriteRequestBody_def Let_def split: if_splits sum.splits option.splits)

lemma pw_exec_cases:
  assumes "pw_exec cr c db = (db', a)"
  shows "pw_updated db db' \<and> (\<forall>x. a = Some x \<longrightarrow> aw_recordedReplay x) \<or> (\<exists>x. a = Some x \<and> \<not> aw_recordedReplay x \<and> pw_appended x db db')"
proof (cases c)
  case (Authenticate clock now expected envelope signature seen)
  obtain db1 out where e: "authenticateSignedPublicWriteRequestBody cr clock now expected envelope signature seen db = (db1, out)"
    by fastforce
  from authenticate_cases [OF this] show ?thesis using assms Authenticate e by (cases out) auto
qed (use assms pw_calls_update in auto)

section \<open>Every request is recorded once\<close>

definition nonce_of :: "authenticated_write \<Rightarrow> public_write_action \<times> string \<times> string" where
  "nonce_of a = (pe_actionType (aw_envelope a), js_lower (pe_actorAddress (aw_envelope a)), pe_requestNonce (aw_envelope a))"

definition fresh_writes :: "authenticated_write list \<Rightarrow> authenticated_write list" where
  "fresh_writes as = filter (\<lambda>a. \<not> aw_recordedReplay a) as"

text \<open>What a run records anew was not there, and is not recorded twice.\<close>

definition recorded_once :: "(int \<times> string \<times> public_write_action \<times> string \<times> string) list \<Rightarrow> authenticated_write list \<Rightarrow> bool" where
  "recorded_once ids as \<longleftrightarrow>
     distinct (map (\<lambda>(i, h, n). show_int i) ids @ map aw_acceptedRequestId as) \<and>
     distinct (map (\<lambda>(i, h, n). h) ids @ map aw_requestHash as) \<and> distinct (map (\<lambda>(i, h, n). n) ids @ map nonce_of as)"

lemma distinct_show_ids: "distinct (map (\<lambda>r. show_int (pw_requestId r)) rows) \<longleftrightarrow> distinct (map pw_requestId rows)"
  by (induction rows) auto

lemma pw_inv_iff:
  "pw_inv db \<longleftrightarrow> recorded_once (map pw_identity (pd_rows db)) [] \<and> (\<forall>i \<in> fst ` set (map pw_identity (pd_rows db)). i < pd_next db)"
  by (auto simp: pw_inv_def recorded_once_def pw_identity_def comp_def image_image distinct_show_ids)

lemma pw_inv_updated: "pw_updated db db' \<Longrightarrow> pw_inv db \<Longrightarrow> pw_inv db'"
  by (simp add: pw_inv_iff pw_updated_def)

lemma pw_appended_identity:
  assumes "pw_appended a db db'" "pw_inv db"
  shows "pw_inv db' \<and> (\<exists>i. map pw_identity (pd_rows db') = map pw_identity (pd_rows db) @ [(i, aw_requestHash a, nonce_of a)] \<and>
    aw_acceptedRequestId a = show_int i)"
proof -
  obtain r where r: "pd_rows db' = pd_rows db @ [r]" "pd_next db' = pd_next db + 1" "pw_requestId r = pd_next db"
      "aw_acceptedRequestId a = show_int (pw_requestId r)" "aw_requestHash a = pw_requestHash r" "pw_nonce_key r = nonce_of a"
      "\<forall>q \<in> set (pd_rows db). pw_requestHash q \<noteq> pw_requestHash r \<and> pw_nonce_key q \<noteq> pw_nonce_key r"
    using assms(1) by (auto simp: pw_appended_def nonce_of_def)
  have "pw_inv db'"
    using assms(2) r by (auto simp: pw_inv_def)
  then show ?thesis using r by (simp add: pw_identity_def)
qed

lemma run_recorded_once:
  assumes "pw_inv db"
  shows "recorded_once (map pw_identity (pd_rows db)) (fresh_writes (snd (pw_run cr calls db)))"
  using assms
proof (induction calls arbitrary: db)
  case Nil
  then show ?case by (simp add: pw_inv_iff fresh_writes_def)
next
  case (Cons c calls)
  obtain db' a where e: "pw_exec cr c db = (db', a)" by fastforce
  define rest where "rest = fresh_writes (snd (pw_run cr calls db'))"
  have s: "fresh_writes (snd (pw_run cr (c # calls) db)) =
      (case a of Some x \<Rightarrow> if aw_recordedReplay x then rest else x # rest | None \<Rightarrow> rest)"
    by (simp add: e rest_def fresh_writes_def case_prod_unfold Let_def split: option.split)
  from pw_exec_cases [OF e] show ?case
  proof
    assume u: "pw_updated db db' \<and> (\<forall>x. a = Some x \<longrightarrow> aw_recordedReplay x)"
    then have "fresh_writes (snd (pw_run cr (c # calls) db)) = rest" using s by (auto split: option.splits)
    then show ?case using Cons.IH [OF pw_inv_updated, of db db'] u Cons.prems by (simp add: rest_def pw_updated_def)
  next
    assume "\<exists>x. a = Some x \<and> \<not> aw_recordedReplay x \<and> pw_appended x db db'"
    then obtain x where x: "a = Some x" "\<not> aw_recordedReplay x" "pw_appended x db db'" by blast
    from pw_appended_identity [OF x(3) Cons.prems] obtain i where i: "pw_inv db'"
      "map pw_identity (pd_rows db') = map pw_identity (pd_rows db) @ [(i, aw_requestHash x, nonce_of x)]"
      "aw_acceptedRequestId x = show_int i" by blast
    have "recorded_once (map pw_identity (pd_rows db')) rest" using Cons.IH [OF i(1)] by (simp add: rest_def)
    then have "recorded_once (map pw_identity (pd_rows db)) (x # rest)"
      by (simp add: recorded_once_def i)
    then show ?case using s x by simp
  qed
qed

text \<open>
  C5: replay protection of the signed public writes. In every run from an empty table, with
  authentications of any envelopes interleaved with updates and leases, and whatever each
  authentication saw of the table when it looked for replays, the requests that are recorded as fresh
  all have different hashes, different ids and different nonces of their actor and action.
\<close>

theorem public_write_recorded_once:
  "distinct (map aw_requestHash (fresh_writes (snd (pw_run cr calls public_write_empty)))) \<and>
   distinct (map aw_acceptedRequestId (fresh_writes (snd (pw_run cr calls public_write_empty)))) \<and>
   distinct (map nonce_of (fresh_writes (snd (pw_run cr calls public_write_empty))))"
  using run_recorded_once [of public_write_empty cr calls]
  by (simp add: pw_inv_def public_write_empty_def recorded_once_def)

section \<open>What an authenticated write is\<close>

definition authentic :: "crypto \<Rightarrow> int \<Rightarrow> public_write_expected \<Rightarrow> authenticated_write \<Rightarrow> bool" where
  "authentic cr clock expected a \<longleftrightarrow>
     (let e = aw_envelope a in
      aw_requestHash a = hashPublicWriteEnvelope (cr_sha256 cr) e \<and>
      (case cr_recover cr (aw_requestHash a) (aw_signature a) of Inl _ \<Rightarrow> False
       | Inr address \<Rightarrow> js_lower address = js_lower (pe_actorAddress e)) \<and>
      pe_actionType e \<in> set (px_actionTypes expected) \<and> pe_chainId e = px_chainId expected \<and>
      \<not> scope_refused (px_scopeKey expected) (px_scopeKeyValidator expected) (pe_scopeKey e) e \<and>
      (if aw_recordedReplay a then replay_allowed expected e
       else (case cr_date cr (pe_issuedAt e) of None \<Rightarrow> False | Some t \<Rightarrow> \<bar>clock - t\<bar> \<le> 15 * 60 * 1000)))"

definition recorded_with :: "authenticated_write \<Rightarrow> public_write_db \<Rightarrow> bool" where
  "recorded_with a db \<longleftrightarrow> list_ex (\<lambda>r. pw_requestHash r = aw_requestHash a) (pd_rows db)"

lemma readPublicWriteRequestByHash_recorded:
  "readPublicWriteRequestByHash h db = Some view \<Longrightarrow> list_ex (\<lambda>r. pw_requestHash r = h) (pd_rows db)"
  by (auto simp: readPublicWriteRequestByHash_def find_Some_iff list_ex_iff split: option.splits)

lemma insert_recorded:
  assumes "insertPublicWriteRequest now (write_input envelope requestHash signature) db = Inr (db', view)"
  shows "list_ex (\<lambda>r. pw_requestHash r = requestHash) (pd_rows db')"
  using assms by (auto simp: insertPublicWriteRequest_def Let_def pw_row_of_def write_input_def split: if_splits option.splits)

lemma verified_public_write:
  assumes "verified kind (verifyPublicWriteEnvelope sha256Hex verifyMessage envelope signature) = Inr (address, h)"
  shows "h = hashPublicWriteEnvelope sha256Hex envelope"
    "verifyMessage (hashPublicWriteEnvelope sha256Hex envelope) signature = Inr address"
    "js_lower address = js_lower (pe_actorAddress envelope)"
  using assms by (auto simp: verified_def verifyPublicWriteEnvelope_def check_signer_def Let_def split: sum.splits if_splits)

lemma record_write_cases:
  assumes "record_write now allowed envelope h signature db = (db', Inr a)"
  shows "aw_envelope a = envelope \<and> aw_requestHash a = h \<and> aw_signature a = signature \<and>
    (if aw_recordedReplay a then allowed else True) \<and> recorded_with a db'"
  using assms
  by (auto simp: record_write_def recorded_with_def split: sum.splits request_error.splits option.splits if_splits
      dest: insert_recorded readPublicWriteRequestByHash_recorded)

lemma check_age_ok:
  "check_age cr clock issuedAt m m' = Inr u \<Longrightarrow> \<exists>t. cr_date cr issuedAt = Some t \<and> \<bar>clock - t\<bar> \<le> 15 * 60 * 1000"
  by (auto simp: check_age_def max_age_ms_def split: option.splits if_splits)

text \<open>
  C6: a public write is authentic. When the authentication accepts a write, the hash is that of the
  envelope, the address recovered from the signature over this hash is the actor's (up to case), the
  action, the chain and the scope are the ones the route expects, and the hash is recorded, in the
  table as it is left or, for a replay, as it was seen. What is recorded as fresh was issued within
  fifteen minutes of the clock, and a replay is accepted only where the route allows it.
\<close>

theorem public_write_authentic:
  assumes "authenticateSignedPublicWriteRequestBody cr clock now expected envelope signature seen db = (db', Inr a)"
  shows "aw_envelope a = envelope \<and> aw_signature a = signature \<and> authentic cr clock expected a \<and>
    (if aw_recordedReplay a then recorded_with a seen \<or> recorded_with a db' else recorded_with a db')"
proof -
  obtain address h where v: "verified ''public write'' (verifyPublicWriteEnvelope (cr_sha256 cr) (cr_recover cr) envelope signature) = Inr (address, h)"
    and e: "pe_actionType envelope \<in> set (px_actionTypes expected)" "pe_chainId envelope = px_chainId expected"
      "\<not> scope_refused (px_scopeKey expected) (px_scopeKeyValidator expected) (pe_scopeKey envelope) envelope"
    using assms by (auto simp: authenticateSignedPublicWriteRequestBody_def split: if_splits sum.splits)
  note h = verified_public_write [OF v]
  consider (replay) view where "replay_allowed expected envelope" "readPublicWriteRequestByHash h seen = Some view"
      "a = \<lparr>aw_acceptedRequestId = pv_requestId view, aw_envelope = envelope, aw_recordedReplay = True,
         aw_requestHash = h, aw_signature = signature\<rparr>"
    | (fresh) u where "check_age cr clock (pe_issuedAt envelope) ''invalid_public_write_issued_at'' ''public_write_request_expired'' = Inr u"
      "record_write now (replay_allowed expected envelope) envelope h signature db = (db', Inr a)"
    using assms v e by (auto simp: authenticateSignedPublicWriteRequestBody_def Let_def split: if_splits sum.splits option.splits)
  then show ?thesis
  proof cases
    case replay
    then show ?thesis
      using h e readPublicWriteRequestByHash_recorded [OF replay(2)] by (simp add: authentic_def recorded_with_def)
  next
    case fresh
    note r = record_write_cases [OF fresh(2)]
    obtain t where t: "cr_date cr (pe_issuedAt envelope) = Some t" "\<bar>clock - t\<bar> \<le> 15 * 60 * 1000"
      using check_age_ok [OF fresh(1)] by blast
    have "authentic cr clock expected a"
      using r h e t by (simp add: authentic_def Let_def split: if_splits)
    then show ?thesis using r by simp
  qed
qed

definition sample_crypto :: crypto where
  "sample_crypto = \<lparr>cr_sha256 = (\<lambda>s. s), cr_recover = (\<lambda>h s. Inr s), cr_date = (\<lambda>s. Some 0)\<rparr>"

definition sample_expected :: public_write_expected where
  "sample_expected = \<lparr>px_actionTypes = [Claim_create], px_allowRecordedReplay = False, px_replayActionTypes = [], px_chainId = 1,
     px_scopeKey = Some ''claim:7'', px_scopeKeyValidator = None\<rparr>"

definition sample_write :: authenticated_write where
  "sample_write = \<lparr>aw_acceptedRequestId = show_int 1, aw_envelope = sample_envelope, aw_recordedReplay = False,
     aw_requestHash = hashPublicWriteEnvelope (\<lambda>s. s) sample_envelope, aw_signature = ''0xa''\<rparr>"

definition sample_table :: public_write_db where
  "sample_table = \<lparr>pd_rows = [pw_row_of 5 1 (write_input sample_envelope (hashPublicWriteEnvelope (\<lambda>s. s) sample_envelope) ''0xa'')],
     pd_next = 2\<rparr>"

lemma sample_insert:
  "authenticateSignedPublicWriteRequestBody sample_crypto 900000 5 sample_expected sample_envelope ''0xa'' public_write_empty
     public_write_empty = (sample_table, Inr sample_write)"
proof -
  have l: "js_lower ''0xa'' = js_lower ''0xA''" by code_simp
  show ?thesis
    by (simp add: authenticateSignedPublicWriteRequestBody_def sample_crypto_def sample_expected_def scope_refused_def verified_def
        verifyPublicWriteEnvelope_def check_signer_def replay_allowed_def check_age_def max_age_ms_def record_write_def
        insertPublicWriteRequest_def public_write_empty_def readPublicWriteRequest_def pw_named_def public_write_view_of_def
        pw_row_of_def write_input_def sample_write_def sample_table_def sample_envelope_def l Let_def)
qed

theorem public_write_authentic_witness:
  "authentic sample_crypto 900000 sample_expected sample_write \<and> recorded_with sample_write sample_table"
  using public_write_authentic [OF sample_insert] by (simp add: sample_write_def)

section \<open>An execution lease is exclusive\<close>

definition leased :: "string \<Rightarrow> int \<Rightarrow> string \<Rightarrow> public_write_db \<Rightarrow> bool" where
  "leased owner until requestId db \<longleftrightarrow>
     list_ex (\<lambda>r. pw_named requestId r \<and> pw_leaseOwner r = Some owner \<and> pw_leaseExpiresAt r = Some until) (pd_rows db)"

text \<open>What others may do, and the owner short of renewing or releasing, until the lease expires.\<close>

fun leaves_lease :: "string \<Rightarrow> int \<Rightarrow> string \<Rightarrow> pw_call \<Rightarrow> bool" where
  "leaves_lease owner until requestId (Reserve now leaseMs w i) \<longleftrightarrow> i \<noteq> requestId \<or> now < until"
| "leaves_lease owner until requestId (Renew now leaseMs w i) \<longleftrightarrow> i \<noteq> requestId \<or> w \<noteq> owner"
| "leaves_lease owner until requestId (Release now w i) \<longleftrightarrow> i \<noteq> requestId \<or> w \<noteq> owner"
| "leaves_lease owner until requestId c \<longleftrightarrow> True"

lemma leased_update_where:
  assumes "leased owner until requestId db"
    and "\<And>r. pw_named requestId r \<Longrightarrow> pw_leaseOwner r = Some owner \<Longrightarrow> pw_leaseExpiresAt r = Some until \<Longrightarrow> p r \<Longrightarrow>
      pw_named requestId (f r) \<and> pw_leaseOwner (f r) = Some owner \<and> pw_leaseExpiresAt (f r) = Some until"
  shows "leased owner until requestId (db\<lparr>pd_rows := update_where p f (pd_rows db)\<rparr>)"
  using assms by (auto simp: leased_def list_ex_iff set_update_where)

lemma pw_named_set [simp]:
  "pw_named requestId (r\<lparr>pw_status := st\<rparr>) = pw_named requestId r"
  "pw_named requestId (r\<lparr>pw_outcomeDetail := d\<rparr>) = pw_named requestId r"
  "pw_named requestId (r\<lparr>pw_updatedAt := t\<rparr>) = pw_named requestId r"
  "pw_named requestId (r\<lparr>pw_leaseOwner := w\<rparr>) = pw_named requestId r"
  "pw_named requestId (r\<lparr>pw_leaseExpiresAt := e\<rparr>) = pw_named requestId r"
  by (simp_all add: pw_named_def)

lemma leased_step:
  assumes "leased owner until requestId db" "leaves_lease owner until requestId c"
  shows "leased owner until requestId (fst (pw_exec cr c db))"
proof (cases c)
  case (Authenticate clock now expected envelope signature seen)
  obtain db1 out where e: "authenticateSignedPublicWriteRequestBody cr clock now expected envelope signature seen db = (db1, out)"
    by fastforce
  from authenticate_cases [OF this] show ?thesis
    using assms(1) Authenticate e by (cases out) (auto simp: leased_def pw_appended_def)
next
  case Reserve
  then show ?thesis using assms
    by (auto simp: reservePublicWriteRequestExecution_def pw_update_lease_def pw_free_def pw_named_def intro!: leased_update_where)
next
  case Renew
  then show ?thesis using assms
    by (auto simp: renewPublicWriteRequestExecution_def pw_update_lease_def pw_held_def pw_named_def intro!: leased_update_where)
next
  case Release
  then show ?thesis using assms
    by (auto simp: releasePublicWriteRequestExecution_def pw_named_def intro!: leased_update_where)
qed (use assms in \<open>auto simp: markPublicWriteRequestAccepted_def markPublicWriteRequestPending_def
      markPublicWriteRequestRejected_def pw_read_back_def pw_mark_def pw_set_status_def intro!: leased_update_where\<close>)

lemma pw_inv_step:
  assumes "pw_inv db" shows "pw_inv (fst (pw_exec cr c db))"
proof -
  obtain db' a where e: "pw_exec cr c db = (db', a)" by fastforce
  from pw_exec_cases [OF e] show ?thesis
    using assms pw_inv_updated pw_appended_identity e by (metis fst_conv)
qed

lemma pw_run_state: "fst (pw_run cr (c # cs) db) = fst (pw_run cr cs (fst (pw_exec cr c db)))"
  by (simp add: Let_def case_prod_unfold)

lemma pw_inv_run: "pw_inv db \<Longrightarrow> pw_inv (fst (pw_run cr calls db))"
  by (induction calls arbitrary: db) (simp_all only: pw_run_state pw_inv_step pw_run.simps(1) fst_conv)

lemma leased_run:
  "leased owner until requestId db \<Longrightarrow> list_all (leaves_lease owner until requestId) calls \<Longrightarrow>
   leased owner until requestId (fst (pw_run cr calls db))"
  by (induction calls arbitrary: db) (simp_all only: pw_run_state leased_step pw_run.simps(1) fst_conv list.pred_inject)

lemma leased_row:
  assumes "pw_inv db" "leased owner until requestId db"
  shows "\<exists>r. filter (pw_named requestId) (pd_rows db) = [r] \<and> pw_leaseOwner r = Some owner \<and> pw_leaseExpiresAt r = Some until"
proof -
  obtain r where r: "r \<in> set (pd_rows db)" "pw_named requestId r" "pw_leaseOwner r = Some owner" "pw_leaseExpiresAt r = Some until"
    using assms(2) by (auto simp: leased_def list_ex_iff)
  obtain before after where s: "pd_rows db = before @ r # after" using split_list [OF r(1)] by blast
  have "\<not> pw_named requestId q" if "q \<in> set before \<union> set after" for q
  proof
    assume "pw_named requestId q"
    then have "show_int (pw_requestId q) = show_int (pw_requestId r)" using r(2) by (simp add: pw_named_def)
    then have "pw_requestId q = pw_requestId r" by simp
    moreover have "pw_requestId r \<notin> pw_requestId ` (set before \<union> set after)"
      using assms(1) s by (auto simp: pw_inv_def)
    ultimately show False using that by (metis imageI)
  qed
  then show ?thesis using r s by (auto simp: filter_empty_conv)
qed

lemma row_count_one:
  assumes "filter p rows = [r]" shows "row_count (\<lambda>x. p x \<and> q x) rows = (if q r then 1 else 0)"
proof -
  have "filter (\<lambda>x. p x \<and> q x) rows = filter q (filter p rows)" by (simp add: conj_commute)
  then show ?thesis by (simp add: row_count_def assms)
qed

lemma reserve_leased:
  assumes "reservePublicWriteRequestExecution now leaseMs owner requestId db = (db', True)"
  shows "leased owner (now + leaseMs) requestId db'"
proof -
  have "filter (\<lambda>r. pw_named requestId r \<and> pw_free now r) (pd_rows db) \<noteq> []"
    using assms by (auto simp: reservePublicWriteRequestExecution_def pw_update_lease_def row_count_def)
  then obtain r where r: "r \<in> set (pd_rows db)" "pw_named requestId r" "pw_free now r" by (auto simp: filter_empty_conv)
  define r' where "r' = r\<lparr>pw_leaseOwner := Some owner, pw_leaseExpiresAt := Some (now + leaseMs), pw_updatedAt := now\<rparr>"
  have "r' \<in> set (pd_rows db')"
    using assms r unfolding reservePublicWriteRequestExecution_def pw_update_lease_def r'_def
    by (auto simp: set_update_where intro!: rev_image_eqI [of r])
  then show ?thesis using r(2) unfolding leased_def list_ex_iff
    by (intro bexI [of _ r']) (simp_all add: r'_def pw_named_def)
qed

text \<open>
  C7: an execution lease is exclusive. After any run, when a worker has reserved a request's execution,
  then for as long as the lease has not expired, and whatever the other workers do and the owner does
  short of renewing or releasing the lease, no further reservation of the request succeeds, the
  owner's checks of its lease pass and the checks of every other worker fail.
\<close>

theorem execution_lease_exclusive:
  assumes "reservePublicWriteRequestExecution now leaseMs owner requestId (fst (pw_run cr earlier public_write_empty)) = (db, True)"
    and "list_all (leaves_lease owner (now + leaseMs) requestId) calls" and "later < now + leaseMs"
  shows "\<not> snd (reservePublicWriteRequestExecution later leaseMs' other requestId (fst (pw_run cr calls db))) \<and>
    assertPublicWriteRequestExecution later other requestId (fst (pw_run cr calls db)) =
      (if other = owner then Inr () else Inl Lease_lost)"
proof -
  have "pw_inv (fst (pw_run cr earlier public_write_empty))"
    by (rule pw_inv_run) (simp add: pw_inv_def public_write_empty_def)
  then have "pw_inv db"
    using pw_inv_step [of _ cr "Reserve now leaseMs owner requestId"] assms(1) by (metis fst_conv pw_exec.simps(5))
  then obtain r where r: "filter (pw_named requestId) (pd_rows (fst (pw_run cr calls db))) = [r]"
      "pw_leaseOwner r = Some owner" "pw_leaseExpiresAt r = Some (now + leaseMs)"
    using leased_row [OF pw_inv_run leased_run [OF reserve_leased [OF assms(1)] assms(2)]] by blast
  show ?thesis
    using assms(3) r(2,3)
    by (auto simp: reservePublicWriteRequestExecution_def assertPublicWriteRequestExecution_def pw_update_lease_def
        row_count_one [OF r(1)] pw_free_def pw_held_def)
qed

theorem execution_lease_exclusive_witness:
  "\<exists>db. \<not> snd (reservePublicWriteRequestExecution 20 60 ''b'' (show_int 1)
        (fst (pw_run sample_crypto [Reserve 15 60 ''b'' (show_int 1), Release 16 ''b'' (show_int 1)] db))) \<and>
    assertPublicWriteRequestExecution 20 ''a'' (show_int 1)
      (fst (pw_run sample_crypto [Reserve 15 60 ''b'' (show_int 1), Release 16 ''b'' (show_int 1)] db)) = Inr ()"
proof -
  let ?run = "[Authenticate 900000 5 sample_expected sample_envelope ''0xa'' public_write_empty]"
  have run: "fst (pw_run sample_crypto ?run public_write_empty) = sample_table" by (simp add: sample_insert)
  obtain db where db: "reservePublicWriteRequestExecution 10 60 ''a'' (show_int 1)
      (fst (pw_run sample_crypto ?run public_write_empty)) = (db, True)"
    unfolding run by (auto simp: reservePublicWriteRequestExecution_def pw_update_lease_def row_count_def sample_table_def
        pw_row_of_def pw_named_def pw_free_def)
  note f = execution_lease_exclusive [OF db, of "[Reserve 15 60 ''b'' (show_int 1), Release 16 ''b'' (show_int 1)]" 20]
  show ?thesis using f [of 60 "''b''"] f [of 60 "''a''"] by (intro exI [of _ db]) simp
qed

end
