(* ===== verification/Spec2Isabelle.thy ===== *)
theory Spec2Isabelle
  imports Work_Selection Reward_Pressure Reward_Candidates Reward_Settlement
    Work_Reaper Review_Worker Read_Integrity Read_Queries Reputation Rate_Window
    Outbound_Fetch Operator_Requests Request_Facts
begin

text \<open>
  Scientific Protocol: the off-chain services of a registry of scientific claims. Agents review,
  replicate and maintain claims; the services decide which work is open, who may take it, what the
  collected evidence amounts to, and how reward pools are split. This development models the
  decision logic of these services, file by file, and proves what makes it correct.

  \<^bold>\<open>How the parts interact.\<close> The coordinator store (\<open>src/coordinator/store.ts\<close>) keeps the queues of
  replication jobs and artifact maintenance tasks with their runs (leases); the review layer
  (\<open>src/review\<close>) keeps the queue of review tasks with their runs and submissions. For a claim, \<open>src/work/graph.ts\<close> turns all of
  them into work items: \<open>orchestration.ts\<close> counts runs and contributions against the policy of
  \<open>policy.ts\<close>, \<open>routing.ts\<close> gives a priority, \<open>scheduling.ts\<close> decides whether the scheduler hands the
  item out, \<open>selection.ts\<close> orders what is handed out. \<open>src/review/calibration.ts\<close> weighs reviewers
  by their past accuracy and \<open>src/review/aggregation.ts\<close> turns submissions into the review vector
  and the certifications of a claim. \<open>src/rewards/policy.ts\<close> reads the work graph, the forecasts
  and the challenges of a claim and splits its reward pools over completed work. The indexer
  (\<open>src/indexer\<close>) projects the events of the contracts into the read model that all of them read.

  \<^bold>\<open>Theories.\<close>
  \<^item> \<open>Prelude\<close>, \<open>Js_Number\<close>, \<open>Js_String\<close>, \<open>Js_Date\<close>: the JavaScript the sources use. Insertion-ordered
    maps and sets, the stable sort with the \<open>comparator\<close> locale (totality, transitivity, stability),
    binary64 numbers as exact rationals with a rounding function \<open>fl\<close>, \<open>Math.round\<close>, string
    trimming, casing and \<open>localeCompare\<close>, ISO dates.
  \<^item> \<open>View_Types\<close>, \<open>Work_Types\<close>: the record types of \<open>shared/read-model.ts\<close>, \<open>review/types.ts\<close>,
    \<open>coordinator/store.ts\<close> and \<open>work/types.ts\<close>, field by field.
  \<^item> \<open>Work_Policy\<close>, \<open>Work_Orchestration\<close>, \<open>Work_Routing\<close>, \<open>Work_Scheduling\<close>, \<open>Work_Selection\<close>: one
    theory per file of \<open>src/work\<close>. Lemmas: run accounting, slots within the policy maximum, no
    starvation, priorities, synthesis last, a lawful selection order.
  \<^item> \<open>Work_Items\<close>, \<open>Work_Graph\<close>, \<open>Work_Graph_Facts\<close>: \<open>work/graph.ts\<close>; the composition of the
    above for a whole claim or source record, with the same guarantees for the graph.
  \<^item> \<open>Tables\<close>, \<open>Lease_Spec\<close>: rows and \<open>UPDATE ... WHERE\<close>; the abstract lease machine with its
    invariant (a task is assigned exactly when one run of it is running) and the locale
    \<open>lease_store\<close>, the contract of a queue.
  \<^item> \<open>Maintenance_Store\<close>, \<open>Replication_Store\<close>: the transactions of \<open>coordinator/store.ts\<close> on their
    two tables each; both interpret \<open>lease_store\<close>, which transfers the invariant of the abstract
    machine to every state they reach.
  \<^item> \<open>Pagination\<close>: \<open>shared/pagination.ts\<close>, the page reader of \<open>api/read-payloads.ts\<close> and the page
    query of \<open>coordinator/store.ts\<close>; the locale \<open>paged_rows\<close> is what a reader needs of a paged query,
    and it shows that both readers end with all rows. The loops are \<open>partial_function\<close>s: returning
    is proved, not assumed.
  \<^item> \<open>Coordinator_Reads\<close>: the queries of \<open>coordinator/store.ts\<close> on the two queues.
  \<^item> \<open>Review_Rows\<close>, \<open>Review_Store\<close>, \<open>Review_Queue\<close>: \<open>review/store.ts\<close>; the rows with their normalisers
    and the round trip through the JSON columns, the transactions, and the queue as a step relation
    with its invariant (consensus policy, unique open tasks) and the runs that escape the sweep.
  \<^item> \<open>Review_Evaluate\<close>, \<open>Review_Worker\<close>: \<open>review/evaluate.ts\<close>, \<open>review/worker.ts\<close> and
    \<open>review/workflow.ts\<close>; the deterministic reviewer and the worker around it, which settles every
    lease it takes.
  \<^item> \<open>Work_Reads\<close>, \<open>Work_Reaper\<close>: the payloads of the work graphs in \<open>api/read-payloads.ts\<close> and
    \<open>work/reaper.ts\<close>, the composition of the three queues: what the graph offers can be claimed, what
    is leased is shown as leased, and what is abandoned is offered again.
  \<^item> \<open>Calibration\<close>, \<open>Review_Scores\<close>, \<open>Review_State\<close>: \<open>review/calibration.ts\<close> and the scores,
    estimates and certifications of \<open>review/aggregation.ts\<close>.
  \<^item> \<open>Outcomes\<close>: fallible code as sums; the locales \<open>checked_step\<close> and \<open>steady_step\<close>, a write that
    checks its keys and then changes a table, with what a loop of such writes commits.
  \<^item> \<open>Read_Model\<close>, \<open>Read_Model_Facts\<close>, \<open>Read_Queries\<close>: \<open>indexer/store.ts\<close>; the tables of the read
    model with their keys and references, the writes, and the queries with their filters and pages.
  \<^item> \<open>Projector\<close>, \<open>Chunk\<close>, \<open>Sync\<close>: \<open>indexer/projector.ts\<close>; event queries with retries, the
    transaction of a chunk of blocks, and the run from the cursor to the confirmed head.
    \<open>Chunk_Facts\<close> (each write interprets a locale of \<open>Outcomes\<close>), \<open>Chunk_Replay\<close> (a chunk applied
    twice; a chunk that is never applied), \<open>Read_Integrity\<close> (an invariant of every reachable read
    model) and \<open>Chunk_Samples\<close> (concrete inputs) are about them.
  \<^item> \<open>Settings\<close>, \<open>Js_Digits\<close>: \<open>shared/secrets.ts\<close>, \<open>shared/cli.ts\<close>, \<open>shared/numbers.ts\<close>, and the
    printing and reading of decimal numbers.
  \<^item> \<open>Reputation\<close>: \<open>reputation/engine.ts\<close> and \<open>reputation/store.ts\<close>; the leaderboard of a domain, its
    scores as sums (the locale \<open>tally\<close>), and reading it back.
  \<^item> \<open>Rate_Limit\<close>, \<open>Rate_Window\<close>: \<open>api/rate-limit.ts\<close>; both backends interpret the locale \<open>limiter\<close>, an
    abstract counter per key, so that they answer alike and share its bounds.
  \<^item> \<open>Outbound_Address\<close>, \<open>Outbound_Classes\<close>, \<open>Outbound_Fetch\<close>: \<open>shared/outbound-request.ts\<close>; address
    text and its classes, destinations, pinned lookups, bounded bodies and the redirect loop. The URL
    parser, the DNS and the transport are arguments, which answer anew at every hop.
  \<^item> \<open>Request_Envelopes\<close>, \<open>Envelope_Facts\<close>: the envelopes of \<open>shared/public-write-envelope.ts\<close>,
    \<open>shared/agent-request-envelope.ts\<close> and \<open>shared/operator-requests.ts\<close>, the text that is hashed and
    signed, and that it determines the request. \<open>Requests\<close>, \<open>Operator_Requests\<close>: the request tables,
    execution leases and operator nonces. \<open>Request_Auth\<close>, \<open>Request_Facts\<close>: the authentication of
    \<open>api/auth.ts\<close> and runs of it interleaved with the updates of the table.
  \<^item> \<open>Reward_Targets\<close>, \<open>Reward_Discounts\<close>, \<open>Reward_Pressure\<close>: \<open>rewards/policy.ts\<close>; the split of a
    pool, the quality discounts, the demand and attention signals and their explanation.
  \<^item> \<open>Reward_Candidates\<close>, \<open>Reward_Settlement\<close>: the same file; which finished work is rewarded and with
    what quality, and the settlement run over all pools, with its solvency and idempotence.

  \<^bold>\<open>Conventions.\<close> Nullable values are options; \<open>bigint\<close> is \<open>int\<close> with truncating division;
  \<open>number\<close> is \<open>int\<close> where the code only adds, compares and multiplies integers far below \<open>2 ^ 53\<close>,
  and goes through \<open>fl\<close> wherever it divides or scales. The current time is an argument. A database
  transaction is one step; its rows are lists in insertion order, and \<open>FOR UPDATE SKIP LOCKED\<close> is
  the atomicity of that step. \<open>None\<close> is a rolled-back transaction or a rejected promise.

  \<^bold>\<open>Bounds.\<close> Rounding lemmas need quotients of integers below \<open>2 ^ 50\<close>; the averages therefore
  assume at most a million submissions, and the discounts qualities up to \<open>10 ^ 11\<close>, where the
  policy's are at most 20000. Sweeps report at most 200 runs, as in the code.

  \<^bold>\<open>Not modelled.\<close> Contracts, SQL text, migrations, HTTP routes, log decoding, storage
  providers, signature schemes and hash functions (arguments here), command lines and generated bindings: they are input/output or code
  outside the sources. The prose explanation of \<open>review/aggregation.ts\<close> (lines 644-1169) and its
  agent calibration view produce text for readers and are left out.
\<close>


end
